(* ===== verification/Prelude.thy ===== *)
theory Prelude
  imports Complex_Main "HOL-Library.Product_Lexorder" "HOL-Library.List_Lexorder"
begin

section \<open>Prelude: the Rust vocabulary of the development\<close>

text \<open>
  The generic vocabulary every component shares.

  \<^item> A Rust \<^verbatim>\<open>str\<close> is a list of Unicode scalar values (type \<open>ustr\<close>); its
    \<^verbatim>\<open>len()\<close> is \<open>utf8_len\<close>, its \<^verbatim>\<open>chars().count()\<close> is \<open>length\<close>. Closed vocabularies
    (states, operation names, error texts) are HOL strings; \<open>lit\<close> embeds them.
    An error text that interpolates values is kept as its template.
  \<^item> The Unicode tables behind \<^verbatim>\<open>str::to_lowercase\<close> are a parameter of type
    \<open>unicode\<close>; the algorithm around them, final sigma included, is modelled.
  \<^item> A fallible computation returns \<open>'e + 'a\<close>; \<open>try_then\<close> is the operator \<^verbatim>\<open>?\<close> followed
    by the rest of the function, \<open>ensure\<close> an early return guarded by a condition.
  \<^item> An \<^verbatim>\<open>i64\<close> is an \<open>int\<close>; \<open>is_i64\<close> is its range and the checked operations are
    written out where the source uses them.
  \<^item> \<^verbatim>\<open>sort_unstable(); dedup()\<close> is \<open>sort_dedup\<close>.
\<close>

named_theorems res_simps \<open>inversion rules for results\<close>
named_theorems plan_defs \<open>definitions of the planning functions\<close>

subsection \<open>Results\<close>

definition try_then :: "'e + 'a \<Rightarrow> ('a \<Rightarrow> 'e + 'b) \<Rightarrow> 'e + 'b" where
  "try_then m f = (case m of Inl e \<Rightarrow> Inl e | Inr x \<Rightarrow> f x)"

definition ensure :: "bool \<Rightarrow> 'e \<Rightarrow> 'e + unit" where
  "ensure b e = (if b then Inr () else Inl e)"

fun try_map :: "('a \<Rightarrow> 'e + 'b) \<Rightarrow> 'a list \<Rightarrow> 'e + 'b list" where
  "try_map f [] = Inr []"
| "try_map f (x # xs) = try_then (f x) (\<lambda>y. try_then (try_map f xs) (\<lambda>ys. Inr (y # ys)))"

definition ok_or :: "'a option \<Rightarrow> 'e \<Rightarrow> 'e + 'a" where
  "ok_or m e = (case m of None \<Rightarrow> Inl e | Some x \<Rightarrow> Inr x)"

lemma try_then_Inl [simp]: "try_then (Inl e) f = Inl e"
  by (simp add: try_then_def)

lemma try_then_Inr [simp]: "try_then (Inr x) f = f x"
  by (simp add: try_then_def)

lemma try_then_eq_Inr [res_simps]:
  "try_then m f = Inr y \<longleftrightarrow> (\<exists>x. m = Inr x \<and> f x = Inr y)"
  by (cases m) auto

lemma try_then_eq_Inl [res_simps]:
  "try_then m f = Inl e \<longleftrightarrow> m = Inl e \<or> (\<exists>x. m = Inr x \<and> f x = Inl e)"
  by (cases m) auto

lemma ensure_eq_Inr [res_simps]: "ensure b e = Inr u \<longleftrightarrow> b"
  by (simp add: ensure_def)

lemma ensure_eq_Inl [res_simps]: "ensure b e = Inl e' \<longleftrightarrow> \<not> b \<and> e' = e"
  by (auto simp: ensure_def)

lemma ensure_True [simp]: "ensure True e = Inr ()"
  by (simp add: ensure_def)

lemma ensure_False [simp]: "ensure False e = Inl e"
  by (simp add: ensure_def)

lemma ok_or_simps [simp]: "ok_or None e = Inl e" "ok_or (Some x) e = Inr x"
  by (simp_all add: ok_or_def)

lemma ok_or_eq_Inr [res_simps]: "ok_or m e = Inr x \<longleftrightarrow> m = Some x"
  by (cases m) auto

lemma ok_or_eq_Inl [res_simps]: "ok_or m e = Inl e' \<longleftrightarrow> m = None \<and> e' = e"
  by (cases m) auto

lemma try_map_eq_Inr: "try_map f xs = Inr ys \<longleftrightarrow> list_all2 (\<lambda>x y. f x = Inr y) xs ys"
  by (induction xs arbitrary: ys)
     (auto simp: res_simps list_all2_Cons1)

subsection \<open>Strings\<close>

type_synonym ustr = "nat list"

definition lit :: "string \<Rightarrow> ustr" where
  "lit s = map of_char s"

lemma lit_inject [simp]: "lit s = lit t \<longleftrightarrow> s = t"
  by (simp add: lit_def inj_map_eq_map inj_of_char)

definition utf8_char_len :: "nat \<Rightarrow> nat" where
  "utf8_char_len c = (if c < 128 then 1 else if c < 2048 then 2 else if c < 65536 then 3 else 4)"

definition utf8_len :: "ustr \<Rightarrow> nat" where
  "utf8_len s = sum_list (map utf8_char_len s)"

definition is_whitespace :: "nat \<Rightarrow> bool" where
  "is_whitespace c \<longleftrightarrow> (9 \<le> c \<and> c \<le> 13) \<or> c = 32 \<or> c = 133 \<or> c = 160 \<or> c = 5760
     \<or> (8192 \<le> c \<and> c \<le> 8202) \<or> c = 8232 \<or> c = 8233 \<or> c = 8239 \<or> c = 8287 \<or> c = 12288"

definition is_control :: "nat \<Rightarrow> bool" where
  "is_control c \<longleftrightarrow> c < 32 \<or> (127 \<le> c \<and> c \<le> 159)"

definition trim :: "ustr \<Rightarrow> ustr" where
  "trim s = rev (dropWhile is_whitespace (rev (dropWhile is_whitespace s)))"

text \<open>\<^verbatim>\<open>str::split(pattern)\<close>: the pieces between separators, empty pieces included.\<close>

fun split_on :: "(nat \<Rightarrow> bool) \<Rightarrow> ustr \<Rightarrow> ustr list" where
  "split_on p [] = [[]]"
| "split_on p (c # s) =
     (if p c then [] # split_on p s
      else (case split_on p s of [] \<Rightarrow> [[c]] | w # ws \<Rightarrow> (c # w) # ws))"

fun join_with :: "ustr \<Rightarrow> ustr list \<Rightarrow> ustr" where
  "join_with d [] = []"
| "join_with d [w] = w"
| "join_with d (w # v # ws) = w @ d @ join_with d (v # ws)"

definition starts_with :: "ustr \<Rightarrow> ustr \<Rightarrow> bool" where
  "starts_with s p \<longleftrightarrow> take (length p) s = p"

subsection \<open>Lowercasing\<close>

text \<open>
  \<^verbatim>\<open>str::to_lowercase\<close> maps every character through the Unicode table, but a capital
  sigma (931) becomes final sigma (962) where it ends a word, that is, where a cased
  letter precedes and none follows, case-ignorable characters skipped.
\<close>

record unicode =
  to_lower :: "nat \<Rightarrow> nat list"
  cased :: "nat \<Rightarrow> bool"
  case_ignorable :: "nat \<Rightarrow> bool"

definition next_cased :: "unicode \<Rightarrow> ustr \<Rightarrow> bool" where
  "next_cased u s = (case dropWhile (case_ignorable u) s of [] \<Rightarrow> False | c # _ \<Rightarrow> cased u c)"

fun lowercase_from :: "unicode \<Rightarrow> ustr \<Rightarrow> ustr \<Rightarrow> ustr" where
  "lowercase_from u before [] = []"
| "lowercase_from u before (c # s) =
     (if c = 931
      then (if next_cased u before \<and> \<not> next_cased u s then 962 else 963)
             # lowercase_from u (c # before) s
      else to_lower u c @ lowercase_from u (c # before) s)"

definition to_lowercase :: "unicode \<Rightarrow> ustr \<Rightarrow> ustr" where
  "to_lowercase u s = lowercase_from u [] s"

text \<open>What the code relies on of the tables: their images are fixed, and \<open>-\<close> is caseless.\<close>

definition lower_stable :: "unicode \<Rightarrow> nat \<Rightarrow> bool" where
  "lower_stable u c \<longleftrightarrow> c \<noteq> 931 \<and> to_lower u c = [c]"

definition unicode_ok :: "unicode \<Rightarrow> bool" where
  "unicode_ok u \<longleftrightarrow> (\<forall>c. c \<noteq> 931 \<longrightarrow> list_all (lower_stable u) (to_lower u c))
     \<and> lower_stable u 962 \<and> lower_stable u 963 \<and> lower_stable u 45"

definition ascii_unicode :: unicode where
  "ascii_unicode = \<lparr>to_lower = (\<lambda>c. if 65 \<le> c \<and> c \<le> 90 then [c + 32] else [c]),
     cased = (\<lambda>c. (65 \<le> c \<and> c \<le> 90) \<or> (97 \<le> c \<and> c \<le> 122)),
     case_ignorable = (\<lambda>c. c = 39 \<or> c = 46)\<rparr>"

lemma unicode_ok_ascii: "unicode_ok ascii_unicode"
  by (auto simp: unicode_ok_def ascii_unicode_def lower_stable_def)

lemma lowercase_from_stable:
  "unicode_ok u \<Longrightarrow> list_all (lower_stable u) (lowercase_from u before s)"
  by (induction u before s rule: lowercase_from.induct) (auto simp: unicode_ok_def)

lemma to_lowercase_stable: "unicode_ok u \<Longrightarrow> list_all (lower_stable u) (to_lowercase u s)"
  by (simp add: to_lowercase_def lowercase_from_stable)

lemma lowercase_from_id: "list_all (lower_stable u) s \<Longrightarrow> lowercase_from u before s = s"
  by (induction s arbitrary: before) (auto simp: lower_stable_def)

lemma to_lowercase_id: "list_all (lower_stable u) s \<Longrightarrow> to_lowercase u s = s"
  by (simp add: to_lowercase_def lowercase_from_id)

lemma to_lowercase_idem: "unicode_ok u \<Longrightarrow> to_lowercase u (to_lowercase u s) = to_lowercase u s"
  by (simp add: to_lowercase_id to_lowercase_stable)

subsection \<open>Splitting and joining\<close>

lemma split_on_nonempty [simp]: "split_on p s \<noteq> []"
  by (induction s) (auto split: list.splits)

lemma split_on_parts: "w \<in> set (split_on p s) \<Longrightarrow> c \<in> set w \<Longrightarrow> c \<in> set s \<and> \<not> p c"
proof (induction s arbitrary: w)
  case (Cons a s)
  then show ?case
    by (cases "split_on p s") (fastforce split: if_splits)+
qed simp

lemma split_on_clean: "\<forall>c\<in>set w. \<not> p c \<Longrightarrow> split_on p w = [w]"
  by (induction w) auto

lemma split_on_append:
  "\<forall>c\<in>set w. \<not> p c \<Longrightarrow> p d \<Longrightarrow> split_on p (w @ d # s) = w # split_on p s"
  by (induction w) auto

lemma set_join_with: "set (join_with d ws) \<subseteq> (\<Union>w\<in>set ws. set w) \<union> set d"
  by (induction d ws rule: join_with.induct) auto

lemma split_on_join:
  assumes "p d" and "ws \<noteq> []" and "\<forall>w\<in>set ws. \<forall>c\<in>set w. \<not> p c"
  shows "split_on p (join_with [d] ws) = ws"
  using assms(2,3)
proof (induction "[d]" ws rule: join_with.induct)
  case (3 w v ws)
  then show ?case using assms(1) by (simp add: split_on_append)
qed (simp_all add: split_on_clean)

subsection \<open>Sorted, deduplicated vectors\<close>

definition sort_dedup :: "'a::linorder list \<Rightarrow> 'a list" where
  "sort_dedup xs = remdups_adj (sort xs)"

lemma set_sort_dedup [simp]: "set (sort_dedup xs) = set xs"
  by (simp add: sort_dedup_def)

lemma sorted_sort_dedup [simp]: "sorted (sort_dedup xs)"
  by (simp add: sort_dedup_def sorted_remdups_adj)

lemma distinct_remdups_adj_sorted: "sorted xs \<Longrightarrow> distinct (remdups_adj xs)"
  by (induction xs rule: remdups_adj.induct) (auto simp: less_le)

lemma distinct_sort_dedup [simp]: "distinct (sort_dedup xs)"
  by (simp add: sort_dedup_def distinct_remdups_adj_sorted)

lemma sort_dedup_eq_iff: "sort_dedup xs = sort_dedup ys \<longleftrightarrow> set xs = set ys"
  by (metis distinct_sort_dedup set_sort_dedup sorted_distinct_set_unique sorted_sort_dedup)

lemma sort_dedup_id: "sorted xs \<Longrightarrow> distinct xs \<Longrightarrow> sort_dedup xs = xs"
  by (metis distinct_sort_dedup set_sort_dedup sorted_distinct_set_unique sorted_sort_dedup)

lemma sort_dedup_Nil_iff [simp]: "sort_dedup xs = [] \<longleftrightarrow> xs = []"
  by (metis set_empty set_sort_dedup)

lemma sort_dedup_idem [simp]: "sort_dedup (sort_dedup xs) = sort_dedup xs"
  by (simp add: sort_dedup_id)

lemma find_SomeD: "find p xs = Some x \<Longrightarrow> x \<in> set xs \<and> p x"
  by (auto simp: find_Some_iff)

subsection \<open>Machine integers\<close>

definition i64_min :: int where "i64_min = - 9223372036854775808"
definition i64_max :: int where "i64_max = 9223372036854775807"

definition is_i64 :: "int \<Rightarrow> bool" where
  "is_i64 x \<longleftrightarrow> i64_min \<le> x \<and> x \<le> i64_max"

definition checked_i64 :: "int \<Rightarrow> int option" where
  "checked_i64 x = (if is_i64 x then Some x else None)"

lemma checked_i64_eq_Some [simp]: "checked_i64 x = Some y \<longleftrightarrow> is_i64 x \<and> y = x"
  by (auto simp: checked_i64_def)

end
