(* ===== verification/Json.thy ===== *)
theory Json
  imports Prelude "HOL-Library.Word"
begin

section \<open>JSON values and JSONB equality\<close>

text \<open>
  \<^verbatim>\<open>serde_json::Value\<close> as the claim ledger uses it, and the two equalities of the code:
  \<^verbatim>\<open>==\<close> on values and the database-compatible \<^verbatim>\<open>jsonb_values_equal\<close> of
  \<^verbatim>\<open>ledger/conflict.rs\<close>, which compares numbers by their decimal value.

  A number is a \<^verbatim>\<open>u64\<close>, a negative \<^verbatim>\<open>i64\<close> (a word read by \<open>sint\<close>) or a finite \<^verbatim>\<open>f64\<close> (its 64 bits). The
  decimal rendering of an \<^verbatim>\<open>f64\<close> belongs to a third-party crate and is the parameter
  \<open>fmt\<close>. An object is a \<^verbatim>\<open>BTreeMap\<close>: an association list with strictly ascending keys
  (\<open>wf_json\<close>).
\<close>

type_synonym f64 = "64 word"

type_synonym u64 = "64 word"

datatype number = PosInt u64 | NegInt u64 | Float f64

datatype json =
    JNull
  | JBool bool
  | JNumber number
  | JString ustr
  | JArray "json list"
  | JObject "(ustr \<times> json) list"

subsection \<open>Rendering and normalizing numbers\<close>

fun digit_char :: "nat \<Rightarrow> char" where
  "digit_char d = char_of (48 + d)"

fun show_nat :: "nat \<Rightarrow> string" where
  "show_nat n = (if n < 10 then [digit_char n] else show_nat (n div 10) @ [digit_char (n mod 10)])"

declare show_nat.simps [simp del]

definition show_int :: "int \<Rightarrow> string" where
  "show_int i = (if i < 0 then CHR ''-'' # show_nat (nat (- i)) else show_nat (nat i))"

fun render_number :: "(f64 \<Rightarrow> string) \<Rightarrow> number \<Rightarrow> string" where
  "render_number fmt (PosInt n) = show_nat (unat n)"
| "render_number fmt (NegInt i) = show_int (sint i)"
| "render_number fmt (Float b) = fmt b"

definition is_digit :: "char \<Rightarrow> bool" where
  "is_digit c \<longleftrightarrow> 48 \<le> (of_char c :: nat) \<and> (of_char c :: nat) \<le> 57"

definition digit_value :: "char \<Rightarrow> nat" where
  "digit_value c = of_char c - 48"

definition digits_value :: "string \<Rightarrow> nat" where
  "digits_value ds = foldl (\<lambda>n c. 10 * n + digit_value c) 0 ds"

definition split_once :: "(char \<Rightarrow> bool) \<Rightarrow> string \<Rightarrow> (string \<times> string) option" where
  "split_once p s =
     (case dropWhile (\<lambda>c. \<not> p c) s of [] \<Rightarrow> None | _ # r \<Rightarrow> Some (takeWhile (\<lambda>c. \<not> p c) s, r))"

text \<open>\<^verbatim>\<open>str::parse::<i64>()\<close>: an optional sign, at least one digit, no overflow.\<close>

definition parse_i64 :: "string \<Rightarrow> int option" where
  "parse_i64 s =
     (let (neg, ds) = (case s of [] \<Rightarrow> (False, []) | c # r \<Rightarrow>
                         if c = CHR ''-'' then (True, r) else if c = CHR ''+'' then (False, r)
                         else (False, s))
      in if ds = [] \<or> \<not> list_all is_digit ds then None
         else checked_i64 (if neg then - int (digits_value ds) else int (digits_value ds)))"

definition split_sign :: "string \<Rightarrow> bool \<times> string" where
  "split_sign s = (case s of [] \<Rightarrow> (False, []) | c # r \<Rightarrow> if c = CHR ''-'' then (True, r) else (False, s))"

definition split_exponent :: "string \<Rightarrow> (string \<times> int) option" where
  "split_exponent s =
     (case split_once (\<lambda>c. c = CHR ''e'' \<or> c = CHR ''E'') s of
        None \<Rightarrow> Some (s, 0)
      | Some (m, e) \<Rightarrow> map_option (Pair m) (parse_i64 e))"

definition split_fraction :: "string \<Rightarrow> string \<times> string" where
  "split_fraction m = (case split_once (\<lambda>c. c = CHR ''.'') m of None \<Rightarrow> (m, []) | Some parts \<Rightarrow> parts)"

text \<open>The loop that pops trailing zeros; it works on the reversed digits.\<close>

fun pop_zeros :: "string \<Rightarrow> int \<Rightarrow> (string \<times> int) option" where
  "pop_zeros [] e = Some ([], e)"
| "pop_zeros (c # cs) e =
     (if c = CHR ''0''
      then (case checked_i64 (e + 1) of None \<Rightarrow> None | Some e' \<Rightarrow> pop_zeros cs e')
      else Some (c # cs, e))"

definition normalize_rendered :: "string \<Rightarrow> (bool \<times> string \<times> int) option" where
  "normalize_rendered rendered =
     (let (negative, unsigned) = split_sign rendered in
      case split_exponent unsigned of None \<Rightarrow> None | Some (mantissa, explicit_exponent) \<Rightarrow>
      (let (whole, fraction) = split_fraction mantissa in
       if whole = [] \<or> \<not> list_all is_digit whole \<or> \<not> list_all is_digit fraction then None
       else case checked_i64 (explicit_exponent - int (length fraction)) of None \<Rightarrow> None
       | Some exponent \<Rightarrow>
         (let digits = dropWhile (\<lambda>c. c = CHR ''0'') (whole @ fraction) in
          if digits = [] then Some (False, ''0'', 0)
          else map_option (\<lambda>(ds, e). (negative, rev ds, e)) (pop_zeros (rev digits) exponent))))"

definition normalized_json_number :: "(f64 \<Rightarrow> string) \<Rightarrow> number \<Rightarrow> (bool \<times> string \<times> int) option" where
  "normalized_json_number fmt n = normalize_rendered (render_number fmt n)"

subsection \<open>The two equalities\<close>

definition f64_is_zero :: "f64 \<Rightarrow> bool" where
  "f64_is_zero b \<longleftrightarrow> b = 0 \<or> b = 0x8000000000000000"

text \<open>\<^verbatim>\<open>Number == Number\<close>: variant by variant; the floats of a JSON number are finite.\<close>

fun number_eq :: "number \<Rightarrow> number \<Rightarrow> bool" where
  "number_eq (PosInt a) (PosInt b) = (a = b)"
| "number_eq (NegInt a) (NegInt b) = (a = b)"
| "number_eq (Float a) (Float b) = (a = b \<or> (f64_is_zero a \<and> f64_is_zero b))"
| "number_eq _ _ = False"

definition jsonb_number_eq :: "(f64 \<Rightarrow> string) \<Rightarrow> number \<Rightarrow> number \<Rightarrow> bool" where
  "jsonb_number_eq fmt a b =
     (case (normalized_json_number fmt a, normalized_json_number fmt b) of
        (Some x, Some y) \<Rightarrow> x = y
      | _ \<Rightarrow> number_eq a b)"

lemma size_snd_member: "(k, v) \<in> set kvs \<Longrightarrow> size v < Suc (size_list (size_prod f size) kvs)"
  by (induction kvs) auto

text \<open>
  Structural comparison of two values, numbers compared by \<open>ne\<close>: arrays elementwise,
  objects by length and by looking every left key up on the right.
\<close>

function json_eq_by :: "(number \<Rightarrow> number \<Rightarrow> bool) \<Rightarrow> json \<Rightarrow> json \<Rightarrow> bool" where
  "json_eq_by ne l r =
     (case (l, r) of
        (JNumber a, JNumber b) \<Rightarrow> ne a b
      | (JArray xs, JArray ys) \<Rightarrow>
          length xs = length ys \<and> list_all (\<lambda>(x, y). json_eq_by ne x y) (zip xs ys)
      | (JObject xs, JObject ys) \<Rightarrow>
          length xs = length ys \<and>
          list_all (\<lambda>(k, x). case map_of ys k of None \<Rightarrow> False | Some y \<Rightarrow> json_eq_by ne x y) xs
      | (JNull, JNull) \<Rightarrow> True
      | (JBool a, JBool b) \<Rightarrow> a = b
      | (JString a, JString b) \<Rightarrow> a = b
      | _ \<Rightarrow> False)"
  by pat_completeness auto
termination
  by (relation "measure (\<lambda>(ne, l, r). size l)")
     (auto dest!: set_zip_leftD dest: size_snd_member simp: size_list_estimation' less_Suc_eq_le)

declare json_eq_by.simps [simp del]

definition jsonb_values_equal :: "(f64 \<Rightarrow> string) \<Rightarrow> json \<Rightarrow> json \<Rightarrow> bool" where
  "jsonb_values_equal fmt = json_eq_by (jsonb_number_eq fmt)"

definition json_eq :: "json \<Rightarrow> json \<Rightarrow> bool" where
  "json_eq = json_eq_by number_eq"

subsection \<open>Well-formed values, construction and canonicalisation\<close>

function wf_json :: "json \<Rightarrow> bool" where
  "wf_json v =
     (case v of
        JArray xs \<Rightarrow> list_all wf_json xs
      | JObject kvs \<Rightarrow> sorted_wrt (<) (map fst kvs) \<and> list_all (\<lambda>(k, x). wf_json x) kvs
      | _ \<Rightarrow> True)"
  by pat_completeness auto
termination
  by (relation "measure size") (auto dest: size_snd_member simp: size_list_estimation' less_Suc_eq_le)

declare wf_json.simps [simp del]

lemma wf_json_simps [simp]:
  "wf_json JNull" "wf_json (JBool b)" "wf_json (JNumber n)" "wf_json (JString s)"
  "wf_json (JArray xs) \<longleftrightarrow> (\<forall>x\<in>set xs. wf_json x)"
  "wf_json (JObject kvs) \<longleftrightarrow> sorted_wrt (<) (map fst kvs) \<and> (\<forall>(k, x)\<in>set kvs. wf_json x)"
  by (subst wf_json.simps, simp add: list_all_iff)+

fun btree_insert :: "ustr \<Rightarrow> json \<Rightarrow> (ustr \<times> json) list \<Rightarrow> (ustr \<times> json) list" where
  "btree_insert k v [] = [(k, v)]"
| "btree_insert k v ((k', v') # m) =
     (if k < k' then (k, v) # (k', v') # m
      else if k = k' then (k, v) # m
      else (k', v') # btree_insert k v m)"

definition btree_collect :: "(ustr \<times> json) list \<Rightarrow> (ustr \<times> json) list" where
  "btree_collect kvs = foldl (\<lambda>m (k, v). btree_insert k v m) [] kvs"

function canonical_json :: "json \<Rightarrow> json" where
  "canonical_json v =
     (case v of
        JObject kvs \<Rightarrow> JObject (btree_collect (map (\<lambda>(k, x). (k, canonical_json x)) kvs))
      | JArray xs \<Rightarrow> JArray (map canonical_json xs)
      | other \<Rightarrow> other)"
  by pat_completeness auto
termination
  by (relation "measure size") (auto dest: size_snd_member simp: size_list_estimation' less_Suc_eq_le)

declare canonical_json.simps [simp del]

lemma canonical_json_simps [simp]:
  "canonical_json JNull = JNull" "canonical_json (JBool b) = JBool b"
  "canonical_json (JNumber n) = JNumber n" "canonical_json (JString s) = JString s"
  "canonical_json (JArray xs) = JArray (map canonical_json xs)"
  "canonical_json (JObject kvs) = JObject (btree_collect (map (\<lambda>(k, x). (k, canonical_json x)) kvs))"
  by (subst canonical_json.simps, simp)+

text \<open>The shapes \<^verbatim>\<open>json!\<close> builds, and the accessors the ledger reads them with.\<close>

definition jint :: "int \<Rightarrow> json" where
  "jint i = JNumber (if i < 0 then NegInt (word_of_int i) else PosInt (word_of_int i))"

definition jstr :: "string \<Rightarrow> json" where
  "jstr s = JString (lit s)"

definition jopt :: "('a \<Rightarrow> json) \<Rightarrow> 'a option \<Rightarrow> json" where
  "jopt f m = (case m of None \<Rightarrow> JNull | Some x \<Rightarrow> f x)"

definition jobj :: "(string \<times> json) list \<Rightarrow> json" where
  "jobj kvs = JObject (btree_collect (map (\<lambda>(k, v). (lit k, v)) kvs))"

definition jpair :: "int \<times> int \<Rightarrow> json" where
  "jpair p = JArray [jint (fst p), jint (snd p)]"

fun as_array :: "json \<Rightarrow> json list option" where
  "as_array (JArray xs) = Some xs"
| "as_array _ = None"

fun as_i64 :: "json \<Rightarrow> int option" where
  "as_i64 (JNumber (PosInt n)) = (if uint n \<le> i64_max then Some (uint n) else None)"
| "as_i64 (JNumber (NegInt i)) = Some (sint i)"
| "as_i64 _ = None"

fun json_get :: "json \<Rightarrow> string \<Rightarrow> json option" where
  "json_get (JObject kvs) k = map_of kvs (lit k)"
| "json_get _ k = None"

lemma as_i64_jint [simp]: "is_i64 i \<Longrightarrow> as_i64 (jint i) = Some i"
  by (auto simp: jint_def is_i64_def i64_min_def i64_max_def signed_of_int unsigned_of_int
        signed_take_bit_int_eq_self take_bit_int_eq_self)

lemma map_of_btree_insert: "map_of (btree_insert k v m) = (map_of m)(k \<mapsto> v)"
  by (induction m) auto

lemma set_btree_insert_keys: "fst ` set (btree_insert k v m) = insert k (fst ` set m)"
  by (simp add: map_of_btree_insert flip: dom_map_of_conv_image_fst)

lemma sorted_btree_insert:
  "sorted_wrt (<) (map fst m) \<Longrightarrow> sorted_wrt (<) (map fst (btree_insert k v m))"
proof (induction m)
  case (Cons p m)
  obtain k' v' where p: "p = (k', v')" by force
  have "\<forall>x\<in>fst ` set (btree_insert k v m). k' < x" if "k' < k"
    using Cons.prems that unfolding set_btree_insert_keys p by auto
  with Cons show ?case by (auto simp: p)
qed simp

lemma set_btree_insert: "set (btree_insert k v m) \<subseteq> insert (k, v) (set m)"
  by (induction m) (auto split: if_splits)

lemma btree_collect_snoc: "btree_collect (kvs @ [(k, v)]) = btree_insert k v (btree_collect kvs)"
  by (simp add: btree_collect_def)

lemma sorted_btree_collect [simp]: "sorted_wrt (<) (map fst (btree_collect kvs))"
proof (induction kvs rule: rev_induct)
  case (snoc p kvs)
  then show ?case by (cases p) (simp add: btree_collect_snoc sorted_btree_insert)
qed (simp add: btree_collect_def)

lemma set_btree_collect: "set (btree_collect kvs) \<subseteq> set kvs"
proof (induction kvs rule: rev_induct)
  case (snoc p kvs)
  obtain k v where "p = (k, v)" by force
  with snoc show ?case using set_btree_insert [of k v "btree_collect kvs"]
    by (auto simp: btree_collect_snoc)
qed (simp add: btree_collect_def)

lemma map_of_btree_collect: "map_of (btree_collect kvs) = map_of (rev kvs)"
proof (induction kvs rule: rev_induct)
  case (snoc p kvs)
  then show ?case by (cases p) (simp add: btree_collect_snoc map_of_btree_insert)
qed (simp add: btree_collect_def)

lemma strict_sorted_distinct: "sorted_wrt (<) (xs :: 'a::linorder list) \<Longrightarrow> distinct xs"
  by (simp add: strict_sorted_iff)

lemma map_of_sorted_unique:
  assumes "sorted_wrt (<) (map fst xs)" and "sorted_wrt (<) (map fst ys)" and "map_of xs = map_of ys"
  shows "xs = (ys :: (ustr \<times> json) list)"
proof -
  have "set xs = set ys"
    using assms by (metis map_of_inject_set strict_sorted_distinct)
  then have "map fst xs = map fst ys"
    using assms(1,2) by (metis list.set_map strict_sorted_equal)
  moreover have "map snd xs = map snd ys"
  proof (rule nth_equalityI)
    show len: "length (map snd xs) = length (map snd ys)"
      using \<open>map fst xs = map fst ys\<close> by (metis length_map)
    fix i assume "i < length (map snd xs)"
    then have i: "i < length xs" "i < length ys" using len by simp_all
    have "map_of xs (fst (xs ! i)) = Some (snd (xs ! i))"
      using i(1) assms(1) by (simp add: strict_sorted_distinct)
    moreover have "map_of ys (fst (ys ! i)) = Some (snd (ys ! i))"
      using i(2) assms(2) by (simp add: strict_sorted_distinct)
    moreover have "fst (xs ! i) = fst (ys ! i)"
      using \<open>map fst xs = map fst ys\<close> i by (metis nth_map)
    ultimately show "map snd xs ! i = map snd ys ! i"
      using assms(3) i by simp
  qed
  ultimately show ?thesis by (metis zip_map_fst_snd)
qed

lemma btree_collect_id:
  assumes "sorted_wrt (<) (map fst kvs)"
  shows "btree_collect kvs = kvs"
proof (rule map_of_sorted_unique)
  have "distinct (map fst kvs)" using assms by (rule strict_sorted_distinct)
  then show "map_of (btree_collect kvs) = map_of kvs"
    by (simp add: map_of_btree_collect map_of_inject_set rev_map [symmetric])
qed (use assms in simp_all)

end
