(* ===== verification/Canonical_Bytes.thy ===== *)
theory Canonical_Bytes
  imports Json
begin

section \<open>The canonical byte form of contracts\<close>

text \<open>
  \<^verbatim>\<open>memory_contracts/canonical.rs\<close>: the profile \<^verbatim>\<open>ostk-canonical-json-v1\<close>, a strict and bounded
  subset of RFC 8785. A byte is a \<open>nat\<close> below 256 and a Rust \<^verbatim>\<open>String\<close> a list of scalar values; a
  \<^verbatim>\<open>BTreeMap\<close> is an association list with strictly ascending keys. Two things belong to third-party
  crates and are parameters: Unicode normalisation \<open>nfc\<close>, and the JSON reader \<open>de\<close> that drives the
  strict visitor, taken as the syntax tree it walks (duplicate keys and member order included), or
  \<open>None\<close> where it rejects the bytes.
\<close>

type_synonym byte = nat

abbreviation "MAX_INPUT_BYTES \<equiv> (1048576::nat)"
abbreviation "MAX_OUTPUT_BYTES \<equiv> (1048576::nat)"
abbreviation "MAX_DEPTH \<equiv> (64::nat)"
abbreviation "MAX_NODES \<equiv> (100000::nat)"
abbreviation "MAX_COLLECTION_ELEMENTS \<equiv> (4096::nat)"
abbreviation "MAX_STRING_BYTES \<equiv> (65536::nat)"
abbreviation "MAX_CANONICAL_INTEGER \<equiv> (9007199254740991::int)"

datatype contract_error =
    InputTooLarge nat | OutputTooLarge nat | DepthLimit nat | NodeLimit nat | CollectionLimit nat
  | StringTooLong nat | InvalidJson string | DuplicateKey ustr | FloatingPointForbidden
  | IntegerOutOfRange | NegativeZero | NonNfcString | ForbiddenUnicode | NotCanonical | Schema string
  | InvalidDigest | InvalidIdentifier ustr | NonCanonicalSet string | ManifestMismatch | ProfileMismatch
  | InvalidIdentityRecipe string | InvalidResourceLocator string | InvalidResourceUri | StaleRegistryHead
  | BootstrapPinMismatch | InvalidSignerPolicy string | BootstrapBindingMismatch | SignatureVerification
  | ApprovalThresholdNotMet | RepresentationCollision

datatype canonical_value =
    CNull
  | CBool bool
  | CInteger int
  | CString ustr
  | CArray "canonical_value list"
  | CObject "(ustr \<times> canonical_value) list"

text \<open>What the JSON reader hands to the visitor; a number outside the 64-bit integers is a float.\<close>

datatype raw_json =
    RNull
  | RBool bool
  | RInteger int
  | RFloat
  | RString ustr
  | RArray "raw_json list"
  | RObject "(ustr \<times> raw_json) list"

record canonical_document =
  doc_value :: canonical_value
  doc_bytes :: "byte list"

subsection \<open>Loops\<close>

fun try_fold :: "('b \<Rightarrow> 'a \<Rightarrow> 'e + 'b) \<Rightarrow> 'b \<Rightarrow> 'a list \<Rightarrow> 'e + 'b" where
  "try_fold f b [] = Inr b"
| "try_fold f b (x # xs) = try_then (f b x) (\<lambda>b'. try_fold f b' xs)"

lemma try_fold_cong [fundef_cong]:
  "\<lbrakk>xs = ys; b = c; \<And>b x. x \<in> set ys \<Longrightarrow> f b x = g b x\<rbrakk> \<Longrightarrow> try_fold f b xs = try_fold g c ys"
  by (induction xs arbitrary: ys b c) (auto simp: try_then_def split: sum.splits)

lemma size_member: "x \<in> set xs \<Longrightarrow> size x < Suc (size_list size xs)"
  by (simp add: less_Suc_eq_le size_list_estimation')

subsection \<open>Strings and integers\<close>

definition is_forbidden_scalar :: "nat \<Rightarrow> bool" where
  "is_forbidden_scalar c \<longleftrightarrow> is_control c \<or> (64976 \<le> c \<and> c \<le> 65007) \<or> c mod 65536 \<ge> 65534
     \<or> (57344 \<le> c \<and> c \<le> 63743) \<or> (983040 \<le> c \<and> c \<le> 1048573) \<or> (1048576 \<le> c \<and> c \<le> 1114109)"

definition validate_string :: "(ustr \<Rightarrow> ustr) \<Rightarrow> ustr \<Rightarrow> contract_error + unit" where
  "validate_string nfc s =
     (if utf8_len s > MAX_STRING_BYTES then Inl (StringTooLong MAX_STRING_BYTES)
      else if nfc s \<noteq> s then Inl NonNfcString
      else if list_ex is_forbidden_scalar s then Inl ForbiddenUnicode
      else Inr ())"

definition safe_integer :: "int \<Rightarrow> bool" where
  "safe_integer i \<longleftrightarrow> - MAX_CANONICAL_INTEGER \<le> i \<and> i \<le> MAX_CANONICAL_INTEGER"

definition encode_utf8 :: "nat \<Rightarrow> byte list" where
  "encode_utf8 c =
     (if c < 128 then [c]
      else if c < 2048 then [192 + c div 64, 128 + c mod 64]
      else if c < 65536 then [224 + c div 4096, 128 + c div 64 mod 64, 128 + c mod 64]
      else [240 + c div 262144, 128 + c div 4096 mod 64, 128 + c div 64 mod 64, 128 + c mod 64])"

definition hex_digit :: "nat \<Rightarrow> byte" where
  "hex_digit d = (if d < 10 then 48 + d else 87 + d)"

definition write_char :: "nat \<Rightarrow> byte list" where
  "write_char c =
     (if c = 34 then [92, 34]
      else if c = 92 then [92, 92]
      else if c = 8 then [92, 98]
      else if c = 9 then [92, 116]
      else if c = 10 then [92, 110]
      else if c = 12 then [92, 102]
      else if c = 13 then [92, 114]
      else if c \<le> 31 then [92, 117, 48, 48, hex_digit (c div 16), hex_digit (c mod 16)]
      else encode_utf8 c)"

definition write_string :: "ustr \<Rightarrow> byte list" where
  "write_string s = 34 # concat (map write_char s) @ [34]"

definition encode_utf16 :: "ustr \<Rightarrow> nat list" where
  "encode_utf16 s = concat (map (\<lambda>c. if c < 65536 then [c]
     else [55296 + (c - 65536) div 1024, 56320 + (c - 65536) mod 1024]) s)"

definition utf16_sorted :: "(ustr \<times> 'a) list \<Rightarrow> (ustr \<times> 'a) list" where
  "utf16_sorted entries = sort_key (\<lambda>e. encode_utf16 (fst e)) entries"

lemma set_utf16_sorted [simp]: "set (utf16_sorted entries) = set entries"
  by (simp add: utf16_sorted_def)

subsection \<open>Validation and emission\<close>

definition add_node :: "nat \<Rightarrow> contract_error + nat" where
  "add_node nodes = (if nodes + 1 > MAX_NODES then Inl (NodeLimit MAX_NODES) else Inr (nodes + 1))"

definition checked_child_depth :: "nat \<Rightarrow> contract_error + nat" where
  "checked_child_depth depth = (if depth + 1 > MAX_DEPTH then Inl (DepthLimit MAX_DEPTH) else Inr (depth + 1))"

function validate_value :: "(ustr \<Rightarrow> ustr) \<Rightarrow> canonical_value \<Rightarrow> nat \<Rightarrow> nat \<Rightarrow> contract_error + nat" where
  "validate_value nfc v depth nodes =
     try_then (add_node nodes) (\<lambda>nodes.
       if depth > MAX_DEPTH then Inl (DepthLimit MAX_DEPTH)
       else case v of
         CInteger i \<Rightarrow> if \<not> safe_integer i then Inl IntegerOutOfRange else Inr nodes
       | CString s \<Rightarrow> try_then (validate_string nfc s) (\<lambda>_. Inr nodes)
       | CArray xs \<Rightarrow>
           if length xs > MAX_COLLECTION_ELEMENTS then Inl (CollectionLimit MAX_COLLECTION_ELEMENTS)
           else try_then (checked_child_depth depth) (\<lambda>child.
             try_fold (\<lambda>n x. validate_value nfc x child n) nodes xs)
       | CObject kvs \<Rightarrow>
           if length kvs > MAX_COLLECTION_ELEMENTS then Inl (CollectionLimit MAX_COLLECTION_ELEMENTS)
           else try_then (checked_child_depth depth) (\<lambda>child.
             try_fold (\<lambda>n e. try_then (validate_string nfc (fst e)) (\<lambda>_. validate_value nfc (snd e) child n)) nodes kvs)
       | _ \<Rightarrow> Inr nodes)"
  by pat_completeness auto
termination
  by (relation "measure (\<lambda>(_, v, _). size v)") (auto dest: size_snd_member size_member)

declare validate_value.simps [simp del]

definition check_output :: "byte list \<Rightarrow> contract_error + byte list" where
  "check_output out = (if length out > MAX_OUTPUT_BYTES then Inl (OutputTooLarge MAX_OUTPUT_BYTES) else Inr out)"

text \<open>A loop's state is the index of the element and the output so far.\<close>

function write_value :: "canonical_value \<Rightarrow> byte list \<Rightarrow> contract_error + byte list" where
  "write_value v out =
     try_then (case v of
         CNull \<Rightarrow> Inr (out @ lit ''null'')
       | CBool True \<Rightarrow> Inr (out @ lit ''true'')
       | CBool False \<Rightarrow> Inr (out @ lit ''false'')
       | CInteger i \<Rightarrow> Inr (out @ lit (show_int i))
       | CString s \<Rightarrow> Inr (out @ write_string s)
       | CArray xs \<Rightarrow>
           try_then (try_fold (\<lambda>st x.
               try_then (write_value x (if fst st \<noteq> 0 then snd st @ [44] else snd st)) (\<lambda>out. Inr (fst st + 1, out)))
             (0::nat, out @ [91]) xs) (\<lambda>(_, out). Inr (out @ [93]))
       | CObject kvs \<Rightarrow>
           try_then (try_fold (\<lambda>st e.
               try_then (write_value (snd e) ((if fst st \<noteq> 0 then snd st @ [44] else snd st) @ write_string (fst e) @ [58]))
                 (\<lambda>out. Inr (fst st + 1, out)))
             (0::nat, out @ [123]) (utf16_sorted kvs)) (\<lambda>(_, out). Inr (out @ [125])))
       check_output"
  by pat_completeness auto
termination
  by (relation "measure (\<lambda>(v, _). size v)") (auto dest: size_snd_member size_member)

declare write_value.simps [simp del]

definition canonical_bytes :: "(ustr \<Rightarrow> ustr) \<Rightarrow> canonical_value \<Rightarrow> contract_error + byte list" where
  "canonical_bytes nfc v =
     try_then (validate_value nfc v 0 0) (\<lambda>_. try_then (write_value v []) check_output)"

subsection \<open>Strict parsing\<close>

text \<open>The visitor: depth and node count are its state; a map refuses a key it has already seen.\<close>

function strict_visit :: "(ustr \<Rightarrow> ustr) \<Rightarrow> raw_json \<Rightarrow> nat \<Rightarrow> nat \<Rightarrow> contract_error + (canonical_value \<times> nat)" where
  "strict_visit nfc r depth nodes =
     try_then (add_node nodes) (\<lambda>nodes.
       case r of
         RNull \<Rightarrow> Inr (CNull, nodes)
       | RBool b \<Rightarrow> Inr (CBool b, nodes)
       | RInteger i \<Rightarrow> if \<not> safe_integer i then Inl IntegerOutOfRange else Inr (CInteger i, nodes)
       | RFloat \<Rightarrow> Inl FloatingPointForbidden
       | RString s \<Rightarrow> try_then (validate_string nfc s) (\<lambda>_. Inr (CString s, nodes))
       | RArray rs \<Rightarrow>
           try_then (checked_child_depth depth) (\<lambda>child.
           try_then (try_fold (\<lambda>st r.
               try_then (strict_visit nfc r child (snd st)) (\<lambda>(v, n).
                 if length (fst st) \<ge> MAX_COLLECTION_ELEMENTS then Inl (CollectionLimit MAX_COLLECTION_ELEMENTS)
                 else Inr (fst st @ [v], n))) ([], nodes) rs) (\<lambda>(vs, n). Inr (CArray vs, n)))
       | RObject es \<Rightarrow>
           try_then (checked_child_depth depth) (\<lambda>child.
           try_then (try_fold (\<lambda>st e.
               try_then (validate_string nfc (fst e)) (\<lambda>_.
                 if length (fst st) \<ge> MAX_COLLECTION_ELEMENTS then Inl (CollectionLimit MAX_COLLECTION_ELEMENTS)
                 else if fst e \<in> fst ` set (fst st) then Inl (DuplicateKey (fst e))
                 else try_then (strict_visit nfc (snd e) child (snd st)) (\<lambda>(v, n).
                   Inr (insort_key fst (fst e, v) (fst st), n)))) ([], nodes) es) (\<lambda>(kvs, n). Inr (CObject kvs, n))))"
  by pat_completeness auto
termination
  by (relation "measure (\<lambda>(_, r, _). size r)") (auto dest: size_snd_member size_member)

declare strict_visit.simps [simp del]

definition is_ascii_digit :: "byte \<Rightarrow> bool" where
  "is_ascii_digit b \<longleftrightarrow> 48 \<le> b \<and> b \<le> 57"

definition decimal :: "byte list \<Rightarrow> nat" where
  "decimal ds = foldl (\<lambda>n d. 10 * n + (d - 48)) 0 ds"

text \<open>One number token: the digits at \<open>digits\<close>, the rest of the input after them.\<close>

definition number_token :: "bool \<Rightarrow> byte list \<Rightarrow> byte list \<Rightarrow> contract_error + unit" where
  "number_token negative digits rest =
     (if length digits > 1 \<and> hd digits = 48 then Inl (InvalidJson ''leading zero is forbidden'')
      else if rest \<noteq> [] \<and> hd rest \<in> {46, 101, 69} then Inl FloatingPointForbidden
      else if negative \<and> digits = [48] then Inl NegativeZero
      else let value = (if negative then - int (decimal digits) else int (decimal digits)) in
        if \<not> is_i64 value then Inl IntegerOutOfRange
        else if \<not> safe_integer value then Inl IntegerOutOfRange else Inr ())"

function lexemes_ok :: "byte list \<Rightarrow> bool \<Rightarrow> bool \<Rightarrow> contract_error + unit" where
  "lexemes_ok input in_string escaped =
     (case input of [] \<Rightarrow> Inr ()
      | b # rest \<Rightarrow>
        if in_string then
          (if escaped then lexemes_ok rest True False
           else if b = 92 then lexemes_ok rest True True
           else if b = 34 then lexemes_ok rest False False
           else lexemes_ok rest True False)
        else if b = 34 then lexemes_ok rest True escaped
        else if b = 45 then
          (if rest = [] \<or> \<not> is_ascii_digit (hd rest) then Inl (InvalidJson ''invalid number'')
           else try_then (number_token True (takeWhile is_ascii_digit rest) (dropWhile is_ascii_digit rest))
             (\<lambda>_. lexemes_ok (dropWhile is_ascii_digit rest) False escaped))
        else if is_ascii_digit b then
          try_then (number_token False (takeWhile is_ascii_digit (b # rest)) (dropWhile is_ascii_digit rest))
            (\<lambda>_. lexemes_ok (dropWhile is_ascii_digit rest) False escaped)
        else lexemes_ok rest False escaped)"
  by pat_completeness auto
termination
  by (relation "measure (\<lambda>(input, _). length input)") (auto simp: less_Suc_eq_le length_dropWhile_le)

declare lexemes_ok.simps [simp del]

definition validate_number_lexemes :: "byte list \<Rightarrow> contract_error + unit" where
  "validate_number_lexemes input = lexemes_ok input False False"

definition as_invalid_json :: "contract_error + 'a \<Rightarrow> contract_error + 'a" where
  "as_invalid_json r = (case r of Inl e \<Rightarrow> Inl (InvalidJson ''{error}'') | Inr x \<Rightarrow> Inr x)"

definition parse_strict :: "(ustr \<Rightarrow> ustr) \<Rightarrow> (byte list \<Rightarrow> raw_json option) \<Rightarrow> byte list
    \<Rightarrow> contract_error + canonical_document" where
  "parse_strict nfc de input =
     (if length input > MAX_INPUT_BYTES then Inl (InputTooLarge MAX_INPUT_BYTES)
      else if take 3 input = [239, 187, 191] then Inl (InvalidJson ''UTF-8 BOM is forbidden'')
      else try_then (validate_number_lexemes input) (\<lambda>_.
        try_then (ok_or (de input) (InvalidJson ''{error}'')) (\<lambda>raw.
        try_then (as_invalid_json (strict_visit nfc raw 0 0)) (\<lambda>(v, _).
        try_then (canonical_bytes nfc v) (\<lambda>bytes. Inr \<lparr>doc_value = v, doc_bytes = bytes\<rparr>)))))"

definition require_canonical :: "(ustr \<Rightarrow> ustr) \<Rightarrow> (byte list \<Rightarrow> raw_json option) \<Rightarrow> byte list
    \<Rightarrow> contract_error + canonical_document" where
  "require_canonical nfc de input =
     try_then (parse_strict nfc de input) (\<lambda>document.
       if doc_bytes document \<noteq> input then Inl NotCanonical else Inr document)"

text \<open>
  Typed schemas: \<open>from_slice\<close> decodes canonical bytes into the schema's type and \<open>to_vec\<close> serialises it;
  both are the schema's derived serde code and parameters here.
\<close>

definition decode_strict :: "(ustr \<Rightarrow> ustr) \<Rightarrow> (byte list \<Rightarrow> raw_json option) \<Rightarrow> (byte list \<Rightarrow> 'a option)
    \<Rightarrow> byte list \<Rightarrow> contract_error + 'a" where
  "decode_strict nfc de from_slice input =
     try_then (parse_strict nfc de input) (\<lambda>document. ok_or (from_slice (doc_bytes document)) (Schema ''{error}''))"

definition encode_canonical :: "(ustr \<Rightarrow> ustr) \<Rightarrow> (byte list \<Rightarrow> raw_json option) \<Rightarrow> ('a \<Rightarrow> byte list option)
    \<Rightarrow> 'a \<Rightarrow> contract_error + byte list" where
  "encode_canonical nfc de to_vec value =
     try_then (ok_or (to_vec value) (Schema ''{error}'')) (\<lambda>encoded.
       try_then (parse_strict nfc de encoded) (\<lambda>document. Inr (doc_bytes document)))"

definition decode_typed_canonical :: "(ustr \<Rightarrow> ustr) \<Rightarrow> (byte list \<Rightarrow> raw_json option)
    \<Rightarrow> (byte list \<Rightarrow> 'a option) \<Rightarrow> ('a \<Rightarrow> byte list option) \<Rightarrow> byte list \<Rightarrow> contract_error + 'a" where
  "decode_typed_canonical nfc de from_slice to_vec input =
     try_then (decode_strict nfc de from_slice input) (\<lambda>value.
       try_then (encode_canonical nfc de to_vec value) (\<lambda>bytes.
         if bytes \<noteq> input then Inl NotCanonical else Inr value))"

end
