(* ===== verification/Json_Laws.thy ===== *)
theory Json_Laws
  imports Json
begin

section \<open>Laws of JSON equality and of decimal normalization\<close>

text \<open>
  The laws the conflict detector needs of \<open>jsonb_values_equal\<close>: it is an equivalence on
  well-formed values as soon as the number comparison is one (locale
  \<open>number_equivalence\<close>), and the number comparison is equality of the denoted decimals.
\<close>

subsection \<open>Unfolding the comparison\<close>

lemma json_eq_by_array [simp]:
  "json_eq_by ne (JArray xs) (JArray ys) \<longleftrightarrow> list_all2 (json_eq_by ne) xs ys"
  by (subst json_eq_by.simps) (auto simp: list_all2_iff list_all_iff)

lemma json_eq_by_object:
  "json_eq_by ne (JObject xs) (JObject ys) \<longleftrightarrow>
     length xs = length ys \<and>
     (\<forall>(k, x)\<in>set xs. case map_of ys k of None \<Rightarrow> False | Some y \<Rightarrow> json_eq_by ne x y)"
  by (subst json_eq_by.simps) (auto simp: list_all_iff)

lemma json_eq_by_scalars [simp]:
  "json_eq_by ne JNull r \<longleftrightarrow> r = JNull"
  "json_eq_by ne (JBool a) r \<longleftrightarrow> r = JBool a"
  "json_eq_by ne (JString s) r \<longleftrightarrow> r = JString s"
  "json_eq_by ne (JNumber m) (JNumber n) \<longleftrightarrow> ne m n"
  by (auto simp: json_eq_by.simps [of ne JNull] json_eq_by.simps [of ne "JBool a"]
        json_eq_by.simps [of ne "JString s"] json_eq_by.simps [of ne "JNumber m"] split: json.splits)

lemma json_eq_by_cases:
  "json_eq_by ne (JNumber m) r \<Longrightarrow> \<exists>n. r = JNumber n"
  "json_eq_by ne (JArray xs) r \<Longrightarrow> \<exists>ys. r = JArray ys"
  "json_eq_by ne (JObject kvs) r \<Longrightarrow> \<exists>kvs'. r = JObject kvs'"
  by (subst (asm) json_eq_by.simps, simp split: json.splits)+

text \<open>On objects with distinct keys the comparison is pointwise over the same keys.\<close>

lemma json_eq_by_object_iff:
  assumes "distinct (map fst xs)" and "distinct (map fst ys)"
  shows "json_eq_by ne (JObject xs) (JObject ys) \<longleftrightarrow>
    dom (map_of xs) = dom (map_of ys) \<and>
    (\<forall>k x y. map_of xs k = Some x \<longrightarrow> map_of ys k = Some y \<longrightarrow> json_eq_by ne x y)"
    (is "?L \<longleftrightarrow> ?R")
proof
  assume L: ?L
  have "dom (map_of xs) \<subseteq> dom (map_of ys)"
    using L unfolding json_eq_by_object
    by (fastforce simp: dom_map_of_conv_image_fst split: option.splits dest: map_of_SomeD)
  moreover have "card (dom (map_of xs)) = card (dom (map_of ys))"
    using L assms unfolding json_eq_by_object dom_map_of_conv_image_fst
    by (metis distinct_card length_map list.set_map)
  ultimately have "dom (map_of xs) = dom (map_of ys)"
    by (simp add: card_subset_eq finite_dom_map_of)
  moreover have "json_eq_by ne x y" if "map_of xs k = Some x" "map_of ys k = Some y" for k x y
    using L map_of_SomeD [OF that(1)] that(2) unfolding json_eq_by_object by fastforce
  ultimately show ?R by blast
next
  assume R: ?R
  have "length xs = length ys"
    using R assms unfolding dom_map_of_conv_image_fst
    by (metis distinct_card length_map list.set_map)
  moreover have "case map_of ys k of None \<Rightarrow> False | Some y \<Rightarrow> json_eq_by ne x y"
    if "(k, x) \<in> set xs" for k x
  proof -
    have "map_of xs k = Some x" using that assms(1) by simp
    then obtain y where "map_of ys k = Some y" using R by blast
    with R \<open>map_of xs k = Some x\<close> show ?thesis by simp
  qed
  ultimately show ?L unfolding json_eq_by_object by blast
qed

lemma wf_object_distinct: "wf_json (JObject kvs) \<Longrightarrow> distinct (map fst kvs)"
  by (simp add: strict_sorted_distinct)

lemma wf_object_member: "wf_json (JObject kvs) \<Longrightarrow> map_of kvs k = Some x \<Longrightarrow> wf_json x"
  by (fastforce dest: map_of_SomeD)

subsection \<open>Equality of values from equality of numbers\<close>

locale number_equivalence =
  fixes ne :: "number \<Rightarrow> number \<Rightarrow> bool"
  assumes ne_refl: "ne m m"
    and ne_sym: "ne m n \<Longrightarrow> ne n m"
    and ne_trans: "ne l m \<Longrightarrow> ne m n \<Longrightarrow> ne l n"
begin

lemma json_refl: "wf_json v \<Longrightarrow> json_eq_by ne v v"
proof (induction v)
  case (JArray xs)
  then show ?case by (auto intro: list_all2_all_nthI)
next
  case (JObject kvs)
  note d = wf_object_distinct [OF JObject.prems]
  have "json_eq_by ne x x" if "map_of kvs k = Some x" for k x
    using JObject.IH [OF map_of_SomeD [OF that]] wf_object_member [OF JObject.prems that] by simp
  then show ?case unfolding json_eq_by_object_iff [OF d d] by auto
qed (simp_all add: ne_refl)

lemma json_sym: "wf_json v \<Longrightarrow> wf_json w \<Longrightarrow> json_eq_by ne v w \<Longrightarrow> json_eq_by ne w v"
proof (induction v arbitrary: w)
  case (JNumber m)
  then obtain n where "w = JNumber n" by (metis json_eq_by_cases(1))
  with JNumber show ?case by (auto intro: ne_sym)
next
  case (JArray xs)
  from json_eq_by_cases(2) [OF JArray.prems(3)] obtain ys where w: "w = JArray ys" by blast
  have "list_all2 (json_eq_by ne) ys xs"
    using JArray.prems JArray.IH unfolding w json_eq_by_array
    by (auto simp: list_all2_conv_all_nth)
  then show ?case by (simp add: w)
next
  case (JObject kvs)
  from json_eq_by_cases(3) [OF JObject.prems(3)] obtain kvs' where w: "w = JObject kvs'" by blast
  note d = wf_object_distinct [OF JObject.prems(1)] wf_object_distinct [OF JObject.prems(2) [unfolded w]]
  have "json_eq_by ne y x" if "map_of kvs k = Some x" "map_of kvs' k = Some y" for k x y
    using JObject.IH [OF map_of_SomeD [OF that(1)]] JObject.prems that
      wf_object_member [OF JObject.prems(1) that(1)]
      wf_object_member [OF JObject.prems(2) [unfolded w] that(2)]
    unfolding w json_eq_by_object_iff [OF d] by simp
  then show ?case
    using JObject.prems(3) unfolding w json_eq_by_object_iff [OF d] json_eq_by_object_iff [OF d(2,1)]
    by blast
qed auto

lemma json_trans:
  "wf_json u \<Longrightarrow> wf_json v \<Longrightarrow> wf_json w \<Longrightarrow> json_eq_by ne u v \<Longrightarrow> json_eq_by ne v w
   \<Longrightarrow> json_eq_by ne u w"
proof (induction u arbitrary: v w)
  case (JNumber m)
  then obtain n l where "v = JNumber n" "w = JNumber l" by (metis json_eq_by_cases(1))
  with JNumber show ?case by (auto intro: ne_trans)
next
  case (JArray xs)
  then obtain ys zs where vw: "v = JArray ys" "w = JArray zs" by (metis json_eq_by_cases(2))
  have "json_eq_by ne (xs ! i) (zs ! i)" if "i < length xs" for i
    using JArray.IH [of "xs ! i" "ys ! i" "zs ! i"] JArray.prems that
    unfolding vw json_eq_by_array by (auto simp: list_all2_conv_all_nth)
  then show ?case using JArray.prems unfolding vw by (auto simp: list_all2_conv_all_nth)
next
  case (JObject kvs)
  then obtain kv2 kv3 where vw: "v = JObject kv2" "w = JObject kv3" by (metis json_eq_by_cases(3))
  note p = JObject.prems [unfolded vw]
  note d = wf_object_distinct [OF p(1)] wf_object_distinct [OF p(2)] wf_object_distinct [OF p(3)]
  note e = p(4) [unfolded json_eq_by_object_iff [OF d(1,2)]] p(5) [unfolded json_eq_by_object_iff [OF d(2,3)]]
  have "json_eq_by ne x z" if xz: "map_of kvs k = Some x" "map_of kv3 k = Some z" for k x z
  proof -
    obtain y where y: "map_of kv2 k = Some y" using e(1) xz(1) by blast
    show ?thesis
      using JObject.IH [OF map_of_SomeD [OF xz(1)]] e xz y
        wf_object_member [OF p(1) xz(1)] wf_object_member [OF p(2) y] wf_object_member [OF p(3) xz(2)]
      by (metis snds.intros snd_conv)
  qed
  then show ?case using e unfolding vw json_eq_by_object_iff [OF d(1,3)] by blast
qed auto

end

interpretation serde: number_equivalence number_eq
proof
  fix l m n :: number
  show "number_eq m m" by (cases m) simp_all
  show "number_eq m n \<Longrightarrow> number_eq n m" by (cases m; cases n) auto
  show "number_eq l m \<Longrightarrow> number_eq m n \<Longrightarrow> number_eq l n" by (cases l; cases m; cases n) auto
qed

subsection \<open>Decimal normalization\<close>

text \<open>The decimal a rendered number denotes, and the one a normalized triple denotes.\<close>

definition rendered_value :: "string \<Rightarrow> rat" where
  "rendered_value s =
     (let (neg, u) = split_sign s;
          (m, e) = (case split_exponent u of None \<Rightarrow> (u, 0) | Some me \<Rightarrow> me);
          (w, f) = split_fraction m
      in (if neg then - 1 else 1)
           * (of_nat (digits_value w) + of_nat (digits_value f) / 10 ^ length f) * 10 powi e)"

fun decimal_value :: "bool \<times> string \<times> int \<Rightarrow> rat" where
  "decimal_value (neg, ds, e) = (if neg then - 1 else 1) * of_nat (digits_value ds) * 10 powi e"

fun canonical_decimal :: "bool \<times> string \<times> int \<Rightarrow> bool" where
  "canonical_decimal (neg, ds, e) \<longleftrightarrow>
     (neg, ds, e) = (False, ''0'', 0) \<or>
     (ds \<noteq> [] \<and> list_all is_digit ds \<and> hd ds \<noteq> CHR ''0'' \<and> last ds \<noteq> CHR ''0'')"

lemma digits_value_snoc: "digits_value (ds @ [c]) = 10 * digits_value ds + digit_value c"
  by (simp add: digits_value_def)

lemma digits_value_Nil [simp]: "digits_value [] = 0"
  by (simp add: digits_value_def)

lemma digits_value_append:
  "digits_value (xs @ ys) = digits_value xs * 10 ^ length ys + digits_value ys"
proof (induction ys rule: rev_induct)
  case (snoc y ys)
  then show ?case
    by (simp only: append_assoc [symmetric] digits_value_snoc) (simp add: algebra_simps)
qed simp

lemma digits_value_Cons: "digits_value (c # ds) = digit_value c * 10 ^ length ds + digits_value ds"
  using digits_value_append [of "[c]" ds] by (simp add: digits_value_def)

lemma digit_value_0 [simp]: "digit_value (CHR ''0'') = 0"
  by (simp add: digit_value_def)

lemma digit_value_bounds: "is_digit c \<Longrightarrow> digit_value c < 10"
  unfolding is_digit_def digit_value_def by arith

lemma is_digit_0 [simp]: "is_digit (CHR ''0'')"
  by (simp add: is_digit_def)

lemma digit_value_inject: "is_digit c \<Longrightarrow> is_digit d \<Longrightarrow> digit_value c = digit_value d \<Longrightarrow> c = d"
  by (metis digit_value_def is_digit_def eq_diff_iff of_char_eq_iff)

lemma digit_value_pos: "is_digit c \<Longrightarrow> c \<noteq> CHR ''0'' \<Longrightarrow> 0 < digit_value c"
  by (metis digit_value_0 digit_value_inject gr0I is_digit_0)

lemma digits_value_zeros: "digits_value (replicate k (CHR ''0'')) = 0"
  by (induction k) (simp_all add: digits_value_Cons)

lemma digits_value_dropWhile: "digits_value (dropWhile (\<lambda>c. c = CHR ''0'') ds) = digits_value ds"
proof -
  have "takeWhile (\<lambda>c. c = CHR ''0'') ds = replicate (length (takeWhile (\<lambda>c. c = CHR ''0'') ds)) (CHR ''0'')"
    by (rule replicate_eqI) (auto dest: set_takeWhileD)
  then have "digits_value (takeWhile (\<lambda>c. c = CHR ''0'') ds) = 0"
    by (metis digits_value_zeros)
  then show ?thesis
    by (metis add_0 digits_value_append mult_0 takeWhile_dropWhile_id)
qed

lemma pop_zeros_Some:
  "pop_zeros rs e = Some (rs', e') \<Longrightarrow>
   \<exists>k. rs = replicate k (CHR ''0'') @ rs' \<and> e' = e + int k \<and> (rs' = [] \<or> hd rs' \<noteq> CHR ''0'')"
proof (induction rs e rule: pop_zeros.induct)
  case (2 c cs e)
  show ?case
  proof (cases "c = CHR ''0''")
    case True
    with "2.prems" have i: "is_i64 (e + 1)" "pop_zeros cs (e + 1) = Some (rs', e')"
      by (auto split: option.splits)
    from "2.IH" [OF True _ i(2)] i(1) obtain k where
      "cs = replicate k (CHR ''0'') @ rs'" "e' = e + 1 + int k" "rs' = [] \<or> hd rs' \<noteq> CHR ''0''"
      by auto
    with True show ?thesis by (intro exI [of _ "Suc k"]) simp
  next
    case False
    with "2.prems" show ?thesis by (intro exI [of _ 0]) auto
  qed
qed simp

lemma digits_value_pos:
  "ds \<noteq> [] \<Longrightarrow> list_all is_digit ds \<Longrightarrow> hd ds \<noteq> CHR ''0'' \<Longrightarrow> 0 < digits_value ds"
proof (induction ds rule: rev_induct)
  case (snoc c ds)
  then show ?case
    by (cases "ds = []") (auto simp: digits_value_snoc digits_value_Cons digit_value_pos)
qed simp

lemma digits_value_mod:
  "ds \<noteq> [] \<Longrightarrow> list_all is_digit ds \<Longrightarrow> digits_value ds mod 10 = digit_value (last ds)"
  by (cases ds rule: rev_cases) (auto simp: digits_value_snoc digit_value_bounds)

lemma digits_value_inject:
  assumes "list_all is_digit xs" and "list_all is_digit ys"
    and "xs \<noteq> [] \<longrightarrow> hd xs \<noteq> CHR ''0''" and "ys \<noteq> [] \<longrightarrow> hd ys \<noteq> CHR ''0''"
    and "digits_value xs = digits_value ys"
  shows "xs = ys"
  using assms
proof (induction xs arbitrary: ys rule: rev_induct)
  case Nil
  then show ?case using digits_value_pos [of ys] by force
next
  case (snoc c xs)
  have "0 < digits_value (xs @ [c])"
    using snoc.prems by (intro digits_value_pos) simp_all
  then have "ys \<noteq> []" using snoc.prems(5) by (metis digits_value_Nil less_irrefl)
  then obtain zs d where ys: "ys = zs @ [d]" by (metis rev_exhaust)
  have "digit_value c = digits_value (xs @ [c]) mod 10"
    using snoc.prems(1) by (simp add: digits_value_mod)
  also have "\<dots> = digit_value d"
    using snoc.prems(2,5) by (simp add: digits_value_mod ys)
  finally have "digit_value c = digit_value d" .
  then have "c = d" using snoc.prems ys by (auto intro: digit_value_inject)
  moreover have "digits_value xs = digits_value zs"
    using snoc.prems(5) \<open>digit_value c = digit_value d\<close> unfolding ys digits_value_snoc by simp
  then have "xs = zs"
    using snoc.prems(1-4) unfolding ys
    by (intro snoc.IH) auto
  ultimately show ?case by (simp add: ys)
qed

lemma normalize_rendered_correct:
  assumes "normalize_rendered s = Some t"
  shows "canonical_decimal t \<and> decimal_value t = rendered_value s"
proof -
  obtain neg u where su: "split_sign s = (neg, u)" by force
  with assms obtain m ex where se: "split_exponent u = Some (m, ex)"
    by (auto simp: normalize_rendered_def split: option.splits)
  obtain w f where sf: "split_fraction m = (w, f)" by force
  define ds where "ds = dropWhile (\<lambda>c. c = CHR ''0'') (w @ f)"
  note defs = normalize_rendered_def su se sf ds_def [symmetric]
  have wf: "list_all is_digit w" "list_all is_digit f" "is_i64 (ex - int (length f))"
    using assms by (auto simp: defs split: if_splits option.splits)
  have val: "rendered_value s =
      (if neg then - 1 else 1) * of_nat (digits_value ds) * 10 powi (ex - int (length f))"
    by (simp add: rendered_value_def su se sf ds_def digits_value_dropWhile digits_value_append
          power_int_diff field_simps)
  have dsd: "list_all is_digit ds"
    using wf set_dropWhileD [of _ _ "w @ f"] by (fastforce simp: ds_def list_all_iff)
  have main: "(if ds = [] then Some (False, ''0'', 0)
      else map_option (\<lambda>(ds, e). (neg, rev ds, e)) (pop_zeros (rev ds) (ex - int (length f)))) = Some t"
    using assms wf by (simp add: normalize_rendered_def su se sf Let_def checked_i64_def
          ds_def del: dropWhile_eq_Nil_conv split: if_splits)
  show ?thesis
  proof (cases "ds = []")
    case True
    then have "t = (False, ''0'', 0)" using main by simp
    with True val show ?thesis by (simp add: digits_value_Cons)
  next
    case False
    with main obtain rs e where
      p: "pop_zeros (rev ds) (ex - int (length f)) = Some (rs, e)" and t: "t = (neg, rev rs, e)"
      by auto
    from pop_zeros_Some [OF p] obtain k where
      k: "rev ds = replicate k (CHR ''0'') @ rs" "e = ex - int (length f) + int k"
        "rs = [] \<or> hd rs \<noteq> CHR ''0''" by auto
    have ds: "ds = rev rs @ replicate k (CHR ''0'')"
      using k(1) by (metis rev_append rev_replicate rev_swap)
    have hd: "hd ds \<noteq> CHR ''0''" using hd_dropWhile [of "\<lambda>c. c = CHR ''0''" "w @ f"] False
      by (simp add: ds_def)
    have rs: "rs \<noteq> []" using hd False by (auto simp: ds)
    have "canonical_decimal t"
      using rs k(3) hd dsd by (auto simp: t ds last_rev hd_append)
    moreover have "decimal_value t = rendered_value s"
    proof -
      have "(10 :: rat) powi (ex - int (length f) + int k) = 10 powi (ex - int (length f)) * 10 ^ k"
        by (simp add: power_int_add)
      then show ?thesis
        using val by (simp add: t ds k(2) digits_value_append digits_value_zeros)
    qed
    ultimately show ?thesis by blast
  qed
qed

lemma scaled_inject:
  fixes a b :: nat and e d :: int
  assumes "a mod 10 \<noteq> 0" and "b mod 10 \<noteq> 0"
    and eq: "(of_nat a :: rat) * 10 powi e = of_nat b * 10 powi d"
  shows "a = b \<and> e = d"
proof -
  have aux: "e = d" if "e \<le> d" "x mod 10 \<noteq> 0" "(of_nat x :: rat) * 10 powi e = of_nat y * 10 powi d"
    for x y :: nat and e d :: int
  proof -
    define k where "k = nat (d - e)"
    have d: "d = e + int k" using that(1) by (simp add: k_def)
    have "(of_nat x :: rat) = of_nat (y * 10 ^ k)"
      using that(3) unfolding d by (simp add: power_int_add)
    then have "x = y * 10 ^ k" by (simp only: of_nat_eq_iff)
    then have "k = 0" using that(2) by (cases k) auto
    then show ?thesis using d by simp
  qed
  have "e = d"
    using aux [of e d a b] aux [of d e b a] assms by (cases "e \<le> d") auto
  with eq show ?thesis by simp
qed

lemma canonical_decimal_unique:
  assumes "canonical_decimal s" and "canonical_decimal t" and "decimal_value s = decimal_value t"
  shows "s = t"
proof -
  obtain n1 d1 e1 where s: "s = (n1, d1, e1)" by (cases s)
  obtain n2 d2 e2 where t: "t = (n2, d2, e2)" by (cases t)
  have pos: "0 < digits_value ds" if "canonical_decimal (n, ds, e)" "(n, ds, e) \<noteq> (False, ''0'', 0)" for n ds e
    using that digits_value_pos by auto
  have zero: "decimal_value (n, ds, e) = 0 \<longleftrightarrow> (n, ds, e) = (False, ''0'', 0)"
    if "canonical_decimal (n, ds, e)" for n ds e
    using pos [OF that] by (cases "(n, ds, e) = (False, ''0'', 0)") (auto simp: digits_value_Cons)
  have sgn: "decimal_value (n, ds, e) < 0 \<longleftrightarrow> n" if "canonical_decimal (n, ds, e)" for n ds e
    using pos [OF that] zero_less_power_int [of "10 :: rat" e]
    by (cases "(n, ds, e) = (False, ''0'', 0)") (auto simp: digits_value_Cons mult_less_0_iff simp del: zero_less_power_int)
  show ?thesis
  proof (cases "decimal_value s = 0")
    case True
    with zero assms show ?thesis unfolding s t by metis
  next
    case False
    then have nz: "(n1, d1, e1) \<noteq> (False, ''0'', 0)" "(n2, d2, e2) \<noteq> (False, ''0'', 0)"
      using zero assms unfolding s t by metis+
    have n: "n1 = n2" using sgn assms unfolding s t by metis
    have c: "d1 \<noteq> []" "list_all is_digit d1" "hd d1 \<noteq> CHR ''0''" "last d1 \<noteq> CHR ''0''"
        "d2 \<noteq> []" "list_all is_digit d2" "hd d2 \<noteq> CHR ''0''" "last d2 \<noteq> CHR ''0''"
      using assms(1,2) nz unfolding s t by auto
    have l: "is_digit (last d1)" "is_digit (last d2)"
      using c by (metis last_in_set list_all_iff)+
    have m: "digits_value d1 mod 10 \<noteq> 0" "digits_value d2 mod 10 \<noteq> 0"
      using c l digit_value_pos by (simp_all add: digits_value_mod)
    have "(of_nat (digits_value d1) :: rat) * 10 powi e1 = of_nat (digits_value d2) * 10 powi e2"
      using assms(3) n unfolding s t by (auto split: if_splits)
    from scaled_inject [OF m this] have "digits_value d1 = digits_value d2" "e1 = e2" by auto
    then show ?thesis using c n digits_value_inject [of d1 d2] by (simp add: s t)
  qed
qed

subsection \<open>Integers always normalize\<close>

lemma show_nat_digits: "list_all is_digit (show_nat n)"
proof (induction n rule: show_nat.induct)
  case (1 n)
  have "is_digit (digit_char d)" if "d < 10" for d
    using that by (simp add: is_digit_def of_char_mod_256)
  then show ?case using "1" by (subst show_nat.simps) simp
qed

lemma show_nat_nonempty [simp]: "show_nat n \<noteq> []"
  by (subst show_nat.simps) simp

lemma length_show_nat: "n < 10 ^ Suc k \<Longrightarrow> length (show_nat n) \<le> Suc k"
proof (induction k arbitrary: n)
  case 0
  then show ?case by (subst show_nat.simps) simp
next
  case (Suc k)
  then have "n div 10 < 10 ^ Suc k" by (simp add: less_mult_imp_div_less mult.commute)
  with Suc.IH show ?case by (subst show_nat.simps) simp
qed

lemma pop_zeros_total:
  "is_i64 e \<Longrightarrow> is_i64 (e + int (length rs)) \<Longrightarrow> pop_zeros rs e \<noteq> None"
  by (induction rs e rule: pop_zeros.induct) (auto simp: is_i64_def checked_i64_def split: option.splits)

lemma split_once_absent: "list_all (\<lambda>c. \<not> p c) s \<Longrightarrow> split_once p s = None"
  by (simp add: split_once_def list_all_iff dropWhile_eq_Nil_conv [THEN iffD2])

lemma digits_no_marks:
  assumes "list_all is_digit ds"
  shows "split_exponent ds = Some (ds, 0)" and "split_fraction ds = (ds, [])"
    and "ds \<noteq> [] \<Longrightarrow> split_sign ds = (False, ds)"
proof -
  have ne: "c \<noteq> CHR ''e'' \<and> c \<noteq> CHR ''E'' \<and> c \<noteq> CHR ''.'' \<and> c \<noteq> CHR ''-''" if "is_digit c" for c
    using that by (auto simp: is_digit_def)
  show "split_exponent ds = Some (ds, 0)"
    using assms ne by (simp add: split_exponent_def split_once_absent list_all_iff)
  show "split_fraction ds = (ds, [])"
    using assms ne by (simp add: split_fraction_def split_once_absent list_all_iff)
  show "split_sign ds = (False, ds)" if "ds \<noteq> []"
    using that assms ne by (cases ds) (auto simp: split_sign_def)
qed

lemma normalize_digits_total:
  assumes "list_all is_digit ds" and "ds \<noteq> []" and "length ds \<le> 20"
  shows "normalize_rendered ds \<noteq> None" and "normalize_rendered (CHR ''-'' # ds) \<noteq> None"
proof -
  have "length (dropWhile (\<lambda>c. c = CHR ''0'') ds) \<le> 20"
    using assms(3) length_dropWhile_le le_trans by blast
  then have "pop_zeros (rev (dropWhile (\<lambda>c. c = CHR ''0'') ds)) 0 \<noteq> None"
    by (intro pop_zeros_total) (simp_all add: is_i64_def i64_max_def i64_min_def)
  then show "normalize_rendered ds \<noteq> None" "normalize_rendered (CHR ''-'' # ds) \<noteq> None"
    using assms digits_no_marks [OF assms(1)]
    by (auto simp: normalize_rendered_def Let_def checked_i64_def is_i64_def i64_max_def i64_min_def
          split_sign_def)
qed

lemma integer_normalizes:
  "normalized_json_number fmt (PosInt w) \<noteq> None" "normalized_json_number fmt (NegInt w) \<noteq> None"
proof -
  have len: "length (show_nat n) \<le> 20" if "n < 2 ^ 64" for n
    using that length_show_nat [of n 19] by simp
  have "unat w < 2 ^ 64" using unsigned_less [of w] by simp
  moreover have "nat \<bar>sint w\<bar> < 2 ^ 64"
    using sint_ge [of w] sint_lt [of w] by simp
  ultimately show "normalized_json_number fmt (PosInt w) \<noteq> None"
      "normalized_json_number fmt (NegInt w) \<noteq> None"
    using len [of "unat w"] len [of "nat \<bar>sint w\<bar>"] normalize_digits_total show_nat_digits
    by (auto simp: normalized_json_number_def show_int_def)
qed

subsection \<open>JSONB equality\<close>

text \<open>
  What the code relies on of the float renderer: every finite float renders as a decimal
  literal whose exponent stays in range.
\<close>

definition renders_decimals :: "(f64 \<Rightarrow> string) \<Rightarrow> bool" where
  "renders_decimals fmt \<longleftrightarrow> (\<forall>b. normalize_rendered (fmt b) \<noteq> None)"

lemma number_normalizes: "renders_decimals fmt \<Longrightarrow> normalized_json_number fmt n \<noteq> None"
proof (cases n)
  case (Float b)
  then show "renders_decimals fmt \<Longrightarrow> ?thesis"
    by (simp add: normalized_json_number_def renders_decimals_def)
qed (simp_all only: integer_normalizes not_False_eq_True)

lemma jsonb_number_eq_value:
  assumes "renders_decimals fmt"
  shows "jsonb_number_eq fmt m n \<longleftrightarrow>
    rendered_value (render_number fmt m) = rendered_value (render_number fmt n)"
proof -
  obtain s t where st: "normalized_json_number fmt m = Some s" "normalized_json_number fmt n = Some t"
    using number_normalizes [OF assms] by blast
  have "canonical_decimal s" "canonical_decimal t"
      "decimal_value s = rendered_value (render_number fmt m)"
      "decimal_value t = rendered_value (render_number fmt n)"
    using st normalize_rendered_correct unfolding normalized_json_number_def by auto
  then show ?thesis
    using canonical_decimal_unique [of s t] by (auto simp: jsonb_number_eq_def st)
qed

lemma number_equivalence_jsonb:
  "renders_decimals fmt \<Longrightarrow> number_equivalence (jsonb_number_eq fmt)"
  by unfold_locales (simp_all add: jsonb_number_eq_value)

lemma jsonb_values_equal_refl:
  "renders_decimals fmt \<Longrightarrow> wf_json v \<Longrightarrow> jsonb_values_equal fmt v v"
  unfolding jsonb_values_equal_def
  by (rule number_equivalence.json_refl [OF number_equivalence_jsonb])

lemma jsonb_values_equal_sym:
  assumes "renders_decimals fmt" and "wf_json v" and "wf_json w"
  shows "jsonb_values_equal fmt v w \<longleftrightarrow> jsonb_values_equal fmt w v"
  using number_equivalence.json_sym [OF number_equivalence_jsonb] assms
  unfolding jsonb_values_equal_def by blast

text \<open>A concrete renderer, for the witnesses: the bits as an integer with a fraction.\<close>

definition plain_render :: "f64 \<Rightarrow> string" where
  "plain_render b = show_nat (unat b)"

lemma plain_render_decimals: "renders_decimals plain_render"
proof -
  have "normalize_rendered (plain_render b) \<noteq> None" for b
    using integer_normalizes(1) [of plain_render b] by (simp add: normalized_json_number_def plain_render_def)
  then show ?thesis by (simp add: renders_decimals_def)
qed

lemma canonical_json_id: "wf_json v \<Longrightarrow> canonical_json v = v"
proof (induction v)
  case (JArray xs)
  then show ?case by (simp add: map_idI)
next
  case (JObject kvs)
  have "map (\<lambda>(k, x). (k, canonical_json x)) kvs = kvs"
    using JObject by (intro map_idI) fastforce
  with JObject.prems show ?case by (simp add: btree_collect_id)
qed simp_all

lemma canonical_json_wf: "wf_json (canonical_json v)"
proof (induction v)
  case (JObject kvs)
  have "wf_json x" if "(k, x) \<in> set (btree_collect (map (\<lambda>(k, x). (k, canonical_json x)) kvs))" for k x
    using that JObject.IH set_btree_collect by fastforce
  then show ?case by auto
qed auto

end
