(* ===== verification/Canonical_Laws.thy ===== *)
theory Canonical_Laws
  imports Canonical_Bytes Json_Laws "HOL-Library.Multiset"
begin

section \<open>Laws of the canonical byte form\<close>

text \<open>
  A reference rendering without bounds or accumulator, that the emitter computes it, and that the
  rendering is uniquely decodable: a value is determined by its bytes.
\<close>

subsection \<open>The reference rendering\<close>

function render :: "canonical_value \<Rightarrow> byte list" where
  "render v = (case v of
      CNull \<Rightarrow> lit ''null'' | CBool b \<Rightarrow> (if b then lit ''true'' else lit ''false'')
    | CInteger i \<Rightarrow> lit (show_int i) | CString s \<Rightarrow> write_string s
    | CArray xs \<Rightarrow> [91] @ join_with [44] (map render xs) @ [93]
    | CObject kvs \<Rightarrow> [123] @ join_with [44] (map (\<lambda>e. write_string (fst e) @ [58] @ render (snd e)) (utf16_sorted kvs)) @ [125])"
  by pat_completeness auto
termination
  by (relation "measure size") (auto dest: size_snd_member size_member)

declare render.simps [simp del]

lemma render_simps [simp]:
  "render CNull = lit ''null''" "render (CBool b) = (if b then lit ''true'' else lit ''false'')"
  "render (CInteger i) = lit (show_int i)" "render (CString s) = write_string s"
  "render (CArray xs) = [91] @ join_with [44] (map render xs) @ [93]"
  "render (CObject kvs) = [123] @ join_with [44] (map (\<lambda>e. write_string (fst e) @ [58] @ render (snd e)) (utf16_sorted kvs)) @ [125]"
  by (subst render.simps, simp)+

text \<open>The output after \<open>n\<close> elements of a collection.\<close>

definition written :: "nat \<Rightarrow> byte list \<Rightarrow> byte list list \<Rightarrow> byte list" where
  "written n out ps = (if ps = [] then out else if n = 0 then out @ join_with [44] ps else out @ [44] @ join_with [44] ps)"

lemma written_Cons:
  "written n out (p # ps) = written (n + 1) ((if n \<noteq> 0 then out @ [44] else out) @ p) ps"
  by (cases ps) (simp_all add: written_def)

lemma length_written: "length out \<le> length (written n out ps)"
  by (simp add: written_def)

text \<open>A loop whose body appends \<open>p x\<close> and checks the output computes the joined parts.\<close>

lemma write_loop:
  assumes "\<And>x out. x \<in> set xs \<Longrightarrow> body x out = check_output (out @ p x)"
  shows "try_fold (\<lambda>st x. try_then (body x (if fst st \<noteq> 0 then snd st @ [44] else snd st))
        (\<lambda>out. Inr (fst st + 1, out))) (n, out) xs
    = (if xs \<noteq> [] \<and> length (written n out (map p xs)) > MAX_OUTPUT_BYTES then Inl (OutputTooLarge MAX_OUTPUT_BYTES)
       else Inr (n + length xs, written n out (map p xs)))"
  using assms
proof (induction xs arbitrary: n out)
  case Nil
  then show ?case by (simp add: written_def)
next
  case (Cons x xs)
  let ?i = "if n \<noteq> 0 then out @ [44] else out"
  let ?o = "?i @ p x"
  have b: "body x ?i = check_output ?o" using Cons.prems [of x ?i] by simp
  have w: "written n out (map p (x # xs)) = written (n + 1) ?o (map p xs)" by (simp only: list.map written_Cons)
  show ?case
  proof (cases "length ?o > MAX_OUTPUT_BYTES")
    case True
    then have "length (written (n + 1) ?o (map p xs)) > MAX_OUTPUT_BYTES"
      using length_written [of ?o "n + 1" "map p xs"] by linarith
    moreover have "check_output ?o = Inl (OutputTooLarge MAX_OUTPUT_BYTES)" using True by (simp only: check_output_def if_True)
    ultimately show ?thesis unfolding w try_fold.simps fst_conv snd_conv b by simp
  next
    case False
    then have c: "check_output ?o = Inr ?o" by (simp only: check_output_def if_False)
    have "xs = [] \<Longrightarrow> \<not> length (written (n + 1) ?o (map p xs)) > MAX_OUTPUT_BYTES" using False by (simp add: written_def)
    then show ?thesis
      unfolding w try_fold.simps fst_conv snd_conv b c try_then_Inr
      using Cons.IH [of "n + 1" ?o] Cons.prems by auto
  qed
qed

lemma check_output_cases:
  "check_output out = (if length out > MAX_OUTPUT_BYTES then Inl (OutputTooLarge MAX_OUTPUT_BYTES) else Inr out)"
  by (rule check_output_def)

lemma finish_loop:
  assumes "\<And>x out. x \<in> set xs \<Longrightarrow> body x out = check_output (out @ p x)"
  shows "try_then (try_then (try_fold (\<lambda>st x. try_then (body x (if fst st \<noteq> 0 then snd st @ [44] else snd st))
        (\<lambda>out. Inr (fst st + 1, out))) (0::nat, out @ [a]) xs) (\<lambda>(_, out). Inr (out @ [z]))) check_output
    = check_output (out @ [a] @ join_with [44] (map p xs) @ [z])"
proof -
  have "written 0 (out @ [a]) (map p xs) = out @ [a] @ join_with [44] (map p xs)" by (simp add: written_def)
  moreover note write_loop [of xs body p 0 "out @ [a]", OF assms]
  ultimately show ?thesis by (auto simp: check_output_cases simp del: neq0_conv)
qed

lemma write_value_render: "write_value v out = check_output (out @ render v)"
proof (induction v arbitrary: out)
  case (CArray xs)
  show ?case
    unfolding write_value.simps [of "CArray xs"] canonical_value.case render_simps
    by (rule finish_loop) (rule CArray)
next
  case (CObject kvs)
  show ?case
    unfolding write_value.simps [of "CObject kvs"] canonical_value.case render_simps
    by (rule finish_loop [where body = "\<lambda>e out. write_value (snd e) (out @ write_string (fst e) @ [58])"])
      (use CObject in \<open>auto simp: snds.simps\<close>)
qed (subst write_value.simps, simp split: bool.splits)+

lemma canonical_bytes_render:
  "canonical_bytes nfc v = try_then (validate_value nfc v 0 0) (\<lambda>_. check_output (render v))"
  by (auto simp: canonical_bytes_def write_value_render check_output_cases try_then_def split: sum.splits)

subsection \<open>Unique decodability: characters and strings\<close>

definition scalar :: "nat \<Rightarrow> bool" where
  "scalar c \<longleftrightarrow> c < 55296 \<or> (57344 \<le> c \<and> c < 1114112)"

lemma div_mod_unique: "(a::nat) div k = b div k \<Longrightarrow> a mod k = b mod k \<Longrightarrow> a = b"
  by (metis div_mult_mod_eq)

lemma encode_utf8_hd:
  "encode_utf8 c \<noteq> []" "c < 128 \<Longrightarrow> encode_utf8 c = [c]" "\<not> c < 128 \<Longrightarrow> 128 \<le> hd (encode_utf8 c)"
  by (simp_all add: encode_utf8_def)

text \<open>The scalar at the head of well-formed UTF-8 and the bytes after it.\<close>

fun utf8_head :: "byte list \<Rightarrow> nat \<times> byte list" where
  "utf8_head [] = (0, [])"
| "utf8_head (b # bs) =
     (if b < 128 then (b, bs)
      else if b < 224 then ((b - 192) * 64 + (bs ! 0 - 128), drop 1 bs)
      else if b < 240 then ((b - 224) * 4096 + (bs ! 0 - 128) * 64 + (bs ! 1 - 128), drop 2 bs)
      else ((b - 240) * 262144 + (bs ! 0 - 128) * 4096 + (bs ! 1 - 128) * 64 + (bs ! 2 - 128), drop 3 bs))"

lemma split64:
  "(c::nat) div 64 * 64 + c mod 64 = c"
  "(c::nat) div 4096 * 4096 + c div 64 mod 64 * 64 + c mod 64 = c"
  "(c::nat) div 262144 * 262144 + c div 4096 mod 64 * 4096 + c div 64 mod 64 * 64 + c mod 64 = c"
proof -
  have "c div 64 * 64 + c mod 64 = c" by (rule div_mult_mod_eq)
  moreover have "c div 4096 * 64 + c div 64 mod 64 = c div 64"
    using div_mult_mod_eq [of "c div 64" 64] by (simp add: div_mult2_eq [symmetric])
  moreover have "c div 262144 * 64 + c div 4096 mod 64 = c div 4096"
    using div_mult_mod_eq [of "c div 4096" 64] by (simp add: div_mult2_eq [symmetric])
  ultimately show "c div 64 * 64 + c mod 64 = c" "c div 4096 * 4096 + c div 64 mod 64 * 64 + c mod 64 = c"
      "c div 262144 * 262144 + c div 4096 mod 64 * 4096 + c div 64 mod 64 * 64 + c mod 64 = c"
    by linarith+
qed

lemma utf8_head_encode: "c < 1114112 \<Longrightarrow> utf8_head (encode_utf8 c @ r) = (c, r)"
proof -
  assume "c < 1114112"
  moreover have "c div 64 < 32" if "c < 2048" using that by (simp add: less_mult_imp_div_less)
  moreover have "c div 4096 < 16" if "c < 65536" using that by (simp add: less_mult_imp_div_less)
  ultimately show ?thesis by (auto simp: encode_utf8_def split64)
qed

definition unhex :: "byte \<Rightarrow> nat" where
  "unhex b = (if b < 58 then b - 48 else b - 87)"

lemma unhex_hex [simp]: "unhex (hex_digit d) = d"
  by (simp add: unhex_def hex_digit_def)

definition escaped_head :: "byte list \<Rightarrow> nat \<times> byte list" where
  "escaped_head bs = (case bs ! 1 of b \<Rightarrow>
     if b = 98 then (8, drop 2 bs) else if b = 116 then (9, drop 2 bs) else if b = 110 then (10, drop 2 bs)
     else if b = 102 then (12, drop 2 bs) else if b = 114 then (13, drop 2 bs)
     else if b = 117 then (unhex (bs ! 4) * 16 + unhex (bs ! 5), drop 6 bs) else (b, drop 2 bs))"

definition char_head :: "byte list \<Rightarrow> nat \<times> byte list" where
  "char_head bs = (if hd bs = 92 then escaped_head bs else utf8_head bs)"

lemma write_char_named:
  "write_char 34 = [92, 34]" "write_char 92 = [92, 92]" "write_char 8 = [92, 98]" "write_char 9 = [92, 116]"
  "write_char 10 = [92, 110]" "write_char 12 = [92, 102]" "write_char 13 = [92, 114]"
  by (simp_all add: write_char_def)

lemma write_char_other:
  "c \<notin> {34, 92, 8, 9, 10, 12, 13} \<Longrightarrow> write_char c
     = (if c \<le> 31 then [92, 117, 48, 48, hex_digit (c div 16), hex_digit (c mod 16)] else encode_utf8 c)"
  by (simp only: write_char_def insert_iff de_Morgan_disj if_False)

lemma escaped_head_named:
  "escaped_head (92 # 34 # r) = (34, r)" "escaped_head (92 # 92 # r) = (92, r)" "escaped_head (92 # 98 # r) = (8, r)"
  "escaped_head (92 # 116 # r) = (9, r)" "escaped_head (92 # 110 # r) = (10, r)" "escaped_head (92 # 102 # r) = (12, r)"
  "escaped_head (92 # 114 # r) = (13, r)"
  "escaped_head (92 # 117 # 48 # 48 # a # b # r) = (unhex a * 16 + unhex b, r)"
  by (simp_all add: escaped_head_def)

lemma char_head_write: "c < 1114112 \<Longrightarrow> char_head (write_char c @ r) = (c, r)"
proof -
  assume c: "c < 1114112"
  consider "c \<in> {34, 92, 8, 9, 10, 12, 13}" | "c \<notin> {34, 92, 8, 9, 10, 12, 13}" "c \<le> 31"
    | "c \<notin> {34, 92, 8, 9, 10, 12, 13}" "\<not> c \<le> 31" by blast
  then show ?thesis
  proof cases
    case 1
    then consider "c = 34" | "c = 92" | "c = 8" | "c = 9" | "c = 10" | "c = 12" | "c = 13" by blast
    then show ?thesis by cases (simp_all only: write_char_named char_head_def escaped_head_named append.simps list.sel simp_thms if_True)
  next
    case 2
    then show ?thesis
      by (simp only: write_char_other if_True char_head_def append.simps list.sel simp_thms escaped_head_named unhex_hex div_mult_mod_eq)
  next
    case 3
    then have "c \<noteq> 92" by blast
    then have "hd (encode_utf8 c @ r) \<noteq> 92" using encode_utf8_hd [of c] by (cases "c < 128") auto
    then show ?thesis
      unfolding write_char_other [OF 3(1)] char_head_def using 3(2) by (simp only: if_False utf8_head_encode [OF c])
  qed
qed

lemma write_char_not_quote: "write_char c \<noteq> [] \<and> hd (write_char c) \<noteq> 34"
  using encode_utf8_hd [of c] by (cases "c < 128") (simp_all add: write_char_def)

lemma quote_ends_chars: "concat (map write_char s) @ 34 # r = 34 # r' \<Longrightarrow> s = []"
proof (cases s)
  case (Cons c t)
  assume "concat (map write_char s) @ 34 # r = 34 # r'"
  then have "hd (write_char c @ concat (map write_char t) @ 34 # r) = 34" using Cons by simp
  then show ?thesis using write_char_not_quote [of c] by (simp add: hd_append2)
qed

lemma write_chars_prefix:
  assumes "\<forall>c\<in>set s. c < 1114112" and "\<forall>c\<in>set s'. c < 1114112"
    and "concat (map write_char s) @ 34 # r = concat (map write_char s') @ 34 # r'"
  shows "s = s' \<and> r = r'"
  using assms
proof (induction s arbitrary: s')
  case Nil
  then have "s' = []" by (intro quote_ends_chars [of s' r' r]) simp
  with Nil show ?case by simp
next
  case (Cons c s)
  show ?case
  proof (cases s')
    case Nil
    with Cons.prems(3) quote_ends_chars [of "c # s" r r'] show ?thesis by simp
  next
    case (Cons d t)
    have "char_head (write_char c @ concat (map write_char s) @ 34 # r) = char_head (write_char d @ concat (map write_char t) @ 34 # r')"
      using \<open>concat (map write_char (c # s)) @ 34 # r = concat (map write_char s') @ 34 # r'\<close> Cons by simp
    then have "c = d" "concat (map write_char s) @ 34 # r = concat (map write_char t) @ 34 # r'"
      using Cons.prems(1,2) Cons by (simp_all add: char_head_write)
    with Cons.IH [of t] Cons.prems(1,2) Cons show ?thesis by auto
  qed
qed

lemma write_string_prefix:
  assumes "\<forall>c\<in>set s. c < 1114112" and "\<forall>c\<in>set s'. c < 1114112" and "write_string s @ r = write_string s' @ r'"
  shows "s = s' \<and> r = r'"
  using assms write_chars_prefix [of s s' r r'] by (simp add: write_string_def)

subsection \<open>Unique decodability: integers\<close>

text \<open>What follows a value inside a document: nothing, a comma or a closing bracket.\<close>

definition stop :: "byte list \<Rightarrow> bool" where
  "stop r \<longleftrightarrow> r = [] \<or> hd r \<in> {44, 93, 125}"

lemma stop_simps [simp]: "stop []" "stop (44 # r)" "stop (93 # r)" "stop (125 # r)"
  by (simp_all add: stop_def)

lemma lit_digits: "list_all is_digit s \<Longrightarrow> \<forall>b\<in>set (lit s). is_ascii_digit b"
  by (auto simp: lit_def list_all_iff is_digit_def is_ascii_digit_def)

lemma show_nat_ascii: "\<forall>b\<in>set (lit (show_nat n)). is_ascii_digit b"
  by (rule lit_digits [OF show_nat_digits])

lemma stop_no_digit: "stop r \<Longrightarrow> takeWhile is_ascii_digit r = [] \<and> dropWhile is_ascii_digit r = r"
  by (cases r) (auto simp: stop_def is_ascii_digit_def)

lemma digits_split:
  "stop r \<Longrightarrow> takeWhile is_ascii_digit (lit (show_nat n) @ r) = lit (show_nat n)
     \<and> dropWhile is_ascii_digit (lit (show_nat n) @ r) = r"
  using show_nat_ascii [of n] stop_no_digit [of r] by (simp add: takeWhile_append2 dropWhile_append2)

lemma decimal_snoc: "decimal (ds @ [d]) = 10 * decimal ds + (d - 48)"
  by (simp add: decimal_def)

lemma decimal_show [simp]: "decimal (lit (show_nat n)) = n"
proof (induction n rule: show_nat.induct)
  case (1 n)
  have d: "lit [digit_char k] = [48 + k]" if "k < 10" for k
    using that by (simp add: lit_def of_char_mod_256)
  show ?case
  proof (cases "n < 10")
    case True
    then show ?thesis by (subst show_nat.simps) (simp add: d decimal_def del: digit_char.simps)
  next
    case False
    have "lit (show_nat n) = lit (show_nat (n div 10)) @ [48 + n mod 10]"
      using False d [of "n mod 10"] by (subst show_nat.simps) (simp add: lit_def del: digit_char.simps)
    then show ?thesis using "1" [OF False] by (simp add: decimal_snoc)
  qed
qed

lemma lit_show_int:
  "lit (show_int i) = (if i < 0 then 45 # lit (show_nat (nat (- i))) else lit (show_nat (nat i)))"
  by (simp add: show_int_def lit_def)

lemma lit_show_nat_hd: "lit (show_nat n) \<noteq> [] \<and> is_ascii_digit (hd (lit (show_nat n)))"
  using show_nat_ascii [of n] by (cases "lit (show_nat n)") (auto simp: lit_def)

lemma show_nat_prefix:
  assumes "stop r" and "stop r'" and "lit (show_nat n) @ r = lit (show_nat m) @ r'"
  shows "n = m \<and> r = r'"
  using digits_split [OF assms(1), of n] digits_split [OF assms(2), of m] assms(3) decimal_show
  by metis

lemma show_int_prefix:
  assumes "stop r" and "stop r'" and "lit (show_int i) @ r = lit (show_int j) @ r'"
  shows "i = j \<and> r = r'"
proof -
  have nd: "45 # xs \<noteq> lit (show_nat n) @ ys" for xs ys n
    using lit_show_nat_hd [of n] by (cases "lit (show_nat n)") (auto simp: is_ascii_digit_def)
  consider "i < 0" "j < 0" | "\<not> i < 0" "\<not> j < 0" | "(i < 0) \<noteq> (j < 0)" by blast
  then show ?thesis
  proof cases
    case 1
    with assms(3) have "lit (show_nat (nat (- i))) @ r = lit (show_nat (nat (- j))) @ r'" by (simp add: lit_show_int)
    from show_nat_prefix [OF assms(1,2) this] 1 show ?thesis by linarith
  next
    case 2
    with assms(3) have "lit (show_nat (nat i)) @ r = lit (show_nat (nat j)) @ r'" by (simp add: lit_show_int)
    from show_nat_prefix [OF assms(1,2) this] 2 show ?thesis by linarith
  next
    case 3
    then have False using assms(3) nd nd [symmetric] by (cases "i < 0") (auto simp: lit_show_int)
    then show ?thesis ..
  qed
qed

subsection \<open>Unique decodability: documents\<close>

lemma join_with_Cons: "join_with [d] (w # ws) = w @ concat (map (\<lambda>v. d # v) ws)"
  by (induction "[d]" "w # ws" arbitrary: w ws rule: join_with.induct) auto

text \<open>A comma-separated sequence of uniquely decodable parts is uniquely decodable.\<close>

definition decodable :: "('a \<Rightarrow> byte list) \<Rightarrow> 'a set \<Rightarrow> bool" where
  "decodable p A \<longleftrightarrow> (\<forall>x\<in>A. p x \<noteq> [] \<and> hd (p x) \<notin> {44, 93, 125})
     \<and> (\<forall>x\<in>A. \<forall>y\<in>A. \<forall>r r'. stop r \<longrightarrow> stop r' \<longrightarrow> p x @ r = p y @ r' \<longrightarrow> x = y \<and> r = r')"

lemma decodableD:
  "decodable p A \<Longrightarrow> x \<in> A \<Longrightarrow> y \<in> A \<Longrightarrow> stop r \<Longrightarrow> stop r' \<Longrightarrow> p x @ r = p y @ r' \<Longrightarrow> x = y \<and> r = r'"
  unfolding decodable_def by blast

lemma decodable_tail:
  assumes "decodable p A" and "z \<in> {93, 125}" and "set xs \<subseteq> A" and "set ys \<subseteq> A"
    and "concat (map (\<lambda>x. 44 # p x) xs) @ z # r = concat (map (\<lambda>x. 44 # p x) ys) @ z # r'"
  shows "xs = ys \<and> r = r'"
  using assms(3-)
proof (induction xs arbitrary: ys)
  case Nil
  then show ?case using assms(2) by (cases ys) auto
next
  case (Cons x xs)
  obtain y ys' where ys: "ys = y # ys'" using Cons.prems(3) assms(2) by (cases ys) auto
  have stops: "stop (concat (map (\<lambda>x. 44 # p x) us) @ z # t)" for us t
    using assms(2) by (cases us) auto
  have "p x @ concat (map (\<lambda>x. 44 # p x) xs) @ z # r = p y @ concat (map (\<lambda>x. 44 # p x) ys') @ z # r'"
    using Cons.prems(3) ys by simp
  from decodableD [OF assms(1) _ _ stops stops this] Cons.prems ys have
    "x = y" "concat (map (\<lambda>x. 44 # p x) xs) @ z # r = concat (map (\<lambda>x. 44 # p x) ys') @ z # r'" by auto
  with Cons.IH [of ys'] Cons.prems ys show ?case by simp
qed

lemma decodable_join:
  assumes "decodable p A" and "z \<in> {93, 125}" and "set xs \<subseteq> A" and "set ys \<subseteq> A"
    and "join_with [44] (map p xs) @ z # r = join_with [44] (map p ys) @ z # r'"
  shows "xs = ys \<and> r = r'"
proof -
  have joined: "join_with [44] (map p (x # us)) = p x @ concat (map (\<lambda>x. 44 # p x) us)" for x us
    by (simp add: join_with_Cons comp_def)
  have empty: "us = []" if e: "join_with [44] (map p us) @ z # t = z # t'" and A: "set us \<subseteq> A" for us t t'
  proof (rule ccontr)
    assume "us \<noteq> []"
    then obtain x vs where us: "us = x # vs" by (meson neq_Nil_conv)
    have "p x \<noteq> []" "hd (p x) \<noteq> z" using A assms(1,2) unfolding us decodable_def by auto
    moreover have "hd (p x @ concat (map (\<lambda>x. 44 # p x) vs) @ z # t) = z" using e unfolding us joined by simp
    ultimately show False by simp
  qed
  consider "xs = []" | "ys = []" | x us y vs where "xs = x # us" "ys = y # vs" by (meson neq_Nil_conv)
  then show ?thesis
  proof cases
    case 1
    with assms(5) have "join_with [44] (map p ys) @ z # r' = z # r" by simp
    from empty [OF this assms(4)] 1 assms(5) show ?thesis by simp
  next
    case 2
    with assms(5) have "join_with [44] (map p xs) @ z # r = z # r'" by simp
    from empty [OF this assms(3)] 2 assms(5) show ?thesis by simp
  next
    case 3
    have "concat (map (\<lambda>x. 44 # p x) xs) @ z # r = concat (map (\<lambda>x. 44 # p x) ys) @ z # r'"
      using assms(5) unfolding 3 joined by simp
    from decodable_tail [OF assms(1-4) this] show ?thesis .
  qed
qed

subsubsection \<open>Values\<close>

text \<open>What the Rust types guarantee: strings hold scalar values, maps have strictly ascending keys.\<close>

function wf_canonical :: "canonical_value \<Rightarrow> bool" where
  "wf_canonical v = (case v of
      CString s \<Rightarrow> list_all scalar s
    | CArray xs \<Rightarrow> list_all wf_canonical xs
    | CObject kvs \<Rightarrow> sorted_wrt (<) (map fst kvs) \<and> list_all (\<lambda>e. list_all scalar (fst e) \<and> wf_canonical (snd e)) kvs
    | _ \<Rightarrow> True)"
  by pat_completeness auto
termination
  by (relation "measure size") (auto dest: size_snd_member size_member)

declare wf_canonical.simps [simp del]

lemma wf_canonical_simps [simp]:
  "wf_canonical CNull" "wf_canonical (CBool b)" "wf_canonical (CInteger i)"
  "wf_canonical (CString s) \<longleftrightarrow> list_all scalar s"
  "wf_canonical (CArray xs) \<longleftrightarrow> (\<forall>x\<in>set xs. wf_canonical x)"
  "wf_canonical (CObject kvs) \<longleftrightarrow> sorted_wrt (<) (map fst kvs)
     \<and> (\<forall>e\<in>set kvs. list_all scalar (fst e) \<and> wf_canonical (snd e))"
  by (subst wf_canonical.simps, simp add: list_all_iff)+

lemma scalar_bound: "list_all scalar s \<Longrightarrow> \<forall>c\<in>set s. c < 1114112"
  by (auto simp: list_all_iff scalar_def)

lemma lit_words:
  "lit ''null'' = [110, 117, 108, 108]" "lit ''true'' = [116, 114, 117, 101]" "lit ''false'' = [102, 97, 108, 115, 101]"
  by (simp_all add: lit_def)

lemma render_nonempty [simp]: "render v \<noteq> []"
  using lit_show_nat_hd by (cases v) (auto simp: lit_words write_string_def lit_show_int)

lemma utf16_sorted_inject:
  assumes "sorted_wrt (<) (map fst kvs)" and "sorted_wrt (<) (map fst kvs')" and "utf16_sorted kvs = utf16_sorted kvs'"
  shows "kvs = kvs'"
proof -
  have "mset kvs = mset kvs'" using arg_cong [OF assms(3), of mset] by (simp add: utf16_sorted_def)
  moreover have "inj_on fst (set kvs)" using assms(1) by (simp add: strict_sorted_iff distinct_map)
  moreover have "sorted (map fst kvs)" "sorted (map fst kvs')" using assms(1,2) by (simp_all add: strict_sorted_iff)
  ultimately show ?thesis by (metis sort_key_inj_key_eq)
qed

text \<open>The first byte of a document tells its kind.\<close>

definition kind_byte :: "canonical_value \<Rightarrow> byte" where
  "kind_byte v = (case v of CNull \<Rightarrow> 110 | CBool b \<Rightarrow> if b then 116 else 102 | CInteger _ \<Rightarrow> 45
    | CString _ \<Rightarrow> 34 | CArray _ \<Rightarrow> 91 | CObject _ \<Rightarrow> 123)"

lemma number_kind: "(if is_ascii_digit (hd (lit (show_int i))) then 45 else hd (lit (show_int i))) = (45::nat)"
  using lit_show_nat_hd [of "nat i"] by (simp add: lit_show_int)

lemma render_kind: "(if is_ascii_digit (hd (render v)) then 45 else hd (render v)) = kind_byte v"
proof (cases v)
  case (CInteger i)
  show ?thesis unfolding CInteger render_simps(3) number_kind by (simp add: kind_byte_def)
qed (simp_all add: kind_byte_def lit_words write_string_def is_ascii_digit_def)

lemma render_front: "hd (render v) \<notin> {44, 93, 125}"
proof -
  have "kind_byte v \<notin> {44, 93, 125}" by (cases v) (simp_all add: kind_byte_def)
  then show ?thesis using render_kind [of v] by (auto simp: is_ascii_digit_def split: if_splits)
qed

lemma decodable_member:
  assumes "decodable render (snd ` A)" and "\<forall>e\<in>A. list_all scalar (fst e)"
  shows "decodable (\<lambda>e. write_string (fst e) @ [58] @ render (snd e)) A"
  unfolding decodable_def
proof (intro conjI ballI allI impI)
  fix e e' r r' assume e: "e \<in> A" "e' \<in> A" "stop r" "stop r'"
    and "(write_string (fst e) @ [58] @ render (snd e)) @ r = (write_string (fst e') @ [58] @ render (snd e')) @ r'"
  then have "write_string (fst e) @ [58] @ render (snd e) @ r = write_string (fst e') @ [58] @ render (snd e') @ r'"
    by simp
  from write_string_prefix [OF _ _ this] have "fst e = fst e'" "render (snd e) @ r = render (snd e') @ r'"
    using e assms(2) scalar_bound by auto
  moreover from this have "snd e = snd e' \<and> r = r'" using decodableD [OF assms(1) _ _ e(3,4)] e(1,2) by blast
  ultimately show "e = e'" "r = r'" by (auto simp: prod_eq_iff)
qed (simp_all add: write_string_def)

text \<open>Two values of different kinds differ in their first byte.\<close>

definition same_kind :: "canonical_value \<Rightarrow> canonical_value \<Rightarrow> bool" where
  "same_kind v w = (case (v, w) of
      (CNull, CNull) \<Rightarrow> True | (CBool a, CBool b) \<Rightarrow> a = b | (CInteger _, CInteger _) \<Rightarrow> True
    | (CString _, CString _) \<Rightarrow> True | (CArray _, CArray _) \<Rightarrow> True | (CObject _, CObject _) \<Rightarrow> True | _ \<Rightarrow> False)"

lemma render_same_kind: "hd (render v) = hd (render w) \<Longrightarrow> same_kind v w"
proof -
  assume "hd (render v) = hd (render w)"
  then have "kind_byte v = kind_byte w" using render_kind [of v] render_kind [of w] by presburger
  then show ?thesis by (cases v; cases w) (simp_all add: kind_byte_def same_kind_def split: if_splits)
qed

lemma array_prefix:
  assumes "decodable render A" and "set xs \<subseteq> A" and "set ys \<subseteq> A" and "render (CArray xs) @ r = render (CArray ys) @ r'"
  shows "xs = ys \<and> r = r'"
  using assms(4) by (intro decodable_join [OF assms(1) _ assms(2,3), of 93]) simp_all

lemma object_prefix:
  assumes "decodable render A" and "wf_canonical (CObject kvs)" and "wf_canonical (CObject kvs')"
    and "snd ` set kvs \<subseteq> A" and "snd ` set kvs' \<subseteq> A" and "render (CObject kvs) @ r = render (CObject kvs') @ r'"
  shows "kvs = kvs' \<and> r = r'"
proof -
  let ?B = "{e. list_all scalar (fst e) \<and> snd e \<in> A}"
  have "decodable render (snd ` ?B)" using assms(1) unfolding decodable_def by blast
  then have "decodable (\<lambda>e. write_string (fst e) @ [58] @ render (snd e)) ?B" by (rule decodable_member) blast
  moreover have "set (utf16_sorted kvs) \<subseteq> ?B" "set (utf16_sorted kvs') \<subseteq> ?B" using assms(2-5) by auto
  ultimately have "utf16_sorted kvs = utf16_sorted kvs' \<and> r = r'"
    using assms(6) by (intro decodable_join [where z = 125]) simp_all
  with utf16_sorted_inject assms(2,3) show ?thesis by auto
qed

lemma render_decodable: "decodable render {x. size x < n \<and> wf_canonical x}"
proof (induction n)
  case 0
  show ?case by (simp add: decodable_def)
next
  case (Suc n)
  let ?A = "{x. size x < n \<and> wf_canonical x}"
  have members: "size x < n" if b: "size (CObject kvs) < Suc n" and m: "x \<in> snd ` set kvs" for kvs x
  proof -
    obtain k where "(k, x) \<in> set kvs" using m by force
    from size_snd_member [OF this, of "\<lambda>x. 0"] b show ?thesis by simp
  qed
  have elements: "size x < n" if "size (CArray xs) < Suc n" "x \<in> set xs" for xs x
    using that size_member [of x xs] by simp
  have "v = w \<and> r = r'"
    if s: "size v < Suc n" "size w < Suc n" "wf_canonical v" "wf_canonical w" "stop r" "stop r'"
      and e: "render v @ r = render w @ r'" for v w r r'
  proof -
    have k: "same_kind v w" using render_same_kind arg_cong [OF e, of hd] by simp
    show ?thesis
    proof (cases v)
      case (CArray xs)
      with k obtain ys where w: "w = CArray ys" by (cases w) (auto simp: same_kind_def)
      show ?thesis
        using array_prefix [OF Suc.IH, of xs ys r r'] s e elements unfolding CArray w by auto
    next
      case (CObject kvs)
      with k obtain kvs' where w: "w = CObject kvs'" by (cases w) (auto simp: same_kind_def)
      show ?thesis
        using object_prefix [OF Suc.IH, of kvs kvs' r r'] s e members unfolding CObject w by auto
    next
      case (CInteger i)
      with k obtain j where w: "w = CInteger j" by (cases w) (auto simp: same_kind_def)
      show ?thesis using show_int_prefix [of r r' i j] s e unfolding CInteger w by simp
    next
      case (CString t)
      with k obtain u where w: "w = CString u" by (cases w) (auto simp: same_kind_def)
      show ?thesis using write_string_prefix [of t u r r'] s e scalar_bound unfolding CString w by simp
    next
      case CNull
      with k have "w = CNull" by (cases w) (auto simp: same_kind_def)
      with CNull e show ?thesis by simp
    next
      case (CBool b)
      with k have "w = CBool b" by (cases w) (auto simp: same_kind_def)
      with CBool e show ?thesis by simp
    qed
  qed
  with render_front render_nonempty show ?case unfolding decodable_def mem_Collect_eq by blast
qed

lemma render_inject:
  assumes "wf_canonical v" and "wf_canonical w" and "render v = render w"
  shows "v = w"
proof -
  have "v \<in> {x. size x < Suc (size v + size w) \<and> wf_canonical x}" "w \<in> {x. size x < Suc (size v + size w) \<and> wf_canonical x}"
    using assms(1,2) by auto
  from decodableD [OF render_decodable this, of "[]" "[]"] assms(3) show ?thesis by simp
qed

end
