(* ===== verification/Contract_Digest.thy ===== *)
theory Contract_Digest
  imports Canonical_Laws
begin

section \<open>Domain-separated digests\<close>

text \<open>
  \<^verbatim>\<open>memory_contracts/digest.rs\<close>. The closed enum \<^verbatim>\<open>DigestDomain\<close> is one datatype per section of its
  declaration and a sum of the four. SHA-256 itself is a parameter \<open>sha\<close>; what the code owns is the
  preimage it hashes: prefix, separator, length frames.
\<close>

type_synonym digest = "byte list"

datatype (plugins only: code size) core_domain =
    Dom_CanonicalProfile | Dom_TestVectorManifest | Dom_RegistryEntry | Dom_RegistryPackage
  | Dom_RegistryActivationStatement | Dom_RegistryActivationApproval | Dom_RegistryActivationReceipt
  | Dom_RegistryActivationStream | Dom_RegistrySuccessorActivationStatementV1
  | Dom_RegistrySuccessorActivationApprovalV1 | Dom_RegistrySuccessorActivationReceiptV1 | Dom_RegistryTestResult
  | Dom_GenesisSuccessorKeyBridgeV1 | Dom_ResourceLocator | Dom_EvidenceSourceFact | Dom_EvidenceSourceFactV2
  | Dom_EvidenceRepresentation | Dom_EvidenceRepresentationV2 | Dom_EvidenceEnvelope | Dom_RelationFingerprint
  | Dom_RememberClaimCoordinateV2 | Dom_RememberSemanticClaimV2 | Dom_NormativeBindingStatement
  | Dom_NormativeBindingReceipt | Dom_BootstrapSignerPolicy | Dom_BootstrapStatement | Dom_BootstrapReceipt
  | Dom_BootstrapAttestation | Dom_Epoch | Dom_Partition | Dom_AcceptedEvent | Dom_GenesisChain | Dom_AppendChain
  | Dom_Body

datatype (plugins only: code size) contract_domain =
    Dom_Generation2CompositionManifestV1 | Dom_RegistryBodySchemaSlotV1 | Dom_ConsolidationStatementV1
  | Dom_ConsolidationReceiptV1 | Dom_ConsolidationPolicyV1 | Dom_ConsolidationSummaryEnrichmentV1
  | Dom_RegistrySuccessorActivationStatementV2 | Dom_RegistrySuccessorActivationApprovalV2
  | Dom_RegistrySuccessorActivationReceiptV2 | Dom_RegistryContestedResolutionStatementV1
  | Dom_RegistryContestedResolutionApprovalV1 | Dom_RegistryContestedResolutionReceiptV1 | Dom_RegistryContestedSetV1
  | Dom_CoverageReceipt | Dom_ChunkOccurrenceV1 | Dom_ParseManifestV1 | Dom_ParserKeyV1 | Dom_SourceSpanV1
  | Dom_ManifestSupersessionV1 | Dom_GenerationPointerV1 | Dom_EmbeddingIdentityV1 | Dom_StorageIdentityV1
  | Dom_DiscrepancyFamilyV1 | Dom_DiscrepancyEpisodeV1 | Dom_DiscrepancyEnvelopeV1 | Dom_ComparatorLineageV1
  | Dom_DiscrepancyLifecycleEventV1

datatype (plugins only: code size) runtime_domain =
    Dom_ObserverAdmissionV2 | Dom_ObserverRunReceiptV1 | Dom_ObserverResultV1 | Dom_ObserverDisagreementV1
  | Dom_ErasureEventV1 | Dom_ErasureTombstoneV1 | Dom_ErasureFenceV1 | Dom_ErasureReceiptV1 | Dom_LegalHoldV1
  | Dom_LogEpochV2 | Dom_EvidenceCompactionCheckpointV1 | Dom_ProjectorCheckpointV1 | Dom_ArchiveSegmentManifestV1
  | Dom_CursorVectorV1 | Dom_ProjectionGenerationV1 | Dom_ProjectionGenerationRecordV1
  | Dom_NormativeBindingStatementV2 | Dom_NormativeBindingReceiptV2 | Dom_NormativeLifecycleEventV1
  | Dom_NormativeContestedV1 | Dom_QuarantineRecordV1 | Dom_MeasurementReceiptV1 | Dom_SloEvaluationV1
  | Dom_ExemplarSelectionV1 | Dom_CausalHypothesisV1 | Dom_CausalMechanismCommitmentV1 | Dom_InterventionSupportV1
  | Dom_CausalRatificationV1 | Dom_ActionProposalV1 | Dom_ActionAuthorizationV1 | Dom_ActionAttemptV1
  | Dom_ActionReceiptV1 | Dom_ActionVerificationV1 | Dom_RelationAdmissionV2 | Dom_ActionAttemptRevalidationV1

datatype (plugins only: code size) connector_domain =
    Dom_EvidenceGenesisChainV1 | Dom_BootstrapManifestV1 | Dom_Stage5TargetPackageV1 | Dom_CoverageProofV2
  | Dom_ParserContractV2 | Dom_LexicalProjectionTextV1 | Dom_GitProviderFactV1 | Dom_GitScanManifestV1
  | Dom_TranscriptTurnRevisionV1 | Dom_NormativeActiveBindingSetV1 | Dom_CiProviderFactV1 | Dom_CiScanManifestV1
  | Dom_CiCoverageWindowV1 | Dom_ObserverSourceBlobV1 | Dom_ObserverRunInputV1 | Dom_ObserverRunOutputV1
  | Dom_ObserverRunRecordV1 | Dom_DiscrepancyEpisodeRelationV1 | Dom_NormativeApprovalAttestationV1
  | Dom_NormativeMembershipExpectationV1 | Dom_NormativeSourceSpanBytesV1 | Dom_SpecMembershipValueV1
  | Dom_SpecCheckRecordV1 | Dom_SpecDraftParserArtifactV1 | Dom_SpecCompiledEntryVectorsV1 | Dom_NormativeHeadRebaseV1
  | Dom_CollectedItemKeyV1 | Dom_CollectedItemContentV1 | Dom_CollectedItemVersionV1 | Dom_CollectedItemRevisionV1
  | Dom_CollectedContainerKeyV1 | Dom_CollectedObservationManifestV1 | Dom_IngressDeliveryKeyV1

datatype digest_domain = CoreDomain core_domain | ContractDomain contract_domain | RuntimeDomain runtime_domain | ConnectorDomain connector_domain

primrec core_domain_prefix :: "core_domain \<Rightarrow> string" where
  "core_domain_prefix Dom_CanonicalProfile = ''ostk-canonical-profile-v1''"
| "core_domain_prefix Dom_TestVectorManifest = ''ostk-test-vector-manifest-v1''"
| "core_domain_prefix Dom_RegistryEntry = ''ostk-registry-entry-v1''"
| "core_domain_prefix Dom_RegistryPackage = ''ostk-registry-package-v1''"
| "core_domain_prefix Dom_RegistryActivationStatement = ''ostk-registry-activation-statement-v1''"
| "core_domain_prefix Dom_RegistryActivationApproval = ''ostk-registry-activation-approval-v1''"
| "core_domain_prefix Dom_RegistryActivationReceipt = ''ostk-registry-activation-receipt-v1''"
| "core_domain_prefix Dom_RegistryActivationStream = ''ostk-registry-activation-stream-v1''"
| "core_domain_prefix Dom_RegistrySuccessorActivationStatementV1 = ''ostk-registry-successor-activation-statement-v1''"
| "core_domain_prefix Dom_RegistrySuccessorActivationApprovalV1 = ''ostk-registry-successor-activation-approval-v1''"
| "core_domain_prefix Dom_RegistrySuccessorActivationReceiptV1 = ''ostk-registry-successor-activation-receipt-v1''"
| "core_domain_prefix Dom_RegistryTestResult = ''ostk-registry-test-result-v1''"
| "core_domain_prefix Dom_GenesisSuccessorKeyBridgeV1 = ''ostk-genesis-successor-key-bridge-v1''"
| "core_domain_prefix Dom_ResourceLocator = ''ostk-resource-locator-v1''"
| "core_domain_prefix Dom_EvidenceSourceFact = ''ostk-source-fact-v1''"
| "core_domain_prefix Dom_EvidenceSourceFactV2 = ''ostk-source-fact-v2''"
| "core_domain_prefix Dom_EvidenceRepresentation = ''ostk-representation-v1''"
| "core_domain_prefix Dom_EvidenceRepresentationV2 = ''ostk-representation-v2''"
| "core_domain_prefix Dom_EvidenceEnvelope = ''ostk-evidence-envelope-v1''"
| "core_domain_prefix Dom_RelationFingerprint = ''ostk-relation-fingerprint-v1''"
| "core_domain_prefix Dom_RememberClaimCoordinateV2 = ''ostk-remember-claim-coordinate-v2''"
| "core_domain_prefix Dom_RememberSemanticClaimV2 = ''ostk-remember-semantic-claim-v2''"
| "core_domain_prefix Dom_NormativeBindingStatement = ''ostk-normative-binding-statement-v1''"
| "core_domain_prefix Dom_NormativeBindingReceipt = ''ostk-normative-binding-receipt-v1''"
| "core_domain_prefix Dom_BootstrapSignerPolicy = ''ostk-bootstrap-signer-policy-v1''"
| "core_domain_prefix Dom_BootstrapStatement = ''ostk-bootstrap-statement-v1''"
| "core_domain_prefix Dom_BootstrapReceipt = ''ostk-bootstrap-receipt-v1''"
| "core_domain_prefix Dom_BootstrapAttestation = ''ostk-bootstrap-attestation-v1''"
| "core_domain_prefix Dom_Epoch = ''ostk-log-epoch-v1''"
| "core_domain_prefix Dom_Partition = ''ostk-log-partition-v1''"
| "core_domain_prefix Dom_AcceptedEvent = ''ostk-accepted-event-v1''"
| "core_domain_prefix Dom_GenesisChain = ''ostk-genesis-chain-v1''"
| "core_domain_prefix Dom_AppendChain = ''ostk-append-chain-v1''"
| "core_domain_prefix Dom_Body = ''ostk-body-v1''"

primrec contract_domain_prefix :: "contract_domain \<Rightarrow> string" where
  "contract_domain_prefix Dom_Generation2CompositionManifestV1 = ''ostk-generation2-composition-manifest-v1''"
| "contract_domain_prefix Dom_RegistryBodySchemaSlotV1 = ''ostk-registry-body-schema-slot-v1''"
| "contract_domain_prefix Dom_ConsolidationStatementV1 = ''ostk-consolidation-statement-v1''"
| "contract_domain_prefix Dom_ConsolidationReceiptV1 = ''ostk-consolidation-receipt-v1''"
| "contract_domain_prefix Dom_ConsolidationPolicyV1 = ''ostk-consolidation-policy-v1''"
| "contract_domain_prefix Dom_ConsolidationSummaryEnrichmentV1 = ''ostk-consolidation-summary-enrichment-v1''"
| "contract_domain_prefix Dom_RegistrySuccessorActivationStatementV2 = ''ostk-registry-successor-activation-statement-v2''"
| "contract_domain_prefix Dom_RegistrySuccessorActivationApprovalV2 = ''ostk-registry-successor-activation-approval-v2''"
| "contract_domain_prefix Dom_RegistrySuccessorActivationReceiptV2 = ''ostk-registry-successor-activation-receipt-v2''"
| "contract_domain_prefix Dom_RegistryContestedResolutionStatementV1 = ''ostk-registry-contested-resolution-statement-v1''"
| "contract_domain_prefix Dom_RegistryContestedResolutionApprovalV1 = ''ostk-registry-contested-resolution-approval-v1''"
| "contract_domain_prefix Dom_RegistryContestedResolutionReceiptV1 = ''ostk-registry-contested-resolution-receipt-v1''"
| "contract_domain_prefix Dom_RegistryContestedSetV1 = ''ostk-registry-contested-set-v1''"
| "contract_domain_prefix Dom_CoverageReceipt = ''ostk-coverage-receipt-v1''"
| "contract_domain_prefix Dom_ChunkOccurrenceV1 = ''ostk-chunk-occurrence-v1''"
| "contract_domain_prefix Dom_ParseManifestV1 = ''ostk-parse-manifest-v1''"
| "contract_domain_prefix Dom_ParserKeyV1 = ''ostk-parser-key-v1''"
| "contract_domain_prefix Dom_SourceSpanV1 = ''ostk-source-span-v1''"
| "contract_domain_prefix Dom_ManifestSupersessionV1 = ''ostk-manifest-supersession-v1''"
| "contract_domain_prefix Dom_GenerationPointerV1 = ''ostk-generation-pointer-v1''"
| "contract_domain_prefix Dom_EmbeddingIdentityV1 = ''ostk-embedding-identity-v1''"
| "contract_domain_prefix Dom_StorageIdentityV1 = ''ostk-storage-identity-v1''"
| "contract_domain_prefix Dom_DiscrepancyFamilyV1 = ''ostk-discrepancy-family-v1''"
| "contract_domain_prefix Dom_DiscrepancyEpisodeV1 = ''ostk-discrepancy-episode-v1''"
| "contract_domain_prefix Dom_DiscrepancyEnvelopeV1 = ''ostk-discrepancy-envelope-v1''"
| "contract_domain_prefix Dom_ComparatorLineageV1 = ''ostk-comparator-lineage-v1''"
| "contract_domain_prefix Dom_DiscrepancyLifecycleEventV1 = ''ostk-discrepancy-lifecycle-event-v1''"

primrec runtime_domain_prefix :: "runtime_domain \<Rightarrow> string" where
  "runtime_domain_prefix Dom_ObserverAdmissionV2 = ''ostk-observer-admission-v2''"
| "runtime_domain_prefix Dom_ObserverRunReceiptV1 = ''ostk-observer-run-receipt-v1''"
| "runtime_domain_prefix Dom_ObserverResultV1 = ''ostk-observer-result-v1''"
| "runtime_domain_prefix Dom_ObserverDisagreementV1 = ''ostk-observer-disagreement-v1''"
| "runtime_domain_prefix Dom_ErasureEventV1 = ''ostk-erasure-event-v1''"
| "runtime_domain_prefix Dom_ErasureTombstoneV1 = ''ostk-erasure-tombstone-v1''"
| "runtime_domain_prefix Dom_ErasureFenceV1 = ''ostk-erasure-fence-v1''"
| "runtime_domain_prefix Dom_ErasureReceiptV1 = ''ostk-erasure-receipt-v1''"
| "runtime_domain_prefix Dom_LegalHoldV1 = ''ostk-legal-hold-v1''"
| "runtime_domain_prefix Dom_LogEpochV2 = ''ostk-log-epoch-v2''"
| "runtime_domain_prefix Dom_EvidenceCompactionCheckpointV1 = ''ostk-evidence-compaction-checkpoint-v1''"
| "runtime_domain_prefix Dom_ProjectorCheckpointV1 = ''ostk-projector-checkpoint-v1''"
| "runtime_domain_prefix Dom_ArchiveSegmentManifestV1 = ''ostk-archive-segment-manifest-v1''"
| "runtime_domain_prefix Dom_CursorVectorV1 = ''ostk-cursor-vector-v1''"
| "runtime_domain_prefix Dom_ProjectionGenerationV1 = ''ostk-projection-generation-v1''"
| "runtime_domain_prefix Dom_ProjectionGenerationRecordV1 = ''ostk-projection-generation-record-v1''"
| "runtime_domain_prefix Dom_NormativeBindingStatementV2 = ''ostk-normative-binding-statement-v2''"
| "runtime_domain_prefix Dom_NormativeBindingReceiptV2 = ''ostk-normative-binding-receipt-v2''"
| "runtime_domain_prefix Dom_NormativeLifecycleEventV1 = ''ostk-normative-lifecycle-event-v1''"
| "runtime_domain_prefix Dom_NormativeContestedV1 = ''ostk-normative-contested-v1''"
| "runtime_domain_prefix Dom_QuarantineRecordV1 = ''ostk-quarantine-record-v1''"
| "runtime_domain_prefix Dom_MeasurementReceiptV1 = ''ostk-measurement-receipt-v1''"
| "runtime_domain_prefix Dom_SloEvaluationV1 = ''ostk-slo-evaluation-v1''"
| "runtime_domain_prefix Dom_ExemplarSelectionV1 = ''ostk-exemplar-selection-v1''"
| "runtime_domain_prefix Dom_CausalHypothesisV1 = ''ostk-causal-hypothesis-v1''"
| "runtime_domain_prefix Dom_CausalMechanismCommitmentV1 = ''ostk-causal-mechanism-commitment-v1''"
| "runtime_domain_prefix Dom_InterventionSupportV1 = ''ostk-intervention-support-v1''"
| "runtime_domain_prefix Dom_CausalRatificationV1 = ''ostk-causal-ratification-v1''"
| "runtime_domain_prefix Dom_ActionProposalV1 = ''ostk-action-proposal-v1''"
| "runtime_domain_prefix Dom_ActionAuthorizationV1 = ''ostk-action-authorization-v1''"
| "runtime_domain_prefix Dom_ActionAttemptV1 = ''ostk-action-attempt-v1''"
| "runtime_domain_prefix Dom_ActionReceiptV1 = ''ostk-action-receipt-v1''"
| "runtime_domain_prefix Dom_ActionVerificationV1 = ''ostk-action-verification-v1''"
| "runtime_domain_prefix Dom_RelationAdmissionV2 = ''ostk-relation-admission-v2''"
| "runtime_domain_prefix Dom_ActionAttemptRevalidationV1 = ''ostk-action-attempt-revalidation-v1''"

primrec connector_domain_prefix :: "connector_domain \<Rightarrow> string" where
  "connector_domain_prefix Dom_EvidenceGenesisChainV1 = ''ostk-evidence-genesis-chain-v1''"
| "connector_domain_prefix Dom_BootstrapManifestV1 = ''ostk-bootstrap-manifest-v1''"
| "connector_domain_prefix Dom_Stage5TargetPackageV1 = ''ostk-stage5-target-package-v1''"
| "connector_domain_prefix Dom_CoverageProofV2 = ''ostk-coverage-proof-v2''"
| "connector_domain_prefix Dom_ParserContractV2 = ''ostk-parser-contract-v2''"
| "connector_domain_prefix Dom_LexicalProjectionTextV1 = ''ostk-lexical-projection-text-v1''"
| "connector_domain_prefix Dom_GitProviderFactV1 = ''ostk-git-provider-fact-v1''"
| "connector_domain_prefix Dom_GitScanManifestV1 = ''ostk-git-scan-manifest-v1''"
| "connector_domain_prefix Dom_TranscriptTurnRevisionV1 = ''ostk-transcript-turn-revision-v1''"
| "connector_domain_prefix Dom_NormativeActiveBindingSetV1 = ''ostk-normative-active-binding-set-v1''"
| "connector_domain_prefix Dom_CiProviderFactV1 = ''ostk-ci-provider-fact-v1''"
| "connector_domain_prefix Dom_CiScanManifestV1 = ''ostk-ci-scan-manifest-v1''"
| "connector_domain_prefix Dom_CiCoverageWindowV1 = ''ostk-ci-coverage-window-v1''"
| "connector_domain_prefix Dom_ObserverSourceBlobV1 = ''ostk-observer-source-blob-v1''"
| "connector_domain_prefix Dom_ObserverRunInputV1 = ''ostk-observer-run-input-v1''"
| "connector_domain_prefix Dom_ObserverRunOutputV1 = ''ostk-observer-run-output-v1''"
| "connector_domain_prefix Dom_ObserverRunRecordV1 = ''ostk-observer-run-record-v1''"
| "connector_domain_prefix Dom_DiscrepancyEpisodeRelationV1 = ''ostk-discrepancy-episode-relation-v1''"
| "connector_domain_prefix Dom_NormativeApprovalAttestationV1 = ''ostk-normative-approval-attestation-v1''"
| "connector_domain_prefix Dom_NormativeMembershipExpectationV1 = ''ostk-normative-membership-expectation-v1''"
| "connector_domain_prefix Dom_NormativeSourceSpanBytesV1 = ''ostk-normative-source-span-bytes-v1''"
| "connector_domain_prefix Dom_SpecMembershipValueV1 = ''ostk-spec-membership-value-v1''"
| "connector_domain_prefix Dom_SpecCheckRecordV1 = ''ostk-spec-check-record-v1''"
| "connector_domain_prefix Dom_SpecDraftParserArtifactV1 = ''ostk-spec-draft-parser-artifact-v1''"
| "connector_domain_prefix Dom_SpecCompiledEntryVectorsV1 = ''ostk-spec-compiled-entry-vectors-v1''"
| "connector_domain_prefix Dom_NormativeHeadRebaseV1 = ''ostk-normative-head-rebase-v1''"
| "connector_domain_prefix Dom_CollectedItemKeyV1 = ''ostk-collected-item-key-v1''"
| "connector_domain_prefix Dom_CollectedItemContentV1 = ''ostk-collected-item-content-v1''"
| "connector_domain_prefix Dom_CollectedItemVersionV1 = ''ostk-collected-item-version-v1''"
| "connector_domain_prefix Dom_CollectedItemRevisionV1 = ''ostk-collected-item-revision-v1''"
| "connector_domain_prefix Dom_CollectedContainerKeyV1 = ''ostk-collected-container-key-v1''"
| "connector_domain_prefix Dom_CollectedObservationManifestV1 = ''ostk-collected-observation-manifest-v1''"
| "connector_domain_prefix Dom_IngressDeliveryKeyV1 = ''ostk-ingress-delivery-key-v1''"

primrec domain_prefix :: "digest_domain \<Rightarrow> string" where
  "domain_prefix (CoreDomain d) = core_domain_prefix d"
| "domain_prefix (ContractDomain d) = contract_domain_prefix d"
| "domain_prefix (RuntimeDomain d) = runtime_domain_prefix d"
| "domain_prefix (ConnectorDomain d) = connector_domain_prefix d"

subsection \<open>Digests and their wire form\<close>

definition to_hex :: "byte list \<Rightarrow> ustr" where
  "to_hex bs = concat (map (\<lambda>b. [hex_digit (b div 16), hex_digit (b mod 16)]) bs)"

definition is_lower_hex :: "nat \<Rightarrow> bool" where
  "is_lower_hex c \<longleftrightarrow> is_ascii_digit c \<or> (97 \<le> c \<and> c \<le> 102)"

text \<open>\<^verbatim>\<open>hex::decode\<close> on lowercase digits; an odd length is refused.\<close>

fun hex_decode :: "ustr \<Rightarrow> byte list option" where
  "hex_decode [] = Some []"
| "hex_decode [c] = None"
| "hex_decode (a # b # s) = map_option (\<lambda>bs. (unhex a * 16 + unhex b) # bs) (hex_decode s)"

definition parse_digest :: "ustr \<Rightarrow> contract_error + digest" where
  "parse_digest s =
     (if utf8_len s \<noteq> 64 \<or> \<not> list_all is_lower_hex s then Inl InvalidDigest
      else case hex_decode s of None \<Rightarrow> Inl InvalidDigest
        | Some bs \<Rightarrow> if length bs \<noteq> 32 then Inl InvalidDigest else Inr bs)"

definition ZERO_DIGEST :: digest where
  "ZERO_DIGEST = replicate 32 0"

subsection \<open>Preimages\<close>

fun be_bytes :: "nat \<Rightarrow> nat \<Rightarrow> byte list" where
  "be_bytes 0 n = []"
| "be_bytes (Suc k) n = be_bytes k (n div 256) @ [n mod 256]"

definition length_frame :: "byte list \<Rightarrow> byte list" where
  "length_frame part = be_bytes 8 (min (length part) 18446744073709551615)"

definition domain_preimage :: "digest_domain \<Rightarrow> byte list \<Rightarrow> byte list" where
  "domain_preimage domain bytes = lit (domain_prefix domain) @ [0] @ bytes"

definition framed_preimage :: "digest_domain \<Rightarrow> byte list list \<Rightarrow> byte list" where
  "framed_preimage domain parts = lit (domain_prefix domain) @ [0] @ concat (map (\<lambda>part. length_frame part @ part) parts)"

definition body_preimage :: "byte list \<Rightarrow> byte list" where
  "body_preimage bytes = lit (domain_prefix (CoreDomain Dom_Body)) @ length_frame bytes @ bytes"

definition domain_separated_digest :: "(byte list \<Rightarrow> digest) \<Rightarrow> digest_domain \<Rightarrow> byte list \<Rightarrow> digest" where
  "domain_separated_digest sha domain bytes = sha (domain_preimage domain bytes)"

definition framed_digest :: "(byte list \<Rightarrow> digest) \<Rightarrow> digest_domain \<Rightarrow> byte list list \<Rightarrow> digest" where
  "framed_digest sha domain parts = sha (framed_preimage domain parts)"

definition body_digest :: "(byte list \<Rightarrow> digest) \<Rightarrow> byte list \<Rightarrow> digest" where
  "body_digest sha bytes = sha (body_preimage bytes)"

definition digest_canonical :: "(ustr \<Rightarrow> ustr) \<Rightarrow> (byte list \<Rightarrow> digest) \<Rightarrow> digest_domain \<Rightarrow> canonical_value
    \<Rightarrow> contract_error + digest" where
  "digest_canonical nfc sha domain v = try_then (canonical_bytes nfc v) (\<lambda>bytes. Inr (domain_separated_digest sha domain bytes))"

end
