(* ===== verification/Digest_Laws.thy ===== *)
theory Digest_Laws
  imports Contract_Digest
begin

section \<open>Preimages determine what was hashed\<close>

text \<open>
  Every prefix is distinct and free of the separator, and the length frames are uniquely decodable, so
  the preimage of a digest determines its domain and its content.
\<close>

definition domains_in_order :: "digest_domain list" where
  "domains_in_order = [
     CoreDomain Dom_AcceptedEvent, RuntimeDomain Dom_ActionAttemptRevalidationV1, RuntimeDomain Dom_ActionAttemptV1,
     RuntimeDomain Dom_ActionAuthorizationV1, RuntimeDomain Dom_ActionProposalV1, RuntimeDomain Dom_ActionReceiptV1,
     RuntimeDomain Dom_ActionVerificationV1, CoreDomain Dom_AppendChain, RuntimeDomain Dom_ArchiveSegmentManifestV1,
     CoreDomain Dom_Body, CoreDomain Dom_BootstrapAttestation, ConnectorDomain Dom_BootstrapManifestV1,
     CoreDomain Dom_BootstrapReceipt, CoreDomain Dom_BootstrapSignerPolicy, CoreDomain Dom_BootstrapStatement,
     CoreDomain Dom_CanonicalProfile, RuntimeDomain Dom_CausalHypothesisV1, RuntimeDomain Dom_CausalMechanismCommitmentV1,
     RuntimeDomain Dom_CausalRatificationV1, ContractDomain Dom_ChunkOccurrenceV1, ConnectorDomain Dom_CiCoverageWindowV1,
     ConnectorDomain Dom_CiProviderFactV1, ConnectorDomain Dom_CiScanManifestV1, ConnectorDomain Dom_CollectedContainerKeyV1,
     ConnectorDomain Dom_CollectedItemContentV1, ConnectorDomain Dom_CollectedItemKeyV1, ConnectorDomain Dom_CollectedItemRevisionV1,
     ConnectorDomain Dom_CollectedItemVersionV1, ConnectorDomain Dom_CollectedObservationManifestV1, ContractDomain Dom_ComparatorLineageV1,
     ContractDomain Dom_ConsolidationPolicyV1, ContractDomain Dom_ConsolidationReceiptV1, ContractDomain Dom_ConsolidationStatementV1,
     ContractDomain Dom_ConsolidationSummaryEnrichmentV1, ConnectorDomain Dom_CoverageProofV2, ContractDomain Dom_CoverageReceipt,
     RuntimeDomain Dom_CursorVectorV1, ContractDomain Dom_DiscrepancyEnvelopeV1, ConnectorDomain Dom_DiscrepancyEpisodeRelationV1,
     ContractDomain Dom_DiscrepancyEpisodeV1, ContractDomain Dom_DiscrepancyFamilyV1, ContractDomain Dom_DiscrepancyLifecycleEventV1,
     ContractDomain Dom_EmbeddingIdentityV1, RuntimeDomain Dom_ErasureEventV1, RuntimeDomain Dom_ErasureFenceV1,
     RuntimeDomain Dom_ErasureReceiptV1, RuntimeDomain Dom_ErasureTombstoneV1, RuntimeDomain Dom_EvidenceCompactionCheckpointV1,
     CoreDomain Dom_EvidenceEnvelope, ConnectorDomain Dom_EvidenceGenesisChainV1, RuntimeDomain Dom_ExemplarSelectionV1,
     ContractDomain Dom_GenerationPointerV1, ContractDomain Dom_Generation2CompositionManifestV1, CoreDomain Dom_GenesisChain,
     CoreDomain Dom_GenesisSuccessorKeyBridgeV1, ConnectorDomain Dom_GitProviderFactV1, ConnectorDomain Dom_GitScanManifestV1,
     ConnectorDomain Dom_IngressDeliveryKeyV1, RuntimeDomain Dom_InterventionSupportV1, RuntimeDomain Dom_LegalHoldV1,
     ConnectorDomain Dom_LexicalProjectionTextV1, CoreDomain Dom_Epoch, RuntimeDomain Dom_LogEpochV2,
     CoreDomain Dom_Partition, ContractDomain Dom_ManifestSupersessionV1, RuntimeDomain Dom_MeasurementReceiptV1,
     ConnectorDomain Dom_NormativeActiveBindingSetV1, ConnectorDomain Dom_NormativeApprovalAttestationV1, CoreDomain Dom_NormativeBindingReceipt,
     RuntimeDomain Dom_NormativeBindingReceiptV2, CoreDomain Dom_NormativeBindingStatement, RuntimeDomain Dom_NormativeBindingStatementV2,
     RuntimeDomain Dom_NormativeContestedV1, ConnectorDomain Dom_NormativeHeadRebaseV1, RuntimeDomain Dom_NormativeLifecycleEventV1,
     ConnectorDomain Dom_NormativeMembershipExpectationV1, ConnectorDomain Dom_NormativeSourceSpanBytesV1, RuntimeDomain Dom_ObserverAdmissionV2,
     RuntimeDomain Dom_ObserverDisagreementV1, RuntimeDomain Dom_ObserverResultV1, ConnectorDomain Dom_ObserverRunInputV1,
     ConnectorDomain Dom_ObserverRunOutputV1, RuntimeDomain Dom_ObserverRunReceiptV1, ConnectorDomain Dom_ObserverRunRecordV1,
     ConnectorDomain Dom_ObserverSourceBlobV1, ContractDomain Dom_ParseManifestV1, ConnectorDomain Dom_ParserContractV2,
     ContractDomain Dom_ParserKeyV1, RuntimeDomain Dom_ProjectionGenerationRecordV1, RuntimeDomain Dom_ProjectionGenerationV1,
     RuntimeDomain Dom_ProjectorCheckpointV1, RuntimeDomain Dom_QuarantineRecordV1, CoreDomain Dom_RegistryActivationApproval,
     CoreDomain Dom_RegistryActivationReceipt, CoreDomain Dom_RegistryActivationStatement, CoreDomain Dom_RegistryActivationStream,
     ContractDomain Dom_RegistryBodySchemaSlotV1, ContractDomain Dom_RegistryContestedResolutionApprovalV1, ContractDomain Dom_RegistryContestedResolutionReceiptV1,
     ContractDomain Dom_RegistryContestedResolutionStatementV1, ContractDomain Dom_RegistryContestedSetV1, CoreDomain Dom_RegistryEntry,
     CoreDomain Dom_RegistryPackage, CoreDomain Dom_RegistrySuccessorActivationApprovalV1, ContractDomain Dom_RegistrySuccessorActivationApprovalV2,
     CoreDomain Dom_RegistrySuccessorActivationReceiptV1, ContractDomain Dom_RegistrySuccessorActivationReceiptV2, CoreDomain Dom_RegistrySuccessorActivationStatementV1,
     ContractDomain Dom_RegistrySuccessorActivationStatementV2, CoreDomain Dom_RegistryTestResult, RuntimeDomain Dom_RelationAdmissionV2,
     CoreDomain Dom_RelationFingerprint, CoreDomain Dom_RememberClaimCoordinateV2, CoreDomain Dom_RememberSemanticClaimV2,
     CoreDomain Dom_EvidenceRepresentation, CoreDomain Dom_EvidenceRepresentationV2, CoreDomain Dom_ResourceLocator,
     RuntimeDomain Dom_SloEvaluationV1, CoreDomain Dom_EvidenceSourceFact, CoreDomain Dom_EvidenceSourceFactV2,
     ContractDomain Dom_SourceSpanV1, ConnectorDomain Dom_SpecCheckRecordV1, ConnectorDomain Dom_SpecCompiledEntryVectorsV1,
     ConnectorDomain Dom_SpecDraftParserArtifactV1, ConnectorDomain Dom_SpecMembershipValueV1, ConnectorDomain Dom_Stage5TargetPackageV1,
     ContractDomain Dom_StorageIdentityV1, CoreDomain Dom_TestVectorManifest, ConnectorDomain Dom_TranscriptTurnRevisionV1]"

fun ascending :: "'a::linorder list \<Rightarrow> bool" where
  "ascending (x # y # zs) \<longleftrightarrow> x < y \<and> ascending (y # zs)"
| "ascending _ \<longleftrightarrow> True"

lemma ascending_distinct: "ascending xs \<Longrightarrow> distinct xs \<and> (\<forall>y\<in>set (tl xs). hd xs < y)"
  by (induction xs rule: ascending.induct) auto

lemma domain_listed: "d \<in> set domains_in_order"
proof (cases d)
  case (CoreDomain c)
  show ?thesis unfolding CoreDomain domains_in_order_def by (cases c) simp_all
next
  case (ContractDomain c)
  show ?thesis unfolding ContractDomain domains_in_order_def by (cases c) simp_all
next
  case (RuntimeDomain c)
  show ?thesis unfolding RuntimeDomain domains_in_order_def by (cases c) simp_all
next
  case (ConnectorDomain c)
  show ?thesis unfolding ConnectorDomain domains_in_order_def by (cases c) simp_all
qed

lemma prefixes_ascending: "ascending (map (\<lambda>d. lit (domain_prefix d)) domains_in_order)"
  by (simp add: domains_in_order_def lit_def)

lemma prefix_inject: "domain_prefix d = domain_prefix e \<longleftrightarrow> d = e"
proof -
  have "inj_on (\<lambda>d. lit (domain_prefix d)) (set domains_in_order)"
    using ascending_distinct [OF prefixes_ascending] by (simp add: distinct_map)
  then show ?thesis using domain_listed [of d] domain_listed [of e] by (metis (no_types, lifting) inj_onD)
qed

lemma prefix_no_separator: "0 \<notin> set (lit (domain_prefix d))"
proof -
  have "list_all (\<lambda>p. list_all ((<) 0) p) (map (\<lambda>d. lit (domain_prefix d)) domains_in_order)"
    by (simp add: domains_in_order_def lit_def)
  then show ?thesis using domain_listed [of d] by (auto simp: list_all_iff)
qed

lemma separator_split:
  "0 \<notin> set p \<Longrightarrow> 0 \<notin> set q \<Longrightarrow> p @ 0 # r = q @ 0 # s \<longleftrightarrow> p = q \<and> r = s" for r s :: "byte list"
  by (induction p arbitrary: q) (case_tac q; auto)+

lemma separated_inject:
  "lit (domain_prefix d) @ 0 # r = lit (domain_prefix e) @ 0 # s \<longleftrightarrow> d = e \<and> r = s"
  by (simp add: separator_split prefix_no_separator prefix_inject)

lemma domain_preimage_inject: "domain_preimage d r = domain_preimage e s \<longleftrightarrow> d = e \<and> r = s"
  by (simp add: domain_preimage_def separated_inject)

subsection \<open>Length frames\<close>

lemma length_be_bytes [simp]: "length (be_bytes k n) = k"
  by (induction k arbitrary: n) simp_all

lemma be_bytes_inject: "n < 256 ^ k \<Longrightarrow> m < 256 ^ k \<Longrightarrow> be_bytes k n = be_bytes k m \<longleftrightarrow> n = m"
proof (induction k arbitrary: n m)
  case (Suc k)
  have "n div 256 < 256 ^ k" "m div 256 < 256 ^ k" using Suc.prems by (simp_all add: less_mult_imp_div_less mult.commute)
  from Suc.IH [OF this] show ?case by (auto dest: div_mod_unique)
qed simp

lemma be_bytes_small: "n < 256 ^ k \<Longrightarrow> be_bytes (Suc k) n = 0 # be_bytes k n"
proof (induction k arbitrary: n)
  case (Suc k)
  then have "n div 256 < 256 ^ k" by (simp add: less_mult_imp_div_less mult.commute)
  from Suc.IH [OF this] show ?case by simp
qed simp

definition framable :: "byte list \<Rightarrow> bool" where
  "framable part \<longleftrightarrow> length part \<le> 18446744073709551615"

lemma length_frame_simps: "framable p \<Longrightarrow> length_frame p = be_bytes 8 (length p)" "length (length_frame p) = 8"
  by (simp_all add: length_frame_def framable_def)

lemma framed_part:
  assumes "framable p" and "framable q" and "length_frame p @ p @ r = length_frame q @ q @ s"
  shows "p = q \<and> r = s"
proof -
  have "length_frame p = length_frame q \<and> p @ r = q @ s"
    using assms(3) by (simp add: append_eq_append_conv length_frame_simps(2))
  moreover from this have "length p = length q"
    using assms(1,2) be_bytes_inject [of "length p" 8 "length q"] by (simp add: length_frame_simps(1) framable_def)
  ultimately show ?thesis by (simp add: append_eq_append_conv)
qed

lemma frames_inject:
  "\<forall>p\<in>set ps. framable p \<Longrightarrow> \<forall>q\<in>set qs. framable q \<Longrightarrow>
     concat (map (\<lambda>p. length_frame p @ p) ps) = concat (map (\<lambda>p. length_frame p @ p) qs) \<longleftrightarrow> ps = qs"
proof (induction ps arbitrary: qs)
  case Nil
  have "length_frame q \<noteq> []" for q using length_frame_simps(2) [of q] by auto
  then show ?case by (cases qs) auto
next
  case (Cons p ps)
  have ne: "length_frame p \<noteq> []" using length_frame_simps(2) [of p] by auto
  show ?case
  proof (cases qs)
    case (Cons q qs')
    then show ?thesis
      using framed_part [of p q] Cons.IH [of qs'] Cons.prems by auto
  qed (use ne in simp)
qed

lemma framed_preimage_inject:
  "\<forall>p\<in>set ps. framable p \<Longrightarrow> \<forall>q\<in>set qs. framable q \<Longrightarrow>
     framed_preimage d ps = framed_preimage e qs \<longleftrightarrow> d = e \<and> ps = qs"
  by (auto simp: framed_preimage_def separated_inject frames_inject)

text \<open>A body's preimage has no separator of its own; the leading zero of its length takes its place.\<close>

lemma body_preimage_domain:
  "length b < 256 ^ 7 \<Longrightarrow> body_preimage b = domain_preimage (CoreDomain Dom_Body) (be_bytes 7 (length b) @ b)"
  using be_bytes_small [of "length b" 7]
  by (simp add: body_preimage_def domain_preimage_def length_frame_simps(1) framable_def)

subsection \<open>The wire form of a digest\<close>

lemma hex_decode_to_hex: "\<forall>b\<in>set bs. b < 256 \<Longrightarrow> hex_decode (to_hex bs) = Some bs"
  by (induction bs) (simp_all add: to_hex_def)

lemma hex_digit_unhex: "is_lower_hex c \<Longrightarrow> hex_digit (unhex c) = c \<and> unhex c < 16"
  by (auto simp: is_lower_hex_def is_ascii_digit_def hex_digit_def unhex_def)

lemma to_hex_hex_decode: "list_all is_lower_hex s \<Longrightarrow> hex_decode s = Some bs \<Longrightarrow> to_hex bs = s \<and> (\<forall>b\<in>set bs. b < 256)"
proof (induction s arbitrary: bs rule: hex_decode.induct)
  case (3 a b s)
  then obtain cs where bs: "bs = (unhex a * 16 + unhex b) # cs" and c: "hex_decode s = Some cs" by auto
  have "to_hex cs = s \<and> (\<forall>b\<in>set cs. b < 256)" using "3.IH" [OF _ c] "3.prems"(1) by simp
  moreover have "hex_digit (unhex a) = a" "unhex a < 16" "hex_digit (unhex b) = b" "unhex b < 16"
    using hex_digit_unhex "3.prems"(1) by simp_all
  ultimately show ?case unfolding bs by (simp add: to_hex_def)
qed (simp_all add: to_hex_def)

lemma hex_digit_lower: "d < 16 \<Longrightarrow> is_lower_hex (hex_digit d)"
  by (simp add: hex_digit_def is_lower_hex_def is_ascii_digit_def)

lemma to_hex_lower: "\<forall>b\<in>set bs. b < 256 \<Longrightarrow> list_all is_lower_hex (to_hex bs) \<and> length (to_hex bs) = 2 * length bs"
  by (induction bs) (simp_all add: to_hex_def hex_digit_lower less_mult_imp_div_less)

lemma utf8_len_ascii: "\<forall>c\<in>set s. c < 128 \<Longrightarrow> utf8_len s = length s"
  by (induction s) (simp_all add: utf8_len_def utf8_char_len_def)

lemma lower_hex_ascii: "list_all is_lower_hex s \<Longrightarrow> utf8_len s = length s"
  by (rule utf8_len_ascii) (auto simp: list_all_iff is_lower_hex_def is_ascii_digit_def)

lemma parse_digest_iff:
  "parse_digest s = Inr d \<longleftrightarrow> length d = 32 \<and> (\<forall>b\<in>set d. b < 256) \<and> s = to_hex d"
proof
  assume "parse_digest s = Inr d"
  then have "list_all is_lower_hex s" "hex_decode s = Some d" "length d = 32"
    by (auto simp: parse_digest_def split: if_splits option.splits)
  with to_hex_hex_decode show "length d = 32 \<and> (\<forall>b\<in>set d. b < 256) \<and> s = to_hex d" by blast
next
  assume d: "length d = 32 \<and> (\<forall>b\<in>set d. b < 256) \<and> s = to_hex d"
  then have "list_all is_lower_hex s" "length s = 64" using to_hex_lower [of d] by simp_all
  then show "parse_digest s = Inr d"
    using d hex_decode_to_hex [of d] lower_hex_ascii [of s] by (simp add: parse_digest_def)
qed

end
