(* ===== verification/Contract_Common.thy ===== *)
theory Contract_Common
  imports Digest_Laws
begin

section \<open>Scalars of the memory contracts\<close>

text \<open>
  \<^verbatim>\<open>memory_contracts/common.rs\<close> and the typed decoding of \<^verbatim>\<open>canonical.rs\<close>. The record \<open>contract_env\<close> holds what
  third-party crates compute: Unicode normalisation, the JSON reader, SHA-256, and chrono's reading and
  writing of RFC 3339 instants as nanoseconds. A \<open>codec\<close> is the serde code of one schema.
\<close>

record contract_env =
  ce_nfc :: "ustr \<Rightarrow> ustr"
  ce_read :: "byte list \<Rightarrow> raw_json option"
  ce_sha :: "byte list \<Rightarrow> digest"
  ce_instant :: "ustr \<Rightarrow> int option"
  ce_render :: "int \<Rightarrow> ustr"

record 'a codec =
  to_vec :: "'a \<Rightarrow> byte list option"
  from_slice :: "byte list \<Rightarrow> 'a option"

abbreviation encode_typed :: "contract_env \<Rightarrow> 'a codec \<Rightarrow> 'a \<Rightarrow> contract_error + byte list" where
  "encode_typed en c x \<equiv> encode_canonical (ce_nfc en) (ce_read en) (to_vec c) x"

abbreviation decode_typed :: "contract_env \<Rightarrow> 'a codec \<Rightarrow> byte list \<Rightarrow> contract_error + 'a" where
  "decode_typed en c b \<equiv> decode_strict (ce_nfc en) (ce_read en) (from_slice c) b"

text \<open>The serde code of a schema reads back what it wrote.\<close>

definition schema_round_trip :: "contract_env \<Rightarrow> 'a codec \<Rightarrow> bool" where
  "schema_round_trip en c \<longleftrightarrow> (\<forall>x b. encode_typed en c x = Inr b \<longrightarrow> decode_typed en c b = Inr x)"

lemma encode_typed_inject:
  "schema_round_trip en c \<Longrightarrow> encode_typed en c x = Inr b \<Longrightarrow> encode_typed en c y = Inr b \<Longrightarrow> x = y"
  unfolding schema_round_trip_def by (metis Inr_inject)

subsection \<open>Strictly sorted vectors\<close>

definition strictly_sorted :: "'a::linorder list \<Rightarrow> bool" where
  "strictly_sorted values \<longleftrightarrow> list_all (\<lambda>(a, b). a < b) (zip values (tl values))"

lemma strictly_sorted_iff: "strictly_sorted xs \<longleftrightarrow> sorted_wrt (<) xs"
proof (induction xs)
  case (Cons x xs)
  then show ?case by (cases xs) (auto simp: strictly_sorted_def intro: less_trans)
qed (simp add: strictly_sorted_def)

lemma strictly_sorted_distinct: "strictly_sorted xs \<Longrightarrow> distinct xs"
  by (simp add: strictly_sorted_iff strict_sorted_iff)

subsection \<open>Typed documents with their bytes\<close>

record 'a canonical_typed =
  ct_value :: 'a
  ct_bytes :: "byte list"

definition canonical_typed_decode :: "contract_env \<Rightarrow> 'a codec \<Rightarrow> byte list \<Rightarrow> contract_error + 'a canonical_typed" where
  "canonical_typed_decode en c input =
     try_then (require_canonical (ce_nfc en) (ce_read en) input) (\<lambda>document.
     try_then (ok_or (from_slice c (doc_bytes document)) (Schema ''{error}'')) (\<lambda>value.
     try_then (encode_typed en c value) (\<lambda>bytes.
       if bytes \<noteq> input then Inl NotCanonical else Inr \<lparr>ct_value = value, ct_bytes = bytes\<rparr>)))"

subsection \<open>Identifiers\<close>

type_synonym contract_id = ustr

definition is_ascii_lowercase :: "nat \<Rightarrow> bool" where
  "is_ascii_lowercase b \<longleftrightarrow> 97 \<le> b \<and> b \<le> 122"

definition utf8_bytes :: "ustr \<Rightarrow> byte list" where
  "utf8_bytes s = concat (map encode_utf8 s)"

definition validate_contract_id :: "contract_env \<Rightarrow> ustr \<Rightarrow> contract_error + unit" where
  "validate_contract_id en value =
     (if value = [] \<or> utf8_len value > 128 \<or> ce_nfc en value \<noteq> value then Inl (InvalidIdentifier value)
      else let bytes = utf8_bytes value;
        valid_first = is_ascii_lowercase (hd bytes);
        valid_rest = list_all (\<lambda>b. is_ascii_lowercase b \<or> is_ascii_digit b \<or> b \<in> {95, 45, 46}) (tl bytes)
      in if \<not> valid_first \<or> \<not> valid_rest then Inl (InvalidIdentifier value) else Inr ())"

definition new_contract_id :: "contract_env \<Rightarrow> ustr \<Rightarrow> contract_error + contract_id" where
  "new_contract_id en value = try_then (validate_contract_id en value) (\<lambda>_. Inr value)"

subsection \<open>Profiles, registry references and scopes\<close>

abbreviation "PROFILE_ID \<equiv> lit ''ostk-canonical-json-v1''"

definition FROZEN_PROFILE_DIGEST :: digest where
  "FROZEN_PROFILE_DIGEST = [207, 34, 153, 26, 134, 191, 197, 96, 85, 108, 125, 4, 239, 164, 238, 107,
     123, 30, 224, 244, 156, 145, 155, 37, 126, 167, 180, 243, 15, 142, 74, 41]"

definition FROZEN_VECTOR_MANIFEST_DIGEST :: digest where
  "FROZEN_VECTOR_MANIFEST_DIGEST = [249, 132, 246, 40, 102, 252, 118, 157, 243, 165, 97, 122, 34, 71, 227, 173,
     230, 148, 130, 124, 29, 230, 158, 97, 90, 123, 218, 104, 133, 139, 65, 116]"

record profile_reference =
  pr_profile_id :: contract_id
  pr_profile_digest :: digest
  pr_vector_manifest_digest :: digest

definition frozen_profile_reference :: profile_reference where
  "frozen_profile_reference = \<lparr>pr_profile_id = PROFILE_ID, pr_profile_digest = FROZEN_PROFILE_DIGEST,
     pr_vector_manifest_digest = FROZEN_VECTOR_MANIFEST_DIGEST\<rparr>"

definition validate_profile :: "profile_reference \<Rightarrow> contract_error + unit" where
  "validate_profile p = (if pr_profile_id p \<noteq> PROFILE_ID then Inl ProfileMismatch else Inr ())"

definition require_frozen_runtime_profile :: "profile_reference \<Rightarrow> contract_error + unit" where
  "require_frozen_runtime_profile p =
     try_then (validate_profile p) (\<lambda>_.
       if pr_profile_digest p \<noteq> FROZEN_PROFILE_DIGEST \<or> pr_vector_manifest_digest p \<noteq> FROZEN_VECTOR_MANIFEST_DIGEST
       then Inl ProfileMismatch else Inr ())"

record registry_reference =
  rr_entry_id :: contract_id
  rr_version :: nat
  rr_entry_digest :: digest

definition validate_registry_reference :: "registry_reference \<Rightarrow> contract_error + unit" where
  "validate_registry_reference r =
     (if rr_version r = 0 then Inl (Schema ''registry entry version must be positive'') else Inr ())"

record project_scope =
  ps_tenant_namespace :: contract_id
  ps_project_namespace :: contract_id

subsection \<open>Timestamps\<close>

type_synonym timestamp = ustr

abbreviation byte_at :: "byte list \<Rightarrow> nat \<Rightarrow> byte option" where
  "byte_at bs i \<equiv> (if i < length bs then Some (bs ! i) else None)"

definition timestamp_shape :: "byte list \<Rightarrow> bool" where
  "timestamp_shape bytes \<longleftrightarrow>
     (length bytes = 30 \<and> byte_at bytes 4 = Some 45 \<and> byte_at bytes 7 = Some 45 \<and> byte_at bytes 10 = Some 84
        \<and> byte_at bytes 13 = Some 58 \<and> byte_at bytes 16 = Some 58 \<and> byte_at bytes 19 = Some 46 \<and> byte_at bytes 29 = Some 90)
     \<and> list_all (\<lambda>i. i \<in> {4, 7, 10, 13, 16, 19, 29} \<or> is_ascii_digit (bytes ! i)) [0..<length bytes]"

text \<open>Once the shape is right the string is ASCII, so its bytes are its characters.\<close>

definition parse_timestamp :: "contract_env \<Rightarrow> ustr \<Rightarrow> contract_error + timestamp" where
  "parse_timestamp en value =
     (if \<not> timestamp_shape (utf8_bytes value) \<or> take 4 value = lit ''0000'' \<or> take 2 (drop 17 value) = lit ''60''
      then Inl (Schema ''timestamp is not canonical UTC'')
      else try_then (ok_or (ce_instant en value) (Schema ''timestamp is not canonical UTC'')) (\<lambda>parsed.
        let canonical = ce_render en parsed in
        if value \<noteq> canonical \<or> utf8_len value \<noteq> 30 then Inl (Schema ''timestamp is not canonical UTC'') else Inr value))"

definition is_microsecond_aligned :: "timestamp \<Rightarrow> bool" where
  "is_microsecond_aligned t \<longleftrightarrow> take 3 (drop 26 t) = lit ''000''"

definition timestamp_from_datetime :: "contract_env \<Rightarrow> int \<Rightarrow> contract_error + timestamp" where
  "timestamp_from_datetime en t = parse_timestamp en (ce_render en t)"

subsection \<open>Decimals and byte strings\<close>

definition all_digits :: "ustr \<Rightarrow> bool" where
  "all_digits s \<longleftrightarrow> list_all is_ascii_digit s"

definition is_canonical_decimal :: "ustr \<Rightarrow> bool" where
  "is_canonical_decimal value =
     (if value = [] \<or> utf8_len value > 128 \<or> take 1 value = [43] \<or> 101 \<in> set value \<or> 69 \<in> set value then False
      else let unsigned = (if take 1 value = [45] then tl value else value) in
        if unsigned = [48] then value = [48]
        else let integer = takeWhile (\<lambda>c. c \<noteq> 46) unsigned;
          fraction = (case dropWhile (\<lambda>c. c \<noteq> 46) unsigned of [] \<Rightarrow> None | _ # f \<Rightarrow> Some f)
        in if integer = [] \<or> (hd integer = 48 \<and> integer \<noteq> [48]) \<or> \<not> all_digits integer then False
          else case fraction of None \<Rightarrow> True
            | Some f \<Rightarrow> f \<noteq> [] \<and> last f \<noteq> 48 \<and> all_digits f)"

definition parse_decimal :: "ustr \<Rightarrow> contract_error + ustr" where
  "parse_decimal value =
     (if \<not> is_canonical_decimal value then Inl (Schema ''invalid canonical decimal string'') else Inr value)"

abbreviation "MAX_HEX_BYTES \<equiv> (4096::nat)"
abbreviation "MAX_EXTENDED_HEX_BYTES \<equiv> (65536::nat)"

definition new_bounded_hex :: "byte list \<Rightarrow> nat \<Rightarrow> contract_error + byte list" where
  "new_bounded_hex bytes max_len =
     (if max_len = 0 \<or> max_len > MAX_EXTENDED_HEX_BYTES then Inl (Schema ''hex byte string bound is invalid'')
      else if bytes = [] \<or> length bytes > max_len then Inl (Schema ''hex byte string length is invalid'')
      else Inr bytes)"

definition new_hex :: "byte list \<Rightarrow> contract_error + byte list" where
  "new_hex bytes = new_bounded_hex bytes MAX_HEX_BYTES"

text \<open>The wire decoder of \<^verbatim>\<open>HexBytes\<close>; serde wraps every failure in an error of its own.\<close>

definition deserialize_hex :: "ustr \<Rightarrow> byte list option" where
  "deserialize_hex value =
     (if utf8_len value mod 2 \<noteq> 0 \<or> \<not> list_all is_lower_hex value then None
      else case hex_decode value of None \<Rightarrow> None
        | Some bytes \<Rightarrow> (case new_hex bytes of Inl _ \<Rightarrow> None | Inr b \<Rightarrow> Some b))"

text \<open>Fixed-length values, \<^verbatim>\<open>FixedHex32\<close> and \<^verbatim>\<open>FixedHex64\<close>.\<close>

definition deserialize_fixed_hex :: "nat \<Rightarrow> ustr \<Rightarrow> byte list option" where
  "deserialize_fixed_hex len value =
     (if utf8_len value \<noteq> len * 2 \<or> \<not> list_all is_lower_hex value then None
      else case hex_decode value of None \<Rightarrow> None
        | Some bytes \<Rightarrow> if length bytes \<noteq> len then None else Some bytes)"

end
