(* ===== verification/Base64.thy ===== *)
theory Base64
  imports Contract_Common
begin

section \<open>Strict base64\<close>

text \<open>
  \<^verbatim>\<open>encoding/base64.rs\<close>: the standard padded alphabet and the URL-safe unpadded form of JOSE. A byte is a
  \<open>nat\<close> below 256 and a text its list of bytes; the shifts and disjunctions of the source are the bit
  operations on \<open>nat\<close>, whose operands stay below 2 to the 24. The padding loop of \<open>decode_url\<close> has no
  bound in the source: it is a partial function, and that it returns is proved.
\<close>

unbundle bit_operations_syntax

definition ALPHABET :: "byte list" where
  "ALPHABET = lit ''ABCDEFGHIJKLMNOPQRSTUVWXYZabcdefghijklmnopqrstuvwxyz0123456789+/''"

definition sextet :: "byte \<Rightarrow> nat option" where
  "sextet byte =
     (if 65 \<le> byte \<and> byte \<le> 90 then Some (byte - 65)
      else if 97 \<le> byte \<and> byte \<le> 122 then Some (byte - 97 + 26)
      else if 48 \<le> byte \<and> byte \<le> 57 then Some (byte - 48 + 52)
      else if byte = 43 then Some 62
      else if byte = 47 then Some 63
      else None)"

text \<open>One group of at most three bytes.\<close>

definition encode_chunk :: "byte list \<Rightarrow> byte list" where
  "encode_chunk chunk =
     (let group = (\<lambda>i. if i < length chunk then chunk ! i else 0);
        bits = push_bit 16 (group 0) OR push_bit 8 (group 1) OR group 2
      in map (\<lambda>index. if index \<le> length chunk then ALPHABET ! (drop_bit (18 - 6 * index) bits AND 63) else 61) [0..<4])"

fun base64_encode :: "byte list \<Rightarrow> byte list" where
  "base64_encode [] = []"
| "base64_encode bytes = encode_chunk (take 3 bytes) @ base64_encode (drop 3 bytes)"

fun read_sextets :: "byte list \<Rightarrow> nat list option" where
  "read_sextets [] = Some []"
| "read_sextets (b # bs) = (case sextet b of None \<Rightarrow> None | Some v \<Rightarrow> map_option ((#) v) (read_sextets bs))"

definition decode_chunk :: "bool \<Rightarrow> byte list \<Rightarrow> byte list option" where
  "decode_chunk last_quantum chunk =
     (let padding = length (takeWhile (\<lambda>b. b = 61) (rev chunk)) in
      if padding > 2 \<or> (padding > 0 \<and> \<not> last_quantum) then None
      else case read_sextets (take (4 - padding) chunk) of None \<Rightarrow> None
        | Some read \<Rightarrow>
            (let sextets = read @ replicate (4 - length read) 0;
               bits = push_bit 18 (sextets ! 0) OR push_bit 12 (sextets ! 1) OR push_bit 6 (sextets ! 2) OR sextets ! 3;
               first = drop_bit 16 bits AND 255; second = drop_bit 8 bits AND 255; third = bits AND 255
             in if padding = 0 then Some [first, second, third]
                else if padding = 1 \<and> third = 0 then Some [first, second]
                else if padding = 2 \<and> second = 0 \<and> third = 0 then Some [first]
                else None))"

text \<open>The loop over the chunks of four bytes, with the index of the chunk.\<close>

function decode_quanta :: "nat \<Rightarrow> nat \<Rightarrow> byte list \<Rightarrow> byte list option" where
  "decode_quanta quanta index bytes =
     (if bytes = [] then Some []
      else case decode_chunk (index + 1 = quanta) (take 4 bytes) of None \<Rightarrow> None
        | Some out \<Rightarrow> map_option ((@) out) (decode_quanta quanta (index + 1) (drop 4 bytes)))"
  by pat_completeness auto
termination by (relation "measure (\<lambda>(_, _, bytes). length bytes)") auto

declare decode_quanta.simps [simp del]

definition base64_decode :: "byte list \<Rightarrow> byte list option" where
  "base64_decode bytes = (if length bytes mod 4 \<noteq> 0 then None else decode_quanta (length bytes div 4) 0 bytes)"

subsection \<open>The URL-safe form\<close>

definition trim_padding :: "byte list \<Rightarrow> byte list" where
  "trim_padding text = rev (dropWhile (\<lambda>b. b = 61) (rev text))"

definition replace_byte :: "byte \<Rightarrow> byte \<Rightarrow> byte list \<Rightarrow> byte list" where
  "replace_byte old new bs = map (\<lambda>b. if b = old then new else b) bs"

definition encode_url :: "byte list \<Rightarrow> byte list" where
  "encode_url bytes = replace_byte 47 95 (replace_byte 43 45 (trim_padding (base64_encode bytes)))"

partial_function (option) pad_standard :: "byte list \<Rightarrow> byte list option" where
  "pad_standard standard = (if length standard mod 4 = 0 then Some standard else pad_standard (standard @ [61]))"

definition url_character :: "byte \<Rightarrow> bool" where
  "url_character b \<longleftrightarrow> (65 \<le> b \<and> b \<le> 90) \<or> (97 \<le> b \<and> b \<le> 122) \<or> (48 \<le> b \<and> b \<le> 57) \<or> b = 45 \<or> b = 95"

text \<open>The outer option is whether the call returns, the inner one what it returns.\<close>

definition decode_url :: "byte list \<Rightarrow> byte list option option" where
  "decode_url text =
     (if length text mod 4 = 1 \<or> \<not> list_all url_character text then Some None
      else let standard = replace_byte 95 47 (replace_byte 45 43 text)
      in map_option base64_decode (pad_standard standard))"

subsection \<open>The alphabet\<close>

definition is_octet :: "byte list \<Rightarrow> bool" where
  "is_octet bs \<longleftrightarrow> (\<forall>b\<in>set bs. b < 256)"

lemma alphabet_nth:
  assumes "v < 64"
  shows "ALPHABET ! v = (if v < 26 then 65 + v else if v < 52 then 71 + v else if v < 62 then v - 4 else if v = 62 then 43 else 47)"
proof -
  have "list_all (\<lambda>v. ALPHABET ! v = (if v < 26 then 65 + v else if v < 52 then 71 + v else if v < 62 then v - 4
      else if v = 62 then 43 else 47)) [0..<64]"
    by (simp add: ALPHABET_def lit_def upt_rec)
  then show ?thesis using assms by (simp add: list_all_iff)
qed

lemma sextet_alphabet: "v < 64 \<Longrightarrow> sextet (ALPHABET ! v) = Some v"
  by (auto simp: alphabet_nth sextet_def)

lemma sextet_Some: "sextet b = Some v \<Longrightarrow> v < 64 \<and> ALPHABET ! v = b \<and> b \<noteq> 61"
  by (auto simp: sextet_def alphabet_nth split: if_splits)

lemma alphabet_not_padding: "v < 64 \<Longrightarrow> ALPHABET ! v \<noteq> 61"
  using sextet_alphabet sextet_Some by blast

subsection \<open>Bits as digits\<close>

lemma or_as_sum: "y < 2 ^ n \<Longrightarrow> push_bit n x OR y = x * 2 ^ n + y" for x y :: nat
proof -
  assume y: "y < 2 ^ n"
  have "push_bit n x AND y = 0"
  proof (rule bit_eqI)
    fix m
    have "\<not> bit y m" if "n \<le> m"
    proof -
      have "take_bit n y = y" using y by (simp add: take_bit_nat_eq_self_iff)
      then have "bit y m \<longleftrightarrow> m < n \<and> bit y m" by (metis bit_take_bit_iff)
      then show ?thesis using that by simp
    qed
    then show "bit (push_bit n x AND y) m \<longleftrightarrow> bit 0 m" by (auto simp: bit_and_iff bit_push_bit_iff)
  qed
  then show ?thesis by (simp add: disjunctive_add_eq_or [symmetric] push_bit_eq_mult)
qed

lemma and_low: "x AND 63 = x mod 64" "x AND 255 = x mod 256" for x :: nat
  using take_bit_eq_mask [of 6 x] take_bit_eq_mask [of 8 x] by (simp_all add: take_bit_eq_mod mask_eq_exp_minus_1)

lemma group_bits:
  "a < 256 \<Longrightarrow> b < 256 \<Longrightarrow> c < 256 \<Longrightarrow> push_bit 16 a OR push_bit 8 b OR c = a * 65536 + b * 256 + c" for a b c :: nat
  by (simp add: or_as_sum)

lemma sextet_bits:
  "a < 64 \<Longrightarrow> b < 64 \<Longrightarrow> c < 64 \<Longrightarrow> d < 64 \<Longrightarrow>
     push_bit 18 a OR push_bit 12 b OR push_bit 6 c OR d = a * 262144 + b * 4096 + c * 64 + d" for a b c d :: nat
  by (simp add: or_as_sum)

lemma digit: "r < k \<Longrightarrow> (x * k + r) div k = x" "r < k \<Longrightarrow> (x * k + r) mod k = r" for x k r :: nat
  by simp_all

lemma sextets_of: "n < 16777216 \<Longrightarrow>
    n div 262144 mod 64 * 262144 + n div 4096 mod 64 * 4096 + n div 64 mod 64 * 64 + n mod 64 = n" for n :: nat
proof -
  assume "n < 16777216"
  then have top: "n div 262144 mod 64 = n div 262144" by simp
  have "n div 64 div 64 = n div 4096" "n div 4096 div 64 = n div 262144" by (simp_all flip: div_mult2_eq)
  then have "n = n div 64 * 64 + n mod 64" "n div 64 = n div 4096 * 64 + n div 64 mod 64"
      "n div 4096 = n div 262144 * 64 + n div 4096 mod 64"
    using div_mult_mod_eq [of n 64] div_mult_mod_eq [of "n div 64" 64] div_mult_mod_eq [of "n div 4096" 64] by simp_all
  then show ?thesis unfolding top by linarith
qed

lemma octets_of: "n < 16777216 \<Longrightarrow> n div 65536 mod 256 * 65536 + n div 256 mod 256 * 256 + n mod 256 = n" for n :: nat
proof -
  assume "n < 16777216"
  then have top: "n div 65536 mod 256 = n div 65536" by simp
  have "n div 256 div 256 = n div 65536" by (simp flip: div_mult2_eq)
  then have "n = n div 256 * 256 + n mod 256" "n div 256 = n div 65536 * 256 + n div 256 mod 256"
    using div_mult_mod_eq [of n 256] div_mult_mod_eq [of "n div 256" 256] by simp_all
  then show ?thesis unfolding top by linarith
qed

lemma group_digits:
  fixes a b c :: nat
  assumes "a < 256" and "b < 256" and "c < 256"
  defines "n \<equiv> a * 65536 + b * 256 + c"
  shows "n div 65536 mod 256 = a" and "n div 256 mod 256 = b" and "n mod 256 = c" and "n < 16777216"
proof -
  have n: "n = a * 65536 + (b * 256 + c)" "n = (a * 256 + b) * 256 + c" by (simp_all add: n_def algebra_simps)
  show "n div 65536 mod 256 = a" using digit(1) [of "b * 256 + c" 65536 a] assms(1-3) unfolding n(1) by simp
  show "n div 256 mod 256 = b" using digit [of c 256 "a * 256 + b"] digit(2) [of b 256 a] assms(2,3) unfolding n(2) by simp
  show "n mod 256 = c" using digit [of c 256 "a * 256 + b"] assms(3) unfolding n(2) by simp
  show "n < 16777216" using assms by simp
qed

lemma sextet_digits:
  fixes a b c d :: nat
  assumes "a < 64" and "b < 64" and "c < 64" and "d < 64"
  defines "n \<equiv> a * 262144 + b * 4096 + c * 64 + d"
  shows "n div 262144 mod 64 = a" and "n div 4096 mod 64 = b" and "n div 64 mod 64 = c" and "n mod 64 = d" and "n < 16777216"
proof -
  have n: "n = a * 262144 + (b * 4096 + c * 64 + d)" "n = (a * 64 + b) * 4096 + (c * 64 + d)"
      "n = (a * 4096 + b * 64 + c) * 64 + d" by (simp_all add: n_def algebra_simps)
  have c: "a * 4096 + b * 64 + c = (a * 64 + b) * 64 + c" by simp
  show "n div 262144 mod 64 = a" using digit(1) [of "b * 4096 + c * 64 + d" 262144 a] assms(1-4) unfolding n(1) by simp
  show "n div 4096 mod 64 = b"
    using digit(1) [of "c * 64 + d" 4096 "a * 64 + b"] digit(2) [of b 64 a] assms(2-4) unfolding n(2) by simp
  show "n div 64 mod 64 = c"
    using digit(1) [of d 64 "a * 4096 + b * 64 + c"] digit(2) [of c 64 "a * 64 + b"] assms(3,4) unfolding n(3) c by simp
  show "n mod 64 = d" using digit(2) [of d 64 "a * 4096 + b * 64 + c"] assms(4) unfolding n(3) by simp
  show "n < 16777216" using assms by simp
qed

subsection \<open>One chunk\<close>

abbreviation sextets_of_bits :: "nat \<Rightarrow> nat list" where
  "sextets_of_bits n \<equiv> [n div 262144 mod 64, n div 4096 mod 64, n div 64 mod 64, n mod 64]"

lemma encode_chunk_simps:
  assumes "a < 256" and "b < 256" and "c < 256"
  shows "encode_chunk [a, b, c] = map ((!) ALPHABET) (sextets_of_bits (a * 65536 + b * 256 + c))"
    and "encode_chunk [a, b] = map ((!) ALPHABET) (take 3 (sextets_of_bits (a * 65536 + b * 256))) @ [61]"
    and "encode_chunk [a] = map ((!) ALPHABET) (take 2 (sextets_of_bits (a * 65536))) @ [61, 61]"
proof -
  have four: "[0..<4] = [0, 1, 2, 3 :: nat]" by (simp add: upt_rec)
  have b2: "push_bit 16 a OR push_bit 8 b OR 0 = a * 65536 + b * 256" "push_bit 16 a OR push_bit 8 0 OR 0 = a * 65536"
    using group_bits [of a b 0] group_bits [of a 0 0] assms by simp_all
  show "encode_chunk [a, b, c] = map ((!) ALPHABET) (sextets_of_bits (a * 65536 + b * 256 + c))"
    using group_bits [OF assms] unfolding encode_chunk_def four by (simp add: Let_def and_low drop_bit_eq_div)
  show "encode_chunk [a, b] = map ((!) ALPHABET) (take 3 (sextets_of_bits (a * 65536 + b * 256))) @ [61]"
    using b2(1) unfolding encode_chunk_def four by (simp add: Let_def and_low drop_bit_eq_div)
  show "encode_chunk [a] = map ((!) ALPHABET) (take 2 (sextets_of_bits (a * 65536))) @ [61, 61]"
    using b2(2) unfolding encode_chunk_def four by (simp add: Let_def and_low drop_bit_eq_div)
qed

lemma read_sextets_alphabet: "\<forall>v\<in>set vs. v < 64 \<Longrightarrow> read_sextets (map ((!) ALPHABET) vs) = Some vs"
  by (induction vs) (simp_all add: sextet_alphabet)

lemma read_sextets_Some:
  "read_sextets bs = Some vs \<Longrightarrow> bs = map ((!) ALPHABET) vs \<and> (\<forall>v\<in>set vs. v < 64)"
proof (induction bs arbitrary: vs)
  case (Cons b bs)
  then obtain v ws where "sextet b = Some v" "read_sextets bs = Some ws" "vs = v # ws" by (auto split: option.splits)
  then show ?case using sextet_Some [of b v] Cons.IH [of ws] by simp
qed simp

lemma sextet_chunk_bits:
  assumes "w < 64" and "x < 64" and "y < 64" and "z < 64"
  defines "n \<equiv> w * 262144 + x * 4096 + y * 64 + z"
  shows "push_bit 18 w OR push_bit 12 x OR push_bit 6 y OR z = n" and "sextets_of_bits n = [w, x, y, z]"
  using sextet_bits [OF assms(1-4)] sextet_digits [OF assms(1-4)] by (simp_all add: n_def)

text \<open>What each padding makes of the characters before it.\<close>

definition octets_of_bits :: "nat \<Rightarrow> nat list" where
  "octets_of_bits n = [n div 65536 mod 256, n div 256 mod 256, n mod 256]"

lemma decode_chunk_sextets:
  assumes "length vs = 4 - p" and "p \<le> 2" and "\<forall>v\<in>set vs. v < 64"
  shows "decode_chunk last_quantum (map ((!) ALPHABET) vs @ replicate p 61)
    = (if p > 0 \<and> \<not> last_quantum then None
       else let n = foldl (\<lambda>n v. n * 64 + v) 0 (vs @ replicate p 0) in
         if drop (3 - p) (octets_of_bits n) = replicate p 0 then Some (take (3 - p) (octets_of_bits n)) else None)"
proof -
  from assms(2) consider "p = 0" | "p = 1" | "p = 2" by linarith
  then show ?thesis
  proof cases
    case 1
    then obtain w x y z where vs: "vs = [w, x, y, z]" using assms(1) by (auto simp: length_Suc_conv numeral_eq_Suc)
    then show ?thesis
      using 1 assms(3) alphabet_not_padding read_sextets_alphabet [of vs] sextet_chunk_bits(1) [of w x y z]
      by (simp add: decode_chunk_def Let_def and_low drop_bit_eq_div octets_of_bits_def algebra_simps)
  next
    case 2
    then obtain w x y where vs: "vs = [w, x, y]" using assms(1) by (auto simp: length_Suc_conv numeral_eq_Suc)
    then show ?thesis
      using 2 assms(3) alphabet_not_padding read_sextets_alphabet [of vs] sextet_chunk_bits(1) [of w x y 0]
      by (simp add: decode_chunk_def Let_def and_low drop_bit_eq_div octets_of_bits_def algebra_simps)
  next
    case 3
    then obtain w x where vs: "vs = [w, x]" using assms(1) by (auto simp: length_Suc_conv numeral_eq_Suc)
    have two: "replicate 2 e = [e, e]" for e :: nat by (simp add: numeral_2_eq_2)
    show ?thesis
      using vs 3 assms(3) alphabet_not_padding read_sextets_alphabet [of vs] sextet_chunk_bits(1) [of w x 0 0]
      by (simp add: decode_chunk_def Let_def and_low drop_bit_eq_div octets_of_bits_def distrib_right mult.assoc two)
  qed
qed

lemma octets_sextets:
  assumes "is_octet out" and "out \<noteq> []" and "length out \<le> 3"
  defines "p \<equiv> 3 - length out"
  obtains vs where "length vs = 4 - p" and "\<forall>v\<in>set vs. v < 64" and "encode_chunk out = map ((!) ALPHABET) vs @ replicate p 61"
    and "octets_of_bits (foldl (\<lambda>n v. n * 64 + v) 0 (vs @ replicate p 0)) = out @ replicate p 0"
proof -
  have two: "replicate 2 e = [e, e]" for e :: nat by (simp add: numeral_2_eq_2)
  have fold4: "foldl (\<lambda>n v. n * 64 + v) 0 [w, x, y, z] = w * 262144 + x * 4096 + y * 64 + z" for w x y z :: nat
    by (simp add: distrib_right mult.assoc)
  consider a where "out = [a]" | a b where "out = [a, b]" | a b c where "out = [a, b, c]"
    using assms(2,3) by (cases out rule: remdups_adj.cases) (auto simp: le_Suc_eq numeral_3_eq_3 length_Suc_conv)
  then show ?thesis
  proof cases
    case (1 a)
    let ?n = "a * 65536"
    have a: "a < 256" using 1 assms(1) by (simp add: is_octet_def)
    have "?n = a * 1024 * 64" "?n div 64 = a * 16 * 64" by simp_all
    then have "?n mod 64 = 0" "?n div 64 mod 64 = 0" by (metis mod_mult_self2_is_0)+
    then have "foldl (\<lambda>n v. n * 64 + v) 0 (take 2 (sextets_of_bits ?n) @ [0, 0]) = ?n"
      using sextets_of [of ?n] a fold4 [of "?n div 262144 mod 64" "?n div 4096 mod 64" 0 0] by (simp only: take_Suc_Cons take_0 numeral_2_eq_2 append.simps)
    moreover have "octets_of_bits ?n = [a, 0, 0]" using group_digits [of a 0 0] a by (simp add: octets_of_bits_def)
    ultimately have o: "octets_of_bits (foldl (\<lambda>n v. n * 64 + v) 0 (take 2 (sextets_of_bits ?n) @ [0, 0])) = [a] @ [0, 0]"
      by (simp only: append.simps)
    have p: "p = 2" using 1 by (simp add: p_def)
    show ?thesis
    proof (rule that [of "take 2 (sextets_of_bits ?n)"])
      show "encode_chunk out = map ((!) ALPHABET) (take 2 (sextets_of_bits ?n)) @ replicate p 61"
        unfolding 1 p two by (rule encode_chunk_simps(3) [OF a a a])
      show "octets_of_bits (foldl (\<lambda>n v. n * 64 + v) 0 (take 2 (sextets_of_bits ?n) @ replicate p 0)) = out @ replicate p 0"
        unfolding 1 p two by (rule o)
    qed (simp_all add: p)
  next
    case (2 a b)
    let ?n = "a * 65536 + b * 256"
    have ab: "a < 256" "b < 256" using 2 assms(1) by (simp_all add: is_octet_def)
    have "?n = (a * 1024 + b * 4) * 64" by simp
    then have "?n mod 64 = 0" by (metis mod_mult_self2_is_0)
    then have "foldl (\<lambda>n v. n * 64 + v) 0 (take 3 (sextets_of_bits ?n) @ [0]) = ?n"
      using sextets_of [of ?n] group_digits(4) [of a b 0] ab fold4 [of "?n div 262144 mod 64" "?n div 4096 mod 64" "?n div 64 mod 64" 0] by simp
    moreover have "octets_of_bits ?n = [a, b, 0]" using group_digits [of a b 0] ab by (simp add: octets_of_bits_def)
    ultimately have o: "octets_of_bits (foldl (\<lambda>n v. n * 64 + v) 0 (take 3 (sextets_of_bits ?n) @ [0])) = [a, b] @ [0]"
      by (simp only: append.simps)
    have p: "p = 1" and one: "replicate 1 e = [e]" for e :: nat using 2 by (simp_all add: p_def)
    show ?thesis
    proof (rule that [of "take 3 (sextets_of_bits ?n)"])
      show "encode_chunk out = map ((!) ALPHABET) (take 3 (sextets_of_bits ?n)) @ replicate p 61"
        unfolding 2 p one by (rule encode_chunk_simps(2) [OF ab(1) ab(2) ab(2)])
      show "octets_of_bits (foldl (\<lambda>n v. n * 64 + v) 0 (take 3 (sextets_of_bits ?n) @ replicate p 0)) = out @ replicate p 0"
        unfolding 2 p one by (rule o)
    qed (simp_all add: p)
  next
    case (3 a b c)
    let ?n = "a * 65536 + b * 256 + c"
    have abc: "a < 256" "b < 256" "c < 256" using 3 assms(1) by (simp_all add: is_octet_def)
    have f: "foldl (\<lambda>n v. n * 64 + v) 0 (sextets_of_bits ?n) = ?n"
      unfolding fold4 by (rule sextets_of [OF group_digits(4) [OF abc]])
    have o: "octets_of_bits ?n = [a, b, c]" using group_digits [OF abc] by (simp add: octets_of_bits_def)
    have p: "p = 0" using 3 by (simp add: p_def)
    show ?thesis
    proof (rule that [of "sextets_of_bits ?n"])
      show "encode_chunk out = map ((!) ALPHABET) (sextets_of_bits ?n) @ replicate p 61"
        unfolding 3 p replicate_0 append_Nil2 by (rule encode_chunk_simps(1) [OF abc])
      show "octets_of_bits (foldl (\<lambda>n v. n * 64 + v) 0 (sextets_of_bits ?n @ replicate p 0)) = out @ replicate p 0"
        unfolding 3 p replicate_0 append_Nil2 f by (rule o)
    qed (simp_all add: p)
  qed
qed

lemma decode_chunk_encode:
  assumes "is_octet out" and "out \<noteq> []" and "length out \<le> 3" and "length out < 3 \<longrightarrow> last_quantum"
  shows "decode_chunk last_quantum (encode_chunk out) = Some out"
  using assms(1-3)
proof (rule octets_sextets)
  fix vs
  assume vs: "length vs = 4 - (3 - length out)" "\<forall>v\<in>set vs. v < 64" "encode_chunk out = map ((!) ALPHABET) vs @ replicate (3 - length out) 61"
    "octets_of_bits (foldl (\<lambda>n v. n * 64 + v) 0 (vs @ replicate (3 - length out) 0)) = out @ replicate (3 - length out) 0"
  have "3 - length out \<le> 2" using assms(2) by (cases out) auto
  then show ?thesis using decode_chunk_sextets [of vs "3 - length out" last_quantum] vs assms(3,4) by (auto simp: Let_def)
qed

subsection \<open>Reading a chunk\<close>

lemma chunk_split:
  assumes "length chunk = 4"
  defines "p \<equiv> length (takeWhile (\<lambda>b. b = 61) (rev chunk))"
  shows "chunk = take (4 - p) chunk @ replicate p 61" and "p \<le> 4"
proof -
  have "rev chunk = replicate p 61 @ dropWhile (\<lambda>b. b = 61) (rev chunk)"
    using takeWhile_dropWhile_id [of "\<lambda>b. b = 61" "rev chunk"] set_takeWhileD [of _ "\<lambda>b. b = 61" "rev chunk"] unfolding p_def
    by (metis replicate_length_same)
  then have "chunk = rev (dropWhile (\<lambda>b. b = 61) (rev chunk)) @ replicate p 61" by (metis rev_append rev_replicate rev_rev_ident)
  moreover show "p \<le> 4" using length_takeWhile_le [of "\<lambda>b. b = 61" "rev chunk"] assms(1) unfolding p_def by simp
  ultimately show "chunk = take (4 - p) chunk @ replicate p 61"
    using assms(1) by (metis add_diff_cancel_right' append_eq_conv_conj length_append length_replicate)
qed

lemma fold_sextets:
  assumes "length xs = 4" and "\<forall>v\<in>set xs. v < 64"
  shows "sextets_of_bits (foldl (\<lambda>n v. n * 64 + v) 0 xs) = xs" and "foldl (\<lambda>n v. n * 64 + v) 0 xs < 16777216"
proof -
  obtain w x y z where xs: "xs = [w, x, y, z]" using assms(1) by (auto simp: length_Suc_conv numeral_eq_Suc)
  have e: "foldl (\<lambda>n v. n * 64 + v) 0 xs = w * 262144 + x * 4096 + y * 64 + z" unfolding xs by (simp add: distrib_right mult.assoc)
  have d: "w < 64" "x < 64" "y < 64" "z < 64" using assms(2) xs by simp_all
  show "sextets_of_bits (foldl (\<lambda>n v. n * 64 + v) 0 xs) = xs" unfolding e unfolding sextet_digits [OF d] by (rule xs [symmetric])
  show "foldl (\<lambda>n v. n * 64 + v) 0 xs < 16777216" unfolding e by (rule sextet_digits(5) [OF d])
qed

lemma octets_of_bits_inject:
  "n < 16777216 \<Longrightarrow> m < 16777216 \<Longrightarrow> octets_of_bits n = octets_of_bits m \<Longrightarrow> n = m"
  using octets_of [of n] octets_of [of m] unfolding octets_of_bits_def by (metis list.inject)

lemma sextets_octets:
  assumes "length vs = 4 - p" and "p \<le> 2" and "\<forall>v\<in>set vs. v < 64"
    and "drop (3 - p) (octets_of_bits n) = replicate p 0" and n: "n = foldl (\<lambda>n v. n * 64 + v) 0 (vs @ replicate p 0)"
  defines "out \<equiv> take (3 - p) (octets_of_bits n)"
  shows "is_octet out" and "length out = 3 - p" and "encode_chunk out = map ((!) ALPHABET) vs @ replicate p 61"
proof -
  show o: "is_octet out" and l: "length out = 3 - p"
    unfolding out_def by (auto simp: is_octet_def octets_of_bits_def dest!: in_set_takeD)
  have ne: "out \<noteq> []" "length out \<le> 3" and p: "3 - length out = p" using l assms(2) by auto
  from o ne show "encode_chunk out = map ((!) ALPHABET) vs @ replicate p 61"
  proof (rule octets_sextets)
    fix ws
    assume ws: "length ws = 4 - (3 - length out)" "\<forall>v\<in>set ws. v < 64" "encode_chunk out = map ((!) ALPHABET) ws @ replicate (3 - length out) 61"
      "octets_of_bits (foldl (\<lambda>n v. n * 64 + v) 0 (ws @ replicate (3 - length out) 0)) = out @ replicate (3 - length out) 0"
    let ?v = "vs @ replicate p 0" and ?w = "ws @ replicate p 0"
    have len: "length ?v = 4" "length ?w = 4" "\<forall>v\<in>set ?v. v < 64" "\<forall>v\<in>set ?w. v < 64"
      using assms(1-3) ws(1,2) p by auto
    have "octets_of_bits n = out @ replicate p 0" using assms(4) append_take_drop_id [of "3 - p" "octets_of_bits n"] unfolding out_def by metis
    then have "octets_of_bits (foldl (\<lambda>n v. n * 64 + v) 0 ?v) = octets_of_bits (foldl (\<lambda>n v. n * 64 + v) 0 ?w)"
      using ws(4) unfolding p n by (simp only:)
    then have "foldl (\<lambda>n v. n * 64 + v) 0 ?v = foldl (\<lambda>n v. n * 64 + v) 0 ?w"
      by (rule octets_of_bits_inject [OF fold_sextets(2) [OF len(1,3)] fold_sextets(2) [OF len(2,4)]])
    then have "?v = ?w" using fold_sextets(1) [OF len(1,3)] fold_sextets(1) [OF len(2,4)] by metis
    then show ?thesis using ws(3) unfolding p by simp
  qed
qed

lemma decode_chunk_Some:
  assumes "length chunk = 4" and "decode_chunk last_quantum chunk = Some out"
  shows "is_octet out \<and> out \<noteq> [] \<and> length out \<le> 3 \<and> (length out < 3 \<longrightarrow> last_quantum) \<and> chunk = encode_chunk out"
proof -
  let ?p = "length (takeWhile (\<lambda>b. b = 61) (rev chunk))"
  note sp = chunk_split [OF assms(1)]
  from assms(2) obtain vs where pad: "?p \<le> 2" "\<not> (?p > 0 \<and> \<not> last_quantum)" and vs: "read_sextets (take (4 - ?p) chunk) = Some vs"
    unfolding decode_chunk_def by (auto simp: Let_def split: if_splits option.splits)
  note rs = read_sextets_Some [OF vs]
  have len: "length vs = 4 - ?p" using arg_cong [OF conjunct1 [OF rs], of length] assms(1) by simp
  have chunk: "chunk = map ((!) ALPHABET) vs @ replicate ?p 61" using sp(1) rs by simp
  let ?n = "foldl (\<lambda>n v. n * 64 + v) 0 (vs @ replicate ?p 0)"
  have "decode_chunk last_quantum (map ((!) ALPHABET) vs @ replicate ?p 61) = Some out" using assms(2) chunk by simp
  then have out: "drop (3 - ?p) (octets_of_bits ?n) = replicate ?p 0" "out = take (3 - ?p) (octets_of_bits ?n)"
    using decode_chunk_sextets [OF len pad(1) conjunct2 [OF rs], of last_quantum] pad(2) unfolding Let_def by (auto simp only: if_False split: if_splits)
  note so = sextets_octets [OF len pad(1) conjunct2 [OF rs] out(1) refl, folded out(2)]
  then show ?thesis using chunk pad by auto
qed

subsection \<open>Whole texts\<close>

lemma length_encode_chunk [simp]: "length (encode_chunk bs) = 4"
  by (simp add: encode_chunk_def Let_def)

lemma encode_chunk_nonempty [simp]: "encode_chunk bs \<noteq> []"
  by (metis length_encode_chunk list.size(3) zero_neq_numeral)

lemma decode_quanta_Nil [simp]: "decode_quanta quanta index [] = Some []"
  by (simp add: decode_quanta.simps)

lemma encode_simps: "bs \<noteq> [] \<Longrightarrow> base64_encode bs = encode_chunk (take 3 bs) @ base64_encode (drop 3 bs)"
  by (cases bs) simp_all

lemma length_base64_encode: "length (base64_encode bs) = 4 * ((length bs + 2) div 3)"
proof (induction bs rule: base64_encode.induct)
  case (2 b bs)
  have "(length (b # bs) + 2) div 3 = 1 + (length (drop 3 (b # bs)) + 2) div 3"
    by (cases "length bs < 2") auto
  then show ?case using 2 encode_simps [of "b # bs"] by simp
qed simp

lemma decode_quanta_encode:
  "is_octet bs \<Longrightarrow> quanta = index + (length bs + 2) div 3 \<Longrightarrow> decode_quanta quanta index (base64_encode bs) = Some bs"
proof (induction bs arbitrary: index rule: base64_encode.induct)
  case (2 b bs)
  let ?bs = "b # bs"
  have q: "(length ?bs + 2) div 3 = 1 + (length (drop 3 ?bs) + 2) div 3" by (cases "length bs < 2") auto
  have last: "index + 1 = quanta" if "length (take 3 ?bs) < 3" using that 2(3) by (cases bs rule: remdups_adj.cases) auto
  have oct: "is_octet (take 3 ?bs)" "is_octet (drop 3 ?bs)" using 2(2) by (auto simp: is_octet_def dest: in_set_takeD in_set_dropD)
  have "decode_chunk (index + 1 = quanta) (encode_chunk (take 3 ?bs)) = Some (take 3 ?bs)"
    using oct(1) last by (intro decode_chunk_encode) auto
  moreover have "decode_quanta quanta (index + 1) (base64_encode (drop 3 ?bs)) = Some (drop 3 ?bs)"
    using 2(1) [OF oct(2)] 2(3) q by simp
  ultimately show ?case unfolding encode_simps [of ?bs, simplified]
    by (subst decode_quanta.simps) (auto simp: encode_simps [of ?bs])
qed simp

lemma decode_quanta_Some:
  "length input mod 4 = 0 \<Longrightarrow> quanta = index + length input div 4 \<Longrightarrow> decode_quanta quanta index input = Some bs
     \<Longrightarrow> is_octet bs \<and> input = base64_encode bs"
proof (induction quanta index input arbitrary: bs rule: decode_quanta.induct)
  case (1 quanta index input)
  show ?case
  proof (cases "input = []")
    case True
    then show ?thesis using 1(4) by (simp add: is_octet_def decode_quanta.simps [of quanta index "[]"])
  next
    case False
    then have len: "4 \<le> length input" using 1(2) by (cases "length input < 4") auto
    obtain out rest where out: "decode_chunk (index + 1 = quanta) (take 4 input) = Some out"
        and rest: "decode_quanta quanta (index + 1) (drop 4 input) = Some rest" and bs: "bs = out @ rest"
      using 1(4) False by (subst (asm) decode_quanta.simps) (auto split: option.splits)
    have c: "is_octet out" "out \<noteq> []" "length out \<le> 3" "length out < 3 \<longrightarrow> index + 1 = quanta" "take 4 input = encode_chunk out"
      using decode_chunk_Some [OF _ out] len by auto
    have "is_octet rest \<and> drop 4 input = base64_encode rest"
      using 1(1) [OF False out, of rest] 1(2,3) rest len by (simp add: le_mod_geq le_div_geq)
    moreover have "length out = 3 \<or> rest = []"
    proof (cases "length out = 3")
      case False
      then have "index + 1 = quanta" using c(3,4) by simp
      then have "drop 4 input = []" using 1(2,3) len by (auto simp: div_eq_0_iff le_div_geq le_mod_geq)
      then show ?thesis using rest by simp
    qed simp
    ultimately have "base64_encode bs = encode_chunk out @ base64_encode rest" "is_octet bs"
      using encode_simps [of bs] bs c by (auto simp: is_octet_def)
    then show ?thesis using c(5) \<open>is_octet rest \<and> drop 4 input = base64_encode rest\<close> append_take_drop_id [of 4 input] by simp
  qed
qed

lemma base64_decode_iff: "base64_decode input = Some bs \<longleftrightarrow> is_octet bs \<and> input = base64_encode bs"
proof
  assume "base64_decode input = Some bs"
  then show "is_octet bs \<and> input = base64_encode bs"
    using decode_quanta_Some [of input "length input div 4" 0 bs] by (simp add: base64_decode_def split: if_splits)
next
  assume "is_octet bs \<and> input = base64_encode bs"
  then show "base64_decode input = Some bs"
    using decode_quanta_encode [of bs "length input div 4" 0] by (simp add: base64_decode_def length_base64_encode)
qed

subsection \<open>The padding loop and the URL-safe form\<close>

lemma pad_standard_returns:
  obtains k where "k < 4" and "(length standard + k) mod 4 = 0" and "pad_standard standard = Some (standard @ replicate k 61)"
proof -
  have pad: "\<exists>k<4. (length s + k) mod 4 = 0 \<and> pad_standard s = Some (s @ replicate k 61)" if "m = (4 - length s mod 4) mod 4" for m s
    using that
  proof (induction m arbitrary: s)
    case 0
    then have "length s mod 4 = 0" by (cases "length s mod 4 = 0") auto
    then show ?case using pad_standard.simps [of s] by (intro exI [of _ 0]) simp
  next
    case (Suc m)
    then have nz: "length s mod 4 \<noteq> 0" by (cases "length s mod 4 = 0") auto
    then have "m = (4 - length (s @ [61]) mod 4) mod 4" using Suc.prems by (auto simp: mod_Suc)
    from Suc.IH [OF this] obtain k where k: "k < 4" "(length (s @ [61]) + k) mod 4 = 0" "pad_standard (s @ [61]) = Some ((s @ [61]) @ replicate k 61)"
      by (elim exE conjE)
    have "k \<noteq> 3"
    proof
      assume "k = 3"
      then have "(length s + 4) mod 4 = 0" using k(2) by (simp add: add.commute)
      then show False using nz by simp
    qed
    then show ?case using k nz pad_standard.simps [of s] by (intro exI [of _ "Suc k"]) simp
  qed
  from pad [OF refl, of standard] show ?thesis by (elim exE conjE) (rule that)
qed

lemma base64_encode_form:
  assumes "is_octet bs"
  obtains vs p where "base64_encode bs = map ((!) ALPHABET) vs @ replicate p 61" and "p \<le> 2" and "\<forall>v\<in>set vs. v < 64"
proof -
  have "\<exists>vs p. base64_encode bs = map ((!) ALPHABET) vs @ replicate p 61 \<and> p \<le> 2 \<and> (\<forall>v\<in>set vs. v < 64)"
    using assms
  proof (induction bs rule: base64_encode.induct)
    case 1
    show ?case by (intro exI [of _ "[]"] exI [of _ 0]) simp
  next
    case (2 b bs)
    let ?bs = "b # bs"
    have oct: "is_octet (take 3 ?bs)" "is_octet (drop 3 ?bs)" using 2(2) by (auto simp: is_octet_def dest: in_set_takeD in_set_dropD)
    obtain ws q where ws: "base64_encode (drop 3 ?bs) = map ((!) ALPHABET) ws @ replicate q 61" "q \<le> 2" "\<forall>v\<in>set ws. v < 64"
      using 2(1) [OF oct(2)] by blast
    obtain vs where vs: "\<forall>v\<in>set vs. v < 64" "encode_chunk (take 3 ?bs) = map ((!) ALPHABET) vs @ replicate (3 - length (take 3 ?bs)) 61"
      using octets_sextets [OF oct(1)] by (metis length_take min.cobounded2 take_eq_Nil list.discI zero_neq_numeral)
    show ?case
    proof (cases "length (take 3 ?bs) = 3")
      case True
      then show ?thesis using vs ws encode_simps [of ?bs] by (intro exI [of _ "vs @ ws"] exI [of _ q]) auto
    next
      case False
      then have "drop 3 ?bs = []" by auto
      then show ?thesis using vs encode_simps [of ?bs] by (intro exI [of _ vs] exI [of _ "3 - length (take 3 ?bs)"]) auto
    qed
  qed
  then show ?thesis using that by blast
qed

lemma trim_alphabet: "\<forall>v\<in>set vs. v < 64 \<Longrightarrow> trim_padding (map ((!) ALPHABET) vs @ replicate p 61) = map ((!) ALPHABET) vs"
proof -
  assume "\<forall>v\<in>set vs. v < 64"
  then have "\<forall>c\<in>set (rev (map ((!) ALPHABET) vs)). c \<noteq> 61" using alphabet_not_padding by auto
  then have "dropWhile (\<lambda>b. b = 61) (rev (map ((!) ALPHABET) vs)) = rev (map ((!) ALPHABET) vs)"
    by (cases "rev (map ((!) ALPHABET) vs)") auto
  then show ?thesis by (simp add: trim_padding_def dropWhile_append)
qed

abbreviation "to_standard t \<equiv> replace_byte 95 47 (replace_byte 45 43 t)"
abbreviation "to_url t \<equiv> replace_byte 47 95 (replace_byte 43 45 t)"

lemma replace_byte_simps [simp]:
  "replace_byte old new [] = []" "replace_byte old new (b # bs) = (if b = old then new else b) # replace_byte old new bs"
  "length (replace_byte old new bs) = length bs"
  by (simp_all add: replace_byte_def)

lemma url_standard: "list_all url_character t \<Longrightarrow> to_url (to_standard t) = t \<and> (\<exists>vs. to_standard t = map ((!) ALPHABET) vs \<and> (\<forall>v\<in>set vs. v < 64))"
proof (induction t)
  case (Cons c t)
  then obtain vs where vs: "to_standard t = map ((!) ALPHABET) vs" "\<forall>v\<in>set vs. v < 64" and t: "to_url (to_standard t) = t" by auto
  let ?c = "if (if c = 45 then 43 else c) = 95 then 47 else if c = 45 then 43 else c"
  have "\<exists>v. sextet ?c = Some v" using Cons.prems by (auto simp: url_character_def sextet_def)
  then obtain v where "v < 64" "ALPHABET ! v = ?c" using sextet_Some by blast
  then have "to_standard (c # t) = map ((!) ALPHABET) (v # vs)" using vs(1) by simp
  moreover have "to_url (to_standard (c # t)) = c # t" using Cons.prems t by (auto simp: url_character_def)
  ultimately show ?case using \<open>v < 64\<close> vs(2) by (metis set_ConsD)
qed simp

lemma standard_url: "\<forall>v\<in>set vs. v < 64 \<Longrightarrow> to_standard (to_url (map ((!) ALPHABET) vs)) = map ((!) ALPHABET) vs
    \<and> list_all url_character (to_url (map ((!) ALPHABET) vs))"
  by (induction vs) (auto simp: alphabet_nth url_character_def)

lemma decode_url_iff: "decode_url input = Some (Some bs) \<longleftrightarrow> is_octet bs \<and> input = encode_url bs"
proof
  assume a: "decode_url input = Some (Some bs)"
  then have u: "list_all url_character input" by (auto simp: decode_url_def split: if_splits)
  obtain k where "pad_standard (to_standard input) = Some (to_standard input @ replicate k 61)" by (rule pad_standard_returns)
  then have "base64_decode (to_standard input @ replicate k 61) = Some bs"
    using a unfolding decode_url_def Let_def by (auto split: if_splits)
  then have b: "is_octet bs" "base64_encode bs = to_standard input @ replicate k 61" unfolding base64_decode_iff by auto
  obtain vs where "to_standard input = map ((!) ALPHABET) vs" "\<forall>v\<in>set vs. v < 64" using url_standard [OF u] by blast
  then have "trim_padding (base64_encode bs) = to_standard input" unfolding b(2) using trim_alphabet by simp
  then show "is_octet bs \<and> input = encode_url bs" using b(1) url_standard [OF u] unfolding encode_url_def by simp
next
  assume a: "is_octet bs \<and> input = encode_url bs"
  then obtain vs p where f: "base64_encode bs = map ((!) ALPHABET) vs @ replicate p 61" "p \<le> 2" "\<forall>v\<in>set vs. v < 64"
    using base64_encode_form by blast
  have i: "input = to_url (map ((!) ALPHABET) vs)" using a trim_alphabet [OF f(3)] unfolding encode_url_def f(1) by simp
  have st: "to_standard input = map ((!) ALPHABET) vs" "list_all url_character input" using standard_url [OF f(3)] i by simp_all
  have len: "(length vs + p) mod 4 = 0" using arg_cong [OF f(1), of length] length_base64_encode [of bs] by (metis length_append length_map length_replicate mod_mult_self1_is_0)
  obtain k where k: "k < 4" "(length (to_standard input) + k) mod 4 = 0" "pad_standard (to_standard input) = Some (to_standard input @ replicate k 61)"
    by (rule pad_standard_returns)
  have "length input = length vs" unfolding i by simp
  then have "k = p" "length input mod 4 \<noteq> 1" using len k(1,2) f(2) unfolding st(1) by (simp, presburger)+
  then show "decode_url input = Some (Some bs)"
    using k(3) st a f(1) base64_decode_iff [of "base64_encode bs" bs] by (simp add: decode_url_def Let_def)
qed

subsection \<open>Properties\<close>

text \<open>C32: strict decoding accepts a text exactly when it is the encoding of some bytes, and returns those
  bytes: one text per byte string, one byte string per text.\<close>

theorem base64_decoding_exact: "base64_decode input = Some bs \<longleftrightarrow> is_octet bs \<and> input = base64_encode bs"
  by (rule base64_decode_iff)

text \<open>C33: the padding loop ends on every text, so URL-safe decoding always returns;
  it returns bytes exactly on their unpadded URL-safe encoding.\<close>

theorem decode_url_returns:
  "\<exists>result. decode_url input = Some result \<and> (\<forall>bs. result = Some bs \<longleftrightarrow> is_octet bs \<and> input = encode_url bs)"
proof -
  obtain k where k: "pad_standard (to_standard input) = Some (to_standard input @ replicate k 61)" by (rule pad_standard_returns)
  have "\<exists>result. decode_url input = Some result"
    by (cases "length input mod 4 = 1 \<or> \<not> list_all url_character input") (simp_all add: decode_url_def Let_def k)
  then obtain result where "decode_url input = Some result" by blast
  then show ?thesis using decode_url_iff [of input] by auto
qed

end
