(* ===== verification/Registry_Package.thy ===== *)
theory Registry_Package
  imports Contract_Common "HOL-Library.Product_Lexorder"
begin

section \<open>Registry packages and activation statements\<close>

text \<open>
  \<^verbatim>\<open>memory_contracts/registry.rs\<close>: the closed entry kinds and body schema slots, entries with their
  digests, packages with their manifest, and the activation proposal and receipt.
\<close>

subsection \<open>Entry kinds and body schema slots\<close>

datatype (plugins only: code size) registry_entry_kind =
    KindActivationPolicy | KindApplicabilityEvaluator | KindArrowBatchSchema | KindAuthorityRule
  | KindCausalRatificationPolicy | KindClassifierPolicy | KindComparatorLineage | KindConnectorSchema
  | KindConsolidationPolicy | KindCoverageProof | KindEpisodePolicy | KindEvidenceSchema | KindExemplarPolicy
  | KindIdentityRecipe | KindLogEpochRecipe | KindNamespaceDefinition | KindNormativeBindingSchema
  | KindObserverAdmission | KindParserContract | KindPredicateSchema | KindPublicationRule | KindRedactionPolicy
  | KindRelationProof | KindResourceKindSchema | KindRetentionPolicy

primrec kind_str :: "registry_entry_kind \<Rightarrow> string" where
  "kind_str KindActivationPolicy = ''activation_policy''"
| "kind_str KindApplicabilityEvaluator = ''applicability_evaluator''"
| "kind_str KindArrowBatchSchema = ''arrow_batch_schema''"
| "kind_str KindAuthorityRule = ''authority_rule''"
| "kind_str KindCausalRatificationPolicy = ''causal_ratification_policy''"
| "kind_str KindClassifierPolicy = ''classifier_policy''"
| "kind_str KindComparatorLineage = ''comparator_lineage''"
| "kind_str KindConnectorSchema = ''connector_schema''"
| "kind_str KindConsolidationPolicy = ''consolidation_policy''"
| "kind_str KindCoverageProof = ''coverage_proof''"
| "kind_str KindEpisodePolicy = ''episode_policy''"
| "kind_str KindEvidenceSchema = ''evidence_schema''"
| "kind_str KindExemplarPolicy = ''exemplar_policy''"
| "kind_str KindIdentityRecipe = ''identity_recipe''"
| "kind_str KindLogEpochRecipe = ''log_epoch_recipe''"
| "kind_str KindNamespaceDefinition = ''namespace_definition''"
| "kind_str KindNormativeBindingSchema = ''normative_binding_schema''"
| "kind_str KindObserverAdmission = ''observer_admission''"
| "kind_str KindParserContract = ''parser_contract''"
| "kind_str KindPredicateSchema = ''predicate_schema''"
| "kind_str KindPublicationRule = ''publication_rule''"
| "kind_str KindRedactionPolicy = ''redaction_policy''"
| "kind_str KindRelationProof = ''relation_proof''"
| "kind_str KindResourceKindSchema = ''resource_kind_schema''"
| "kind_str KindRetentionPolicy = ''retention_policy''"

definition is_generation2_only :: "registry_entry_kind \<Rightarrow> bool" where
  "is_generation2_only k \<longleftrightarrow> k \<in> {KindArrowBatchSchema, KindComparatorLineage, KindConsolidationPolicy, KindLogEpochRecipe,
     KindParserContract}"

primrec table_index :: "registry_entry_kind \<Rightarrow> nat" where
  "table_index KindActivationPolicy = 0"
| "table_index KindApplicabilityEvaluator = 1"
| "table_index KindArrowBatchSchema = 2"
| "table_index KindAuthorityRule = 3"
| "table_index KindCausalRatificationPolicy = 4"
| "table_index KindClassifierPolicy = 5"
| "table_index KindComparatorLineage = 6"
| "table_index KindConnectorSchema = 7"
| "table_index KindConsolidationPolicy = 8"
| "table_index KindCoverageProof = 9"
| "table_index KindEpisodePolicy = 10"
| "table_index KindEvidenceSchema = 11"
| "table_index KindExemplarPolicy = 12"
| "table_index KindIdentityRecipe = 13"
| "table_index KindLogEpochRecipe = 14"
| "table_index KindNamespaceDefinition = 15"
| "table_index KindNormativeBindingSchema = 16"
| "table_index KindObserverAdmission = 17"
| "table_index KindParserContract = 18"
| "table_index KindPredicateSchema = 19"
| "table_index KindPublicationRule = 20"
| "table_index KindRedactionPolicy = 21"
| "table_index KindRelationProof = 22"
| "table_index KindResourceKindSchema = 23"
| "table_index KindRetentionPolicy = 24"

definition ALL_REGISTRY_ENTRY_KINDS :: "registry_entry_kind list" where
  "ALL_REGISTRY_ENTRY_KINDS = [
     KindActivationPolicy, KindApplicabilityEvaluator, KindArrowBatchSchema, KindAuthorityRule,
     KindCausalRatificationPolicy, KindClassifierPolicy, KindComparatorLineage, KindConnectorSchema,
     KindConsolidationPolicy, KindCoverageProof, KindEpisodePolicy, KindEvidenceSchema, KindExemplarPolicy,
     KindIdentityRecipe, KindLogEpochRecipe, KindNamespaceDefinition, KindNormativeBindingSchema,
     KindObserverAdmission, KindParserContract, KindPredicateSchema, KindPublicationRule, KindRedactionPolicy,
     KindRelationProof, KindResourceKindSchema, KindRetentionPolicy]"

datatype body_schema_slot_class = Generation1Dispatched | Generation2Dispatched | Generation2Reserved | UnknownSlot

record body_schema_slot =
  sl_kind :: registry_entry_kind
  sl_entry_schema_id :: string
  sl_entry_schema_version :: nat
  sl_class :: body_schema_slot_class

abbreviation slot :: "registry_entry_kind \<Rightarrow> string \<Rightarrow> nat \<Rightarrow> body_schema_slot_class \<Rightarrow> body_schema_slot" where
  "slot kind schema_id schema_version cls \<equiv> \<lparr>sl_kind = kind, sl_entry_schema_id = schema_id,
     sl_entry_schema_version = schema_version, sl_class = cls\<rparr>"

definition BODY_SCHEMA_SLOTS :: "body_schema_slot list" where
  "BODY_SCHEMA_SLOTS = [
     slot KindActivationPolicy ''registry.activation_policy'' 1 Generation1Dispatched,
     slot KindActivationPolicy ''registry.activation_policy'' 2 Generation2Dispatched,
     slot KindApplicabilityEvaluator ''registry.applicability_evaluator'' 1 Generation1Dispatched,
     slot KindArrowBatchSchema ''registry.arrow_batch_schema'' 1 Generation2Reserved,
     slot KindAuthorityRule ''registry.authority_rule'' 1 Generation1Dispatched,
     slot KindAuthorityRule ''registry.remember_admission_rule'' 2 Generation2Dispatched,
     slot KindCausalRatificationPolicy ''registry.causal_ratification_policy'' 1 Generation1Dispatched,
     slot KindClassifierPolicy ''registry.classifier_policy'' 1 Generation1Dispatched,
     slot KindComparatorLineage ''registry.comparator_lineage'' 1 Generation2Reserved,
     slot KindConnectorSchema ''registry.connector_schema'' 1 Generation1Dispatched,
     slot KindConnectorSchema ''registry.connector_schema'' 2 Generation2Dispatched,
     slot KindConsolidationPolicy ''registry.consolidation_policy'' 1 Generation2Reserved,
     slot KindCoverageProof ''registry.coverage_proof'' 1 Generation1Dispatched,
     slot KindCoverageProof ''registry.coverage_proof'' 2 Generation2Reserved,
     slot KindEpisodePolicy ''registry.episode_policy'' 1 Generation1Dispatched,
     slot KindEpisodePolicy ''registry.episode_policy'' 2 Generation2Reserved,
     slot KindEvidenceSchema ''registry.evidence_schema'' 1 Generation1Dispatched,
     slot KindExemplarPolicy ''registry.exemplar_policy'' 1 Generation1Dispatched,
     slot KindIdentityRecipe ''registry.identity_recipe'' 1 Generation1Dispatched,
     slot KindLogEpochRecipe ''registry.log_epoch_recipe'' 1 Generation2Reserved,
     slot KindNamespaceDefinition ''registry.namespace_definition'' 1 Generation1Dispatched,
     slot KindNormativeBindingSchema ''registry.normative_binding_schema'' 1 Generation1Dispatched,
     slot KindNormativeBindingSchema ''registry.normative_binding_schema'' 2 Generation2Reserved,
     slot KindObserverAdmission ''registry.observer_admission'' 1 Generation1Dispatched,
     slot KindObserverAdmission ''registry.observer_admission'' 2 Generation2Reserved,
     slot KindParserContract ''registry.parser_contract'' 1 Generation2Reserved,
     slot KindPredicateSchema ''registry.predicate_schema'' 1 Generation1Dispatched,
     slot KindPredicateSchema ''registry.predicate_schema'' 2 Generation2Dispatched,
     slot KindPublicationRule ''registry.publication_rule'' 1 Generation1Dispatched,
     slot KindRedactionPolicy ''registry.redaction_policy'' 1 Generation1Dispatched,
     slot KindRelationProof ''registry.relation_proof'' 1 Generation1Dispatched,
     slot KindRelationProof ''registry.relation_proof'' 2 Generation2Dispatched,
     slot KindResourceKindSchema ''registry.resource_kind_schema'' 1 Generation1Dispatched,
     slot KindRetentionPolicy ''registry.retention_policy'' 1 Generation1Dispatched]"

definition classify_body_schema_triple :: "registry_entry_kind \<Rightarrow> ustr \<Rightarrow> nat \<Rightarrow> body_schema_slot_class" where
  "classify_body_schema_triple kind schema_id schema_version =
     (case find (\<lambda>s. sl_kind s = kind \<and> lit (sl_entry_schema_id s) = schema_id
          \<and> sl_entry_schema_version s = schema_version) BODY_SCHEMA_SLOTS of
        None \<Rightarrow> UnknownSlot | Some s \<Rightarrow> sl_class s)"

subsection \<open>Entries\<close>

abbreviation "PACKAGE_SCHEMA_VERSION \<equiv> (1::nat)"
abbreviation "ACTIVATION_SCHEMA_VERSION \<equiv> (1::nat)"
abbreviation "MAX_REGISTRY_ENTRIES \<equiv> (1024::nat)"
abbreviation "MAX_APPROVALS \<equiv> (64::nat)"

definition as_object :: "canonical_value \<Rightarrow> (ustr \<times> canonical_value) list option" where
  "as_object v = (case v of CObject kvs \<Rightarrow> Some kvs | _ \<Rightarrow> None)"

record registry_entry =
  re_schema_version :: nat
  re_kind :: registry_entry_kind
  re_entry_id :: contract_id
  re_version :: nat
  re_entry_schema_id :: contract_id
  re_entry_schema_version :: nat
  re_body :: canonical_value
  re_positive_vector_digest :: digest
  re_negative_vector_digest :: digest

definition validate_entry :: "contract_env \<Rightarrow> registry_entry \<Rightarrow> contract_error + unit" where
  "validate_entry en e =
     (if re_schema_version e \<noteq> PACKAGE_SCHEMA_VERSION \<or> re_version e = 0 \<or> re_entry_schema_version e = 0
         \<or> as_object (re_body e) = None
      then Inl (Schema ''invalid registry entry'')
      else try_then (canonical_bytes (ce_nfc en) (re_body e)) (\<lambda>_. Inr ()))"

definition entry_canonical_bytes :: "contract_env \<Rightarrow> registry_entry codec \<Rightarrow> registry_entry \<Rightarrow> contract_error + byte list" where
  "entry_canonical_bytes en c e = try_then (validate_entry en e) (\<lambda>_. encode_typed en c e)"

definition entry_digest :: "contract_env \<Rightarrow> registry_entry codec \<Rightarrow> registry_entry \<Rightarrow> contract_error + digest" where
  "entry_digest en c e = try_then (entry_canonical_bytes en c e) (\<lambda>bytes.
     Inr (domain_separated_digest (ce_sha en) (CoreDomain Dom_RegistryEntry) bytes))"

definition entry_sort_key :: "registry_entry \<Rightarrow> ustr \<times> contract_id \<times> nat" where
  "entry_sort_key e = (lit (kind_str (re_kind e)), re_entry_id e, re_version e)"

record registry_manifest_entry =
  rm_kind :: registry_entry_kind
  rm_entry_id :: contract_id
  rm_version :: nat
  rm_entry_digest :: digest

definition manifest_sort_key :: "registry_manifest_entry \<Rightarrow> ustr \<times> contract_id \<times> nat \<times> digest" where
  "manifest_sort_key m = (lit (kind_str (rm_kind m)), rm_entry_id m, rm_version m, rm_entry_digest m)"

subsection \<open>Packages\<close>

record registry_package =
  rp_schema_version :: nat
  rp_profile :: profile_reference
  rp_entries :: "registry_entry list"
  rp_manifest :: "registry_manifest_entry list"
  rp_positive_vector_suite_digest :: digest
  rp_negative_vector_suite_digest :: digest

definition check_manifest_pair :: "contract_env \<Rightarrow> registry_entry codec \<Rightarrow> registry_entry \<times> registry_manifest_entry
    \<Rightarrow> contract_error + unit" where
  "check_manifest_pair en c = (\<lambda>(entry, manifest).
     if re_kind entry \<noteq> rm_kind manifest \<or> re_entry_id entry \<noteq> rm_entry_id manifest \<or> re_version entry \<noteq> rm_version manifest
     then Inl ManifestMismatch
     else try_then (entry_digest en c entry) (\<lambda>d. if d \<noteq> rm_entry_digest manifest then Inl ManifestMismatch else Inr ()))"

definition validate_package :: "contract_env \<Rightarrow> registry_entry codec \<Rightarrow> registry_package \<Rightarrow> profile_reference
    \<Rightarrow> contract_error + unit" where
  "validate_package en c package expected_profile =
     try_then (validate_profile expected_profile) (\<lambda>_.
     try_then (validate_profile (rp_profile package)) (\<lambda>_.
     if rp_schema_version package \<noteq> PACKAGE_SCHEMA_VERSION \<or> rp_profile package \<noteq> expected_profile then Inl ProfileMismatch
     else if rp_entries package = [] \<or> length (rp_entries package) > MAX_REGISTRY_ENTRIES
     then Inl (Schema ''registry entry count is invalid'')
     else if length (rp_entries package) \<noteq> length (rp_manifest package) then Inl ManifestMismatch
     else try_then (try_fold (\<lambda>_ e. validate_entry en e) () (rp_entries package)) (\<lambda>_.
     if \<not> strictly_sorted (map entry_sort_key (rp_entries package)) then Inl (NonCanonicalSet ''entries'')
     else if \<not> strictly_sorted (map manifest_sort_key (rp_manifest package)) then Inl (NonCanonicalSet ''manifest'')
     else try_fold (\<lambda>_ p. check_manifest_pair en c p) () (zip (rp_entries package) (rp_manifest package)))))"

record verified_package =
  vp_package :: registry_package
  vp_canonical_bytes :: "byte list"
  vp_package_digest :: digest

definition verified_package_new :: "contract_env \<Rightarrow> registry_entry codec \<Rightarrow> registry_package codec \<Rightarrow> registry_package
    \<Rightarrow> profile_reference \<Rightarrow> contract_error + verified_package" where
  "verified_package_new en ec pc package expected_profile =
     try_then (validate_package en ec package expected_profile) (\<lambda>_.
     try_then (encode_typed en pc package) (\<lambda>bytes.
       Inr \<lparr>vp_package = package, vp_canonical_bytes = bytes,
         vp_package_digest = domain_separated_digest (ce_sha en) (CoreDomain Dom_RegistryPackage) bytes\<rparr>))"

definition verified_package_decode :: "contract_env \<Rightarrow> registry_entry codec \<Rightarrow> registry_package codec \<Rightarrow> byte list
    \<Rightarrow> profile_reference \<Rightarrow> contract_error + verified_package" where
  "verified_package_decode en ec pc input expected_profile =
     try_then (require_canonical (ce_nfc en) (ce_read en) input) (\<lambda>_.
     try_then (decode_typed en pc input) (\<lambda>package. verified_package_new en ec pc package expected_profile))"

definition decode_canonical_package :: "contract_env \<Rightarrow> registry_entry codec \<Rightarrow> registry_package codec \<Rightarrow> byte list
    \<Rightarrow> profile_reference \<Rightarrow> contract_error + registry_package canonical_typed" where
  "decode_canonical_package en ec pc input expected_profile =
     try_then (canonical_typed_decode en pc input) (\<lambda>decoded.
     try_then (validate_package en ec (ct_value decoded) expected_profile) (\<lambda>_. Inr decoded))"

subsection \<open>Activation statements and receipts\<close>

record registry_head =
  rh_activation_id :: digest
  rh_package_digest :: digest
  rh_activation_policy_digest :: digest

record activation_proposal =
  ap_schema_version :: nat
  ap_profile :: profile_reference
  ap_scope :: project_scope
  ap_package_digest :: digest
  ap_expected_active_head :: registry_head
  ap_effective_from :: timestamp
  ap_effective_until :: "timestamp option"
  ap_test_vector_result_digest :: digest
  ap_proposer_principal_id :: contract_id
  ap_package_author_principal_id :: contract_id

definition validate_proposal :: "activation_proposal \<Rightarrow> contract_error + unit" where
  "validate_proposal p =
     try_then (validate_profile (ap_profile p)) (\<lambda>_.
       if ap_schema_version p \<noteq> ACTIVATION_SCHEMA_VERSION
         \<or> (case ap_effective_until p of None \<Rightarrow> False | Some until \<Rightarrow> until \<le> ap_effective_from p)
       then Inl (Schema ''invalid registry activation proposal'') else Inr ())"

definition statement_id :: "contract_env \<Rightarrow> activation_proposal codec \<Rightarrow> activation_proposal \<Rightarrow> contract_error + digest" where
  "statement_id en c p =
     try_then (validate_proposal p) (\<lambda>_. try_then (encode_typed en c p) (\<lambda>bytes.
       Inr (domain_separated_digest (ce_sha en) (CoreDomain Dom_RegistryActivationStatement) bytes)))"

definition require_current_head :: "activation_proposal \<Rightarrow> registry_head \<Rightarrow> contract_error + unit" where
  "require_current_head p current = (if ap_expected_active_head p \<noteq> current then Inl StaleRegistryHead else Inr ())"

record eligible_approval =
  ea_attestation_id :: digest
  ea_principal_id :: contract_id
  ea_signer_key_id :: contract_id

definition approval_key :: "eligible_approval \<Rightarrow> digest \<times> contract_id \<times> contract_id" where
  "approval_key a = (ea_attestation_id a, ea_principal_id a, ea_signer_key_id a)"

record activation_receipt =
  ar_schema_version :: nat
  ar_statement_id :: digest
  ar_predecessor_head :: registry_head
  ar_activated_package_digest :: digest
  ar_eligible_approvals :: "eligible_approval list"
  ar_required_threshold :: nat
  ar_separation_of_duty_satisfied :: bool
  ar_accepted_at :: timestamp

definition approval_bindings_are_unique :: "eligible_approval list \<Rightarrow> bool" where
  "approval_bindings_are_unique values \<longleftrightarrow> card (ea_principal_id ` set values) = length values
     \<and> card (ea_signer_key_id ` set values) = length values"

definition validate_receipt :: "activation_receipt \<Rightarrow> contract_error + unit" where
  "validate_receipt r =
     (if ar_schema_version r \<noteq> ACTIVATION_SCHEMA_VERSION \<or> ar_required_threshold r = 0
         \<or> ar_required_threshold r > length (ar_eligible_approvals r)
         \<or> length (ar_eligible_approvals r) > MAX_APPROVALS
         \<or> \<not> strictly_sorted (map approval_key (ar_eligible_approvals r))
         \<or> \<not> ar_separation_of_duty_satisfied r
         \<or> \<not> approval_bindings_are_unique (ar_eligible_approvals r)
      then Inl (Schema ''invalid registry activation receipt'') else Inr ())"

definition activation_id :: "contract_env \<Rightarrow> activation_receipt codec \<Rightarrow> activation_receipt \<Rightarrow> contract_error + digest" where
  "activation_id en c r =
     try_then (validate_receipt r) (\<lambda>_. try_then (encode_typed en c r) (\<lambda>bytes.
       Inr (domain_separated_digest (ce_sha en) (CoreDomain Dom_RegistryActivationReceipt) bytes)))"

end
