(* ===== verification/Resource_Identity.thy ===== *)
theory Resource_Identity
  imports Registry_Package
begin

section \<open>Resource identities\<close>

text \<open>
  \<^verbatim>\<open>memory_contracts/identity.rs\<close>: identity recipes resolved from a verified package, canonical locators, and the
  URIs derived from them. The schemas' serde code is a record of codecs.
\<close>

abbreviation "IDENTITY_SCHEMA_VERSION \<equiv> (1::nat)"
abbreviation "MAX_LOCATOR_COMPONENTS \<equiv> (64::nat)"
abbreviation "MAX_COMPONENT_VALUE_BYTES \<equiv> (4096::nat)"

datatype identity_form = EntityForm | OccurrenceForm | VersionForm

fun identity_form_str :: "identity_form \<Rightarrow> string" where
  "identity_form_str EntityForm = ''entity''"
| "identity_form_str OccurrenceForm = ''occurrence''"
| "identity_form_str VersionForm = ''version''"

datatype locator_encoding = DecimalEncoding | HexBytesEncoding | NfcUtf8Encoding

record component_rule =
  cr_key :: contract_id
  cr_encoding :: locator_encoding

record authority_namespace =
  an_schema_version :: nat
  an_namespace_id :: contract_id
  an_version :: nat
  an_immutable_coordinate_keys :: "contract_id list"

record resource_kind_schema =
  rk_schema_version :: nat
  rk_resource_kind :: contract_id
  rk_version :: nat
  rk_identity_form :: identity_form
  rk_parent_entity_kind :: "registry_reference option"
  rk_component_rules :: "component_rule list"

record identity_recipe =
  ir_schema_version :: nat
  ir_recipe_id :: contract_id
  ir_version :: nat
  ir_resource_kind :: contract_id
  ir_identity_form :: identity_form
  ir_authority_namespace :: registry_reference
  ir_resource_kind_schema :: registry_reference
  ir_component_rules :: "component_rule list"

definition strictly_sorted_by_key :: "component_rule list \<Rightarrow> bool" where
  "strictly_sorted_by_key rules \<longleftrightarrow> strictly_sorted (map cr_key rules)"

definition validate_recipe :: "identity_recipe \<Rightarrow> contract_error + unit" where
  "validate_recipe r =
     try_then (validate_registry_reference (ir_authority_namespace r)) (\<lambda>_.
     try_then (validate_registry_reference (ir_resource_kind_schema r)) (\<lambda>_.
       if ir_schema_version r \<noteq> IDENTITY_SCHEMA_VERSION \<or> ir_version r = 0 \<or> ir_component_rules r = []
         \<or> length (ir_component_rules r) > MAX_LOCATOR_COMPONENTS \<or> \<not> strictly_sorted_by_key (ir_component_rules r)
       then Inl (InvalidIdentityRecipe ''invalid version or component rule set'') else Inr ()))"

subsection \<open>URIs\<close>

record resource_uri =
  ru_identity_form :: identity_form
  ru_resource_kind :: contract_id
  ru_digest :: digest

definition show_uri :: "resource_uri \<Rightarrow> ustr" where
  "show_uri u = lit ''urn:ostk:'' @ lit (identity_form_str (ru_identity_form u)) @ lit '':v1:'' @ ru_resource_kind u
     @ lit '':sha256:'' @ to_hex (ru_digest u)"

definition parse_uri :: "contract_env \<Rightarrow> ustr \<Rightarrow> contract_error + resource_uri" where
  "parse_uri en value =
     (if utf8_len value > 256 then Inl InvalidResourceUri
      else case split_on (\<lambda>c. c = 58) value of
        [urn, ostk, form, version, kind, algorithm, digest_value] \<Rightarrow>
          if urn \<noteq> lit ''urn'' \<or> ostk \<noteq> lit ''ostk'' \<or> version \<noteq> lit ''v1'' \<or> algorithm \<noteq> lit ''sha256''
          then Inl InvalidResourceUri
          else case find (\<lambda>f. lit (identity_form_str f) = form) [EntityForm, OccurrenceForm, VersionForm] of
              None \<Rightarrow> Inl InvalidResourceUri
            | Some identity_form \<Rightarrow>
                (case new_contract_id en kind of Inl _ \<Rightarrow> Inl InvalidResourceUri
                 | Inr resource_kind \<Rightarrow>
                     (case parse_digest digest_value of Inl _ \<Rightarrow> Inl InvalidResourceUri
                      | Inr d \<Rightarrow> Inr \<lparr>ru_identity_form = identity_form, ru_resource_kind = resource_kind, ru_digest = d\<rparr>))
      | _ \<Rightarrow> Inl InvalidResourceUri)"

record derived_identity =
  di_uri :: resource_uri
  di_scope :: project_scope
  di_provider_instance_namespace :: contract_id
  di_resource_kind_schema :: registry_reference

subsection \<open>Locators\<close>

record derivation_context =
  dc_profile :: profile_reference
  dc_scope :: project_scope
  dc_provider_instance_namespace :: contract_id

record locator_component =
  lc_key :: contract_id
  lc_encoding :: locator_encoding
  lc_value :: ustr

record canonical_locator =
  lo_schema_version :: nat
  lo_profile :: profile_reference
  lo_scope :: project_scope
  lo_identity_form :: identity_form
  lo_resource_kind :: contract_id
  lo_recipe :: registry_reference
  lo_provider_instance_namespace :: contract_id
  lo_parent_entity :: "resource_uri option"
  lo_components :: "locator_component list"

text \<open>\<^verbatim>\<open>serde_json::from_slice::<HexBytes>\<close>: a JSON string in the wire form of \<^verbatim>\<open>HexBytes\<close>.\<close>

definition hex_from_slice :: "contract_env \<Rightarrow> byte list \<Rightarrow> byte list option" where
  "hex_from_slice en b = (case ce_read en b of Some (RString s) \<Rightarrow> deserialize_hex s | _ \<Rightarrow> None)"

definition validate_locator_component :: "contract_env \<Rightarrow> locator_component \<Rightarrow> contract_error + unit" where
  "validate_locator_component en c =
     (if lc_value c = [] \<or> utf8_len (lc_value c) > MAX_COMPONENT_VALUE_BYTES
      then Inl (InvalidResourceLocator ''component length is invalid'')
      else case lc_encoding c of
        DecimalEncoding \<Rightarrow> try_then (parse_decimal (lc_value c)) (\<lambda>_. Inr ())
      | HexBytesEncoding \<Rightarrow>
          try_then (decode_strict (ce_nfc en) (ce_read en) (hex_from_slice en) ([34] @ utf8_bytes (lc_value c) @ [34])) (\<lambda>_. Inr ())
      | NfcUtf8Encoding \<Rightarrow>
          if ce_nfc en (lc_value c) \<noteq> lc_value c \<or> list_ex is_control (lc_value c)
          then Inl (InvalidResourceLocator ''UTF-8 component is not canonical NFC'') else Inr ())"

record validated_recipe =
  vr_recipe :: identity_recipe
  vr_registry_reference :: registry_reference
  vr_profile :: profile_reference
  vr_authority_namespace_id :: contract_id
  vr_parent_entity_kind :: "registry_reference option"

definition validate_locator_identity :: "derivation_context \<Rightarrow> canonical_locator \<Rightarrow> validated_recipe \<Rightarrow> contract_error + unit" where
  "validate_locator_identity ctx locator vr =
     try_then (validate_profile (lo_profile locator)) (\<lambda>_.
     try_then (validate_registry_reference (lo_recipe locator)) (\<lambda>_.
     try_then (validate_recipe (vr_recipe vr)) (\<lambda>_.
       if lo_schema_version locator \<noteq> IDENTITY_SCHEMA_VERSION
         \<or> lo_identity_form locator \<noteq> ir_identity_form (vr_recipe vr)
         \<or> lo_resource_kind locator \<noteq> ir_resource_kind (vr_recipe vr)
         \<or> lo_recipe locator \<noteq> vr_registry_reference vr
         \<or> lo_profile locator \<noteq> dc_profile ctx
         \<or> lo_profile locator \<noteq> vr_profile vr
         \<or> lo_scope locator \<noteq> dc_scope ctx
         \<or> lo_provider_instance_namespace locator \<noteq> dc_provider_instance_namespace ctx
         \<or> lo_provider_instance_namespace locator \<noteq> vr_authority_namespace_id vr
       then Inl (InvalidResourceLocator ''locator does not match recipe identity'') else Inr ())))"

definition check_component :: "contract_env \<Rightarrow> locator_component \<times> component_rule \<Rightarrow> contract_error + unit" where
  "check_component en = (\<lambda>(component, rule).
     try_then (validate_locator_component en component) (\<lambda>_.
       if lc_key component \<noteq> cr_key rule \<or> lc_encoding component \<noteq> cr_encoding rule
       then Inl (InvalidResourceLocator ''component set does not match recipe'') else Inr ()))"

definition validate_locator_components :: "contract_env \<Rightarrow> canonical_locator \<Rightarrow> validated_recipe \<Rightarrow> contract_error + unit" where
  "validate_locator_components en locator vr =
     (if length (lo_components locator) \<noteq> length (ir_component_rules (vr_recipe vr))
         \<or> length (lo_components locator) > MAX_LOCATOR_COMPONENTS
      then Inl (InvalidResourceLocator ''component set does not match recipe'')
      else try_fold (\<lambda>_ p. check_component en p) () (zip (lo_components locator) (ir_component_rules (vr_recipe vr))))"

definition parent_accepted :: "derivation_context \<Rightarrow> canonical_locator \<Rightarrow> validated_recipe \<Rightarrow> derived_identity option \<Rightarrow> bool" where
  "parent_accepted ctx locator vr validated_parent \<longleftrightarrow>
     (case (lo_identity_form locator, lo_parent_entity locator, validated_parent) of
        (VersionForm, Some parent, Some vp) \<Rightarrow>
          parent = di_uri vp \<and> ru_identity_form parent = EntityForm
          \<and> (case vr_parent_entity_kind vr of None \<Rightarrow> False | Some kind \<Rightarrow> rr_entry_id kind = ru_resource_kind parent)
          \<and> (case vr_parent_entity_kind vr of None \<Rightarrow> False | Some kind \<Rightarrow> kind = di_resource_kind_schema vp)
          \<and> di_scope vp = dc_scope ctx \<and> di_provider_instance_namespace vp = dc_provider_instance_namespace ctx
      | (EntityForm, None, None) \<Rightarrow> True
      | (OccurrenceForm, None, None) \<Rightarrow> True
      | _ \<Rightarrow> False)"

definition validate_locator :: "contract_env \<Rightarrow> derivation_context \<Rightarrow> canonical_locator \<Rightarrow> validated_recipe
    \<Rightarrow> derived_identity option \<Rightarrow> contract_error + unit" where
  "validate_locator en ctx locator vr validated_parent =
     try_then (validate_locator_identity ctx locator vr) (\<lambda>_.
       if \<not> parent_accepted ctx locator vr validated_parent
       then Inl (InvalidResourceLocator ''identity form has invalid parent'')
       else validate_locator_components en locator vr)"

definition mint_derived_identity :: "contract_env \<Rightarrow> canonical_locator codec \<Rightarrow> derivation_context \<Rightarrow> canonical_locator
    \<Rightarrow> validated_recipe \<Rightarrow> contract_error + derived_identity" where
  "mint_derived_identity en lcodec ctx locator vr =
     try_then (encode_typed en lcodec locator) (\<lambda>bytes.
       Inr \<lparr>di_uri = \<lparr>ru_identity_form = lo_identity_form locator, ru_resource_kind = lo_resource_kind locator,
              ru_digest = domain_separated_digest (ce_sha en) (CoreDomain Dom_ResourceLocator) bytes\<rparr>,
            di_scope = dc_scope ctx, di_provider_instance_namespace = dc_provider_instance_namespace ctx,
            di_resource_kind_schema = ir_resource_kind_schema (vr_recipe vr)\<rparr>)"

definition derive_resource_uri :: "contract_env \<Rightarrow> canonical_locator codec \<Rightarrow> derivation_context \<Rightarrow> canonical_locator
    \<Rightarrow> validated_recipe \<Rightarrow> derived_identity option \<Rightarrow> contract_error + derived_identity" where
  "derive_resource_uri en lcodec ctx locator vr parent =
     try_then (validate_locator en ctx locator vr parent) (\<lambda>_. mint_derived_identity en lcodec ctx locator vr)"

subsection \<open>Recipes from a package\<close>

record identity_codecs =
  ic_entry :: "registry_entry codec"
  ic_body :: "canonical_value codec"
  ic_recipe :: "identity_recipe codec"
  ic_namespace :: "authority_namespace codec"
  ic_kind :: "resource_kind_schema codec"
  ic_locator :: "canonical_locator codec"

definition exact_entry :: "registry_package \<Rightarrow> registry_entry_kind \<Rightarrow> contract_id \<Rightarrow> nat \<Rightarrow> contract_error + registry_entry" where
  "exact_entry package kind entry_id version =
     (case filter (\<lambda>e. re_kind e = kind \<and> re_entry_id e = entry_id \<and> re_version e = version) (rp_entries package) of
        [] \<Rightarrow> Inl (InvalidIdentityRecipe ''missing registry dependency'')
      | [entry] \<Rightarrow> Inr entry
      | _ \<Rightarrow> Inl (InvalidIdentityRecipe ''duplicate registry dependency''))"

definition exact_referenced_entry :: "contract_env \<Rightarrow> registry_entry codec \<Rightarrow> registry_package \<Rightarrow> registry_entry_kind
    \<Rightarrow> registry_reference \<Rightarrow> contract_error + registry_entry" where
  "exact_referenced_entry en ec package kind reference =
     try_then (exact_entry package kind (rr_entry_id reference) (rr_version reference)) (\<lambda>entry.
     try_then (entry_digest en ec entry) (\<lambda>d.
       if d \<noteq> rr_entry_digest reference then Inl (InvalidIdentityRecipe ''registry dependency digest mismatch'')
       else Inr entry))"

definition validate_namespace :: "authority_namespace \<Rightarrow> contract_error + unit" where
  "validate_namespace n =
     (if an_schema_version n \<noteq> IDENTITY_SCHEMA_VERSION \<or> an_version n = 0 \<or> an_immutable_coordinate_keys n = []
         \<or> length (an_immutable_coordinate_keys n) > MAX_LOCATOR_COMPONENTS
         \<or> \<not> strictly_sorted (an_immutable_coordinate_keys n)
      then Inl (InvalidIdentityRecipe ''invalid authority namespace'') else Inr ())"

definition validate_kind_schema :: "resource_kind_schema \<Rightarrow> contract_error + unit" where
  "validate_kind_schema k =
     try_then (case rk_parent_entity_kind k of None \<Rightarrow> Inr () | Some parent \<Rightarrow> validate_registry_reference parent) (\<lambda>_.
       let parent_is_valid = (case rk_identity_form k of VersionForm \<Rightarrow> rk_parent_entity_kind k \<noteq> None
         | _ \<Rightarrow> rk_parent_entity_kind k = None)
       in if rk_schema_version k \<noteq> IDENTITY_SCHEMA_VERSION \<or> rk_version k = 0 \<or> \<not> parent_is_valid
            \<or> rk_component_rules k = [] \<or> length (rk_component_rules k) > MAX_LOCATOR_COMPONENTS
            \<or> \<not> strictly_sorted_by_key (rk_component_rules k)
          then Inl (InvalidIdentityRecipe ''invalid resource-kind schema'') else Inr ())"

text \<open>A body is re-encoded canonically and decoded with its schema.\<close>

definition decode_body :: "contract_env \<Rightarrow> canonical_value codec \<Rightarrow> 'a codec \<Rightarrow> registry_entry \<Rightarrow> contract_error + 'a" where
  "decode_body en bc c entry = try_then (encode_typed en bc (re_body entry)) (\<lambda>bytes. decode_typed en c bytes)"

definition check_parent_kind :: "contract_env \<Rightarrow> identity_codecs \<Rightarrow> registry_package \<Rightarrow> registry_reference option \<Rightarrow> contract_error + unit" where
  "check_parent_kind en ic package parent_kind =
     (case parent_kind of None \<Rightarrow> Inr ()
      | Some reference \<Rightarrow>
          try_then (exact_referenced_entry en (ic_entry ic) package KindResourceKindSchema reference) (\<lambda>entry.
          try_then (decode_body en (ic_body ic) (ic_kind ic) entry) (\<lambda>parent.
          try_then (validate_kind_schema parent) (\<lambda>_.
            if rk_identity_form parent \<noteq> EntityForm
              \<or> (rk_resource_kind parent, rk_version parent) \<noteq> (re_entry_id entry, re_version entry)
            then Inl (InvalidIdentityRecipe ''version parent must resolve to an exact entity-kind schema'') else Inr ()))))"

definition recipe_from_package :: "contract_env \<Rightarrow> identity_codecs \<Rightarrow> verified_package \<Rightarrow> contract_id \<Rightarrow> nat
    \<Rightarrow> contract_error + validated_recipe" where
  "recipe_from_package en ic vp recipe_id version =
     (let package = vp_package vp in
      try_then (exact_entry package KindIdentityRecipe recipe_id version) (\<lambda>recipe_entry.
      try_then (decode_body en (ic_body ic) (ic_recipe ic) recipe_entry) (\<lambda>recipe.
      try_then (validate_recipe recipe) (\<lambda>_.
      if ir_recipe_id recipe \<noteq> recipe_id \<or> ir_version recipe \<noteq> version
      then Inl (InvalidIdentityRecipe ''recipe body metadata does not match its registry entry'')
      else try_then (exact_referenced_entry en (ic_entry ic) package KindNamespaceDefinition (ir_authority_namespace recipe)) (\<lambda>namespace_entry.
      try_then (decode_body en (ic_body ic) (ic_namespace ic) namespace_entry) (\<lambda>namespace.
      try_then (validate_namespace namespace) (\<lambda>_.
      if (an_namespace_id namespace, an_version namespace) \<noteq> (re_entry_id namespace_entry, re_version namespace_entry)
      then Inl (InvalidIdentityRecipe ''namespace body ID does not match its registry entry'')
      else try_then (exact_referenced_entry en (ic_entry ic) package KindResourceKindSchema (ir_resource_kind_schema recipe)) (\<lambda>kind_entry.
      try_then (decode_body en (ic_body ic) (ic_kind ic) kind_entry) (\<lambda>kind.
      try_then (validate_kind_schema kind) (\<lambda>_.
      if (rk_resource_kind kind, rk_version kind) \<noteq> (re_entry_id kind_entry, re_version kind_entry)
      then Inl (InvalidIdentityRecipe ''resource-kind body ID does not match its registry entry'')
      else try_then (check_parent_kind en ic package (rk_parent_entity_kind kind)) (\<lambda>_.
      if rk_resource_kind kind \<noteq> ir_resource_kind recipe \<or> rk_identity_form kind \<noteq> ir_identity_form recipe
        \<or> rk_component_rules kind \<noteq> ir_component_rules recipe
        \<or> an_immutable_coordinate_keys namespace \<noteq> map cr_key (ir_component_rules recipe)
      then Inl (InvalidIdentityRecipe ''recipe dependency closure is inconsistent'')
      else try_then (entry_digest en (ic_entry ic) recipe_entry) (\<lambda>d.
        Inr \<lparr>vr_recipe = recipe,
             vr_registry_reference = \<lparr>rr_entry_id = re_entry_id recipe_entry, rr_version = re_version recipe_entry, rr_entry_digest = d\<rparr>,
             vr_profile = rp_profile package, vr_authority_namespace_id = an_namespace_id namespace,
             vr_parent_entity_kind = rk_parent_entity_kind kind\<rparr>))))))))))))"

definition context_of_recipe :: "validated_recipe \<Rightarrow> project_scope \<Rightarrow> derivation_context" where
  "context_of_recipe vr scope = \<lparr>dc_profile = vr_profile vr, dc_scope = scope,
     dc_provider_instance_namespace = vr_authority_namespace_id vr\<rparr>"

text \<open>Components come as a \<^verbatim>\<open>BTreeMap\<close>: an association list with ascending keys.\<close>

definition component_of :: "(ustr \<times> ustr) list \<Rightarrow> component_rule \<Rightarrow> contract_error + locator_component" where
  "component_of components rule =
     ok_or (map_option (\<lambda>value. \<lparr>lc_key = cr_key rule, lc_encoding = cr_encoding rule, lc_value = value\<rparr>)
       (map_of components (cr_key rule))) (InvalidResourceLocator ''missing locator component `{}`'')"

definition locator_from_components :: "validated_recipe \<Rightarrow> project_scope \<Rightarrow> resource_uri option \<Rightarrow> (ustr \<times> ustr) list
    \<Rightarrow> contract_error + canonical_locator" where
  "locator_from_components vr scope parent_entity components =
     (let rules = ir_component_rules (vr_recipe vr) in
      if \<exists>k\<in>fst ` set components. \<not> (\<exists>rule\<in>set rules. cr_key rule = k)
      then Inl (InvalidResourceLocator ''unknown locator component `{unknown}`'')
      else try_then (try_map (component_of components) rules) (\<lambda>cs.
        Inr \<lparr>lo_schema_version = IDENTITY_SCHEMA_VERSION, lo_profile = vr_profile vr, lo_scope = scope,
             lo_identity_form = ir_identity_form (vr_recipe vr), lo_resource_kind = ir_resource_kind (vr_recipe vr),
             lo_recipe = vr_registry_reference vr, lo_provider_instance_namespace = vr_authority_namespace_id vr,
             lo_parent_entity = parent_entity, lo_components = cs\<rparr>))"

definition derive_entity_with_recipe :: "contract_env \<Rightarrow> identity_codecs \<Rightarrow> validated_recipe \<Rightarrow> project_scope
    \<Rightarrow> (ustr \<times> ustr) list \<Rightarrow> contract_error + derived_identity" where
  "derive_entity_with_recipe en ic vr scope components =
     (if ir_identity_form (vr_recipe vr) \<noteq> EntityForm
      then Inl (InvalidIdentityRecipe ''component derivation requires an entity-form recipe'')
      else try_then (locator_from_components vr scope None components) (\<lambda>locator.
        derive_resource_uri en (ic_locator ic) (context_of_recipe vr scope) locator vr None))"

definition derive_entity_from_components :: "contract_env \<Rightarrow> identity_codecs \<Rightarrow> verified_package \<Rightarrow> registry_reference
    \<Rightarrow> project_scope \<Rightarrow> (ustr \<times> ustr) list \<Rightarrow> contract_error + derived_identity" where
  "derive_entity_from_components en ic vp recipe scope components =
     try_then (recipe_from_package en ic vp (rr_entry_id recipe) (rr_version recipe)) (\<lambda>validated.
       if vr_registry_reference validated \<noteq> recipe
       then Inl (InvalidIdentityRecipe ''recipe reference does not match the package entry'')
       else derive_entity_with_recipe en ic validated scope components)"

definition derive_version_under_entity_parent :: "contract_env \<Rightarrow> identity_codecs \<Rightarrow> derivation_context \<Rightarrow> canonical_locator
    \<Rightarrow> validated_recipe \<Rightarrow> derived_identity \<Rightarrow> contract_error + derived_identity" where
  "derive_version_under_entity_parent en ic ctx locator vr parent =
     try_then (validate_locator_identity ctx locator vr) (\<lambda>_.
       let parent_matches = (lo_identity_form locator = VersionForm
           \<and> lo_parent_entity locator = Some (di_uri parent)
           \<and> ru_identity_form (di_uri parent) = EntityForm
           \<and> (case vr_parent_entity_kind vr of None \<Rightarrow> False
              | Some kind \<Rightarrow> kind = di_resource_kind_schema parent \<and> rr_entry_id kind = ru_resource_kind (di_uri parent))
           \<and> di_scope parent = dc_scope ctx)
       in if \<not> parent_matches then Inl (InvalidResourceLocator ''version locator does not name a valid entity parent'')
          else try_then (validate_locator_components en locator vr) (\<lambda>_. mint_derived_identity en (ic_locator ic) ctx locator vr))"

subsection \<open>The parent of a version\<close>

definition parent_candidate :: "contract_env \<Rightarrow> identity_codecs \<Rightarrow> validated_recipe \<Rightarrow> registry_reference \<Rightarrow> registry_entry
    \<Rightarrow> (contract_id \<times> nat) option" where
  "parent_candidate en ic child parent_kind entry =
     (if re_kind entry \<noteq> KindIdentityRecipe then None
      else case decode_body en (ic_body ic) (ic_recipe ic) entry of Inl _ \<Rightarrow> None
        | Inr recipe \<Rightarrow>
            if ir_identity_form recipe = EntityForm \<and> ir_resource_kind_schema recipe = parent_kind
              \<and> rr_entry_id (ir_authority_namespace recipe) = vr_authority_namespace_id child
            then Some (ir_recipe_id recipe, ir_version recipe) else None)"

definition resolve_parent_entity_recipe :: "contract_env \<Rightarrow> identity_codecs \<Rightarrow> verified_package \<Rightarrow> validated_recipe
    \<Rightarrow> contract_error + validated_recipe option" where
  "resolve_parent_entity_recipe en ic vp child =
     (case vr_parent_entity_kind child of None \<Rightarrow> Inr None
      | Some parent_kind \<Rightarrow>
          (case List.map_filter (parent_candidate en ic child parent_kind) (rp_entries (vp_package vp)) of
             [] \<Rightarrow> Inl (InvalidIdentityRecipe ''version recipe has no entity-parent recipe in this package'')
           | [(recipe_id, version)] \<Rightarrow> try_then (recipe_from_package en ic vp recipe_id version) (\<lambda>r. Inr (Some r))
           | _ \<Rightarrow> Inl (InvalidIdentityRecipe ''version recipe has an ambiguous entity-parent recipe'')))"

definition derive_version_parent :: "contract_env \<Rightarrow> identity_codecs \<Rightarrow> verified_package \<Rightarrow> profile_reference \<Rightarrow> project_scope
    \<Rightarrow> validated_recipe \<Rightarrow> canonical_locator \<Rightarrow> contract_error + derived_identity option" where
  "derive_version_parent en ic vp profile scope child_recipe child_locator =
     try_then (resolve_parent_entity_recipe en ic vp child_recipe) (\<lambda>parent.
       case parent of None \<Rightarrow> Inr None
       | Some parent_recipe \<Rightarrow>
           try_then (derive_resource_uri en (ic_locator ic)
               \<lparr>dc_profile = profile, dc_scope = scope, dc_provider_instance_namespace = vr_authority_namespace_id parent_recipe\<rparr>
               \<lparr>lo_schema_version = IDENTITY_SCHEMA_VERSION, lo_profile = profile, lo_scope = scope,
                lo_identity_form = ir_identity_form (vr_recipe parent_recipe),
                lo_resource_kind = ir_resource_kind (vr_recipe parent_recipe),
                lo_recipe = vr_registry_reference parent_recipe,
                lo_provider_instance_namespace = vr_authority_namespace_id parent_recipe,
                lo_parent_entity = None, lo_components = lo_components child_locator\<rparr>
               parent_recipe None) (\<lambda>d. Inr (Some d)))"

end
