(* ===== verification/Coverage_Contract.thy ===== *)
theory Coverage_Contract
  imports Resource_Identity
begin

section \<open>Coverage receipts\<close>

text \<open>
  \<^verbatim>\<open>memory_contracts/coverage.rs\<close>: the receipt that says how thoroughly a source was read, and the one
  place that decides whether it may support a negative finding. Completeness, freshness and
  continuity are three separate witnesses. Provider sequences are 64-bit words; the digest newtypes
  are \<open>digest\<close>; instants compare as their canonical texts, as the derived order does.
\<close>

abbreviation "COVERAGE_SCHEMA_VERSION \<equiv> (1::nat)"
abbreviation "COVERAGE_PROOF_V2_SCHEMA_VERSION \<equiv> (2::nat)"
abbreviation "MAX_COVERAGE_PROOF_INSTANCES \<equiv> (64::nat)"

subsection \<open>Producer, window and scope\<close>

datatype producer_kind = Connector | Observer

record producer_identity =
  pi_schema_version :: nat
  pi_kind :: producer_kind
  pi_producer_id :: contract_id
  pi_version :: nat

definition validate_producer :: "producer_identity \<Rightarrow> contract_error + unit" where
  "validate_producer p =
     (if pi_schema_version p \<noteq> COVERAGE_SCHEMA_VERSION \<or> pi_version p = 0
      then Inl (Schema ''invalid producer identity'') else Inr ())"

record coverage_window =
  cw_start :: timestamp
  cw_end :: timestamp

definition validate_window :: "coverage_window \<Rightarrow> contract_error + unit" where
  "validate_window w =
     (if cw_end w \<le> cw_start w
      then Inl (Schema ''coverage window end must be strictly after its start'') else Inr ())"

record coverage_scope =
  cs_scope :: resource_uri
  cs_revision :: "byte list"
  cs_window :: coverage_window

definition validate_coverage_scope :: "coverage_scope \<Rightarrow> contract_error + unit" where
  "validate_coverage_scope s = validate_window (cs_window s)"

subsection \<open>Watermarks, completeness, freshness and continuity\<close>

datatype coverage_watermark = Cursor "byte list" | ProviderSequence u64

datatype coverage_completeness = Complete | Partial | Unknown

datatype freshness_state = Current | Stale

definition validate_registered_reference :: "registry_reference \<Rightarrow> string \<Rightarrow> contract_error + unit" where
  "validate_registered_reference reference field =
     try_then (validate_registry_reference reference) (\<lambda>_.
       if rr_entry_digest reference = ZERO_DIGEST
       then Inl (Schema (field @ '' reference cannot use the zero digest'')) else Inr ())"

record coverage_freshness =
  fr_state :: freshness_state
  fr_freshness_rule :: registry_reference

definition validate_freshness :: "coverage_freshness \<Rightarrow> contract_error + unit" where
  "validate_freshness f = validate_registered_reference (fr_freshness_rule f) ''freshness rule''"

record sequence_gap =
  gap_after :: coverage_watermark
  gap_before :: coverage_watermark

fun has_provable_extent :: "coverage_watermark \<Rightarrow> coverage_watermark \<Rightarrow> bool" where
  "has_provable_extent (Cursor after) (Cursor before) \<longleftrightarrow> after \<noteq> before"
| "has_provable_extent (ProviderSequence after) (ProviderSequence before) \<longleftrightarrow> after < before"
| "has_provable_extent (Cursor _) (ProviderSequence _) \<longleftrightarrow> False"
| "has_provable_extent (ProviderSequence _) (Cursor _) \<longleftrightarrow> False"

definition validate_gap :: "sequence_gap \<Rightarrow> contract_error + unit" where
  "validate_gap g =
     (if \<not> has_provable_extent (gap_after g) (gap_before g)
      then Inl (Schema ''sequence gap endpoints must share one watermark kind and have a provable, non-empty extent (distinct cursor bytes, or a strictly ordered provider sequence)'')
      else Inr ())"

datatype sequence_continuity = Contiguous | GapDetected "sequence_gap option"

fun validate_continuity :: "sequence_continuity \<Rightarrow> contract_error + unit" where
  "validate_continuity (GapDetected (Some gap)) = validate_gap gap"
| "validate_continuity _ = Inr ()"

definition is_contiguous :: "sequence_continuity \<Rightarrow> bool" where
  "is_contiguous c \<longleftrightarrow> c = Contiguous"

datatype coverage_proof_method = EnumeratedSnapshot | ClosedCursorInterval | ExhaustiveAstWalk | ClosedProviderQuery

record coverage_proof_basis =
  pb_method :: coverage_proof_method
  pb_proof_method_registration :: registry_reference

definition validate_proof_basis :: "coverage_proof_basis \<Rightarrow> contract_error + unit" where
  "validate_proof_basis b = validate_registered_reference (pb_proof_method_registration b) ''proof method''"

subsection \<open>Receipts\<close>

record coverage_receipt =
  cr_schema_version :: nat
  cr_producer :: producer_identity
  cr_scope :: coverage_scope
  cr_watermark :: coverage_watermark
  cr_completeness :: coverage_completeness
  cr_freshness :: coverage_freshness
  cr_continuity :: sequence_continuity
  cr_observed_through :: timestamp
  cr_proof_basis :: coverage_proof_basis
  cr_source_digest :: digest
  cr_source_count :: nat
  cr_evidence_id :: digest

definition validate_coverage_receipt :: "contract_env \<Rightarrow> coverage_receipt codec \<Rightarrow> coverage_receipt \<Rightarrow> contract_error + unit" where
  "validate_coverage_receipt en c r =
     try_then (validate_producer (cr_producer r)) (\<lambda>_.
     try_then (validate_coverage_scope (cr_scope r)) (\<lambda>_.
     try_then (validate_freshness (cr_freshness r)) (\<lambda>_.
     try_then (validate_continuity (cr_continuity r)) (\<lambda>_.
     try_then (validate_proof_basis (cr_proof_basis r)) (\<lambda>_.
       if cr_schema_version r \<noteq> COVERAGE_SCHEMA_VERSION then Inl (Schema ''invalid coverage receipt'')
       else if cr_observed_through r < cw_end (cs_window (cr_scope r))
       then Inl (Schema ''observed_through must reach the end of the covered window'')
       else if cr_source_digest r = ZERO_DIGEST then Inl (Schema ''source digest cannot use the zero digest'')
       else if cr_evidence_id r = ZERO_DIGEST then Inl (Schema ''evidence id cannot use the zero digest'')
       else try_then (encode_typed en c r) (\<lambda>_. Inr ()))))))"

definition receipt_id :: "contract_env \<Rightarrow> coverage_receipt codec \<Rightarrow> coverage_receipt \<Rightarrow> contract_error + digest" where
  "receipt_id en c r =
     try_then (validate_coverage_receipt en c r) (\<lambda>_.
     try_then (encode_typed en c r) (\<lambda>bytes.
       Inr (domain_separated_digest (ce_sha en) (ContractDomain Dom_CoverageReceipt) bytes)))"

datatype evaluated_condition = CondPresent | CondAbsent | CondIndeterminate

definition negative_support_admissible :: "contract_env \<Rightarrow> coverage_receipt codec \<Rightarrow> coverage_receipt \<Rightarrow> evaluated_condition \<Rightarrow> bool" where
  "negative_support_admissible en c receipt condition \<longleftrightarrow>
     condition = CondAbsent
     \<and> validate_coverage_receipt en c receipt = Inr ()
     \<and> cr_completeness receipt = Complete
     \<and> fr_state (cr_freshness receipt) = Current
     \<and> is_contiguous (cr_continuity receipt)"

subsection \<open>Proofs over several connector instances\<close>

record instance_cursor =
  ic_connector_instance_id :: contract_id
  ic_cursor :: "byte list"
  ic_completeness :: coverage_completeness
  ic_continuity :: sequence_continuity

definition validate_instance_cursor :: "instance_cursor \<Rightarrow> contract_error + unit" where
  "validate_instance_cursor i =
     try_then (validate_continuity (ic_continuity i)) (\<lambda>_.
       if ic_connector_instance_id i = [] \<or> ic_cursor i = []
       then Inl (Schema ''connector instance cursor must name a non-empty instance and cursor'') else Inr ())"

definition instance_watermark :: "instance_cursor \<Rightarrow> coverage_watermark" where
  "instance_watermark i = Cursor (ic_cursor i)"

record coverage_proof =
  cp_schema_version :: nat
  cp_scope :: coverage_scope
  cp_freshness :: coverage_freshness
  cp_proof_basis :: coverage_proof_basis
  cp_observed_through :: timestamp
  cp_instances :: "instance_cursor list"

definition validate_coverage_proof :: "contract_env \<Rightarrow> coverage_proof codec \<Rightarrow> coverage_proof \<Rightarrow> contract_error + unit" where
  "validate_coverage_proof en c p =
     try_then (validate_coverage_scope (cp_scope p)) (\<lambda>_.
     try_then (validate_freshness (cp_freshness p)) (\<lambda>_.
     try_then (validate_proof_basis (cp_proof_basis p)) (\<lambda>_.
       if cp_schema_version p \<noteq> COVERAGE_PROOF_V2_SCHEMA_VERSION \<or> cp_instances p = []
          \<or> length (cp_instances p) > MAX_COVERAGE_PROOF_INSTANCES
       then Inl (Schema ''invalid coverage proof v2'')
       else if cp_observed_through p < cw_end (cs_window (cp_scope p))
       then Inl (Schema ''observed_through must reach the end of the covered window'')
       else try_then (try_map validate_instance_cursor (cp_instances p)) (\<lambda>_.
         if \<not> strictly_sorted (map ic_connector_instance_id (cp_instances p)) then Inl (NonCanonicalSet ''instances'')
         else try_then (encode_typed en c p) (\<lambda>_. Inr ())))))"

definition proof_id :: "contract_env \<Rightarrow> coverage_proof codec \<Rightarrow> coverage_proof \<Rightarrow> contract_error + digest" where
  "proof_id en c p =
     try_then (validate_coverage_proof en c p) (\<lambda>_.
     try_then (encode_typed en c p) (\<lambda>bytes.
       Inr (domain_separated_digest (ce_sha en) (ConnectorDomain Dom_CoverageProofV2) bytes)))"

definition covers_instance :: "coverage_proof \<Rightarrow> contract_id \<Rightarrow> bool" where
  "covers_instance p instance_id \<longleftrightarrow> list_ex (\<lambda>i. ic_connector_instance_id i = instance_id) (cp_instances p)"

subsection \<open>What a valid receipt says\<close>

lemma validate_registered_reference_Inr [res_simps]:
  "validate_registered_reference r f = Inr u \<longleftrightarrow> rr_version r \<noteq> 0 \<and> rr_entry_digest r \<noteq> ZERO_DIGEST"
  by (auto simp: validate_registered_reference_def validate_registry_reference_def res_simps)

lemma validated_receipt:
  assumes "validate_coverage_receipt en c r = Inr u"
  shows "cw_start (cs_window (cr_scope r)) < cw_end (cs_window (cr_scope r))"
    and "cw_end (cs_window (cr_scope r)) \<le> cr_observed_through r"
    and "cr_source_digest r \<noteq> ZERO_DIGEST" and "cr_evidence_id r \<noteq> ZERO_DIGEST"
    and "\<exists>b. encode_typed en c r = Inr b"
  using assms
  by (auto simp: validate_coverage_receipt_def validate_coverage_scope_def validate_window_def res_simps split: if_splits)

end
