(* ===== verification/Ledger_Types.thy ===== *)
theory Ledger_Types
  imports Json
begin

section \<open>Types of the claim ledger\<close>

text \<open>
  The vocabulary of \<^verbatim>\<open>ledger/types.rs\<close>, \<^verbatim>\<open>ledger/lifecycle.rs\<close> and \<^verbatim>\<open>error.rs\<close> that the
  planning functions and the store share: claim kinds and states with their wire names,
  refusal codes, errors, the trusted scope, the locked claim row and the lifecycle event.
  Times are \<open>int\<close> (instants on one total order), row identifiers and revisions are the
  \<^verbatim>\<open>i64\<close> of the database as \<open>int\<close>. A refusal keeps its code and its machine-readable
  details; the sentence for the human reader is not modelled.
\<close>

type_synonym time = int

subsection \<open>Claim kinds and states\<close>

datatype claim_kind =
  Observation | Note | Decision | Fact | Constraint | Preference | Procedure | OpenQuestion

fun claim_kind_str :: "claim_kind \<Rightarrow> string" where
  "claim_kind_str Observation = ''observation''"
| "claim_kind_str Note = ''note''"
| "claim_kind_str Decision = ''decision''"
| "claim_kind_str Fact = ''fact''"
| "claim_kind_str Constraint = ''constraint''"
| "claim_kind_str Preference = ''preference''"
| "claim_kind_str Procedure = ''procedure''"
| "claim_kind_str OpenQuestion = ''open_question''"

definition is_conflict_eligible :: "claim_kind \<Rightarrow> bool" where
  "is_conflict_eligible k \<longleftrightarrow> k \<in> {Decision, Fact, Constraint, Preference, Procedure}"

datatype claim_state =
  Active | Disputed | Unsupported | Superseded | Retracted | Suppressed | Expired

fun claim_state_str :: "claim_state \<Rightarrow> string" where
  "claim_state_str Active = ''active''"
| "claim_state_str Disputed = ''disputed''"
| "claim_state_str Unsupported = ''unsupported''"
| "claim_state_str Superseded = ''superseded''"
| "claim_state_str Retracted = ''retracted''"
| "claim_state_str Suppressed = ''suppressed''"
| "claim_state_str Expired = ''expired''"

fun is_current :: "claim_state \<Rightarrow> bool" where
  "is_current Active = True"
| "is_current Disputed = True"
| "is_current _ = False"

lemma is_current_iff: "is_current s \<longleftrightarrow> s = Active \<or> s = Disputed"
  by (cases s) auto

subsection \<open>Refusals and errors\<close>

datatype refusal_code =
    NotFound | NotOwner | NotOperatorAsserted | NotCurrent | StaleRevision | StaleMemberCount
  | NotOpen | LegacyLineage | SuccessorKindMismatch | SuccessorKeyMismatch
  | SuccessorEligibilityMismatch | NotMember | StillIncompatible | VerificationDivergence
  | Implicated | UnattributedMember | BoundExceeded | LifecycleUnavailable | AdjudicationDisabled
  | AssertUnavailable | WriterAuthorityUnavailable | AssertionNotAdmitted | SupportEventUnknown
  | RegistryHeadChanged | AlreadyAsserted | CaptureUnavailable | ItemSupportUnavailable
  | SupportItemUnknown | SupportItemPending | SupportItemWithdrawn | SupportItemDuplicate
  | OwnCurrentClaimOnKey

fun refusal_code_str :: "refusal_code \<Rightarrow> string" where
  "refusal_code_str NotFound = ''not_found''"
| "refusal_code_str NotOwner = ''not_owner''"
| "refusal_code_str NotOperatorAsserted = ''not_operator_asserted''"
| "refusal_code_str NotCurrent = ''not_current''"
| "refusal_code_str StaleRevision = ''stale_revision''"
| "refusal_code_str StaleMemberCount = ''stale_member_count''"
| "refusal_code_str NotOpen = ''not_open''"
| "refusal_code_str LegacyLineage = ''legacy_lineage''"
| "refusal_code_str SuccessorKindMismatch = ''successor_kind_mismatch''"
| "refusal_code_str SuccessorKeyMismatch = ''successor_key_mismatch''"
| "refusal_code_str SuccessorEligibilityMismatch = ''successor_eligibility_mismatch''"
| "refusal_code_str NotMember = ''not_member''"
| "refusal_code_str StillIncompatible = ''still_incompatible''"
| "refusal_code_str VerificationDivergence = ''verification_divergence''"
| "refusal_code_str Implicated = ''implicated''"
| "refusal_code_str UnattributedMember = ''unattributed_member''"
| "refusal_code_str BoundExceeded = ''bound_exceeded''"
| "refusal_code_str LifecycleUnavailable = ''lifecycle_unavailable''"
| "refusal_code_str AdjudicationDisabled = ''adjudication_disabled''"
| "refusal_code_str AssertUnavailable = ''assert_unavailable''"
| "refusal_code_str WriterAuthorityUnavailable = ''writer_authority_unavailable''"
| "refusal_code_str AssertionNotAdmitted = ''assertion_not_admitted''"
| "refusal_code_str SupportEventUnknown = ''support_event_unknown''"
| "refusal_code_str RegistryHeadChanged = ''registry_head_changed''"
| "refusal_code_str AlreadyAsserted = ''already_asserted''"
| "refusal_code_str CaptureUnavailable = ''capture_unavailable''"
| "refusal_code_str ItemSupportUnavailable = ''item_support_unavailable''"
| "refusal_code_str SupportItemUnknown = ''support_item_unknown''"
| "refusal_code_str SupportItemPending = ''support_item_pending''"
| "refusal_code_str SupportItemWithdrawn = ''support_item_withdrawn''"
| "refusal_code_str SupportItemDuplicate = ''support_item_duplicate''"
| "refusal_code_str OwnCurrentClaimOnKey = ''own_current_claim_on_key''"

record lifecycle_refusal =
  rf_code :: refusal_code
  rf_details :: json

abbreviation refusal :: "refusal_code \<Rightarrow> json \<Rightarrow> lifecycle_refusal" where
  "refusal c d \<equiv> \<lparr>rf_code = c, rf_details = d\<rparr>"

datatype fleet_error =
    Configuration string
  | InvalidScope string
  | Database string
  | IdempotencyConflict string
  | Memory string
  | EmbeddingUnavailable
  | LifecycleRefused lifecycle_refusal

type_synonym 'a res = "fleet_error + 'a"

text \<open>\<^verbatim>\<open>From<LifecycleRefusal> for FleetError\<close>, applied by \<^verbatim>\<open>?\<close>.\<close>

definition lift_refusal :: "lifecycle_refusal + 'a \<Rightarrow> 'a res" where
  "lift_refusal r = (case r of Inl e \<Rightarrow> Inl (LifecycleRefused e) | Inr x \<Rightarrow> Inr x)"

definition refuse :: "refusal_code \<Rightarrow> json \<Rightarrow> 'a res" where
  "refuse c d = Inl (LifecycleRefused (refusal c d))"

definition protocol_error :: "string \<Rightarrow> fleet_error" where
  "protocol_error m = Memory m"

lemma lift_refusal_eq_Inr [res_simps]: "lift_refusal r = Inr x \<longleftrightarrow> r = Inr x"
  by (cases r) (auto simp: lift_refusal_def)

lemma lift_refusal_eq_Inl [res_simps]:
  "lift_refusal r = Inl e \<longleftrightarrow> (\<exists>c. r = Inl c \<and> e = LifecycleRefused c)"
  by (cases r) (auto simp: lift_refusal_def)

lemma refuse_neq_Inr [simp]: "refuse c d \<noteq> Inr x"
  by (simp add: refuse_def)

lemma lift_refusal_simps [simp]:
  "lift_refusal (Inl e) = Inl (LifecycleRefused e)" "lift_refusal (Inr x) = Inr x"
  by (simp_all add: lift_refusal_def)

subsection \<open>Decoding stored vocabulary\<close>

definition parse_claim_kind :: "string \<Rightarrow> claim_kind res" where
  "parse_claim_kind v =
     (if v = ''observation'' then Inr Observation
      else if v = ''note'' then Inr Note
      else if v = ''decision'' then Inr Decision
      else if v = ''fact'' then Inr Fact
      else if v = ''constraint'' then Inr Constraint
      else if v = ''preference'' then Inr Preference
      else if v = ''procedure'' then Inr Procedure
      else if v = ''open_question'' then Inr OpenQuestion
      else Inl (protocol_error ''database returned unknown claim kind {other:?}''))"

definition parse_claim_state :: "string \<Rightarrow> claim_state res" where
  "parse_claim_state v =
     (if v = ''active'' then Inr Active
      else if v = ''disputed'' then Inr Disputed
      else if v = ''unsupported'' then Inr Unsupported
      else if v = ''superseded'' then Inr Superseded
      else if v = ''retracted'' then Inr Retracted
      else if v = ''suppressed'' then Inr Suppressed
      else if v = ''expired'' then Inr Expired
      else Inl (protocol_error ''database returned unknown claim state {other:?}''))"

lemma parse_claim_kind_str: "parse_claim_kind (claim_kind_str k) = Inr k"
  by (cases k) (simp_all add: parse_claim_kind_def)

lemma parse_claim_state_str: "parse_claim_state (claim_state_str s) = Inr s"
  by (cases s) (simp_all add: parse_claim_state_def)

lemma parse_claim_kind_Inr: "parse_claim_kind v = Inr k \<Longrightarrow> v = claim_kind_str k"
  by (auto simp: parse_claim_kind_def split: if_splits)

lemma parse_claim_state_Inr: "parse_claim_state v = Inr s \<Longrightarrow> v = claim_state_str s"
  by (auto simp: parse_claim_state_def split: if_splits)

subsection \<open>Scope and rows\<close>

record fleet_scope =
  sc_tenant_id :: nat
  sc_project :: ustr
  sc_agent :: ustr
  sc_session_id :: "ustr option"
  sc_privacy_tier :: string

text \<open>One lifecycle-current claim of a key as locked by the store.\<close>

record locked_key_claim =
  lk_id :: int
  lk_state :: claim_state
  lk_origin :: ustr
  lk_actor :: "ustr option"
  lk_revision :: int
  lk_polarity :: int
  lk_valid_from :: "time option"
  lk_valid_to :: "time option"
  lk_conflict_eligible :: bool
  lk_value :: "json option"

text \<open>One row of the per-conflict lifecycle log.\<close>

record conflict_lifecycle_event =
  ev_seq :: int
  ev_kind :: string
  ev_actor_kind :: string
  ev_actor :: ustr
  ev_operation :: string
  ev_episode_revision :: int
  ev_result_revision :: int
  ev_reason_kind :: "string option"
  ev_rationale :: "ustr option"
  ev_expires_at :: "time option"
  ev_review_by :: "time option"
  ev_member_count :: int
  ev_created_at :: time
  ev_payload :: "json option"
  ev_payload_elided :: bool

end
