(* ===== verification/Evidence_Recall.thy ===== *)
theory Evidence_Recall
  imports Coverage_Contract Ledger_Types
begin

section \<open>The verdict of an evidence answer\<close>

text \<open>
  The pure parts of \<^verbatim>\<open>evidence_recall/\<close>: what a hit votes, what an answer nothing voted for means
  (\<^verbatim>\<open>verdict.rs\<close>, with the data of \<^verbatim>\<open>mod.rs\<close>), and the collapse of duplicate versions (\<^verbatim>\<open>collapse.rs\<close>). A
  similarity is an \<^verbatim>\<open>f32\<close>: NaN, an infinity or a rational, with the comparisons of IEEE 754 (the two zeros compare equal and are one); the two bounds are
  the rationals the literals 0.45 and 0.30 round to. A \<^verbatim>\<open>BTreeSet\<close> of reasons is a set, collected in the order of
  the enumeration; counters are natural numbers.
\<close>

subsection \<open>Similarities\<close>

datatype f32 = F32_NaN | F32_NegInf | F32 rat | F32_PosInf

fun f32_le :: "f32 \<Rightarrow> f32 \<Rightarrow> bool" where
  "f32_le F32_NaN _ \<longleftrightarrow> False"
| "f32_le _ F32_NaN \<longleftrightarrow> False"
| "f32_le F32_NegInf _ \<longleftrightarrow> True"
| "f32_le _ F32_PosInf \<longleftrightarrow> True"
| "f32_le (F32 a) (F32 b) \<longleftrightarrow> a \<le> b"
| "f32_le _ _ \<longleftrightarrow> False"

fun f32_lt :: "f32 \<Rightarrow> f32 \<Rightarrow> bool" where
  "f32_lt (F32 a) (F32 b) \<longleftrightarrow> a < b"
| "f32_lt F32_NegInf (F32 _) \<longleftrightarrow> True"
| "f32_lt F32_NegInf F32_PosInf \<longleftrightarrow> True"
| "f32_lt (F32 _) F32_PosInf \<longleftrightarrow> True"
| "f32_lt _ _ \<longleftrightarrow> False"

definition ABSENCE_DENSE_MIN_COSINE_SIMILARITY :: f32 where
  "ABSENCE_DENSE_MIN_COSINE_SIMILARITY = F32 (15099494 / 33554432)"

definition ABSENCE_NEIGHBOUR_BAND_FLOOR :: f32 where
  "ABSENCE_NEIGHBOUR_BAND_FLOOR = F32 (10066330 / 33554432)"

subsection \<open>Sources, readiness and filters\<close>

datatype source_kind = SourceGit | SourceTranscript | SourceCi | SourceCollector | SourceOther string

definition source_kind_from_stored :: "string \<Rightarrow> source_kind" where
  "source_kind_from_stored stored =
     (if stored = ''git'' then SourceGit else if stored = ''transcript'' then SourceTranscript
      else if stored = ''ci'' then SourceCi else if stored = ''collector'' then SourceCollector else SourceOther stored)"

fun source_kind_str :: "source_kind \<Rightarrow> string" where
  "source_kind_str SourceGit = ''git''"
| "source_kind_str SourceTranscript = ''transcript''"
| "source_kind_str SourceCi = ''ci''"
| "source_kind_str SourceCollector = ''collector''"
| "source_kind_str (SourceOther stored) = stored"

datatype source_outcome = OutcomeOk | OutcomeUnchanged | OutcomeFailed

record evidence_coverage =
  ec_completeness :: coverage_completeness
  ec_observed :: "(nat \<times> nat) list"
  ec_target :: "nat \<times> nat"
  ec_as_of :: time

record evidence_source =
  es_connector_instance :: string
  es_kind :: source_kind
  es_provider :: "string option"
  es_state :: string
  es_last_outcome :: source_outcome
  es_last_checked_at :: "time option"
  es_last_error :: "string option"
  es_stale :: bool
  es_coverage :: "evidence_coverage option"

record evidence_sources =
  sr_active :: "evidence_source list"
  sr_truncated :: bool

datatype source_filter = FilterGit | FilterItems | FilterSessions

fun filter_str :: "source_filter \<Rightarrow> string" where
  "filter_str FilterGit = ''git''"
| "filter_str FilterItems = ''items''"
| "filter_str FilterSessions = ''sessions''"

definition parse_filter :: "string \<Rightarrow> source_filter option" where
  "parse_filter value = find (\<lambda>f. filter_str f = value) [FilterGit, FilterItems, FilterSessions]"

abbreviation "GIT_FACT_MEDIA_TYPE \<equiv> ''application.ostk-git-fact-v1''"
abbreviation "COLLECTED_ITEM_MEDIA_TYPE \<equiv> ''application.ostk-collected-item-v1''"
abbreviation "CANONICAL_JSON_MEDIA_TYPE \<equiv> ''application.json''"

fun filter_media_type :: "source_filter \<Rightarrow> string" where
  "filter_media_type FilterGit = GIT_FACT_MEDIA_TYPE"
| "filter_media_type FilterItems = COLLECTED_ITEM_MEDIA_TYPE"
| "filter_media_type FilterSessions = CANONICAL_JSON_MEDIA_TYPE"

fun filter_covers :: "source_filter \<Rightarrow> source_kind \<Rightarrow> bool" where
  "filter_covers f SourceGit \<longleftrightarrow> f = FilterGit"
| "filter_covers f SourceCollector \<longleftrightarrow> f = FilterItems"
| "filter_covers f SourceTranscript \<longleftrightarrow> f = FilterSessions"
| "filter_covers f SourceCi \<longleftrightarrow> f = FilterSessions"
| "filter_covers f (SourceOther _) \<longleftrightarrow> True"

record lag_by_kind =
  lk_items :: nat
  lk_other :: nat

record lexical_lag =
  ll_git :: nat
  ll_items :: nat
  ll_sessions :: nat
  ll_other :: nat

definition lag_total :: "lag_by_kind \<Rightarrow> nat" where
  "lag_total l = min (lk_items l + lk_other l) 18446744073709551615"

definition lexical_lag_total :: "lexical_lag \<Rightarrow> nat" where
  "lexical_lag_total l = min (ll_git l + ll_items l + ll_sessions l + ll_other l) 18446744073709551615"

datatype dense_lane = LaneAvailable | LaneUsed | LaneNoQueryVector | LaneDisabledForeignModel

record evidence_readiness =
  rd_events_awaiting_body_projection :: nat
  rd_lag_by_kind :: "lag_by_kind option"
  rd_transcript_turns_awaiting_admission :: nat
  rd_items_awaiting_admission :: "nat option"
  rd_hints_awaiting_fetch :: "nat option"
  rd_hints_unreadable :: bool
  rd_collector_state_unreadable :: bool
  rd_lexical_current :: bool
  rd_lexical_lag_by_source :: "lexical_lag option"
  rd_dense_current :: bool
  rd_dense_lane :: dense_lane
  rd_as_of :: time

subsection \<open>Votes\<close>

datatype evidence_match = MatchLexical | MatchDense | MatchLexicalAndDense

record hit_vote =
  hv_matched_by :: evidence_match
  hv_dense_similarity :: "f32 option"
  hv_dense_may_vote :: bool

definition DENSE_VOTE_EXCLUDED_MEDIA_TYPES :: "string list" where
  "DENSE_VOTE_EXCLUDED_MEDIA_TYPES = [GIT_FACT_MEDIA_TYPE]"

definition vote_for_media_type :: "evidence_match \<Rightarrow> f32 option \<Rightarrow> string \<Rightarrow> hit_vote" where
  "vote_for_media_type matched_by similarity media_type =
     \<lparr>hv_matched_by = matched_by, hv_dense_similarity = similarity,
      hv_dense_may_vote = (media_type \<notin> set DENSE_VOTE_EXCLUDED_MEDIA_TYPES)\<rparr>"

definition votes_lexically :: "hit_vote \<Rightarrow> bool" where
  "votes_lexically v \<longleftrightarrow> hv_matched_by v \<in> {MatchLexical, MatchLexicalAndDense}"

definition votes_densely :: "hit_vote \<Rightarrow> bool" where
  "votes_densely v \<longleftrightarrow> hv_dense_may_vote v
     \<and> (case hv_dense_similarity v of None \<Rightarrow> False | Some s \<Rightarrow> f32_le ABSENCE_DENSE_MIN_COSINE_SIMILARITY s)"

definition in_neighbour_band :: "hit_vote \<Rightarrow> bool" where
  "in_neighbour_band v \<longleftrightarrow> hv_dense_may_vote v \<and> hv_matched_by v = MatchDense
     \<and> (case hv_dense_similarity v of None \<Rightarrow> False
        | Some s \<Rightarrow> f32_le ABSENCE_NEIGHBOUR_BAND_FLOOR s \<and> f32_lt s ABSENCE_DENSE_MIN_COSINE_SIMILARITY)"

fun lane_match :: "bool \<Rightarrow> bool \<Rightarrow> evidence_match" where
  "lane_match True True = MatchLexicalAndDense"
| "lane_match False True = MatchDense"
| "lane_match _ False = MatchLexical"

definition stronger :: "(nat \<times> f32) option \<Rightarrow> nat \<times> f32 \<Rightarrow> (nat \<times> f32) option" where
  "stronger best c = (case best of Some (_, strongest) \<Rightarrow> if f32_le (snd c) strongest then best else Some c | None \<Rightarrow> Some c)"

definition strongest_neighbour :: "hit_vote list \<Rightarrow> (nat \<times> f32) option" where
  "strongest_neighbour votes =
     foldl stronger None
       (filter (\<lambda>(_, s). s \<noteq> F32_NaN)
         (List.map_filter (\<lambda>(index, v). map_option (Pair index) (hv_dense_similarity v)) (enumerate 0 votes)))"

subsection \<open>The verdict\<close>

datatype absence_verdict_kind = VerdictPresent | VerdictAbsent | VerdictUnknown

datatype absence_reason =
    QueryHasNoLexicalTerms | BodyProjectionLag | IngestOutboxPending | LexicalProjectionLag | NoSourcesRegistered
  | SourceFailed | SourceStale | SourceNeverChecked | IncompleteCoverage | ListingTruncated | CollectorStateUnreadable
  | DenseNeighbourBelowBound

definition reasons_in_order :: "absence_reason list" where
  "reasons_in_order = [QueryHasNoLexicalTerms, BodyProjectionLag, IngestOutboxPending, LexicalProjectionLag, NoSourcesRegistered,
     SourceFailed, SourceStale, SourceNeverChecked, IncompleteCoverage, ListingTruncated, CollectorStateUnreadable,
     DenseNeighbourBelowBound]"

datatype present_by = PresentLexical | PresentDense | PresentBoth

record absence =
  ab_verdict :: absence_verdict_kind
  ab_reasons :: "absence_reason list"
  ab_as_of :: "time option"
  ab_present_by :: "present_by option"
  ab_strongest_dense_similarity :: "f32 option"
  ab_strongest_hit :: "nat option"
  ab_weak_neighbours :: nat
  ab_scope :: "source_filter option"

definition body_projection_lag :: "evidence_readiness \<Rightarrow> source_filter option \<Rightarrow> bool" where
  "body_projection_lag r scope =
     (case (scope, rd_lag_by_kind r) of
        (Some FilterItems, Some lag) \<Rightarrow> lk_items lag > 0
      | (Some FilterGit, Some lag) \<Rightarrow> lk_other lag > 0
      | (Some FilterSessions, Some lag) \<Rightarrow> lk_other lag > 0
      | _ \<Rightarrow> rd_events_awaiting_body_projection r > 0)"

definition lexical_projection_lag :: "evidence_readiness \<Rightarrow> source_filter option \<Rightarrow> bool" where
  "lexical_projection_lag r scope =
     (case (scope, rd_lexical_lag_by_source r) of
        (Some FilterGit, Some lag) \<Rightarrow> ll_git lag > 0
      | (Some FilterItems, Some lag) \<Rightarrow> ll_items lag > 0
      | (Some FilterSessions, Some lag) \<Rightarrow> ll_sessions lag > 0
      | _ \<Rightarrow> \<not> rd_lexical_current r)"

definition is_some_pos :: "nat option \<Rightarrow> bool" where
  "is_some_pos p \<longleftrightarrow> (case p of None \<Rightarrow> False | Some pending \<Rightarrow> pending > 0)"

definition readiness_reasons :: "evidence_readiness \<Rightarrow> source_filter option \<Rightarrow> absence_reason set" where
  "readiness_reasons r scope =
     (let judges_sessions = (scope \<in> {None, Some FilterSessions}); judges_items = (scope \<in> {None, Some FilterItems}) in
      (if body_projection_lag r scope then {BodyProjectionLag} else {})
      \<union> (if (judges_sessions \<and> rd_transcript_turns_awaiting_admission r > 0)
            \<or> (judges_items \<and> (is_some_pos (rd_items_awaiting_admission r) \<or> is_some_pos (rd_hints_awaiting_fetch r)))
         then {IngestOutboxPending} else {})
      \<union> (if judges_items \<and> (rd_collector_state_unreadable r \<or> rd_hints_unreadable r) then {CollectorStateUnreadable} else {})
      \<union> (if lexical_projection_lag r scope then {LexicalProjectionLag} else {}))"

definition source_reasons :: "evidence_source \<Rightarrow> absence_reason set" where
  "source_reasons s =
     (if es_last_outcome s = OutcomeFailed then {SourceFailed} else {})
     \<union> (if es_last_checked_at s = None then {SourceNeverChecked} else if es_stale s then {SourceStale} else {})
     \<union> (case es_coverage s of Some c \<Rightarrow> if ec_completeness c = Complete then {} else {IncompleteCoverage} | None \<Rightarrow> {IncompleteCoverage})"

definition covered_sources :: "evidence_sources \<Rightarrow> source_filter option \<Rightarrow> evidence_source list" where
  "covered_sources sources scope =
     filter (\<lambda>s. case scope of None \<Rightarrow> True | Some f \<Rightarrow> filter_covers f (es_kind s)) (sr_active sources)"

definition oldest_check :: "evidence_source list \<Rightarrow> time option" where
  "oldest_check covered = (case List.map_filter es_last_checked_at covered of [] \<Rightarrow> None | t # ts \<Rightarrow> Some (fold min ts t))"

definition absence_verdict :: "hit_vote list \<Rightarrow> bool \<Rightarrow> evidence_readiness \<Rightarrow> evidence_sources \<Rightarrow> source_filter option \<Rightarrow> absence" where
  "absence_verdict votes lexical_terms readiness sources scope =
     (let covered = covered_sources sources scope;
        lexical = list_ex votes_lexically votes; dense = list_ex votes_densely votes;
        present_by = (if lexical \<and> dense then Some PresentBoth else if lexical then Some PresentLexical
          else if dense then Some PresentDense else None);
        strongest = strongest_neighbour votes;
        weak = length (filter (\<lambda>v. \<not> (votes_lexically v \<or> votes_densely v)) votes);
        answer = (\<lambda>verdict reasons. \<lparr>ab_verdict = verdict, ab_reasons = reasons, ab_as_of = oldest_check covered,
          ab_present_by = present_by, ab_strongest_dense_similarity = map_option snd strongest,
          ab_strongest_hit = map_option fst strongest, ab_weak_neighbours = min weak 4294967295, ab_scope = scope\<rparr>)
      in if present_by \<noteq> None then answer VerdictPresent []
         else let reasons =
             (if \<not> lexical_terms then {QueryHasNoLexicalTerms} else {})
             \<union> (if list_ex in_neighbour_band votes then {DenseNeighbourBelowBound} else {})
             \<union> readiness_reasons readiness scope
             \<union> (if covered = [] then {NoSourcesRegistered} else {})
             \<union> \<Union> (source_reasons ` set covered)
             \<union> (if sr_truncated sources then {ListingTruncated} else {})
           in answer (if reasons = {} then VerdictAbsent else VerdictUnknown) (filter (\<lambda>r. r \<in> reasons) reasons_in_order))"

subsection \<open>Duplicate versions\<close>

datatype trust_tier = TierVerified | TierReported
datatype item_lifecycle = ItemLive | ItemEdited | ItemArchived | ItemDeleted | ItemTrashed | ItemRevoked
datatype content_trust = UntrustedThirdParty

definition content_trust_of_media_type :: "string \<Rightarrow> content_trust option" where
  "content_trust_of_media_type media_type = (if media_type = COLLECTED_ITEM_MEDIA_TYPE then Some UntrustedThirdParty else None)"

record evidence_item =
  ei_item_id :: digest
  ei_provider :: string
  ei_trust :: trust_tier
  ei_current :: bool
  ei_lifecycle :: item_lifecycle

record evidence_hit =
  eh_id :: digest
  eh_score :: f32
  eh_matched_by :: evidence_match
  eh_lexical_score :: "f32 option"
  eh_dense_similarity :: "f32 option"
  eh_media_type :: string
  eh_content_trust :: "content_trust option"
  eh_snippet :: ustr
  eh_snippet_truncated :: bool
  eh_first_accepted_event_id :: digest
  eh_item :: "evidence_item option"

definition hit_vote_of :: "evidence_hit \<Rightarrow> hit_vote" where
  "hit_vote_of h = vote_for_media_type (eh_matched_by h) (eh_dense_similarity h) (eh_media_type h)"

record hydrated_hit =
  hh_hit :: evidence_hit
  hh_text_digest :: digest

abbreviation "USIZE_MAX \<equiv> (18446744073709551615::nat)"

definition lane_depth :: "nat \<Rightarrow> nat" where
  "lane_depth limit = min (limit * 5) USIZE_MAX"

definition collapse_bound :: "nat \<Rightarrow> nat" where
  "collapse_bound limit = (let bound = min (limit * 2) USIZE_MAX; depth = lane_depth limit in if bound < depth then bound else depth)"

text \<open>The mutable variables of the pass over the hits.\<close>

record collapsing =
  cl_winners :: "digest \<times> digest \<Rightarrow> nat option"
  cl_kept :: "evidence_hit list"
  cl_collapsed :: nat

definition collapse_step :: "hydrated_hit \<Rightarrow> collapsing \<Rightarrow> collapsing" where
  "collapse_step h st =
     (case eh_item (hh_hit h) of
        None \<Rightarrow> st\<lparr>cl_kept := cl_kept st @ [hh_hit h]\<rparr>
      | Some item \<Rightarrow>
          (case cl_winners st (ei_item_id item, hh_text_digest h) of
             None \<Rightarrow> st\<lparr>cl_winners := (cl_winners st)((ei_item_id item, hh_text_digest h) \<mapsto> length (cl_kept st)),
                        cl_kept := cl_kept st @ [hh_hit h]\<rparr>
           | Some index \<Rightarrow>
               (let winner_is_current = (case eh_item (cl_kept st ! index) of None \<Rightarrow> False | Some w \<Rightarrow> ei_current w);
                  st' = (if ei_current item \<and> \<not> winner_is_current then st\<lparr>cl_kept := (cl_kept st)[index := hh_hit h]\<rparr> else st)
                in st'\<lparr>cl_collapsed := min (cl_collapsed st' + 1) 4294967295\<rparr>)))"

definition collapse_duplicates :: "hydrated_hit list \<Rightarrow> nat \<Rightarrow> evidence_hit list \<times> nat" where
  "collapse_duplicates hydrated limit =
     (let st = fold collapse_step hydrated \<lparr>cl_winners = Map.empty, cl_kept = [], cl_collapsed = 0\<rparr>
      in (take limit (cl_kept st), cl_collapsed st))"

end
