(* ===== verification/Evidence_Properties.thy ===== *)
theory Evidence_Properties
  imports Evidence_Recall
begin

section \<open>Properties of evidence answers\<close>

text \<open>
  When an answer is absent and what that rests on, how scoped answers relate to the unscoped one, and
  that the one-pass collapse of duplicate versions computes its description by groups.
\<close>

subsection \<open>The verdict\<close>

definition healthy :: "evidence_source \<Rightarrow> bool" where
  "healthy s \<longleftrightarrow> es_last_outcome s \<noteq> OutcomeFailed \<and> es_last_checked_at s \<noteq> None \<and> \<not> es_stale s
     \<and> (\<exists>c. es_coverage s = Some c \<and> ec_completeness c = Complete)"

lemma source_reasons_empty: "source_reasons s = {} \<longleftrightarrow> healthy s"
  by (auto simp: source_reasons_def healthy_def split: option.splits if_splits)

definition caught_up :: "evidence_readiness \<Rightarrow> source_filter option \<Rightarrow> bool" where
  "caught_up r scope \<longleftrightarrow> \<not> body_projection_lag r scope \<and> \<not> lexical_projection_lag r scope
     \<and> (scope \<in> {None, Some FilterSessions} \<longrightarrow> rd_transcript_turns_awaiting_admission r = 0)
     \<and> (scope \<in> {None, Some FilterItems} \<longrightarrow> \<not> is_some_pos (rd_items_awaiting_admission r) \<and> \<not> is_some_pos (rd_hints_awaiting_fetch r)
        \<and> \<not> rd_collector_state_unreadable r \<and> \<not> rd_hints_unreadable r)"

lemma readiness_reasons_empty: "readiness_reasons r scope = {} \<longleftrightarrow> caught_up r scope"
  unfolding readiness_reasons_def caught_up_def Let_def by (cases scope) auto

lemma reasons_listed: "x \<in> set reasons_in_order"
  by (cases x) (simp_all add: reasons_in_order_def)

lemma collected_reasons: "filter (\<lambda>x. x \<in> R) reasons_in_order = [] \<longleftrightarrow> R = {}"
  using reasons_listed by (auto simp: filter_empty_conv)

definition unvoted :: "hit_vote list \<Rightarrow> bool" where
  "unvoted votes \<longleftrightarrow> (\<forall>v\<in>set votes. \<not> votes_lexically v \<and> \<not> votes_densely v)"

lemma absence_verdict_simps:
  "\<not> unvoted votes \<Longrightarrow> ab_verdict (absence_verdict votes lt r s scope) = VerdictPresent \<and> ab_reasons (absence_verdict votes lt r s scope) = []"
  "unvoted votes \<Longrightarrow> ab_verdict (absence_verdict votes lt r s scope) = (if lt \<and> \<not> list_ex in_neighbour_band votes \<and> caught_up r scope
      \<and> covered_sources s scope \<noteq> [] \<and> (\<forall>x\<in>set (covered_sources s scope). healthy x) \<and> \<not> sr_truncated s
     then VerdictAbsent else VerdictUnknown)"
  "unvoted votes \<Longrightarrow> ab_reasons (absence_verdict votes lt r s scope) = [] \<longleftrightarrow> ab_verdict (absence_verdict votes lt r s scope) = VerdictAbsent"
  "ab_as_of (absence_verdict votes lt r s scope) = oldest_check (covered_sources s scope)"
proof -
  have v: "list_ex votes_lexically votes \<or> list_ex votes_densely votes \<longleftrightarrow> \<not> unvoted votes"
    by (auto simp: unvoted_def list_ex_iff)
  show "\<not> unvoted votes \<Longrightarrow> ab_verdict (absence_verdict votes lt r s scope) = VerdictPresent \<and> ab_reasons (absence_verdict votes lt r s scope) = []"
    using v by (auto simp: absence_verdict_def Let_def)
  show "ab_as_of (absence_verdict votes lt r s scope) = oldest_check (covered_sources s scope)"
    by (simp add: absence_verdict_def Let_def)
  let ?R = "(if \<not> lt then {QueryHasNoLexicalTerms} else {}) \<union> (if list_ex in_neighbour_band votes then {DenseNeighbourBelowBound} else {})
     \<union> readiness_reasons r scope \<union> (if covered_sources s scope = [] then {NoSourcesRegistered} else {})
     \<union> \<Union> (source_reasons ` set (covered_sources s scope)) \<union> (if sr_truncated s then {ListingTruncated} else {})"
  have empty: "?R = {} \<longleftrightarrow> lt \<and> \<not> list_ex in_neighbour_band votes \<and> caught_up r scope \<and> covered_sources s scope \<noteq> []
      \<and> (\<forall>x\<in>set (covered_sources s scope). healthy x) \<and> \<not> sr_truncated s"
    by (auto simp: source_reasons_empty [symmetric] readiness_reasons_empty [symmetric])
  assume "unvoted votes"
  then have n: "\<not> list_ex votes_lexically votes" "\<not> list_ex votes_densely votes" using v by auto
  then have verdict: "ab_verdict (absence_verdict votes lt r s scope) = (if ?R = {} then VerdictAbsent else VerdictUnknown)"
    and reasons: "ab_reasons (absence_verdict votes lt r s scope) = filter (\<lambda>x. x \<in> ?R) reasons_in_order"
    unfolding absence_verdict_def Let_def by simp_all
  show "ab_verdict (absence_verdict votes lt r s scope) = (if lt \<and> \<not> list_ex in_neighbour_band votes \<and> caught_up r scope
      \<and> covered_sources s scope \<noteq> [] \<and> (\<forall>x\<in>set (covered_sources s scope). healthy x) \<and> \<not> sr_truncated s
     then VerdictAbsent else VerdictUnknown)" unfolding verdict empty ..
  show "ab_reasons (absence_verdict votes lt r s scope) = [] \<longleftrightarrow> ab_verdict (absence_verdict votes lt r s scope) = VerdictAbsent"
    unfolding verdict reasons collected_reasons by simp
qed

lemma fold_min_le: "fold min ts t \<le> t \<and> (\<forall>x\<in>set ts. fold min ts t \<le> x)" for t :: int
proof (induction ts arbitrary: t)
  case (Cons x ts)
  from Cons.IH [of "min x t"] show ?case by auto
qed simp

lemma oldest_check_le: "oldest_check covered = Some t \<Longrightarrow> s \<in> set covered \<Longrightarrow> es_last_checked_at s = Some u \<Longrightarrow> t \<le> u"
proof -
  assume a: "oldest_check covered = Some t" and s: "s \<in> set covered" "es_last_checked_at s = Some u"
  then have "u \<in> set (List.map_filter es_last_checked_at covered)" by (force simp: map_filter_def)
  with a show "t \<le> u" using fold_min_le by (auto simp: oldest_check_def split: list.splits)
qed

text \<open>C30: an answer is present exactly when a hit votes, and absent exactly when no hit votes, the query has lexical
  terms, no dense-only neighbour lies in the undecided band, ingestion and projection have caught up for
  the scope, at least one source is covered, every covered source is healthy with complete coverage, and
  the listing is whole. It is unknown exactly when it gives a reason, and its date is no newer than the last check of
  any covered source.\<close>

theorem absence_means_everything_was_read:
  "(ab_verdict (absence_verdict votes lt r s scope) = VerdictPresent \<longleftrightarrow> (\<exists>v\<in>set votes. votes_lexically v \<or> votes_densely v))
   \<and> (ab_verdict (absence_verdict votes lt r s scope) = VerdictAbsent \<longleftrightarrow>
        (\<forall>v\<in>set votes. \<not> votes_lexically v \<and> \<not> votes_densely v \<and> \<not> in_neighbour_band v) \<and> lt \<and> caught_up r scope
        \<and> covered_sources s scope \<noteq> [] \<and> (\<forall>x\<in>set (covered_sources s scope). healthy x) \<and> \<not> sr_truncated s)
   \<and> (ab_verdict (absence_verdict votes lt r s scope) = VerdictUnknown \<longleftrightarrow> ab_reasons (absence_verdict votes lt r s scope) \<noteq> [])
   \<and> (\<forall>x\<in>set (covered_sources s scope). \<forall>t u. ab_as_of (absence_verdict votes lt r s scope) = Some t
        \<and> es_last_checked_at x = Some u \<longrightarrow> t \<le> u)"
proof -
  note a = absence_verdict_simps [where votes = votes and lt = lt and r = r and s = s and scope = scope]
  have "\<forall>x\<in>set (covered_sources s scope). \<forall>t u. ab_as_of (absence_verdict votes lt r s scope) = Some t
        \<and> es_last_checked_at x = Some u \<longrightarrow> t \<le> u" unfolding a(4) using oldest_check_le by blast
  then show ?thesis
    using a(1,2,3) by (cases "unvoted votes") (auto simp: unvoted_def list_ex_iff)
qed

definition demo_source :: "source_kind \<Rightarrow> time \<Rightarrow> evidence_source" where
  "demo_source kind checked = \<lparr>es_connector_instance = ''connector'', es_kind = kind, es_provider = None, es_state = ''active'',
     es_last_outcome = OutcomeUnchanged, es_last_checked_at = Some checked, es_last_error = None, es_stale = False,
     es_coverage = Some \<lparr>ec_completeness = Complete, ec_observed = [(1, 2)], ec_target = (1, 2), ec_as_of = checked\<rparr>\<rparr>"

definition demo_readiness :: evidence_readiness where
  "demo_readiness = \<lparr>rd_events_awaiting_body_projection = 0, rd_lag_by_kind = Some \<lparr>lk_items = 0, lk_other = 0\<rparr>,
     rd_transcript_turns_awaiting_admission = 0, rd_items_awaiting_admission = None, rd_hints_awaiting_fetch = None,
     rd_hints_unreadable = False, rd_collector_state_unreadable = False, rd_lexical_current = True, rd_lexical_lag_by_source = None,
     rd_dense_current = True, rd_dense_lane = LaneUsed, rd_as_of = 100\<rparr>"

definition demo_sources :: evidence_sources where
  "demo_sources = \<lparr>sr_active = [demo_source SourceGit 50, demo_source SourceCi 40], sr_truncated = False\<rparr>"

definition demo_neighbour :: "rat \<Rightarrow> hit_vote" where
  "demo_neighbour similarity = vote_for_media_type MatchDense (Some (F32 similarity)) ''application.json''"

lemma demo_absence:
  "caught_up demo_readiness scope" "covered_sources demo_sources None = [demo_source SourceGit 50, demo_source SourceCi 40]"
  "covered_sources demo_sources (Some FilterGit) = [demo_source SourceGit 50]" "healthy (demo_source k t)"
  by (auto simp: caught_up_def demo_readiness_def body_projection_lag_def lexical_projection_lag_def is_some_pos_def
      covered_sources_def demo_sources_def demo_source_def healthy_def split: option.splits source_filter.splits)

theorem absence_means_everything_was_read_witness:
  "ab_verdict (absence_verdict [demo_neighbour (1 / 4)] True demo_readiness demo_sources None) = VerdictAbsent
   \<and> ab_verdict (absence_verdict [demo_neighbour (2 / 5)] True demo_readiness demo_sources None) \<noteq> VerdictAbsent"
proof -
  have n: "\<not> votes_lexically (demo_neighbour q)" "\<not> votes_densely (demo_neighbour (1 / 4))"
      "\<not> in_neighbour_band (demo_neighbour (1 / 4))" "in_neighbour_band (demo_neighbour (2 / 5))" for q
    by (simp_all add: demo_neighbour_def vote_for_media_type_def votes_lexically_def votes_densely_def in_neighbour_band_def
        ABSENCE_DENSE_MIN_COSINE_SIMILARITY_def ABSENCE_NEIGHBOUR_BAND_FLOOR_def DENSE_VOTE_EXCLUDED_MEDIA_TYPES_def)
  show ?thesis
    using absence_means_everything_was_read [of "[demo_neighbour (1 / 4)]" True demo_readiness demo_sources None]
      absence_means_everything_was_read [of "[demo_neighbour (2 / 5)]" True demo_readiness demo_sources None] n demo_absence
    by (simp add: demo_sources_def)
qed

subsection \<open>Scoped answers\<close>

definition lags_agree :: "evidence_readiness \<Rightarrow> bool" where
  "lags_agree r \<longleftrightarrow> (\<forall>l. rd_lag_by_kind r = Some l \<longrightarrow> lag_total l = rd_events_awaiting_body_projection r)
     \<and> (\<forall>l. rd_lexical_lag_by_source r = Some l \<longrightarrow> (rd_lexical_current r \<longleftrightarrow> lexical_lag_total l = 0))"

lemma caught_up_scoped:
  assumes "lags_agree r" and "caught_up r None"
  shows "caught_up r (Some f)"
proof -
  have "\<not> body_projection_lag r (Some f)" "\<not> lexical_projection_lag r (Some f)"
    using assms by (cases f; auto simp: lags_agree_def caught_up_def body_projection_lag_def lexical_projection_lag_def lag_total_def
        lexical_lag_total_def min_def split: option.splits if_splits)+
  then show ?thesis using assms(2) by (simp add: caught_up_def)
qed

lemma covered_scoped: "set (covered_sources s (Some f)) \<subseteq> set (covered_sources s None)"
  by (auto simp: covered_sources_def)

text \<open>When the splits of the backlogs agree with their totals, what is absent from everything is absent from every
  source that has a registered connector: a narrower question never has a weaker answer.\<close>

theorem absence_narrows_to_scopes:
  assumes "lags_agree r" and "ab_verdict (absence_verdict votes lt r s None) = VerdictAbsent" and "covered_sources s (Some f) \<noteq> []"
  shows "ab_verdict (absence_verdict votes lt r s (Some f)) = VerdictAbsent"
proof -
  have u: "unvoted votes" using assms(2) absence_verdict_simps(1) [of votes lt r s None] by force
  with assms(2) have "lt \<and> \<not> list_ex in_neighbour_band votes \<and> caught_up r None \<and> (\<forall>x\<in>set (covered_sources s None). healthy x) \<and> \<not> sr_truncated s"
    by (auto simp: absence_verdict_simps(2) split: if_splits)
  then show ?thesis using u assms(3) caught_up_scoped [OF assms(1)] covered_scoped [of s f] by (auto simp: absence_verdict_simps(2))
qed

theorem absence_narrows_to_scopes_witness:
  "lags_agree demo_readiness \<and> ab_verdict (absence_verdict [] True demo_readiness demo_sources (Some FilterGit)) = VerdictAbsent"
proof -
  have l: "lags_agree demo_readiness" by (simp add: lags_agree_def demo_readiness_def lag_total_def)
  have "ab_verdict (absence_verdict [] True demo_readiness demo_sources None) = VerdictAbsent"
    using demo_absence by (simp add: absence_verdict_simps(2) unvoted_def) (simp add: demo_sources_def)
  from absence_narrows_to_scopes [OF l this, of FilterGit] l demo_absence show ?thesis by simp
qed


subsection \<open>Collapsing duplicate versions\<close>

text \<open>The reference: hits of one item with one text are a group; a group is listed at its first member, and shows
  its first current member when it has one. A hit without an item is a group of its own.\<close>

definition group_key :: "hydrated_hit \<Rightarrow> (digest \<times> digest) option" where
  "group_key h = map_option (\<lambda>i. (ei_item_id i, hh_text_digest h)) (eh_item (hh_hit h))"

definition current_hit :: "evidence_hit \<Rightarrow> bool" where
  "current_hit h \<longleftrightarrow> (case eh_item h of None \<Rightarrow> False | Some i \<Rightarrow> ei_current i)"

definition slots :: "hydrated_hit list \<Rightarrow> nat list" where
  "slots hs = filter (\<lambda>i. group_key (hs ! i) = None \<or> (\<forall>j<i. group_key (hs ! j) \<noteq> group_key (hs ! i))) [0..<length hs]"

definition head_of :: "hydrated_hit list \<Rightarrow> (digest \<times> digest) option \<Rightarrow> hydrated_hit option" where
  "head_of hs k = (if k = None then None else find (\<lambda>h. group_key h = k \<and> current_hit (hh_hit h)) hs)"

definition shown :: "hydrated_hit list \<Rightarrow> nat \<Rightarrow> hydrated_hit" where
  "shown hs i = (case head_of hs (group_key (hs ! i)) of Some h \<Rightarrow> h | None \<Rightarrow> hs ! i)"

definition collapse_groups :: "hydrated_hit list \<Rightarrow> evidence_hit list" where
  "collapse_groups hs = map (\<lambda>i. hh_hit (shown hs i)) (slots hs)"

lemma find_append: "find P (xs @ ys) = (case find P xs of None \<Rightarrow> find P ys | Some x \<Rightarrow> Some x)"
  by (induction xs) auto

lemma slots_snoc:
  "slots (hs @ [h]) = slots hs @ (if group_key h = None \<or> group_key h \<notin> group_key ` set hs then [length hs] else [])"
proof -
  have "filter (\<lambda>i. group_key ((hs @ [h]) ! i) = None \<or> (\<forall>j<i. group_key ((hs @ [h]) ! j) \<noteq> group_key ((hs @ [h]) ! i))) [0..<length hs]
      = slots hs"
    unfolding slots_def by (rule filter_cong) (auto simp: nth_append)
  moreover have "(\<forall>j<length hs. group_key (hs ! j) \<noteq> group_key h) \<longleftrightarrow> group_key h \<notin> group_key ` set hs"
    by (metis imageE imageI in_set_conv_nth)
  ultimately show ?thesis by (simp add: slots_def nth_append)
qed

lemma slot_below: "i \<in> set (slots hs) \<Longrightarrow> i < length hs"
  by (simp add: slots_def)

lemma slots_unique: "i \<in> set (slots hs) \<Longrightarrow> j \<in> set (slots hs) \<Longrightarrow> group_key (hs ! i) = Some k \<Longrightarrow> group_key (hs ! j) = Some k \<Longrightarrow> i = j"
  by (rule linorder_cases [of i j]) (auto simp: slots_def)

lemma slots_distinct: "distinct (slots hs)"
  by (simp add: slots_def)

lemma slots_length: "length (slots hs) \<le> length hs"
  unfolding slots_def by (rule order_trans [OF length_filter_le]) simp

definition slot_keys :: "hydrated_hit list \<Rightarrow> (digest \<times> digest) option list" where
  "slot_keys hs = map (\<lambda>i. group_key (hs ! i)) (slots hs)"

lemma slot_keys_snoc:
  "slot_keys (hs @ [h]) = slot_keys hs @ (if group_key h = None \<or> group_key h \<notin> group_key ` set hs then [group_key h] else [])"
  using slot_below by (auto simp: slot_keys_def slots_snoc nth_append)

lemma head_of_snoc:
  "head_of (hs @ [h]) k = (case head_of hs k of Some x \<Rightarrow> Some x
     | None \<Rightarrow> if k \<noteq> None \<and> group_key h = k \<and> current_hit (hh_hit h) then Some h else None)"
  by (simp add: head_of_def find_append split: option.split)

lemma head_of_Some: "head_of hs k = Some h \<Longrightarrow> h \<in> set hs \<and> group_key h = k \<and> current_hit (hh_hit h)"
  by (auto simp: head_of_def find_Some_iff split: if_splits)

lemma head_of_None: "head_of hs k = None \<Longrightarrow> k \<noteq> None \<Longrightarrow> h \<in> set hs \<Longrightarrow> group_key h = k \<Longrightarrow> \<not> current_hit (hh_hit h)"
  by (simp add: head_of_def find_None_iff)

lemma shown_snoc:
  "i < length hs \<Longrightarrow> shown (hs @ [h]) i =
     (if group_key h \<noteq> None \<and> group_key (hs ! i) = group_key h \<and> current_hit (hh_hit h) \<and> head_of hs (group_key h) = None then h else shown hs i)"
  by (cases "head_of hs (group_key (hs ! i))") (auto simp: shown_def head_of_snoc nth_append)

lemma head_of_fresh: "group_key h = None \<or> group_key h \<notin> group_key ` set hs \<Longrightarrow> head_of hs (group_key h) = None"
proof (rule ccontr)
  assume f: "group_key h = None \<or> group_key h \<notin> group_key ` set hs" and "head_of hs (group_key h) \<noteq> None"
  then obtain x where x: "head_of hs (group_key h) = Some x" by blast
  then have "group_key h \<noteq> None" by (rule contrapos_pn) (simp add: head_of_def)
  moreover have "x \<in> set hs" "group_key x = group_key h" using head_of_Some [OF x] by simp_all
  ultimately show False using f imageI [of x "set hs" group_key] by simp
qed

lemma shown_fresh: "group_key h = None \<or> group_key h \<notin> group_key ` set hs \<Longrightarrow> shown (hs @ [h]) (length hs) = h"
  using head_of_fresh [of h hs] by (simp add: shown_def head_of_snoc)

lemma shown_current:
  assumes "i < length hs" and "group_key (hs ! i) \<noteq> None"
  shows "current_hit (hh_hit (shown hs i)) \<longleftrightarrow> head_of hs (group_key (hs ! i)) \<noteq> None"
  using head_of_None [OF _ assms(2) nth_mem [OF assms(1)] refl] head_of_Some
  by (cases "head_of hs (group_key (hs ! i))") (auto simp: shown_def)

definition collapsed_as :: "hydrated_hit list \<Rightarrow> collapsing \<Rightarrow> bool" where
  "collapsed_as hs st \<longleftrightarrow> cl_kept st = collapse_groups hs
     \<and> (\<forall>k n. cl_winners st k = Some n \<longleftrightarrow> n < length (slot_keys hs) \<and> slot_keys hs ! n = Some k)
     \<and> (\<forall>k. cl_winners st k = None \<longleftrightarrow> Some k \<notin> group_key ` set hs)
     \<and> cl_collapsed st = min (length hs - length (slots hs)) 4294967295"

lemma collapse_groups_new:
  assumes "group_key h = None \<or> group_key h \<notin> group_key ` set hs"
  shows "collapse_groups (hs @ [h]) = collapse_groups hs @ [hh_hit h]"
proof -
  have "shown (hs @ [h]) i = shown hs i" if "i \<in> set (slots hs)" for i
    using assms shown_snoc [OF slot_below [OF that], of h] nth_mem [OF slot_below [OF that]] by (metis imageI)
  then show ?thesis using assms by (simp add: collapse_groups_def slots_snoc shown_fresh)
qed

lemma collapse_groups_old:
  assumes k: "group_key h = Some k" and n: "n < length (slots hs)" "group_key (hs ! (slots hs ! n)) = Some k"
  shows "collapse_groups (hs @ [h]) = (if current_hit (hh_hit h) \<and> \<not> current_hit (collapse_groups hs ! n)
     then (collapse_groups hs)[n := hh_hit h] else collapse_groups hs)"
proof -
  let ?i = "slots hs ! n"
  have i: "?i \<in> set (slots hs)" "?i < length hs" using n(1) nth_mem slot_below by auto
  then have "group_key h \<in> group_key ` set hs" using n(2) k by (metis imageI nth_mem)
  then have s: "slots (hs @ [h]) = slots hs" using k by (simp add: slots_snoc)
  have c: "current_hit (collapse_groups hs ! n) \<longleftrightarrow> head_of hs (Some k) \<noteq> None"
    using shown_current [OF i(2)] n by (simp add: collapse_groups_def)
  show ?thesis
  proof (rule nth_equalityI)
    fix m assume "m < length (collapse_groups (hs @ [h]))"
    then have m: "m < length (slots hs)" by (simp add: collapse_groups_def s)
    have same: "group_key (hs ! (slots hs ! m)) = Some k \<longleftrightarrow> m = n"
      using slots_unique [of "slots hs ! m" hs ?i k] m n slots_distinct [of hs] by (auto simp: nth_eq_iff_index_eq)
    have "slots hs ! m < length hs" using m slot_below nth_mem by blast
    from shown_snoc [OF this, of h] same k c m n(1)
    show "collapse_groups (hs @ [h]) ! m = (if current_hit (hh_hit h) \<and> \<not> current_hit (collapse_groups hs ! n)
       then (collapse_groups hs)[n := hh_hit h] else collapse_groups hs) ! m"
      by (auto simp: collapse_groups_def s nth_list_update)
  qed (simp add: collapse_groups_def s)
qed

lemma collapse_step_new:
  "group_key h = None \<Longrightarrow> collapse_step h st = st\<lparr>cl_kept := cl_kept st @ [hh_hit h]\<rparr>"
  "group_key h = Some k \<Longrightarrow> cl_winners st k = None \<Longrightarrow>
     collapse_step h st = st\<lparr>cl_winners := (cl_winners st)(k \<mapsto> length (cl_kept st)), cl_kept := cl_kept st @ [hh_hit h]\<rparr>"
  by (auto simp: group_key_def collapse_step_def)

lemma collapse_step_old:
  "group_key h = Some k \<Longrightarrow> cl_winners st k = Some n \<Longrightarrow>
     collapse_step h st = (if current_hit (hh_hit h) \<and> \<not> current_hit (cl_kept st ! n) then st\<lparr>cl_kept := (cl_kept st)[n := hh_hit h]\<rparr> else st)
       \<lparr>cl_collapsed := min (cl_collapsed st + 1) 4294967295\<rparr>"
  by (auto simp: group_key_def collapse_step_def current_hit_def)

lemma collapse_step_refines:
  assumes a: "collapsed_as hs st"
  shows "collapsed_as (hs @ [h]) (collapse_step h st)"
proof (cases "group_key h = None \<or> group_key h \<notin> group_key ` set hs")
  case True
  have kept: "collapse_groups (hs @ [h]) = cl_kept st @ [hh_hit h]" and len: "length (collapse_groups hs) = length (slot_keys hs)"
    and slots: "slots (hs @ [h]) = slots hs @ [length hs]" and keys: "slot_keys (hs @ [h]) = slot_keys hs @ [group_key h]"
    using a True by (simp_all add: collapsed_as_def collapse_groups_new slots_snoc slot_keys_snoc) (simp add: collapse_groups_def slot_keys_def)
  show ?thesis
  proof (cases "group_key h")
    case None
    with a keys slots show ?thesis
      by (auto simp: collapse_step_new(1) collapsed_as_def kept nth_append less_Suc_eq)
  next
    case (Some k)
    with True have fresh: "cl_winners st k = None" using a unfolding collapsed_as_def by (metis option.distinct(1))
    with a have "n < length (slot_keys hs) \<Longrightarrow> slot_keys hs ! n \<noteq> Some k" for n unfolding collapsed_as_def by (metis option.distinct(1))
    with a keys slots Some show ?thesis
      unfolding collapse_step_new(2) [OF Some fresh] by (auto simp: collapsed_as_def kept len nth_append less_Suc_eq)
  qed
next
  case False
  then obtain k where k: "group_key h = Some k" "Some k \<in> group_key ` set hs" by (metis not_None_eq)
  with a obtain n where n: "cl_winners st k = Some n" unfolding collapsed_as_def by (metis not_None_eq)
  with a have s: "n < length (slots hs)" "group_key (hs ! (slots hs ! n)) = Some k"
    unfolding collapsed_as_def slot_keys_def by (metis length_map nth_map)+
  have "slots (hs @ [h]) = slots hs" "slot_keys (hs @ [h]) = slot_keys hs" using k by (simp_all add: slots_snoc slot_keys_snoc)
  moreover have "Suc (length hs) - length (slots hs) = Suc (length hs - length (slots hs))"
    using slots_length [of hs] by simp
  moreover have "insert (Some k) (group_key ` set hs) = group_key ` set hs" using k(2) by blast
  ultimately show ?thesis using a collapse_groups_old [OF k(1) s] unfolding collapse_step_old [OF k(1) n]
    by (simp add: collapsed_as_def k(1) min.assoc)
qed

lemma collapse_refines: "collapsed_as hs (fold collapse_step hs \<lparr>cl_winners = Map.empty, cl_kept = [], cl_collapsed = 0\<rparr>)"
proof (induction hs rule: rev_induct)
  case Nil
  show ?case by (simp add: collapsed_as_def collapse_groups_def slots_def slot_keys_def)
qed (simp add: collapse_step_refines)

text \<open>C31: the one pass of the collapse computes its description by groups. Every hit without an item is listed; of the
  hits of one item with one text, one is listed, at the rank of the first, and it is the first current
  one when there is one. The answer is the first hits of that list up to the limit, and the second value counts
  the hits left out before the cut, saturating at 32 bits.\<close>

theorem collapse_keeps_one_per_group:
  "collapse_duplicates hydrated limit =
     (take limit (collapse_groups hydrated), min (length hydrated - length (collapse_groups hydrated)) 4294967295)"
  using collapse_refines [of hydrated] by (simp add: collapse_duplicates_def collapsed_as_def Let_def) (simp add: collapse_groups_def)

end
