(* ===== verification/Observed_Range.thy ===== *)
theory Observed_Range
  imports Coverage_Contract
begin

section \<open>The union of observed intervals\<close>

text \<open>
  \<^verbatim>\<open>coverage_runtime/observed_range.rs\<close>: half-open intervals of provider sequences, kept as a sorted,
  disjoint and non-adjacent vector. \<open>insert_interval\<close> is the coalescing loop with its mutable variables
  as the state of a fold. The set \<open>points\<close> of a vector is its meaning; a valid vector is the only one
  with its set, which gives the verdicts on a target and the independence of the order of
  observations.
\<close>

record sequence_interval =
  iv_start :: u64
  iv_end :: u64

datatype observed_range_error = EmptyInterval u64 u64 | MalformedUnion string

definition new_interval :: "u64 \<Rightarrow> u64 \<Rightarrow> observed_range_error + sequence_interval" where
  "new_interval s e = (if e \<le> s then Inl (EmptyInterval s e) else Inr \<lparr>iv_start = s, iv_end = e\<rparr>)"

datatype insert_outcome = Extended | Redundant

type_synonym observed_range = "sequence_interval list"

fun validate_range_from :: "u64 option \<Rightarrow> observed_range \<Rightarrow> observed_range_error + unit" where
  "validate_range_from previous_end [] = Inr ()"
| "validate_range_from previous_end (i # is) =
     (if iv_end i \<le> iv_start i then Inl (MalformedUnion ''interval [{}, {}) is empty or inverted'')
      else case previous_end of
        Some p \<Rightarrow> if iv_start i \<le> p
          then Inl (MalformedUnion ''interval starting at {} is not strictly after the previous end {previous_end}'')
          else validate_range_from (Some (iv_end i)) is
      | None \<Rightarrow> validate_range_from (Some (iv_end i)) is)"

definition validate_range :: "observed_range \<Rightarrow> observed_range_error + unit" where
  "validate_range r = validate_range_from None r"

definition covers :: "observed_range \<Rightarrow> sequence_interval \<Rightarrow> bool" where
  "covers r i \<longleftrightarrow> list_ex (\<lambda>e. iv_start e \<le> iv_start i \<and> iv_end e \<ge> iv_end i) r"

text \<open>The mutable variables of the coalescing loop.\<close>

record coalesce =
  merged_start :: u64
  merged_end :: u64
  result :: observed_range
  inserted :: bool

definition coalesce_step :: "sequence_interval \<Rightarrow> coalesce \<Rightarrow> coalesce" where
  "coalesce_step existing st =
     (if iv_end existing < merged_start st \<or> iv_start existing > merged_end st
      then let st' = (if iv_start existing > merged_end st \<and> \<not> inserted st
          then st\<lparr>result := result st @ [\<lparr>iv_start = merged_start st, iv_end = merged_end st\<rparr>], inserted := True\<rparr>
          else st)
        in st'\<lparr>result := result st' @ [existing]\<rparr>
      else st\<lparr>merged_start := min (merged_start st) (iv_start existing),
              merged_end := max (merged_end st) (iv_end existing)\<rparr>)"

definition coalesce_finish :: "coalesce \<Rightarrow> observed_range" where
  "coalesce_finish st = (if \<not> inserted st
     then result st @ [\<lparr>iv_start = merged_start st, iv_end = merged_end st\<rparr>] else result st)"

definition insert_interval :: "sequence_interval \<Rightarrow> observed_range
    \<Rightarrow> observed_range_error + (insert_outcome \<times> observed_range)" where
  "insert_interval i r =
     (if iv_end i \<le> iv_start i then Inl (EmptyInterval (iv_start i) (iv_end i))
      else if covers r i then Inr (Redundant, r)
      else Inr (Extended, coalesce_finish (fold coalesce_step r
        \<lparr>merged_start = iv_start i, merged_end = iv_end i, result = [], inserted = False\<rparr>)))"

definition covered_within :: "observed_range \<Rightarrow> sequence_interval \<Rightarrow> observed_range" where
  "covered_within r target = concat (map (\<lambda>i.
     let s = max (iv_start i) (iv_start target); e = min (iv_end i) (iv_end target) in
     if s < e then [\<lparr>iv_start = s, iv_end = e\<rparr>] else []) r)"

definition completeness_over :: "observed_range \<Rightarrow> sequence_interval \<Rightarrow> coverage_completeness" where
  "completeness_over r target =
     (case covered_within r target of
        [] \<Rightarrow> Unknown
      | [only] \<Rightarrow> if iv_start only = iv_start target \<and> iv_end only = iv_end target then Complete else Partial
      | _ \<Rightarrow> Partial)"

definition continuity_over :: "observed_range \<Rightarrow> sequence_interval \<Rightarrow> sequence_continuity" where
  "continuity_over r target =
     (case covered_within r target of
        a # b # _ \<Rightarrow> GapDetected (Some \<lparr>gap_after = ProviderSequence (iv_end a), gap_before = ProviderSequence (iv_start b)\<rparr>)
      | _ \<Rightarrow> Contiguous)"

definition high_watermark :: "observed_range \<Rightarrow> u64 option" where
  "high_watermark r = (if r = [] then None else Some (iv_end (last r)))"

subsection \<open>Meaning\<close>

definition extent :: "sequence_interval \<Rightarrow> u64 set" where
  "extent i = {iv_start i..<iv_end i}"

definition points :: "observed_range \<Rightarrow> u64 set" where
  "points r = (\<Union>i\<in>set r. extent i)"

definition proper :: "sequence_interval \<Rightarrow> bool" where
  "proper i \<longleftrightarrow> iv_start i < iv_end i"

definition separated :: "observed_range \<Rightarrow> bool" where
  "separated r \<longleftrightarrow> sorted_wrt (\<lambda>a b. iv_end a < iv_start b) r \<and> (\<forall>i\<in>set r. proper i)"

lemma points_simps [simp]: "points [] = {}" "points (i # r) = extent i \<union> points r" "points (r @ q) = points r \<union> points q"
  by (auto simp: points_def)

lemma separated_simps [simp]:
  "separated []"
  "separated (i # r) \<longleftrightarrow> proper i \<and> (\<forall>j\<in>set r. iv_end i < iv_start j) \<and> separated r"
  by (auto simp: separated_def)

lemma separated_append:
  "separated (r @ q) \<longleftrightarrow> separated r \<and> separated q \<and> (\<forall>i\<in>set r. \<forall>j\<in>set q. iv_end i < iv_start j)"
  by (auto simp: separated_def sorted_wrt_append)

lemma validate_range_from_iff:
  "validate_range_from p r = Inr () \<longleftrightarrow> separated r \<and> (\<forall>e. p = Some e \<longrightarrow> (\<forall>i\<in>set r. e < iv_start i))"
proof (induction r arbitrary: p)
  case (Cons i r)
  show ?case
  proof (cases p)
    case (Some e)
    have "e < iv_start j" if "iv_end i < iv_start j" "iv_start i < iv_end i" "e < iv_start i" for j
      using that by order
    then show ?thesis unfolding Some by (auto simp: Cons.IH proper_def not_le)
  qed (auto simp: Cons.IH proper_def not_le)
qed simp

lemma validate_range_iff: "validate_range r = Inr () \<longleftrightarrow> separated r"
  by (simp add: validate_range_def validate_range_from_iff)

lemma points_after:
  assumes "\<forall>j\<in>set r. e < iv_start j" and "p \<in> points r"
  shows "e < p"
  using assms by (auto simp: points_def extent_def intro: less_le_trans)

subsection \<open>One representation per set\<close>

lemma separated_least:
  assumes "separated (i # r)"
  shows "iv_start i \<in> points (i # r)" and "p \<in> points (i # r) \<Longrightarrow> iv_start i \<le> p"
proof -
  show "iv_start i \<in> points (i # r)" using assms by (simp add: extent_def proper_def)
  show "iv_start i \<le> p" if "p \<in> points (i # r)"
  proof (cases "p \<in> extent i")
    case False
    then have "iv_end i < p" using that assms points_after by auto
    then show ?thesis using assms by (auto simp: proper_def)
  qed (simp add: extent_def)
qed

lemma end_not_observed:
  assumes "separated r" and "i \<in> set r"
  shows "iv_end i \<notin> points r"
  using assms
proof (induction r)
  case (Cons j r)
  show ?case
  proof (cases "i = j")
    case True
    then show ?thesis using Cons.prems points_after by (auto simp: extent_def)
  next
    case False
    then have "i \<in> set r" using Cons.prems by simp
    moreover have "iv_end j < iv_end i"
      using Cons.prems \<open>i \<in> set r\<close> by (fastforce simp: separated_def proper_def dest: less_trans)
    ultimately show ?thesis using Cons by (auto simp: extent_def)
  qed
qed simp

lemma same_head_end:
  assumes "separated (i # r)" and "points (i # r) = points (j # q)" and "iv_start i = iv_start j" and "separated (j # q)"
  shows "\<not> iv_end i < iv_end j"
proof
  assume "iv_end i < iv_end j"
  then have "iv_end i \<in> extent j" using assms(1,3) by (simp add: extent_def proper_def less_imp_le)
  then have "iv_end i \<in> points (i # r)" using assms(2) by simp
  then show False using end_not_observed [OF assms(1), of i] by simp
qed

lemma separated_unique:
  "separated r \<Longrightarrow> separated q \<Longrightarrow> points r = points q \<Longrightarrow> r = q"
proof (induction r arbitrary: q)
  case Nil
  show ?case
  proof (cases q)
    case (Cons j q')
    then show ?thesis using separated_least(1) [of j q'] Nil.prems by simp
  qed simp
next
  case (Cons i r)
  have "points q \<noteq> {}" using separated_least(1) [OF Cons.prems(1)] Cons.prems(3) by blast
  then obtain j q' where q: "q = j # q'" by (cases q) simp_all
  have "iv_start i \<in> points (j # q')" "iv_start j \<in> points (i # r)"
    using separated_least(1) Cons.prems q by blast+
  then have "iv_start i = iv_start j"
    using separated_least(2) [OF Cons.prems(1)] separated_least(2) [of j q'] Cons.prems(2) q by (auto intro: antisym)
  moreover from this have "iv_end i = iv_end j"
    using same_head_end [of i r j q'] same_head_end [of j q' i r] Cons.prems q by force
  ultimately have ij: "i = j" by simp
  have "points r = points (i # r) - extent i" "points q' = points (j # q') - extent j"
    using Cons.prems(1,2) q points_after by (fastforce simp: extent_def)+
  then have "points r = points q'" using Cons.prems(3) q ij by simp
  then show ?case using Cons.IH [of q'] Cons.prems(1,2) q ij by simp
qed

subsection \<open>The coalescing loop\<close>

lemma coalesce_pushed:
  "\<forall>j\<in>set r. merged_end st < iv_start j \<Longrightarrow> inserted st
     \<Longrightarrow> fold coalesce_step r st = st\<lparr>result := result st @ r\<rparr>"
  by (induction r arbitrary: st) (simp_all add: coalesce_step_def)

lemma extents_merge:
  "\<not> (iv_end i < s \<or> e < iv_start i) \<Longrightarrow> s < e \<Longrightarrow> proper i
     \<Longrightarrow> {min s (iv_start i)..<max e (iv_end i)} = {s..<e} \<union> extent i"
  by (auto simp: extent_def proper_def min_def max_def)

lemma coalesce_loop:
  assumes "separated r" and "s < e"
  shows "\<exists>q. coalesce_finish (fold coalesce_step r \<lparr>merged_start = s, merged_end = e, result = out, inserted = False\<rparr>) = out @ q
    \<and> separated q \<and> points q = {s..<e} \<union> points r \<and> iv_start ` set q \<subseteq> insert s (iv_start ` set r)"
  using assms
proof (induction r arbitrary: s e out)
  case Nil
  then show ?case by (intro exI [of _ "[\<lparr>iv_start = s, iv_end = e\<rparr>]"]) (simp add: coalesce_finish_def proper_def extent_def)
next
  case (Cons i r)
  let ?m = "\<lparr>iv_start = s, iv_end = e\<rparr>"
  consider (before) "iv_end i < s" | (after) "\<not> iv_end i < s" "e < iv_start i"
    | (touch) "\<not> (iv_end i < s \<or> e < iv_start i)" by blast
  then show ?case
  proof cases
    case before
    then have "\<not> e < iv_start i" using Cons.prems by (auto simp: proper_def)
    with before have step: "coalesce_step i \<lparr>merged_start = s, merged_end = e, result = out, inserted = False\<rparr>
        = \<lparr>merged_start = s, merged_end = e, result = out @ [i], inserted = False\<rparr>" by (simp add: coalesce_step_def)
    obtain q where q: "coalesce_finish (fold coalesce_step r \<lparr>merged_start = s, merged_end = e, result = out @ [i], inserted = False\<rparr>)
        = (out @ [i]) @ q" "separated q" "points q = {s..<e} \<union> points r" "iv_start ` set q \<subseteq> insert s (iv_start ` set r)"
      using Cons.IH [of s e "out @ [i]"] Cons.prems by auto
    have "iv_end i < iv_start j" if "j \<in> set q" for j
    proof -
      have "iv_start j \<in> insert s (iv_start ` set r)" using that q(4) by blast
      then show ?thesis using before Cons.prems(1) by auto
    qed
    then show ?thesis using q step Cons.prems(1) by (intro exI [of _ "i # q"]) auto
  next
    case after
    have rest: "\<forall>j\<in>set r. e < iv_start j" using after Cons.prems(1) by (auto simp: proper_def intro: less_trans)
    have "fold coalesce_step (i # r) \<lparr>merged_start = s, merged_end = e, result = out, inserted = False\<rparr>
        = \<lparr>merged_start = s, merged_end = e, result = out @ ?m # i # r, inserted = True\<rparr>"
      using after coalesce_pushed [of r "\<lparr>merged_start = s, merged_end = e, result = out @ [?m, i], inserted = True\<rparr>"] rest
      by (simp add: coalesce_step_def)
    then show ?thesis using after rest Cons.prems
      by (intro exI [of _ "?m # i # r"]) (auto simp: coalesce_finish_def extent_def proper_def)
  next
    case touch
    let ?s = "min s (iv_start i)" and ?e = "max e (iv_end i)"
    have step: "coalesce_step i \<lparr>merged_start = s, merged_end = e, result = out, inserted = False\<rparr>
        = \<lparr>merged_start = ?s, merged_end = ?e, result = out, inserted = False\<rparr>" using touch by (simp add: coalesce_step_def)
    have "?s < ?e" using Cons.prems(2) by (simp add: min_less_iff_disj less_max_iff_disj)
    then obtain q where q: "coalesce_finish (fold coalesce_step r \<lparr>merged_start = ?s, merged_end = ?e, result = out, inserted = False\<rparr>)
        = out @ q" "separated q" "points q = {?s..<?e} \<union> points r" "iv_start ` set q \<subseteq> insert ?s (iv_start ` set r)"
      using Cons.IH [of ?s ?e out] Cons.prems by auto
    have "points q = {s..<e} \<union> points (i # r)" using q(3) extents_merge [OF touch] Cons.prems by (simp add: Un_assoc)
    moreover have "iv_start ` set q \<subseteq> insert s (iv_start ` set (i # r))" using q(4) by (auto simp: min_def split: if_splits)
    ultimately show ?thesis using q(1,2) step by auto
  qed
qed

subsection \<open>Insertion is union\<close>

lemma covers_iff:
  assumes "separated r" and "proper i"
  shows "covers r i \<longleftrightarrow> extent i \<subseteq> points r"
proof
  assume "extent i \<subseteq> points r"
  moreover have "iv_start i \<in> extent i" using assms(2) by (simp add: extent_def proper_def)
  ultimately obtain j where j: "j \<in> set r" "iv_start i \<in> extent j" by (auto simp: points_def)
  have "iv_end i \<le> iv_end j"
  proof (rule ccontr)
    assume "\<not> iv_end i \<le> iv_end j"
    then have "iv_end j \<in> extent i" using j(2) by (auto simp: extent_def)
    then show False using \<open>extent i \<subseteq> points r\<close> end_not_observed [OF assms(1) j(1)] by blast
  qed
  then show "covers r i" using j by (auto simp: covers_def extent_def list_ex_iff)
next
  assume "covers r i"
  then obtain j where "j \<in> set r" "iv_start j \<le> iv_start i" "iv_end i \<le> iv_end j" by (auto simp: covers_def list_ex_iff)
  then have "extent i \<subseteq> extent j" by (auto simp: extent_def)
  then show "extent i \<subseteq> points r" using \<open>j \<in> set r\<close> by (auto simp: points_def)
qed

lemma insert_interval_points:
  assumes "separated r" and "proper i"
  obtains q where "insert_interval i r = Inr (if extent i \<subseteq> points r then Redundant else Extended, q)"
    and "separated q" and "points q = points r \<union> extent i"
proof (cases "extent i \<subseteq> points r")
  case True
  then have "insert_interval i r = Inr (Redundant, r)" "points r = points r \<union> extent i"
    using assms covers_iff [OF assms] by (auto simp: insert_interval_def proper_def)
  then show ?thesis using that [of r] True assms(1) by simp
next
  case False
  obtain q where q: "coalesce_finish (fold coalesce_step r
      \<lparr>merged_start = iv_start i, merged_end = iv_end i, result = [], inserted = False\<rparr>) = q"
      "separated q" "points q = points r \<union> extent i"
    using coalesce_loop [OF assms(1), of "iv_start i" "iv_end i" "[]"] assms(2) by (auto simp: proper_def extent_def)
  then have "insert_interval i r = Inr (Extended, q)"
    using False assms(2) covers_iff [OF assms] by (simp add: insert_interval_def proper_def not_le)
  then show ?thesis using that [of q] False q(2,3) by simp
qed

lemma insert_interval_Inr:
  assumes "insert_interval i r = Inr (out, q)" and "separated r"
  shows "proper i" and "separated q" and "points q = points r \<union> extent i"
    and "out = Redundant \<longleftrightarrow> extent i \<subseteq> points r" and "out = Redundant \<Longrightarrow> q = r"
proof -
  show p: "proper i" using assms(1) by (auto simp: insert_interval_def proper_def split: if_splits)
  obtain q' where "insert_interval i r = Inr (if extent i \<subseteq> points r then Redundant else Extended, q')"
      "separated q'" "points q' = points r \<union> extent i"
    using insert_interval_points [OF assms(2) p] by blast
  then show "separated q" "points q = points r \<union> extent i" "out = Redundant \<longleftrightarrow> extent i \<subseteq> points r"
    using assms(1) by (auto split: if_splits)
  show "q = r" if "out = Redundant" using assms(1) that by (auto simp: insert_interval_def split: if_splits)
qed

subsection \<open>Verdicts on a target\<close>

lemma covered_within_simps [simp]:
  "covered_within [] t = []"
  "covered_within (i # r) t = (let s = max (iv_start i) (iv_start t); e = min (iv_end i) (iv_end t) in
     if s < e then \<lparr>iv_start = s, iv_end = e\<rparr> # covered_within r t else covered_within r t)"
  by (simp_all add: covered_within_def Let_def)

lemma clipped_points:
  fixes a b :: u64
  shows "points (if a < b then \<lparr>iv_start = a, iv_end = b\<rparr> # r else r) = {a..<b} \<union> points r"
  by (auto simp: extent_def)

lemma covered_within_points: "points (covered_within r t) = points r \<inter> extent t"
proof (induction r)
  case (Cons i r)
  have "extent i \<inter> extent t = {max (iv_start i) (iv_start t)..<min (iv_end i) (iv_end t)}" by (auto simp: extent_def)
  then show ?case using Cons.IH by (simp only: covered_within_simps Let_def clipped_points points_simps Int_Un_distrib2)
qed simp

lemma covered_within_start: "j \<in> set (covered_within r t) \<Longrightarrow> \<exists>i\<in>set r. iv_start i \<le> iv_start j"
  by (induction r) (auto simp: Let_def split: if_splits)

lemma covered_within_separated: "separated r \<Longrightarrow> separated (covered_within r t)"
proof (induction r)
  case (Cons i r)
  have "min (iv_end i) (iv_end t) < iv_start j" if "j \<in> set (covered_within r t)" for j
    using covered_within_start [OF that] Cons.prems by (auto simp: min_less_iff_disj intro: less_le_trans)
  then show ?case using Cons by (auto simp: Let_def proper_def)
qed simp

lemma points_empty_iff: "separated r \<Longrightarrow> points r = {} \<longleftrightarrow> r = []"
  using separated_unique [of r "[]"] by auto

lemma completeness_over_exact:
  assumes "separated r" and "proper t"
  shows "completeness_over r t = (if extent t \<subseteq> points r then Complete
    else if extent t \<inter> points r = {} then Unknown else Partial)"
proof -
  let ?c = "covered_within r t"
  have c: "separated ?c" "points ?c = points r \<inter> extent t"
    using covered_within_separated [OF assms(1)] covered_within_points by auto
  have "separated [t]" using assms(2) by simp
  then have whole: "extent t \<subseteq> points r \<longleftrightarrow> ?c = [t]"
    using separated_unique [OF c(1)] c(2) by (auto simp: Int_absorb1)
  have none: "extent t \<inter> points r = {} \<longleftrightarrow> ?c = []" using points_empty_iff [OF c(1)] c(2) by auto
  show ?thesis unfolding completeness_over_def whole none by (auto split: list.splits)
qed

lemma continuity_over_contiguous:
  assumes "separated r"
  shows "continuity_over r t = Contiguous
    \<longleftrightarrow> (\<forall>p\<in>points r \<inter> extent t. \<forall>q\<in>points r \<inter> extent t. {p..q} \<subseteq> points r)"
proof -
  let ?c = "covered_within r t"
  have c: "separated ?c" "points ?c = points r \<inter> extent t"
    using covered_within_separated [OF assms] covered_within_points by auto
  show ?thesis
  proof (cases "\<exists>a b d. ?c = a # b # d")
    case True
    then obtain a b d where abd: "?c = a # b # d" by blast
    have s: "iv_start a \<in> points ?c" "iv_start b \<in> points ?c" "iv_start a \<le> iv_end a" "iv_end a \<le> iv_start b"
      using c(1) abd by (auto simp: proper_def extent_def)
    have "iv_end a \<notin> points ?c" using end_not_observed [OF c(1), of a] abd by simp
    moreover have "iv_end a \<in> extent t"
      using s c(2) by (auto simp: extent_def)
    ultimately have "iv_end a \<notin> points r" using c(2) by blast
    moreover have "iv_end a \<in> {iv_start a..iv_start b}" using s by simp
    ultimately have "\<not> (\<forall>p\<in>points ?c. \<forall>q\<in>points ?c. {p..q} \<subseteq> points r)" using s(1,2) by blast
    moreover have "continuity_over r t \<noteq> Contiguous" unfolding continuity_over_def abd by simp
    ultimately show ?thesis unfolding c(2) by blast
  next
    case False
    then have k: "continuity_over r t = Contiguous" by (auto simp: continuity_over_def split: list.splits)
    from False consider "?c = []" | a where "?c = [a]" by (metis list.exhaust)
    then have "\<forall>p\<in>points ?c. \<forall>q\<in>points ?c. {p..q} \<subseteq> points ?c" by cases (auto simp: extent_def)
    then show ?thesis using k unfolding c(2) by blast
  qed
qed

lemma continuity_over_gap:
  assumes "separated r" and "continuity_over r t = GapDetected g"
  obtains a b where "g = Some \<lparr>gap_after = ProviderSequence a, gap_before = ProviderSequence b\<rparr>" and "a < b"
    and "{a..<b} \<subseteq> extent t" and "{a..<b} \<inter> points r = {}" and "b \<in> points r \<inter> extent t"
    and "\<exists>p\<in>points r \<inter> extent t. p < a" and "\<forall>p\<in>points r \<inter> extent t. p < a \<longrightarrow> {p..<a} \<subseteq> points r"
proof -
  let ?c = "covered_within r t"
  have c: "separated ?c" "points ?c = points r \<inter> extent t"
    using covered_within_separated [OF assms(1)] covered_within_points by auto
  from assms(2) obtain x y d where xyd: "?c = x # y # d"
      and g: "g = Some \<lparr>gap_after = ProviderSequence (iv_end x), gap_before = ProviderSequence (iv_start y)\<rparr>"
    by (auto simp: continuity_over_def split: list.splits)
  have s: "iv_start x < iv_end x" "iv_end x < iv_start y" "iv_start y < iv_end y"
    using c(1) xyd by (auto simp: proper_def)
  have mem: "iv_start x \<in> points ?c" "iv_start y \<in> points ?c" using s xyd by (auto simp: extent_def)
  have sub: "{iv_end x..<iv_start y} \<subseteq> extent t" using mem c(2) s(1) by (auto simp: extent_def)
  have later: "iv_start y \<le> p" if "p \<in> points (y # d)" for p using separated_least(2) [of y d] c(1) xyd that by simp
  have gap: "{iv_end x..<iv_start y} \<inter> points ?c = {}" using later xyd by (force simp: extent_def)
  have below: "p \<in> extent x" if "p \<in> points ?c" "p < iv_end x" for p
    using that later [of p] s(2) xyd by fastforce
  have ex: "extent x \<subseteq> points r" using c(2) xyd by auto
  show ?thesis
  proof (rule that [OF g s(2) sub])
    show "{iv_end x..<iv_start y} \<inter> points r = {}" using gap sub c(2) by blast
    show "iv_start y \<in> points r \<inter> extent t" using mem(2) c(2) by simp
    show "\<exists>p\<in>points r \<inter> extent t. p < iv_end x" using mem(1) c(2) s(1) by blast
    show "\<forall>p\<in>points r \<inter> extent t. p < iv_end x \<longrightarrow> {p..<iv_end x} \<subseteq> points r"
    proof (intro ballI impI)
      fix p assume "p \<in> points r \<inter> extent t" "p < iv_end x"
      then have "p \<in> extent x" using below c(2) by simp
      then have "{p..<iv_end x} \<subseteq> extent x" by (auto simp: extent_def)
      with ex show "{p..<iv_end x} \<subseteq> points r" by blast
    qed
  qed
qed

subsection \<open>A vector built by observations\<close>

text \<open>What a client needs of a vector that grows by parts: a meaning as a set, an invariant, and one
  vector per set.\<close>

locale growing_set =
  fixes start :: 's and add :: "'a \<Rightarrow> 's \<Rightarrow> 's" and meaning :: "'s \<Rightarrow> 'b set" and part :: "'a \<Rightarrow> 'b set"
    and well_formed :: "'s \<Rightarrow> bool" and allowed :: "'a \<Rightarrow> bool"
  assumes start: "well_formed start" "meaning start = {}"
    and add: "well_formed s \<Longrightarrow> allowed a \<Longrightarrow> well_formed (add a s) \<and> meaning (add a s) = meaning s \<union> part a"
    and unique: "well_formed s \<Longrightarrow> well_formed t \<Longrightarrow> meaning s = meaning t \<Longrightarrow> s = t"
begin

lemma grown:
  "well_formed s \<Longrightarrow> \<forall>a\<in>set as. allowed a \<Longrightarrow> well_formed (fold add as s) \<and> meaning (fold add as s) = meaning s \<union> (\<Union>a\<in>set as. part a)"
  by (induction as arbitrary: s) (auto simp: add)

lemma grown_from_start:
  assumes "\<forall>a\<in>set as. allowed a"
  shows "well_formed (fold add as start)" and "meaning (fold add as start) = (\<Union>a\<in>set as. part a)"
  using grown [OF start(1) assms] start(2) by simp_all

lemma order_irrelevant:
  assumes "\<forall>a\<in>set as. allowed a" and "\<forall>b\<in>set bs. allowed b" and "(\<Union>a\<in>set as. part a) = (\<Union>b\<in>set bs. part b)"
  shows "fold add as start = fold add bs start"
  by (rule unique) (simp_all add: grown_from_start assms)

end

text \<open>The vector after an insertion that may be refused.\<close>

definition observe_interval :: "sequence_interval \<Rightarrow> observed_range \<Rightarrow> observed_range" where
  "observe_interval i r = (case insert_interval i r of Inl _ \<Rightarrow> r | Inr (_, q) \<Rightarrow> q)"

interpretation observed: growing_set "[]" observe_interval points extent separated proper
proof
  fix r i assume "separated r" "proper i"
  then obtain q where "insert_interval i r = Inr (if extent i \<subseteq> points r then Redundant else Extended, q)"
      "separated q" "points q = points r \<union> extent i"
    using insert_interval_points by blast
  then show "separated (observe_interval i r) \<and> points (observe_interval i r) = points r \<union> extent i"
    by (auto simp: observe_interval_def)
qed (auto intro: separated_unique)

end
