(* ===== verification/Coverage_Runtime.thy ===== *)
theory Coverage_Runtime
  imports Observed_Range
begin

section \<open>The coverage runtime\<close>

text \<open>
  \<^verbatim>\<open>coverage_runtime/repository.rs\<close> and \<^verbatim>\<open>coverage_runtime/cockroach.rs\<close>: cursors and receipts of one tenant and
  project. The two tables of migration 20 are lists of rows. \<open>observe\<close> runs its statements in one
  serializable transaction, so it is one function of the tables that returns the new tables or an
  error that leaves them as they were. Columns keep their SQL form where the code converts them (the
  signed sequence, the text of a completeness); the observed ranges are kept as the vector, and the size
  of their JSON, which the table bounds, is a parameter. Arrays of 32 bytes always pass the shape
  checks on digests.
\<close>

subsection \<open>Observations and rows\<close>

record coverage_observation =
  ob_connector_instance :: contract_id
  ob_producer :: producer_identity
  ob_scope :: coverage_scope
  ob_target :: sequence_interval
  ob_observed :: sequence_interval
  ob_freshness :: coverage_freshness
  ob_proof_basis :: coverage_proof_basis
  ob_source_digest :: digest
  ob_source_count :: nat
  ob_evidence_id :: digest
  ob_observed_through :: timestamp

datatype observation_outcome =
    Recorded (rec_receipt_id: digest) (rec_completeness: coverage_completeness) (rec_gap_detected: bool) (rec_observation_seq: nat)
  | AlreadyCovered (cov_observation_seq: nat)

record cursor_row =
  cu_key :: digest
  cu_instance :: contract_id
  cu_observed :: observed_range
  cu_target_start :: u64
  cu_target_end :: u64
  cu_seq :: int
  cu_completeness :: string
  cu_last_receipt :: "digest option"
  cu_updated_at :: int

record receipt_row =
  rw_receipt_id :: digest
  rw_instance :: contract_id
  rw_key :: digest
  rw_completeness :: string
  rw_evidence_id :: digest
  rw_source_digest :: digest
  rw_source_count :: int
  rw_seq :: int
  rw_canonical :: "byte list"
  rw_created_at :: int

record coverage_db =
  db_cursors :: "cursor_row list"
  db_receipts :: "receipt_row list"

text \<open>The variants of \<^verbatim>\<open>FleetError\<close> this component raises.\<close>

datatype runtime_error = RtMemory string | RtDatabase string | ControlContract contract_error

record coverage_env =
  cv_contract :: contract_env
  cv_codec :: "coverage_receipt codec"
  cv_range_bytes :: "observed_range \<Rightarrow> nat"

definition lift_contract :: "contract_error + 'a \<Rightarrow> runtime_error + 'a" where
  "lift_contract r = (case r of Inl e \<Rightarrow> Inl (ControlContract e) | Inr x \<Rightarrow> Inr x)"

definition lift_range :: "observed_range_error + 'a \<Rightarrow> runtime_error + 'a" where
  "lift_range r = (case r of
       Inl (EmptyInterval s e) \<Rightarrow> Inl (RtMemory ''observed interval [{start}, {end}) is empty or inverted'')
     | Inl (MalformedUnion reason) \<Rightarrow> Inl (RtMemory (''persisted observed range is malformed: '' @ reason))
     | Inr x \<Rightarrow> Inr x)"

lemma lift_contract_Inr [res_simps]: "lift_contract r = Inr x \<longleftrightarrow> r = Inr x"
  by (cases r) (auto simp: lift_contract_def)

lemma lift_range_Inr [res_simps]: "lift_range r = Inr x \<longleftrightarrow> r = Inr x"
  by (auto simp: lift_range_def split: sum.splits observed_range_error.splits)

subsection \<open>Columns\<close>

fun completeness_str :: "coverage_completeness \<Rightarrow> string" where
  "completeness_str Complete = ''complete''"
| "completeness_str Partial = ''partial''"
| "completeness_str Unknown = ''unknown''"

definition parse_completeness :: "string \<Rightarrow> runtime_error + coverage_completeness" where
  "parse_completeness value =
     (if value = ''complete'' then Inr Complete
      else if value = ''partial'' then Inr Partial
      else if value = ''unknown'' then Inr Unknown
      else Inl (RtMemory ''unrecognized stored coverage completeness {other}''))"

definition i64_from_seq :: "nat \<Rightarrow> runtime_error + int" where
  "i64_from_seq s = (if int s > 9223372036854775807 then Inl (RtMemory ''coverage observation_seq exceeds INT8'') else Inr (int s))"

definition seq_from_i64 :: "int \<Rightarrow> runtime_error + nat" where
  "seq_from_i64 value = (if value < 0 then Inl (RtMemory ''stored coverage observation_seq is negative'') else Inr (nat value))"

definition COVERAGE_KEY_DOMAIN :: "byte list" where
  "COVERAGE_KEY_DOMAIN = lit ''ostk-coverage-cursor-key-v1'' @ [0]"

definition key_frame :: "byte list \<Rightarrow> byte list" where
  "key_frame bytes = be_bytes 8 (length bytes) @ bytes"

definition coverage_key_preimage :: "contract_id \<Rightarrow> coverage_scope \<Rightarrow> sequence_interval \<Rightarrow> byte list" where
  "coverage_key_preimage connector_instance scope target =
     COVERAGE_KEY_DOMAIN
     @ key_frame (utf8_bytes connector_instance)
     @ key_frame (utf8_bytes (show_uri (cs_scope scope)))
     @ key_frame (cs_revision scope)
     @ key_frame (utf8_bytes (cw_start (cs_window scope)))
     @ key_frame (utf8_bytes (cw_end (cs_window scope)))
     @ be_bytes 8 (unat (iv_start target)) @ be_bytes 8 (unat (iv_end target))"

definition coverage_key_digest :: "coverage_env \<Rightarrow> contract_id \<Rightarrow> coverage_scope \<Rightarrow> sequence_interval \<Rightarrow> digest" where
  "coverage_key_digest env connector_instance scope target =
     ce_sha (cv_contract env) (coverage_key_preimage connector_instance scope target)"

record decoded_cursor =
  dc_observed :: observed_range
  dc_target :: sequence_interval
  dc_seq :: nat
  dc_completeness :: coverage_completeness
  dc_last_receipt :: "digest option"
  dc_updated_at :: int

definition decode_cursor_row :: "cursor_row \<Rightarrow> runtime_error + decoded_cursor" where
  "decode_cursor_row row =
     try_then (lift_range (validate_range (cu_observed row))) (\<lambda>_.
     try_then (lift_range (new_interval (cu_target_start row) (cu_target_end row))) (\<lambda>target.
     try_then (seq_from_i64 (cu_seq row)) (\<lambda>observation_seq.
     try_then (parse_completeness (cu_completeness row)) (\<lambda>last_completeness.
       Inr \<lparr>dc_observed = cu_observed row, dc_target = target, dc_seq = observation_seq,
            dc_completeness = last_completeness, dc_last_receipt = cu_last_receipt row, dc_updated_at = cu_updated_at row\<rparr>))))"

subsection \<open>Statements\<close>

text \<open>The CHECK constraints of migration 20 that a row can fail.\<close>

definition cursor_checks :: "coverage_env \<Rightarrow> cursor_row \<Rightarrow> bool" where
  "cursor_checks env row \<longleftrightarrow>
     1 \<le> utf8_len (cu_instance row) \<and> utf8_len (cu_instance row) \<le> 128
     \<and> 1 \<le> cv_range_bytes env (cu_observed row) \<and> cv_range_bytes env (cu_observed row) \<le> 1048576
     \<and> cu_seq row \<ge> 0 \<and> cu_completeness row \<in> {''complete'', ''partial'', ''unknown''}"

definition receipt_checks :: "receipt_row \<Rightarrow> bool" where
  "receipt_checks row \<longleftrightarrow>
     1 \<le> utf8_len (rw_instance row) \<and> utf8_len (rw_instance row) \<le> 128
     \<and> rw_completeness row \<in> {''complete'', ''partial'', ''unknown''} \<and> rw_source_count row \<ge> 0 \<and> rw_seq row \<ge> 1
     \<and> 1 \<le> length (rw_canonical row) \<and> length (rw_canonical row) \<le> 1048576"

definition seed_cursor :: "coverage_env \<Rightarrow> int \<Rightarrow> digest \<Rightarrow> coverage_observation \<Rightarrow> coverage_db \<Rightarrow> runtime_error + coverage_db" where
  "seed_cursor env now key obs db =
     (let row = \<lparr>cu_key = key, cu_instance = ob_connector_instance obs, cu_observed = [],
         cu_target_start = iv_start (ob_target obs), cu_target_end = iv_end (ob_target obs), cu_seq = 0,
         cu_completeness = ''unknown'', cu_last_receipt = None, cu_updated_at = now\<rparr> in
      if \<not> cursor_checks env row then Inl (RtDatabase ''check constraint'')
      else if list_ex (\<lambda>r. cu_key r = key) (db_cursors db) then Inr db
      else Inr (db\<lparr>db_cursors := db_cursors db @ [row]\<rparr>))"

definition insert_receipt :: "receipt_row \<Rightarrow> coverage_db \<Rightarrow> runtime_error + coverage_db" where
  "insert_receipt row db =
     (if \<not> receipt_checks row then Inl (RtDatabase ''check constraint'')
      else if list_ex (\<lambda>r. rw_receipt_id r = rw_receipt_id row) (db_receipts db) then Inr db
      else Inr (db\<lparr>db_receipts := db_receipts db @ [row]\<rparr>))"

definition advance_row :: "observed_range \<Rightarrow> int \<Rightarrow> coverage_completeness \<Rightarrow> digest \<Rightarrow> int \<Rightarrow> cursor_row \<Rightarrow> cursor_row" where
  "advance_row merged seq completeness rid now row =
     row\<lparr>cu_observed := merged, cu_seq := seq, cu_completeness := completeness_str completeness,
         cu_last_receipt := Some rid, cu_updated_at := now\<rparr>"

definition advance_cursor :: "coverage_env \<Rightarrow> digest \<Rightarrow> (cursor_row \<Rightarrow> cursor_row) \<Rightarrow> coverage_db \<Rightarrow> runtime_error + coverage_db" where
  "advance_cursor env key adv db =
     (let rows = map (\<lambda>r. if cu_key r = key then adv r else r) (db_cursors db) in
      if list_all (\<lambda>r. cu_key r = key \<longrightarrow> cursor_checks env r) rows then Inr (db\<lparr>db_cursors := rows\<rparr>)
      else Inl (RtDatabase ''check constraint''))"

subsection \<open>Observing\<close>

definition build_receipt :: "coverage_env \<Rightarrow> coverage_observation \<Rightarrow> observed_range \<Rightarrow> runtime_error + (coverage_receipt \<times> digest)" where
  "build_receipt env obs merged =
     (let receipt = \<lparr>cr_schema_version = 1, cr_producer = ob_producer obs, cr_scope = ob_scope obs,
         cr_watermark = ProviderSequence (case high_watermark merged of Some s \<Rightarrow> s | None \<Rightarrow> iv_end (ob_observed obs)),
         cr_completeness = completeness_over merged (ob_target obs), cr_freshness = ob_freshness obs,
         cr_continuity = continuity_over merged (ob_target obs), cr_observed_through = ob_observed_through obs,
         cr_proof_basis = ob_proof_basis obs, cr_source_digest = ob_source_digest obs,
         cr_source_count = ob_source_count obs, cr_evidence_id = ob_evidence_id obs\<rparr> in
      try_then (lift_contract (receipt_id (cv_contract env) (cv_codec env) receipt)) (\<lambda>rid. Inr (receipt, rid)))"

datatype fault_injection = NoFault | AbortAfterWrites

text \<open>The second half of the transaction: the observation extended the range.\<close>

definition record_extension :: "coverage_env \<Rightarrow> int \<Rightarrow> digest \<Rightarrow> coverage_observation \<Rightarrow> fault_injection \<Rightarrow> nat \<Rightarrow> observed_range
    \<Rightarrow> coverage_db \<Rightarrow> runtime_error + (observation_outcome \<times> coverage_db)" where
  "record_extension env now key obs fault observation_seq merged db =
     try_then (build_receipt env obs merged) (\<lambda>(receipt, rid).
     try_then (lift_contract (encode_typed (cv_contract env) (cv_codec env) receipt)) (\<lambda>canonical_receipt.
     try_then (if observation_seq + 1 > 18446744073709551615
       then Inl (RtMemory ''coverage cursor observation_seq overflow'') else Inr (observation_seq + 1)) (\<lambda>next_seq.
     try_then (i64_from_seq next_seq) (\<lambda>seq.
     try_then (insert_receipt \<lparr>rw_receipt_id = rid, rw_instance = ob_connector_instance obs, rw_key = key,
         rw_completeness = completeness_str (cr_completeness receipt), rw_evidence_id = ob_evidence_id obs,
         rw_source_digest = ob_source_digest obs, rw_source_count = int (ob_source_count obs), rw_seq = seq,
         rw_canonical = canonical_receipt, rw_created_at = now\<rparr> db) (\<lambda>db2.
     try_then (advance_cursor env key (advance_row merged seq (cr_completeness receipt) rid now) db2) (\<lambda>db3.
       if fault = AbortAfterWrites then Inl (RtMemory ''coverage fault injection: abort after writes'')
       else Inr (Recorded rid (cr_completeness receipt) (\<not> is_contiguous (cr_continuity receipt)) next_seq, db3)))))))"

definition observe_in_transaction :: "coverage_env \<Rightarrow> int \<Rightarrow> digest \<Rightarrow> coverage_observation \<Rightarrow> fault_injection \<Rightarrow> coverage_db
    \<Rightarrow> runtime_error + (observation_outcome \<times> coverage_db)" where
  "observe_in_transaction env now key obs fault db =
     try_then (seed_cursor env now key obs db) (\<lambda>db1.
     try_then (ok_or (find (\<lambda>r. cu_key r = key) (db_cursors db1)) (RtDatabase ''no rows returned'')) (\<lambda>locked.
     try_then (decode_cursor_row locked) (\<lambda>stored.
       if dc_target stored \<noteq> ob_target obs
       then Inl (RtMemory ''coverage cursor target does not match the observation target'')
       else try_then (lift_range (insert_interval (ob_observed obs) (dc_observed stored))) (\<lambda>(insert_outcome, merged).
         if insert_outcome = Redundant then Inr (AlreadyCovered (dc_seq stored), db1)
         else record_extension env now key obs fault (dc_seq stored) merged db1))))"

definition observation_key :: "coverage_env \<Rightarrow> coverage_observation \<Rightarrow> digest" where
  "observation_key env obs = coverage_key_digest env (ob_connector_instance obs) (ob_scope obs) (ob_target obs)"

definition observe_with_fault_injection :: "coverage_env \<Rightarrow> int \<Rightarrow> coverage_observation \<Rightarrow> fault_injection \<Rightarrow> coverage_db
    \<Rightarrow> runtime_error + (observation_outcome \<times> coverage_db)" where
  "observe_with_fault_injection env now obs fault db =
     (if iv_end (ob_observed obs) \<le> iv_start (ob_observed obs)
      then Inl (RtMemory ''coverage observation interval [{}, {}) is empty or inverted'')
      else if iv_end (ob_target obs) \<le> iv_start (ob_target obs)
      then Inl (RtMemory ''coverage target interval [{}, {}) is empty or inverted'')
      else observe_in_transaction env now (observation_key env obs) obs fault db)"

definition observe :: "coverage_env \<Rightarrow> int \<Rightarrow> coverage_observation \<Rightarrow> coverage_db \<Rightarrow> runtime_error + (observation_outcome \<times> coverage_db)" where
  "observe env now obs db = observe_with_fault_injection env now obs NoFault db"

subsection \<open>Reads\<close>

definition read_cursor :: "coverage_env \<Rightarrow> contract_id \<Rightarrow> coverage_scope \<Rightarrow> sequence_interval \<Rightarrow> coverage_db
    \<Rightarrow> runtime_error + decoded_cursor option" where
  "read_cursor env connector_instance scope target db =
     (case find (\<lambda>r. cu_key r = coverage_key_digest env connector_instance scope target) (db_cursors db) of
        None \<Rightarrow> Inr None
      | Some row \<Rightarrow> try_then (decode_cursor_row row) (\<lambda>c. Inr (Some c)))"

record decoded_receipt =
  dr_receipt_id :: digest
  dr_completeness :: coverage_completeness
  dr_evidence_id :: digest
  dr_source_count :: nat
  dr_seq :: nat
  dr_canonical :: "byte list"
  dr_created_at :: int

definition decode_receipt_row :: "digest \<Rightarrow> receipt_row \<Rightarrow> runtime_error + decoded_receipt" where
  "decode_receipt_row rid row =
     try_then (parse_completeness (rw_completeness row)) (\<lambda>completeness.
     try_then (if rw_source_count row < 0 \<or> rw_source_count row > 4294967295
       then Inl (RtMemory ''stored coverage source_count is out of range'') else Inr (nat (rw_source_count row))) (\<lambda>source_count.
     try_then (seq_from_i64 (rw_seq row)) (\<lambda>observation_seq.
       Inr \<lparr>dr_receipt_id = rid, dr_completeness = completeness, dr_evidence_id = rw_evidence_id row,
            dr_source_count = source_count, dr_seq = observation_seq, dr_canonical = rw_canonical row,
            dr_created_at = rw_created_at row\<rparr>)))"

definition read_receipt :: "digest \<Rightarrow> coverage_db \<Rightarrow> runtime_error + decoded_receipt option" where
  "read_receipt rid db =
     (case find (\<lambda>r. rw_receipt_id r = rid) (db_receipts db) of
        None \<Rightarrow> Inr None
      | Some row \<Rightarrow> try_then (decode_receipt_row rid row) (\<lambda>r. Inr (Some r)))"

definition count_receipts_for_instance :: "contract_id \<Rightarrow> coverage_db \<Rightarrow> nat" where
  "count_receipts_for_instance connector_instance db = length (filter (\<lambda>r. rw_instance r = connector_instance) (db_receipts db))"

definition latest_receipt_for_instance :: "coverage_env \<Rightarrow> contract_id \<Rightarrow> coverage_db \<Rightarrow> runtime_error + coverage_receipt option" where
  "latest_receipt_for_instance env connector_instance db =
     (let joined = concat (map (\<lambda>c. map (\<lambda>r. ((- cu_updated_at c, cu_key c), rw_canonical r))
            (filter (\<lambda>r. Some (rw_receipt_id r) = cu_last_receipt c) (db_receipts db)))
          (filter (\<lambda>c. cu_instance c = connector_instance) (db_cursors db)))
      in case sort_key fst joined of
           [] \<Rightarrow> Inr None
         | (_, bytes) # _ \<Rightarrow> try_then (lift_contract (decode_typed (cv_contract env) (cv_codec env) bytes)) (\<lambda>r. Inr (Some r)))"

end
