(* ===== verification/Identity_Laws.thy ===== *)
theory Identity_Laws
  imports Resource_Identity Digest_Laws
begin

section \<open>Laws of packages and resource identities\<close>

text \<open>
  A verified package resolves each of its manifest tuples to exactly one entry, a URI has one wire
  form, and a derived URI determines the locator it was derived from.
\<close>

subsection \<open>Packages\<close>

lemma try_fold_unit:
  "try_fold (\<lambda>_ x. f x) () xs = Inr u \<longleftrightarrow> (\<forall>x\<in>set xs. f x = Inr ())" for f :: "'a \<Rightarrow> 'e + unit"
proof (induction xs)
  case (Cons x xs)
  then show ?case by (cases "f x") auto
qed simp

lemma validate_package_Inr:
  assumes "validate_package en c package profile = Inr ()"
  shows "length (rp_entries package) = length (rp_manifest package)" and "strictly_sorted (map entry_sort_key (rp_entries package))"
    and "\<forall>p\<in>set (zip (rp_entries package) (rp_manifest package)). check_manifest_pair en c p = Inr ()"
  using assms unfolding validate_package_def by (auto simp: res_simps try_fold_unit split: if_splits)

lemma filter_unique:
  assumes "distinct (map k xs)" and "x \<in> set xs" and "\<And>y. P y \<longleftrightarrow> k y = k x"
  shows "filter P xs = [x]"
  using assms
proof (induction xs)
  case (Cons a xs)
  show ?case
  proof (cases "a = x")
    case True
    with Cons.prems have "\<not> P y" if "y \<in> set xs" for y using that by (auto intro: rev_image_eqI)
    then have "filter P xs = []" by (simp add: filter_empty_conv)
    moreover have "P a" using True Cons.prems(3) by blast
    ultimately show ?thesis using True by (simp only: filter.simps if_True)
  next
    case False
    with Cons.prems have "k a \<noteq> k x" by auto
    with False Cons show ?thesis by simp
  qed
qed simp

lemma kind_str_inject: "kind_str a = kind_str b \<longleftrightarrow> a = b"
proof
  assume "kind_str a = kind_str b"
  moreover have "map_of (map (\<lambda>k. (kind_str k, k)) ALL_REGISTRY_ENTRY_KINDS) (kind_str k) = Some k" for k
    by (cases k) (simp_all add: ALL_REGISTRY_ENTRY_KINDS_def)
  ultimately show "a = b" by (metis option.inject)
qed simp

lemma exact_entry_found:
  assumes "strictly_sorted (map entry_sort_key (rp_entries package))" and "e \<in> set (rp_entries package)"
  shows "exact_entry package (re_kind e) (re_entry_id e) (re_version e) = Inr e"
proof -
  have "filter (\<lambda>y. re_kind y = re_kind e \<and> re_entry_id y = re_entry_id e \<and> re_version y = re_version e) (rp_entries package) = [e]"
    by (rule filter_unique [where k = entry_sort_key])
      (use assms strictly_sorted_distinct in \<open>auto simp: entry_sort_key_def kind_str_inject\<close>)
  then show ?thesis by (simp add: exact_entry_def)
qed

subsection \<open>The wire form of a URI\<close>

lemma encode_utf8_ascii: "c < 128 \<Longrightarrow> encode_utf8 c = [c]"
  by (simp add: encode_utf8_def)

definition id_char :: "nat \<Rightarrow> bool" where
  "id_char b \<longleftrightarrow> is_ascii_lowercase b \<or> is_ascii_digit b \<or> b \<in> {95, 45, 46}"

lemma id_char_ascii: "id_char b \<Longrightarrow> b < 128 \<and> b \<noteq> 58"
  by (auto simp: id_char_def is_ascii_lowercase_def is_ascii_digit_def)

lemma utf8_bytes_ascii_iff: "(\<forall>b\<in>set (utf8_bytes s). b < 128) \<Longrightarrow> utf8_bytes s = s"
proof (induction s)
  case (Cons c s)
  have "hd (encode_utf8 c) < 128" using Cons.prems encode_utf8_hd(1) [of c] by (simp add: utf8_bytes_def)
  then have "c < 128" using encode_utf8_hd(3) [of c] by (cases "c < 128") simp_all
  then have e: "utf8_bytes (c # s) = c # utf8_bytes s" by (simp add: utf8_bytes_def encode_utf8_ascii)
  have "\<forall>b\<in>set (utf8_bytes s). b < 128" using Cons.prems unfolding e by simp
  then have "utf8_bytes s = s" by (rule Cons.IH)
  then show ?case unfolding e by (simp only:)
qed (simp add: utf8_bytes_def)

lemma contract_id_chars: "validate_contract_id en s = Inr () \<Longrightarrow> (\<forall>c\<in>set s. id_char c) \<and> length s \<le> 128 \<and> s \<noteq> []"
proof -
  assume v: "validate_contract_id en s = Inr ()"
  then have ne: "s \<noteq> []" and len: "utf8_len s \<le> 128"
    and b: "is_ascii_lowercase (hd (utf8_bytes s))" "list_all id_char (tl (utf8_bytes s))"
    by (auto simp: validate_contract_id_def Let_def id_char_def [abs_def] split: if_splits)
  have "utf8_bytes s \<noteq> []" using ne encode_utf8_hd(1) by (cases s) (auto simp: utf8_bytes_def)
  then have all: "\<forall>c\<in>set (utf8_bytes s). id_char c"
    using b by (cases "utf8_bytes s") (auto simp: list_all_iff id_char_def)
  then have "utf8_bytes s = s" using id_char_ascii by (intro utf8_bytes_ascii_iff) blast
  with all have "\<forall>c\<in>set s. id_char c" by simp
  moreover from this have "utf8_len s = length s" using id_char_ascii by (intro utf8_len_ascii) blast
  ultimately show ?thesis using len ne by simp
qed

lemma show_uri_join:
  "show_uri u = join_with [58] [lit ''urn'', lit ''ostk'', lit (identity_form_str (ru_identity_form u)), lit ''v1'', ru_resource_kind u,
     lit ''sha256'', to_hex (ru_digest u)]"
  by (simp add: show_uri_def lit_def)

lemma form_find: "find (\<lambda>f. lit (identity_form_str f) = s) [EntityForm, OccurrenceForm, VersionForm] = Some f \<longleftrightarrow> s = lit (identity_form_str f)"
  by (cases f) auto

lemma uri_parts_clean:
  assumes "\<forall>c\<in>set kind. id_char c" and "list_all is_lower_hex hex"
  shows "split_on (\<lambda>c. c = 58) (join_with [58] [lit ''urn'', lit ''ostk'', lit (identity_form_str f), lit ''v1'', kind, lit ''sha256'', hex])
    = [lit ''urn'', lit ''ostk'', lit (identity_form_str f), lit ''v1'', kind, lit ''sha256'', hex]"
proof (rule split_on_join)
  have "58 \<notin> set (lit (identity_form_str f))" by (cases f) (simp_all add: lit_def)
  moreover have "58 \<notin> set kind" using assms(1) id_char_ascii by blast
  moreover have "58 \<notin> set hex" using assms(2) by (auto simp: list_all_iff is_lower_hex_def is_ascii_digit_def)
  ultimately show "\<forall>w\<in>set [lit ''urn'', lit ''ostk'', lit (identity_form_str f), lit ''v1'', kind, lit ''sha256'', hex]. \<forall>c\<in>set w. \<not> c = 58"
    by (auto simp: lit_def)
qed simp_all

lemma join_split: "join_with [58] (split_on (\<lambda>c. c = 58) s) = s"
proof (induction s)
  case (Cons c s)
  then show ?case by (cases "split_on (\<lambda>c. c = 58) s") (auto simp: join_with_Cons)
qed simp

lemma show_uri_short:
  assumes "\<forall>c\<in>set (ru_resource_kind u). id_char c" and "length (ru_resource_kind u) \<le> 128"
    and "length (ru_digest u) = 32" and "\<forall>b\<in>set (ru_digest u). b < 256"
  shows "utf8_len (show_uri u) \<le> 256"
proof -
  have hex: "list_all is_lower_hex (to_hex (ru_digest u))" "length (to_hex (ru_digest u)) = 64" using to_hex_lower assms(3,4) by auto
  have form: "length (lit (identity_form_str f)) \<le> 10" "\<forall>c\<in>set (lit (identity_form_str f)). c < 128" for f
    by (cases f; simp add: lit_def)+
  have "\<forall>c\<in>set (show_uri u). c < 128"
    using form(2) id_char_ascii assms(1) hex(1)
    by (auto simp: show_uri_def lit_def [of "CHR 0x3A # x" for x] lit_def [of "CHR 0x75 # x" for x] list_all_iff is_lower_hex_def is_ascii_digit_def)
  then have "utf8_len (show_uri u) = length (show_uri u)" by (rule utf8_len_ascii)
  moreover have "length (show_uri u) = 21 + length (lit (identity_form_str (ru_identity_form u))) + length (ru_resource_kind u) + 64"
    using hex(2) by (simp add: show_uri_def lit_def)
  ultimately show ?thesis using form(1) [of "ru_identity_form u"] assms(2) by simp
qed

lemma parse_uri_iff:
  "parse_uri en s = Inr u \<longleftrightarrow> s = show_uri u \<and> validate_contract_id en (ru_resource_kind u) = Inr ()
     \<and> length (ru_digest u) = 32 \<and> (\<forall>b\<in>set (ru_digest u). b < 256)"
proof
  assume p: "parse_uri en s = Inr u"
  then obtain form kind hex where parts: "split_on (\<lambda>c. c = 58) s = [lit ''urn'', lit ''ostk'', form, lit ''v1'', kind, lit ''sha256'', hex]"
    and f: "find (\<lambda>f. lit (identity_form_str f) = form) [EntityForm, OccurrenceForm, VersionForm] = Some (ru_identity_form u)"
    and k: "new_contract_id en kind = Inr (ru_resource_kind u)" and d: "parse_digest hex = Inr (ru_digest u)"
    unfolding parse_uri_def by (auto split: if_splits list.splits option.splits sum.splits)
  have "form = lit (identity_form_str (ru_identity_form u))" using f unfolding form_find .
  moreover have "kind = ru_resource_kind u" "validate_contract_id en kind = Inr ()" using k by (auto simp: new_contract_id_def res_simps)
  moreover note d [unfolded parse_digest_iff]
  moreover have "s = join_with [58] [lit ''urn'', lit ''ostk'', form, lit ''v1'', kind, lit ''sha256'', hex]"
    using join_split [of s] unfolding parts by simp
  ultimately show "s = show_uri u \<and> validate_contract_id en (ru_resource_kind u) = Inr ()
     \<and> length (ru_digest u) = 32 \<and> (\<forall>b\<in>set (ru_digest u). b < 256)" unfolding show_uri_join by simp
next
  assume u: "s = show_uri u \<and> validate_contract_id en (ru_resource_kind u) = Inr ()
     \<and> length (ru_digest u) = 32 \<and> (\<forall>b\<in>set (ru_digest u). b < 256)"
  then have chars: "\<forall>c\<in>set (ru_resource_kind u). id_char c" "length (ru_resource_kind u) \<le> 128" using contract_id_chars by blast+
  have hex: "list_all is_lower_hex (to_hex (ru_digest u))" using to_hex_lower u by blast
  have "utf8_len s \<le> 256" using show_uri_short [OF chars] u by blast
  moreover have "parse_digest (to_hex (ru_digest u)) = Inr (ru_digest u)" using u unfolding parse_digest_iff by blast
  moreover have "new_contract_id en (ru_resource_kind u) = Inr (ru_resource_kind u)" using u by (simp add: new_contract_id_def)
  moreover have "find (\<lambda>f. lit (identity_form_str f) = lit (identity_form_str (ru_identity_form u))) [EntityForm, OccurrenceForm, VersionForm]
    = Some (ru_identity_form u)" unfolding form_find ..
  ultimately show "parse_uri en s = Inr u"
    using u uri_parts_clean [OF chars(1) hex, of "ru_identity_form u"]
    unfolding parse_uri_def show_uri_join by (simp del: find.simps)
qed

subsection \<open>Derived identities\<close>

lemma mint_determines:
  assumes "inj (ce_sha en)" and "schema_round_trip en lc"
    and "mint_derived_identity en lc ctx lo vr = Inr i" and "mint_derived_identity en lc ctx' lo' vr' = Inr j"
  shows "di_uri i = di_uri j \<longleftrightarrow> lo = lo'"
  using assms(3,4) encode_typed_inject [OF assms(2)] assms(1)
  by (auto simp: mint_derived_identity_def res_simps domain_separated_digest_def inj_eq domain_preimage_inject)

lemma derive_resource_uri_Inr:
  assumes "derive_resource_uri en lc ctx lo vr parent = Inr i"
  shows "mint_derived_identity en lc ctx lo vr = Inr i" and "lo_scope lo = dc_scope ctx" and "di_scope i = lo_scope lo"
  using assms
  by (auto simp: derive_resource_uri_def validate_locator_def validate_locator_identity_def mint_derived_identity_def
      res_simps split: if_splits)

end
