(* ===== verification/Coverage_Laws.thy ===== *)
theory Coverage_Laws
  imports Coverage_Runtime Identity_Laws
begin

section \<open>What the coverage tables mean\<close>

text \<open>
  A run is the list of observations the runtime accepted, oldest first. The invariant says of every
  cursor that its vector is the union of the intervals accepted for its key and that its recorded
  completeness is the verdict on that union, and of every receipt row that it is the receipt of an
  accepted observation over such a union.
\<close>

inductive coverage_run :: "coverage_env \<Rightarrow> coverage_observation list \<Rightarrow> coverage_db \<Rightarrow> bool" for env where
  fresh: "coverage_run env [] \<lparr>db_cursors = [], db_receipts = []\<rparr>"
| accept: "coverage_run env h db \<Longrightarrow> observe env now obs db = Inr (out, db') \<Longrightarrow> coverage_run env (h @ [obs]) db'"

definition delivered :: "coverage_env \<Rightarrow> coverage_observation list \<Rightarrow> digest \<Rightarrow> u64 set" where
  "delivered env h key = (\<Union>obs\<in>{obs\<in>set h. observation_key env obs = key}. extent (ob_observed obs))"

definition row_target :: "cursor_row \<Rightarrow> sequence_interval" where
  "row_target row = \<lparr>iv_start = cu_target_start row, iv_end = cu_target_end row\<rparr>"

definition cursor_ok :: "coverage_env \<Rightarrow> coverage_observation list \<Rightarrow> cursor_row \<Rightarrow> bool" where
  "cursor_ok env h row \<longleftrightarrow> separated (cu_observed row) \<and> points (cu_observed row) = delivered env h (cu_key row)
     \<and> proper (row_target row) \<and> cu_completeness row = completeness_str (completeness_over (cu_observed row) (row_target row))
     \<and> cu_seq row \<ge> 0 \<and> (\<forall>obs\<in>set h. observation_key env obs = cu_key row \<longrightarrow> ob_target obs = row_target row)"

definition receipt_ok :: "coverage_env \<Rightarrow> coverage_observation list \<Rightarrow> receipt_row \<Rightarrow> bool" where
  "receipt_ok env h row \<longleftrightarrow> (\<exists>obs\<in>set h. \<exists>merged receipt. separated merged \<and> points merged \<subseteq> delivered env h (observation_key env obs)
     \<and> proper (ob_target obs) \<and> build_receipt env obs merged = Inr (receipt, rw_receipt_id row)
     \<and> encode_typed (cv_contract env) (cv_codec env) receipt = Inr (rw_canonical row)
     \<and> rw_completeness row = completeness_str (cr_completeness receipt))"

definition coverage_ok :: "coverage_env \<Rightarrow> coverage_observation list \<Rightarrow> coverage_db \<Rightarrow> bool" where
  "coverage_ok env h db \<longleftrightarrow> distinct (map cu_key (db_cursors db)) \<and> (\<forall>row\<in>set (db_cursors db). cursor_ok env h row)
     \<and> observation_key env ` set h \<subseteq> cu_key ` set (db_cursors db) \<and> (\<forall>row\<in>set (db_receipts db). receipt_ok env h row)"

lemma delivered_snoc:
  "delivered env (h @ [obs]) key = delivered env h key \<union> (if observation_key env obs = key then extent (ob_observed obs) else {})"
  by (auto simp: delivered_def)

lemma delivered_mono: "set h \<subseteq> set g \<Longrightarrow> delivered env h key \<subseteq> delivered env g key"
  by (auto simp: delivered_def)

lemma receipt_ok_mono:
  assumes "set h \<subseteq> set g" and "receipt_ok env h row"
  shows "receipt_ok env g row"
proof -
  have "points m \<subseteq> delivered env h k \<Longrightarrow> points m \<subseteq> delivered env g k" for m k
    using delivered_mono [OF assms(1)] by blast
  then show ?thesis using assms unfolding receipt_ok_def by (meson subsetD)
qed

lemma completeness_str_inject: "completeness_str a = completeness_str b \<longleftrightarrow> a = b"
  by (cases a; cases b) simp_all

lemma parse_completeness_str [simp]: "parse_completeness (completeness_str c) = Inr c"
  by (cases c) (simp_all add: parse_completeness_def)

lemma parse_completeness_Inr: "parse_completeness v = Inr c \<longleftrightarrow> v = completeness_str c"
  by (cases c) (auto simp: parse_completeness_def)

subsection \<open>One accepted observation\<close>

lemma find_unique:
  "distinct (map f xs) \<Longrightarrow> find (\<lambda>x. f x = k) xs = Some x \<longleftrightarrow> x \<in> set xs \<and> f x = k"
proof (induction xs)
  case (Cons y xs)
  show ?case
  proof (cases "f y = k")
    case True
    then have "k \<notin> f ` set xs" using Cons.prems by auto
    then show ?thesis using True by (auto simp: image_iff)
  qed (use Cons in auto)
qed simp

text \<open>The row an accepted observation locks: the stored one, or the seed.\<close>

definition seeded :: "int \<Rightarrow> digest \<Rightarrow> coverage_observation \<Rightarrow> coverage_db \<Rightarrow> coverage_db" where
  "seeded now key obs db = (if list_ex (\<lambda>r. cu_key r = key) (db_cursors db) then db
     else db\<lparr>db_cursors := db_cursors db @ [\<lparr>cu_key = key, cu_instance = ob_connector_instance obs, cu_observed = [],
         cu_target_start = iv_start (ob_target obs), cu_target_end = iv_end (ob_target obs), cu_seq = 0,
         cu_completeness = ''unknown'', cu_last_receipt = None, cu_updated_at = now\<rparr>]\<rparr>)"

lemma seed_cursor_Inr: "seed_cursor env now key obs db = Inr db1 \<Longrightarrow> db1 = seeded now key obs db"
  by (auto simp: seed_cursor_def seeded_def Let_def split: if_splits)

lemma decode_cursor_row_Inr:
  assumes "decode_cursor_row row = Inr stored"
  shows "separated (cu_observed row)" and "proper (row_target row)" and "cu_seq row \<ge> 0"
    and "dc_observed stored = cu_observed row" and "dc_target stored = row_target row" and "dc_seq stored = nat (cu_seq row)"
  using assms
  by (auto simp: decode_cursor_row_def res_simps validate_range_iff new_interval_def seq_from_i64_def proper_def row_target_def
      split: if_splits)

lemma decode_cursor_row_ok:
  assumes "separated (cu_observed row)" and "proper (row_target row)" and "cu_seq row \<ge> 0" and "cu_completeness row = completeness_str c"
  shows "\<exists>stored. decode_cursor_row row = Inr stored"
proof -
  have "validate_range (cu_observed row) = Inr ()" using assms(1) validate_range_iff by blast
  moreover have "new_interval (cu_target_start row) (cu_target_end row) = Inr (row_target row)"
    using assms(2) by (auto simp: new_interval_def row_target_def proper_def)
  ultimately show ?thesis using assms(3,4) by (simp add: decode_cursor_row_def lift_range_def seq_from_i64_def)
qed

text \<open>What an accepted observation did: nothing to a covered range, or one receipt and one advance.\<close>

definition advanced :: "coverage_env \<Rightarrow> int \<Rightarrow> coverage_observation \<Rightarrow> cursor_row \<Rightarrow> observed_range \<Rightarrow> coverage_receipt \<Rightarrow> digest
    \<Rightarrow> byte list \<Rightarrow> coverage_db \<Rightarrow> coverage_db" where
  "advanced env now obs row merged receipt rid canonical db =
     (let key = observation_key env obs; seq = int (nat (cu_seq row) + 1);
        new = \<lparr>rw_receipt_id = rid, rw_instance = ob_connector_instance obs, rw_key = key,
          rw_completeness = completeness_str (cr_completeness receipt), rw_evidence_id = ob_evidence_id obs,
          rw_source_digest = ob_source_digest obs, rw_source_count = int (ob_source_count obs), rw_seq = seq,
          rw_canonical = canonical, rw_created_at = now\<rparr>
      in db\<lparr>db_cursors := map (\<lambda>r. if cu_key r = key then advance_row merged seq (cr_completeness receipt) rid now r else r) (db_cursors db),
            db_receipts := (if list_ex (\<lambda>r. rw_receipt_id r = rid) (db_receipts db) then db_receipts db else db_receipts db @ [new])\<rparr>)"

lemma record_extension_Inr:
  assumes "record_extension env now (observation_key env obs) obs NoFault (nat (cu_seq row)) merged db = Inr (out, db')"
  obtains receipt rid canonical where "build_receipt env obs merged = Inr (receipt, rid)"
    and "encode_typed (cv_contract env) (cv_codec env) receipt = Inr canonical"
    and "out = Recorded rid (cr_completeness receipt) (\<not> is_contiguous (cr_continuity receipt)) (nat (cu_seq row) + 1)"
    and "db' = advanced env now obs row merged receipt rid canonical db"
  using assms
  by (auto simp: record_extension_def res_simps i64_from_seq_def insert_receipt_def advance_cursor_def Let_def advanced_def
      split: if_splits prod.splits)

lemma observe_Inr:
  assumes "observe env now obs db = Inr (out, db')"
  defines "db1 \<equiv> seeded now (observation_key env obs) obs db"
  obtains row merged where "proper (ob_observed obs)" and "proper (ob_target obs)"
    and "find (\<lambda>r. cu_key r = observation_key env obs) (db_cursors db1) = Some row"
    and "row_target row = ob_target obs" and "separated (cu_observed row)" and "separated merged"
    and "points merged = points (cu_observed row) \<union> extent (ob_observed obs)"
    and "if extent (ob_observed obs) \<subseteq> points (cu_observed row) then out = AlreadyCovered (nat (cu_seq row)) \<and> db' = db1
      else \<exists>receipt rid canonical. build_receipt env obs merged = Inr (receipt, rid)
        \<and> encode_typed (cv_contract env) (cv_codec env) receipt = Inr canonical
        \<and> out = Recorded rid (cr_completeness receipt) (\<not> is_contiguous (cr_continuity receipt)) (nat (cu_seq row) + 1)
        \<and> db' = advanced env now obs row merged receipt rid canonical db1"
proof -
  let ?key = "observation_key env obs"
  have p: "proper (ob_observed obs)" "proper (ob_target obs)"
    and tx: "observe_in_transaction env now ?key obs NoFault db = Inr (out, db')"
    using assms(1) by (auto simp: observe_def observe_with_fault_injection_def proper_def split: if_splits)
  from tx obtain db0 row stored where sd: "seed_cursor env now ?key obs db = Inr db0"
      and fd: "find (\<lambda>r. cu_key r = ?key) (db_cursors db0) = Some row" and dec: "decode_cursor_row row = Inr stored"
      and body: "(if dc_target stored \<noteq> ob_target obs then Inl (RtMemory ''coverage cursor target does not match the observation target'')
         else try_then (lift_range (insert_interval (ob_observed obs) (dc_observed stored))) (\<lambda>(insert_outcome, merged).
           if insert_outcome = Redundant then Inr (AlreadyCovered (dc_seq stored), db0)
           else record_extension env now ?key obs NoFault (dc_seq stored) merged db0)) = Inr (out, db')"
    unfolding observe_in_transaction_def try_then_eq_Inr ok_or_eq_Inr by blast
  have db0: "db0 = db1" using seed_cursor_Inr [OF sd] unfolding db1_def .
  have t: "dc_target stored = ob_target obs"
  proof (rule ccontr)
    assume "dc_target stored \<noteq> ob_target obs"
    then show False using body by simp
  qed
  have row: "find (\<lambda>r. cu_key r = ?key) (db_cursors db1) = Some row"
      and rest: "try_then (lift_range (insert_interval (ob_observed obs) (dc_observed stored))) (\<lambda>(insert_outcome, merged).
         if insert_outcome = Redundant then Inr (AlreadyCovered (dc_seq stored), db1)
         else record_extension env now ?key obs NoFault (dc_seq stored) merged db1) = Inr (out, db')"
    using fd body t unfolding db0 by simp_all
  note st = decode_cursor_row_Inr [OF dec]
  from rest [unfolded st(4,6)] obtain o' merged where ins: "insert_interval (ob_observed obs) (cu_observed row) = Inr (o', merged)"
      and rest2: "(if o' = Redundant then Inr (AlreadyCovered (nat (cu_seq row)), db1)
         else record_extension env now ?key obs NoFault (nat (cu_seq row)) merged db1) = Inr (out, db')"
    by (auto simp: res_simps)
  note m = insert_interval_Inr [OF ins st(1)]
  show ?thesis
  proof (rule that [OF p row _ st(1) m(2,3)])
    show "row_target row = ob_target obs" using t st(5) by simp
    show "if extent (ob_observed obs) \<subseteq> points (cu_observed row) then out = AlreadyCovered (nat (cu_seq row)) \<and> db' = db1
      else \<exists>receipt rid canonical. build_receipt env obs merged = Inr (receipt, rid)
        \<and> encode_typed (cv_contract env) (cv_codec env) receipt = Inr canonical
        \<and> out = Recorded rid (cr_completeness receipt) (\<not> is_contiguous (cr_continuity receipt)) (nat (cu_seq row) + 1)
        \<and> db' = advanced env now obs row merged receipt rid canonical db1"
    proof (cases "o' = Redundant")
      case True
      then show ?thesis using rest2 m(4) by simp
    next
      case False
      then have "record_extension env now ?key obs NoFault (nat (cu_seq row)) merged db1 = Inr (out, db')" using rest2 by simp
      then show ?thesis using False m(4) record_extension_Inr by (metis (no_types, lifting))
    qed
  qed
qed

subsection \<open>The invariant\<close>

lemma seeded_receipts [simp]: "db_receipts (seeded now key obs db) = db_receipts db"
  by (simp add: seeded_def)

lemma seeded_ok:
  assumes "coverage_ok env h db" and "proper (ob_target obs)"
  shows "coverage_ok env h (seeded now (observation_key env obs) obs db)"
    and "observation_key env obs \<in> cu_key ` set (db_cursors (seeded now (observation_key env obs) obs db))"
proof -
  let ?key = "observation_key env obs"
  show "coverage_ok env h (seeded now ?key obs db)"
  proof (cases "list_ex (\<lambda>r. cu_key r = ?key) (db_cursors db)")
    case False
    then have new: "?key \<notin> cu_key ` set (db_cursors db)" by (auto simp: list_ex_iff)
    then have "?key \<notin> observation_key env ` set h" using assms(1) unfolding coverage_ok_def by blast
    then have "\<forall>o'\<in>set h. observation_key env o' \<noteq> ?key" by (metis imageI)
    then have "delivered env h ?key = {}" "\<forall>o'\<in>set h. observation_key env o' \<noteq> ?key" by (auto simp: delivered_def)
    then show ?thesis using False new assms by (auto simp: coverage_ok_def seeded_def cursor_ok_def row_target_def completeness_over_def proper_def)
  qed (use assms(1) in \<open>simp add: seeded_def\<close>)
  show "?key \<in> cu_key ` set (db_cursors (seeded now ?key obs db))"
    by (cases "list_ex (\<lambda>r. cu_key r = ?key) (db_cursors db)") (force simp: seeded_def list_ex_iff)+
qed

lemma build_receipt_Inr:
  assumes "build_receipt env obs merged = Inr (receipt, rid)"
  shows "cr_completeness receipt = completeness_over merged (ob_target obs)"
    and "cr_continuity receipt = continuity_over merged (ob_target obs)"
    and "cr_scope receipt = ob_scope obs" and "cr_observed_through receipt = ob_observed_through obs"
    and "cr_evidence_id receipt = ob_evidence_id obs" and "cr_source_digest receipt = ob_source_digest obs"
    and "receipt_id (cv_contract env) (cv_codec env) receipt = Inr rid"
  using assms by (auto simp: build_receipt_def Let_def res_simps)

lemma advanced_keys:
  "map cu_key (db_cursors (advanced env now obs row merged receipt rid canonical db)) = map cu_key (db_cursors db)"
  "cu_key ` set (db_cursors (advanced env now obs row merged receipt rid canonical db)) = cu_key ` set (db_cursors db)"
proof -
  show "map cu_key (db_cursors (advanced env now obs row merged receipt rid canonical db)) = map cu_key (db_cursors db)"
    by (auto simp: advanced_def Let_def advance_row_def)
  then show "cu_key ` set (db_cursors (advanced env now obs row merged receipt rid canonical db)) = cu_key ` set (db_cursors db)"
    by (metis list.set_map)
qed

lemma advanced_ok:
  assumes ok: "coverage_ok env h db" and row: "row \<in> set (db_cursors db)" "cu_key row = observation_key env obs"
    and t: "row_target row = ob_target obs" and pt: "proper (ob_target obs)"
    and m: "separated merged" "points merged = points (cu_observed row) \<union> extent (ob_observed obs)"
    and b: "build_receipt env obs merged = Inr (receipt, rid)"
    and c: "encode_typed (cv_contract env) (cv_codec env) receipt = Inr canonical"
  shows "coverage_ok env (h @ [obs]) (advanced env now obs row merged receipt rid canonical db)"
proof -
  let ?key = "observation_key env obs" and ?h = "h @ [obs]"
  let ?adv = "advance_row merged (int (nat (cu_seq row) + 1)) (cr_completeness receipt) rid now"
  have same: "r = row" if "r \<in> set (db_cursors db)" "cu_key r = ?key" for r
    using that ok row unfolding coverage_ok_def by (metis (no_types, lifting) distinct_map inj_onD)
  have d: "points merged = delivered env ?h ?key"
    using m(2) ok row unfolding coverage_ok_def cursor_ok_def by (auto simp: delivered_snoc)
  have cursor: "cursor_ok env ?h (if cu_key r = ?key then ?adv r else r)" if "r \<in> set (db_cursors db)" for r
  proof (cases "cu_key r = ?key")
    case True
    then have "r = row" using same that by blast
    then show ?thesis using True m(1) d t pt row ok build_receipt_Inr(1) [OF b]
      by (auto simp: cursor_ok_def advance_row_def row_target_def coverage_ok_def)
  next
    case False
    then show ?thesis using that ok by (auto simp: cursor_ok_def coverage_ok_def delivered_snoc)
  qed
  have receipts: "receipt_ok env ?h r" if "r \<in> set (db_receipts (advanced env now obs row merged receipt rid canonical db))" for r
  proof (cases "r \<in> set (db_receipts db)")
    case True
    then show ?thesis using ok receipt_ok_mono [of h ?h env r] by (auto simp: coverage_ok_def)
  next
    case False
    then have "rw_receipt_id r = rid" "rw_canonical r = canonical" "rw_completeness r = completeness_str (cr_completeness receipt)"
      using that by (auto simp: advanced_def Let_def split: if_splits)
    then show ?thesis using m(1) d pt b c unfolding receipt_ok_def by (intro bexI [of _ obs] exI [of _ merged] exI [of _ receipt]) auto
  qed
  let ?new = "advanced env now obs row merged receipt rid canonical db"
  have rows: "set (db_cursors ?new) = (\<lambda>r. if cu_key r = ?key then ?adv r else r) ` set (db_cursors db)"
    by (simp only: advanced_def Let_def) simp
  have cursors: "cursor_ok env ?h r" if r: "r \<in> set (db_cursors ?new)" for r
    using r unfolding rows by (rule imageE) (simp only: cursor)
  have "?key \<in> cu_key ` set (db_cursors db)" using row by (metis imageI)
  then show ?thesis using ok cursors receipts unfolding coverage_ok_def advanced_keys by simp
qed

lemma redundant_ok:
  assumes ok: "coverage_ok env h db" and row: "row \<in> set (db_cursors db)" "cu_key row = observation_key env obs"
    and t: "row_target row = ob_target obs" and e: "extent (ob_observed obs) \<subseteq> points (cu_observed row)"
  shows "coverage_ok env (h @ [obs]) db"
proof -
  have "extent (ob_observed obs) \<subseteq> delivered env h (observation_key env obs)"
    using e ok row unfolding coverage_ok_def cursor_ok_def by auto
  then have d: "delivered env (h @ [obs]) k = delivered env h k" for k by (auto simp: delivered_snoc)
  have same: "r = row" if "r \<in> set (db_cursors db)" "cu_key r = observation_key env obs" for r
    using that ok row unfolding coverage_ok_def by (metis (no_types, lifting) distinct_map inj_onD)
  have "cursor_ok env (h @ [obs]) r" if "r \<in> set (db_cursors db)" for r
    using that ok same [OF that] t unfolding coverage_ok_def cursor_ok_def d by auto
  moreover have "receipt_ok env (h @ [obs]) r" if "r \<in> set (db_receipts db)" for r
    using that ok receipt_ok_mono [of h "h @ [obs]" env r] by (auto simp: coverage_ok_def)
  moreover have "observation_key env obs \<in> cu_key ` set (db_cursors db)" using row by (metis imageI)
  ultimately show ?thesis using ok unfolding coverage_ok_def by auto
qed

lemma observe_ok:
  assumes "coverage_ok env h db" and "observe env now obs db = Inr (out, db')"
  shows "coverage_ok env (h @ [obs]) db'"
  using assms(2)
proof (rule observe_Inr)
  let ?db1 = "seeded now (observation_key env obs) obs db"
  fix row merged
  assume p: "proper (ob_target obs)" and f: "find (\<lambda>r. cu_key r = observation_key env obs) (db_cursors ?db1) = Some row"
    and t: "row_target row = ob_target obs"
    and m: "separated merged" "points merged = points (cu_observed row) \<union> extent (ob_observed obs)"
    and r: "if extent (ob_observed obs) \<subseteq> points (cu_observed row) then out = AlreadyCovered (nat (cu_seq row)) \<and> db' = ?db1
      else \<exists>receipt rid canonical. build_receipt env obs merged = Inr (receipt, rid)
        \<and> encode_typed (cv_contract env) (cv_codec env) receipt = Inr canonical
        \<and> out = Recorded rid (cr_completeness receipt) (\<not> is_contiguous (cr_continuity receipt)) (nat (cu_seq row) + 1)
        \<and> db' = advanced env now obs row merged receipt rid canonical ?db1"
  have ok: "coverage_ok env h ?db1" by (rule seeded_ok(1) [OF assms(1) p])
  then have row: "row \<in> set (db_cursors ?db1)" "cu_key row = observation_key env obs"
    using f find_unique [of cu_key "db_cursors ?db1"] unfolding coverage_ok_def by blast+
  show ?thesis
  proof (cases "extent (ob_observed obs) \<subseteq> points (cu_observed row)")
    case True
    then show ?thesis using r redundant_ok [OF ok row t] by simp
  next
    case False
    then show ?thesis using r advanced_ok [OF ok row t p m] by auto
  qed
qed

lemma run_coverage_ok: "coverage_run env h db \<Longrightarrow> coverage_ok env h db"
proof (induction rule: coverage_run.induct)
  case fresh
  show ?case by (simp add: coverage_ok_def)
qed (rule observe_ok)

lemma run_keys: "coverage_run env h db \<Longrightarrow> cu_key ` set (db_cursors db) \<subseteq> observation_key env ` set h"
proof (induction rule: coverage_run.induct)
  case (accept h db now obs out db')
  let ?db1 = "seeded now (observation_key env obs) obs db"
  from accept.hyps(2) have "cu_key ` set (db_cursors db') = cu_key ` set (db_cursors ?db1)"
  proof (rule observe_Inr)
    fix row merged
    assume "if extent (ob_observed obs) \<subseteq> points (cu_observed row) then out = AlreadyCovered (nat (cu_seq row)) \<and> db' = ?db1
      else \<exists>receipt rid canonical. build_receipt env obs merged = Inr (receipt, rid)
        \<and> encode_typed (cv_contract env) (cv_codec env) receipt = Inr canonical
        \<and> out = Recorded rid (cr_completeness receipt) (\<not> is_contiguous (cr_continuity receipt)) (nat (cu_seq row) + 1)
        \<and> db' = advanced env now obs row merged receipt rid canonical ?db1"
    then consider "db' = ?db1" | receipt rid canonical where "db' = advanced env now obs row merged receipt rid canonical ?db1"
      by meson
    then show ?thesis by cases (simp_all only: advanced_keys(2))
  qed
  also have "\<dots> \<subseteq> insert (observation_key env obs) (cu_key ` set (db_cursors db))" by (auto simp: seeded_def)
  finally show ?case using accept.IH by auto
qed simp

subsection \<open>Keys\<close>

text \<open>The types of an observation's fields: identifiers, URIs, instants and byte strings are only built
  by their validating constructors.\<close>

definition domain_typed :: "contract_env \<Rightarrow> coverage_observation \<Rightarrow> bool" where
  "domain_typed en obs \<longleftrightarrow> validate_contract_id en (ob_connector_instance obs) = Inr ()
     \<and> parse_uri en (show_uri (cs_scope (ob_scope obs))) = Inr (cs_scope (ob_scope obs))
     \<and> new_hex (cs_revision (ob_scope obs)) = Inr (cs_revision (ob_scope obs))
     \<and> (\<forall>t\<in>{cw_start (cs_window (ob_scope obs)), cw_end (cs_window (ob_scope obs))}. parse_timestamp en t = Inr t)"

lemma utf8_bytes_ascii: "\<forall>c\<in>set s. c < 128 \<Longrightarrow> utf8_bytes s = s"
  by (induction s) (simp_all add: utf8_bytes_def encode_utf8_ascii)

lemma timestamp_text:
  assumes "parse_timestamp en t = Inr t"
  shows "utf8_bytes t = t" and "length t = 30"
proof -
  have "timestamp_shape (utf8_bytes t)" using assms by (auto simp: parse_timestamp_def split: if_splits)
  then have len: "length (utf8_bytes t) = 30" and b: "\<forall>i<30. i \<in> {4, 7, 10, 13, 16, 19, 29} \<or> is_ascii_digit (utf8_bytes t ! i)"
      and f: "\<forall>i\<in>{4, 7, 10, 13, 16, 19, 29}. utf8_bytes t ! i < 128"
    by (auto simp: timestamp_shape_def list_all_iff)
  have "utf8_bytes t ! i < 128" if "i < 30" for i using that b f by (fastforce simp: is_ascii_digit_def)
  then have "\<forall>b\<in>set (utf8_bytes t). b < 128" using len by (auto simp: in_set_conv_nth)
  then show "utf8_bytes t = t" by (rule utf8_bytes_ascii_iff)
  with len show "length t = 30" by simp
qed

lemma uri_text:
  assumes "parse_uri en (show_uri u) = Inr u"
  shows "utf8_bytes (show_uri u) = show_uri u" and "framable (show_uri u)"
proof -
  have k: "\<forall>c\<in>set (ru_resource_kind u). id_char c" "length (ru_resource_kind u) \<le> 128" "length (ru_digest u) = 32"
      "\<forall>b\<in>set (ru_digest u). b < 256"
    using assms contract_id_chars unfolding parse_uri_iff by blast+
  have "\<forall>c\<in>set (to_hex (ru_digest u)). c < 128"
    using to_hex_lower [OF k(4)] by (auto simp: list_all_iff is_lower_hex_def is_ascii_digit_def)
  moreover have "\<forall>c\<in>set (lit (identity_form_str (ru_identity_form u))). c < 128"
    by (cases "ru_identity_form u") (simp_all add: lit_def)
  ultimately show "utf8_bytes (show_uri u) = show_uri u"
    using k(1) id_char_ascii by (intro utf8_bytes_ascii) (auto simp: show_uri_def lit_def)
  have "length (lit (identity_form_str (ru_identity_form u))) \<le> 20" by (cases "ru_identity_form u") (simp_all add: lit_def)
  moreover have "length (to_hex (ru_digest u)) = 64" using to_hex_lower [OF k(4)] k(3) by simp
  ultimately show "framable (show_uri u)" using k(2) by (simp add: show_uri_def framable_def lit_def)
qed

lemma key_frame_frame: "framable p \<Longrightarrow> key_frame p = length_frame p @ p"
  by (simp add: key_frame_def length_frame_simps(1))

lemma coverage_key_inject:
  assumes "inj (ce_sha (cv_contract env))" and a: "domain_typed (cv_contract env) a" and b: "domain_typed (cv_contract env) b"
    and "observation_key env a = observation_key env b"
  shows "ob_connector_instance a = ob_connector_instance b \<and> ob_scope a = ob_scope b \<and> ob_target a = ob_target b"
proof -
  let ?parts = "\<lambda>x. [ob_connector_instance x, show_uri (cs_scope (ob_scope x)), cs_revision (ob_scope x),
      cw_start (cs_window (ob_scope x)), cw_end (cs_window (ob_scope x))]"
  let ?tail = "\<lambda>x. be_bytes 8 (unat (iv_start (ob_target x))) @ be_bytes 8 (unat (iv_end (ob_target x)))"
  have typed: "(\<forall>p\<in>set (?parts o'). framable p) \<and> coverage_key_preimage (ob_connector_instance o') (ob_scope o') (ob_target o')
      = COVERAGE_KEY_DOMAIN @ concat (map (\<lambda>p. length_frame p @ p) (?parts o')) @ ?tail o'" if t: "domain_typed (cv_contract env) o'" for o'
  proof -
    have "\<forall>c\<in>set (ob_connector_instance o'). id_char c" "length (ob_connector_instance o') \<le> 128"
      using t contract_id_chars unfolding domain_typed_def by blast+
    then have "utf8_bytes (ob_connector_instance o') = ob_connector_instance o'" "framable (ob_connector_instance o')"
      using id_char_ascii by (auto intro: utf8_bytes_ascii simp: framable_def)
    moreover have "length (cs_revision (ob_scope o')) \<le> 4096"
      using t by (auto simp: domain_typed_def new_hex_def new_bounded_hex_def split: if_splits)
    moreover have "utf8_bytes (cw_start (cs_window (ob_scope o'))) = cw_start (cs_window (ob_scope o'))"
        "utf8_bytes (cw_end (cs_window (ob_scope o'))) = cw_end (cs_window (ob_scope o'))"
        "length (cw_start (cs_window (ob_scope o'))) = 30" "length (cw_end (cs_window (ob_scope o'))) = 30"
      using t timestamp_text unfolding domain_typed_def by blast+
    moreover have "utf8_bytes (show_uri (cs_scope (ob_scope o'))) = show_uri (cs_scope (ob_scope o'))" "framable (show_uri (cs_scope (ob_scope o')))"
      using t uri_text unfolding domain_typed_def by blast+
    ultimately show ?thesis by (simp add: coverage_key_preimage_def key_frame_frame framable_def)
  qed
  note ta = typed [OF a] and tb = typed [OF b]
  have "coverage_key_preimage (ob_connector_instance a) (ob_scope a) (ob_target a)
      = coverage_key_preimage (ob_connector_instance b) (ob_scope b) (ob_target b)"
    using assms(1,4) by (simp add: observation_key_def coverage_key_digest_def inj_eq)
  then have eq: "concat (map (\<lambda>p. length_frame p @ p) (?parts a)) @ ?tail a = concat (map (\<lambda>p. length_frame p @ p) (?parts b)) @ ?tail b"
    using ta tb by (simp only: append_same_eq same_append_eq)
  then have "concat (map (\<lambda>p. length_frame p @ p) (?parts a)) = concat (map (\<lambda>p. length_frame p @ p) (?parts b)) \<and> ?tail a = ?tail b"
    by (subst (asm) append_eq_append_conv) simp_all
  then have parts: "?parts a = ?parts b" and tail: "?tail a = ?tail b"
    using frames_inject [OF conjunct1 [OF ta] conjunct1 [OF tb]] by blast+
  have u: "unat (w :: u64) < 256 ^ 8" for w by (rule order.strict_trans2 [OF unsigned_less]) simp
  from tail have "iv_start (ob_target a) = iv_start (ob_target b)" "iv_end (ob_target a) = iv_end (ob_target b)"
    by (auto simp: append_eq_append_conv be_bytes_inject [OF u u] word_unat_eq_iff)
  moreover have "cs_scope (ob_scope a) = cs_scope (ob_scope b)"
    using parts a b unfolding domain_typed_def by (metis (no_types, lifting) Inr_inject list.inject)
  ultimately show ?thesis using parts by simp
qed

end
