(* ===== verification/Conflict_Detector.thy ===== *)
theory Conflict_Detector
  imports Ledger_Types Json_Laws
begin

section \<open>The functional-value conflict detector\<close>

text \<open>
  \<^verbatim>\<open>ledger/conflict.rs\<close> (validity windows, polarity table, the comparison of two claims)
  and the pair graph of \<^verbatim>\<open>ledger/lifecycle.rs\<close> over the locked claims of one key. The
  laws: the window test is intersection of half-open intervals, the comparison is
  symmetric, and the pair vector is exactly the set of ordered incompatible pairs.
\<close>

subsection \<open>Comparing propositions\<close>

definition opt_all :: "('a \<Rightarrow> bool) \<Rightarrow> 'a option \<Rightarrow> bool" where
  "opt_all p m = (case m of None \<Rightarrow> True | Some x \<Rightarrow> p x)"

lemma opt_all_simps [simp]: "opt_all p None" "opt_all p (Some x) = p x"
  by (simp_all add: opt_all_def)

definition intervals_overlap ::
    "time option \<Rightarrow> time option \<Rightarrow> time option \<Rightarrow> time option \<Rightarrow> bool" where
  "intervals_overlap a_from a_to b_from b_to \<longleftrightarrow>
     opt_all (\<lambda>to. opt_all (\<lambda>from. from < to) b_from) a_to \<and>
     opt_all (\<lambda>to. opt_all (\<lambda>from. from < to) a_from) b_to"

definition functional_values_are_incompatible ::
    "(f64 \<Rightarrow> string) \<Rightarrow> json \<Rightarrow> int \<Rightarrow> json \<Rightarrow> int \<Rightarrow> bool" where
  "functional_values_are_incompatible fmt left_value left_polarity right_value right_polarity =
     (let values_equal = jsonb_values_equal fmt left_value right_value in
      if left_polarity = 1 \<and> right_polarity = 1 then \<not> values_equal
      else if (left_polarity = 1 \<and> right_polarity = - 1) \<or> (left_polarity = - 1 \<and> right_polarity = 1)
      then values_equal
      else False)"

text \<open>The columns of a claim the ledger decides on.\<close>

record claim =
  cl_id :: int
  cl_project :: ustr
  cl_kind :: claim_kind
  cl_claim_key :: "ustr option"
  cl_subject :: "ustr option"
  cl_predicate :: "ustr option"
  cl_value :: "json option"
  cl_text :: ustr
  cl_polarity :: int
  cl_state :: claim_state
  cl_origin :: ustr
  cl_actor :: "ustr option"
  cl_confidence :: f64
  cl_valid_from :: "time option"
  cl_valid_to :: "time option"
  cl_superseded_by :: "int option"
  cl_revision :: int
  cl_conflict_eligible :: bool
  cl_created_at :: time
  cl_updated_at :: time

definition claims_are_incompatible :: "(f64 \<Rightarrow> string) \<Rightarrow> claim \<Rightarrow> claim \<Rightarrow> bool" where
  "claims_are_incompatible fmt left right \<longleftrightarrow>
     cl_conflict_eligible left \<and> cl_conflict_eligible right
     \<and> is_current (cl_state left) \<and> is_current (cl_state right)
     \<and> cl_project left = cl_project right
     \<and> cl_claim_key left \<noteq> None \<and> cl_claim_key left = cl_claim_key right
     \<and> intervals_overlap (cl_valid_from left) (cl_valid_to left) (cl_valid_from right) (cl_valid_to right)
     \<and> (case (cl_value left, cl_value right) of
          (Some lv, Some rv) \<Rightarrow>
            functional_values_are_incompatible fmt lv (cl_polarity left) rv (cl_polarity right)
        | _ \<Rightarrow> False)"

subsection \<open>The pair graph of one key\<close>

definition locked_incompatible :: "(f64 \<Rightarrow> string) \<Rightarrow> locked_key_claim \<Rightarrow> locked_key_claim \<Rightarrow> bool" where
  "locked_incompatible fmt l r \<longleftrightarrow>
     (case (lk_value l, lk_value r) of
        (Some lv, Some rv) \<Rightarrow>
          intervals_overlap (lk_valid_from l) (lk_valid_to l) (lk_valid_from r) (lk_valid_to r)
          \<and> functional_values_are_incompatible fmt lv (lk_polarity l) rv (lk_polarity r)
      | _ \<Rightarrow> False)"

definition pair_eligible :: "locked_key_claim \<Rightarrow> bool" where
  "pair_eligible c \<longleftrightarrow> lk_conflict_eligible c \<and> is_current (lk_state c) \<and> lk_value c \<noteq> None"

fun pair_scan :: "(locked_key_claim \<Rightarrow> locked_key_claim \<Rightarrow> bool) \<Rightarrow> locked_key_claim list \<Rightarrow> (int \<times> int) list" where
  "pair_scan p [] = []"
| "pair_scan p (l # rs) =
     map (\<lambda>r. (min (lk_id l) (lk_id r), max (lk_id l) (lk_id r))) (filter (p l) rs) @ pair_scan p rs"

definition incompatible_pairs :: "(f64 \<Rightarrow> string) \<Rightarrow> locked_key_claim list \<Rightarrow> (int \<times> int) list" where
  "incompatible_pairs fmt claims =
     sort_dedup (pair_scan (locked_incompatible fmt) (sort_key lk_id (filter pair_eligible claims)))"

subsection \<open>Laws\<close>

definition in_window :: "time option \<Rightarrow> time option \<Rightarrow> time \<Rightarrow> bool" where
  "in_window from to t \<longleftrightarrow> opt_all (\<lambda>f. f \<le> t) from \<and> opt_all (\<lambda>e. t < e) to"

definition window_ok :: "time option \<Rightarrow> time option \<Rightarrow> bool" where
  "window_ok from to \<longleftrightarrow> (case (from, to) of (Some f, Some e) \<Rightarrow> f < e | _ \<Rightarrow> True)"

lemma intervals_overlap_sym:
  "intervals_overlap af ae bf be \<longleftrightarrow> intervals_overlap bf be af ae"
  by (auto simp: intervals_overlap_def)

lemma intervals_overlap_iff:
  assumes "window_ok af ae" and "window_ok bf be"
  shows "intervals_overlap af ae bf be \<longleftrightarrow> (\<exists>t. in_window af ae t \<and> in_window bf be t)"
proof
  assume o: "intervals_overlap af ae bf be"
  define lo where "lo = (case (af, bf) of (Some a, Some b) \<Rightarrow> max a b | (Some a, None) \<Rightarrow> a
     | (None, Some b) \<Rightarrow> b | (None, None) \<Rightarrow> (case (ae, be) of (Some a, Some b) \<Rightarrow> min a b - 1
     | (Some a, None) \<Rightarrow> a - 1 | (None, Some b) \<Rightarrow> b - 1 | (None, None) \<Rightarrow> 0))"
  have "in_window af ae lo \<and> in_window bf be lo"
    using o assms
    by (cases af; cases ae; cases bf; cases be)
       (simp_all add: lo_def intervals_overlap_def in_window_def window_ok_def min_def)
  then show "\<exists>t. in_window af ae t \<and> in_window bf be t" by blast
next
  assume "\<exists>t. in_window af ae t \<and> in_window bf be t"
  then show "intervals_overlap af ae bf be"
    by (cases af; cases ae; cases bf; cases be) (auto simp: intervals_overlap_def in_window_def)
qed

lemma functional_values_sym:
  assumes "renders_decimals fmt" and "wf_json v" and "wf_json w"
  shows "functional_values_are_incompatible fmt v p w q \<longleftrightarrow> functional_values_are_incompatible fmt w q v p"
  using jsonb_values_equal_sym [OF assms] by (auto simp: functional_values_are_incompatible_def Let_def)

lemma locked_incompatible_sym:
  assumes "renders_decimals fmt" and "opt_all wf_json (lk_value l)" and "opt_all wf_json (lk_value r)"
  shows "locked_incompatible fmt l r \<longleftrightarrow> locked_incompatible fmt r l"
  using assms functional_values_sym intervals_overlap_sym
  by (auto simp: locked_incompatible_def split: option.splits)

lemma set_pair_scan:
  "sorted_wrt (\<lambda>a b. lk_id a < lk_id b) cs \<Longrightarrow>
   set (pair_scan p cs) = {(lk_id l, lk_id r) |l r. l \<in> set cs \<and> r \<in> set cs \<and> lk_id l < lk_id r \<and> p l r}"
proof (induction cs)
  case (Cons l rs)
  have less: "\<forall>r\<in>set rs. lk_id l < lk_id r" using Cons.prems by simp
  have "map (\<lambda>r. (min (lk_id l) (lk_id r), max (lk_id l) (lk_id r))) (filter (p l) rs)
      = map (\<lambda>r. (lk_id l, lk_id r)) (filter (p l) rs)"
    using less by (intro map_cong) auto
  then have "set (pair_scan p (l # rs)) =
      {(lk_id l, lk_id r) |r. r \<in> set rs \<and> p l r} \<union> set (pair_scan p rs)"
    by auto
  also have "\<dots> = {(lk_id a, lk_id b) |a b. a \<in> set (l # rs) \<and> b \<in> set (l # rs) \<and> lk_id a < lk_id b \<and> p a b}"
    using Cons less by (auto dest: less_asym) blast
  finally show ?case .
qed simp

lemma sorted_key_strict:
  assumes "distinct (map lk_id cs)"
  shows "sorted_wrt (\<lambda>a b. lk_id a < lk_id b) (sort_key lk_id cs)"
proof -
  have "sorted (map lk_id (sort_key lk_id cs))" by simp
  moreover have "distinct (map lk_id (sort_key lk_id cs))"
    using assms by (simp add: distinct_map)
  ultimately have "sorted_wrt (<) (map lk_id (sort_key lk_id cs))"
    by (simp add: strict_sorted_iff)
  then show ?thesis by (simp add: sorted_wrt_map)
qed

lemma set_incompatible_pairs:
  assumes "distinct (map lk_id cs)"
  shows "set (incompatible_pairs fmt cs) =
    {(lk_id l, lk_id r) |l r. l \<in> set cs \<and> r \<in> set cs \<and> lk_id l < lk_id r
       \<and> pair_eligible l \<and> pair_eligible r \<and> locked_incompatible fmt l r}"
proof -
  have "distinct (map lk_id (filter pair_eligible cs))"
    using assms by (simp add: distinct_map_filter)
  from set_pair_scan [OF sorted_key_strict [OF this], of "locked_incompatible fmt"]
  show ?thesis by (auto simp: incompatible_pairs_def)
qed

lemma incompatible_pairs_sorted [simp]:
  "sorted (incompatible_pairs fmt cs)" "distinct (incompatible_pairs fmt cs)"
  by (simp_all add: incompatible_pairs_def)

end
