(* ===== verification/Claim_Key.thy ===== *)
theory Claim_Key
  imports Prelude
begin

section \<open>Functional claim keys\<close>

text \<open>
  \<^verbatim>\<open>normalize_key_part\<close> and \<^verbatim>\<open>claim_key_from_parts\<close> of \<^verbatim>\<open>ledger/conflict.rs\<close>: lowercase,
  split on whitespace, underscore and hyphen, drop empty pieces, join with a hyphen.
  The laws: normalizing is idempotent, its image has no separator run, and the key of
  already normalized parts is the key of the raw ones.
\<close>

definition is_separator :: "nat \<Rightarrow> bool" where
  "is_separator c \<longleftrightarrow> is_whitespace c \<or> c = 95 \<or> c = 45"

definition key_words :: "unicode \<Rightarrow> ustr \<Rightarrow> ustr list" where
  "key_words u v = filter (\<lambda>w. w \<noteq> []) (split_on is_separator (to_lowercase u v))"

definition normalize_key_part :: "unicode \<Rightarrow> ustr \<Rightarrow> ustr" where
  "normalize_key_part u v = join_with [45] (key_words u v)"

definition claim_key_from_parts :: "unicode \<Rightarrow> ustr \<Rightarrow> ustr \<Rightarrow> ustr option" where
  "claim_key_from_parts u subject predicate =
     (let s = normalize_key_part u subject; p = normalize_key_part u predicate
      in if s \<noteq> [] \<and> p \<noteq> [] then Some (s @ lit ''::'' @ p) else None)"

lemma is_separator_hyphen [simp]: "is_separator 45"
  by (simp add: is_separator_def)

lemma key_words_clean:
  "w \<in> set (key_words u v) \<Longrightarrow> w \<noteq> [] \<and> (\<forall>c\<in>set w. \<not> is_separator c \<and> c \<in> set (to_lowercase u v))"
  by (auto simp: key_words_def dest: split_on_parts)

lemma normalized_stable:
  assumes "unicode_ok u"
  shows "list_all (lower_stable u) (normalize_key_part u v)"
proof -
  have "set (normalize_key_part u v) \<subseteq> set (to_lowercase u v) \<union> {45}"
    using set_join_with [of "[45]" "key_words u v"] key_words_clean
    unfolding normalize_key_part_def by fastforce
  then show ?thesis
    using assms to_lowercase_stable [OF assms, of v] by (auto simp: list_all_iff unicode_ok_def)
qed

lemma key_words_join:
  assumes "\<forall>w\<in>set ws. w \<noteq> [] \<and> (\<forall>c\<in>set w. \<not> is_separator c)"
  shows "filter (\<lambda>w. w \<noteq> []) (split_on is_separator (join_with [45] ws)) = ws"
  using assms by (cases "ws = []") (auto simp: split_on_join filter_id_conv)

lemma key_words_normalized:
  "unicode_ok u \<Longrightarrow> key_words u (normalize_key_part u v) = key_words u v"
  using key_words_join [of "key_words u v"] key_words_clean [of _ u v]
  by (simp add: key_words_def [of u "normalize_key_part u v"] to_lowercase_id normalized_stable)
     (simp add: normalize_key_part_def)

lemma normalize_idem:
  "unicode_ok u \<Longrightarrow> normalize_key_part u (normalize_key_part u v) = normalize_key_part u v"
  by (simp add: normalize_key_part_def [of u "normalize_key_part u v"] key_words_normalized)
     (simp add: normalize_key_part_def)

text \<open>Two parts get the same key part exactly when they have the same words.\<close>

lemma normalize_eq_iff:
  assumes "unicode_ok u"
  shows "normalize_key_part u v = normalize_key_part u w \<longleftrightarrow> key_words u v = key_words u w"
  using key_words_normalized [OF assms] by (metis normalize_key_part_def)

lemma claim_key_normalized_parts:
  "unicode_ok u \<Longrightarrow>
   claim_key_from_parts u (normalize_key_part u s) (normalize_key_part u p) = claim_key_from_parts u s p"
  by (simp add: claim_key_from_parts_def normalize_idem)

end
