(* ===== verification/Lifecycle_Plan.thy ===== *)
theory Lifecycle_Plan
  imports Conflict_Detector Claim_Key
begin

section \<open>Lifecycle planning\<close>

text \<open>
  The pure decisions of \<^verbatim>\<open>ledger/lifecycle.rs\<close>: which lineage of a key the writer may
  touch, who may retire a claim, what a successor must keep, whether a conflict closes,
  who may adjudicate it, what a concession retracts, and the bounds on notes, waivers and
  the lifecycle log. Everything here is a total function of the locked rows.
\<close>

abbreviation "OPERATOR_ASSERTED_ORIGIN \<equiv> lit ''operator_asserted''"
abbreviation "MAX_LIFECYCLE_REASON_CHARS \<equiv> (1000::nat)"
abbreviation "MAX_REPORTED_REMAINING_PAIRS \<equiv> (32::nat)"
abbreviation "MAX_CONCESSION_CLAIMS \<equiv> (32::nat)"
abbreviation "MAX_CONFLICT_MEMBER_COUNT \<equiv> (4096::int)"
abbreviation "MAX_CONFLICT_LIFECYCLE_EVENTS \<equiv> (4096::int)"
abbreviation "MAX_ADJUDICATION_RATIONALE_CHARS \<equiv> (1000::nat)"
abbreviation "MAX_RATIONALE_BYTES \<equiv> (4096::nat)"
abbreviation "MAX_WAIVER_HOURS \<equiv> (2160::nat)"
abbreviation "MAX_DISMISSED_PAIRS \<equiv> (1024::nat)"
abbreviation "MAX_EXCLUDED_DISMISSALS \<equiv> (64::nat)"

subsection \<open>Lineages of a key\<close>

datatype conflict_row_state = Open | Resolved | Dismissed

definition parse_conflict_row_state :: "string \<Rightarrow> conflict_row_state res" where
  "parse_conflict_row_state v =
     (if v = ''open'' then Inr Open
      else if v = ''resolved'' then Inr Resolved
      else if v = ''dismissed'' then Inr Dismissed
      else Inl (Memory ''database returned an unknown conflict state''))"

record v2_lineage =
  lin_id :: int
  lin_state :: conflict_row_state
  lin_revision :: int

definition corrupt_lineage :: fleet_error where
  "corrupt_lineage = Memory ''claim key has an unknown or duplicate conflict detector lineage''"

fun classify_rows :: "(int \<times> int \<times> string \<times> int) list \<Rightarrow> v2_lineage option \<Rightarrow> bool
    \<Rightarrow> (v2_lineage option \<times> bool) res" where
  "classify_rows [] v2 legacy = Inr (v2, legacy)"
| "classify_rows ((i, detector_class, state, revision) # rows) v2 legacy =
     (if i \<le> 0 \<or> revision \<le> 0
      then Inl (Memory ''database returned an invalid conflict lineage coordinate'')
      else if detector_class = 2
      then try_then (parse_conflict_row_state state) (\<lambda>st.
             if v2 \<noteq> None then Inl corrupt_lineage
             else classify_rows rows (Some \<lparr>lin_id = i, lin_state = st, lin_revision = revision\<rparr>) legacy)
      else if detector_class = 1
      then (if legacy then Inl corrupt_lineage else classify_rows rows v2 True)
      else if detector_class = 0 then Inl corrupt_lineage
      else Inl (Memory ''database returned an invalid conflict detector classification''))"

definition classify_lineages :: "(int \<times> int \<times> string \<times> int) list \<Rightarrow> v2_lineage option res" where
  "classify_lineages rows =
     (if length rows > 2 then Inl corrupt_lineage
      else try_then (classify_rows rows None False) (\<lambda>(v2, legacy).
        if legacy \<and> v2 = None then refuse LegacyLineage (jobj [])
        else Inr v2))"

subsection \<open>Owner authority and successors\<close>

definition check_owner_transition ::
    "locked_key_claim \<Rightarrow> ustr \<Rightarrow> int \<Rightarrow> lifecycle_refusal + unit" where
  "check_owner_transition target agent expected_revision =
     (let here = [(''claim_id'', jint (lk_id target))];
          details = jobj (here @ [(''current_revision'', jint (lk_revision target)),
                                  (''current_state'', jstr (claim_state_str (lk_state target)))]) in
      if lk_actor target \<noteq> Some agent then Inl (refusal NotOwner (jobj here))
      else if lk_origin target \<noteq> OPERATOR_ASSERTED_ORIGIN
      then Inl (refusal NotOperatorAsserted (jobj (here @ [(''origin'', JString (lk_origin target))])))
      else if \<not> is_current (lk_state target) then Inl (refusal NotCurrent details)
      else if lk_revision target \<noteq> expected_revision then Inl (refusal StaleRevision details)
      else Inr ())"

record claim_shape =
  sh_kind :: claim_kind
  sh_claim_key :: "ustr option"
  sh_subject :: "ustr option"
  sh_predicate :: "ustr option"
  sh_conflict_eligible :: bool

definition has_assert_key :: "claim_shape \<Rightarrow> bool" where
  "has_assert_key sh = (case sh_claim_key sh of None \<Rightarrow> False | Some k \<Rightarrow> starts_with k (lit ''claim-v2:''))"

definition successor_claim_key :: "unicode \<Rightarrow> claim_shape \<Rightarrow> ustr option" where
  "successor_claim_key u sh =
     (case (sh_subject sh, sh_predicate sh) of
        (Some subject, Some predicate) \<Rightarrow>
          if \<not> has_assert_key sh then claim_key_from_parts u subject predicate else sh_claim_key sh
      | _ \<Rightarrow> sh_claim_key sh)"

definition check_successor ::
    "unicode \<Rightarrow> int \<Rightarrow> claim_shape \<Rightarrow> claim_shape \<Rightarrow> lifecycle_refusal + unit" where
  "check_successor u predecessor_id predecessor successor =
     (let expected_key = successor_claim_key u predecessor in
      if sh_kind successor \<noteq> sh_kind predecessor
      then Inl (refusal SuccessorKindMismatch (jobj
             [(''claim_id'', jint predecessor_id),
              (''kind'', jstr (claim_kind_str (sh_kind predecessor))),
              (''successor_kind'', jstr (claim_kind_str (sh_kind successor)))]))
      else if sh_claim_key successor \<noteq> expected_key
      then Inl (refusal SuccessorKeyMismatch (jobj
             [(''claim_id'', jint predecessor_id),
              (''claim_key'', jopt JString (sh_claim_key predecessor)),
              (''normalized_claim_key'', jopt JString expected_key),
              (''successor_claim_key'', jopt JString (sh_claim_key successor))]))
      else if sh_conflict_eligible successor \<noteq> sh_conflict_eligible predecessor
      then Inl (refusal SuccessorEligibilityMismatch (jobj
             [(''claim_id'', jint predecessor_id),
              (''conflict_eligible'', JBool (sh_conflict_eligible predecessor)),
              (''successor_conflict_eligible'', JBool (sh_conflict_eligible successor))]))
      else Inr ())"

subsection \<open>Re-evaluation of a conflict\<close>

datatype reevaluation =
    NoLineage
  | LineageNotOpen
  | StillOpen int int "(int \<times> int) list" nat
  | Close int int "int list" nat
  | Divergent int int "(int \<times> int) list" "(int \<times> int) list"

definition normalized_pairs :: "(int \<times> int) list \<Rightarrow> (int \<times> int) list" where
  "normalized_pairs pairs = sort_dedup (map (\<lambda>(l, r). (min l r, max l r)) pairs)"

definition disputed_ids :: "locked_key_claim list \<Rightarrow> int list" where
  "disputed_ids claims = sort_dedup (map lk_id (filter (\<lambda>c. lk_state c = Disputed) claims))"

definition plan_reevaluation :: "(f64 \<Rightarrow> string) \<Rightarrow> v2_lineage option \<Rightarrow> locked_key_claim list
    \<Rightarrow> (int \<times> int) list \<Rightarrow> (int \<times> int) set \<Rightarrow> reevaluation" where
  "plan_reevaluation fmt lineage remaining sql_pairs excluded =
     (case lineage of None \<Rightarrow> NoLineage
      | Some lineage \<Rightarrow>
        if lin_state lineage \<noteq> Open then LineageNotOpen
        else (let rust_pairs = incompatible_pairs fmt remaining;
                  sql = normalized_pairs sql_pairs in
          if rust_pairs \<noteq> sql
          then Divergent (lin_id lineage) (lin_revision lineage) rust_pairs sql
          else (let pairs = filter (\<lambda>p. p \<notin> excluded) rust_pairs;
                    excluded_pairs = length rust_pairs - length pairs in
            if pairs = []
            then Close (lin_id lineage) (lin_revision lineage) (disputed_ids remaining) excluded_pairs
            else StillOpen (lin_id lineage) (lin_revision lineage) pairs excluded_pairs)))"

abbreviation "NO_CURRENT_INCOMPATIBILITY \<equiv> ''no_current_incompatibility''"
abbreviation "NO_UNDISMISSED_INCOMPATIBILITY \<equiv> ''no_undismissed_incompatibility''"

definition verified_close_resolution_kind :: "nat \<Rightarrow> string" where
  "verified_close_resolution_kind n =
     (if n = 0 then NO_CURRENT_INCOMPATIBILITY else NO_UNDISMISSED_INCOMPATIBILITY)"

subsection \<open>Adjudication\<close>

datatype dismissal_reason = FalsePositive | DuplicateOfOtherEpisode | OutOfScope | NotReproducible

fun dismissal_reason_kind :: "dismissal_reason \<Rightarrow> string" where
  "dismissal_reason_kind FalsePositive = ''false_positive''"
| "dismissal_reason_kind DuplicateOfOtherEpisode = ''duplicate_of_other_episode''"
| "dismissal_reason_kind OutOfScope = ''out_of_scope''"
| "dismissal_reason_kind NotReproducible = ''not_reproducible''"

datatype waiver_reason =
  CapacityDeferred | CostExceedsRisk | UpstreamBlocked | PolicyException | ScheduledRemediation

fun waiver_reason_kind :: "waiver_reason \<Rightarrow> string" where
  "waiver_reason_kind CapacityDeferred = ''capacity_deferred''"
| "waiver_reason_kind CostExceedsRisk = ''cost_exceeds_risk''"
| "waiver_reason_kind UpstreamBlocked = ''upstream_blocked''"
| "waiver_reason_kind PolicyException = ''policy_exception''"
| "waiver_reason_kind ScheduledRemediation = ''scheduled_remediation''"

record member_authorship =
  members_checked :: int
  implicated_members :: int
  unattributed_members :: int

definition check_adjudicator :: "int \<Rightarrow> int \<Rightarrow> member_authorship \<Rightarrow> unit res" where
  "check_adjudicator conflict_id member_count a =
     (if members_checked a > MAX_CONFLICT_MEMBER_COUNT
      then refuse BoundExceeded (jobj [(''conflict_id'', jint conflict_id),
             (''bound'', jint MAX_CONFLICT_MEMBER_COUNT)])
      else if members_checked a \<noteq> member_count \<or> implicated_members a < 0
        \<or> unattributed_members a < 0
        \<or> implicated_members a + unattributed_members a > members_checked a
      then Inl (Memory ''conflict member authorship did not match its locked member count'')
      else if implicated_members a > 0
      then refuse Implicated (jobj [(''conflict_id'', jint conflict_id),
             (''implicated_members'', jint (implicated_members a))])
      else if unattributed_members a > 0
      then refuse UnattributedMember (jobj [(''conflict_id'', jint conflict_id),
             (''unattributed_members'', jint (unattributed_members a))])
      else Inr ())"

record dismissal_plan =
  dp_dismissed_pairs :: "(int \<times> int) list"
  dp_restore_candidates :: "int list"

definition plan_dismissal :: "(f64 \<Rightarrow> string) \<Rightarrow> int \<Rightarrow> locked_key_claim list \<Rightarrow> (int \<times> int) list
    \<Rightarrow> lifecycle_refusal + dismissal_plan" where
  "plan_dismissal fmt conflict_id current sql_pairs =
     (let rust_pairs = incompatible_pairs fmt current in
      if rust_pairs \<noteq> normalized_pairs sql_pairs
      then Inl (refusal VerificationDivergence (jobj [(''conflict_id'', jint conflict_id)]))
      else if length rust_pairs > MAX_DISMISSED_PAIRS
      then Inl (refusal BoundExceeded (jobj [(''conflict_id'', jint conflict_id),
             (''pair_count'', jint (int (length rust_pairs))), (''bound'', jint (int MAX_DISMISSED_PAIRS))]))
      else Inr \<lparr>dp_dismissed_pairs = rust_pairs, dp_restore_candidates = disputed_ids current\<rparr>)"

definition corrupt_dismissal :: fleet_error where
  "corrupt_dismissal = Memory ''a dismissal event recorded malformed dismissed pairs''"

definition decode_dismissed_pair :: "json \<Rightarrow> (int \<times> int) res" where
  "decode_dismissed_pair entry =
     try_then (ok_or (as_array entry) corrupt_dismissal) (\<lambda>xs.
       case xs of
         [left, right] \<Rightarrow>
           (case (as_i64 left, as_i64 right) of
              (Some l, Some r) \<Rightarrow> if l < 1 \<or> l \<ge> r then Inl corrupt_dismissal else Inr (l, r)
            | _ \<Rightarrow> Inl corrupt_dismissal)
       | _ \<Rightarrow> Inl corrupt_dismissal)"

fun dismissed_pairs :: "json list \<Rightarrow> (int \<times> int) set res" where
  "dismissed_pairs [] = Inr {}"
| "dismissed_pairs (payload # payloads) =
     try_then (ok_or (as_array payload) corrupt_dismissal) (\<lambda>entries.
       if length entries > MAX_DISMISSED_PAIRS then Inl corrupt_dismissal
       else try_then (try_map decode_dismissed_pair entries) (\<lambda>ps.
         try_then (dismissed_pairs payloads) (\<lambda>rest. Inr (set ps \<union> rest))))"

subsection \<open>Notes, waivers, concessions and the log\<close>

definition is_blank_rationale :: "ustr \<Rightarrow> bool" where
  "is_blank_rationale s \<longleftrightarrow>
     trim (filter (\<lambda>c. \<not> ((8203 \<le> c \<and> c \<le> 8205) \<or> c = 65279 \<or> c = 8288)) s) = []"

definition validate_note :: "ustr \<Rightarrow> nat \<Rightarrow> string + unit" where
  "validate_note note max_chars =
     (if note = [] \<or> length note > max_chars
      then Inl ''{label} must be between 1 and {max_chars} characters''
      else if is_blank_rationale note then Inl ''{label} must contain visible text''
      else if list_ex (\<lambda>c. is_control c \<and> c \<noteq> 10 \<and> c \<noteq> 9) note
      then Inl ''{label} must not contain control characters other than newline and tab''
      else Inr ())"

definition validate_reason :: "ustr \<Rightarrow> string + unit" where
  "validate_reason reason = validate_note reason MAX_LIFECYCLE_REASON_CHARS"

definition validate_rationale :: "ustr \<Rightarrow> string + unit" where
  "validate_rationale rationale =
     try_then (validate_note rationale MAX_ADJUDICATION_RATIONALE_CHARS) (\<lambda>_.
       if utf8_len rationale > MAX_RATIONALE_BYTES
       then Inl ''rationale must be at most {MAX_RATIONALE_BYTES} bytes'' else Inr ())"

definition validate_waiver_hours :: "nat \<Rightarrow> nat option \<Rightarrow> string + unit" where
  "validate_waiver_hours expires_in_hours review_in_hours =
     (if \<not> (1 \<le> expires_in_hours \<and> expires_in_hours \<le> MAX_WAIVER_HOURS)
      then Inl ''expires_in_hours must be between 1 and {MAX_WAIVER_HOURS}''
      else case review_in_hours of
             Some review \<Rightarrow>
               if \<not> (1 \<le> review \<and> review \<le> expires_in_hours)
               then Inl ''review_in_hours must be between 1 and expires_in_hours ({expires_in_hours})''
               else Inr ()
           | None \<Rightarrow> Inr ())"

record concession =
  con_retracted :: "locked_key_claim list"
  con_remaining :: "locked_key_claim list"

definition concede_one :: "int \<Rightarrow> ustr \<Rightarrow> (int \<times> claim_state \<times> int) list \<Rightarrow> locked_key_claim list
    \<Rightarrow> int \<Rightarrow> locked_key_claim res" where
  "concede_one conflict_id agent members current claim_id =
     (case map_of (rev members) claim_id of
        None \<Rightarrow> refuse NotMember (jobj [(''conflict_id'', jint conflict_id), (''claim_id'', jint claim_id)])
      | Some (state, revision) \<Rightarrow>
          (case find (\<lambda>c. lk_id c = claim_id) current of
             None \<Rightarrow>
               if is_current state
               then Inl (Memory ''a current conflict member was missing from its key's locked claims'')
               else refuse NotCurrent (jobj [(''claim_id'', jint claim_id),
                      (''current_revision'', jint revision),
                      (''current_state'', jstr (claim_state_str state))])
           | Some locked \<Rightarrow>
               try_then (lift_refusal (check_owner_transition locked agent (lk_revision locked)))
                 (\<lambda>_. Inr locked)))"

definition plan_concession :: "int \<Rightarrow> ustr \<Rightarrow> int list \<Rightarrow> (int \<times> claim_state \<times> int) list
    \<Rightarrow> locked_key_claim list \<Rightarrow> concession res" where
  "plan_concession conflict_id agent retract_claim_ids members current =
     try_then (try_map (concede_one conflict_id agent members current) retract_claim_ids) (\<lambda>retracted.
       Inr \<lparr>con_retracted = retracted,
            con_remaining = filter (\<lambda>c. lk_id c \<notin> set retract_claim_ids) current\<rparr>)"

definition event_fits_log :: "int \<Rightarrow> int \<Rightarrow> bool" where
  "event_fits_log seq member_count \<longleftrightarrow>
     1 \<le> seq \<and> seq \<le> MAX_CONFLICT_LIFECYCLE_EVENTS \<and>
     0 \<le> member_count \<and> member_count \<le> MAX_CONFLICT_MEMBER_COUNT"

end
