(* ===== verification/Discrepancy.thy ===== *)
theory Discrepancy
  imports Resource_Identity Lifecycle_Plan
begin

section \<open>Discrepancies: identities, policies and envelopes\<close>

text \<open>
  The first half of \<^verbatim>\<open>memory_contracts/discrepancy.rs\<close>: comparator lineages, episode policies, fingerprints and
  the immutable envelope of a detection. Digest newtypes are \<open>digest\<close>; a binary search on a vector that
  has been checked to be sorted is membership.
\<close>

abbreviation "DISCREPANCY_SCHEMA_VERSION \<equiv> (1::nat)"
abbreviation "COMPARATOR_LINEAGE_SCHEMA_VERSION \<equiv> (1::nat)"
abbreviation "EPISODE_POLICY_SCHEMA_VERSION \<equiv> (1::nat)"
abbreviation "COMPARATOR_LINEAGE_REGISTRATION_SCHEMA_VERSION \<equiv> (1::nat)"
abbreviation "MAX_APPLICABILITY_DIMENSIONS \<equiv> (64::nat)"
abbreviation "MAX_CONTINUITY_KEY_DIMENSIONS \<equiv> (32::nat)"
abbreviation "MAX_EVIDENCE_EVENT_IDS \<equiv> (256::nat)"
abbreviation "MAX_IMPLICATED_ACTORS \<equiv> (64::nat)"
abbreviation "MAX_MODALITY_COMPATIBILITY_RULES \<equiv> (16::nat)"

subsection \<open>Findings and comparator lineages\<close>

datatype lifecycle_gap_subtype = GapValidation
datatype runtime_nonconformance_subtype = SloBreach

datatype finding_type =
    ClaimConflict | ClaimEvidenceContradiction | SpecNonconformance | DocumentationDrift | ProvenanceGap
  | LifecycleGap lifecycle_gap_subtype | RuntimeNonconformance runtime_nonconformance_subtype
  | ConfigurationDrift | ReleaseIntegrityConflict | RegressionCandidate | TelemetryDisagreement

datatype cardinality_algebra = FunctionalCardinality | SetValued | ThresholdRatio | FiniteDomainExhaustive
datatype polarity_rule = AffirmationsConflictOnDistinctValues | AffirmationNegationConflictOnSameValue | NegationsNeverConflict
datatype effective_interval_rule = OverlapRequired | ExactMatchRequired

datatype proposition_modality = Attested | Intended | Normative | Observed

text \<open>The derived order of the enum is the order of its variants.\<close>

fun modality_rank :: "proposition_modality \<Rightarrow> nat" where
  "modality_rank Attested = 0"
| "modality_rank Intended = 1"
| "modality_rank Normative = 2"
| "modality_rank Observed = 3"

lemma modality_rank_inject: "modality_rank a = modality_rank b \<longleftrightarrow> a = b"
  by (cases a; cases b) simp_all

instantiation proposition_modality :: linorder
begin

definition less_eq_proposition_modality :: "proposition_modality \<Rightarrow> proposition_modality \<Rightarrow> bool" where
  "a \<le> b \<longleftrightarrow> modality_rank a \<le> modality_rank b"

definition less_proposition_modality :: "proposition_modality \<Rightarrow> proposition_modality \<Rightarrow> bool" where
  "a < b \<longleftrightarrow> modality_rank a < modality_rank b"

instance
  by standard (auto simp: less_eq_proposition_modality_def less_proposition_modality_def modality_rank_inject)

end

text \<open>A compatibility rule is a pair of modalities, compared in the order of its fields.\<close>

type_synonym modality_compatibility_rule = "proposition_modality \<times> proposition_modality"

record comparator_lineage =
  cg_schema_version :: nat
  cg_comparator_id :: contract_id
  cg_comparator_version :: nat
  cg_cardinality :: cardinality_algebra
  cg_polarity_rule :: polarity_rule
  cg_modality_compatibility :: "modality_compatibility_rule list"
  cg_concrete_applicability_required :: bool
  cg_effective_interval_rule :: effective_interval_rule
  cg_coverage_proof_required :: bool

definition validate_lineage :: "comparator_lineage \<Rightarrow> contract_error + unit" where
  "validate_lineage l =
     (if cg_schema_version l = COMPARATOR_LINEAGE_SCHEMA_VERSION \<and> cg_comparator_version l > 0
        \<and> length (cg_modality_compatibility l) \<le> MAX_MODALITY_COMPATIBILITY_RULES
        \<and> list_all (\<lambda>(left, right). left \<le> right) (cg_modality_compatibility l)
        \<and> strictly_sorted (cg_modality_compatibility l)
      then Inr () else Inl (Schema ''invalid comparator lineage''))"

definition lineage_fingerprint :: "contract_env \<Rightarrow> comparator_lineage codec \<Rightarrow> comparator_lineage \<Rightarrow> contract_error + digest" where
  "lineage_fingerprint en c l =
     try_then (validate_lineage l) (\<lambda>_. try_then (encode_typed en c l) (\<lambda>bytes.
       Inr (domain_separated_digest (ce_sha en) (ContractDomain Dom_ComparatorLineageV1) bytes)))"

record lineage_registration =
  lr_schema_version :: nat
  lr_lineage :: comparator_lineage
  lr_required_applicability_dimension_ids :: "contract_id list"

definition validate_registration :: "lineage_registration \<Rightarrow> contract_error + unit" where
  "validate_registration r =
     try_then (validate_lineage (lr_lineage r)) (\<lambda>_.
       if lr_schema_version r = COMPARATOR_LINEAGE_REGISTRATION_SCHEMA_VERSION
         \<and> length (lr_required_applicability_dimension_ids r) \<le> MAX_APPLICABILITY_DIMENSIONS
         \<and> strictly_sorted (lr_required_applicability_dimension_ids r)
       then Inr () else Inl (Schema ''invalid comparator lineage registration''))"

record resolved_lineage =
  rl_registry_reference :: registry_reference
  rl_registration :: lineage_registration

definition resolved_lineage_from_entry :: "contract_env \<Rightarrow> registry_entry codec \<Rightarrow> canonical_value codec
    \<Rightarrow> lineage_registration codec \<Rightarrow> registry_entry \<Rightarrow> contract_error + resolved_lineage" where
  "resolved_lineage_from_entry en ec bc rc entry =
     try_then (validate_entry en entry) (\<lambda>_.
       if re_kind entry \<noteq> KindComparatorLineage \<or> re_entry_schema_id entry \<noteq> lit ''registry.comparator_lineage''
         \<or> re_entry_schema_version entry \<noteq> COMPARATOR_LINEAGE_REGISTRATION_SCHEMA_VERSION
       then Inl (Schema ''registry entry is not a comparator lineage registration body'')
       else try_then (decode_body en bc rc entry) (\<lambda>registration.
         try_then (validate_registration registration) (\<lambda>_.
         if cg_comparator_id (lr_lineage registration) \<noteq> re_entry_id entry
           \<or> cg_comparator_version (lr_lineage registration) \<noteq> re_version entry
         then Inl ManifestMismatch
         else try_then (entry_digest en ec entry) (\<lambda>d.
           Inr \<lparr>rl_registry_reference = \<lparr>rr_entry_id = re_entry_id entry, rr_version = re_version entry, rr_entry_digest = d\<rparr>,
                rl_registration = registration\<rparr>))))"

subsection \<open>Applicability and the family fingerprint\<close>

datatype applicability_value = Concrete resource_uri | AnyValue

record applicability_dimension =
  ad_dimension_id :: contract_id
  ad_value :: applicability_value

definition strictly_sorted_by_dimension :: "applicability_dimension list \<Rightarrow> bool" where
  "strictly_sorted_by_dimension values \<longleftrightarrow> strictly_sorted (map ad_dimension_id values)"

definition dimension_present :: "applicability_dimension list \<Rightarrow> contract_id \<Rightarrow> bool" where
  "dimension_present applicability i \<longleftrightarrow> i \<in> ad_dimension_id ` set applicability"

record family_preimage =
  fp_schema_version :: nat
  fp_profile :: profile_reference
  fp_scope :: project_scope
  fp_finding_type :: finding_type
  fp_canonical_subject :: resource_uri
  fp_predicate :: registry_reference
  fp_comparator_lineage_fingerprint :: digest
  fp_expectation_policy :: registry_reference
  fp_required_applicability_dimension_ids :: "contract_id list"
  fp_applicability :: "applicability_dimension list"
  fp_episode_policy_version :: nat

definition validate_family :: "family_preimage \<Rightarrow> contract_error + unit" where
  "validate_family f =
     try_then (validate_profile (fp_profile f)) (\<lambda>_.
     try_then (validate_registry_reference (fp_predicate f)) (\<lambda>_.
     try_then (validate_registry_reference (fp_expectation_policy f)) (\<lambda>_.
       if fp_schema_version f = DISCREPANCY_SCHEMA_VERSION
         \<and> length (fp_required_applicability_dimension_ids f) \<le> MAX_APPLICABILITY_DIMENSIONS
         \<and> strictly_sorted (fp_required_applicability_dimension_ids f)
         \<and> length (fp_applicability f) \<le> MAX_APPLICABILITY_DIMENSIONS
         \<and> strictly_sorted_by_dimension (fp_applicability f)
         \<and> list_all (dimension_present (fp_applicability f)) (fp_required_applicability_dimension_ids f)
         \<and> fp_episode_policy_version f > 0
       then Inr () else Inl (Schema ''invalid discrepancy family fingerprint preimage''))))"

definition family_fingerprint_of :: "contract_env \<Rightarrow> family_preimage codec \<Rightarrow> family_preimage \<Rightarrow> contract_error + digest" where
  "family_fingerprint_of en c f =
     try_then (validate_family f) (\<lambda>_. try_then (encode_typed en c f) (\<lambda>bytes.
       Inr (domain_separated_digest (ce_sha en) (ContractDomain Dom_DiscrepancyFamilyV1) bytes)))"

subsection \<open>Episode policies\<close>

datatype episode_windowing = NonWindowed | Windowed
datatype episode_opening_rule = FirstVerifiedIncompatibleObservation
datatype episode_closing_rule = VerifiedCompatibleSupersessionOrScopeExit
datatype rule_change_behavior = NewFamilyLinkedBySupersession
datatype late_evidence_behavior = EffectiveIntervalReplayWithSupersession

record episode_policy =
  ep_schema_version :: nat
  ep_policy_id :: contract_id
  ep_version :: nat
  ep_continuity_key_dimension_ids :: "contract_id list"
  ep_windowing :: episode_windowing
  ep_opening_rule :: episode_opening_rule
  ep_allowed_observation_gap_seconds :: "nat option"
  ep_closing_rule :: episode_closing_rule
  ep_rule_change_behavior :: rule_change_behavior
  ep_late_evidence_behavior :: late_evidence_behavior

definition validate_policy :: "episode_policy \<Rightarrow> contract_error + unit" where
  "validate_policy p =
     (if ep_schema_version p = EPISODE_POLICY_SCHEMA_VERSION \<and> ep_version p > 0
        \<and> length (ep_continuity_key_dimension_ids p) \<le> MAX_CONTINUITY_KEY_DIMENSIONS
        \<and> strictly_sorted (ep_continuity_key_dimension_ids p)
      then Inr () else Inl (Schema ''invalid episode policy''))"

record resolved_policy =
  rp_registry_reference :: registry_reference
  rp_policy :: episode_policy

definition resolved_policy_from_entry :: "contract_env \<Rightarrow> registry_entry codec \<Rightarrow> canonical_value codec
    \<Rightarrow> episode_policy codec \<Rightarrow> registry_entry \<Rightarrow> contract_error + resolved_policy" where
  "resolved_policy_from_entry en ec bc pc entry =
     try_then (validate_entry en entry) (\<lambda>_.
       if re_kind entry \<noteq> KindEpisodePolicy \<or> re_entry_schema_id entry \<noteq> lit ''registry.episode_policy''
         \<or> re_entry_schema_version entry \<noteq> EPISODE_POLICY_SCHEMA_VERSION
       then Inl (Schema ''registry entry is not an episode policy v2 body'')
       else try_then (decode_body en bc pc entry) (\<lambda>policy.
         try_then (validate_policy policy) (\<lambda>_.
         if ep_policy_id policy \<noteq> re_entry_id entry \<or> ep_version policy \<noteq> re_version entry
         then Inl ManifestMismatch
         else try_then (entry_digest en ec entry) (\<lambda>d.
           Inr \<lparr>rp_registry_reference = \<lparr>rr_entry_id = re_entry_id entry, rr_version = re_version entry, rr_entry_digest = d\<rparr>,
                rp_policy = policy\<rparr>))))"

subsection \<open>Opening transitions and the episode fingerprint\<close>

record opening_candidate =
  oc_effective_at :: timestamp
  oc_provider_order :: nat
  oc_source_fact_id :: digest

definition opening_key :: "opening_candidate \<Rightarrow> timestamp \<times> nat \<times> digest" where
  "opening_key c = (oc_effective_at c, oc_provider_order c, oc_source_fact_id c)"

definition select_opening_transition :: "opening_candidate list \<Rightarrow> contract_error + opening_candidate" where
  "select_opening_transition candidates =
     (case candidates of [] \<Rightarrow> Inl (Schema ''opening transition selection requires at least one candidate'')
      | c # cs \<Rightarrow> Inr (foldl (\<lambda>m c. if opening_key c < opening_key m then c else m) c cs))"

record episode_preimage =
  ei_schema_version :: nat
  ei_family_fingerprint :: digest
  ei_continuity_key :: "applicability_dimension list"
  ei_opening_transition_source_fact_id :: digest
  ei_episode_policy_version :: nat

definition validate_episode :: "episode_preimage \<Rightarrow> contract_error + unit" where
  "validate_episode e =
     (if ei_schema_version e = DISCREPANCY_SCHEMA_VERSION
        \<and> length (ei_continuity_key e) \<le> MAX_CONTINUITY_KEY_DIMENSIONS
        \<and> strictly_sorted_by_dimension (ei_continuity_key e)
        \<and> ei_episode_policy_version e > 0
      then Inr () else Inl (Schema ''invalid discrepancy episode fingerprint preimage''))"

definition episode_fingerprint_of :: "contract_env \<Rightarrow> episode_preimage codec \<Rightarrow> episode_preimage \<Rightarrow> contract_error + digest" where
  "episode_fingerprint_of en c e =
     try_then (validate_episode e) (\<lambda>_. try_then (encode_typed en c e) (\<lambda>bytes.
       Inr (domain_separated_digest (ce_sha en) (ContractDomain Dom_DiscrepancyEpisodeV1) bytes)))"

subsection \<open>Registry head bindings\<close>

record registry_head_binding =
  hb_head :: registry_head
  hb_effective_from :: timestamp
  hb_effective_until :: "timestamp option"

definition validate_head_binding :: "registry_head_binding \<Rightarrow> contract_error + unit" where
  "validate_head_binding b =
     (if rh_activation_id (hb_head b) = ZERO_DIGEST \<or> rh_package_digest (hb_head b) = ZERO_DIGEST
        \<or> rh_activation_policy_digest (hb_head b) = ZERO_DIGEST
        \<or> \<not> is_microsecond_aligned (hb_effective_from b)
        \<or> (case hb_effective_until b of None \<Rightarrow> False
           | Some until \<Rightarrow> \<not> is_microsecond_aligned until \<or> until \<le> hb_effective_from b)
      then Inl (Schema ''invalid structural registry head binding'') else Inr ())"

subsection \<open>Envelopes\<close>

datatype severity = SeverityInfo | SeverityLow | SeverityMedium | SeverityHigh | SeverityCritical

datatype verification_state = CandidateFinding | VerifiedFinding | RefutedFinding | IndeterminateFinding

record envelope =
  dv_schema_version :: nat
  dv_event_kind :: contract_id
  dv_profile :: profile_reference
  dv_scope :: project_scope
  dv_finding_type :: finding_type
  dv_severity :: severity
  dv_canonical_subject :: resource_uri
  dv_predicate :: registry_reference
  dv_comparator_lineage_fingerprint :: digest
  dv_expectation_policy :: registry_reference
  dv_episode_policy :: registry_reference
  dv_required_applicability_dimension_ids :: "contract_id list"
  dv_applicability :: "applicability_dimension list"
  dv_continuity_key_dimension_ids :: "contract_id list"
  dv_family_fingerprint :: digest
  dv_opening_transition :: opening_candidate
  dv_episode_fingerprint :: digest
  dv_registry :: registry_head_binding
  dv_detector :: registry_reference
  dv_extractor :: "registry_reference option"
  dv_member_evidence_ids :: "digest list"
  dv_supporting_evidence_ids :: "digest list"
  dv_opposing_evidence_ids :: "digest list"
  dv_coverage_receipt_ids :: "digest list"
  dv_implicated_actor_ids :: "contract_id list"
  dv_initial_verification_state :: verification_state
  dv_detected_at :: timestamp
  dv_effective_from :: timestamp
  dv_effective_until :: "timestamp option"

definition family_of :: "envelope \<Rightarrow> family_preimage" where
  "family_of v = \<lparr>fp_schema_version = DISCREPANCY_SCHEMA_VERSION, fp_profile = dv_profile v, fp_scope = dv_scope v,
     fp_finding_type = dv_finding_type v, fp_canonical_subject = dv_canonical_subject v, fp_predicate = dv_predicate v,
     fp_comparator_lineage_fingerprint = dv_comparator_lineage_fingerprint v, fp_expectation_policy = dv_expectation_policy v,
     fp_required_applicability_dimension_ids = dv_required_applicability_dimension_ids v,
     fp_applicability = dv_applicability v, fp_episode_policy_version = rr_version (dv_episode_policy v)\<rparr>"

definition compute_family_fingerprint :: "contract_env \<Rightarrow> family_preimage codec \<Rightarrow> envelope \<Rightarrow> contract_error + digest" where
  "compute_family_fingerprint en fc v = family_fingerprint_of en fc (family_of v)"

definition continuity_key :: "envelope \<Rightarrow> applicability_dimension list" where
  "continuity_key v = List.map_filter (\<lambda>i. find (\<lambda>d. ad_dimension_id d = i) (dv_applicability v)) (dv_continuity_key_dimension_ids v)"

definition episode_of :: "digest \<Rightarrow> envelope \<Rightarrow> episode_preimage" where
  "episode_of family v = \<lparr>ei_schema_version = DISCREPANCY_SCHEMA_VERSION, ei_family_fingerprint = family,
     ei_continuity_key = continuity_key v, ei_opening_transition_source_fact_id = oc_source_fact_id (dv_opening_transition v),
     ei_episode_policy_version = rr_version (dv_episode_policy v)\<rparr>"

definition compute_episode_fingerprint :: "contract_env \<Rightarrow> family_preimage codec \<Rightarrow> episode_preimage codec \<Rightarrow> envelope
    \<Rightarrow> contract_error + digest" where
  "compute_episode_fingerprint en fc ec v =
     try_then (compute_family_fingerprint en fc v) (\<lambda>family. episode_fingerprint_of en ec (episode_of family v))"

definition id_set_valid :: "'a::linorder list \<Rightarrow> bool" where
  "id_set_valid ids \<longleftrightarrow> length ids \<le> MAX_EVIDENCE_EVENT_IDS \<and> strictly_sorted ids"

definition envelope_structure :: "envelope \<Rightarrow> bool" where
  "envelope_structure v \<longleftrightarrow>
     dv_schema_version v = DISCREPANCY_SCHEMA_VERSION
     \<and> dv_event_kind v = lit ''discrepancy.envelope.accepted''
     \<and> length (dv_required_applicability_dimension_ids v) \<le> MAX_APPLICABILITY_DIMENSIONS
     \<and> strictly_sorted (dv_required_applicability_dimension_ids v)
     \<and> length (dv_applicability v) \<le> MAX_APPLICABILITY_DIMENSIONS
     \<and> strictly_sorted_by_dimension (dv_applicability v)
     \<and> list_all (dimension_present (dv_applicability v)) (dv_required_applicability_dimension_ids v)
     \<and> length (dv_continuity_key_dimension_ids v) \<le> MAX_CONTINUITY_KEY_DIMENSIONS
     \<and> strictly_sorted (dv_continuity_key_dimension_ids v)
     \<and> list_all (dimension_present (dv_applicability v)) (dv_continuity_key_dimension_ids v)
     \<and> dv_member_evidence_ids v \<noteq> [] \<and> id_set_valid (dv_member_evidence_ids v)
     \<and> dv_supporting_evidence_ids v \<noteq> [] \<and> id_set_valid (dv_supporting_evidence_ids v)
     \<and> id_set_valid (dv_opposing_evidence_ids v)
     \<and> id_set_valid (dv_coverage_receipt_ids v)
     \<and> length (dv_implicated_actor_ids v) \<le> MAX_IMPLICATED_ACTORS
     \<and> strictly_sorted (dv_implicated_actor_ids v)
     \<and> (case dv_effective_until v of None \<Rightarrow> True | Some until \<Rightarrow> until > dv_effective_from v)"

text \<open>The serde code of the schemas of this file.\<close>

record discrepancy_codecs =
  dx_lineage :: "comparator_lineage codec"
  dx_family :: "family_preimage codec"
  dx_episode :: "episode_preimage codec"
  dx_envelope :: "envelope codec"

definition validate_envelope :: "contract_env \<Rightarrow> discrepancy_codecs \<Rightarrow> envelope \<Rightarrow> contract_error + unit" where
  "validate_envelope en dx v =
     try_then (validate_profile (dv_profile v)) (\<lambda>_.
     try_then (validate_head_binding (dv_registry v)) (\<lambda>_.
     try_then (validate_registry_reference (dv_predicate v)) (\<lambda>_.
     try_then (validate_registry_reference (dv_expectation_policy v)) (\<lambda>_.
     try_then (validate_registry_reference (dv_episode_policy v)) (\<lambda>_.
     try_then (validate_registry_reference (dv_detector v)) (\<lambda>_.
     try_then (case dv_extractor v of None \<Rightarrow> Inr () | Some extractor \<Rightarrow> validate_registry_reference extractor) (\<lambda>_.
     if \<not> envelope_structure v then Inl (Schema ''invalid discrepancy envelope'')
     else try_then (compute_family_fingerprint en (dx_family dx) v) (\<lambda>family.
     if dv_family_fingerprint v \<noteq> family then Inl (Schema ''envelope family fingerprint does not match its own fields'')
     else try_then (compute_episode_fingerprint en (dx_family dx) (dx_episode dx) v) (\<lambda>episode.
     if dv_episode_fingerprint v \<noteq> episode then Inl (Schema ''envelope episode fingerprint does not match its own fields'')
     else Inr ())))))))))"

definition envelope_id :: "contract_env \<Rightarrow> discrepancy_codecs \<Rightarrow> envelope \<Rightarrow> contract_error + digest" where
  "envelope_id en dx v =
     try_then (validate_envelope en dx v) (\<lambda>_. try_then (encode_typed en (dx_envelope dx) v) (\<lambda>bytes.
       Inr (domain_separated_digest (ce_sha en) (ContractDomain Dom_DiscrepancyEnvelopeV1) bytes)))"

definition validate_against_episode_policy :: "contract_env \<Rightarrow> discrepancy_codecs \<Rightarrow> envelope \<Rightarrow> resolved_policy
    \<Rightarrow> contract_error + unit" where
  "validate_against_episode_policy en dx v policy =
     try_then (validate_envelope en dx v) (\<lambda>_.
       if dv_episode_policy v \<noteq> rp_registry_reference policy then Inl ManifestMismatch
       else if dv_continuity_key_dimension_ids v \<noteq> ep_continuity_key_dimension_ids (rp_policy policy)
       then Inl (Schema ''envelope continuity-key dimensions diverge from the registered episode policy'')
       else Inr ())"

definition all_concrete :: "envelope \<Rightarrow> contract_id list \<Rightarrow> bool" where
  "all_concrete v ids \<longleftrightarrow> list_all (\<lambda>i. case find (\<lambda>d. ad_dimension_id d = i) (dv_applicability v) of
     Some d \<Rightarrow> (case ad_value d of Concrete _ \<Rightarrow> True | AnyValue \<Rightarrow> False) | None \<Rightarrow> False) ids"

definition validate_against_comparator_lineage :: "contract_env \<Rightarrow> discrepancy_codecs \<Rightarrow> envelope \<Rightarrow> resolved_lineage
    \<Rightarrow> contract_error + unit" where
  "validate_against_comparator_lineage en dx v resolved =
     try_then (validate_envelope en dx v) (\<lambda>_.
     let lineage = lr_lineage (rl_registration resolved);
         required = lr_required_applicability_dimension_ids (rl_registration resolved) in
     try_then (lineage_fingerprint en (dx_lineage dx) lineage) (\<lambda>fingerprint.
       if dv_comparator_lineage_fingerprint v \<noteq> fingerprint then Inl ManifestMismatch
       else if dv_required_applicability_dimension_ids v \<noteq> required
       then Inl (Schema ''envelope required_applicability_dimension_ids diverges from the registered comparator lineage'')
       else if cg_concrete_applicability_required lineage \<and> \<not> all_concrete v required
       then Inl (Schema ''comparator lineage requires concrete applicability for every required dimension'')
       else if cg_coverage_proof_required lineage \<and> dv_coverage_receipt_ids v = []
       then Inl (Schema ''comparator lineage requires at least one coverage receipt'')
       else Inr ()))"

end
