(* ===== verification/Discrepancy_Replay.thy ===== *)
theory Discrepancy_Replay
  imports Discrepancy
begin

section \<open>Discrepancies: lifecycle events and replay\<close>

text \<open>
  The second half of \<^verbatim>\<open>memory_contracts/discrepancy.rs\<close>: attributed lifecycle events, their authorisation against
  an envelope, relations between episodes, observation gaps, and the pure replay of an episode. The reason
  taxonomies are those of \<open>Lifecycle_Plan\<close>, which the claim ledger shares.
\<close>

datatype lifecycle_state = LOpen | LAcknowledged | LResolved | LWaived | LDismissed | LSuperseded

text \<open>\<^verbatim>\<open>DiscrepancyActorV1\<close> has one field, the principal.\<close>

record actor =
  ac_principal_id :: contract_id

record waiver_record =
  wr_actor :: actor
  wr_reason_kind :: waiver_reason
  wr_rationale :: ustr
  wr_applicability_scope :: "applicability_dimension list"
  wr_expiry_at :: timestamp
  wr_review_by :: "timestamp option"

definition validate_waiver_record :: "waiver_record \<Rightarrow> contract_error + unit" where
  "validate_waiver_record w =
     (if \<not> is_blank_rationale (wr_rationale w) \<and> utf8_len (wr_rationale w) \<le> MAX_RATIONALE_BYTES
        \<and> length (wr_applicability_scope w) \<le> MAX_APPLICABILITY_DIMENSIONS
        \<and> strictly_sorted_by_dimension (wr_applicability_scope w)
        \<and> (case wr_review_by w of None \<Rightarrow> True | Some review_by \<Rightarrow> review_by \<le> wr_expiry_at w)
      then Inr () else Inl (Schema ''invalid waiver record''))"

record dismissal_record =
  dr_kind :: dismissal_reason
  dr_rationale :: ustr

definition validate_dismissal_reason :: "dismissal_record \<Rightarrow> contract_error + unit" where
  "validate_dismissal_reason r =
     (if is_blank_rationale (dr_rationale r) \<or> utf8_len (dr_rationale r) > MAX_RATIONALE_BYTES
      then Inl (Schema ''dismissal requires a non-empty, bounded rationale'') else Inr ())"

datatype lifecycle_transition =
    Acknowledge actor
  | Waive waiver_record
  | Resolve actor "digest list"
  | Dismiss actor dismissal_record

record verification_update =
  vu_actor :: actor
  vu_state :: verification_state
  vu_evidence_event_ids :: "digest list"

definition validate_verification_update :: "verification_update \<Rightarrow> contract_error + unit" where
  "validate_verification_update u =
     (if id_set_valid (vu_evidence_event_ids u) \<and> (vu_state u \<noteq> VerifiedFinding \<or> vu_evidence_event_ids u \<noteq> [])
      then Inr ()
      else Inl (Schema ''invalid verification update: promotion to verified requires non-empty evidence''))"

record discrepancy_event =
  de_schema_version :: nat
  de_event_kind :: contract_id
  de_profile :: profile_reference
  de_scope :: project_scope
  de_episode_fingerprint :: digest
  de_effective_at :: timestamp
  de_verification_update :: "verification_update option"
  de_lifecycle_transition :: "lifecycle_transition option"
  de_evidence_event_ids :: "digest list"

definition resolution_evidence_valid :: "lifecycle_transition option \<Rightarrow> bool" where
  "resolution_evidence_valid t \<longleftrightarrow> (case t of Some (Resolve _ ids) \<Rightarrow> ids \<noteq> [] \<and> id_set_valid ids | _ \<Rightarrow> True)"

definition validate_event :: "discrepancy_event \<Rightarrow> contract_error + unit" where
  "validate_event e =
     try_then (validate_profile (de_profile e)) (\<lambda>_.
     try_then (case de_verification_update e of None \<Rightarrow> Inr () | Some update \<Rightarrow> validate_verification_update update) (\<lambda>_.
     try_then (case de_lifecycle_transition e of Some (Waive waiver) \<Rightarrow> validate_waiver_record waiver | _ \<Rightarrow> Inr ()) (\<lambda>_.
     try_then (case de_lifecycle_transition e of Some (Dismiss _ reason) \<Rightarrow> validate_dismissal_reason reason | _ \<Rightarrow> Inr ()) (\<lambda>_.
     if de_schema_version e = DISCREPANCY_SCHEMA_VERSION
       \<and> de_event_kind e = lit ''discrepancy.lifecycle.accepted''
       \<and> id_set_valid (de_evidence_event_ids e)
       \<and> (de_verification_update e \<noteq> None \<or> de_lifecycle_transition e \<noteq> None)
       \<and> resolution_evidence_valid (de_lifecycle_transition e)
     then Inr () else Inl (Schema ''invalid discrepancy lifecycle event'')))))"

definition lifecycle_event_id :: "contract_env \<Rightarrow> discrepancy_event codec \<Rightarrow> discrepancy_event \<Rightarrow> contract_error + digest" where
  "lifecycle_event_id en c e =
     try_then (validate_event e) (\<lambda>_. try_then (encode_typed en c e) (\<lambda>bytes.
       Inr (domain_separated_digest (ce_sha en) (ContractDomain Dom_DiscrepancyLifecycleEventV1) bytes)))"

subsection \<open>Authorisation\<close>

definition is_self_implicated :: "envelope \<Rightarrow> contract_id \<Rightarrow> bool" where
  "is_self_implicated v principal_id \<longleftrightarrow> principal_id \<in> set (dv_implicated_actor_ids v)"

definition waiver_scope_covers_envelope :: "applicability_dimension list \<Rightarrow> applicability_dimension list \<Rightarrow> bool" where
  "waiver_scope_covers_envelope scope applicability \<longleftrightarrow>
     list_all (\<lambda>scoped. list_ex (\<lambda>d. ad_dimension_id d = ad_dimension_id scoped \<and> ad_value d = ad_value scoped) applicability) scope"

definition authorize_transition :: "envelope \<Rightarrow> timestamp \<Rightarrow> lifecycle_transition \<Rightarrow> contract_error + unit" where
  "authorize_transition v effective_at transition =
     (case transition of
        Dismiss a _ \<Rightarrow>
          if is_self_implicated v (ac_principal_id a)
          then Inl (Schema ''AUTH-03: an implicated actor cannot dismiss their own discrepancy'') else Inr ()
      | Resolve a _ \<Rightarrow>
          if is_self_implicated v (ac_principal_id a)
          then Inl (Schema ''AUTH-03: an implicated actor cannot resolve their own discrepancy'') else Inr ()
      | Waive waiver \<Rightarrow>
          if is_self_implicated v (ac_principal_id (wr_actor waiver))
          then Inl (Schema ''AUTH-03: an implicated actor cannot waive their own discrepancy'')
          else if \<not> waiver_scope_covers_envelope (wr_applicability_scope waiver) (dv_applicability v)
          then Inl (Schema ''DISC-05: waiver applicability_scope does not cover the envelope's applicability'')
          else if wr_expiry_at waiver \<le> effective_at
          then Inl (Schema ''DISC-05: waiver expiry_at must be strictly after the event's own effective_at'')
          else Inr ()
      | Acknowledge _ \<Rightarrow> Inr ())"

definition authorize_lifecycle_transition :: "contract_env \<Rightarrow> discrepancy_codecs \<Rightarrow> envelope \<Rightarrow> discrepancy_event
    \<Rightarrow> contract_error + unit" where
  "authorize_lifecycle_transition en dx v e =
     try_then (validate_envelope en dx v) (\<lambda>_.
     try_then (validate_event e) (\<lambda>_.
     if de_scope e \<noteq> dv_scope v \<or> de_profile e \<noteq> dv_profile v
     then Inl (Schema ''lifecycle event scope/profile does not match its envelope'')
     else if de_episode_fingerprint e \<noteq> dv_episode_fingerprint v
     then Inl (Schema ''lifecycle event targets a different episode than its envelope'')
     else try_then (case de_lifecycle_transition e of None \<Rightarrow> Inr ()
         | Some transition \<Rightarrow> authorize_transition v (de_effective_at e) transition) (\<lambda>_.
       case de_verification_update e of None \<Rightarrow> Inr ()
       | Some update \<Rightarrow>
           if vu_state update = RefutedFinding \<and> is_self_implicated v (ac_principal_id (vu_actor update))
           then Inl (Schema ''AUTH-03: an implicated actor cannot refute their own finding'') else Inr ())))"

subsection \<open>Relations and gaps\<close>

datatype episode_relation_kind = CombinedFrom | Continues | PossiblyContinues | SupersededBy

record episode_relation =
  el_schema_version :: nat
  el_profile :: profile_reference
  el_scope :: project_scope
  el_family_fingerprint :: digest
  el_kind :: episode_relation_kind
  el_from_episodes :: "digest list"
  el_to_episode :: digest

definition validate_relation :: "episode_relation \<Rightarrow> contract_error + unit" where
  "validate_relation r =
     try_then (validate_profile (el_profile r)) (\<lambda>_.
       let arity_valid = (case el_kind r of CombinedFrom \<Rightarrow> length (el_from_episodes r) \<ge> 2 | _ \<Rightarrow> length (el_from_episodes r) = 1)
       in if el_schema_version r = DISCREPANCY_SCHEMA_VERSION \<and> arity_valid \<and> strictly_sorted (el_from_episodes r)
            \<and> el_to_episode r \<notin> set (el_from_episodes r)
          then Inr () else Inl (Schema ''invalid discrepancy episode relation''))"

definition relation_names :: "episode_relation \<Rightarrow> digest \<Rightarrow> bool" where
  "relation_names r episode \<longleftrightarrow> el_to_episode r = episode \<or> episode \<in> set (el_from_episodes r)"

datatype gap_outcome = Bridged | EpisodeEnded

text \<open>Instants are nanoseconds; \<^verbatim>\<open>num_seconds\<close> truncates towards zero.\<close>

definition whole_seconds :: "int \<Rightarrow> int" where
  "whole_seconds nanos = (if nanos \<ge> 0 then nanos div 1000000000 else - ((- nanos) div 1000000000))"

definition seconds_between :: "contract_env \<Rightarrow> timestamp \<Rightarrow> timestamp \<Rightarrow> contract_error + nat" where
  "seconds_between en earlier later =
     try_then (ok_or (ce_instant en earlier) (Schema ''timestamp is not parseable'')) (\<lambda>a.
     try_then (ok_or (ce_instant en later) (Schema ''timestamp is not parseable'')) (\<lambda>b.
       let s = whole_seconds (b - a) in if s < 0 then Inl (Schema ''observation gap is not positive'') else Inr (nat s)))"

definition classify_observation_gap :: "contract_env \<Rightarrow> episode_policy \<Rightarrow> timestamp \<Rightarrow> timestamp \<Rightarrow> contract_error + gap_outcome" where
  "classify_observation_gap en policy prior_effective_until next_effective_from =
     (if next_effective_from \<le> prior_effective_until
      then Inl (Schema ''observation gap requires the next occurrence to begin strictly after the prior one ends'')
      else try_then (seconds_between en prior_effective_until next_effective_from) (\<lambda>gap_seconds.
        Inr (case ep_allowed_observation_gap_seconds policy of
            Some allowed \<Rightarrow> if gap_seconds \<le> allowed then Bridged else EpisodeEnded
          | None \<Rightarrow> EpisodeEnded)))"

definition validate_possibly_continues_gap :: "episode_relation \<Rightarrow> gap_outcome \<Rightarrow> contract_error + unit" where
  "validate_possibly_continues_gap r outcome =
     try_then (validate_relation r) (\<lambda>_.
       if el_kind r = PossiblyContinues \<and> outcome = Bridged
       then Inl (Schema ''possibly_continues asserted within the allowed observation gap: the policy bridges these occurrences into one episode'')
       else Inr ())"

subsection \<open>Replay\<close>

record episode_projection =
  pj_episode_fingerprint :: digest
  pj_lifecycle_state :: lifecycle_state
  pj_verification_state :: verification_state
  pj_active_waiver :: "waiver_record option"
  pj_acknowledged_at :: "timestamp option"
  pj_waived_at :: "timestamp option"
  pj_resolved_at :: "timestamp option"
  pj_resolution_evidence_ids :: "digest list"
  pj_applied_event_count :: nat

definition check_relation :: "envelope \<Rightarrow> episode_relation \<Rightarrow> contract_error + unit" where
  "check_relation v r =
     try_then (validate_relation r) (\<lambda>_.
       if relation_names r (dv_episode_fingerprint v)
         \<and> (el_scope r \<noteq> dv_scope v \<or> el_profile r \<noteq> dv_profile v \<or> el_family_fingerprint r \<noteq> dv_family_fingerprint v)
       then Inl (Schema ''episode relation naming this envelope diverges in scope/profile/family from the envelope'')
       else Inr ())"

text \<open>\<^verbatim>\<open>retain\<close> with a set of bytes already seen: the first of each byte string survives.\<close>

fun retain_unseen :: "'b set \<Rightarrow> ('a \<times> 'b) list \<Rightarrow> ('a \<times> 'b) list" where
  "retain_unseen seen [] = []"
| "retain_unseen seen ((e, bytes) # rest) =
     (if bytes \<in> seen then retain_unseen seen rest else (e, bytes) # retain_unseen (insert bytes seen) rest)"

definition replay_order :: "(discrepancy_event \<times> byte list) list \<Rightarrow> (discrepancy_event \<times> byte list) list" where
  "replay_order encoded = retain_unseen {} (sort_key (\<lambda>(e, bytes). (de_effective_at e, bytes)) encoded)"

definition initial_projection :: "envelope \<Rightarrow> episode_projection" where
  "initial_projection v = \<lparr>pj_episode_fingerprint = dv_episode_fingerprint v, pj_lifecycle_state = LOpen,
     pj_verification_state = dv_initial_verification_state v, pj_active_waiver = None, pj_acknowledged_at = None,
     pj_waived_at = None, pj_resolved_at = None, pj_resolution_evidence_ids = [], pj_applied_event_count = 0\<rparr>"

definition apply_transition :: "timestamp \<Rightarrow> lifecycle_transition option \<Rightarrow> episode_projection \<Rightarrow> episode_projection" where
  "apply_transition effective_at transition st =
     (case transition of
        None \<Rightarrow> st
      | Some (Acknowledge _) \<Rightarrow>
          st\<lparr>pj_lifecycle_state := if pj_lifecycle_state st = LOpen then LAcknowledged else pj_lifecycle_state st,
             pj_acknowledged_at := case pj_acknowledged_at st of None \<Rightarrow> Some effective_at | Some t \<Rightarrow> Some t\<rparr>
      | Some (Waive waiver) \<Rightarrow>
          st\<lparr>pj_lifecycle_state := LWaived, pj_waived_at := Some effective_at, pj_active_waiver := Some waiver\<rparr>
      | Some (Resolve _ ids) \<Rightarrow>
          st\<lparr>pj_lifecycle_state := LResolved, pj_resolved_at := Some effective_at,
             pj_resolution_evidence_ids := sort_dedup (pj_resolution_evidence_ids st @ ids)\<rparr>
      | Some (Dismiss _ _) \<Rightarrow> st\<lparr>pj_lifecycle_state := LDismissed\<rparr>)"

definition apply_event :: "discrepancy_event \<Rightarrow> episode_projection \<Rightarrow> episode_projection" where
  "apply_event e st =
     (let st = (case de_verification_update e of None \<Rightarrow> st | Some update \<Rightarrow> st\<lparr>pj_verification_state := vu_state update\<rparr>);
          st = apply_transition (de_effective_at e) (de_lifecycle_transition e) st
      in st\<lparr>pj_applied_event_count := pj_applied_event_count st + 1\<rparr>)"

definition expire_waiver :: "timestamp \<Rightarrow> episode_projection \<Rightarrow> episode_projection" where
  "expire_waiver evaluation_time st =
     (if pj_lifecycle_state st = LWaived
        \<and> (case pj_active_waiver st of None \<Rightarrow> False | Some waiver \<Rightarrow> wr_expiry_at waiver \<le> evaluation_time)
      then st\<lparr>pj_lifecycle_state := LOpen\<rparr> else st)"

definition is_superseded :: "envelope \<Rightarrow> episode_relation list \<Rightarrow> bool" where
  "is_superseded v relations \<longleftrightarrow>
     list_ex (\<lambda>r. el_kind r \<in> {SupersededBy, CombinedFrom} \<and> dv_episode_fingerprint v \<in> set (el_from_episodes r)) relations"

definition supersede :: "envelope \<Rightarrow> episode_relation list \<Rightarrow> episode_projection \<Rightarrow> episode_projection" where
  "supersede v relations st = (if is_superseded v relations then st\<lparr>pj_lifecycle_state := LSuperseded\<rparr> else st)"

definition project_discrepancy_episode :: "contract_env \<Rightarrow> discrepancy_codecs \<Rightarrow> discrepancy_event codec \<Rightarrow> envelope
    \<Rightarrow> discrepancy_event list \<Rightarrow> episode_relation list \<Rightarrow> timestamp \<Rightarrow> contract_error + episode_projection" where
  "project_discrepancy_episode en dx ec v events relations evaluation_time =
     try_then (validate_envelope en dx v) (\<lambda>_.
     try_then (try_fold (\<lambda>_ e. authorize_lifecycle_transition en dx v e) () events) (\<lambda>_.
     try_then (try_fold (\<lambda>_ r. check_relation v r) () relations) (\<lambda>_.
     try_then (try_map (\<lambda>e. try_then (encode_typed en ec e) (\<lambda>bytes. Inr (e, bytes))) events) (\<lambda>encoded.
       Inr (supersede v relations (expire_waiver evaluation_time
         (fold (\<lambda>(e, _). apply_event e) (replay_order encoded) (initial_projection v))))))))"

definition nominate_repeated_waiver_drift :: "nat \<Rightarrow> nat \<Rightarrow> contract_error + verification_state option" where
  "nominate_repeated_waiver_drift waiver_count threshold =
     (if threshold = 0 then Inl (Schema ''repeated-waiver drift threshold must be positive'')
      else Inr (if waiver_count \<ge> threshold then Some CandidateFinding else None))"

end
