(* ===== verification/Discrepancy_Laws.thy ===== *)
theory Discrepancy_Laws
  imports Discrepancy_Replay Identity_Laws
begin

section \<open>Laws of replay and of discrepancy identities\<close>

text \<open>
  The replay order is the strictly sorted list of the distinct encoded events, so a projection is a
  function of the set of its events; what a projection says of its actors; and that fingerprints
  determine their preimages under a digest without collisions.
\<close>

subsection \<open>The replay order\<close>

lemma retain_unseen_subset: "set (retain_unseen seen xs) \<subseteq> {p \<in> set xs. snd p \<notin> seen}"
  by (induction seen xs rule: retain_unseen.induct) auto

lemma retain_unseen_bytes: "snd ` set (retain_unseen seen xs) = snd ` set xs - seen"
  by (induction seen xs rule: retain_unseen.induct) auto

lemma retain_unseen_distinct: "distinct (map snd (retain_unseen seen xs))"
  by (induction seen xs rule: retain_unseen.induct) (simp_all add: retain_unseen_bytes)

lemma retain_unseen_sorted: "sorted (map k xs) \<Longrightarrow> sorted (map k (retain_unseen seen xs))"
proof (induction seen xs rule: retain_unseen.induct)
  case (2 seen e b rest)
  then show ?case using retain_unseen_subset [of "insert b seen" rest] by auto
qed simp

lemma sorted_key_unique:
  fixes k :: "'a \<Rightarrow> 'b::linorder"
  assumes "sorted_wrt (<) (map k xs)" and "sorted_wrt (<) (map k ys)" and "set xs = set ys" and "inj_on k (set xs)"
  shows "xs = ys"
proof -
  have "map k xs = map k ys"
    using assms(1-3) by (intro sorted_distinct_set_unique) (simp_all add: strict_sorted_iff)
  moreover have "inj_on k (set xs \<union> set ys)" using assms(3,4) by simp
  ultimately show ?thesis using inj_on_map_eq_map by blast
qed

definition event_key :: "discrepancy_event \<times> byte list \<Rightarrow> timestamp \<times> byte list" where
  "event_key = (\<lambda>(e, bytes). (de_effective_at e, bytes))"

lemma replay_order_set:
  assumes "inj_on snd (set encoded)"
  shows "set (replay_order encoded) = set encoded" and "sorted_wrt (<) (map event_key (replay_order encoded))"
proof -
  let ?s = "sort_key event_key encoded"
  have r: "replay_order encoded = retain_unseen {} ?s" by (simp add: replay_order_def event_key_def)
  have sub: "set (replay_order encoded) \<subseteq> set encoded" using retain_unseen_subset [of "{}" ?s] unfolding r by auto
  have "snd ` set (replay_order encoded) = snd ` set encoded" using retain_unseen_bytes [of "{}" ?s] unfolding r by simp
  with sub assms show "set (replay_order encoded) = set encoded"
    by (metis inj_on_image_eq_iff order_refl)
  have "map snd (replay_order encoded) = map (snd \<circ> event_key) (replay_order encoded)"
    by (simp add: event_key_def case_prod_beta)
  then have "distinct (map event_key (replay_order encoded))"
    using retain_unseen_distinct [of "{}" ?s] unfolding r by (metis distinct_map map_map)
  then show "sorted_wrt (<) (map event_key (replay_order encoded))"
    using retain_unseen_sorted [of event_key ?s "{}"] unfolding r by (simp add: strict_sorted_iff)
qed

lemma replay_order_cong:
  assumes "inj_on snd (set xs)" and "set xs = set ys"
  shows "replay_order xs = replay_order ys"
proof (rule sorted_key_unique [where k = event_key])
  have "snd p = snd q" if "event_key p = event_key q" for p q
    using that by (cases p; cases q) (simp add: event_key_def)
  then have "inj_on event_key (set xs)" using assms(1) unfolding inj_on_def by blast
  then show "inj_on event_key (set (replay_order xs))" using replay_order_set(1) [OF assms(1)] by simp
qed (use replay_order_set assms in auto)

subsection \<open>Projections\<close>

definition encoded_as :: "contract_env \<Rightarrow> discrepancy_event codec \<Rightarrow> discrepancy_event list \<Rightarrow> (discrepancy_event \<times> byte list) list \<Rightarrow> bool" where
  "encoded_as en ec events encoded \<longleftrightarrow> list_all2 (\<lambda>e p. fst p = e \<and> encode_typed en ec e = Inr (snd p)) events encoded"

lemma try_map_encoded:
  "try_map (\<lambda>e. try_then (encode_typed en ec e) (\<lambda>bytes. Inr (e, bytes))) events = Inr encoded \<longleftrightarrow> encoded_as en ec events encoded"
  unfolding try_map_eq_Inr encoded_as_def
  by (rule arg_cong2 [of _ _ _ _ "\<lambda>P ys. list_all2 P events ys"]) (auto simp: res_simps fun_eq_iff prod_eq_iff)

lemma encoded_as_set:
  "encoded_as en ec events encoded \<Longrightarrow> set encoded = {(e, b). e \<in> set events \<and> encode_typed en ec e = Inr b}"
  unfolding encoded_as_def
  by (induction rule: list_all2_induct) auto

lemma project_Inr:
  "project_discrepancy_episode en dx ec v events relations t = Inr p \<longleftrightarrow>
     validate_envelope en dx v = Inr () \<and> (\<forall>e\<in>set events. authorize_lifecycle_transition en dx v e = Inr ())
     \<and> (\<forall>r\<in>set relations. check_relation v r = Inr ())
     \<and> (\<exists>encoded. encoded_as en ec events encoded
          \<and> p = supersede v relations (expire_waiver t (fold (\<lambda>(e, _). apply_event e) (replay_order encoded) (initial_projection v))))"
  unfolding project_discrepancy_episode_def
  by (auto simp: res_simps try_fold_unit try_map_encoded)

lemma encoded_as_exists: "\<forall>e\<in>set events. \<exists>b. encode_typed en ec e = Inr b \<Longrightarrow> \<exists>encoded. encoded_as en ec events encoded"
proof (induction events)
  case (Cons e events)
  then obtain b encoded where "encode_typed en ec e = Inr b" "encoded_as en ec events encoded" by auto
  then have "encoded_as en ec (e # events) ((e, b) # encoded)" by (simp add: encoded_as_def)
  then show ?case by blast
next
  case Nil
  have "encoded_as en ec [] []" by (simp add: encoded_as_def)
  then show ?case by blast
qed

lemma project_cong:
  assumes "schema_round_trip en ec" and "set events' = set events" and "set relations' = set relations"
    and "project_discrepancy_episode en dx ec v events relations t = Inr p"
  shows "project_discrepancy_episode en dx ec v events' relations' t = Inr p"
proof -
  obtain encoded where enc: "encoded_as en ec events encoded"
    and p: "p = supersede v relations (expire_waiver t (fold (\<lambda>(e, _). apply_event e) (replay_order encoded) (initial_projection v)))"
    using assms(4) unfolding project_Inr by blast
  have "\<forall>e\<in>set events. \<exists>b. encode_typed en ec e = Inr b"
    using enc unfolding encoded_as_def by (auto simp: list_all2_conv_all_nth in_set_conv_nth)
  then obtain encoded' where enc': "encoded_as en ec events' encoded'" using encoded_as_exists assms(2) by metis
  have "set encoded = set encoded'" using encoded_as_set [OF enc] encoded_as_set [OF enc'] assms(2) by simp
  moreover have "inj_on snd (set encoded)"
    using encode_typed_inject [OF assms(1)] unfolding encoded_as_set [OF enc] by (auto simp: inj_on_def)
  ultimately have "replay_order encoded = replay_order encoded'" by (intro replay_order_cong)
  moreover have "supersede v relations = supersede v relations'"
    using assms(3) by (simp add: supersede_def is_superseded_def list_ex_iff fun_eq_iff)
  ultimately show ?thesis using assms(2-4) enc' p unfolding project_Inr by auto
qed

subsection \<open>What a projection says of its events\<close>

definition carries :: "lifecycle_transition \<Rightarrow> (discrepancy_event \<times> byte list) list \<Rightarrow> bool" where
  "carries t xs \<longleftrightarrow> (\<exists>p\<in>set xs. de_lifecycle_transition (fst p) = Some t)"

definition updates :: "verification_update \<Rightarrow> (discrepancy_event \<times> byte list) list \<Rightarrow> bool" where
  "updates u xs \<longleftrightarrow> (\<exists>p\<in>set xs. de_verification_update (fst p) = Some u)"

definition explained :: "envelope \<Rightarrow> (discrepancy_event \<times> byte list) list \<Rightarrow> episode_projection \<Rightarrow> bool" where
  "explained v xs st \<longleftrightarrow>
     (pj_lifecycle_state st = LResolved \<longrightarrow> (\<exists>a ids. carries (Resolve a ids) xs))
     \<and> (pj_lifecycle_state st = LDismissed \<longrightarrow> (\<exists>a r. carries (Dismiss a r) xs))
     \<and> (pj_lifecycle_state st = LWaived \<longrightarrow> (\<exists>w. pj_active_waiver st = Some w \<and> carries (Waive w) xs))
     \<and> pj_lifecycle_state st \<noteq> LSuperseded
     \<and> (pj_verification_state st = dv_initial_verification_state v \<or> (\<exists>u. updates u xs \<and> pj_verification_state st = vu_state u))"

lemma apply_transition_frame [simp]:
  "pj_verification_state (apply_transition t tr st) = pj_verification_state st"
  by (auto simp: apply_transition_def split: option.splits lifecycle_transition.splits)

lemma carries_snoc: "carries t (xs @ [p]) \<longleftrightarrow> carries t xs \<or> de_lifecycle_transition (fst p) = Some t"
  by (auto simp: carries_def)

lemma updates_snoc: "updates u (xs @ [p]) \<longleftrightarrow> updates u xs \<or> de_verification_update (fst p) = Some u"
  by (auto simp: updates_def)

lemma apply_event_state:
  "pj_lifecycle_state (apply_event e st) = (case de_lifecycle_transition e of None \<Rightarrow> pj_lifecycle_state st
     | Some (Acknowledge _) \<Rightarrow> if pj_lifecycle_state st = LOpen then LAcknowledged else pj_lifecycle_state st
     | Some (Waive _) \<Rightarrow> LWaived | Some (Resolve _ _) \<Rightarrow> LResolved | Some (Dismiss _ _) \<Rightarrow> LDismissed)"
  "pj_active_waiver (apply_event e st) = (case de_lifecycle_transition e of Some (Waive w) \<Rightarrow> Some w | _ \<Rightarrow> pj_active_waiver st)"
  "pj_verification_state (apply_event e st) = (case de_verification_update e of None \<Rightarrow> pj_verification_state st | Some u \<Rightarrow> vu_state u)"
  by (auto simp: apply_event_def apply_transition_def Let_def split: option.splits lifecycle_transition.splits)

lemma explained_step: "explained v xs st \<Longrightarrow> explained v (xs @ [p]) (apply_event (fst p) st)"
  unfolding explained_def carries_snoc updates_snoc apply_event_state
  by (auto split: option.splits lifecycle_transition.splits if_splits)

lemma replay_explained: "explained v xs (fold (\<lambda>(e, _). apply_event e) xs (initial_projection v))"
proof (induction xs rule: rev_induct)
  case (snoc p xs)
  then show ?case using explained_step [of v xs _ p] by (simp add: case_prod_beta)
qed (simp add: explained_def initial_projection_def)

lemma finished_projection:
  "pj_active_waiver (supersede v rs (expire_waiver t st)) = pj_active_waiver st"
  "pj_verification_state (supersede v rs (expire_waiver t st)) = pj_verification_state st"
  "s \<in> {LResolved, LDismissed} \<Longrightarrow> pj_lifecycle_state (supersede v rs (expire_waiver t st)) = s \<Longrightarrow> pj_lifecycle_state st = s"
  "pj_lifecycle_state (supersede v rs (expire_waiver t st)) = LWaived \<Longrightarrow> pj_lifecycle_state st = LWaived
     \<and> (\<forall>w. pj_active_waiver st = Some w \<longrightarrow> t < wr_expiry_at w)"
  "pj_lifecycle_state st \<noteq> LSuperseded \<Longrightarrow>
     pj_lifecycle_state (supersede v rs (expire_waiver t st)) = LSuperseded \<longleftrightarrow> is_superseded v rs"
  by (auto simp: supersede_def expire_waiver_def not_le split: if_splits option.splits)

lemma authorized_transition:
  assumes "authorize_lifecycle_transition en dx v e = Inr ()"
  shows "de_lifecycle_transition e = Some (Resolve a ids) \<Longrightarrow> \<not> is_self_implicated v (ac_principal_id a) \<and> ids \<noteq> []"
    and "de_lifecycle_transition e = Some (Dismiss a r) \<Longrightarrow> \<not> is_self_implicated v (ac_principal_id a) \<and> \<not> is_blank_rationale (dr_rationale r)"
    and "de_lifecycle_transition e = Some (Waive w) \<Longrightarrow> \<not> is_self_implicated v (ac_principal_id (wr_actor w))
      \<and> de_effective_at e < wr_expiry_at w \<and> \<not> is_blank_rationale (wr_rationale w)"
    and "de_verification_update e = Some u \<Longrightarrow> (vu_state u = RefutedFinding \<longrightarrow> \<not> is_self_implicated v (ac_principal_id (vu_actor u)))
      \<and> (vu_state u = VerifiedFinding \<longrightarrow> vu_evidence_event_ids u \<noteq> [])"
  using assms
  by (auto simp: authorize_lifecycle_transition_def authorize_transition_def validate_event_def resolution_evidence_valid_def
      validate_dismissal_reason_def validate_waiver_record_def validate_verification_update_def not_le res_simps split: if_splits)

subsection \<open>Fingerprints\<close>

lemma separated_digest_inject:
  "inj (ce_sha en) \<Longrightarrow> domain_separated_digest (ce_sha en) d b = domain_separated_digest (ce_sha en) e c \<longleftrightarrow> d = e \<and> b = c"
  by (simp add: domain_separated_digest_def inj_eq domain_preimage_inject)

lemma validated_envelope:
  assumes "validate_envelope en dx v = Inr ()"
  shows "compute_family_fingerprint en (dx_family dx) v = Inr (dv_family_fingerprint v)"
    and "episode_fingerprint_of en (dx_episode dx) (episode_of (dv_family_fingerprint v) v) = Inr (dv_episode_fingerprint v)"
    and "envelope_structure v"
proof -
  have e: "compute_family_fingerprint en (dx_family dx) v = Inr (dv_family_fingerprint v)"
      "compute_episode_fingerprint en (dx_family dx) (dx_episode dx) v = Inr (dv_episode_fingerprint v)" "envelope_structure v"
    using assms unfolding validate_envelope_def by (auto simp: res_simps split: if_splits)
  then show "compute_family_fingerprint en (dx_family dx) v = Inr (dv_family_fingerprint v)" "envelope_structure v" by simp_all
  from e show "episode_fingerprint_of en (dx_episode dx) (episode_of (dv_family_fingerprint v) v) = Inr (dv_episode_fingerprint v)"
    by (simp add: compute_episode_fingerprint_def)
qed

lemma family_fingerprint_inject:
  assumes "inj (ce_sha en)" and "schema_round_trip en c" and "family_fingerprint_of en c f = Inr d" and "family_fingerprint_of en c g = Inr d"
  shows "f = g"
  using assms(3,4) encode_typed_inject [OF assms(2)] separated_digest_inject [OF assms(1)]
  by (auto simp: family_fingerprint_of_def res_simps)

lemma episode_fingerprint_inject:
  assumes "inj (ce_sha en)" and "schema_round_trip en c" and "episode_fingerprint_of en c f = Inr d" and "episode_fingerprint_of en c g = Inr d"
  shows "f = g"
  using assms(3,4) encode_typed_inject [OF assms(2)] separated_digest_inject [OF assms(1)]
  by (auto simp: episode_fingerprint_of_def res_simps)

end
