(* ===== verification/Canonical_Reader.thy ===== *)
theory Canonical_Reader
  imports Canonical_Laws
begin

section \<open>What the canonical profile accepts\<close>

text \<open>
  The values the validator and the strict visitor accept, as a predicate and a node count, and that
  the lexeme scanner passes every canonical rendering.
\<close>

subsection \<open>Admitted values\<close>

function nodes_of :: "canonical_value \<Rightarrow> nat" where
  "nodes_of v = (case v of
      CArray xs \<Rightarrow> 1 + sum_list (map nodes_of xs)
    | CObject kvs \<Rightarrow> 1 + sum_list (map (\<lambda>e. nodes_of (snd e)) kvs)
    | _ \<Rightarrow> 1)"
  by pat_completeness auto
termination
  by (relation "measure size") (auto dest: size_snd_member size_member)

declare nodes_of.simps [simp del]

lemma nodes_of_simps [simp]:
  "nodes_of CNull = 1" "nodes_of (CBool b) = 1" "nodes_of (CInteger i) = 1" "nodes_of (CString s) = 1"
  "nodes_of (CArray xs) = 1 + sum_list (map nodes_of xs)"
  "nodes_of (CObject kvs) = 1 + sum_list (map (\<lambda>e. nodes_of (snd e)) kvs)"
  by (subst nodes_of.simps, simp)+

abbreviation string_ok :: "(ustr \<Rightarrow> ustr) \<Rightarrow> ustr \<Rightarrow> bool" where
  "string_ok nfc s \<equiv> validate_string nfc s = Inr ()"

text \<open>\<open>fits nfc d v\<close>: the value \<open>v\<close> may stand at depth \<open>d\<close> of a document.\<close>

function fits :: "(ustr \<Rightarrow> ustr) \<Rightarrow> nat \<Rightarrow> canonical_value \<Rightarrow> bool" where
  "fits nfc d v = (d \<le> MAX_DEPTH \<and> (case v of
      CInteger i \<Rightarrow> safe_integer i
    | CString s \<Rightarrow> string_ok nfc s
    | CArray xs \<Rightarrow> length xs \<le> MAX_COLLECTION_ELEMENTS \<and> d < MAX_DEPTH \<and> list_all (fits nfc (d + 1)) xs
    | CObject kvs \<Rightarrow> length kvs \<le> MAX_COLLECTION_ELEMENTS \<and> d < MAX_DEPTH
        \<and> list_all (\<lambda>e. string_ok nfc (fst e) \<and> fits nfc (d + 1) (snd e)) kvs
    | _ \<Rightarrow> True))"
  by pat_completeness auto
termination
  by (relation "measure (\<lambda>(_, _, v). size v)") (auto dest: size_snd_member size_member)

declare fits.simps [simp del]

lemma fits_simps [simp]:
  "fits nfc d CNull \<longleftrightarrow> d \<le> MAX_DEPTH" "fits nfc d (CBool b) \<longleftrightarrow> d \<le> MAX_DEPTH"
  "fits nfc d (CInteger i) \<longleftrightarrow> d \<le> MAX_DEPTH \<and> safe_integer i"
  "fits nfc d (CString s) \<longleftrightarrow> d \<le> MAX_DEPTH \<and> string_ok nfc s"
  "fits nfc d (CArray xs) \<longleftrightarrow> length xs \<le> MAX_COLLECTION_ELEMENTS \<and> d < MAX_DEPTH \<and> (\<forall>x\<in>set xs. fits nfc (d + 1) x)"
  "fits nfc d (CObject kvs) \<longleftrightarrow> length kvs \<le> MAX_COLLECTION_ELEMENTS \<and> d < MAX_DEPTH
     \<and> (\<forall>e\<in>set kvs. string_ok nfc (fst e) \<and> fits nfc (d + 1) (snd e))"
  by (subst fits.simps, (auto simp: list_all_iff)[1])+

text \<open>A loop that adds up counts and stops at the first element that is not admitted.\<close>

lemma count_loop:
  fixes B :: nat
  assumes "\<And>x n m. x \<in> set xs \<Longrightarrow> n \<le> B \<Longrightarrow> f n x = Inr m \<longleftrightarrow> ok x \<and> m = n + c x \<and> m \<le> B"
  shows "n \<le> B \<Longrightarrow> try_fold f n xs = Inr m \<longleftrightarrow> (\<forall>x\<in>set xs. ok x) \<and> m = n + sum_list (map c xs) \<and> m \<le> B"
  using assms
proof (induction xs arbitrary: n)
  case (Cons x xs)
  have x: "f n x = Inr k \<longleftrightarrow> ok x \<and> k = n + c x \<and> k \<le> B" for k using Cons.prems(2) [of x n] Cons.prems(1) by simp
  show ?case
  proof (cases "f n x")
    case (Inl e)
    then have "\<not> (ok x \<and> n + c x \<le> B)" using x by auto
    then have "\<not> (ok x \<and> n + sum_list (map c (x # xs)) \<le> B)" by auto
    then show ?thesis using Inl by auto
  next
    case (Inr k)
    then have k: "ok x" "k = n + c x" "k \<le> B" using x [of k] by simp_all
    have "try_fold f k xs = Inr m \<longleftrightarrow> (\<forall>x\<in>set xs. ok x) \<and> m = k + sum_list (map c xs) \<and> m \<le> B"
      by (rule Cons.IH [OF k(3)]) (simp add: Cons.prems(2))
    then show ?thesis unfolding try_fold.simps Inr try_then_Inr using k by (simp add: add.assoc)
  qed
qed auto

lemma validate_value_unfold:
  assumes "n \<le> MAX_NODES"
  shows "validate_value nfc (CArray xs) d n = Inr m \<longleftrightarrow> n + 1 \<le> MAX_NODES \<and> length xs \<le> MAX_COLLECTION_ELEMENTS
      \<and> d < MAX_DEPTH \<and> try_fold (\<lambda>n x. validate_value nfc x (d + 1) n) (n + 1) xs = Inr m"
    and "validate_value nfc (CObject kvs) d n = Inr m \<longleftrightarrow> n + 1 \<le> MAX_NODES \<and> length kvs \<le> MAX_COLLECTION_ELEMENTS
      \<and> d < MAX_DEPTH \<and> try_fold (\<lambda>n e. try_then (validate_string nfc (fst e))
           (\<lambda>_. validate_value nfc (snd e) (d + 1) n)) (n + 1) kvs = Inr m"
  by (subst validate_value.simps, (auto simp: add_node_def checked_child_depth_def)[1])+

lemma validate_value_iff:
  "n \<le> MAX_NODES \<Longrightarrow> validate_value nfc v d n = Inr m \<longleftrightarrow> fits nfc d v \<and> m = n + nodes_of v \<and> m \<le> MAX_NODES"
proof (induction v arbitrary: d n m)
  case (CArray xs)
  show ?case
  proof (cases "n + 1 \<le> MAX_NODES")
    case True
    have "try_fold (\<lambda>n x. validate_value nfc x (d + 1) n) (n + 1) xs = Inr m
      \<longleftrightarrow> (\<forall>x\<in>set xs. fits nfc (d + 1) x) \<and> m = n + 1 + sum_list (map nodes_of xs) \<and> m \<le> MAX_NODES"
      by (rule count_loop) (use True CArray in auto)
    then show ?thesis using validate_value_unfold(1) [OF CArray.prems] True by auto
  qed (use validate_value_unfold(1) [OF CArray.prems] in auto)
next
  case (CObject kvs)
  show ?case
  proof (cases "n + 1 \<le> MAX_NODES")
    case True
    have "try_fold (\<lambda>n e. try_then (validate_string nfc (fst e)) (\<lambda>_. validate_value nfc (snd e) (d + 1) n)) (n + 1) kvs = Inr m
      \<longleftrightarrow> (\<forall>e\<in>set kvs. string_ok nfc (fst e) \<and> fits nfc (d + 1) (snd e))
        \<and> m = n + 1 + sum_list (map (\<lambda>e. nodes_of (snd e)) kvs) \<and> m \<le> MAX_NODES"
      by (rule count_loop) (use True CObject in \<open>auto simp: snds.simps res_simps\<close>)
    then show ?thesis using validate_value_unfold(2) [OF CObject.prems] True by auto
  qed (use validate_value_unfold(2) [OF CObject.prems] in auto)
qed (subst validate_value.simps; auto simp: add_node_def res_simps try_then_def split: sum.splits)+

lemma canonical_bytes_iff:
  "canonical_bytes nfc v = Inr b \<longleftrightarrow> fits nfc 0 v \<and> nodes_of v \<le> MAX_NODES \<and> length (render v) \<le> MAX_OUTPUT_BYTES \<and> b = render v"
proof -
  have "(\<exists>m. validate_value nfc v 0 0 = Inr m) \<longleftrightarrow> fits nfc 0 v \<and> nodes_of v \<le> MAX_NODES"
    using validate_value_iff [of 0 nfc v 0] by auto
  then show ?thesis
    unfolding canonical_bytes_render check_output_cases by (cases "validate_value nfc v 0 0") auto
qed

subsection \<open>The visitor on a canonical document\<close>

text \<open>The syntax tree of the rendering: members in UTF-16 order.\<close>

function raw_of :: "canonical_value \<Rightarrow> raw_json" where
  "raw_of v = (case v of
      CNull \<Rightarrow> RNull | CBool b \<Rightarrow> RBool b | CInteger i \<Rightarrow> RInteger i | CString s \<Rightarrow> RString s
    | CArray xs \<Rightarrow> RArray (map raw_of xs)
    | CObject kvs \<Rightarrow> RObject (map (\<lambda>e. (fst e, raw_of (snd e))) (utf16_sorted kvs)))"
  by pat_completeness auto
termination
  by (relation "measure size") (auto dest: size_snd_member size_member)

declare raw_of.simps [simp del]

lemma raw_of_simps [simp]:
  "raw_of CNull = RNull" "raw_of (CBool b) = RBool b" "raw_of (CInteger i) = RInteger i" "raw_of (CString s) = RString s"
  "raw_of (CArray xs) = RArray (map raw_of xs)"
  "raw_of (CObject kvs) = RObject (map (\<lambda>e. (fst e, raw_of (snd e))) (utf16_sorted kvs))"
  by (subst raw_of.simps, simp)+

definition visit_element :: "(raw_json \<Rightarrow> nat \<Rightarrow> contract_error + (canonical_value \<times> nat)) \<Rightarrow> canonical_value list \<times> nat
    \<Rightarrow> raw_json \<Rightarrow> contract_error + (canonical_value list \<times> nat)" where
  "visit_element visit st r = try_then (visit r (snd st)) (\<lambda>(v, n).
     if length (fst st) \<ge> MAX_COLLECTION_ELEMENTS then Inl (CollectionLimit MAX_COLLECTION_ELEMENTS)
     else Inr (fst st @ [v], n))"

definition visit_member :: "(ustr \<Rightarrow> ustr) \<Rightarrow> (raw_json \<Rightarrow> nat \<Rightarrow> contract_error + (canonical_value \<times> nat))
    \<Rightarrow> (ustr \<times> canonical_value) list \<times> nat \<Rightarrow> ustr \<times> raw_json \<Rightarrow> contract_error + ((ustr \<times> canonical_value) list \<times> nat)" where
  "visit_member nfc visit st e = try_then (validate_string nfc (fst e)) (\<lambda>_.
     if length (fst st) \<ge> MAX_COLLECTION_ELEMENTS then Inl (CollectionLimit MAX_COLLECTION_ELEMENTS)
     else if fst e \<in> fst ` set (fst st) then Inl (DuplicateKey (fst e))
     else try_then (visit (snd e) (snd st)) (\<lambda>(v, n). Inr (insort_key fst (fst e, v) (fst st), n)))"

lemma strict_visit_array:
  "strict_visit nfc (RArray rs) d n = try_then (add_node n) (\<lambda>n. try_then (checked_child_depth d) (\<lambda>child.
     try_then (try_fold (visit_element (\<lambda>r. strict_visit nfc r child)) ([], n) rs) (\<lambda>(vs, n). Inr (CArray vs, n))))"
  unfolding visit_element_def [abs_def] by (subst strict_visit.simps) simp

lemma strict_visit_object:
  "strict_visit nfc (RObject es) d n = try_then (add_node n) (\<lambda>n. try_then (checked_child_depth d) (\<lambda>child.
     try_then (try_fold (visit_member nfc (\<lambda>r. strict_visit nfc r child)) ([], n) es) (\<lambda>(kvs, n). Inr (CObject kvs, n))))"
  unfolding visit_member_def [abs_def] by (subst strict_visit.simps) simp

lemma element_loop:
  assumes "\<And>x n. x \<in> set xs \<Longrightarrow> n + c x \<le> MAX_NODES \<Longrightarrow> visit (g x) n = Inr (x, n + c x)"
    and "length acc + length xs \<le> MAX_COLLECTION_ELEMENTS" and "n + sum_list (map c xs) \<le> MAX_NODES"
  shows "try_fold (visit_element visit) (acc, n) (map g xs) = Inr (acc @ xs, n + sum_list (map c xs))"
  using assms
proof (induction xs arbitrary: acc n)
  case (Cons x xs)
  have "visit_element visit (acc, n) (g x) = Inr (acc @ [x], n + c x)"
    using Cons.prems by (simp add: visit_element_def)
  then show ?case using Cons.IH [of "acc @ [x]" "n + c x"] Cons.prems by (simp add: add.assoc)
qed simp

lemma member_loop:
  assumes "\<And>e n. e \<in> set es \<Longrightarrow> n + c e \<le> MAX_NODES \<Longrightarrow> visit (g (snd e)) n = Inr (snd e, n + c e)"
    and "\<And>e. e \<in> set es \<Longrightarrow> string_ok nfc (fst e)"
    and "length acc + length es \<le> MAX_COLLECTION_ELEMENTS" and "n + sum_list (map c es) \<le> MAX_NODES"
    and "distinct (map fst es)" and "fst ` set acc \<inter> fst ` set es = {}"
  shows "try_fold (visit_member nfc visit) (acc, n) (map (\<lambda>e. (fst e, g (snd e))) es)
    = Inr (fold (insort_key fst) es acc, n + sum_list (map c es))"
  using assms
proof (induction es arbitrary: acc n)
  case (Cons e es)
  have "visit_member nfc visit (acc, n) (fst e, g (snd e)) = Inr (insort_key fst e acc, n + c e)"
    using Cons.prems by (simp add: visit_member_def)
  moreover have "fst ` set (insort_key fst e acc) \<inter> fst ` set es = {}"
    using Cons.prems(5,6) by (auto simp: set_insort_key)
  ultimately show ?case
    using Cons.IH [of "insort_key fst e acc" "n + c e"] Cons.prems(1-5) by (simp add: add.assoc)
qed simp

lemma fold_insort_sorted:
  assumes "sorted_wrt (<) (map fst kvs)"
  shows "fold (insort_key fst) (utf16_sorted kvs) [] = kvs"
proof -
  have "mset (fold (insort_key fst) es acc) = mset es + mset acc" for es acc :: "(ustr \<times> 'a) list"
    by (induction es arbitrary: acc) simp_all
  then have "mset (fold (insort_key fst) (utf16_sorted kvs) []) = mset kvs" by (simp add: utf16_sorted_def)
  moreover have "sorted (map fst (fold (insort_key fst) es acc))" if "sorted (map fst acc)" for es acc :: "(ustr \<times> 'a) list"
    using that by (induction es arbitrary: acc) (simp_all add: sorted_insort_key)
  moreover have "inj_on fst (set kvs)" "sorted (map fst kvs)" using assms by (simp_all add: strict_sorted_iff distinct_map)
  ultimately show ?thesis by (metis list.map(1) sort_key_inj_key_eq sorted_wrt.simps(1))
qed

lemma strict_visit_raw_of:
  "\<lbrakk>wf_canonical v; fits nfc d v; n + nodes_of v \<le> MAX_NODES\<rbrakk>
     \<Longrightarrow> strict_visit nfc (raw_of v) d n = Inr (v, n + nodes_of v)"
proof (induction v arbitrary: d n)
  case (CArray xs)
  have "try_fold (visit_element (\<lambda>r. strict_visit nfc r (d + 1))) ([], n + 1) (map raw_of xs)
      = Inr ([] @ xs, n + 1 + sum_list (map nodes_of xs))"
    by (rule element_loop) (use CArray in auto)
  then show ?case using CArray.prems by (simp add: strict_visit_array add_node_def checked_child_depth_def)
next
  case (CObject kvs)
  have p: "mset (utf16_sorted kvs) = mset kvs" by (simp add: utf16_sorted_def)
  then have c: "sum_list (map (\<lambda>e. nodes_of (snd e)) (utf16_sorted kvs)) = sum_list (map (\<lambda>e. nodes_of (snd e)) kvs)"
    by (simp flip: sum_mset_sum_list)
  have keys: "distinct (map fst (utf16_sorted kvs))"
    using CObject.prems(1) p by (metis mset_eq_imp_distinct_iff mset_map strict_sorted_iff wf_canonical_simps(6))
  have len: "length (utf16_sorted kvs) = length kvs" using p by (metis size_mset)
  have visit: "strict_visit nfc (raw_of (snd e)) (d + 1) k = Inr (snd e, k + nodes_of (snd e))"
    if "e \<in> set (utf16_sorted kvs)" "k + nodes_of (snd e) \<le> MAX_NODES" for e k
    by (rule CObject.IH [of e "snd e"]) (use that CObject.prems in \<open>auto simp: snds.simps\<close>)
  have "try_fold (visit_member nfc (\<lambda>r. strict_visit nfc r (d + 1))) ([], n + 1)
      (map (\<lambda>e. (fst e, raw_of (snd e))) (utf16_sorted kvs))
      = Inr (fold (insort_key fst) (utf16_sorted kvs) [], n + 1 + sum_list (map (\<lambda>e. nodes_of (snd e)) (utf16_sorted kvs)))"
    by (rule member_loop [where c = "\<lambda>e. nodes_of (snd e)", OF visit _ _ _ keys])
      (use CObject.prems in \<open>simp_all add: c len\<close>)
  then show ?case
    using CObject.prems by (simp add: strict_visit_object add_node_def checked_child_depth_def fold_insort_sorted c)
qed (subst strict_visit.simps; simp add: add_node_def)+

subsection \<open>What the visitor lets through\<close>

text \<open>A tree whose strings hold scalar values, and one in which no object repeats a key.\<close>

function raw_scalars :: "raw_json \<Rightarrow> bool" where
  "raw_scalars r = (case r of
      RString s \<Rightarrow> list_all scalar s | RArray rs \<Rightarrow> list_all raw_scalars rs
    | RObject es \<Rightarrow> list_all (\<lambda>e. list_all scalar (fst e) \<and> raw_scalars (snd e)) es | _ \<Rightarrow> True)"
  by pat_completeness auto
termination
  by (relation "measure size") (auto dest: size_snd_member size_member)

function unique_keys :: "raw_json \<Rightarrow> bool" where
  "unique_keys r = (case r of
      RArray rs \<Rightarrow> list_all unique_keys rs
    | RObject es \<Rightarrow> distinct (map fst es) \<and> list_all (\<lambda>e. unique_keys (snd e)) es | _ \<Rightarrow> True)"
  by pat_completeness auto
termination
  by (relation "measure size") (auto dest: size_snd_member size_member)

declare raw_scalars.simps [simp del] unique_keys.simps [simp del]

lemma raw_scalars_simps [simp]:
  "raw_scalars RNull" "raw_scalars (RBool b)" "raw_scalars (RInteger i)" "raw_scalars RFloat"
  "raw_scalars (RString s) \<longleftrightarrow> list_all scalar s" "raw_scalars (RArray rs) \<longleftrightarrow> (\<forall>r\<in>set rs. raw_scalars r)"
  "raw_scalars (RObject es) \<longleftrightarrow> (\<forall>e\<in>set es. list_all scalar (fst e) \<and> raw_scalars (snd e))"
  by (subst raw_scalars.simps, simp add: list_all_iff)+

lemma unique_keys_simps [simp]:
  "unique_keys RNull" "unique_keys (RBool b)" "unique_keys (RInteger i)" "unique_keys RFloat" "unique_keys (RString s)"
  "unique_keys (RArray rs) \<longleftrightarrow> (\<forall>r\<in>set rs. unique_keys r)"
  "unique_keys (RObject es) \<longleftrightarrow> distinct (map fst es) \<and> (\<forall>e\<in>set es. unique_keys (snd e))"
  by (subst unique_keys.simps, simp add: list_all_iff)+

text \<open>An invariant of a loop, over the elements it has consumed.\<close>

lemma try_fold_invariant:
  assumes "try_fold f b xs = Inr b'" and "P b pre"
    and "\<And>b pre x b'. x \<in> set xs \<Longrightarrow> P b pre \<Longrightarrow> f b x = Inr b' \<Longrightarrow> P b' (pre @ [x])"
  shows "P b' (pre @ xs)"
  using assms
proof (induction xs arbitrary: b pre)
  case (Cons x xs)
  then obtain c where c: "f b x = Inr c" "try_fold f c xs = Inr b'" by (auto simp: res_simps)
  have "P b' ((pre @ [x]) @ xs)"
    by (rule Cons.IH [OF c(2) Cons.prems(3)]) (use Cons.prems c in auto)
  then show ?case by simp
qed simp

lemma strict_insort:
  "sorted_wrt (<) (map fst kvs) \<Longrightarrow> k \<notin> fst ` set kvs \<Longrightarrow> sorted_wrt (<) (map fst (insort_key fst (k, v) kvs))"
  by (simp add: strict_sorted_iff sorted_insort_key distinct_map distinct_insort inj_on_def set_insort_key) force

lemma visit_elements_sound:
  assumes "try_fold (visit_element visit) ([], n) rs = Inr (vs, m)"
    and "\<And>r v n m. r \<in> set rs \<Longrightarrow> visit r n = Inr (v, m) \<Longrightarrow> Q r \<and> (S r \<longrightarrow> W v)"
  shows "(\<forall>r\<in>set rs. Q r) \<and> ((\<forall>r\<in>set rs. S r) \<longrightarrow> (\<forall>v\<in>set vs. W v))"
proof -
  have "(\<lambda>st pre. (\<forall>r\<in>set pre. Q r) \<and> ((\<forall>r\<in>set pre. S r) \<longrightarrow> (\<forall>v\<in>set (fst st). W v))) (vs, m) ([] @ rs)"
    by (rule try_fold_invariant [OF assms(1)])
      (use assms(2) in \<open>fastforce simp: visit_element_def res_simps split: if_splits\<close>)+
  then show ?thesis by simp
qed

lemma visit_members_sound:
  assumes "try_fold (visit_member nfc visit) ([], n) es = Inr (kvs, m)"
    and "\<And>e v n m. e \<in> set es \<Longrightarrow> visit (snd e) n = Inr (v, m) \<Longrightarrow> Q (snd e) \<and> (S e \<longrightarrow> W v)"
  shows "distinct (map fst es) \<and> (\<forall>e\<in>set es. Q (snd e)) \<and> sorted_wrt (<) (map fst kvs) \<and> fst ` set kvs = fst ` set es
    \<and> ((\<forall>e\<in>set es. S e) \<longrightarrow> (\<forall>e\<in>set kvs. W (snd e)))"
proof -
  have "(\<lambda>st pre. distinct (map fst pre) \<and> (\<forall>e\<in>set pre. Q (snd e)) \<and> sorted_wrt (<) (map fst (fst st))
      \<and> fst ` set (fst st) = fst ` set pre \<and> ((\<forall>e\<in>set pre. S e) \<longrightarrow> (\<forall>e\<in>set (fst st). W (snd e)))) (kvs, m) ([] @ es)"
  proof (rule try_fold_invariant [OF assms(1)], goal_cases)
    case (2 st pre e st')
    then obtain v k where vk: "visit (snd e) (snd st) = Inr (v, k)" "fst e \<notin> fst ` set (fst st)"
      and st': "st' = (insort_key fst (fst e, v) (fst st), k)"
      by (auto simp: visit_member_def res_simps split: if_splits)
    have "Q (snd e) \<and> (S e \<longrightarrow> W v)" using assms(2) [OF 2(1) vk(1)] .
    moreover have "sorted_wrt (<) (map fst (insort_key fst (fst e, v) (fst st)))"
      using strict_insort [OF _ vk(2)] 2(2) by blast
    ultimately show ?case using 2(2) vk(2) unfolding st' by (simp add: set_insort_key)
  qed simp
  then show ?thesis by simp
qed

lemma strict_visit_sound:
  "strict_visit nfc r d n = Inr (v, m) \<Longrightarrow> unique_keys r \<and> (raw_scalars r \<longrightarrow> wf_canonical v)"
proof (induction r arbitrary: d n v m)
  case (RArray rs)
  then obtain vs k c where l: "try_fold (visit_element (\<lambda>r. strict_visit nfc r c)) ([], k) rs = Inr (vs, m)" and v: "v = CArray vs"
    by (auto simp: strict_visit_array res_simps)
  from visit_elements_sound [OF l, of unique_keys raw_scalars wf_canonical] RArray.IH v show ?case by simp
next
  case (RObject es)
  then obtain kvs k c where l: "try_fold (visit_member nfc (\<lambda>r. strict_visit nfc r c)) ([], k) es = Inr (kvs, m)" and v: "v = CObject kvs"
    by (auto simp: strict_visit_object res_simps)
  have "unique_keys (snd e) \<and> (list_all scalar (fst e) \<and> raw_scalars (snd e) \<longrightarrow> wf_canonical w)"
    if "e \<in> set es" "strict_visit nfc (snd e) c a = Inr (w, b)" for e w a b
    using RObject.IH [of e "snd e" c a w b] that by (auto simp: snds.simps)
  then have m: "distinct (map fst es) \<and> (\<forall>e\<in>set es. unique_keys (snd e)) \<and> sorted_wrt (<) (map fst kvs)
      \<and> fst ` set kvs = fst ` set es
      \<and> ((\<forall>e\<in>set es. list_all scalar (fst e) \<and> raw_scalars (snd e)) \<longrightarrow> (\<forall>e\<in>set kvs. wf_canonical (snd e)))"
    by (rule visit_members_sound [OF l])
  then have "list_all scalar (fst e)" if "\<forall>e\<in>set es. list_all scalar (fst e)" "e \<in> set kvs" for e
    using that by (metis imageE imageI)
  with m show ?case unfolding v by simp
qed (subst (asm) strict_visit.simps; auto simp: res_simps split: if_splits)+

subsection \<open>The lexeme scanner on a canonical document\<close>

lemma lexemes_ok_simps:
  "lexemes_ok [] q e = Inr ()"
  "lexemes_ok (b # r) True True = lexemes_ok r True False"
  "b = 92 \<Longrightarrow> lexemes_ok (b # r) True False = lexemes_ok r True True"
  "b = 34 \<Longrightarrow> lexemes_ok (b # r) True False = lexemes_ok r False False"
  "b \<noteq> 92 \<Longrightarrow> b \<noteq> 34 \<Longrightarrow> lexemes_ok (b # r) True False = lexemes_ok r True False"
  "b = 34 \<Longrightarrow> lexemes_ok (b # r) False e = lexemes_ok r True e"
  "b \<noteq> 34 \<Longrightarrow> b \<noteq> 45 \<Longrightarrow> \<not> is_ascii_digit b \<Longrightarrow> lexemes_ok (b # r) False e = lexemes_ok r False e"
  by (subst lexemes_ok.simps, simp)+

lemma scan_plain:
  "\<forall>b\<in>set bs. b \<noteq> 34 \<and> b \<noteq> 92 \<Longrightarrow> lexemes_ok (bs @ r) True False = lexemes_ok r True False"
  by (induction bs) (simp_all add: lexemes_ok_simps)

lemma encode_utf8_high: "\<not> c < 128 \<Longrightarrow> b \<in> set (encode_utf8 c) \<Longrightarrow> 128 \<le> b"
  by (auto simp: encode_utf8_def split: if_splits)

lemma scan_char: "lexemes_ok (write_char c @ r) True False = lexemes_ok r True False"
proof -
  consider "c \<in> {34, 92, 8, 9, 10, 12, 13}" | "c \<notin> {34, 92, 8, 9, 10, 12, 13}" "c \<le> 31"
    | "c \<notin> {34, 92, 8, 9, 10, 12, 13}" "\<not> c \<le> 31" by blast
  then show ?thesis
  proof cases
    case 1
    then consider "c = 34" | "c = 92" | "c = 8" | "c = 9" | "c = 10" | "c = 12" | "c = 13" by blast
    then show ?thesis by cases (simp_all add: write_char_named lexemes_ok_simps)
  next
    case 2
    have "hex_digit d \<noteq> 34 \<and> hex_digit d \<noteq> 92" if "d < 16" for d
      using that by (simp add: hex_digit_def)
    from this [of "c div 16"] this [of "c mod 16"] 2(2) show ?thesis
      unfolding write_char_other [OF 2(1)] by (simp add: lexemes_ok_simps)
  next
    case 3
    have "\<forall>b\<in>set (encode_utf8 c). b \<noteq> 34 \<and> b \<noteq> 92"
      using 3(1) encode_utf8_high [of c] encode_utf8_hd(2) [of c] by (cases "c < 128") fastforce+
    then show ?thesis unfolding write_char_other [OF 3(1)] using 3(2) scan_plain by simp
  qed
qed

lemma scan_chars: "lexemes_ok (concat (map write_char s) @ r) True False = lexemes_ok r True False"
  by (induction s) (simp_all add: scan_char)

lemma scan_string: "lexemes_ok (write_string s @ r) False False = lexemes_ok r False False"
  by (simp add: write_string_def lexemes_ok_simps scan_chars)

lemma show_nat_leading: "length (lit (show_nat n)) > 1 \<Longrightarrow> hd (lit (show_nat n)) \<noteq> 48"
proof (induction n rule: show_nat.induct)
  case (1 n)
  have d: "lit (s @ [digit_char k]) = lit s @ [48 + k]" if "k < 10" for k s
    using that by (simp add: lit_def of_char_mod_256)
  show ?case
  proof (cases "n < 10")
    case True
    with "1.prems" show ?thesis by (subst (asm) show_nat.simps) (simp add: lit_def)
  next
    case False
    have n: "lit (show_nat n) = lit (show_nat (n div 10)) @ [48 + n mod 10]"
      using False d [of "n mod 10"] by (subst show_nat.simps) (simp del: digit_char.simps)
    show ?thesis
    proof (cases "length (lit (show_nat (n div 10))) > 1")
      case True
      then show ?thesis using "1.IH" [OF False] lit_show_nat_hd unfolding n by simp
    next
      case short: False
      then have "decimal (lit (show_nat (n div 10))) = hd (lit (show_nat (n div 10))) - 48"
        using lit_show_nat_hd [of "n div 10"] by (cases "lit (show_nat (n div 10))") (auto simp: decimal_def)
      moreover have "n div 10 \<noteq> 0" using False by simp
      ultimately show ?thesis using lit_show_nat_hd [of "n div 10"] unfolding n by simp
    qed
  qed
qed

lemma scan_integer:
  assumes "safe_integer i" and "stop r"
  shows "lexemes_ok (lit (show_int i) @ r) False False = lexemes_ok r False False"
proof -
  have rest: "\<not> (r \<noteq> [] \<and> hd r \<in> {46, 101, 69})" using assms(2) by (auto simp: stop_def)
  have zero: "lit (show_nat n) = [48] \<Longrightarrow> n = 0" for n using decimal_show [of n] by (auto simp: decimal_def)
  have tok: "number_token neg (lit (show_nat n)) r = Inr ()"
    if s: "safe_integer (if neg then - int n else int n)" and z: "neg \<Longrightarrow> n \<noteq> 0" for neg n
  proof -
    have "is_i64 (if neg then - int n else int n)"
      using s by (simp add: safe_integer_def is_i64_def i64_min_def i64_max_def split: if_splits)
    moreover have "\<not> (neg \<and> lit (show_nat n) = [48])" using z zero by blast
    moreover have "\<not> (length (lit (show_nat n)) > 1 \<and> hd (lit (show_nat n)) = 48)" using show_nat_leading by blast
    ultimately show ?thesis unfolding number_token_def Let_def decimal_show using s rest by (simp only: if_False simp_thms)
  qed
  show ?thesis
  proof (cases "i < 0")
    case True
    have "\<not> (lit (show_nat (nat (- i))) @ r = [] \<or> \<not> is_ascii_digit (hd (lit (show_nat (nat (- i))) @ r)))"
      using lit_show_nat_hd [of "nat (- i)"] by simp
    moreover have "number_token True (lit (show_nat (nat (- i)))) r = Inr ()" using tok [of True "nat (- i)"] True assms(1) by simp
    ultimately show ?thesis
      using True digits_split [OF assms(2), of "nat (- i)"]
      by (subst lexemes_ok.simps) (auto simp: lit_show_int is_ascii_digit_def [of 45])
  next
    case False
    obtain b bs where b: "lit (show_nat (nat i)) = b # bs" "is_ascii_digit b"
      using lit_show_nat_hd [of "nat i"] by (cases "lit (show_nat (nat i))") auto
    have split: "takeWhile is_ascii_digit (b # bs @ r) = b # bs" "dropWhile is_ascii_digit (bs @ r) = r"
      using digits_split [OF assms(2), of "nat i"] b by simp_all
    have "number_token False (b # bs) r = Inr ()" using tok [of False "nat i"] False assms(1) b by simp
    then show ?thesis
      using False b split is_ascii_digit_def [of 34] is_ascii_digit_def [of 45] unfolding lit_show_int
      by (subst lexemes_ok.simps) auto
  qed
qed

text \<open>A separator-joined sequence of parts the scanner passes is passed.\<close>

definition passes :: "byte list \<Rightarrow> bool" where
  "passes p \<longleftrightarrow> (\<forall>r. stop r \<longrightarrow> lexemes_ok (p @ r) False False = lexemes_ok r False False)"

lemma scan_mark: "b \<in> {44, 58, 91, 93, 123, 125} \<Longrightarrow> lexemes_ok (b # r) False False = lexemes_ok r False False"
  by (auto simp: lexemes_ok_simps is_ascii_digit_def)

lemma scan_tail:
  "\<forall>p\<in>set ps. passes p \<Longrightarrow> z \<in> {93, 125} \<Longrightarrow>
     lexemes_ok (concat (map (\<lambda>p. 44 # p) ps) @ z # r) False False = lexemes_ok r False False"
proof (induction ps)
  case (Cons p ps)
  have "stop (concat (map (\<lambda>p. 44 # p) ps) @ z # r)" using Cons.prems(2) by (cases ps) auto
  with Cons show ?case by (simp add: passes_def scan_mark)
qed (use scan_mark [of z r] in auto)

lemma scan_join:
  assumes "\<forall>p\<in>set ps. passes p" and "z \<in> {93, 125}"
  shows "lexemes_ok (join_with [44] ps @ z # r) False False = lexemes_ok r False False"
proof (cases ps)
  case (Cons p qs)
  have "stop (concat (map (\<lambda>p. 44 # p) qs) @ z # r)" using assms(2) by (cases qs) auto
  then have "lexemes_ok (p @ concat (map (\<lambda>p. 44 # p) qs) @ z # r) False False
      = lexemes_ok (concat (map (\<lambda>p. 44 # p) qs) @ z # r) False False"
    using assms(1) Cons unfolding passes_def by simp
  also have "\<dots> = lexemes_ok r False False" using scan_tail assms Cons by simp
  finally show ?thesis unfolding Cons join_with_Cons by simp
qed (use assms(2) scan_mark [of z r] in auto)

lemma scan_render: "fits nfc d v \<Longrightarrow> passes (render v)"
proof (induction v arbitrary: d)
  case (CArray xs)
  then have "\<forall>p\<in>set (map render xs). passes p" by auto
  from scan_join [OF this, of 93] show ?case by (simp add: passes_def scan_mark)
next
  case (CObject kvs)
  have "passes (write_string (fst e) @ [58] @ render (snd e))" if "e \<in> set kvs" for e
    using CObject.IH [of e "snd e" "d + 1"] CObject.prems that by (auto simp: passes_def snds.simps scan_string scan_mark)
  then have "\<forall>p\<in>set (map (\<lambda>e. write_string (fst e) @ [58] @ render (snd e)) (utf16_sorted kvs)). passes p" by simp
  from scan_join [OF this, of 125] show ?case by (simp add: passes_def scan_mark)
next
  case (CInteger i)
  then show ?case by (simp add: passes_def scan_integer)
next
  case (CString s)
  then show ?case by (simp add: passes_def scan_string)
qed (simp_all add: passes_def lit_words lexemes_ok_simps is_ascii_digit_def)

lemma validate_number_lexemes_render: "fits nfc 0 v \<Longrightarrow> validate_number_lexemes (render v) = Inr ()"
  using scan_render [of nfc 0 v] unfolding passes_def validate_number_lexemes_def
  by (metis append_Nil2 lexemes_ok_simps(1) stop_simps(1))

end
