(* ===== verification/Canonical_Properties.thy ===== *)
theory Canonical_Properties
  imports Canonical_Reader
begin

section \<open>Properties of canonical contract bytes\<close>

text \<open>
  A canonical document determines its value, reading it back returns it, what strict parsing returns is
  in normal form and within the profile's bounds, and a typed contract has one accepted encoding.
\<close>

lemma render_no_bom: "take 3 (render v) \<noteq> [239, 187, 191]"
proof
  assume "take 3 (render v) = [239, 187, 191]"
  then have "hd (take 3 (render v)) = 239" by simp
  then have h: "hd (render v) = 239" by simp
  have "kind_byte v \<noteq> 239" by (cases v) (simp_all add: kind_byte_def)
  with render_kind [of v] h show False by (simp add: is_ascii_digit_def)
qed

lemma parse_strict_render:
  assumes "wf_canonical v" and "canonical_bytes nfc v = Inr b" and "de b = Some (raw_of v)"
  shows "parse_strict nfc de b = Inr \<lparr>doc_value = v, doc_bytes = b\<rparr>"
proof -
  have b: "fits nfc 0 v" "nodes_of v \<le> MAX_NODES" "length (render v) \<le> MAX_OUTPUT_BYTES" "b = render v"
    using assms(2) unfolding canonical_bytes_iff by simp_all
  have "strict_visit nfc (raw_of v) 0 0 = Inr (v, nodes_of v)"
    using strict_visit_raw_of [OF assms(1) b(1), of 0] b(2) by simp
  moreover have "validate_number_lexemes b = Inr ()" using validate_number_lexemes_render b by simp
  ultimately show ?thesis
    using assms(2,3) b(3) render_no_bom [of v] unfolding b(4)
    by (simp add: parse_strict_def as_invalid_json_def)
qed

lemma require_canonical_render:
  assumes "wf_canonical v" and "canonical_bytes nfc v = Inr b" and "de b = Some (raw_of v)"
  shows "require_canonical nfc de b = Inr \<lparr>doc_value = v, doc_bytes = b\<rparr>"
  using parse_strict_render [where de = de, OF assms] by (simp add: require_canonical_def)

lemma parse_strict_Inr:
  assumes "parse_strict nfc de input = Inr doc"
  shows "\<exists>raw n. de input = Some raw \<and> strict_visit nfc raw 0 0 = Inr (doc_value doc, n)
    \<and> canonical_bytes nfc (doc_value doc) = Inr (doc_bytes doc) \<and> length input \<le> MAX_INPUT_BYTES"
proof -
  obtain raw v n where "de input = Some raw" "as_invalid_json (strict_visit nfc raw 0 0) = Inr (v, n)" "length input \<le> MAX_INPUT_BYTES"
    "try_then (canonical_bytes nfc v) (\<lambda>bytes. Inr \<lparr>doc_value = v, doc_bytes = bytes\<rparr>) = Inr doc"
    using assms unfolding parse_strict_def by (auto simp: res_simps split: if_splits)
  moreover from this(2) have "strict_visit nfc raw 0 0 = Inr (v, n)" by (auto simp: as_invalid_json_def split: sum.splits)
  ultimately show ?thesis by (auto simp: res_simps)
qed

lemma parse_strict_normal:
  assumes "parse_strict nfc de input = Inr doc" and "de input = Some raw" and "raw_scalars raw"
    and "de (doc_bytes doc) = Some (raw_of (doc_value doc))"
  shows "require_canonical nfc de (doc_bytes doc) = Inr doc"
proof -
  obtain n where "strict_visit nfc raw 0 0 = Inr (doc_value doc, n)"
    and b: "canonical_bytes nfc (doc_value doc) = Inr (doc_bytes doc)"
    using parse_strict_Inr [OF assms(1)] assms(2) by auto
  then have "wf_canonical (doc_value doc)" using strict_visit_sound assms(3) by blast
  from require_canonical_render [where de = de, OF this b assms(4)] show ?thesis by simp
qed

subsection \<open>A document\<close>

definition sample_value :: canonical_value where
  "sample_value = CObject [([97], CArray [CInteger (-7), CString [34, 233], CBool True]), ([98], CNull)]"

definition sample_reader :: "byte list \<Rightarrow> raw_json option" where
  "sample_reader b = (if b = render sample_value then Some (raw_of sample_value) else None)"

lemma sample_wf: "wf_canonical sample_value"
  by (simp add: sample_value_def scalar_def)

lemma sample_sorted: "utf16_sorted [([97], x), ([98], y)] = [([97], x), ([98], y)]"
  by (simp add: utf16_sorted_def encode_utf16_def)

lemma sample_number: "lit (show_int (- 7)) = [45, 55]"
  by (simp add: lit_show_int) (simp add: show_nat.simps lit_def of_char_mod_256)

lemma sample_render: "render sample_value
    = [123, 34, 97, 34, 58, 91, 45, 55, 44, 34, 92, 34, 195, 169, 34, 44, 116, 114, 117, 101, 93, 44, 34, 98, 34, 58, 110, 117, 108, 108, 125]"
  by (simp add: sample_value_def sample_sorted write_string_def write_char_def encode_utf8_def lit_words sample_number)

lemma sample_bytes: "canonical_bytes id sample_value = Inr (render sample_value)"
  unfolding canonical_bytes_iff
  by (simp add: sample_render) (simp add: sample_value_def validate_string_def utf8_len_def utf8_char_len_def is_forbidden_scalar_def
      is_control_def safe_integer_def)

lemma sample_scalars: "raw_scalars (raw_of sample_value)"
  by (simp add: sample_value_def sample_sorted scalar_def)

lemma sample_read: "sample_reader (render sample_value) = Some (raw_of sample_value)"
  by (simp add: sample_reader_def)

lemma sample_parse: "parse_strict id sample_reader (render sample_value) = Inr \<lparr>doc_value = sample_value, doc_bytes = render sample_value\<rparr>"
  by (rule parse_strict_render [where de = sample_reader, OF sample_wf sample_bytes sample_read])

subsection \<open>Properties\<close>

text \<open>C21: two values with the same canonical bytes are equal, so a digest over canonical bytes
  commits to the value: escapes, member order, nesting and numbers cannot be confused.\<close>

theorem canonical_bytes_inject:
  assumes "wf_canonical v" and "wf_canonical w" and "canonical_bytes nfc v = Inr b" and "canonical_bytes nfc w = Inr c"
  shows "b = c \<longleftrightarrow> v = w"
  using render_inject [OF assms(1,2)] assms(3,4) unfolding canonical_bytes_iff by blast

theorem canonical_bytes_inject_witness:
  "canonical_bytes id sample_value = Inr (render sample_value) \<and> canonical_bytes id CNull = Inr (render CNull)
    \<and> (render sample_value = render CNull \<longleftrightarrow> sample_value = CNull)"
proof -
  have "canonical_bytes id CNull = Inr (render CNull)" by (simp add: canonical_bytes_iff lit_words)
  with canonical_bytes_inject [OF sample_wf wf_canonical_simps(1) sample_bytes] sample_bytes show ?thesis by blast
qed

text \<open>C22: canonical bytes read back as the value they were written from. The JSON reader only has to
  return the syntax tree of the document; the size, byte order mark, number lexeme, depth, node and
  string checks all pass, the members return to key order, and re-emission gives the same bytes.\<close>

theorem canonical_round_trip:
  assumes "wf_canonical v" and "canonical_bytes nfc v = Inr b" and "de b = Some (raw_of v)"
  shows "require_canonical nfc de b = Inr \<lparr>doc_value = v, doc_bytes = b\<rparr>"
  by (rule require_canonical_render [where de = de, OF assms])

theorem canonical_round_trip_witness:
  "require_canonical id sample_reader (render sample_value) = Inr \<lparr>doc_value = sample_value, doc_bytes = render sample_value\<rparr>"
  by (rule canonical_round_trip [where de = sample_reader, OF sample_wf sample_bytes sample_read])

text \<open>C23: what strict parsing accepts is within every bound of the profile and in normal form: at most
  a mebibyte in and out, at most 100000 nodes and 64 levels, only safe integers and clean strings
  (\<open>fits\<close>), no repeated key at any depth, strictly ascending keys, and its bytes are accepted as they are and return the same document.\<close>

theorem strict_parse_normal_form:
  assumes "parse_strict nfc de input = Inr doc" and "de input = Some raw" and "raw_scalars raw"
    and "de (doc_bytes doc) = Some (raw_of (doc_value doc))"
  shows "length input \<le> MAX_INPUT_BYTES \<and> length (doc_bytes doc) \<le> MAX_OUTPUT_BYTES
    \<and> unique_keys raw \<and> fits nfc 0 (doc_value doc) \<and> nodes_of (doc_value doc) \<le> MAX_NODES \<and> wf_canonical (doc_value doc)
    \<and> doc_bytes doc = render (doc_value doc) \<and> require_canonical nfc de (doc_bytes doc) = Inr doc"
  using parse_strict_Inr [OF assms(1)] assms(2,3) strict_visit_sound parse_strict_normal [OF assms]
  unfolding canonical_bytes_iff by fastforce

theorem strict_parse_normal_form_witness:
  "fits id 0 sample_value \<and> nodes_of sample_value \<le> MAX_NODES
    \<and> require_canonical id sample_reader (render sample_value) = Inr \<lparr>doc_value = sample_value, doc_bytes = render sample_value\<rparr>"
  using strict_parse_normal_form [OF sample_parse sample_read sample_scalars] sample_read by simp

text \<open>Typed decoding accepts one byte string per value: two accepted inputs that decode to the
  same contract are the same bytes, and an accepted input is itself a canonical document.\<close>

theorem typed_decoding_unique:
  assumes "decode_typed_canonical nfc de from_slice to_vec i = Inr x" and "decode_typed_canonical nfc de from_slice to_vec j = Inr x"
    and "\<And>b r. de b = Some r \<Longrightarrow> raw_scalars r" and "\<And>v. wf_canonical v \<Longrightarrow> canonical_bytes nfc v = Inr i \<Longrightarrow> de i = Some (raw_of v)"
  shows "i = j \<and> (\<exists>v. require_canonical nfc de i = Inr \<lparr>doc_value = v, doc_bytes = i\<rparr>)"
proof -
  obtain enc doc where p: "parse_strict nfc de enc = Inr doc" "doc_bytes doc = i"
    using assms(1) by (auto simp: decode_typed_canonical_def encode_canonical_def res_simps split: if_splits)
  then obtain raw n where "de enc = Some raw" "strict_visit nfc raw 0 0 = Inr (doc_value doc, n)"
    and b: "canonical_bytes nfc (doc_value doc) = Inr i"
    using parse_strict_Inr by blast
  then have "wf_canonical (doc_value doc)" using strict_visit_sound assms(3) by blast
  with require_canonical_render [where de = de, OF _ b] assms(4) b have "require_canonical nfc de i = Inr \<lparr>doc_value = doc_value doc, doc_bytes = i\<rparr>" by blast
  moreover have "i = j" using assms(1,2) by (auto simp: decode_typed_canonical_def res_simps split: if_splits)
  ultimately show ?thesis by blast
qed

theorem typed_decoding_unique_witness:
  "decode_typed_canonical id sample_reader (\<lambda>_. Some ()) (\<lambda>_. Some (render sample_value)) (render sample_value) = Inr ()
    \<and> (\<exists>v. require_canonical id sample_reader (render sample_value) = Inr \<lparr>doc_value = v, doc_bytes = render sample_value\<rparr>)"
proof -
  have d: "decode_typed_canonical id sample_reader (\<lambda>_. Some ()) (\<lambda>_. Some (render sample_value)) (render sample_value) = Inr ()"
    by (simp add: decode_typed_canonical_def decode_strict_def encode_canonical_def sample_parse)
  have s: "raw_scalars r" if "sample_reader b = Some r" for b r
    using that sample_scalars by (auto simp: sample_reader_def scalar_def split: if_splits)
  have c: "sample_reader (render sample_value) = Some (raw_of v)" if "wf_canonical v" "canonical_bytes id v = Inr (render sample_value)" for v
  proof -
    have "render sample_value = render v" using that(2) unfolding canonical_bytes_iff by blast
    then have "v = sample_value" by (intro render_inject [OF that(1) sample_wf]) (rule sym)
    then show ?thesis using sample_read by (simp only:)
  qed
  from typed_decoding_unique [OF d d s c] d show ?thesis by simp
qed

end
