(* ===== verification/Contract_Properties.thy ===== *)
theory Contract_Properties
  imports Discrepancy_Laws Canonical_Properties
begin

section \<open>Properties of the memory contracts\<close>

text \<open>
  Digest preimages, packages, resource identities and the replay of discrepancies. The example
  environment hashes by the identity, so digests have no collisions, and reads three JSON literals.
\<close>

subsection \<open>An example environment\<close>

definition demo_contracts :: contract_env where
  "demo_contracts = \<lparr>ce_nfc = id,
     ce_read = (\<lambda>b. if b = render CNull then Some RNull else if b = render (CBool True) then Some (RBool True)
       else if b = render (CBool False) then Some (RBool False) else None),
     ce_sha = id, ce_instant = (\<lambda>_. None), ce_render = (\<lambda>_. [])\<rparr>"

lemma demo_contracts_sel: "ce_nfc demo_contracts = id" "ce_sha demo_contracts = id"
  by (simp_all add: demo_contracts_def)

lemma demo_contracts_read:
  "ce_read demo_contracts (render CNull) = Some (raw_of CNull)"
  "ce_read demo_contracts (render (CBool b)) = Some (raw_of (CBool b))"
  by (simp_all add: demo_contracts_def lit_words)

lemma demo_parse:
  assumes "v \<in> {CNull, CBool True, CBool False}"
  shows "parse_strict id (ce_read demo_contracts) (render v) = Inr \<lparr>doc_value = v, doc_bytes = render v\<rparr>"
proof (rule parse_strict_render [where de = "ce_read demo_contracts"])
  show "canonical_bytes id v = Inr (render v)" using assms unfolding canonical_bytes_iff by (auto simp: lit_words)
  show "ce_read demo_contracts (render v) = Some (raw_of v)" using assms demo_contracts_read by blast
qed (use assms in auto)

text \<open>The codec of a schema with at most two values.\<close>

definition pair_codec :: "'a \<Rightarrow> 'a \<Rightarrow> 'a codec" where
  "pair_codec x y = \<lparr>to_vec = (\<lambda>z. if z = x then Some (render (CBool True)) else if z = y then Some (render (CBool False)) else None),
     from_slice = (\<lambda>b. if b = render (CBool True) then Some x else if b = render (CBool False) then Some y else None)\<rparr>"

lemma pair_codec_encode:
  "encode_typed demo_contracts (pair_codec x y) z = (if z = x then Inr (render (CBool True))
     else if z = y then Inr (render (CBool False)) else Inl (Schema ''{error}''))"
  using demo_parse [of "CBool True"] demo_parse [of "CBool False"] by (simp add: encode_canonical_def pair_codec_def demo_contracts_sel)

lemma pair_codec_round_trip: "schema_round_trip demo_contracts (pair_codec x y)"
proof -
  have "render (CBool True) \<noteq> render (CBool False)" by (simp add: lit_words)
  then show ?thesis
    using demo_parse [of "CBool True"] demo_parse [of "CBool False"]
    unfolding schema_round_trip_def pair_codec_encode by (auto simp: decode_strict_def pair_codec_def demo_contracts_sel)
qed

lemma demo_no_collisions: "inj (ce_sha demo_contracts)"
  by (simp add: demo_contracts_sel)

subsection \<open>Digests\<close>

text \<open>C37: a digest's preimage determines its domain and its content: no two domains share a preimage,
  framed parts cannot be regrouped, a framed preimage is never one of another domain, and a body's
  preimage lies in no domain but its own.\<close>

theorem digest_preimages_separated:
  assumes "\<forall>p\<in>set ps. framable p" and "\<forall>q\<in>set qs. framable q" and "length b < 256 ^ 7"
  shows "(domain_preimage d x = domain_preimage e y \<longleftrightarrow> d = e \<and> x = y)
    \<and> (framed_preimage d ps = framed_preimage e qs \<longleftrightarrow> d = e \<and> ps = qs)
    \<and> (framed_preimage d ps = domain_preimage e y \<longrightarrow> d = e)
    \<and> (body_preimage b = domain_preimage e y \<longrightarrow> e = CoreDomain Dom_Body)"
proof (intro conjI impI)
  show "domain_preimage d x = domain_preimage e y \<longleftrightarrow> d = e \<and> x = y" by (rule domain_preimage_inject)
  show "framed_preimage d ps = framed_preimage e qs \<longleftrightarrow> d = e \<and> ps = qs" by (rule framed_preimage_inject [OF assms(1,2)])
  show "d = e" if "framed_preimage d ps = domain_preimage e y"
    using that by (simp add: framed_preimage_def domain_preimage_def separated_inject)
  show "e = CoreDomain Dom_Body" if "body_preimage b = domain_preimage e y"
    using that body_preimage_domain [OF assms(3)] by (simp add: domain_preimage_inject)
qed

theorem digest_preimages_separated_witness:
  "framed_preimage (CoreDomain Dom_Partition) [[97, 98], [99]] \<noteq> framed_preimage (CoreDomain Dom_Partition) [[97], [98, 99]]"
  using digest_preimages_separated [of "[[97, 98], [99]]" "[[97], [98, 99]]" "[]" "CoreDomain Dom_Partition" "[]" "CoreDomain Dom_Partition" "[]"]
  by (simp add: framable_def)

subsection \<open>Packages and resource identities\<close>

text \<open>C38: a package that passed verification resolves every tuple of its manifest to exactly one
  entry, the one at the same position, under the digest the manifest commits to.\<close>

theorem verified_package_resolves:
  assumes "verified_package_new en ec pc package profile = Inr vp" and "i < length (rp_manifest package)"
  shows "exact_referenced_entry en ec (vp_package vp) (rm_kind (rp_manifest package ! i))
      \<lparr>rr_entry_id = rm_entry_id (rp_manifest package ! i), rr_version = rm_version (rp_manifest package ! i),
       rr_entry_digest = rm_entry_digest (rp_manifest package ! i)\<rparr> = Inr (rp_entries package ! i)"
proof -
  let ?e = "rp_entries package ! i" and ?m = "rp_manifest package ! i"
  have v: "validate_package en ec package profile = Inr ()" and p: "vp_package vp = package"
    using assms(1) by (auto simp: verified_package_new_def res_simps)
  have i: "i < length (rp_entries package)" using validate_package_Inr(1) [OF v] assms(2) by simp
  then have "(?e, ?m) \<in> set (zip (rp_entries package) (rp_manifest package))" using assms(2) by (auto simp: set_zip)
  with validate_package_Inr(3) [OF v] have "check_manifest_pair en ec (?e, ?m) = Inr ()" by blast
  then have m: "re_kind ?e = rm_kind ?m" "re_entry_id ?e = rm_entry_id ?m" "re_version ?e = rm_version ?m"
    "entry_digest en ec ?e = Inr (rm_entry_digest ?m)"
    by (auto simp: check_manifest_pair_def res_simps split: if_splits)
  have "exact_entry package (re_kind ?e) (re_entry_id ?e) (re_version ?e) = Inr ?e"
    by (rule exact_entry_found [OF validate_package_Inr(2) [OF v]]) (use i in simp)
  then show ?thesis using m p by (simp add: exact_referenced_entry_def)
qed

definition demo_entry :: registry_entry where
  "demo_entry = \<lparr>re_schema_version = 1, re_kind = KindEvidenceSchema, re_entry_id = [97], re_version = 1, re_entry_schema_id = [97],
     re_entry_schema_version = 1, re_body = CObject [], re_positive_vector_digest = [], re_negative_vector_digest = []\<rparr>"

definition demo_package :: registry_package where
  "demo_package = \<lparr>rp_schema_version = 1, rp_profile = frozen_profile_reference, rp_entries = [demo_entry],
     rp_manifest = [\<lparr>rm_kind = KindEvidenceSchema, rm_entry_id = [97], rm_version = 1,
       rm_entry_digest = domain_preimage (CoreDomain Dom_RegistryEntry) (render (CBool True))\<rparr>],
     rp_positive_vector_suite_digest = [], rp_negative_vector_suite_digest = []\<rparr>"

lemma demo_entry_valid: "validate_entry demo_contracts demo_entry = Inr ()"
proof -
  have "canonical_bytes id (CObject []) = Inr (render (CObject []))" by (simp add: canonical_bytes_iff utf16_sorted_def)
  then show ?thesis by (simp add: validate_entry_def demo_entry_def as_object_def demo_contracts_sel)
qed

lemma demo_package_verified:
  "verified_package_new demo_contracts (pair_codec demo_entry demo_entry) (pair_codec demo_package demo_package) demo_package frozen_profile_reference
    = Inr \<lparr>vp_package = demo_package, vp_canonical_bytes = render (CBool True),
        vp_package_digest = domain_preimage (CoreDomain Dom_RegistryPackage) (render (CBool True))\<rparr>"
proof -
  have d: "entry_digest demo_contracts (pair_codec demo_entry demo_entry) demo_entry
      = Inr (domain_preimage (CoreDomain Dom_RegistryEntry) (render (CBool True)))"
    by (simp add: entry_digest_def entry_canonical_bytes_def demo_entry_valid pair_codec_encode domain_separated_digest_def demo_contracts_sel(2))
  have "check_manifest_pair demo_contracts (pair_codec demo_entry demo_entry) (demo_entry, hd (rp_manifest demo_package)) = Inr ()"
    unfolding check_manifest_pair_def using d by (simp add: demo_package_def demo_entry_def)
  then have "validate_package demo_contracts (pair_codec demo_entry demo_entry) demo_package frozen_profile_reference = Inr ()"
    using demo_entry_valid
    by (simp add: validate_package_def demo_package_def frozen_profile_reference_def validate_profile_def strictly_sorted_def)
  then show ?thesis by (simp add: verified_package_new_def pair_codec_encode domain_separated_digest_def demo_contracts_sel(2))
qed

theorem verified_package_resolves_witness:
  "exact_referenced_entry demo_contracts (pair_codec demo_entry demo_entry) demo_package KindEvidenceSchema
     \<lparr>rr_entry_id = [97], rr_version = 1, rr_entry_digest = domain_preimage (CoreDomain Dom_RegistryEntry) (render (CBool True))\<rparr>
   = Inr demo_entry"
  using verified_package_resolves [OF demo_package_verified, of 0] by (simp add: demo_package_def)

text \<open>C39: a resource URI has one wire form: parsing accepts exactly the printed form of a URI with a valid
  kind and a 32-byte digest, and returns that URI.\<close>

theorem uri_wire_form:
  "parse_uri en s = Inr u \<longleftrightarrow> s = show_uri u \<and> new_contract_id en (ru_resource_kind u) = Inr (ru_resource_kind u)
     \<and> parse_digest (to_hex (ru_digest u)) = Inr (ru_digest u)"
  unfolding parse_uri_iff parse_digest_iff by (auto simp: new_contract_id_def res_simps)

definition demo_reference :: registry_reference where
  "demo_reference = \<lparr>rr_entry_id = [97], rr_version = 1, rr_entry_digest = []\<rparr>"

definition demo_recipe :: validated_recipe where
  "demo_recipe = \<lparr>vr_recipe = \<lparr>ir_schema_version = 1, ir_recipe_id = [97], ir_version = 1, ir_resource_kind = [98],
       ir_identity_form = EntityForm, ir_authority_namespace = demo_reference, ir_resource_kind_schema = demo_reference,
       ir_component_rules = [\<lparr>cr_key = [107], cr_encoding = NfcUtf8Encoding\<rparr>]\<rparr>,
     vr_registry_reference = demo_reference, vr_profile = frozen_profile_reference, vr_authority_namespace_id = [110],
     vr_parent_entity_kind = None\<rparr>"

definition demo_project_scope :: "nat \<Rightarrow> project_scope" where
  "demo_project_scope c = \<lparr>ps_tenant_namespace = [c], ps_project_namespace = [112]\<rparr>"

definition demo_locator :: "nat \<Rightarrow> canonical_locator" where
  "demo_locator c = \<lparr>lo_schema_version = 1, lo_profile = frozen_profile_reference, lo_scope = demo_project_scope c, lo_identity_form = EntityForm,
     lo_resource_kind = [98], lo_recipe = demo_reference, lo_provider_instance_namespace = [110], lo_parent_entity = None,
     lo_components = [\<lparr>lc_key = [107], lc_encoding = NfcUtf8Encoding, lc_value = [118]\<rparr>]\<rparr>"

lemma demo_locator_valid:
  "validate_locator demo_contracts (context_of_recipe demo_recipe (demo_project_scope c)) (demo_locator c) demo_recipe None = Inr ()"
proof -
  have "validate_locator_identity (context_of_recipe demo_recipe (demo_project_scope c)) (demo_locator c) demo_recipe = Inr ()"
    by (simp add: validate_locator_identity_def demo_locator_def demo_recipe_def context_of_recipe_def frozen_profile_reference_def
        validate_profile_def validate_registry_reference_def demo_reference_def validate_recipe_def strictly_sorted_by_key_def strictly_sorted_def)
  moreover have "validate_locator_components demo_contracts (demo_locator c) demo_recipe = Inr ()"
    by (simp add: validate_locator_components_def demo_locator_def demo_recipe_def check_component_def validate_locator_component_def
        utf8_len_def utf8_char_len_def is_control_def demo_contracts_sel)
  ultimately show ?thesis
    by (simp add: validate_locator_def parent_accepted_def demo_locator_def)
qed

definition demo_derived :: "nat \<Rightarrow> bool \<Rightarrow> derived_identity" where
  "demo_derived c b = \<lparr>di_uri = \<lparr>ru_identity_form = EntityForm, ru_resource_kind = [98],
       ru_digest = domain_preimage (CoreDomain Dom_ResourceLocator) (render (CBool b))\<rparr>,
     di_scope = demo_project_scope c, di_provider_instance_namespace = [110], di_resource_kind_schema = demo_reference\<rparr>"

lemma demo_locators_differ: "demo_locator 97 \<noteq> demo_locator 98"
  by (simp add: demo_locator_def demo_project_scope_def)

lemma demo_derivation:
  assumes "(c, b) \<in> {(97, True), (98, False)}"
  shows "derive_resource_uri demo_contracts (pair_codec (demo_locator 97) (demo_locator 98)) (context_of_recipe demo_recipe (demo_project_scope c))
    (demo_locator c) demo_recipe None = Inr (demo_derived c b)"
proof -
  have "encode_typed demo_contracts (pair_codec (demo_locator 97) (demo_locator 98)) (demo_locator c) = Inr (render (CBool b))"
    using assms demo_locators_differ unfolding pair_codec_encode by auto
  then show ?thesis
    unfolding derive_resource_uri_def demo_locator_valid
    by (simp add: mint_derived_identity_def demo_derived_def demo_recipe_def context_of_recipe_def domain_separated_digest_def
        demo_contracts_sel(2) demo_locator_def [of c])
qed

lemma accepted_parent:
  assumes "parent_accepted ctx lo vr parent"
  shows "lo_parent_entity lo = map_option di_uri parent" and "lo_identity_form lo = VersionForm \<longleftrightarrow> parent \<noteq> None"
    and "parent = Some p \<Longrightarrow> ru_identity_form (di_uri p) = EntityForm \<and> di_scope p = dc_scope ctx
      \<and> di_provider_instance_namespace p = dc_provider_instance_namespace ctx \<and> vr_parent_entity_kind vr = Some (di_resource_kind_schema p)"
  using assms unfolding parent_accepted_def
  by (auto split: identity_form.splits option.splits)

lemma accepted_components:
  assumes "validate_locator_components en lo vr = Inr ()"
  shows "map lc_key (lo_components lo) = map cr_key (ir_component_rules (vr_recipe vr))"
    and "map lc_encoding (lo_components lo) = map cr_encoding (ir_component_rules (vr_recipe vr))"
proof -
  let ?cs = "lo_components lo" and ?rs = "ir_component_rules (vr_recipe vr)"
  have len: "length ?cs = length ?rs" and all: "\<forall>p\<in>set (zip ?cs ?rs). check_component en p = Inr ()"
    using assms by (auto simp: validate_locator_components_def try_fold_unit list_all_iff split: if_splits)
  have "list_all2 (\<lambda>c r. lc_key c = cr_key r \<and> lc_encoding c = cr_encoding r) ?cs ?rs"
    using len all unfolding list_all2_iff by (auto simp: check_component_def res_simps split: if_splits)
  then show "map lc_key ?cs = map cr_key ?rs" "map lc_encoding ?cs = map cr_encoding ?rs"
    by (induction rule: list_all2_induct) simp_all
qed

lemma component_list_eqI:
  "map lc_key cs = map lc_key ds \<Longrightarrow> map lc_encoding cs = map lc_encoding ds \<Longrightarrow> map lc_value cs = map lc_value ds \<Longrightarrow> cs = (ds :: locator_component list)"
proof (induction cs arbitrary: ds)
  case (Cons c cs)
  then show ?case by (cases ds) (auto intro: locator_component.equality)
qed simp

text \<open>C40: a derived URI identifies its coordinates. Under a digest without collisions two locators accepted for one
  recipe get one URI exactly when they have the same scope, the same parent and the same component values: every
  other field is pinned by the recipe. A parent is named exactly by versions; it is an entity of the kind the recipe
  names, of the same scope and provider namespace as the version.\<close>

theorem derived_uri_identifies_locator:
  assumes "inj (ce_sha en)" and "schema_round_trip en lc"
    and "derive_resource_uri en lc ctx lo vr parent = Inr i" and "derive_resource_uri en lc ctx' lo' vr parent' = Inr j"
  shows "(di_uri i = di_uri j \<longleftrightarrow> dc_scope ctx = dc_scope ctx' \<and> map_option di_uri parent = map_option di_uri parent'
        \<and> map lc_value (lo_components lo) = map lc_value (lo_components lo'))
    \<and> (ru_identity_form (di_uri i) = VersionForm \<longleftrightarrow> parent \<noteq> None)
    \<and> (\<forall>p. parent = Some p \<longrightarrow> ru_identity_form (di_uri p) = EntityForm \<and> di_scope p = di_scope i
        \<and> di_provider_instance_namespace p = di_provider_instance_namespace i \<and> vr_parent_entity_kind vr = Some (di_resource_kind_schema p))"
proof -
  have valid: "validate_locator_identity c l vr = Inr ()" "parent_accepted c l vr p" "validate_locator_components en l vr = Inr ()"
      "mint_derived_identity en lc c l vr = Inr x"
    if "derive_resource_uri en lc c l vr p = Inr x" for c l p x
    using that by (auto simp: derive_resource_uri_def validate_locator_def res_simps split: if_splits)
  have pinned: "lo_schema_version l = IDENTITY_SCHEMA_VERSION" "lo_profile l = vr_profile vr" "lo_identity_form l = ir_identity_form (vr_recipe vr)"
      "lo_resource_kind l = ir_resource_kind (vr_recipe vr)" "lo_recipe l = vr_registry_reference vr"
      "lo_provider_instance_namespace l = vr_authority_namespace_id vr" "lo_scope l = dc_scope c"
    if "derive_resource_uri en lc c l vr p = Inr x" for c l p x
    using valid(1) [OF that] by (auto simp: validate_locator_identity_def res_simps split: if_splits)
  note p = accepted_parent [OF valid(2) [OF assms(3)]] and p' = accepted_parent [OF valid(2) [OF assms(4)]]
  note c = accepted_components [OF valid(3) [OF assms(3)]] accepted_components [OF valid(3) [OF assms(4)]]
  have "lo = lo' \<longleftrightarrow> dc_scope ctx = dc_scope ctx' \<and> map_option di_uri parent = map_option di_uri parent'
      \<and> map lc_value (lo_components lo) = map lc_value (lo_components lo')"
  proof
    assume "lo = lo'"
    then show "dc_scope ctx = dc_scope ctx' \<and> map_option di_uri parent = map_option di_uri parent'
      \<and> map lc_value (lo_components lo) = map lc_value (lo_components lo')"
      using pinned(7) [OF assms(3)] pinned(7) [OF assms(4)] p(1) p'(1) by simp
  next
    assume same: "dc_scope ctx = dc_scope ctx' \<and> map_option di_uri parent = map_option di_uri parent'
      \<and> map lc_value (lo_components lo) = map lc_value (lo_components lo')"
    then have "lo_components lo = lo_components lo'" using c by (intro component_list_eqI) simp_all
    then show "lo = lo'"
      using same p(1) p'(1) pinned [OF assms(3)] pinned [OF assms(4)] by (intro canonical_locator.equality) simp_all
  qed
  moreover have "di_uri i = di_uri j \<longleftrightarrow> lo = lo'"
    by (rule mint_determines [OF assms(1,2) valid(4) [OF assms(3)] valid(4) [OF assms(4)]])
  moreover have "di_scope i = dc_scope ctx" "di_provider_instance_namespace i = dc_provider_instance_namespace ctx"
      "ru_identity_form (di_uri i) = lo_identity_form lo"
    using valid(4) [OF assms(3)] by (auto simp: mint_derived_identity_def res_simps)
  ultimately show ?thesis using p(2,3) by simp
qed

theorem derived_uri_identifies_locator_witness: "di_uri (demo_derived 97 True) \<noteq> di_uri (demo_derived 98 False)"
proof -
  have "dc_scope (context_of_recipe demo_recipe (demo_project_scope 97)) \<noteq> dc_scope (context_of_recipe demo_recipe (demo_project_scope 98))"
    by (simp add: context_of_recipe_def demo_project_scope_def)
  then show ?thesis
    using derived_uri_identifies_locator [OF demo_no_collisions pair_codec_round_trip demo_derivation [of 97 True] demo_derivation [of 98 False]]
    by blast
qed

end
