(* ===== verification/Coverage_Properties.thy ===== *)
theory Coverage_Properties
  imports Coverage_Laws Contract_Properties
begin

section \<open>Properties of coverage\<close>

text \<open>
  The union of observed intervals, the verdicts on a target, the cursors after any accepted
  observations, and what an admissible negative rests on. The example delivers the two halves of a
  range in two observations.
\<close>

subsection \<open>The union of intervals\<close>

text \<open>C24: inserting a proper interval into a valid vector gives the one valid vector whose sequences are
  the old ones and those of the interval, and reports redundant exactly when there was nothing to add.\<close>

theorem insertion_is_union:
  assumes "validate_range r = Inr ()" and "iv_start i < iv_end i"
  shows "\<exists>q. insert_interval i r = Inr (if extent i \<subseteq> points r then Redundant else Extended, q)
    \<and> validate_range q = Inr () \<and> points q = points r \<union> extent i
    \<and> (\<forall>q'. validate_range q' = Inr () \<and> points q' = points q \<longrightarrow> q' = q)"
proof -
  have "separated r" "proper i" using assms by (simp_all add: validate_range_iff proper_def)
  then obtain q where "insert_interval i r = Inr (if extent i \<subseteq> points r then Redundant else Extended, q)"
      "separated q" "points q = points r \<union> extent i" by (rule insert_interval_points)
  then show ?thesis using separated_unique by (auto simp: validate_range_iff)
qed

abbreviation iv :: "u64 \<Rightarrow> u64 \<Rightarrow> sequence_interval" where
  "iv s e \<equiv> \<lparr>iv_start = s, iv_end = e\<rparr>"

theorem insertion_is_union_witness:
  "insert_interval (iv 3 7) [iv 0 3, iv 9 12] = Inr (Extended, [iv 0 7, iv 9 12])
   \<and> points [iv 0 7, iv 9 12] = points [iv 0 3, iv 9 12] \<union> extent (iv 3 7)"
proof -
  have i: "insert_interval (iv 3 7) [iv 0 3, iv 9 12] = Inr (Extended, [iv 0 7, iv 9 12])"
    by (simp add: insert_interval_def covers_def coalesce_step_def coalesce_finish_def)
  have "validate_range [iv 0 3, iv 9 12] = Inr ()" "iv_start (iv 3 7) < iv_end (iv 3 7)"
    by (simp_all add: validate_range_def)
  from insertion_is_union [OF this] i show ?thesis by auto
qed

text \<open>C25: on a valid vector and a proper target, the completeness is complete exactly when every sequence
  of the target was observed and unknown exactly when none was; the range is contiguous exactly when
  what was observed of the target has no hole; and a reported gap is the first maximal hole, with
  observed sequences on both sides.\<close>

theorem coverage_verdicts_exact:
  assumes "validate_range r = Inr ()" and "iv_start t < iv_end t"
  shows "(completeness_over r t = Complete \<longleftrightarrow> extent t \<subseteq> points r)
    \<and> (completeness_over r t = Unknown \<longleftrightarrow> extent t \<inter> points r = {})
    \<and> (continuity_over r t = Contiguous \<longleftrightarrow> (\<forall>p\<in>points r \<inter> extent t. \<forall>q\<in>points r \<inter> extent t. {p..q} \<subseteq> points r))
    \<and> (\<forall>g. continuity_over r t = GapDetected g \<longrightarrow> (\<exists>a b. g = Some \<lparr>gap_after = ProviderSequence a, gap_before = ProviderSequence b\<rparr>
        \<and> a < b \<and> {a..<b} \<subseteq> extent t - points r \<and> b \<in> points r \<inter> extent t
        \<and> (\<exists>p\<in>points r \<inter> extent t. p < a) \<and> (\<forall>p\<in>points r \<inter> extent t. p < a \<longrightarrow> {p..<a} \<subseteq> points r)))"
proof (intro conjI allI impI)
  have s: "separated r" and p: "proper t" using assms by (simp_all add: validate_range_iff proper_def)
  have "extent t \<noteq> {}" using p by (auto simp: extent_def proper_def)
  then show "completeness_over r t = Complete \<longleftrightarrow> extent t \<subseteq> points r"
    "completeness_over r t = Unknown \<longleftrightarrow> extent t \<inter> points r = {}"
    using completeness_over_exact [OF s p] by auto
  show "continuity_over r t = Contiguous \<longleftrightarrow> (\<forall>p\<in>points r \<inter> extent t. \<forall>q\<in>points r \<inter> extent t. {p..q} \<subseteq> points r)"
    by (rule continuity_over_contiguous [OF s])
  fix g assume "continuity_over r t = GapDetected g"
  from s this show "\<exists>a b. g = Some \<lparr>gap_after = ProviderSequence a, gap_before = ProviderSequence b\<rparr>
        \<and> a < b \<and> {a..<b} \<subseteq> extent t - points r \<and> b \<in> points r \<inter> extent t
        \<and> (\<exists>p\<in>points r \<inter> extent t. p < a) \<and> (\<forall>p\<in>points r \<inter> extent t. p < a \<longrightarrow> {p..<a} \<subseteq> points r)"
  proof (rule continuity_over_gap)
    fix a b
    assume g: "g = Some \<lparr>gap_after = ProviderSequence a, gap_before = ProviderSequence b\<rparr>" "a < b"
      and hole: "{a..<b} \<subseteq> extent t" "{a..<b} \<inter> points r = {}" and sides: "b \<in> points r \<inter> extent t" "\<exists>p\<in>points r \<inter> extent t. p < a"
      "\<forall>p\<in>points r \<inter> extent t. p < a \<longrightarrow> {p..<a} \<subseteq> points r"
    have "{a..<b} \<subseteq> extent t - points r" using hole by blast
    with g sides show ?thesis by (intro exI [of _ a] exI [of _ b]) simp
  qed
qed

theorem coverage_verdicts_exact_witness:
  "completeness_over [iv 0 3, iv 5 12] (iv 1 10) = Partial
   \<and> continuity_over [iv 0 3, iv 5 12] (iv 1 10) = GapDetected (Some \<lparr>gap_after = ProviderSequence 3, gap_before = ProviderSequence 5\<rparr>)
   \<and> {3..<5} \<inter> points [iv 0 3, iv 5 12] = {}"
proof -
  have c: "completeness_over [iv 0 3, iv 5 12] (iv 1 10) = Partial"
    "continuity_over [iv 0 3, iv 5 12] (iv 1 10) = GapDetected (Some \<lparr>gap_after = ProviderSequence 3, gap_before = ProviderSequence 5\<rparr>)"
    by (simp_all add: completeness_over_def continuity_over_def)
  have "validate_range [iv 0 3, iv 5 12] = Inr ()" "iv_start (iv 1 10) < iv_end (iv 1 10)"
    by (simp_all add: validate_range_def)
  from coverage_verdicts_exact [OF this] c show ?thesis by auto
qed

subsection \<open>An example run\<close>

abbreviation "instant_a \<equiv> lit ''2026-08-14T00:00:00.000000000Z''"
abbreviation "instant_b \<equiv> lit ''2026-08-15T00:00:00.000000000Z''"

definition demo_reference :: registry_reference where
  "demo_reference = \<lparr>rr_entry_id = lit ''rule'', rr_version = 1, rr_entry_digest = replicate 32 7\<rparr>"

definition demo_coverage_scope :: coverage_scope where
  "demo_coverage_scope = \<lparr>cs_scope = \<lparr>ru_identity_form = EntityForm, ru_resource_kind = lit ''repository'', ru_digest = replicate 32 1\<rparr>,
     cs_revision = [34], cs_window = \<lparr>cw_start = instant_a, cw_end = instant_b\<rparr>\<rparr>"

definition demo_observation :: "string \<Rightarrow> sequence_interval \<Rightarrow> coverage_observation" where
  "demo_observation name observed = \<lparr>ob_connector_instance = lit name,
     ob_producer = \<lparr>pi_schema_version = 1, pi_kind = Connector, pi_producer_id = lit ''git'', pi_version = 1\<rparr>,
     ob_scope = demo_coverage_scope, ob_target = iv 0 10, ob_observed = observed,
     ob_freshness = \<lparr>fr_state = Current, fr_freshness_rule = demo_reference\<rparr>,
     ob_proof_basis = \<lparr>pb_method = EnumeratedSnapshot, pb_proof_method_registration = demo_reference\<rparr>,
     ob_source_digest = replicate 32 2, ob_source_count = 3, ob_evidence_id = replicate 32 3, ob_observed_through = instant_b\<rparr>"

definition demo_receipt_of :: "coverage_completeness \<Rightarrow> u64 \<Rightarrow> coverage_receipt" where
  "demo_receipt_of completeness watermark = \<lparr>cr_schema_version = 1,
     cr_producer = \<lparr>pi_schema_version = 1, pi_kind = Connector, pi_producer_id = lit ''git'', pi_version = 1\<rparr>,
     cr_scope = demo_coverage_scope, cr_watermark = ProviderSequence watermark, cr_completeness = completeness,
     cr_freshness = \<lparr>fr_state = Current, fr_freshness_rule = demo_reference\<rparr>, cr_continuity = Contiguous,
     cr_observed_through = instant_b,
     cr_proof_basis = \<lparr>pb_method = EnumeratedSnapshot, pb_proof_method_registration = demo_reference\<rparr>,
     cr_source_digest = replicate 32 2, cr_source_count = 3, cr_evidence_id = replicate 32 3\<rparr>"

definition demo_coverage :: coverage_env where
  "demo_coverage = \<lparr>cv_contract = demo_contracts\<lparr>
       ce_instant := (\<lambda>t. if t = instant_a then Some 0 else if t = instant_b then Some 1 else None),
       ce_render := (\<lambda>n. if n = 0 then instant_a else instant_b)\<rparr>,
     cv_codec = pair_codec (demo_receipt_of Partial 5) (demo_receipt_of Complete 10), cv_range_bytes = (\<lambda>r. 16 + 40 * length r)\<rparr>"

lemma demo_coverage_sel:
  "ce_nfc (cv_contract demo_coverage) = ce_nfc demo_contracts" "ce_read (cv_contract demo_coverage) = ce_read demo_contracts"
  "ce_sha (cv_contract demo_coverage) = id" "cv_codec demo_coverage = pair_codec (demo_receipt_of Partial 5) (demo_receipt_of Complete 10)"
  "cv_range_bytes demo_coverage r = 16 + 40 * length r"
  by (simp_all add: demo_coverage_def demo_contracts_sel)

lemma demo_receipt_encode:
  "encode_typed (cv_contract demo_coverage) (cv_codec demo_coverage) (demo_receipt_of Partial 5) = Inr (render (CBool True))"
  "encode_typed (cv_contract demo_coverage) (cv_codec demo_coverage) (demo_receipt_of Complete 10) = Inr (render (CBool False))"
proof -
  have "demo_receipt_of Complete 10 \<noteq> demo_receipt_of Partial 5" by (simp add: demo_receipt_of_def)
  then show "encode_typed (cv_contract demo_coverage) (cv_codec demo_coverage) (demo_receipt_of Partial 5) = Inr (render (CBool True))"
    "encode_typed (cv_contract demo_coverage) (cv_codec demo_coverage) (demo_receipt_of Complete 10) = Inr (render (CBool False))"
    by (simp_all only: demo_coverage_sel pair_codec_encode if_True if_False refl simp_thms)
qed

definition demo_rid :: "bool \<Rightarrow> digest" where
  "demo_rid half = domain_preimage (ContractDomain Dom_CoverageReceipt) (render (CBool half))"

lemma demo_receipt_id:
  "receipt_id (cv_contract demo_coverage) (cv_codec demo_coverage) (demo_receipt_of Partial 5) = Inr (demo_rid True)"
  "receipt_id (cv_contract demo_coverage) (cv_codec demo_coverage) (demo_receipt_of Complete 10) = Inr (demo_rid False)"
proof -
  have "validate_coverage_receipt (cv_contract demo_coverage) (cv_codec demo_coverage) (demo_receipt_of c w) = Inr ()"
    if "encode_typed (cv_contract demo_coverage) (cv_codec demo_coverage) (demo_receipt_of c w) = Inr b" for c w b
    using that by (simp add: validate_coverage_receipt_def demo_receipt_of_def validate_producer_def validate_coverage_scope_def
      validate_window_def demo_coverage_scope_def validate_freshness_def validate_proof_basis_def validate_registered_reference_def
      validate_registry_reference_def demo_reference_def ZERO_DIGEST_def lit_def)
  then show "receipt_id (cv_contract demo_coverage) (cv_codec demo_coverage) (demo_receipt_of Partial 5) = Inr (demo_rid True)"
    "receipt_id (cv_contract demo_coverage) (cv_codec demo_coverage) (demo_receipt_of Complete 10) = Inr (demo_rid False)"
    using demo_receipt_encode
    by (simp_all add: receipt_id_def demo_rid_def domain_separated_digest_def demo_coverage_sel(3))
qed

lemma demo_build:
  "build_receipt demo_coverage (demo_observation n (iv 0 5)) [iv 0 5] = Inr (demo_receipt_of Partial 5, demo_rid True)"
  "build_receipt demo_coverage (demo_observation n i) [iv 0 10] = Inr (demo_receipt_of Complete 10, demo_rid False)"
  using demo_receipt_id
  by (simp_all add: build_receipt_def demo_observation_def demo_receipt_of_def completeness_over_def continuity_over_def
      high_watermark_def Let_def lift_contract_def)

definition demo_key :: "string \<Rightarrow> digest" where
  "demo_key name = coverage_key_digest demo_coverage (lit name) demo_coverage_scope (iv 0 10)"

lemma demo_observation_key [simp]: "observation_key demo_coverage (demo_observation n i) = demo_key n"
  by (simp add: observation_key_def demo_observation_def demo_key_def)

definition demo_cursor :: "string \<Rightarrow> observed_range \<Rightarrow> int \<Rightarrow> string \<Rightarrow> bool \<Rightarrow> int \<Rightarrow> cursor_row" where
  "demo_cursor name observed seq completeness half now = \<lparr>cu_key = demo_key name, cu_instance = lit name, cu_observed = observed,
     cu_target_start = 0, cu_target_end = 10, cu_seq = seq, cu_completeness = completeness,
     cu_last_receipt = Some (demo_rid half), cu_updated_at = now\<rparr>"

definition demo_receipt_row :: "string \<Rightarrow> string \<Rightarrow> int \<Rightarrow> bool \<Rightarrow> int \<Rightarrow> receipt_row" where
  "demo_receipt_row name completeness seq half now = \<lparr>rw_receipt_id = demo_rid half, rw_instance = lit name, rw_key = demo_key name,
     rw_completeness = completeness, rw_evidence_id = replicate 32 3, rw_source_digest = replicate 32 2, rw_source_count = 3,
     rw_seq = seq, rw_canonical = render (CBool half), rw_created_at = now\<rparr>"

abbreviation "empty_coverage \<equiv> \<lparr>db_cursors = [], db_receipts = []\<rparr>"

abbreviation "half_coverage \<equiv> \<lparr>db_cursors = [demo_cursor ''a'' [iv 0 5] 1 ''partial'' True 1],
  db_receipts = [demo_receipt_row ''a'' ''partial'' 1 True 1]\<rparr>"

abbreviation "full_coverage \<equiv> \<lparr>db_cursors = [demo_cursor ''a'' [iv 0 10] 2 ''complete'' False 2],
  db_receipts = [demo_receipt_row ''a'' ''partial'' 1 True 1, demo_receipt_row ''a'' ''complete'' 2 False 2]\<rparr>"

lemmas demo_observe_defs = observe_def observe_with_fault_injection_def observe_in_transaction_def record_extension_def
  seed_cursor_def cursor_checks_def decode_cursor_row_def lift_range_def lift_contract_def validate_range_def new_interval_def
  seq_from_i64_def parse_completeness_def insert_interval_def covers_def coalesce_step_def coalesce_finish_def i64_from_seq_def
  insert_receipt_def receipt_checks_def advance_cursor_def advance_row_def is_contiguous_def demo_coverage_sel(5) Let_def

lemma demo_rids: "demo_rid True \<noteq> demo_rid False"
  by (simp add: demo_rid_def domain_preimage_inject lit_words)

lemma demo_observation_sel [simp]:
  "ob_observed (demo_observation n i) = i" "ob_target (demo_observation n i) = iv 0 10" "ob_connector_instance (demo_observation n i) = lit n"
  "ob_evidence_id (demo_observation n i) = replicate 32 3" "ob_source_digest (demo_observation n i) = replicate 32 2"
  "ob_source_count (demo_observation n i) = 3" "ob_scope (demo_observation n i) = demo_coverage_scope"
  by (simp_all add: demo_observation_def)

lemma demo_receipt_sel [simp]:
  "cr_completeness (demo_receipt_of c w) = c" "cr_continuity (demo_receipt_of c w) = Contiguous"
  by (simp_all add: demo_receipt_of_def)

lemma demo_observe_half:
  "observe demo_coverage 1 (demo_observation ''a'' (iv 0 5)) empty_coverage = Inr (Recorded (demo_rid True) Partial False 1, half_coverage)"
  by (simp add: demo_observe_defs demo_build demo_receipt_encode demo_cursor_def demo_receipt_row_def) (simp add: lit_def utf8_len_ascii)

lemma demo_observe_full:
  "observe demo_coverage 2 (demo_observation ''a'' (iv 5 10)) half_coverage = Inr (Recorded (demo_rid False) Complete False 2, full_coverage)"
  using demo_rids
  by (simp add: demo_observe_defs demo_build demo_receipt_encode demo_cursor_def demo_receipt_row_def) (simp add: lit_def utf8_len_ascii)

lemma demo_run:
  "coverage_run demo_coverage [demo_observation ''a'' (iv 0 5), demo_observation ''a'' (iv 5 10)] full_coverage"
  using coverage_run.accept [OF coverage_run.accept [OF coverage_run.fresh demo_observe_half] demo_observe_full] by simp

subsection \<open>Cursors\<close>

text \<open>C26: after any accepted observations there is one cursor per key; its vector is valid and holds
  exactly the sequences delivered under that key, and its recorded completeness is the verdict on them
  against its target.\<close>

theorem cursor_holds_what_was_delivered:
  assumes "coverage_run env h db" and "row \<in> set (db_cursors db)"
  shows "validate_range (cu_observed row) = Inr () \<and> points (cu_observed row) = delivered env h (cu_key row)
    \<and> cu_completeness row = completeness_str (if extent (row_target row) \<subseteq> delivered env h (cu_key row) then Complete
        else if extent (row_target row) \<inter> delivered env h (cu_key row) = {} then Unknown else Partial)
    \<and> (\<forall>row'\<in>set (db_cursors db). cu_key row' = cu_key row \<longrightarrow> row' = row)
    \<and> observation_key env ` set h \<subseteq> cu_key ` set (db_cursors db)"
proof -
  have ok: "coverage_ok env h db" by (rule run_coverage_ok [OF assms(1)])
  then have c: "cursor_ok env h row" and d: "distinct (map cu_key (db_cursors db))" using assms(2) by (auto simp: coverage_ok_def)
  have "completeness_over (cu_observed row) (row_target row) = (if extent (row_target row) \<subseteq> delivered env h (cu_key row) then Complete
        else if extent (row_target row) \<inter> delivered env h (cu_key row) = {} then Unknown else Partial)"
    using c completeness_over_exact [of "cu_observed row" "row_target row"] unfolding cursor_ok_def by simp
  moreover have "\<forall>row'\<in>set (db_cursors db). cu_key row' = cu_key row \<longrightarrow> row' = row"
    using d assms(2) by (auto simp: distinct_map dest: inj_onD)
  ultimately show ?thesis using c ok unfolding cursor_ok_def coverage_ok_def validate_range_iff by simp
qed

theorem cursor_holds_what_was_delivered_witness:
  "points [iv 0 10] = delivered demo_coverage [demo_observation ''a'' (iv 0 5), demo_observation ''a'' (iv 5 10)] (demo_key ''a'')"
proof -
  have "demo_cursor ''a'' [iv 0 10] 2 ''complete'' False 2 \<in> set (db_cursors full_coverage)" by simp
  from cursor_holds_what_was_delivered [OF demo_run this] show ?thesis by (simp add: demo_cursor_def)
qed

text \<open>Two runs that accepted the same observations, in whatever order and however often, have the same
  vector and the same recorded completeness under every key.\<close>

theorem observation_order_irrelevant:
  assumes "coverage_run env h db" and "coverage_run env g db'" and "set h = set g" and "row \<in> set (db_cursors db)"
    and "row' \<in> set (db_cursors db')" and "cu_key row = cu_key row'"
  shows "cu_observed row = cu_observed row' \<and> cu_completeness row = cu_completeness row'"
proof -
  have ok: "cursor_ok env h row" "cursor_ok env g row'"
    using run_coverage_ok [OF assms(1)] run_coverage_ok [OF assms(2)] assms(4,5) by (auto simp: coverage_ok_def)
  have "cu_key row \<in> observation_key env ` set h" using run_keys [OF assms(1)] assms(4) by blast
  then have "row_target row = row_target row'" using ok assms(3,6) unfolding cursor_ok_def by force
  moreover have "delivered env h k = delivered env g k" for k using assms(3) by (simp add: delivered_def)
  ultimately show ?thesis using ok separated_unique [of "cu_observed row" "cu_observed row'"] assms(6) unfolding cursor_ok_def by simp
qed

theorem observation_order_irrelevant_witness:
  "\<exists>db. coverage_run demo_coverage [demo_observation ''a'' (iv 0 5), demo_observation ''a'' (iv 5 10), demo_observation ''a'' (iv 0 5)] db
     \<and> (\<forall>row\<in>set (db_cursors db). cu_observed row = [iv 0 10] \<and> cu_completeness row = ''complete'')"
proof -
  have a: "observe demo_coverage 9 (demo_observation ''a'' (iv 0 5)) full_coverage = Inr (AlreadyCovered 2, full_coverage)"
    by (simp add: demo_observe_defs demo_cursor_def) (simp add: lit_def utf8_len_ascii)
  have run: "coverage_run demo_coverage [demo_observation ''a'' (iv 0 5), demo_observation ''a'' (iv 5 10), demo_observation ''a'' (iv 0 5)] full_coverage"
    using coverage_run.accept [OF demo_run a] by simp
  have "demo_cursor ''a'' [iv 0 10] 2 ''complete'' False 2 \<in> set (db_cursors full_coverage)" by simp
  from observation_order_irrelevant [OF run demo_run _ this this] run show ?thesis by (auto simp: demo_cursor_def)
qed

lemma accepted_checks:
  assumes "coverage_run env h db" and "obs \<in> set h"
  shows "\<exists>now db0 out db1. observe env now obs db0 = Inr (out, db1)"
  using assms by (induction rule: coverage_run.induct) auto

lemma observe_seed_checks:
  assumes "observe env now obs db = Inr (out, db')"
  shows "proper (ob_observed obs)" and "proper (ob_target obs)" and "\<exists>db1. seed_cursor env now' key obs db0 = Inr db1"
proof -
  show "proper (ob_observed obs)" "proper (ob_target obs)"
    using assms by (auto simp: observe_def observe_with_fault_injection_def proper_def split: if_splits)
  have "\<exists>db1. seed_cursor env now (observation_key env obs) obs db = Inr db1"
    using assms by (auto simp: observe_def observe_with_fault_injection_def observe_in_transaction_def try_then_eq_Inr split: if_splits)
  then show "\<exists>db1. seed_cursor env now' key obs db0 = Inr db1"
    by (auto simp: seed_cursor_def cursor_checks_def Let_def split: if_splits)
qed

text \<open>C27: an observation the runtime has accepted changes nothing when it is delivered again, at whatever
  time and whatever was accepted in between.\<close>

theorem repeated_observation_ignored:
  assumes "coverage_run env h db" and "obs \<in> set h"
  shows "\<exists>seq. observe env now obs db = Inr (AlreadyCovered seq, db)"
proof -
  let ?key = "observation_key env obs"
  have ok: "coverage_ok env h db" by (rule run_coverage_ok [OF assms(1)])
  then have "?key \<in> cu_key ` set (db_cursors db)" using assms(2) unfolding coverage_ok_def by blast
  then obtain row where row: "row \<in> set (db_cursors db)" "cu_key row = ?key" by auto
  have c: "cursor_ok env h row" using ok row by (simp add: coverage_ok_def)
  have f: "find (\<lambda>r. cu_key r = ?key) (db_cursors db) = Some row" 
    using find_unique [of cu_key "db_cursors db" ?key row] ok row by (simp add: coverage_ok_def)
  obtain now0 db0 out db1 where a: "observe env now0 obs db0 = Inr (out, db1)" using accepted_checks [OF assms] by blast
  have "seeded now ?key obs db = db" using row by (auto simp: seeded_def list_ex_iff)
  then have s: "seed_cursor env now ?key obs db = Inr db"
    using observe_seed_checks(3) [OF a, of now ?key db] seed_cursor_Inr by metis
  obtain stored where d: "decode_cursor_row row = Inr stored" using c decode_cursor_row_ok unfolding cursor_ok_def by blast
  have "extent (ob_observed obs) \<subseteq> points (cu_observed row)"
    using c assms(2) row(2) by (auto simp: cursor_ok_def delivered_def)
  then have "insert_interval (ob_observed obs) (cu_observed row) = Inr (Redundant, cu_observed row)"
    using c covers_iff observe_seed_checks(1) [OF a] by (auto simp: insert_interval_def cursor_ok_def proper_def)
  moreover have "row_target row = ob_target obs" using c assms(2) row(2) by (auto simp: cursor_ok_def)
  ultimately show ?thesis using observe_seed_checks(1,2) [OF a] s f d decode_cursor_row_Inr(4,5) [OF d]
    by (simp add: observe_def observe_with_fault_injection_def observe_in_transaction_def lift_range_def proper_def not_le)
qed

theorem repeated_observation_ignored_witness:
  "\<exists>seq. observe demo_coverage 9 (demo_observation ''a'' (iv 0 5)) full_coverage = Inr (AlreadyCovered seq, full_coverage)"
  by (rule repeated_observation_ignored [OF demo_run]) simp

subsection \<open>What a negative finding rests on\<close>

text \<open>C28: a stored receipt supports a negative finding only for an absence, and only when every sequence of the
  target of its observation was delivered by accepted observations of the same connector instance,
  scope and target, read to the end of the covered window. Digests are assumed free of collisions and
  the receipt schema to read back what it wrote.\<close>

theorem negative_support_rests_on_deliveries:
  assumes "coverage_run env h db" and "row \<in> set (db_receipts db)" and "inj (ce_sha (cv_contract env))"
    and "schema_round_trip (cv_contract env) (cv_codec env)" and "\<forall>obs\<in>set h. domain_typed (cv_contract env) obs"
    and "decode_typed (cv_contract env) (cv_codec env) (rw_canonical row) = Inr receipt"
    and "negative_support_admissible (cv_contract env) (cv_codec env) receipt condition"
  shows "condition = CondAbsent \<and> (\<exists>obs\<in>set h. cr_scope receipt = ob_scope obs \<and> cr_evidence_id receipt = ob_evidence_id obs
    \<and> cw_end (cs_window (ob_scope obs)) \<le> ob_observed_through obs
    \<and> (\<forall>p\<in>extent (ob_target obs). \<exists>obs'\<in>set h. p \<in> extent (ob_observed obs')
        \<and> ob_connector_instance obs' = ob_connector_instance obs \<and> ob_scope obs' = ob_scope obs \<and> ob_target obs' = ob_target obs))"
proof -
  have "receipt_ok env h row" using run_coverage_ok [OF assms(1)] assms(2) by (simp add: coverage_ok_def)
  then obtain obs merged receipt' where obs: "obs \<in> set h"
      and m: "separated merged" "points merged \<subseteq> delivered env h (observation_key env obs)" "proper (ob_target obs)"
      and b: "build_receipt env obs merged = Inr (receipt', rw_receipt_id row)"
      and c: "encode_typed (cv_contract env) (cv_codec env) receipt' = Inr (rw_canonical row)"
    unfolding receipt_ok_def by (elim bexE exE conjE)
  have r: "receipt' = receipt" using assms(4,6) c unfolding schema_round_trip_def by simp
  note n = assms(7) [unfolded negative_support_admissible_def]
  have "completeness_over merged (ob_target obs) = Complete" using n build_receipt_Inr(1) [OF b] r by simp
  then have "extent (ob_target obs) \<subseteq> points merged"
    using completeness_over_exact [OF m(1,3)] by (simp split: if_splits)
  then have "extent (ob_target obs) \<subseteq> delivered env h (observation_key env obs)" using m(2) by blast
  then have "\<forall>p\<in>extent (ob_target obs). \<exists>obs'\<in>set h. p \<in> extent (ob_observed obs') \<and> observation_key env obs' = observation_key env obs"
    by (auto simp: delivered_def)
  then have "\<forall>p\<in>extent (ob_target obs). \<exists>obs'\<in>set h. p \<in> extent (ob_observed obs')
      \<and> ob_connector_instance obs' = ob_connector_instance obs \<and> ob_scope obs' = ob_scope obs \<and> ob_target obs' = ob_target obs"
    using coverage_key_inject [OF assms(3)] assms(5) obs by metis
  moreover have "cw_end (cs_window (cr_scope receipt)) \<le> cr_observed_through receipt" using n validated_receipt(2) by blast
  ultimately show ?thesis using n obs build_receipt_Inr(3,4,5) [OF b] r by (intro conjI bexI [of _ obs]) simp_all
qed

lemma demo_domain_typed: "domain_typed (cv_contract demo_coverage) (demo_observation ''a'' i)"
proof -
  have id: "validate_contract_id (cv_contract demo_coverage) (lit ''a'') = Inr ()"
      "validate_contract_id (cv_contract demo_coverage) (lit ''repository'') = Inr ()"
    by (simp_all add: validate_contract_id_def demo_coverage_sel demo_contracts_sel lit_def utf8_len_ascii utf8_bytes_ascii
        is_ascii_lowercase_def is_ascii_digit_def)
  have s: "timestamp_shape instant_a" "timestamp_shape instant_b"
    by (simp_all add: timestamp_shape_def lit_def is_ascii_digit_def upt_rec)
  have b: "utf8_bytes instant_a = instant_a" "utf8_bytes instant_b = instant_b" "utf8_len instant_a = 30" "utf8_len instant_b = 30"
    by (simp_all add: utf8_bytes_ascii utf8_len_ascii lit_def)
  have t: "parse_timestamp (cv_contract demo_coverage) instant_a = Inr instant_a" "parse_timestamp (cv_contract demo_coverage) instant_b = Inr instant_b"
    unfolding parse_timestamp_def b using s by (simp_all add: demo_coverage_def) (simp_all add: lit_def)
  have u: "parse_uri (cv_contract demo_coverage) (show_uri (cs_scope demo_coverage_scope)) = Inr (cs_scope demo_coverage_scope)"
    unfolding parse_uri_iff using id(2) by (simp add: demo_coverage_scope_def)
  show ?thesis using id(1) u t
    by (simp add: domain_typed_def) (simp add: demo_coverage_scope_def new_hex_def new_bounded_hex_def)
qed

lemma demo_coverage_round_trip: "schema_round_trip (cv_contract demo_coverage) (cv_codec demo_coverage)"
  using pair_codec_round_trip unfolding schema_round_trip_def demo_coverage_sel .

theorem negative_support_rests_on_deliveries_witness:
  "negative_support_admissible (cv_contract demo_coverage) (cv_codec demo_coverage) (demo_receipt_of Complete 10) CondAbsent
   \<and> (\<exists>obs\<in>set [demo_observation ''a'' (iv 0 5), demo_observation ''a'' (iv 5 10)]. cr_scope (demo_receipt_of Complete 10) = ob_scope obs)"
proof -
  have run: "demo_receipt_row ''a'' ''complete'' 2 False 2 \<in> set (db_receipts full_coverage)" by simp
  have enc: "encode_typed (cv_contract demo_coverage) (cv_codec demo_coverage) (demo_receipt_of Complete 10)
      = Inr (rw_canonical (demo_receipt_row ''a'' ''complete'' 2 False 2))"
    using demo_receipt_encode(2) by (simp add: demo_receipt_row_def)
  then have dec: "decode_typed (cv_contract demo_coverage) (cv_codec demo_coverage) (rw_canonical (demo_receipt_row ''a'' ''complete'' 2 False 2))
      = Inr (demo_receipt_of Complete 10)" using demo_coverage_round_trip unfolding schema_round_trip_def by blast
  have adm: "negative_support_admissible (cv_contract demo_coverage) (cv_codec demo_coverage) (demo_receipt_of Complete 10) CondAbsent"
    using demo_receipt_id(2) by (simp add: negative_support_admissible_def receipt_id_def res_simps is_contiguous_def)
       (simp add: demo_receipt_of_def)
  have "inj (ce_sha (cv_contract demo_coverage))" by (simp add: demo_coverage_sel(3))
  from negative_support_rests_on_deliveries [OF demo_run run this demo_coverage_round_trip _ dec adm] demo_domain_typed adm
  show ?thesis by auto
qed

subsection \<open>Two instances, one receipt\<close>

text \<open>The first observation of a cursor: what it needs, and what it writes.\<close>

definition first_ok :: "coverage_env \<Rightarrow> coverage_observation \<Rightarrow> coverage_receipt \<Rightarrow> digest \<Rightarrow> byte list \<Rightarrow> bool" where
  "first_ok env obs receipt rid canonical \<longleftrightarrow> proper (ob_observed obs) \<and> proper (ob_target obs)
     \<and> 1 \<le> utf8_len (ob_connector_instance obs) \<and> utf8_len (ob_connector_instance obs) \<le> 128
     \<and> 1 \<le> cv_range_bytes env [] \<and> cv_range_bytes env [] \<le> 1048576
     \<and> 1 \<le> cv_range_bytes env [ob_observed obs] \<and> cv_range_bytes env [ob_observed obs] \<le> 1048576
     \<and> build_receipt env obs [ob_observed obs] = Inr (receipt, rid)
     \<and> encode_typed (cv_contract env) (cv_codec env) receipt = Inr canonical
     \<and> 1 \<le> length canonical \<and> length canonical \<le> 1048576"

definition first_cursor :: "coverage_env \<Rightarrow> int \<Rightarrow> coverage_observation \<Rightarrow> coverage_receipt \<Rightarrow> digest \<Rightarrow> cursor_row" where
  "first_cursor env now obs receipt rid = \<lparr>cu_key = observation_key env obs, cu_instance = ob_connector_instance obs,
     cu_observed = [ob_observed obs], cu_target_start = iv_start (ob_target obs), cu_target_end = iv_end (ob_target obs), cu_seq = 1,
     cu_completeness = completeness_str (cr_completeness receipt), cu_last_receipt = Some rid, cu_updated_at = now\<rparr>"

lemma first_interval: "proper i \<Longrightarrow> insert_interval i [] = Inr (Extended, [i])"
  by (cases i) (simp add: insert_interval_def covers_def coalesce_finish_def proper_def not_le)

lemma find_fresh: "\<not> list_ex P xs \<Longrightarrow> P x \<Longrightarrow> find P (xs @ [x]) = Some x"
  by (induction xs) auto

lemma completeness_column: "completeness_str c \<in> {''complete'', ''partial'', ''unknown''}"
  by (cases c) simp_all

definition first_receipt :: "coverage_env \<Rightarrow> int \<Rightarrow> coverage_observation \<Rightarrow> coverage_receipt \<Rightarrow> digest \<Rightarrow> byte list \<Rightarrow> receipt_row" where
  "first_receipt env now obs receipt rid canonical = \<lparr>rw_receipt_id = rid, rw_instance = ob_connector_instance obs,
     rw_key = observation_key env obs, rw_completeness = completeness_str (cr_completeness receipt),
     rw_evidence_id = ob_evidence_id obs, rw_source_digest = ob_source_digest obs, rw_source_count = int (ob_source_count obs),
     rw_seq = 1, rw_canonical = canonical, rw_created_at = now\<rparr>"

lemma first_observed:
  assumes "observation_key env obs \<notin> cu_key ` set (db_cursors db)"
  shows "observe env now obs db = Inr x \<longleftrightarrow> proper (ob_observed obs) \<and> proper (ob_target obs)
    \<and> 1 \<le> utf8_len (ob_connector_instance obs) \<and> utf8_len (ob_connector_instance obs) \<le> 128
    \<and> 1 \<le> cv_range_bytes env [] \<and> cv_range_bytes env [] \<le> 1048576
    \<and> record_extension env now (observation_key env obs) obs NoFault 0 [ob_observed obs] (seeded now (observation_key env obs) obs db) = Inr x"
proof (cases "proper (ob_observed obs) \<and> proper (ob_target obs)")
  case True
  let ?key = "observation_key env obs"
  have new: "\<not> list_ex (\<lambda>r. cu_key r = ?key) (db_cursors db)" using assms by (metis (mono_tags) imageI list_ex_iff)
  have find: "find (\<lambda>r. cu_key r = ?key) (db_cursors db @ [r]) = Some r" if "cu_key r = ?key" for r
    using new that find_fresh by fastforce
  have "new_interval (iv_start (ob_target obs)) (iv_end (ob_target obs)) = Inr (ob_target obs)"
    using True by (cases "ob_target obs") (auto simp: new_interval_def proper_def)
  moreover have "\<not> iv_end (ob_observed obs) \<le> iv_start (ob_observed obs)" "\<not> iv_end (ob_target obs) \<le> iv_start (ob_target obs)"
    using True by (auto simp: proper_def)
  ultimately show ?thesis using True new first_interval [of "ob_observed obs"]
    by (simp add: observe_def observe_with_fault_injection_def observe_in_transaction_def seed_cursor_def seeded_def cursor_checks_def
        Let_def find decode_cursor_row_def validate_range_def lift_range_def seq_from_i64_def parse_completeness_def)
next
  case False
  then show ?thesis by (auto simp: observe_def observe_with_fault_injection_def proper_def not_le)
qed

lemma first_recorded:
  assumes "observation_key env obs \<notin> cu_key ` set (db_cursors db)"
  shows "observe env now obs db = Inr (Recorded rid c g n, db') \<longleftrightarrow> (\<exists>receipt canonical. first_ok env obs receipt rid canonical
    \<and> c = cr_completeness receipt \<and> g = (\<not> is_contiguous (cr_continuity receipt)) \<and> n = 1
    \<and> db' = db\<lparr>db_cursors := db_cursors db @ [first_cursor env now obs receipt rid],
        db_receipts := (if list_ex (\<lambda>r. rw_receipt_id r = rid) (db_receipts db) then db_receipts db
          else db_receipts db @ [first_receipt env now obs receipt rid canonical])\<rparr>)"
proof -
  let ?key = "observation_key env obs"
  have new: "\<not> list_ex (\<lambda>r. cu_key r = ?key) (db_cursors db)" using assms by (metis (mono_tags) imageI list_ex_iff)
  have same: "map (\<lambda>r. if cu_key r = ?key then f r else r) (db_cursors db) = db_cursors db" for f
    using new by (intro map_idI) (auto simp: list_ex_iff)
  have other: "list_all (\<lambda>r. cu_key r = ?key \<longrightarrow> Q r) (db_cursors db)" for Q using new by (auto simp: list_all_iff list_ex_iff)
  have checks: "receipt_checks (first_receipt env now obs receipt rid canonical) \<longleftrightarrow> 1 \<le> utf8_len (ob_connector_instance obs)
      \<and> utf8_len (ob_connector_instance obs) \<le> 128 \<and> 1 \<le> length canonical \<and> length canonical \<le> 1048576"
      "cursor_checks env (first_cursor env now obs receipt rid) \<longleftrightarrow> 1 \<le> utf8_len (ob_connector_instance obs)
      \<and> utf8_len (ob_connector_instance obs) \<le> 128 \<and> 1 \<le> cv_range_bytes env [ob_observed obs] \<and> cv_range_bytes env [ob_observed obs] \<le> 1048576"
      for receipt canonical
    using completeness_column [of "cr_completeness receipt"]
    by (auto simp: receipt_checks_def cursor_checks_def first_receipt_def first_cursor_def)
  have insert: "insert_receipt (first_receipt env now obs receipt rid canonical) (seeded now ?key obs db) = Inr db2 \<longleftrightarrow>
      receipt_checks (first_receipt env now obs receipt rid canonical) \<and> db2 = (seeded now ?key obs db)\<lparr>db_receipts :=
        (if list_ex (\<lambda>r. rw_receipt_id r = rid) (db_receipts db) then db_receipts db
         else db_receipts db @ [first_receipt env now obs receipt rid canonical])\<rparr>" for receipt canonical db2
    by (auto simp: insert_receipt_def first_receipt_def)
  have adv: "advance_cursor env ?key (advance_row [ob_observed obs] 1 (cr_completeness receipt) rid now)
      ((seeded now ?key obs db)\<lparr>db_receipts := rs\<rparr>) = Inr db3 \<longleftrightarrow> cursor_checks env (first_cursor env now obs receipt rid)
      \<and> db3 = db\<lparr>db_cursors := db_cursors db @ [first_cursor env now obs receipt rid], db_receipts := rs\<rparr>" for receipt rs db3
    using new by (auto simp: advance_cursor_def seeded_def same other Let_def advance_row_def first_cursor_def)
  show ?thesis
    unfolding first_observed [OF assms] record_extension_def first_ok_def
    by (auto simp: res_simps i64_from_seq_def insert [unfolded first_receipt_def] adv checks [unfolded first_receipt_def]
        first_receipt_def split: prod.splits)
qed

text \<open>C29: a receipt row is kept under the first connector instance that minted its receipt. After an instance's first
  observation of a scope and target was recorded, any other instance (of a storable name) that makes the same
  observation, its first there, is told that the same receipt was recorded. Its cursor is written and points
  at that receipt, but no receipt row is, so none is counted for it that was not before.\<close>

theorem recorded_without_a_row:
  assumes "observe env now obs db = Inr (Recorded rid c g n, db1)" and "observation_key env obs \<notin> cu_key ` set (db_cursors db)"
    and "observation_key env (obs\<lparr>ob_connector_instance := name\<rparr>) \<notin> cu_key ` set (db_cursors db1)"
    and "1 \<le> utf8_len name" and "utf8_len name \<le> 128"
  shows "\<exists>db2. observe env now' (obs\<lparr>ob_connector_instance := name\<rparr>) db1 = Inr (Recorded rid c g n, db2)
    \<and> db_receipts db2 = db_receipts db1 \<and> (\<exists>r\<in>set (db_receipts db1). rw_receipt_id r = rid)
    \<and> (\<exists>r. db_cursors db2 = db_cursors db1 @ [r] \<and> cu_instance r = name \<and> cu_last_receipt r = Some rid)
    \<and> count_receipts_for_instance name db2 = count_receipts_for_instance name db1"
proof -
  let ?obs = "obs\<lparr>ob_connector_instance := name\<rparr>"
  from assms(1) [unfolded first_recorded [OF assms(2)]] obtain receipt canonical where ok: "first_ok env obs receipt rid canonical"
      and out: "c = cr_completeness receipt" "g = (\<not> is_contiguous (cr_continuity receipt))" "n = 1"
      and db1: "db_receipts db1 = (if list_ex (\<lambda>r. rw_receipt_id r = rid) (db_receipts db) then db_receipts db
          else db_receipts db @ [first_receipt env now obs receipt rid canonical])"
    by (elim exE conjE) simp
  have ok': "first_ok env ?obs receipt rid canonical" using ok assms(4,5) by (simp add: first_ok_def build_receipt_def high_watermark_def)
  have stored: "list_ex (\<lambda>r. rw_receipt_id r = rid) (db_receipts db1)" unfolding db1 by (auto simp: first_receipt_def)
  let ?db2 = "db1\<lparr>db_cursors := db_cursors db1 @ [first_cursor env now' ?obs receipt rid], db_receipts := db_receipts db1\<rparr>"
  have "observe env now' ?obs db1 = Inr (Recorded rid c g n, ?db2)"
    unfolding first_recorded [OF assms(3)] using ok' out stored by auto
  moreover have "\<exists>r\<in>set (db_receipts db1). rw_receipt_id r = rid" using stored by (simp add: list_ex_iff)
  ultimately show ?thesis by (intro exI [of _ ?db2]) (simp add: first_cursor_def count_receipts_for_instance_def)
qed

theorem recorded_without_a_row_witness:
  "\<exists>rid db1 db2. observe demo_coverage 1 (demo_observation ''a'' (iv 0 10)) empty_coverage = Inr (Recorded rid Complete False 1, db1)
     \<and> observe demo_coverage 2 (demo_observation ''b'' (iv 0 10)) db1 = Inr (Recorded rid Complete False 1, db2)
     \<and> length (db_cursors db2) = 2 \<and> length (db_receipts db2) = 1 \<and> count_receipts_for_instance (lit ''b'') db2 = 0"
proof -
  let ?one = "\<lparr>db_cursors = [demo_cursor ''a'' [iv 0 10] 1 ''complete'' False 1], db_receipts = [demo_receipt_row ''a'' ''complete'' 1 False 1]\<rparr>"
  have a: "observe demo_coverage 1 (demo_observation ''a'' (iv 0 10)) empty_coverage = Inr (Recorded (demo_rid False) Complete False 1, ?one)"
    by (simp add: demo_observe_defs demo_build demo_receipt_encode demo_cursor_def demo_receipt_row_def) (simp add: lit_def utf8_len_ascii)
  have "demo_key ''a'' \<noteq> demo_key ''b''"
    by (simp add: demo_key_def coverage_key_digest_def demo_coverage_sel(3) coverage_key_preimage_def key_frame_def lit_def utf8_bytes_ascii)
  have b: "(demo_observation ''a'' (iv 0 10))\<lparr>ob_connector_instance := lit ''b''\<rparr> = demo_observation ''b'' (iv 0 10)"
    by (simp add: demo_observation_def)
  have "observation_key demo_coverage (demo_observation ''a'' (iv 0 10)) \<notin> cu_key ` set (db_cursors empty_coverage)" by simp
  moreover have "observation_key demo_coverage ((demo_observation ''a'' (iv 0 10))\<lparr>ob_connector_instance := lit ''b''\<rparr>) \<notin> cu_key ` set (db_cursors ?one)"
    using \<open>demo_key ''a'' \<noteq> demo_key ''b''\<close> unfolding b by (simp add: demo_cursor_def)
  moreover have "1 \<le> utf8_len (lit ''b'')" "utf8_len (lit ''b'') \<le> 128" by (simp_all add: lit_def utf8_len_ascii)
  ultimately obtain db2 r where d: "observe demo_coverage 2 (demo_observation ''b'' (iv 0 10)) ?one = Inr (Recorded (demo_rid False) Complete False 1, db2)"
      "db_receipts db2 = db_receipts ?one" "db_cursors db2 = db_cursors ?one @ [r]"
      "count_receipts_for_instance (lit ''b'') db2 = count_receipts_for_instance (lit ''b'') ?one"
    using recorded_without_a_row [OF a, of "lit ''b''" 2] unfolding b by blast
  have "count_receipts_for_instance (lit ''b'') ?one = 0" by (simp add: count_receipts_for_instance_def demo_receipt_row_def lit_def)
  then show ?thesis using a d by (intro exI [of _ "demo_rid False"] exI [of _ ?one] exI [of _ db2]) simp
qed

end
