(* ===== verification/Discrepancy_Properties.thy ===== *)
theory Discrepancy_Properties
  imports Contract_Properties
begin

section \<open>Properties of discrepancies\<close>

text \<open>
  Replay depends on the set of events and relations only, no implicated actor clears a discrepancy, and
  an episode's fingerprint identifies what it is meant to identify.
\<close>

subsection \<open>An example episode\<close>

text \<open>Two sightings of one drift, in two tenants.\<close>

definition demo_base :: "bool \<Rightarrow> envelope" where
  "demo_base b = \<lparr>dv_schema_version = 1, dv_event_kind = lit ''discrepancy.envelope.accepted'', dv_profile = frozen_profile_reference,
     dv_scope = demo_project_scope (if b then 97 else 98), dv_finding_type = DocumentationDrift, dv_severity = SeverityLow,
     dv_canonical_subject = \<lparr>ru_identity_form = EntityForm, ru_resource_kind = [98], ru_digest = []\<rparr>,
     dv_predicate = demo_reference, dv_comparator_lineage_fingerprint = [], dv_expectation_policy = demo_reference,
     dv_episode_policy = demo_reference, dv_required_applicability_dimension_ids = [], dv_applicability = [],
     dv_continuity_key_dimension_ids = [], dv_family_fingerprint = [],
     dv_opening_transition = \<lparr>oc_effective_at = [48], oc_provider_order = 0, oc_source_fact_id = [1]\<rparr>,
     dv_episode_fingerprint = [],
     dv_registry = \<lparr>hb_head = \<lparr>rh_activation_id = [1], rh_package_digest = [1], rh_activation_policy_digest = [1]\<rparr>,
       hb_effective_from = lit ''2026-01-01T00:00:00.000000000Z'', hb_effective_until = None\<rparr>,
     dv_detector = demo_reference, dv_extractor = None, dv_member_evidence_ids = [[1]], dv_supporting_evidence_ids = [[1]],
     dv_opposing_evidence_ids = [], dv_coverage_receipt_ids = [], dv_implicated_actor_ids = [[97]],
     dv_initial_verification_state = CandidateFinding, dv_detected_at = [48], dv_effective_from = [48], dv_effective_until = None\<rparr>"

definition demo_family :: "bool \<Rightarrow> digest" where
  "demo_family b = domain_preimage (ContractDomain Dom_DiscrepancyFamilyV1) (render (CBool b))"

definition demo_episode :: "bool \<Rightarrow> digest" where
  "demo_episode b = domain_preimage (ContractDomain Dom_DiscrepancyEpisodeV1) (render (CBool b))"

definition demo_sighting :: "bool \<Rightarrow> envelope" where
  "demo_sighting b = (demo_base b)\<lparr>dv_family_fingerprint := demo_family b, dv_episode_fingerprint := demo_episode b\<rparr>"

definition demo_codecs :: discrepancy_codecs where
  "demo_codecs = \<lparr>dx_lineage = \<lparr>to_vec = (\<lambda>_. None), from_slice = (\<lambda>_. None)\<rparr>,
     dx_family = pair_codec (family_of (demo_base True)) (family_of (demo_base False)),
     dx_episode = pair_codec (episode_of (demo_family True) (demo_base True)) (episode_of (demo_family False) (demo_base False)),
     dx_envelope = \<lparr>to_vec = (\<lambda>_. None), from_slice = (\<lambda>_. None)\<rparr>\<rparr>"

lemma demo_bases_differ: "family_of (demo_base True) \<noteq> family_of (demo_base False)"
    "episode_of (demo_family True) (demo_base True) \<noteq> episode_of (demo_family False) (demo_base False)"
  by (simp_all add: family_of_def demo_base_def demo_project_scope_def episode_of_def demo_family_def domain_preimage_inject lit_words)

text \<open>A sighting of any severity is valid; the fingerprints do not see the severity.\<close>

definition demo_sight :: "severity \<Rightarrow> bool \<Rightarrow> envelope" where
  "demo_sight sv b = (demo_sighting b)\<lparr>dv_severity := sv\<rparr>"

lemma demo_sight_low: "demo_sight SeverityLow b = demo_sighting b"
  by (simp add: demo_sight_def demo_sighting_def demo_base_def)

lemma demo_sighting_family: "family_of (demo_sight sv b) = family_of (demo_base b)" "episode_of d (demo_sight sv b) = episode_of d (demo_base b)"
  by (simp_all add: demo_sight_def demo_sighting_def family_of_def episode_of_def continuity_key_def)

lemma demo_family_fingerprint: "compute_family_fingerprint demo_contracts (dx_family demo_codecs) (demo_sight sv b) = Inr (demo_family b)"
proof -
  have "validate_family (family_of (demo_base b)) = Inr ()"
    by (simp add: validate_family_def family_of_def demo_base_def frozen_profile_reference_def validate_profile_def
        validate_registry_reference_def demo_reference_def strictly_sorted_def strictly_sorted_by_dimension_def)
  then show ?thesis using demo_bases_differ(1)
    by (cases b) (simp_all add: compute_family_fingerprint_def demo_sighting_family family_fingerprint_of_def demo_codecs_def pair_codec_encode
        domain_separated_digest_def demo_contracts_sel(2) demo_family_def)
qed

lemma demo_episode_fingerprint:
  "compute_episode_fingerprint demo_contracts (dx_family demo_codecs) (dx_episode demo_codecs) (demo_sight sv b) = Inr (demo_episode b)"
proof -
  have "validate_episode (episode_of (demo_family b) (demo_base b)) = Inr ()"
    by (simp add: validate_episode_def episode_of_def demo_base_def demo_reference_def continuity_key_def strictly_sorted_def
        strictly_sorted_by_dimension_def map_filter_simps)
  then show ?thesis using demo_bases_differ(2)
    unfolding compute_episode_fingerprint_def demo_family_fingerprint try_then_Inr demo_sighting_family
    by (cases b) (simp_all add: episode_fingerprint_of_def demo_codecs_def pair_codec_encode domain_separated_digest_def
        demo_contracts_sel(2) demo_episode_def)
qed

lemma demo_sight_valid: "validate_envelope demo_contracts demo_codecs (demo_sight sv b) = Inr ()"
proof -
  note sight = demo_sight_def demo_sighting_def demo_base_def
  have "validate_head_binding (dv_registry (demo_sight sv b)) = Inr ()"
    by (simp add: validate_head_binding_def sight ZERO_DIGEST_def numeral_eq_Suc is_microsecond_aligned_def lit_def)
  moreover have "envelope_structure (demo_sight sv b)"
    by (simp add: envelope_structure_def sight id_set_valid_def strictly_sorted_def strictly_sorted_by_dimension_def)
  ultimately show ?thesis
    unfolding validate_envelope_def
    by (simp add: demo_family_fingerprint demo_episode_fingerprint)
      (simp add: sight frozen_profile_reference_def validate_profile_def validate_registry_reference_def demo_reference_def)
qed

abbreviation "demo_envelope \<equiv> demo_sighting True"

lemma demo_envelope_valid: "validate_envelope demo_contracts demo_codecs demo_envelope = Inr ()"
  using demo_sight_valid [of SeverityLow True] unfolding demo_sight_low .

definition demo_acknowledgement :: discrepancy_event where
  "demo_acknowledgement = \<lparr>de_schema_version = 1, de_event_kind = lit ''discrepancy.lifecycle.accepted'', de_profile = frozen_profile_reference,
     de_scope = demo_project_scope 97, de_episode_fingerprint = demo_episode True, de_effective_at = [49], de_verification_update = None,
     de_lifecycle_transition = Some (Acknowledge \<lparr>ac_principal_id = [97]\<rparr>), de_evidence_event_ids = []\<rparr>"

definition demo_resolution :: discrepancy_event where
  "demo_resolution = demo_acknowledgement\<lparr>de_effective_at := [50],
     de_lifecycle_transition := Some (Resolve \<lparr>ac_principal_id = [98]\<rparr> [[1]])\<rparr>"

abbreviation "demo_events \<equiv> pair_codec demo_acknowledgement demo_resolution"

lemma demo_authorized:
  "e \<in> {demo_acknowledgement, demo_resolution} \<Longrightarrow> authorize_lifecycle_transition demo_contracts demo_codecs demo_envelope e = Inr ()"
  unfolding authorize_lifecycle_transition_def demo_envelope_valid
  by (auto simp: demo_acknowledgement_def demo_resolution_def validate_event_def frozen_profile_reference_def validate_profile_def id_set_valid_def
      strictly_sorted_def resolution_evidence_valid_def demo_sighting_def demo_base_def authorize_transition_def is_self_implicated_def)

definition demo_projection :: episode_projection where
  "demo_projection = expire_waiver [57] (fold (\<lambda>(e, _). apply_event e)
     (replay_order [(demo_acknowledgement, render (CBool True)), (demo_resolution, render (CBool False))]) (initial_projection demo_envelope))"

lemma demo_projected:
  "project_discrepancy_episode demo_contracts demo_codecs demo_events demo_envelope [demo_acknowledgement, demo_resolution] [] [57]
    = Inr demo_projection"
proof -
  have "demo_acknowledgement \<noteq> demo_resolution" by (simp add: demo_resolution_def demo_acknowledgement_def)
  then have "encoded_as demo_contracts demo_events [demo_acknowledgement, demo_resolution]
      [(demo_acknowledgement, render (CBool True)), (demo_resolution, render (CBool False))]"
    unfolding encoded_as_def list.rel_inject pair_codec_encode by simp
  then show ?thesis
    unfolding project_Inr using demo_envelope_valid demo_authorized
    by (auto simp: supersede_def is_superseded_def demo_projection_def)
qed

subsection \<open>Replay\<close>

text \<open>C34: replaying an episode is order-independent and idempotent: any other list of the same events, in
  any order and with any repetitions, and any other list of the same relations, gives the same
  projection.\<close>

theorem replay_is_a_function_of_the_set:
  assumes "schema_round_trip en ec" and "set events' = set events" and "set relations' = set relations"
    and "project_discrepancy_episode en dx ec v events relations t = Inr p"
  shows "project_discrepancy_episode en dx ec v events' relations' t = Inr p"
  by (rule project_cong [OF assms])

theorem replay_is_a_function_of_the_set_witness:
  "project_discrepancy_episode demo_contracts demo_codecs demo_events demo_envelope
     [demo_resolution, demo_acknowledgement, demo_resolution] [] [57] = Inr demo_projection"
  using replay_is_a_function_of_the_set [OF pair_codec_round_trip _ refl demo_projected,
    of "[demo_resolution, demo_acknowledgement, demo_resolution]"] by auto

lemma projected_from_authorized:
  assumes "project_discrepancy_episode en dx ec v events relations t = Inr p"
  obtains order st where "p = supersede v relations (expire_waiver t st)" and "explained v order st"
    and "\<And>tr. carries tr order \<Longrightarrow>
      \<exists>e\<in>set events. de_lifecycle_transition e = Some tr \<and> authorize_lifecycle_transition en dx v e = Inr ()"
    and "\<And>u. updates u order \<Longrightarrow>
      \<exists>e\<in>set events. de_verification_update e = Some u \<and> authorize_lifecycle_transition en dx v e = Inr ()"
proof -
  obtain encoded where auth: "\<forall>e\<in>set events. authorize_lifecycle_transition en dx v e = Inr ()"
    and enc: "encoded_as en ec events encoded"
    and p: "p = supersede v relations (expire_waiver t (fold (\<lambda>(e, _). apply_event e) (replay_order encoded) (initial_projection v)))"
    using assms unfolding project_Inr by blast
  have "set (replay_order encoded) \<subseteq> set encoded"
    using retain_unseen_subset unfolding replay_order_def by fastforce
  then have ev: "fst q \<in> set events" if "q \<in> set (replay_order encoded)" for q
    using that encoded_as_set [OF enc] by auto
  show ?thesis
  proof (rule that [OF p replay_explained])
    fix tr assume "carries tr (replay_order encoded)"
    then show "\<exists>e\<in>set events. de_lifecycle_transition e = Some tr \<and> authorize_lifecycle_transition en dx v e = Inr ()"
      using ev auth unfolding carries_def by blast
  next
    fix u assume "updates u (replay_order encoded)"
    then show "\<exists>e\<in>set events. de_verification_update e = Some u \<and> authorize_lifecycle_transition en dx v e = Inr ()"
      using ev auth unfolding updates_def by blast
  qed
qed

text \<open>C35: no implicated actor clears a discrepancy. A projection is resolved only through a resolution with
  evidence, dismissed only through a dismissal with a visible rationale, and waived only through a waiver with
  a visible rationale that has not expired, each by an actor who is not implicated; it is refuted only when the
  envelope was detected as refuted or through a refuting update of an actor who is not implicated; and an
  episode is superseded exactly when a relation replaces it.\<close>

theorem cleared_by_disinterested_actors:
  assumes "project_discrepancy_episode en dx ec v events relations t = Inr p"
  shows "(pj_lifecycle_state p = LResolved \<longrightarrow> (\<exists>e\<in>set events. \<exists>a ids. de_lifecycle_transition e = Some (Resolve a ids)
        \<and> \<not> is_self_implicated v (ac_principal_id a) \<and> ids \<noteq> []))
    \<and> (pj_lifecycle_state p = LDismissed \<longrightarrow> (\<exists>e\<in>set events. \<exists>a r. de_lifecycle_transition e = Some (Dismiss a r)
        \<and> \<not> is_self_implicated v (ac_principal_id a) \<and> \<not> is_blank_rationale (dr_rationale r)))
    \<and> (pj_lifecycle_state p = LWaived \<longrightarrow> (\<exists>e\<in>set events. \<exists>w. de_lifecycle_transition e = Some (Waive w) \<and> pj_active_waiver p = Some w
        \<and> \<not> is_self_implicated v (ac_principal_id (wr_actor w)) \<and> \<not> is_blank_rationale (wr_rationale w)
        \<and> de_effective_at e < wr_expiry_at w \<and> t < wr_expiry_at w))
    \<and> (pj_verification_state p = RefutedFinding \<longrightarrow> dv_initial_verification_state v = RefutedFinding
        \<or> (\<exists>e\<in>set events. \<exists>u. de_verification_update e = Some u \<and> vu_state u = RefutedFinding
             \<and> \<not> is_self_implicated v (ac_principal_id (vu_actor u))))
    \<and> (pj_lifecycle_state p = LSuperseded \<longleftrightarrow> is_superseded v relations)"
proof -
  obtain order st where fin: "p = supersede v relations (expire_waiver t st)" and x: "explained v order st"
    and carried: "\<And>tr. carries tr order \<Longrightarrow>
      \<exists>e\<in>set events. de_lifecycle_transition e = Some tr \<and> authorize_lifecycle_transition en dx v e = Inr ()"
    and updated: "\<And>u. updates u order \<Longrightarrow>
      \<exists>e\<in>set events. de_verification_update e = Some u \<and> authorize_lifecycle_transition en dx v e = Inr ()"
    using projected_from_authorized [OF assms] by blast
  show ?thesis
  proof (intro conjI impI)
    assume "pj_lifecycle_state p = LResolved"
    then have "pj_lifecycle_state st = LResolved" using finished_projection(3) unfolding fin by blast
    then obtain a ids where "carries (Resolve a ids) order" using x unfolding explained_def by blast
    from carried [OF this] show "\<exists>e\<in>set events. \<exists>a ids. de_lifecycle_transition e = Some (Resolve a ids)
        \<and> \<not> is_self_implicated v (ac_principal_id a) \<and> ids \<noteq> []" using authorized_transition(1) by blast
  next
    assume "pj_lifecycle_state p = LDismissed"
    then have "pj_lifecycle_state st = LDismissed" using finished_projection(3) unfolding fin by blast
    then obtain a r where "carries (Dismiss a r) order" using x unfolding explained_def by blast
    from carried [OF this] show "\<exists>e\<in>set events. \<exists>a r. de_lifecycle_transition e = Some (Dismiss a r)
        \<and> \<not> is_self_implicated v (ac_principal_id a) \<and> \<not> is_blank_rationale (dr_rationale r)" using authorized_transition(2) by blast
  next
    assume "pj_lifecycle_state p = LWaived"
    then have w: "pj_lifecycle_state st = LWaived" "\<forall>w. pj_active_waiver st = Some w \<longrightarrow> t < wr_expiry_at w"
      using finished_projection(4) unfolding fin by blast+
    then obtain w where "pj_active_waiver st = Some w" "carries (Waive w) order" using x unfolding explained_def by blast
    moreover from this(1) have "pj_active_waiver p = Some w" unfolding fin finished_projection .
    ultimately show "\<exists>e\<in>set events. \<exists>w. de_lifecycle_transition e = Some (Waive w) \<and> pj_active_waiver p = Some w
        \<and> \<not> is_self_implicated v (ac_principal_id (wr_actor w)) \<and> \<not> is_blank_rationale (wr_rationale w)
        \<and> de_effective_at e < wr_expiry_at w \<and> t < wr_expiry_at w"
      using carried [of "Waive w"] authorized_transition(3) w(2) by blast
  next
    assume r: "pj_verification_state p = RefutedFinding"
    then have "pj_verification_state st = RefutedFinding" unfolding fin finished_projection .
    then consider "dv_initial_verification_state v = RefutedFinding"
      | u where "updates u order" "vu_state u = RefutedFinding" using x unfolding explained_def by metis
    then show "dv_initial_verification_state v = RefutedFinding
        \<or> (\<exists>e\<in>set events. \<exists>u. de_verification_update e = Some u \<and> vu_state u = RefutedFinding
             \<and> \<not> is_self_implicated v (ac_principal_id (vu_actor u)))"
      by cases (use updated authorized_transition(4) in blast)+
  next
    show "pj_lifecycle_state p = LSuperseded \<longleftrightarrow> is_superseded v relations"
      using finished_projection(5) x unfolding fin explained_def by blast
  qed
qed

theorem cleared_by_disinterested_actors_witness:
  "pj_lifecycle_state demo_projection = LResolved \<and> (\<exists>e\<in>set [demo_acknowledgement, demo_resolution]. \<exists>a ids.
     de_lifecycle_transition e = Some (Resolve a ids) \<and> \<not> is_self_implicated demo_envelope (ac_principal_id a) \<and> ids \<noteq> [])"
proof -
  have "replay_order [(demo_acknowledgement, render (CBool True)), (demo_resolution, render (CBool False))]
      = [(demo_acknowledgement, render (CBool True)), (demo_resolution, render (CBool False))]"
    by (simp add: replay_order_def demo_resolution_def demo_acknowledgement_def lit_words)
  then have "pj_lifecycle_state demo_projection = LResolved"
    by (simp add: demo_projection_def expire_waiver_def apply_event_state demo_resolution_def demo_acknowledgement_def)
  with cleared_by_disinterested_actors [OF demo_projected] show ?thesis by blast
qed

subsection \<open>Identity\<close>

lemma continuity_key_ids:
  assumes "list_all (dimension_present (dv_applicability v)) (dv_continuity_key_dimension_ids v)"
  shows "map ad_dimension_id (continuity_key v) = dv_continuity_key_dimension_ids v"
proof -
  have "map ad_dimension_id (List.map_filter (\<lambda>i. find (\<lambda>d. ad_dimension_id d = i) (dv_applicability v)) ids) = ids"
    if "list_all (dimension_present (dv_applicability v)) ids" for ids
    using that
  proof (induction ids)
    case (Cons i ids)
    then obtain d where "find (\<lambda>d. ad_dimension_id d = i) (dv_applicability v) = Some d"
      by (cases "find (\<lambda>d. ad_dimension_id d = i) (dv_applicability v)") (auto simp: dimension_present_def find_None_iff image_iff)
    with Cons find_SomeD [OF this] show ?case by (simp add: map_filter_simps)
  qed (simp add: map_filter_simps)
  then show ?thesis using assms by (simp add: continuity_key_def)
qed

text \<open>C36: an episode's fingerprint is its identity. Two valid envelopes have the same one exactly when they have the
  same profile, scope, finding, subject, predicate, comparator lineage, expectation policy, required
  dimensions, applicability, version of the episode policy, dimensions of the continuity key, and opening fact.
  Severity, detector, evidence, actors, times and verification never enter it.\<close>

theorem episode_fingerprint_identity:
  assumes "inj (ce_sha en)" and "schema_round_trip en (dx_family dx)" and "schema_round_trip en (dx_episode dx)"
    and "validate_envelope en dx v = Inr ()" and "validate_envelope en dx w = Inr ()"
  shows "dv_episode_fingerprint v = dv_episode_fingerprint w \<longleftrightarrow>
    dv_profile v = dv_profile w \<and> dv_scope v = dv_scope w \<and> dv_finding_type v = dv_finding_type w
    \<and> dv_canonical_subject v = dv_canonical_subject w \<and> dv_predicate v = dv_predicate w
    \<and> dv_comparator_lineage_fingerprint v = dv_comparator_lineage_fingerprint w \<and> dv_expectation_policy v = dv_expectation_policy w
    \<and> dv_required_applicability_dimension_ids v = dv_required_applicability_dimension_ids w \<and> dv_applicability v = dv_applicability w
    \<and> rr_version (dv_episode_policy v) = rr_version (dv_episode_policy w)
    \<and> dv_continuity_key_dimension_ids v = dv_continuity_key_dimension_ids w
    \<and> oc_source_fact_id (dv_opening_transition v) = oc_source_fact_id (dv_opening_transition w)" (is "_ \<longleftrightarrow> ?fields")
proof
  note v = validated_envelope [OF assms(4)] and w = validated_envelope [OF assms(5)]
  show ?fields if "dv_episode_fingerprint v = dv_episode_fingerprint w"
  proof -
    have e: "episode_of (dv_family_fingerprint v) v = episode_of (dv_family_fingerprint w) w"
      using episode_fingerprint_inject [OF assms(1,3) v(2)] w(2) that by metis
    then have "dv_family_fingerprint v = dv_family_fingerprint w" by (simp add: episode_of_def)
    then have "family_of v = family_of w"
      using family_fingerprint_inject [OF assms(1,2)] v(1) w(1) unfolding compute_family_fingerprint_def by metis
    moreover have "continuity_key v = continuity_key w" using e by (simp add: episode_of_def)
    then have "dv_continuity_key_dimension_ids v = dv_continuity_key_dimension_ids w"
      using continuity_key_ids [of v] continuity_key_ids [of w] v(3) w(3) by (simp add: envelope_structure_def)
    ultimately show ?thesis using e by (simp add: episode_of_def family_of_def)
  qed
  assume s: ?fields
  then have "dv_family_fingerprint v = dv_family_fingerprint w"
    using v(1) w(1) by (simp add: compute_family_fingerprint_def family_of_def)
  moreover have "continuity_key v = continuity_key w" using s by (simp add: continuity_key_def)
  ultimately have "episode_of (dv_family_fingerprint v) v = episode_of (dv_family_fingerprint w) w" using s by (simp add: episode_of_def)
  then show "dv_episode_fingerprint v = dv_episode_fingerprint w" using v(2) w(2) by simp
qed

theorem episode_fingerprint_identity_witness:
  "demo_sight SeverityHigh True \<noteq> demo_envelope \<and> dv_episode_fingerprint (demo_sight SeverityHigh True) = dv_episode_fingerprint demo_envelope
   \<and> dv_episode_fingerprint (demo_sight SeverityLow False) \<noteq> dv_episode_fingerprint demo_envelope"
proof -
  have "schema_round_trip demo_contracts (dx_family demo_codecs)" "schema_round_trip demo_contracts (dx_episode demo_codecs)"
    by (simp_all add: demo_codecs_def pair_codec_round_trip)
  note identity = episode_fingerprint_identity [OF demo_no_collisions this demo_sight_valid demo_envelope_valid]
  show ?thesis unfolding identity
    by (simp add: demo_sight_def demo_sighting_def demo_base_def demo_project_scope_def)
qed

end
