(* ===== verification/Ledger_State.thy ===== *)
theory Ledger_State
  imports Lifecycle_Plan
begin

section \<open>The ledger tables and transactions\<close>

text \<open>
  The tables the claim ledger writes (\<^verbatim>\<open>migrations/0001\<close>, \<^verbatim>\<open>0015\<close>, \<^verbatim>\<open>0029\<close>), restricted to
  the one (tenant, project) a repository is bound to, and the transaction monad. A
  transaction is a function of the tables that either fails, and then nothing is
  written, or returns a value and the new tables: \<^verbatim>\<open>with_serializable_retry\<close> runs a
  body until it commits under serializable isolation, so a committed body acts as if alone.

  Receipts are keyed by tenant and idempotency key, not by project, so the receipt table
  holds the rows of every project of the tenant.
\<close>

subsection \<open>Rows\<close>

record conflict_row =
  cf_id :: int
  cf_claim_key :: ustr
  cf_state :: string
  cf_detector :: string
  cf_rationale :: string
  cf_revision :: int
  cf_detected_at :: time
  cf_last_seen_at :: time
  cf_resolved_at :: "time option"
  cf_resolution_kind :: "string option"
  cf_resolution_reason :: "string option"

record claim_support =
  su_claim_id :: int
  su_source_config_id :: ustr
  su_source :: ustr
  su_source_id :: ustr
  su_chunk_id :: "ustr option"
  su_content_sha256 :: "ustr option"
  su_excerpt :: "ustr option"
  su_relation :: ustr
  su_observed_at :: time

record claim_embedding =
  em_claim_id :: int
  em_passage_index :: int
  em_passage_text :: ustr
  em_model :: ustr
  em_vector :: ustr

record chunk_row =
  ch_chunk_id :: ustr
  ch_source :: ustr
  ch_source_id :: ustr
  ch_source_config_id :: ustr
  ch_text :: ustr
  ch_content_sha256 :: ustr
  ch_embedding_input_sha256 :: ustr
  ch_embedding_model :: ustr
  ch_embedding :: ustr
  ch_facets :: json
  ch_extra :: json

record claim_event =
  ce_claim_id :: int
  ce_event_kind :: string
  ce_actor :: ustr
  ce_reason :: "string option"
  ce_from_state :: "claim_state option"
  ce_to_state :: claim_state
  ce_payload :: json

record memory_event =
  me_agent :: ustr
  me_session_id :: "ustr option"
  me_event_kind :: string
  me_entity_kind :: string
  me_entity_id :: int
  me_idempotency_key :: "ustr option"
  me_payload :: json

record log_row =
  lg_project :: ustr
  lg_conflict_id :: int
  lg_event :: conflict_lifecycle_event
  lg_to_state :: string
  lg_session_id :: "ustr option"
  lg_idempotency_key :: ustr

subsection \<open>Results of mutations\<close>

record conflict_reevaluation =
  re_conflict_id :: int
  re_outcome :: string
  re_conflict_revision :: int
  re_remaining_pair_count :: nat
  re_remaining_pairs :: "(int \<times> int) list"
  re_excluded_dismissed_pairs :: nat

record superseded_claim =
  sp_id :: int
  sp_state :: claim_state
  sp_revision :: int
  sp_superseded_by :: int

text \<open>A claim as a response carries it: its row, its support and its current conflicts.\<close>

record claim_view =
  vw_claim :: claim
  vw_support :: "claim_support list"
  vw_conflict_ids :: "int list"

record claim_mutation =
  cm_operation :: string
  cm_claim :: claim_view
  cm_superseded :: "superseded_claim option"
  cm_idempotent_replay :: bool
  cm_conflicts_opened :: "int list"
  cm_conflicts_resolved :: "int list"
  cm_claims_restored :: "int list"
  cm_reevaluation :: "conflict_reevaluation option"

record conflict_mutation =
  xm_operation :: string
  xm_conflict_id :: int
  xm_conflict_state :: string
  xm_conflict_revision :: int
  xm_member_count :: int
  xm_applied :: bool
  xm_status :: "string option"
  xm_lifecycle_event :: "conflict_lifecycle_event option"
  xm_claims_retracted :: "int list"
  xm_claims_restored :: "int list"
  xm_conflicts_resolved :: "int list"
  xm_reevaluation :: "conflict_reevaluation option"
  xm_idempotent_replay :: bool

text \<open>The stored response of a receipt: the JSON of one of the two mutation results.\<close>

datatype lifecycle_mutation = ClaimResponse claim_mutation | ConflictResponse conflict_mutation

record receipt =
  rc_idempotency_key :: ustr
  rc_project :: ustr
  rc_request :: json
  rc_operation :: string
  rc_claim_id :: "int option"
  rc_conflict_id :: "int option"
  rc_response :: "lifecycle_mutation option"

subsection \<open>The ledger\<close>

record ledger =
  l_claims :: "claim list"
  l_support :: "claim_support list"
  l_embeddings :: "claim_embedding list"
  l_chunks :: "chunk_row list"
  l_claim_events :: "claim_event list"
  l_conflicts :: "conflict_row list"
  l_members :: "(int \<times> int) list"
  l_log :: "log_row list"
  l_events :: "memory_event list"
  l_receipts :: "receipt list"
  l_active_model :: "ustr option"

definition empty_ledger :: "ustr option \<Rightarrow> ledger" where
  "empty_ledger model = \<lparr>l_claims = [], l_support = [], l_embeddings = [], l_chunks = [],
     l_claim_events = [], l_conflicts = [], l_members = [], l_log = [], l_events = [],
     l_receipts = [], l_active_model = model\<rparr>"

text \<open>
  What the code takes from outside: the number renderer and Unicode tables of its
  libraries, the equality of \<^verbatim>\<open>JSONB\<close> values in the database, the digests and the RFC 3339
  rendering of times, and the size the database gives a payload. One transaction also
  takes the time and the identifiers the sequences hand out.
\<close>

record env =
  e_fmt :: "f64 \<Rightarrow> string"
  e_unicode :: unicode
  e_sql_eq :: "json \<Rightarrow> json \<Rightarrow> bool"
  e_sha256_hex :: "ustr \<Rightarrow> ustr"
  e_embedding_input_hash :: "ustr \<Rightarrow> ustr \<Rightarrow> ustr"
  e_show_time :: "time \<Rightarrow> ustr"
  e_payload_bytes :: "json \<Rightarrow> nat"

record tx_input =
  t_now :: time
  t_claim_id :: int
  t_conflict_id :: int

subsection \<open>Transactions\<close>

type_synonym 'a tx = "ledger \<Rightarrow> fleet_error + ('a \<times> ledger)"

definition tx_ret :: "'a \<Rightarrow> 'a tx" where
  "tx_ret x = (\<lambda>s. Inr (x, s))"

definition tx_fail :: "fleet_error \<Rightarrow> 'a tx" where
  "tx_fail e = (\<lambda>s. Inl e)"

definition tx_then :: "'a tx \<Rightarrow> ('a \<Rightarrow> 'b tx) \<Rightarrow> 'b tx" where
  "tx_then m f = (\<lambda>s. try_then (m s) (\<lambda>(x, s'). f x s'))"

definition tx_get :: "(ledger \<Rightarrow> 'a) \<Rightarrow> 'a tx" where
  "tx_get f = (\<lambda>s. Inr (f s, s))"

definition tx_put :: "(ledger \<Rightarrow> ledger) \<Rightarrow> unit tx" where
  "tx_put f = (\<lambda>s. Inr ((), f s))"

definition tx_res :: "'a res \<Rightarrow> 'a tx" where
  "tx_res r = (\<lambda>s. try_then r (\<lambda>x. Inr (x, s)))"

definition tx_refuse :: "refusal_code \<Rightarrow> json \<Rightarrow> 'a tx" where
  "tx_refuse c d = tx_fail (LifecycleRefused (refusal c d))"

fun tx_each :: "('a \<Rightarrow> unit tx) \<Rightarrow> 'a list \<Rightarrow> unit tx" where
  "tx_each f [] = tx_ret ()"
| "tx_each f (x # xs) = tx_then (f x) (\<lambda>_. tx_each f xs)"

text \<open>A committed or rolled back transaction: an error leaves the tables as they were.\<close>

definition run_tx :: "'a tx \<Rightarrow> ledger \<Rightarrow> 'a res \<times> ledger" where
  "run_tx m s = (case m s of Inl e \<Rightarrow> (Inl e, s) | Inr (x, s') \<Rightarrow> (Inr x, s'))"

named_theorems tx_simps \<open>inversion rules for transactions\<close>

lemma tx_ret_Inr [tx_simps]: "tx_ret x s = Inr (y, t) \<longleftrightarrow> y = x \<and> t = s"
  by (auto simp: tx_ret_def)

lemma tx_fail_Inr [tx_simps]: "tx_fail e s \<noteq> Inr r"
  by (simp add: tx_fail_def)

lemma tx_refuse_Inr [tx_simps]: "tx_refuse c d s \<noteq> Inr r"
  by (simp add: tx_refuse_def tx_fail_def)

lemma tx_then_Inr [tx_simps]:
  "tx_then m f s = Inr (y, t) \<longleftrightarrow> (\<exists>x u. m s = Inr (x, u) \<and> f x u = Inr (y, t))"
  by (auto simp: tx_then_def res_simps)

lemma tx_get_Inr [tx_simps]: "tx_get f s = Inr (y, t) \<longleftrightarrow> y = f s \<and> t = s"
  by (auto simp: tx_get_def)

lemma tx_put_Inr [tx_simps]: "tx_put f s = Inr (y, t) \<longleftrightarrow> t = f s"
  by (auto simp: tx_put_def)

lemma tx_res_Inr [tx_simps]: "tx_res r s = Inr (y, t) \<longleftrightarrow> r = Inr y \<and> t = s"
  by (auto simp: tx_res_def res_simps)

lemma run_tx_Inr: "run_tx m s = (Inr x, t) \<longleftrightarrow> m s = Inr (x, t)"
  by (auto simp: run_tx_def split: sum.splits)

lemma run_tx_Inl: "run_tx m s = (Inl e, t) \<longleftrightarrow> m s = Inl e \<and> t = s"
  by (auto simp: run_tx_def split: sum.splits)

text \<open>Reads: a transaction that commits without changing the tables.\<close>

definition read_only :: "'a tx \<Rightarrow> bool" where
  "read_only m \<longleftrightarrow> (\<forall>s x t. m s = Inr (x, t) \<longrightarrow> t = s)"

text \<open>A partial-correctness triple: from \<open>P\<close>, a committing run ends in \<open>Q\<close>.\<close>

definition triple :: "(ledger \<Rightarrow> bool) \<Rightarrow> 'a tx \<Rightarrow> ('a \<Rightarrow> ledger \<Rightarrow> bool) \<Rightarrow> bool" where
  "triple P m Q \<longleftrightarrow> (\<forall>s x t. P s \<longrightarrow> m s = Inr (x, t) \<longrightarrow> Q x t)"

lemma triple_then [intro]:
  assumes "triple P m R" and "\<And>x. triple (R x) (f x) Q"
  shows "triple P (tx_then m f) Q"
  using assms by (fastforce simp: triple_def tx_simps)

lemma triple_each:
  assumes "\<And>x. x \<in> set xs \<Longrightarrow> triple I (f x) (\<lambda>_. I)"
  shows "triple I (tx_each f xs) (\<lambda>_. I)"
  using assms
proof (induction xs)
  case (Cons a xs)
  have "triple I (tx_then (f a) (\<lambda>_. tx_each f xs)) (\<lambda>_. I)"
    by (rule triple_then [where R = "\<lambda>_. I"]) (use Cons in auto)
  then show ?case by simp
qed (simp add: triple_def tx_simps)

lemma read_only_simps [simp, intro]:
  "read_only (tx_ret x)" "read_only (tx_fail e)" "read_only (tx_refuse c d)" "read_only (tx_get f)"
  "read_only (tx_res r)"
  by (auto simp: read_only_def tx_simps)

lemma read_only_then [intro]:
  "read_only m \<Longrightarrow> (\<And>x. read_only (f x)) \<Longrightarrow> read_only (tx_then m f)"
  by (force simp: read_only_def tx_simps)

lemma read_only_if [intro]: "read_only a \<Longrightarrow> read_only b \<Longrightarrow> read_only (if c then a else b)"
  by simp

lemma read_only_option [intro]:
  "read_only a \<Longrightarrow> (\<And>x. read_only (f x)) \<Longrightarrow> read_only (case m of None \<Rightarrow> a | Some x \<Rightarrow> f x)"
  by (cases m) auto

lemma read_only_prod [intro]: "(\<And>x y. read_only (f x y)) \<Longrightarrow> read_only (case p of (x, y) \<Rightarrow> f x y)"
  by (cases p) auto

lemmas read_only_intros = read_only_then read_only_if read_only_option read_only_prod read_only_simps

lemma read_only_same: "read_only m \<Longrightarrow> m s = Inr (x, t) \<Longrightarrow> t = s"
  by (simp add: read_only_def)

end
