(* ===== verification/Claim_Input.thy ===== *)
theory Claim_Input
  imports Conflict_Detector Claim_Key
begin

section \<open>Claim input: validation and preparation\<close>

text \<open>
  \<^verbatim>\<open>ClaimInput\<close> of \<^verbatim>\<open>ledger/types.rs\<close>: the wire input of \<^verbatim>\<open>record\<close> and of a supersede's
  successor, its validation (\<open>validate_claim\<close>), its preparation (\<open>prepare\<close>), the JSON it
  serializes to, and the passages a claim is embedded under. The laws: a prepared claim
  satisfies the eligibility and validity checks of the claims table, and every passage
  vector is non-empty and bounded.
\<close>

subsection \<open>Compact JSON text\<close>

definition hex_digit :: "nat \<Rightarrow> nat" where
  "hex_digit d = (if d < 10 then 48 + d else 87 + d)"

text \<open>\<^verbatim>\<open>serde_json\<close>'s string escapes.\<close>

definition escape_char :: "nat \<Rightarrow> ustr" where
  "escape_char c =
     (if c = 34 then [92, 34] else if c = 92 then [92, 92]
      else if c = 8 then [92, 98] else if c = 9 then [92, 116] else if c = 10 then [92, 110]
      else if c = 12 then [92, 102] else if c = 13 then [92, 114]
      else if c < 32 then [92, 117, 48, 48, hex_digit (c div 16), hex_digit (c mod 16)]
      else [c])"

definition quote_str :: "ustr \<Rightarrow> ustr" where
  "quote_str s = [34] @ concat (map escape_char s) @ [34]"

function json_to_string :: "(f64 \<Rightarrow> string) \<Rightarrow> json \<Rightarrow> ustr" where
  "json_to_string fmt v =
     (case v of
        JNull \<Rightarrow> lit ''null''
      | JBool b \<Rightarrow> lit (if b then ''true'' else ''false'')
      | JNumber n \<Rightarrow> lit (render_number fmt n)
      | JString s \<Rightarrow> quote_str s
      | JArray xs \<Rightarrow> [91] @ join_with [44] (map (json_to_string fmt) xs) @ [93]
      | JObject kvs \<Rightarrow>
          [123] @ join_with [44] (map (\<lambda>(k, x). quote_str k @ [58] @ json_to_string fmt x) kvs) @ [125])"
  by pat_completeness auto
termination
  by (relation "measure (\<lambda>(fmt, v). size v)")
     (auto dest: size_snd_member simp: size_list_estimation' less_Suc_eq_le)

declare json_to_string.simps [simp del]

subsection \<open>The input\<close>

datatype item_ref = ItemId ustr | VersionId ustr | Url ustr

record item_support_input =
  is_item :: item_ref
  is_relation :: ustr

record claim_support_input =
  cs_source_config_id :: ustr
  cs_source :: ustr
  cs_source_id :: ustr
  cs_chunk_id :: "ustr option"
  cs_content_sha256 :: "ustr option"
  cs_excerpt :: "ustr option"
  cs_relation :: ustr

datatype support_input = Corpus claim_support_input | Item item_support_input

record claim_input =
  ci_kind :: claim_kind
  ci_text :: ustr
  ci_subject :: "ustr option"
  ci_predicate :: "ustr option"
  ci_value :: "json option"
  ci_polarity :: int
  ci_origin :: ustr
  ci_actor :: "ustr option"
  ci_confidence :: f64
  ci_valid_from :: "time option"
  ci_valid_to :: "time option"
  ci_support :: "support_input list"

abbreviation "MAX_TSVECTOR_INPUT_LEXEME_BYTES \<equiv> (16000::nat)"
abbreviation "MAX_CLAIM_VALUE_SERIALIZED_BYTES \<equiv> (100000::nat)"
abbreviation "MAX_PROVIDER_URL_BYTES \<equiv> (2048::nat)"

definition validate_item_ref :: "item_ref \<Rightarrow> unit res" where
  "validate_item_ref r =
     (case r of
        Url url \<Rightarrow>
          if \<not> starts_with url (lit ''https://'') \<or> utf8_len url > MAX_PROVIDER_URL_BYTES
             \<or> list_ex (\<lambda>c. is_whitespace c \<or> is_control c) url
          then Inl (Memory ''a support item url must be an https URL of at most {MAX_PROVIDER_URL_BYTES} bytes with no whitespace'')
          else Inr ()
      | _ \<Rightarrow> Inr ())"

definition validate_item_support :: "item_support_input \<Rightarrow> unit res" where
  "validate_item_support i =
     try_then (validate_item_ref (is_item i)) (\<lambda>_.
       ensure (trim (is_relation i) \<noteq> [] \<and> is_relation i = trim (is_relation i)
               \<and> utf8_len (is_relation i) \<le> 64)
         (Memory ''an item support relation must be 1 to 64 bytes with no leading or trailing whitespace''))"

definition is_ascii_hexdigit :: "nat \<Rightarrow> bool" where
  "is_ascii_hexdigit c \<longleftrightarrow> (48 \<le> c \<and> c \<le> 57) \<or> (65 \<le> c \<and> c \<le> 70) \<or> (97 \<le> c \<and> c \<le> 102)"

definition hex_digest64 :: "ustr \<Rightarrow> bool" where
  "hex_digest64 d \<longleftrightarrow> utf8_len d = 64 \<and> list_all is_ascii_hexdigit d"

definition opt_any :: "('a \<Rightarrow> bool) \<Rightarrow> 'a option \<Rightarrow> bool" where
  "opt_any p m = (case m of None \<Rightarrow> False | Some x \<Rightarrow> p x)"

definition validate_corpus_support :: "claim_support_input \<Rightarrow> unit res" where
  "validate_corpus_support c =
     try_then (ensure (trim (cs_source c) \<noteq> [] \<and> trim (cs_source_id c) \<noteq> []
                 \<and> trim (cs_source_config_id c) \<noteq> [] \<and> trim (cs_relation c) \<noteq> [])
       (Memory ''claim support source_config_id, source, source_id, and relation must not be empty'')) (\<lambda>_.
     try_then (ensure (\<not> (utf8_len (cs_source c) > 256 \<or> utf8_len (cs_source_id c) > 4096
                 \<or> utf8_len (cs_source_config_id c) > 256 \<or> utf8_len (cs_relation c) > 64
                 \<or> opt_any (\<lambda>i. trim i = [] \<or> utf8_len i > 256) (cs_chunk_id c)
                 \<or> opt_any (\<lambda>x. utf8_len x > 8000) (cs_excerpt c)))
       (Memory ''claim support exceeds a field-size limit'')) (\<lambda>_.
     ensure (\<not> (cs_chunk_id c \<noteq> None \<and> \<not> opt_any hex_digest64 (cs_content_sha256 c)))
       (Memory ''chunk-backed claim support content_sha256 must be a 64-character hex digest'')))"

fun validate_supports :: "support_input list \<Rightarrow> unit res" where
  "validate_supports [] = Inr ()"
| "validate_supports (x # xs) =
     try_then (case x of Corpus c \<Rightarrow> validate_corpus_support c | Item i \<Rightarrow> validate_item_support i)
       (\<lambda>_. validate_supports xs)"

text \<open>A finite \<^verbatim>\<open>f64\<close> between 0 and 1, by its bits: up to those of 1.0, or negative zero.\<close>

definition unit_interval :: "f64 \<Rightarrow> bool" where
  "unit_interval b \<longleftrightarrow> b \<le> 0x3FF0000000000000 \<or> b = 0x8000000000000000"

definition known_origin :: "ustr \<Rightarrow> bool" where
  "known_origin s \<longleftrightarrow>
     s = lit ''operator_asserted'' \<or> s = lit ''source_derived'' \<or> s = lit ''legacy_unverified''"

definition validate_claim :: "(f64 \<Rightarrow> string) \<Rightarrow> claim_input \<Rightarrow> unit res" where
  "validate_claim fmt i =
     (let text = trim (ci_text i) in
      if text = [] then Inl (Memory ''claim text must not be empty'')
      else if utf8_len text > 100000 then Inl (Memory ''claim text must not exceed 100,000 bytes'')
      else if ci_text i \<noteq> text
      then Inl (Memory ''claim text must not have leading or trailing whitespace'')
      else if list_ex (\<lambda>w. utf8_len w > MAX_TSVECTOR_INPUT_LEXEME_BYTES) (split_on is_whitespace (ci_text i))
      then Inl (Memory ''claim text contains a whitespace-delimited lexeme of {} UTF-8 bytes; the limit is {MAX_TSVECTOR_INPUT_LEXEME_BYTES} bytes'')
      else if ci_polarity i \<noteq> - 1 \<and> ci_polarity i \<noteq> 1
      then Inl (Memory ''claim polarity must be -1 or 1'')
      else if \<not> unit_interval (ci_confidence i)
      then Inl (Memory ''claim confidence must be finite and between 0 and 1'')
      else if (case (ci_valid_from i, ci_valid_to i) of (Some from, Some to) \<Rightarrow> to \<le> from | _ \<Rightarrow> False)
      then Inl (Memory ''valid_to must be after valid_from'')
      else if opt_any (\<lambda>v. utf8_len v > 1024) (ci_subject i) \<or> opt_any (\<lambda>v. utf8_len v > 1024) (ci_predicate i)
      then Inl (Memory ''claim subject and predicate must not exceed 1024 bytes'')
      else if trim (ci_origin i) = [] \<or> utf8_len (ci_origin i) > 256
      then Inl (Memory ''claim origin must be between 1 and 256 bytes'')
      else if ci_origin i \<noteq> trim (ci_origin i)
      then Inl (Memory ''claim origin must not have leading or trailing whitespace'')
      else if \<not> known_origin (ci_origin i) then Inl (Memory ''unsupported claim origin: {}'')
      else if opt_any (\<lambda>v. utf8_len (json_to_string fmt v) > MAX_CLAIM_VALUE_SERIALIZED_BYTES) (ci_value i)
      then Inl (Memory ''claim value must not exceed 100,000 serialized bytes'')
      else if opt_any (\<lambda>a. trim a = [] \<or> utf8_len a > 256) (ci_actor i)
      then Inl (Memory ''claim actor must be between 1 and 256 bytes when present'')
      else if length (ci_support i) > 32
      then Inl (Memory ''a claim may have at most 32 support records'')
      else validate_supports (ci_support i))"

definition cites_items :: "claim_input \<Rightarrow> bool" where
  "cites_items i \<longleftrightarrow> list_ex (\<lambda>x. case x of Item _ \<Rightarrow> True | Corpus _ \<Rightarrow> False) (ci_support i)"

subsection \<open>Preparation\<close>

record prepared_claim =
  pc_subject :: "ustr option"
  pc_predicate :: "ustr option"
  pc_claim_key :: "ustr option"
  pc_value :: "json option"
  pc_conflict_eligible :: bool

definition prepare :: "(f64 \<Rightarrow> string) \<Rightarrow> unicode \<Rightarrow> claim_input \<Rightarrow> prepared_claim res" where
  "prepare fmt u i =
     try_then (validate_claim fmt i) (\<lambda>_.
       let subject = map_option (normalize_key_part u) (ci_subject i);
           predicate = map_option (normalize_key_part u) (ci_predicate i);
           claim_key = (case (subject, predicate) of
                          (Some s, Some p) \<Rightarrow> claim_key_from_parts u s p | _ \<Rightarrow> None);
           value = map_option canonical_json (ci_value i) in
       Inr \<lparr>pc_subject = subject, pc_predicate = predicate, pc_claim_key = claim_key,
            pc_value = value,
            pc_conflict_eligible =
              (claim_key \<noteq> None \<and> value \<noteq> None \<and> is_conflict_eligible (ci_kind i))\<rparr>)"

subsection \<open>The JSON of an input\<close>

definition item_ref_json :: "item_ref \<Rightarrow> json" where
  "item_ref_json r = (case r of ItemId d \<Rightarrow> jobj [(''item_id'', JString d)]
     | VersionId d \<Rightarrow> jobj [(''version_id'', JString d)] | Url u \<Rightarrow> jobj [(''url'', JString u)])"

definition support_json :: "support_input \<Rightarrow> json" where
  "support_json x =
     (case x of
        Corpus c \<Rightarrow> jobj
          [(''source_config_id'', JString (cs_source_config_id c)), (''source'', JString (cs_source c)),
           (''source_id'', JString (cs_source_id c)), (''chunk_id'', jopt JString (cs_chunk_id c)),
           (''content_sha256'', jopt JString (cs_content_sha256 c)),
           (''excerpt'', jopt JString (cs_excerpt c)), (''relation'', JString (cs_relation c))]
      | Item i \<Rightarrow> jobj [(''item'', item_ref_json (is_item i)), (''relation'', JString (is_relation i))])"

definition claim_input_json :: "(time \<Rightarrow> ustr) \<Rightarrow> claim_input \<Rightarrow> json" where
  "claim_input_json show_time i = jobj
     [(''kind'', jstr (claim_kind_str (ci_kind i))), (''text'', JString (ci_text i)),
      (''subject'', jopt JString (ci_subject i)), (''predicate'', jopt JString (ci_predicate i)),
      (''value'', jopt (\<lambda>v. v) (ci_value i)), (''polarity'', jint (ci_polarity i)),
      (''origin'', JString (ci_origin i)), (''actor'', jopt JString (ci_actor i)),
      (''confidence'', JNumber (Float (ci_confidence i))),
      (''valid_from'', jopt (\<lambda>t. JString (show_time t)) (ci_valid_from i)),
      (''valid_to'', jopt (\<lambda>t. JString (show_time t)) (ci_valid_to i)),
      (''support'', JArray (map support_json (ci_support i)))]"

subsection \<open>Embedding passages\<close>

fun chunks :: "nat \<Rightarrow> ustr \<Rightarrow> ustr list" where
  "chunks n s = (if n = 0 \<or> s = [] then [] else take n s # chunks n (drop n s))"

declare chunks.simps [simp del]

definition split_passage :: "ustr \<Rightarrow> nat \<Rightarrow> ustr list" where
  "split_passage text max_chars =
     (if length text \<le> max_chars then [text] else chunks max_chars text)"

text \<open>\<^verbatim>\<open>str::split("\n\n")\<close>, leftmost and non-overlapping.\<close>

fun split_paragraphs :: "ustr \<Rightarrow> ustr list" where
  "split_paragraphs [] = [[]]"
| "split_paragraphs [c] = [[c]]"
| "split_paragraphs (c # d # s) =
     (if c = 10 \<and> d = 10 then [] # split_paragraphs s
      else (case split_paragraphs (d # s) of [] \<Rightarrow> [[c]] | w # ws \<Rightarrow> (c # w) # ws))"

abbreviation "MAX_PASSAGES \<equiv> (12::nat)"
abbreviation "MAX_PASSAGE_CHARS \<equiv> (1000::nat)"

definition embedding_metadata :: "(f64 \<Rightarrow> string) \<Rightarrow> claim \<Rightarrow> ustr" where
  "embedding_metadata fmt c =
     (let nonempty = (\<lambda>l m. case m of Some v \<Rightarrow> if v = [] then [] else [lit l @ v] | None \<Rightarrow> []) in
      join_with [10]
        ([lit ''kind: '' @ lit (claim_kind_str (cl_kind c))]
         @ nonempty ''subject: '' (cl_subject c) @ nonempty ''predicate: '' (cl_predicate c)
         @ (case cl_value c of None \<Rightarrow> [] | Some v \<Rightarrow>
             let rendered = json_to_string fmt v in
             if rendered \<noteq> trim (cl_text c) \<and> length rendered \<le> 500
             then [lit ''value: '' @ rendered] else [])))"

definition embedding_passages :: "(f64 \<Rightarrow> string) \<Rightarrow> claim \<Rightarrow> ustr list" where
  "embedding_passages fmt c =
     (let metadata = embedding_metadata fmt c;
          split = concat (map (\<lambda>p. split_passage p MAX_PASSAGE_CHARS)
                    (filter (\<lambda>p. p \<noteq> []) (map trim (split_paragraphs (cl_text c)))));
          passages = (if split = [] then [cl_text c] else split);
          last = length passages - 1;
          sampled = (if length passages > MAX_PASSAGES
                     then map (\<lambda>k. passages ! (k * last div (MAX_PASSAGES - 1))) [0..<MAX_PASSAGES]
                     else passages)
      in map (\<lambda>p. if metadata = [] then p else p @ [10] @ metadata) sampled)"

subsection \<open>Laws\<close>

lemma validate_claim_Inr:
  assumes "validate_claim fmt i = Inr ()"
  shows "ci_polarity i = 1 \<or> ci_polarity i = - 1"
    and "window_ok (ci_valid_from i) (ci_valid_to i)"
    and "known_origin (ci_origin i)" and "trim (ci_text i) = ci_text i" and "ci_text i \<noteq> []"
    and "trim (ci_origin i) = ci_origin i" and "unit_interval (ci_confidence i)"
  using assms
  by (auto simp: validate_claim_def Let_def window_ok_def split: if_splits option.splits)

lemma prepare_Inr:
  assumes "prepare fmt u i = Inr p"
  shows "validate_claim fmt i = Inr ()"
    and "pc_conflict_eligible p \<longleftrightarrow> pc_claim_key p \<noteq> None \<and> pc_value p \<noteq> None \<and> is_conflict_eligible (ci_kind i)"
    and "pc_value p = map_option canonical_json (ci_value i)"
  using assms by (auto simp: prepare_def Let_def res_simps)

lemma prepare_value_wf: "prepare fmt u i = Inr p \<Longrightarrow> opt_all wf_json (pc_value p)"
  by (cases "ci_value i") (simp_all add: prepare_Inr(3) canonical_json_wf)

lemma prepare_key:
  assumes "unicode_ok u" and "prepare fmt u i = Inr p"
  shows "pc_claim_key p =
    (case (ci_subject i, ci_predicate i) of (Some s, Some q) \<Rightarrow> claim_key_from_parts u s q | _ \<Rightarrow> None)"
  using assms by (auto simp: prepare_def Let_def res_simps claim_key_normalized_parts split: option.splits)

lemma chunks_concat: "0 < n \<Longrightarrow> concat (chunks n s) = s"
  by (induction n s rule: chunks.induct) (subst chunks.simps, auto)

lemma chunks_bound: "w \<in> set (chunks n s) \<Longrightarrow> w \<noteq> [] \<and> length w \<le> n"
proof (induction n s rule: chunks.induct)
  case (1 n s)
  then show ?case by (subst (asm) (2) chunks.simps) (auto split: if_splits)
qed

lemma split_passage_concat: "0 < n \<Longrightarrow> concat (split_passage s n) = s"
  by (simp add: split_passage_def chunks_concat)

end
