(* ===== verification/Ledger_Store.thy ===== *)
theory Ledger_Store
  imports Ledger_State Claim_Input
begin

section \<open>The shared store operations\<close>

text \<open>
  The statements and helpers of \<^verbatim>\<open>ledger/cockroach.rs\<close> and
  \<^verbatim>\<open>ledger/cockroach/lifecycle_store.rs\<close> that the mutations share: receipts, the lineage
  and claim reads, the pair query, claim insertion, the detector's compare-and-join, the
  verified close and the lifecycle log. Every SQL statement is one function of the tables;
  row locks need no counterpart because a transaction is atomic.

  The repository is the one without claim item links: a claim whose support cites a
  collected item is refused.
\<close>

abbreviation "FUNCTIONAL_VALUE_CONFLICT_DETECTOR_V2 \<equiv> ''same_key_functional_value_v2''"
abbreviation "LEGACY_CONFLICT_DETECTOR_V1 \<equiv> ''same_key_typed_value''"
abbreviation "FUNCTIONAL_VALUE_CONFLICT_RATIONALE_V2 \<equiv> ''overlapping lifecycle-current functional-key claims affirm different values or affirm and negate the same value''"
abbreviation "MAX_CURRENT_CLAIMS_PER_KEY_COMPARISON \<equiv> (256::nat)"
abbreviation "MAX_KEY_INCOMPATIBLE_PAIRS \<equiv> (32640::nat)"
abbreviation "MAX_IDEMPOTENCY_KEY_BYTES \<equiv> (256::nat)"
abbreviation "MAX_SAFE_INTEGER \<equiv> (9007199254740991::int)"
abbreviation "MAX_LEDGER_RESULTS \<equiv> (100::nat)"

subsection \<open>Arguments\<close>

definition validated_idempotency_key :: "ustr \<Rightarrow> ustr res" where
  "validated_idempotency_key key =
     (let key = trim key in
      if key = [] \<or> utf8_len key > MAX_IDEMPOTENCY_KEY_BYTES
      then Inl (Memory ''idempotency_key must be between 1 and {MAX_IDEMPOTENCY_KEY_BYTES} bytes'')
      else Inr key)"

definition safe_int :: "int \<Rightarrow> bool" where
  "safe_int i \<longleftrightarrow> 1 \<le> i \<and> i \<le> MAX_SAFE_INTEGER"

record claim_target =
  ct_claim_id :: int
  ct_expected_revision :: int

definition validate_claim_target :: "claim_target \<Rightarrow> unit res" where
  "validate_claim_target t =
     ensure (safe_int (ct_claim_id t) \<and> safe_int (ct_expected_revision t))
       (Memory ''claim_id and expected_revision must be between 1 and {MAX_SAFE_INTEGER}'')"

definition bounded_ids :: "int list \<Rightarrow> int list res" where
  "bounded_ids ids =
     (if length ids > MAX_LEDGER_RESULTS
      then Inl (Memory ''{label} id lookup accepts at most {MAX_LEDGER_RESULTS} ids'')
      else if list_ex (\<lambda>i. \<not> safe_int i) ids
      then Inl (Memory ''{label} ids must be between 1 and {MAX_SAFE_INTEGER}'')
      else Inr (sort_dedup ids))"

definition lifecycle_request_identity :: "string \<Rightarrow> fleet_scope \<Rightarrow> json \<Rightarrow> json" where
  "lifecycle_request_identity action sc input = jobj
     [(''action'', jstr action),
      (''scope'', jobj [(''project'', JString (sc_project sc)), (''agent'', JString (sc_agent sc)),
         (''session_id'', jopt JString (sc_session_id sc)), (''privacy_tier'', jstr (sc_privacy_tier sc))]),
      (''input'', input)]"

subsection \<open>Receipts\<close>

definition mark_replayed :: "lifecycle_mutation \<Rightarrow> lifecycle_mutation" where
  "mark_replayed m = (case m of
      ClaimResponse c \<Rightarrow> ClaimResponse (c\<lparr>cm_idempotent_replay := True\<rparr>)
    | ConflictResponse c \<Rightarrow> ConflictResponse (c\<lparr>xm_idempotent_replay := True\<rparr>))"

text \<open>The two result types a stored response can decode to.\<close>

fun is_claim_response :: "lifecycle_mutation \<Rightarrow> bool" where
  "is_claim_response (ClaimResponse _) = True"
| "is_claim_response (ConflictResponse _) = False"

fun is_conflict_response :: "lifecycle_mutation \<Rightarrow> bool" where
  "is_conflict_response (ClaimResponse _) = False"
| "is_conflict_response (ConflictResponse _) = True"

definition decode_receipt_values :: "(lifecycle_mutation \<Rightarrow> bool)
    \<Rightarrow> receipt \<Rightarrow> fleet_scope \<Rightarrow> string \<Rightarrow> json \<Rightarrow> lifecycle_mutation res" where
  "decode_receipt_values decodes row sc operation request =
     (if rc_project row \<noteq> sc_project sc \<or> rc_operation row \<noteq> operation
         \<or> \<not> json_eq (rc_request row) request
      then Inl (IdempotencyConflict ''idempotency key was already used for a different mutation'')
      else try_then (ok_or (rc_response row) (Memory ''committed idempotency receipt has no response''))
             (\<lambda>response. if decodes response then Inr (mark_replayed response)
                         else Inl (Memory ''decode idempotency receipt: {error}'')))"

definition select_receipt :: "ustr \<Rightarrow> ledger \<Rightarrow> receipt option" where
  "select_receipt key s = find (\<lambda>r. rc_idempotency_key r = key) (l_receipts s)"

definition reserve_receipt :: "fleet_scope \<Rightarrow> ustr \<Rightarrow> json \<Rightarrow> string \<Rightarrow> bool tx" where
  "reserve_receipt sc key request operation =
     tx_then (tx_get (select_receipt key)) (\<lambda>existing.
       if existing \<noteq> None then tx_ret False
       else tx_then (tx_put (\<lambda>s. s\<lparr>l_receipts := l_receipts s @
              [\<lparr>rc_idempotency_key = key, rc_project = sc_project sc, rc_request = request,
                rc_operation = operation, rc_claim_id = None, rc_conflict_id = None,
                rc_response = None\<rparr>]\<rparr>)) (\<lambda>_. tx_ret True))"

definition replay_or_reserve :: "(lifecycle_mutation \<Rightarrow> bool)
    \<Rightarrow> fleet_scope \<Rightarrow> ustr \<Rightarrow> json \<Rightarrow> string \<Rightarrow> lifecycle_mutation option tx" where
  "replay_or_reserve decodes sc key request operation =
     tx_then (tx_get (select_receipt key)) (\<lambda>row. case row of
        Some r \<Rightarrow> tx_then (tx_res (decode_receipt_values decodes r sc operation request)) (\<lambda>m. tx_ret (Some m))
      | None \<Rightarrow> tx_then (reserve_receipt sc key request operation) (\<lambda>reserved.
          if \<not> reserved
          then tx_then (tx_get (select_receipt key)) (\<lambda>row. case row of
                 None \<Rightarrow> tx_fail (protocol_error ''conflicting idempotency receipt disappeared'')
               | Some r \<Rightarrow> tx_then (tx_res (decode_receipt_values decodes r sc operation request))
                             (\<lambda>m. tx_ret (Some m)))
          else tx_ret None))"

definition receipt_matches ::
    "env \<Rightarrow> fleet_scope \<Rightarrow> ustr \<Rightarrow> json \<Rightarrow> string \<Rightarrow> receipt \<Rightarrow> bool" where
  "receipt_matches en sc key request operation r \<longleftrightarrow>
     rc_idempotency_key r = key \<and> rc_project r = sc_project sc
     \<and> e_sql_eq en (rc_request r) request \<and> rc_operation r = operation"

definition finish_receipt :: "env \<Rightarrow> fleet_scope \<Rightarrow> ustr \<Rightarrow> json \<Rightarrow> string
    \<Rightarrow> (receipt \<Rightarrow> receipt) \<Rightarrow> unit tx" where
  "finish_receipt en sc key request operation upd =
     tx_then (tx_get (\<lambda>s. length (filter (receipt_matches en sc key request operation) (l_receipts s)))) (\<lambda>n.
       if n \<noteq> 1
       then tx_fail (protocol_error ''idempotency receipt reservation disappeared during mutation'')
       else tx_put (\<lambda>s. s\<lparr>l_receipts :=
              map (\<lambda>r. if receipt_matches en sc key request operation r then upd r else r) (l_receipts s)\<rparr>))"

definition finish_claim_receipt ::
    "env \<Rightarrow> fleet_scope \<Rightarrow> ustr \<Rightarrow> json \<Rightarrow> string \<Rightarrow> claim_mutation \<Rightarrow> unit tx" where
  "finish_claim_receipt en sc key request operation m =
     finish_receipt en sc key request operation
       (\<lambda>r. r\<lparr>rc_claim_id := Some (cl_id (vw_claim (cm_claim m))), rc_response := Some (ClaimResponse m)\<rparr>)"

definition finish_conflict_receipt ::
    "env \<Rightarrow> fleet_scope \<Rightarrow> ustr \<Rightarrow> json \<Rightarrow> string \<Rightarrow> conflict_mutation \<Rightarrow> unit tx" where
  "finish_conflict_receipt en sc key request operation m =
     finish_receipt en sc key request operation
       (\<lambda>r. r\<lparr>rc_conflict_id := Some (xm_conflict_id m), rc_response := Some (ConflictResponse m)\<rparr>)"

subsection \<open>Audit rows\<close>

definition insert_claim_event :: "claim_event \<Rightarrow> unit tx" where
  "insert_claim_event e = tx_put (\<lambda>s. s\<lparr>l_claim_events := l_claim_events s @ [e]\<rparr>)"

definition insert_transition_event :: "fleet_scope \<Rightarrow> int \<Rightarrow> string \<Rightarrow> claim_state \<Rightarrow> claim_state
    \<Rightarrow> json \<Rightarrow> unit tx" where
  "insert_transition_event sc claim_id reason from_state to_state payload =
     insert_claim_event \<lparr>ce_claim_id = claim_id, ce_event_kind = ''state_transition'',
       ce_actor = sc_agent sc, ce_reason = Some reason, ce_from_state = Some from_state,
       ce_to_state = to_state, ce_payload = payload\<rparr>"

definition insert_disputed_transition_event :: "fleet_scope \<Rightarrow> int \<Rightarrow> int \<Rightarrow> unit tx" where
  "insert_disputed_transition_event sc claim_id conflict_id =
     insert_transition_event sc claim_id ''conflict_detected'' Active Disputed
       (jobj [(''conflict_id'', jint conflict_id)])"

text \<open>\<^verbatim>\<open>memory_events\<close> has a unique index on the idempotency key.\<close>

definition insert_memory_event :: "memory_event \<Rightarrow> unit tx" where
  "insert_memory_event e =
     tx_then (tx_get l_events) (\<lambda>es.
       if me_idempotency_key e \<noteq> None
          \<and> list_ex (\<lambda>x. me_idempotency_key x = me_idempotency_key e) es
       then tx_fail (Database ''unique_violation'')
       else tx_put (\<lambda>s. s\<lparr>l_events := l_events s @ [e]\<rparr>))"

definition insert_claim_recorded_event ::
    "fleet_scope \<Rightarrow> int \<Rightarrow> ustr option \<Rightarrow> json \<Rightarrow> unit tx" where
  "insert_claim_recorded_event sc claim_id key payload = insert_memory_event
     \<lparr>me_agent = sc_agent sc, me_session_id = sc_session_id sc, me_event_kind = ''claim_recorded'',
      me_entity_kind = ''claim'', me_entity_id = claim_id, me_idempotency_key = key, me_payload = payload\<rparr>"

definition insert_keyed_claim_event ::
    "fleet_scope \<Rightarrow> string \<Rightarrow> int \<Rightarrow> ustr \<Rightarrow> json \<Rightarrow> unit tx" where
  "insert_keyed_claim_event sc kind claim_id key payload = insert_memory_event
     \<lparr>me_agent = sc_agent sc, me_session_id = sc_session_id sc, me_event_kind = kind,
      me_entity_kind = ''claim'', me_entity_id = claim_id, me_idempotency_key = Some key, me_payload = payload\<rparr>"

definition insert_keyed_conflict_event ::
    "fleet_scope \<Rightarrow> string \<Rightarrow> int \<Rightarrow> ustr \<Rightarrow> json \<Rightarrow> unit tx" where
  "insert_keyed_conflict_event sc kind conflict_id key payload = insert_memory_event
     \<lparr>me_agent = sc_agent sc, me_session_id = sc_session_id sc, me_event_kind = kind,
      me_entity_kind = ''conflict'', me_entity_id = conflict_id, me_idempotency_key = Some key,
      me_payload = payload\<rparr>"

subsection \<open>Reading a key\<close>

definition detector_class :: "string \<Rightarrow> int" where
  "detector_class d = (if d = FUNCTIONAL_VALUE_CONFLICT_DETECTOR_V2 then 2
     else if d = LEGACY_CONFLICT_DETECTOR_V1 then 1 else 0)"

definition lineage_rows :: "ustr \<Rightarrow> ledger \<Rightarrow> conflict_row list" where
  "lineage_rows key s =
     take 3 (sort_key (\<lambda>c. lit (cf_detector c)) (filter (\<lambda>c. cf_claim_key c = key) (l_conflicts s)))"

definition lock_lineages :: "ustr \<Rightarrow> v2_lineage option tx" where
  "lock_lineages key = tx_then (tx_get (lineage_rows key)) (\<lambda>rows.
     tx_res (classify_lineages
       (map (\<lambda>c. (cf_id c, detector_class (cf_detector c), cf_state c, cf_revision c)) rows)))"

definition on_key :: "ustr \<Rightarrow> claim \<Rightarrow> bool" where
  "on_key key c \<longleftrightarrow> cl_claim_key c = Some key \<and> is_current (cl_state c)"

text \<open>\<^verbatim>\<open>ORDER BY state, id\<close> over the two current states.\<close>

definition by_state_and_id :: "claim list \<Rightarrow> claim list" where
  "by_state_and_id cs =
     sort_key cl_id (filter (\<lambda>c. cl_state c = Active) cs)
     @ sort_key cl_id (filter (\<lambda>c. cl_state c \<noteq> Active) cs)"

definition bounded_current :: "ustr \<Rightarrow> ledger \<Rightarrow> claim list" where
  "bounded_current key s =
     sort_key cl_id (take (MAX_CURRENT_CLAIMS_PER_KEY_COMPARISON + 1)
       (by_state_and_id (filter (on_key key) (l_claims s))))"

definition decode_locked_claim :: "claim \<Rightarrow> locked_key_claim" where
  "decode_locked_claim c = \<lparr>lk_id = cl_id c, lk_state = cl_state c, lk_origin = cl_origin c,
     lk_actor = cl_actor c, lk_revision = cl_revision c, lk_polarity = cl_polarity c,
     lk_valid_from = cl_valid_from c, lk_valid_to = cl_valid_to c,
     lk_conflict_eligible = cl_conflict_eligible c, lk_value = cl_value c\<rparr>"

definition lock_current_claims :: "ustr \<Rightarrow> locked_key_claim list tx" where
  "lock_current_claims key = tx_then (tx_get (bounded_current key)) (\<lambda>rows.
     if length rows > MAX_CURRENT_CLAIMS_PER_KEY_COMPARISON
     then tx_refuse BoundExceeded (jobj [(''bound'', jint (int MAX_CURRENT_CLAIMS_PER_KEY_COMPARISON))])
     else (let claims = map decode_locked_claim rows in
       if list_ex (\<lambda>c. \<not> is_current (lk_state c)) claims
          \<or> \<not> sorted_wrt (<) (map lk_id claims)
       then tx_fail (protocol_error ''locked current claim set was not current or not in ascending id order'')
       else tx_ret claims))"

text \<open>\<^verbatim>\<open>IS NOT DISTINCT FROM\<close>, and the pair predicate both detector statements share.\<close>

definition sql_not_distinct :: "('a \<Rightarrow> 'a \<Rightarrow> bool) \<Rightarrow> 'a option \<Rightarrow> 'a option \<Rightarrow> bool" where
  "sql_not_distinct eq x y = (case (x, y) of (None, None) \<Rightarrow> True | (Some a, Some b) \<Rightarrow> eq a b | _ \<Rightarrow> False)"

definition sql_incompatible :: "(json \<Rightarrow> json \<Rightarrow> bool) \<Rightarrow> claim \<Rightarrow> claim \<Rightarrow> bool" where
  "sql_incompatible eq a b \<longleftrightarrow>
     ((cl_polarity a = 1 \<and> cl_polarity b = 1 \<and> \<not> sql_not_distinct eq (cl_value a) (cl_value b))
      \<or> (cl_polarity a \<noteq> cl_polarity b \<and> sql_not_distinct eq (cl_value a) (cl_value b)))
     \<and> opt_all (\<lambda>to. opt_all (\<lambda>from. from < to) (cl_valid_from b)) (cl_valid_to a)
     \<and> opt_all (\<lambda>to. opt_all (\<lambda>from. from < to) (cl_valid_from a)) (cl_valid_to b)"

definition key_pairs :: "env \<Rightarrow> ustr \<Rightarrow> ledger \<Rightarrow> (int \<times> int) list" where
  "key_pairs en key s =
     (let cs = filter cl_conflict_eligible (bounded_current key s) in
      take (MAX_KEY_INCOMPATIBLE_PAIRS + 1)
        (sort (concat (map (\<lambda>a. map (\<lambda>b. (cl_id a, cl_id b))
           (filter (\<lambda>b. cl_id a < cl_id b \<and> sql_incompatible (e_sql_eq en) a b) cs)) cs))))"

definition key_incompatible_pairs :: "env \<Rightarrow> ustr \<Rightarrow> (int \<times> int) list tx" where
  "key_incompatible_pairs en key = tx_then (tx_get (key_pairs en key)) (\<lambda>pairs.
     if length pairs > MAX_KEY_INCOMPATIBLE_PAIRS
     then tx_fail (protocol_error ''key incompatibility cross-check exceeded its pair bound'')
     else tx_ret pairs)"

definition claim_by_id :: "int \<Rightarrow> ledger \<Rightarrow> claim option" where
  "claim_by_id i s = find (\<lambda>c. cl_id c = i) (l_claims s)"

definition conflict_by_id :: "int \<Rightarrow> ledger \<Rightarrow> conflict_row option" where
  "conflict_by_id i s = find (\<lambda>c. cf_id c = i) (l_conflicts s)"

end
