(* ===== verification/Claim_Conflicts.thy ===== *)
theory Claim_Conflicts
  imports Ledger_Store
begin

section \<open>Which conflict a claim reads as being in\<close>

text \<open>
  The read of \<^verbatim>\<open>ledger/cockroach.rs\<close> that attaches conflict ids to claims
  (\<^verbatim>\<open>fetch_current_claim_conflict_ids\<close>): the lineages of each claim's key, the claim's
  memberships, the consistency checks between the two, and the choice of the v2 lineage
  before the legacy one. The hash maps of the source are functions here; where the source
  visits their groups in hash order, this model visits them in order of appearance, which
  only decides which of several errors of a corrupt ledger is reported.
\<close>

record lineage_row =
  lr_claim_id :: int
  lr_claim_key :: ustr
  lr_conflict_id :: "int option"
  lr_conflict_claim_key :: "ustr option"
  lr_detector_class :: "int option"

record membership_row =
  mr_claim_id :: int
  mr_member_conflict_id :: int
  mr_actual_conflict_id :: "int option"
  mr_actual_claim_key :: "ustr option"
  mr_detector_class :: "int option"

record conflict_lineages =
  cl_lin_claim_key :: ustr
  v2_conflict_id :: "int option"
  legacy_conflict_id :: "int option"

datatype known_detector = FunctionalValueV2 | LegacyTypedValueV1

definition parse_conflict_detector_class :: "int \<Rightarrow> known_detector res" where
  "parse_conflict_detector_class v =
     (if v = 2 then Inr FunctionalValueV2
      else if v = 1 then Inr LegacyTypedValueV1
      else if v = 0 then Inl (protocol_error ''database returned an unadmitted conflict detector'')
      else Inl (protocol_error ''database returned an invalid conflict detector classification''))"

abbreviation "MAX_KNOWN_CONFLICT_LINEAGE_ROWS_PER_CLAIM \<equiv> (2::nat)"

subsection \<open>The lineages of each claim's key\<close>

text \<open>The loop over one claim's rows: the slots, whether an empty row was seen, the count.\<close>

fun lineage_scan :: "lineage_row list \<Rightarrow> conflict_lineages \<Rightarrow> bool \<Rightarrow> nat
    \<Rightarrow> (conflict_lineages \<times> bool \<times> nat) res" where
  "lineage_scan [] l seen_empty n = Inr (l, seen_empty, n)"
| "lineage_scan (row # rows) l seen_empty n =
     (case (lr_conflict_id row, lr_conflict_claim_key row, lr_detector_class row) of
        (None, None, None) \<Rightarrow>
          if seen_empty then Inl (protocol_error ''claim lineage projection duplicated an empty lineage row'')
          else lineage_scan rows l True n
      | (Some i, Some key, Some c) \<Rightarrow>
          if i > 0 \<and> key = cl_lin_claim_key l
          then try_then (parse_conflict_detector_class c) (\<lambda>d. case d of
                 FunctionalValueV2 \<Rightarrow>
                   if v2_conflict_id l \<noteq> None
                   then Inl (protocol_error ''database returned duplicate rows for one conflict detector lineage'')
                   else lineage_scan rows (l\<lparr>v2_conflict_id := Some i\<rparr>) seen_empty (n + 1)
               | LegacyTypedValueV1 \<Rightarrow>
                   if legacy_conflict_id l \<noteq> None
                   then Inl (protocol_error ''database returned duplicate rows for one conflict detector lineage'')
                   else lineage_scan rows (l\<lparr>legacy_conflict_id := Some i\<rparr>) seen_empty (n + 1))
          else Inl (protocol_error ''database returned a partial or cross-key conflict lineage'')
      | _ \<Rightarrow> Inl (protocol_error ''database returned a partial or cross-key conflict lineage''))"

definition claim_lineages :: "lineage_row list \<Rightarrow> conflict_lineages res" where
  "claim_lineages rows =
     (let key = lr_claim_key (hd rows) in
      if list_ex (\<lambda>r. lr_claim_key r \<noteq> key) rows
      then Inl (protocol_error ''claim lineage projection returned inconsistent canonical keys'')
      else if length rows > MAX_KNOWN_CONFLICT_LINEAGE_ROWS_PER_CLAIM + 1
      then Inl (protocol_error ''claim conflict lineage exceeded its three-row sentinel'')
      else try_then (lineage_scan rows
             \<lparr>cl_lin_claim_key = key, v2_conflict_id = None, legacy_conflict_id = None\<rparr> False 0)
        (\<lambda>(l, seen_empty, n).
          if n > MAX_KNOWN_CONFLICT_LINEAGE_ROWS_PER_CLAIM
          then Inl (protocol_error ''claim conflict lineage exceeds the known detector bound of {MAX_KNOWN_CONFLICT_LINEAGE_ROWS_PER_CLAIM}'')
          else if seen_empty \<and> n \<noteq> 0
          then Inl (protocol_error ''claim lineage projection mixed empty and populated rows'')
          else if v2_conflict_id l \<noteq> None \<and> v2_conflict_id l = legacy_conflict_id l
          then Inl (protocol_error ''distinct detector lineages shared one conflict id'')
          else Inr l))"

definition assemble_current_conflict_lineages ::
    "lineage_row list \<Rightarrow> (int \<times> conflict_lineages) list res" where
  "assemble_current_conflict_lineages rows =
     (if list_ex (\<lambda>r. lr_claim_id r \<le> 0 \<or> lr_claim_key r = []) rows
      then Inl (protocol_error ''database returned an invalid conflict lineage projection'')
      else try_map (\<lambda>i. try_then (claim_lineages (filter (\<lambda>r. lr_claim_id r = i) rows)) (\<lambda>l. Inr (i, l)))
             (remdups (map lr_claim_id rows)))"

subsection \<open>The memberships of each claim\<close>

fun membership_scan :: "conflict_lineages \<Rightarrow> membership_row list \<Rightarrow> known_detector set \<Rightarrow> int set
    \<Rightarrow> int set res" where
  "membership_scan l [] detectors ids = Inr ids"
| "membership_scan l (row # rows) detectors ids =
     (case (mr_actual_conflict_id row, mr_actual_claim_key row, mr_detector_class row) of
        (Some i, Some key, Some c) \<Rightarrow>
          if i \<noteq> mr_member_conflict_id row \<or> key \<noteq> cl_lin_claim_key l
          then Inl (protocol_error ''claim conflict membership crossed its canonical key or conflict id'')
          else try_then (parse_conflict_detector_class c) (\<lambda>d.
            if d \<in> detectors \<or> i \<in> ids
            then Inl (protocol_error ''claim conflict membership duplicated a detector lineage'')
            else if (case d of FunctionalValueV2 \<Rightarrow> v2_conflict_id l
                             | LegacyTypedValueV1 \<Rightarrow> legacy_conflict_id l) \<noteq> Some i
            then Inl (protocol_error ''actual claim membership did not match its exact-key detector lineage'')
            else membership_scan l rows (insert d detectors) (insert i ids))
      | _ \<Rightarrow> Inl (protocol_error ''conflict membership points to an unavailable conflict row''))"

definition claim_memberships ::
    "(int \<times> conflict_lineages) list \<Rightarrow> int \<Rightarrow> membership_row list \<Rightarrow> int set res" where
  "claim_memberships lineages i rows =
     (if length rows > MAX_KNOWN_CONFLICT_LINEAGE_ROWS_PER_CLAIM
      then Inl (protocol_error ''claim has a third actual conflict membership row'')
      else try_then (ok_or (map_of lineages i)
             (protocol_error ''conflict membership has no canonical claim-key lineage''))
        (\<lambda>l. membership_scan l rows {} {}))"

definition validate_current_conflict_memberships ::
    "(int \<times> conflict_lineages) list \<Rightarrow> membership_row list \<Rightarrow> (int \<times> int set) list res" where
  "validate_current_conflict_memberships lineages rows =
     (if list_ex (\<lambda>r. mr_claim_id r \<le> 0 \<or> mr_member_conflict_id r \<le> 0) rows
      then Inl (protocol_error ''database returned an invalid conflict membership coordinate'')
      else try_map (\<lambda>i. try_then (claim_memberships lineages i (filter (\<lambda>r. mr_claim_id r = i) rows))
                          (\<lambda>ids. Inr (i, ids)))
             (remdups (map mr_claim_id rows)))"

subsection \<open>The conflict ids of claims\<close>

definition current_conflict_of :: "(int \<times> int set) list \<Rightarrow> int \<times> conflict_lineages \<Rightarrow> (int \<times> int list) list" where
  "current_conflict_of memberships = (\<lambda>(i, l).
     case (case v2_conflict_id l of Some v \<Rightarrow> Some v | None \<Rightarrow> legacy_conflict_id l) of
       None \<Rightarrow> []
     | Some conflict_id \<Rightarrow>
         (case map_of memberships i of
            None \<Rightarrow> []
          | Some ids \<Rightarrow> if conflict_id \<in> ids then [(i, [conflict_id])] else []))"

definition assemble_current_claim_conflict_ids ::
    "lineage_row list \<Rightarrow> membership_row list \<Rightarrow> (int \<times> int list) list res" where
  "assemble_current_claim_conflict_ids lineages_read membership_rows =
     try_then (assemble_current_conflict_lineages lineages_read) (\<lambda>lineages.
     try_then (validate_current_conflict_memberships lineages membership_rows) (\<lambda>memberships.
     Inr (concat (map (current_conflict_of memberships) lineages))))"

subsection \<open>The two statements\<close>

definition claim_lineage_rows :: "int list \<Rightarrow> ledger \<Rightarrow> lineage_row list" where
  "claim_lineage_rows ids s = concat (map (\<lambda>c.
     case cl_claim_key c of None \<Rightarrow> []
     | Some key \<Rightarrow>
        (let row = (\<lambda>i k d. \<lparr>lr_claim_id = cl_id c, lr_claim_key = key, lr_conflict_id = i,
                      lr_conflict_claim_key = k, lr_detector_class = d\<rparr>);
             cs = sort_key (\<lambda>r. detector_class (cf_detector r)) (lineage_rows key s) in
         if cs = [] then [row None None None]
         else map (\<lambda>r. row (Some (cf_id r)) (Some (cf_claim_key r))
                         (Some (detector_class (cf_detector r)))) cs))
     (take (length ids + 1)
       (sort_key cl_id (filter (\<lambda>c. cl_id c \<in> set ids \<and> cl_claim_key c \<noteq> None) (l_claims s)))))"

definition claim_membership_rows :: "int list \<Rightarrow> ledger \<Rightarrow> membership_row list" where
  "claim_membership_rows ids s = concat (map (\<lambda>i.
     map (\<lambda>k. case conflict_by_id k s of
            None \<Rightarrow> \<lparr>mr_claim_id = i, mr_member_conflict_id = k, mr_actual_conflict_id = None,
                      mr_actual_claim_key = None, mr_detector_class = None\<rparr>
          | Some r \<Rightarrow> \<lparr>mr_claim_id = i, mr_member_conflict_id = k, mr_actual_conflict_id = Some (cf_id r),
                      mr_actual_claim_key = Some (cf_claim_key r),
                      mr_detector_class = Some (detector_class (cf_detector r))\<rparr>)
       (take 3 (sort (map fst (filter (\<lambda>m. snd m = i) (l_members s)))))) ids)"

definition fetch_current_claim_conflict_ids :: "int list \<Rightarrow> (int \<times> int list) list tx" where
  "fetch_current_claim_conflict_ids claim_ids =
     (if claim_ids = [] then tx_ret []
      else (let ids = sort_dedup claim_ids in
        tx_then (tx_get (claim_lineage_rows ids)) (\<lambda>lineages_read.
        if list_ex (\<lambda>r. lr_claim_id r \<notin> set ids) lineages_read
        then tx_fail (protocol_error ''conflict lineage escaped its requested claim ids'')
        else tx_then (tx_get (claim_membership_rows ids)) (\<lambda>membership_rows.
          if length membership_rows > length ids * 3
             \<or> list_ex (\<lambda>r. mr_claim_id r \<notin> set ids) membership_rows
          then tx_fail (protocol_error ''conflict membership escaped its requested claim ids or row bound'')
          else tx_res (assemble_current_claim_conflict_ids lineages_read membership_rows)))))"

definition fetch_claim :: "int \<Rightarrow> claim_view option tx" where
  "fetch_claim i = tx_then (tx_get (claim_by_id i)) (\<lambda>row. case row of
      None \<Rightarrow> tx_ret None
    | Some c \<Rightarrow>
        tx_then (tx_get (\<lambda>s. sort_key su_observed_at (filter (\<lambda>r. su_claim_id r = i) (l_support s)))) (\<lambda>support.
        tx_then (fetch_current_claim_conflict_ids [i]) (\<lambda>ids.
        tx_ret (Some \<lparr>vw_claim = c, vw_support = support,
                      vw_conflict_ids = (case map_of ids i of None \<Rightarrow> [] | Some v \<Rightarrow> v)\<rparr>))))"

lemma read_only_fetch_conflict_ids [simp, intro]: "read_only (fetch_current_claim_conflict_ids ids)"
  unfolding fetch_current_claim_conflict_ids_def Let_def by (intro read_only_intros)

lemma read_only_fetch_claim [simp, intro]: "read_only (fetch_claim i)"
  unfolding fetch_claim_def by (intro read_only_intros read_only_fetch_conflict_ids)

end
