(* ===== verification/Ledger_Write.thy ===== *)
theory Ledger_Write
  imports Claim_Conflicts
begin

section \<open>Writing claims and conflicts\<close>

text \<open>
  The writes the mutations share: inserting a claim with its projection, the detector's
  compare-and-join (\<^verbatim>\<open>detect_and_observe\<close> of \<^verbatim>\<open>ledger/cockroach.rs\<close>), the owner's
  transition, the close of a conflict with the restore of its disputed members, the
  re-evaluation of a key (\<^verbatim>\<open>cockroach/lifecycle_store.rs\<close>), and the append-only lifecycle
  log (\<^verbatim>\<open>cockroach/conflict_store.rs\<close>).
\<close>

subsection \<open>Admission\<close>

definition require_active_model :: "ustr \<Rightarrow> unit tx" where
  "require_active_model model = tx_then (tx_get l_active_model) (\<lambda>active. case active of
      None \<Rightarrow> tx_fail (Configuration ''active embedding generation is not initialized; run deployment bootstrap'')
    | Some a \<Rightarrow> if a \<noteq> model
        then tx_fail (protocol_error ''claim embedding model {model} does not match active corpus model {active_model}'')
        else tx_ret ())"

text \<open>The loop over the probed lineages: whether a v2 row was seen, and how many legacy rows.\<close>

fun detector_scan :: "int list \<Rightarrow> bool \<Rightarrow> nat \<Rightarrow> (bool \<times> nat) res" where
  "detector_scan [] has_v2 legacy = Inr (has_v2, legacy)"
| "detector_scan (c # cs) has_v2 legacy =
     try_then (parse_conflict_detector_class c) (\<lambda>d. case d of
        FunctionalValueV2 \<Rightarrow>
          if has_v2 then Inl (protocol_error ''claim key has an unknown or duplicate conflict detector lineage'')
          else detector_scan cs True legacy
      | LegacyTypedValueV1 \<Rightarrow> detector_scan cs has_v2 (legacy + 1))"

definition require_current_conflict_detector :: "ustr \<Rightarrow> unit tx" where
  "require_current_conflict_detector key =
     tx_then (tx_get (\<lambda>s. map (\<lambda>c. detector_class (cf_detector c)) (lineage_rows key s))) (\<lambda>classes.
       if length classes > MAX_KNOWN_CONFLICT_LINEAGE_ROWS_PER_CLAIM + 1
       then tx_fail (protocol_error ''claim key has an unknown or duplicate conflict detector lineage'')
       else tx_then (tx_res (detector_scan classes False 0)) (\<lambda>(has_v2, legacy).
         if legacy > 1
         then tx_fail (protocol_error ''claim key has an unknown or duplicate conflict detector lineage'')
         else if legacy = 1 \<and> \<not> has_v2
         then tx_fail (Memory ''claim key has an unreconciled legacy conflict detector row'')
         else tx_ret ()))"

subsection \<open>Inserting a claim\<close>

type_synonym claim_passage = "int \<times> ustr \<times> ustr"

definition new_claim :: "tx_input \<Rightarrow> fleet_scope \<Rightarrow> claim_input \<Rightarrow> prepared_claim \<Rightarrow> claim" where
  "new_claim ti sc i p = \<lparr>cl_id = t_claim_id ti, cl_project = sc_project sc, cl_kind = ci_kind i,
     cl_claim_key = pc_claim_key p, cl_subject = pc_subject p, cl_predicate = pc_predicate p,
     cl_value = pc_value p, cl_text = trim (ci_text i), cl_polarity = ci_polarity i,
     cl_state = Active, cl_origin = trim (ci_origin i), cl_actor = Some (sc_agent sc),
     cl_confidence = ci_confidence i, cl_valid_from = ci_valid_from i, cl_valid_to = ci_valid_to i,
     cl_superseded_by = None, cl_revision = 1, cl_conflict_eligible = pc_conflict_eligible p,
     cl_created_at = t_now ti, cl_updated_at = t_now ti\<rparr>"

text \<open>The CHECK constraints of the claims table.\<close>

definition claim_checks :: "claim \<Rightarrow> bool" where
  "claim_checks c \<longleftrightarrow> safe_int (cl_id c) \<and> (cl_polarity c = 1 \<or> cl_polarity c = - 1)
     \<and> known_origin (cl_origin c) \<and> unit_interval (cl_confidence c) \<and> cl_revision c > 0
     \<and> window_ok (cl_valid_from c) (cl_valid_to c)
     \<and> (cl_conflict_eligible c \<longrightarrow>
          cl_claim_key c \<noteq> None \<and> cl_value c \<noteq> None \<and> is_conflict_eligible (cl_kind c))"

definition insert_claim :: "tx_input \<Rightarrow> fleet_scope \<Rightarrow> claim_input \<Rightarrow> prepared_claim \<Rightarrow> claim tx" where
  "insert_claim ti sc i p = (let c = new_claim ti sc i p in
     tx_then (tx_get (claim_by_id (cl_id c))) (\<lambda>existing.
       if existing \<noteq> None then tx_fail (Database ''unique_violation'')
       else if \<not> claim_checks c then tx_fail (Database ''check_violation'')
       else tx_then (tx_put (\<lambda>s. s\<lparr>l_claims := l_claims s @ [c]\<rparr>)) (\<lambda>_. tx_ret c)))"

definition support_chunk_match :: "claim_support_input \<Rightarrow> ustr \<Rightarrow> ledger \<Rightarrow> bool" where
  "support_chunk_match c chunk_id s \<longleftrightarrow> list_ex (\<lambda>k. ch_chunk_id k = chunk_id
     \<and> ch_source_config_id k = cs_source_config_id c \<and> ch_source k = cs_source c
     \<and> ch_source_id k = cs_source_id c \<and> Some (ch_content_sha256 k) = cs_content_sha256 c) (l_chunks s)"

text \<open>The UNIQUE constraint of the support table; a NULL chunk id never clashes.\<close>

definition support_clash :: "claim_support \<Rightarrow> claim_support \<Rightarrow> bool" where
  "support_clash a b \<longleftrightarrow> su_claim_id a = su_claim_id b
     \<and> su_source_config_id a = su_source_config_id b \<and> su_source a = su_source b
     \<and> su_source_id a = su_source_id b \<and> su_chunk_id a \<noteq> None \<and> su_chunk_id a = su_chunk_id b
     \<and> su_relation a = su_relation b"

definition insert_corpus_support :: "tx_input \<Rightarrow> int \<Rightarrow> claim_support_input \<Rightarrow> claim_support tx" where
  "insert_corpus_support ti claim_id c =
     (if trim (cs_source c) = [] \<or> trim (cs_source_id c) = []
      then tx_fail (protocol_error ''claim support source and source_id must not be empty'')
      else tx_then (tx_get (\<lambda>s. opt_all (\<lambda>chunk_id. support_chunk_match c chunk_id s) (cs_chunk_id c)))
        (\<lambda>exact_match.
          if \<not> exact_match
          then tx_fail (protocol_error ''claim support chunk does not match an active tenant/project corpus coordinate'')
          else (let row = \<lparr>su_claim_id = claim_id, su_source_config_id = cs_source_config_id c,
                   su_source = cs_source c, su_source_id = cs_source_id c, su_chunk_id = cs_chunk_id c,
                   su_content_sha256 = cs_content_sha256 c, su_excerpt = cs_excerpt c,
                   su_relation = cs_relation c, su_observed_at = t_now ti\<rparr> in
            tx_then (tx_get (\<lambda>s. list_ex (support_clash row) (l_support s))) (\<lambda>clash.
            if clash then tx_fail (Database ''unique_violation'')
            else tx_then (tx_put (\<lambda>s. s\<lparr>l_support := l_support s @ [row]\<rparr>)) (\<lambda>_. tx_ret row)))))"

fun insert_corpus_supports :: "tx_input \<Rightarrow> int \<Rightarrow> support_input list \<Rightarrow> claim_support list tx" where
  "insert_corpus_supports ti claim_id [] = tx_ret []"
| "insert_corpus_supports ti claim_id (x # xs) =
     (case x of
        Corpus c \<Rightarrow> tx_then (insert_corpus_support ti claim_id c) (\<lambda>row.
                      tx_then (insert_corpus_supports ti claim_id xs) (\<lambda>rows. tx_ret (row # rows)))
      | Item _ \<Rightarrow> tx_fail (protocol_error ''a cited item was not resolved''))"

definition item_support_unavailable :: "'a tx" where
  "item_support_unavailable = tx_refuse ItemSupportUnavailable JNull"

definition insert_support :: "tx_input \<Rightarrow> int \<Rightarrow> claim_input \<Rightarrow> claim_support list tx" where
  "insert_support ti claim_id i =
     (if cites_items i then item_support_unavailable
      else insert_corpus_supports ti claim_id (ci_support i))"

definition insert_embedding :: "int \<Rightarrow> ustr \<Rightarrow> claim_passage \<Rightarrow> unit tx" where
  "insert_embedding claim_id model = (\<lambda>(index, text, vector). tx_put (\<lambda>s. s\<lparr>l_embeddings := l_embeddings s @
     [\<lparr>em_claim_id = claim_id, em_passage_index = index, em_passage_text = text, em_model = model,
       em_vector = vector\<rparr>]\<rparr>))"

definition claim_chunk :: "env \<Rightarrow> fleet_scope \<Rightarrow> ustr \<Rightarrow> claim \<Rightarrow> claim_passage \<Rightarrow> chunk_row" where
  "claim_chunk en sc model c = (\<lambda>(_, primary_passage, primary_vector).
     \<lparr>ch_chunk_id = lit (''claim:'' @ show_int (cl_id c)), ch_source = lit ''ostk_memory'',
      ch_source_id = lit (''claim/'' @ show_int (cl_id c)), ch_source_config_id = lit ''synthetic:claim'',
      ch_text = cl_text c, ch_content_sha256 = e_sha256_hex en (cl_text c),
      ch_embedding_input_sha256 = e_embedding_input_hash en model primary_passage,
      ch_embedding_model = model, ch_embedding = primary_vector,
      ch_facets = jobj [(''project'', JArray [JString (sc_project sc)]),
                        (''record_kind'', JArray [jstr (claim_kind_str (cl_kind c))])],
      ch_extra = jobj [(''claim_id'', jint (cl_id c)), (''claim_key'', jopt JString (cl_claim_key c))]\<rparr>)"

text \<open>\<^verbatim>\<open>ON CONFLICT (chunk_id) DO UPDATE\<close> keeps the coordinate columns of the existing row.\<close>

definition upsert_chunk :: "chunk_row \<Rightarrow> unit tx" where
  "upsert_chunk k = tx_put (\<lambda>s. s\<lparr>l_chunks :=
     (if list_ex (\<lambda>x. ch_chunk_id x = ch_chunk_id k) (l_chunks s)
      then map (\<lambda>x. if ch_chunk_id x = ch_chunk_id k
             then x\<lparr>ch_text := ch_text k, ch_content_sha256 := ch_content_sha256 k,
                    ch_embedding_input_sha256 := ch_embedding_input_sha256 k,
                    ch_embedding_model := ch_embedding_model k, ch_embedding := ch_embedding k,
                    ch_facets := ch_facets k, ch_extra := ch_extra k\<rparr> else x) (l_chunks s)
      else l_chunks s @ [k])\<rparr>)"

definition insert_claim_projection :: "env \<Rightarrow> tx_input \<Rightarrow> fleet_scope \<Rightarrow> claim_input \<Rightarrow> prepared_claim
    \<Rightarrow> claim_passage list \<Rightarrow> ustr \<Rightarrow> json \<Rightarrow> (claim \<times> claim_support list) tx" where
  "insert_claim_projection en ti sc i p passages model recorded_payload =
     tx_then (insert_claim ti sc i p) (\<lambda>claim.
     tx_then (insert_support ti (cl_id claim) i) (\<lambda>support.
     tx_then (tx_each (insert_embedding (cl_id claim) model) passages) (\<lambda>_.
     case passages of
       [] \<Rightarrow> tx_fail (protocol_error ''claim produced no embedding passages'')
     | primary # _ \<Rightarrow>
         tx_then (upsert_chunk (claim_chunk en sc model claim primary)) (\<lambda>_.
         tx_then (insert_claim_event \<lparr>ce_claim_id = cl_id claim, ce_event_kind = ''recorded'',
             ce_actor = sc_agent sc, ce_reason = None, ce_from_state = None, ce_to_state = Active,
             ce_payload = recorded_payload\<rparr>) (\<lambda>_.
         tx_ret (claim, support))))))"

subsection \<open>Detection\<close>

record conflict_observation =
  ob_id :: int
  ob_opened :: bool

record conflict_detection_audit =
  au_conflict_id :: "int option"
  au_incompatible_claim_ids :: "int list"
  au_candidate_count :: int

definition v2_row :: "ustr \<Rightarrow> conflict_row \<Rightarrow> bool" where
  "v2_row key c \<longleftrightarrow> cf_claim_key c = key \<and> cf_detector c = FUNCTIONAL_VALUE_CONFLICT_DETECTOR_V2"

definition update_conflicts :: "(conflict_row \<Rightarrow> bool) \<Rightarrow> (conflict_row \<Rightarrow> conflict_row) \<Rightarrow> ledger \<Rightarrow> ledger" where
  "update_conflicts p f s = s\<lparr>l_conflicts := map (\<lambda>c. if p c then f c else c) (l_conflicts s)\<rparr>"

definition update_claims :: "(claim \<Rightarrow> bool) \<Rightarrow> (claim \<Rightarrow> claim) \<Rightarrow> ledger \<Rightarrow> ledger" where
  "update_claims p f s = s\<lparr>l_claims := map (\<lambda>c. if p c then f c else c) (l_claims s)\<rparr>"

text \<open>
  \<^verbatim>\<open>INSERT ... ON CONFLICT DO NOTHING\<close>: nothing is inserted when the key already has a v2
  row or the identifier is taken; an identifier outside the CHECK range fails.
\<close>

definition new_conflict :: "tx_input \<Rightarrow> ustr \<Rightarrow> conflict_row" where
  "new_conflict ti key = \<lparr>cf_id = t_conflict_id ti, cf_claim_key = key, cf_state = ''open'',
     cf_detector = FUNCTIONAL_VALUE_CONFLICT_DETECTOR_V2,
     cf_rationale = FUNCTIONAL_VALUE_CONFLICT_RATIONALE_V2, cf_revision = 1,
     cf_detected_at = t_now ti, cf_last_seen_at = t_now ti, cf_resolved_at = None,
     cf_resolution_kind = None, cf_resolution_reason = None\<rparr>"

definition reopened_row :: "tx_input \<Rightarrow> conflict_row \<Rightarrow> conflict_row" where
  "reopened_row ti c = c\<lparr>cf_state := ''open'', cf_rationale := FUNCTIONAL_VALUE_CONFLICT_RATIONALE_V2,
     cf_last_seen_at := t_now ti, cf_resolved_at := None, cf_resolution_kind := None,
     cf_resolution_reason := None, cf_revision := cf_revision c + 1\<rparr>"

text \<open>The guard both UPDATEs of an observed row repeat.\<close>

definition v2_in_state :: "int \<Rightarrow> string \<Rightarrow> conflict_row \<Rightarrow> bool" where
  "v2_in_state k state c \<longleftrightarrow> cf_id c = k \<and> cf_state c = state
     \<and> cf_detector c = FUNCTIONAL_VALUE_CONFLICT_DETECTOR_V2"

definition observe_conflict :: "tx_input \<Rightarrow> ustr \<Rightarrow> conflict_observation tx" where
  "observe_conflict ti key =
     tx_then (tx_get (\<lambda>s. list_ex (\<lambda>c. v2_row key c \<or> cf_id c = t_conflict_id ti) (l_conflicts s))) (\<lambda>taken.
     if \<not> taken \<and> \<not> safe_int (t_conflict_id ti) then tx_fail (Database ''check_violation'')
     else if \<not> taken
     then tx_then (tx_put (\<lambda>s. s\<lparr>l_conflicts := l_conflicts s @ [new_conflict ti key]\<rparr>))
          (\<lambda>_. tx_ret \<lparr>ob_id = t_conflict_id ti, ob_opened = True\<rparr>)
     else tx_then (tx_get (\<lambda>s. find (v2_row key) (l_conflicts s))) (\<lambda>row. case row of
       None \<Rightarrow> tx_fail (protocol_error ''v2 conflict row was unavailable after its compatibility audit'')
     | Some r \<Rightarrow>
         if cf_state r = ''open''
         then tx_then (tx_put (update_conflicts (v2_in_state (cf_id r) ''open'')
                (\<lambda>c. c\<lparr>cf_last_seen_at := t_now ti\<rparr>)))
              (\<lambda>_. tx_ret \<lparr>ob_id = cf_id r, ob_opened = False\<rparr>)
         else if cf_state r = ''resolved'' \<or> cf_state r = ''dismissed''
         then tx_then (tx_put (update_conflicts (v2_in_state (cf_id r) (cf_state r)) (reopened_row ti)))
              (\<lambda>_. tx_ret \<lparr>ob_id = cf_id r, ob_opened = True\<rparr>)
         else tx_fail (protocol_error ''database returned unknown conflict state {other:?}'')))"

text \<open>The candidates of a new claim and which of them the statement marks incompatible.\<close>

definition detection_candidates :: "claim \<Rightarrow> ustr \<Rightarrow> ledger \<Rightarrow> claim list" where
  "detection_candidates claim key s =
     sort_key cl_id (take (MAX_CURRENT_CLAIMS_PER_KEY_COMPARISON + 1)
       (by_state_and_id (filter (\<lambda>c. on_key key c \<and> cl_id c \<noteq> cl_id claim) (l_claims s))))"

definition candidate_incompatible :: "env \<Rightarrow> claim \<Rightarrow> claim \<Rightarrow> bool" where
  "candidate_incompatible en claim c \<longleftrightarrow> cl_conflict_eligible c \<and> sql_incompatible (e_sql_eq en) c claim"

definition insert_member :: "int \<Rightarrow> int \<Rightarrow> unit tx" where
  "insert_member conflict_id claim_id = tx_put (\<lambda>s.
     if (conflict_id, claim_id) \<in> set (l_members s) then s
     else s\<lparr>l_members := l_members s @ [(conflict_id, claim_id)]\<rparr>)"

definition dispute_members :: "tx_input \<Rightarrow> int list \<Rightarrow> int list tx" where
  "dispute_members ti ids =
     (let p = (\<lambda>c. cl_id c \<in> set ids \<and> cl_state c = Active) in
      tx_then (tx_get (\<lambda>s. map cl_id (filter p (l_claims s)))) (\<lambda>transitioned.
      tx_then (tx_put (update_claims p (\<lambda>c. c\<lparr>cl_state := Disputed, cl_revision := cl_revision c + 1,
                 cl_updated_at := t_now ti\<rparr>))) (\<lambda>_. tx_ret transitioned)))"

definition detect_and_observe :: "env \<Rightarrow> tx_input \<Rightarrow> fleet_scope \<Rightarrow> claim \<Rightarrow> prepared_claim \<Rightarrow> ustr option
    \<Rightarrow> (claim \<times> int list \<times> int list \<times> conflict_detection_audit option) tx" where
  "detect_and_observe en ti sc claim p refuse_own_dispute =
     (case (pc_conflict_eligible p, pc_claim_key p, pc_value p) of
        (True, Some key, Some _) \<Rightarrow>
          tx_then (require_current_conflict_detector key) (\<lambda>_.
          tx_then (tx_get (detection_candidates claim key)) (\<lambda>rows.
          if length rows > MAX_CURRENT_CLAIMS_PER_KEY_COMPARISON
          then tx_fail (Memory ''same-key comparison exceeds the bounded mutation limit of {MAX_CURRENT_CLAIMS_PER_KEY_COMPARISON} lifecycle-current claims'')
          else case (case refuse_own_dispute of None \<Rightarrow> None
                 | Some agent \<Rightarrow> find (\<lambda>c. candidate_incompatible en claim c \<and> cl_actor c = Some agent) rows) of
            Some own \<Rightarrow> tx_refuse OwnCurrentClaimOnKey (jobj [(''claim_id'', jint (cl_id own)),
                          (''revision'', jint (cl_revision own)), (''claim_key'', JString key)])
          | None \<Rightarrow>
              (let incompatible_ids = sort_dedup (map cl_id (filter (candidate_incompatible en claim) rows));
                   audit = (\<lambda>c. \<lparr>au_conflict_id = c, au_incompatible_claim_ids = incompatible_ids,
                                 au_candidate_count = int (length rows)\<rparr>) in
               if incompatible_ids = [] then tx_ret (claim, [], [], Some (audit None))
               else
                 tx_then (observe_conflict ti key) (\<lambda>ob.
                 let member_ids = sort_dedup (incompatible_ids @ [cl_id claim]) in
                 tx_then (tx_each (insert_member (ob_id ob)) member_ids) (\<lambda>_.
                 tx_then (dispute_members ti member_ids) (\<lambda>transitioned.
                 tx_then (tx_each (\<lambda>i. insert_disputed_transition_event sc i (ob_id ob)) transitioned) (\<lambda>_.
                 tx_ret (if cl_id claim \<in> set transitioned
                         then claim\<lparr>cl_state := Disputed, cl_revision := cl_revision claim + 1\<rparr> else claim,
                         [ob_id ob], if ob_opened ob then [ob_id ob] else [],
                         Some (audit (Some (ob_id ob)))))))))))
      | _ \<Rightarrow> tx_ret (claim, [], [], None))"

definition detection_audit_json :: "conflict_detection_audit \<Rightarrow> json" where
  "detection_audit_json a = jobj [(''detector'', jstr FUNCTIONAL_VALUE_CONFLICT_DETECTOR_V2),
     (''conflict_id'', jopt jint (au_conflict_id a)),
     (''incompatible_claim_ids'', JArray (map jint (au_incompatible_claim_ids a))),
     (''candidate_count'', jint (au_candidate_count a)),
     (''candidate_bound'', jint (int MAX_CURRENT_CLAIMS_PER_KEY_COMPARISON)), (''complete'', JBool True)]"

definition claim_recorded_event_payload ::
    "ustr option \<Rightarrow> conflict_detection_audit option \<Rightarrow> (string \<times> json) list" where
  "claim_recorded_event_payload claim_key detection =
     (''claim_key'', jopt JString claim_key)
     # (case detection of None \<Rightarrow> [] | Some a \<Rightarrow> [(''conflict_detection'', detection_audit_json a)])"

end
