(* ===== verification/Ledger_Close.thy ===== *)
theory Ledger_Close
  imports Ledger_Write
begin

section \<open>Retiring claims and closing conflicts\<close>

text \<open>
  The owner's transition, the lifecycle log with its capacity rules, the close of a
  conflict with the restore of its disputed members, and the re-evaluation of a key after
  a claim left it (\<^verbatim>\<open>cockroach/lifecycle_store.rs\<close> R4 to R8 and \<^verbatim>\<open>cockroach/conflict_store.rs\<close>).
\<close>

subsection \<open>Targets\<close>

record target_row =
  tr_claim :: locked_key_claim
  tr_kind :: claim_kind
  tr_claim_key :: "ustr option"
  tr_subject :: "ustr option"
  tr_predicate :: "ustr option"

definition target_shape :: "target_row \<Rightarrow> claim_shape" where
  "target_shape t = \<lparr>sh_kind = tr_kind t, sh_claim_key = tr_claim_key t, sh_subject = tr_subject t,
     sh_predicate = tr_predicate t, sh_conflict_eligible = lk_conflict_eligible (tr_claim t)\<rparr>"

definition read_target :: "int \<Rightarrow> target_row option tx" where
  "read_target claim_id = tx_get (\<lambda>s. map_option (\<lambda>c.
     \<lparr>tr_claim = decode_locked_claim c, tr_kind = cl_kind c, tr_claim_key = cl_claim_key c,
      tr_subject = cl_subject c, tr_predicate = cl_predicate c\<rparr>) (claim_by_id claim_id s))"

record locked_target =
  lt_claim :: locked_key_claim
  lt_conflict_key :: "ustr option"
  lt_lineage :: "v2_lineage option"
  lt_remaining :: "locked_key_claim list"

definition claim_not_found :: "int \<Rightarrow> 'a tx" where
  "claim_not_found claim_id = tx_refuse NotFound (jobj [(''claim_id'', jint claim_id)])"

definition lock_owned_target :: "fleet_scope \<Rightarrow> claim_target \<Rightarrow> target_row \<Rightarrow> locked_target tx" where
  "lock_owned_target sc target row =
     (let conflict_key = (if lk_conflict_eligible (tr_claim row) then tr_claim_key row else None);
          check = (\<lambda>claim. tx_res (lift_refusal
             (check_owner_transition claim (sc_agent sc) (ct_expected_revision target))));
          finish = (\<lambda>claim lineage remaining. tx_then (check claim) (\<lambda>_.
             tx_ret \<lparr>lt_claim = claim, lt_conflict_key = conflict_key, lt_lineage = lineage,
                     lt_remaining = remaining\<rparr>)) in
      case conflict_key of
        Some key \<Rightarrow>
          tx_then (lock_lineages key) (\<lambda>lineage.
          tx_then (lock_current_claims key) (\<lambda>locked.
          case find (\<lambda>c. lk_id c = ct_claim_id target) locked of
            None \<Rightarrow> tx_then (check (tr_claim row)) (\<lambda>_.
                      tx_fail (protocol_error ''lifecycle target left the locked current claim set''))
          | Some claim \<Rightarrow>
              finish claim lineage (filter (\<lambda>c. lk_id c \<noteq> ct_claim_id target) locked)))
      | None \<Rightarrow>
          tx_then (read_target (ct_claim_id target)) (\<lambda>locked. case locked of
            None \<Rightarrow> claim_not_found (ct_claim_id target)
          | Some l \<Rightarrow> finish (tr_claim l) None []))"

text \<open>The guarded UPDATE: it repeats every owner predicate on the stored row.\<close>

definition owned_by :: "fleet_scope \<Rightarrow> locked_key_claim \<Rightarrow> claim \<Rightarrow> bool" where
  "owned_by sc claim c \<longleftrightarrow> cl_id c = lk_id claim \<and> cl_revision c = lk_revision claim
     \<and> is_current (cl_state c) \<and> cl_actor c = Some (sc_agent sc)
     \<and> cl_origin c = OPERATOR_ASSERTED_ORIGIN"

definition transition_owned_claim ::
    "tx_input \<Rightarrow> fleet_scope \<Rightarrow> locked_key_claim \<Rightarrow> claim_state \<Rightarrow> int tx" where
  "transition_owned_claim ti sc claim to_state =
     tx_then (tx_get (\<lambda>s. find (owned_by sc claim) (l_claims s))) (\<lambda>row. case row of
       None \<Rightarrow> tx_fail (protocol_error ''owned claim changed during its locked transition'')
     | Some r \<Rightarrow> tx_then (tx_put (update_claims (owned_by sc claim)
           (\<lambda>c. c\<lparr>cl_state := to_state, cl_revision := cl_revision c + 1, cl_updated_at := t_now ti\<rparr>)))
         (\<lambda>_. tx_ret (cl_revision r + 1)))"

subsection \<open>The lifecycle log\<close>

record lifecycle_event_draft =
  ed_conflict_id :: int
  ed_kind :: string
  ed_episode_revision :: int
  ed_result_revision :: int
  ed_to_state :: string
  ed_actor_kind :: string
  ed_actor :: ustr
  ed_operation :: string
  ed_key :: ustr
  ed_member_count :: int
  ed_reason_kind :: "string option"
  ed_rationale :: "ustr option"
  ed_payload :: json
  ed_expires_in_hours :: "int option"
  ed_review_in_hours :: "int option"

definition hour :: time where
  "hour = 3600000000"

definition draft_event :: "tx_input \<Rightarrow> int \<Rightarrow> lifecycle_event_draft \<Rightarrow> conflict_lifecycle_event" where
  "draft_event ti seq d = \<lparr>ev_seq = seq, ev_kind = ed_kind d, ev_actor_kind = ed_actor_kind d,
     ev_actor = ed_actor d, ev_operation = ed_operation d,
     ev_episode_revision = ed_episode_revision d, ev_result_revision = ed_result_revision d,
     ev_reason_kind = ed_reason_kind d, ev_rationale = ed_rationale d,
     ev_expires_at = map_option (\<lambda>h. t_now ti + h * hour) (ed_expires_in_hours d),
     ev_review_by = map_option (\<lambda>h. t_now ti + h * hour) (ed_review_in_hours d),
     ev_member_count = ed_member_count d, ev_created_at = t_now ti,
     ev_payload = Some (ed_payload d), ev_payload_elided = False\<rparr>"

text \<open>The CHECK constraints of \<^verbatim>\<open>memory_conflict_lifecycle_events_v1\<close> (migration 29). The column \<^verbatim>\<open>from_state\<close> is always the
  literal \<^verbatim>\<open>open\<close> of the insertion.\<close>

definition log_checks :: "env \<Rightarrow> log_row \<Rightarrow> bool" where
  "log_checks en r = (let e = lg_event r in
     1 \<le> utf8_len (lg_project r) \<and> utf8_len (lg_project r) \<le> 256
     \<and> safe_int (lg_conflict_id r) \<and> 1 \<le> ev_seq e \<and> ev_seq e \<le> 4096
     \<and> ev_episode_revision e > 0 \<and> ev_result_revision e > 0
     \<and> ((ev_kind e \<in> {''acknowledged'', ''waived''} \<and> lg_to_state r = ''open''
           \<and> ev_result_revision e = ev_episode_revision e)
        \<or> (ev_kind e = ''resolved'' \<and> lg_to_state r = ''resolved''
           \<and> ev_result_revision e = ev_episode_revision e + 1)
        \<or> (ev_kind e = ''dismissed'' \<and> lg_to_state r = ''dismissed''
           \<and> ev_result_revision e = ev_episode_revision e + 1))
     \<and> ev_actor_kind e \<in> {''agent'', ''detector''}
     \<and> 1 \<le> utf8_len (ev_actor e) \<and> utf8_len (ev_actor e) \<le> 256
     \<and> (ev_actor_kind e = ''agent'' \<or> ev_kind e = ''resolved'')
     \<and> opt_all (\<lambda>x. 1 \<le> utf8_len x \<and> utf8_len x \<le> 256) (lg_session_id r)
     \<and> ev_operation e \<in> {''supersede'', ''retract'', ''conflict_acknowledge'', ''conflict_resolve'',
                          ''conflict_dismiss'', ''conflict_waive''}
     \<and> 1 \<le> utf8_len (lg_idempotency_key r) \<and> utf8_len (lg_idempotency_key r) \<le> 256
     \<and> 0 \<le> ev_member_count e \<and> ev_member_count e \<le> 4096
     \<and> opt_all (\<lambda>x. 1 \<le> utf8_len (lit x) \<and> utf8_len (lit x) \<le> 64) (ev_reason_kind e)
     \<and> opt_all (\<lambda>x. 1 \<le> utf8_len x \<and> utf8_len x \<le> 4096) (ev_rationale e)
     \<and> opt_all (\<lambda>p. e_payload_bytes en p \<le> 262144) (ev_payload e)
     \<and> (ev_kind e = ''resolved'' \<longrightarrow> ev_reason_kind e = Some NO_CURRENT_INCOMPATIBILITY)
     \<and> (ev_kind e = ''dismissed'' \<longrightarrow> ev_reason_kind e \<in> {Some ''false_positive'',
          Some ''duplicate_of_other_episode'', Some ''out_of_scope'', Some ''not_reproducible''}
          \<and> ev_rationale e \<noteq> None)
     \<and> (ev_kind e = ''waived'') = (ev_expires_at e \<noteq> None)
     \<and> (ev_kind e = ''waived'' \<longrightarrow> ev_reason_kind e \<in> {Some ''capacity_deferred'',
          Some ''cost_exceeds_risk'', Some ''upstream_blocked'', Some ''policy_exception'',
          Some ''scheduled_remediation''} \<and> ev_rationale e \<noteq> None
          \<and> opt_all (\<lambda>x. x > ev_created_at e) (ev_expires_at e))
     \<and> opt_all (\<lambda>v. opt_any (\<lambda>x. v \<le> x) (ev_expires_at e)) (ev_review_by e))"

text \<open>The primary key, one event per mutation and conflict, one acknowledgement per episode.\<close>

definition log_clash :: "log_row \<Rightarrow> log_row \<Rightarrow> bool" where
  "log_clash a b \<longleftrightarrow> lg_conflict_id a = lg_conflict_id b
     \<and> (ev_seq (lg_event a) = ev_seq (lg_event b) \<or> lg_idempotency_key a = lg_idempotency_key b
        \<or> (ev_kind (lg_event a) = ''acknowledged'' \<and> ev_kind (lg_event b) = ''acknowledged''
           \<and> ev_episode_revision (lg_event a) = ev_episode_revision (lg_event b)
           \<and> ev_actor (lg_event a) = ev_actor (lg_event b)))"

definition conflict_log :: "int \<Rightarrow> ledger \<Rightarrow> log_row list" where
  "conflict_log conflict_id s = filter (\<lambda>r. lg_conflict_id r = conflict_id) (l_log s)"

definition next_event_seq :: "int \<Rightarrow> int tx" where
  "next_event_seq conflict_id = tx_get (\<lambda>s.
     fold max (map (\<lambda>r. ev_seq (lg_event r)) (conflict_log conflict_id s)) 0 + 1)"

definition insert_lifecycle_event ::
    "env \<Rightarrow> tx_input \<Rightarrow> fleet_scope \<Rightarrow> int \<Rightarrow> lifecycle_event_draft \<Rightarrow> conflict_lifecycle_event tx" where
  "insert_lifecycle_event en ti sc seq d =
     (let row = \<lparr>lg_project = sc_project sc, lg_conflict_id = ed_conflict_id d, lg_event = draft_event ti seq d,
                 lg_to_state = ed_to_state d, lg_session_id = sc_session_id sc,
                 lg_idempotency_key = ed_key d\<rparr> in
      tx_then (tx_get (\<lambda>s. list_ex (log_clash row) (l_log s))) (\<lambda>clash.
        if clash then tx_fail (Database ''unique_violation'')
        else if \<not> log_checks en row then tx_fail (Database ''check_violation'')
        else tx_then (tx_put (\<lambda>s. s\<lparr>l_log := l_log s @ [row]\<rparr>)) (\<lambda>_. tx_ret (lg_event row))))"

definition append_lifecycle_event ::
    "env \<Rightarrow> tx_input \<Rightarrow> fleet_scope \<Rightarrow> lifecycle_event_draft \<Rightarrow> conflict_lifecycle_event tx" where
  "append_lifecycle_event en ti sc d =
     tx_then (next_event_seq (ed_conflict_id d)) (\<lambda>seq.
       if \<not> event_fits_log seq (ed_member_count d)
       then tx_refuse BoundExceeded (jobj [(''conflict_id'', jint (ed_conflict_id d)),
              (''bound'', jint MAX_CONFLICT_LIFECYCLE_EVENTS)])
       else insert_lifecycle_event en ti sc seq d)"

definition append_close_event ::
    "env \<Rightarrow> tx_input \<Rightarrow> fleet_scope \<Rightarrow> lifecycle_event_draft \<Rightarrow> conflict_lifecycle_event option tx" where
  "append_close_event en ti sc d =
     tx_then (next_event_seq (ed_conflict_id d)) (\<lambda>seq.
       if \<not> event_fits_log seq (ed_member_count d) then tx_ret None
       else tx_then (insert_lifecycle_event en ti sc seq d) (\<lambda>e. tx_ret (Some e)))"

definition bounded_member_count :: "int \<Rightarrow> int tx" where
  "bounded_member_count conflict_id = tx_get (\<lambda>s. int (length
     (take 4097 (filter (\<lambda>m. fst m = conflict_id) (l_members s)))))"

subsection \<open>Dismissed pairs\<close>

text \<open>\<^verbatim>\<open>payload->'dismissed_pairs'\<close> of the newest dismissals, NULL read as JSON null.\<close>

definition dismissal_payloads :: "int \<Rightarrow> ledger \<Rightarrow> json list" where
  "dismissal_payloads conflict_id s = take MAX_EXCLUDED_DISMISSALS (map
     (\<lambda>r. case ev_payload (lg_event r) of None \<Rightarrow> JNull
          | Some p \<Rightarrow> (case json_get p ''dismissed_pairs'' of None \<Rightarrow> JNull | Some v \<Rightarrow> v))
     (rev (sort_key (\<lambda>r. ev_seq (lg_event r))
       (filter (\<lambda>r. ev_kind (lg_event r) = ''dismissed'') (conflict_log conflict_id s)))))"

definition excluded_dismissed_pairs :: "int \<Rightarrow> (int \<times> int) set tx" where
  "excluded_dismissed_pairs conflict_id =
     tx_then (tx_get (dismissal_payloads conflict_id)) (\<lambda>ps. tx_res (dismissed_pairs ps))"

subsection \<open>Closing\<close>

definition open_v2_at :: "int \<Rightarrow> int \<Rightarrow> conflict_row \<Rightarrow> bool" where
  "open_v2_at conflict_id revision c \<longleftrightarrow> cf_id c = conflict_id
     \<and> cf_detector c = FUNCTIONAL_VALUE_CONFLICT_DETECTOR_V2 \<and> cf_state c = ''open''
     \<and> cf_revision c = revision"

definition close_conflict ::
    "tx_input \<Rightarrow> int \<Rightarrow> int \<Rightarrow> string \<Rightarrow> string \<Rightarrow> string \<Rightarrow> int tx" where
  "close_conflict ti conflict_id expected_revision state kind reason =
     tx_then (tx_get (\<lambda>s. find (open_v2_at conflict_id expected_revision) (l_conflicts s))) (\<lambda>row. case row of
       None \<Rightarrow> tx_fail (protocol_error ''locked open conflict changed before its close'')
     | Some r \<Rightarrow> tx_then (tx_put (update_conflicts (open_v2_at conflict_id expected_revision)
           (\<lambda>c. c\<lparr>cf_state := state, cf_resolved_at := Some (t_now ti), cf_resolution_kind := Some kind,
                  cf_resolution_reason := Some reason, cf_revision := cf_revision c + 1\<rparr>)))
         (\<lambda>_. tx_ret (cf_revision r + 1)))"

definition held_elsewhere :: "int \<Rightarrow> ustr \<Rightarrow> ledger \<Rightarrow> int \<Rightarrow> bool" where
  "held_elsewhere conflict_id key s claim_id \<longleftrightarrow> list_ex (\<lambda>(k, i). i = claim_id \<and> k \<noteq> conflict_id
     \<and> list_ex (\<lambda>c. cf_id c = k \<and> cf_state c = ''open''
          \<and> \<not> (cf_detector c = LEGACY_CONFLICT_DETECTOR_V1 \<and> cf_claim_key c = key)) (l_conflicts s))
     (l_members s)"

definition restorable :: "int \<Rightarrow> ustr \<Rightarrow> int list \<Rightarrow> ledger \<Rightarrow> claim \<Rightarrow> bool" where
  "restorable conflict_id key candidates s c \<longleftrightarrow> cl_id c \<in> set candidates \<and> cl_state c = Disputed
     \<and> (conflict_id, cl_id c) \<in> set (l_members s) \<and> \<not> held_elsewhere conflict_id key s (cl_id c)"

definition restore_disputed_members :: "tx_input \<Rightarrow> fleet_scope \<Rightarrow> int \<Rightarrow> int \<Rightarrow> ustr \<Rightarrow> string
    \<Rightarrow> int list \<Rightarrow> ustr \<Rightarrow> int list tx" where
  "restore_disputed_members ti sc conflict_id conflict_revision claim_key reason candidates key =
     (if candidates = [] then tx_ret []
      else tx_then (tx_get (\<lambda>s. map cl_id (filter (restorable conflict_id claim_key candidates s) (l_claims s)))) (\<lambda>restored.
      tx_then (tx_put (\<lambda>s. update_claims (restorable conflict_id claim_key candidates s)
         (\<lambda>c. c\<lparr>cl_state := Active, cl_revision := cl_revision c + 1, cl_updated_at := t_now ti\<rparr>) s)) (\<lambda>_.
      tx_then (tx_each (\<lambda>i.
         if i \<notin> set candidates then tx_fail (protocol_error ''restore escaped its locked candidate set'')
         else insert_transition_event sc i reason Disputed Active
                (jobj [(''conflict_id'', jint conflict_id), (''conflict_revision'', jint conflict_revision),
                       (''idempotency_key'', JString key)])) restored) (\<lambda>_.
      tx_ret (sort restored)))))"

definition reevaluation_report ::
    "int \<Rightarrow> string \<Rightarrow> int \<Rightarrow> (int \<times> int) list \<Rightarrow> nat \<Rightarrow> conflict_reevaluation" where
  "reevaluation_report conflict_id outcome revision pairs excluded =
     \<lparr>re_conflict_id = conflict_id, re_outcome = outcome, re_conflict_revision = revision,
      re_remaining_pair_count = length pairs,
      re_remaining_pairs = take MAX_REPORTED_REMAINING_PAIRS pairs, re_excluded_dismissed_pairs = excluded\<rparr>"

record reevaluation_effect =
  ef_conflicts_resolved :: "int list"
  ef_claims_restored :: "int list"
  ef_reevaluation :: "conflict_reevaluation option"
  ef_lifecycle_event :: "conflict_lifecycle_event option"

definition no_effect :: reevaluation_effect where
  "no_effect = \<lparr>ef_conflicts_resolved = [], ef_claims_restored = [], ef_reevaluation = None,
     ef_lifecycle_event = None\<rparr>"

record close_audit =
  ca_operation :: string
  ca_key :: ustr
  ca_cause :: json
  ca_log :: bool

record verified_close =
  vc_conflict_id :: int
  vc_conflict_revision :: int
  vc_claim_key :: ustr
  vc_restore_candidates :: "int list"
  vc_current :: "locked_key_claim list"
  vc_resolution_reason :: string
  vc_excluded_dismissed_pairs :: nat

definition apply_verified_close ::
    "env \<Rightarrow> tx_input \<Rightarrow> fleet_scope \<Rightarrow> verified_close \<Rightarrow> close_audit \<Rightarrow> reevaluation_effect tx" where
  "apply_verified_close en ti sc vc audit =
     (let n = vc_excluded_dismissed_pairs vc; conflict_id = vc_conflict_id vc;
          reason = (if n = 0 then vc_resolution_reason vc
            else vc_resolution_reason vc @ '', leaving out '' @ show_nat n @ '' pair(s) an adjudicator dismissed'') in
      tx_then (close_conflict ti conflict_id (vc_conflict_revision vc) ''resolved''
                 (verified_close_resolution_kind n) reason) (\<lambda>closed_revision.
      tx_then (restore_disputed_members ti sc conflict_id closed_revision (vc_claim_key vc)
                 ''conflict_resolved'' (vc_restore_candidates vc) (ca_key audit)) (\<lambda>restored.
      tx_then (if ca_log audit
               then tx_then (bounded_member_count conflict_id) (\<lambda>member_count.
                 append_close_event en ti sc
                   \<lparr>ed_conflict_id = conflict_id, ed_kind = ''resolved'',
                    ed_episode_revision = vc_conflict_revision vc, ed_result_revision = closed_revision,
                    ed_to_state = ''resolved'', ed_actor_kind = ''detector'',
                    ed_actor = lit FUNCTIONAL_VALUE_CONFLICT_DETECTOR_V2, ed_operation = ca_operation audit,
                    ed_key = ca_key audit, ed_member_count = member_count,
                    ed_reason_kind = Some NO_CURRENT_INCOMPATIBILITY, ed_rationale = None,
                    ed_payload = jobj [(''cause'', ca_cause audit),
                      (''restored_claim_ids'', JArray (map jint restored)),
                      (''remaining_current_claim_ids'', JArray (map jint (sort (map lk_id (vc_current vc))))),
                      (''excluded_dismissed_pairs'', jint (int n))],
                    ed_expires_in_hours = None, ed_review_in_hours = None\<rparr>)
               else tx_ret None) (\<lambda>event.
      tx_ret \<lparr>ef_conflicts_resolved = [conflict_id], ef_claims_restored = restored,
              ef_reevaluation = Some (reevaluation_report conflict_id ''closed'' closed_revision [] n),
              ef_lifecycle_event = event\<rparr>))))"

definition reevaluate_key :: "env \<Rightarrow> tx_input \<Rightarrow> fleet_scope \<Rightarrow> v2_lineage option \<Rightarrow> ustr
    \<Rightarrow> locked_key_claim list \<Rightarrow> string \<Rightarrow> close_audit \<Rightarrow> reevaluation_effect tx" where
  "reevaluate_key en ti sc lineage claim_key current reason audit =
     (case lineage of None \<Rightarrow> tx_ret no_effect
      | Some lin \<Rightarrow>
        if lin_state lin \<noteq> Open then tx_ret no_effect
        else
          tx_then (key_incompatible_pairs en claim_key) (\<lambda>sql_pairs.
          tx_then (if ca_log audit then excluded_dismissed_pairs (lin_id lin) else tx_ret {}) (\<lambda>excluded.
          case plan_reevaluation (e_fmt en) (Some lin) current sql_pairs excluded of
            Close conflict_id revision candidates excluded_pairs \<Rightarrow>
              apply_verified_close en ti sc
                \<lparr>vc_conflict_id = conflict_id, vc_conflict_revision = revision, vc_claim_key = claim_key,
                 vc_restore_candidates = candidates, vc_current = current, vc_resolution_reason = reason,
                 vc_excluded_dismissed_pairs = excluded_pairs\<rparr> audit
          | StillOpen conflict_id revision pairs excluded_pairs \<Rightarrow>
              tx_ret (no_effect\<lparr>ef_reevaluation := Some
                (reevaluation_report conflict_id ''still_open'' revision pairs excluded_pairs)\<rparr>)
          | Divergent conflict_id revision rust_pairs sql \<Rightarrow>
              tx_ret (no_effect\<lparr>ef_reevaluation := Some
                (reevaluation_report conflict_id ''divergent'' revision sql 0)\<rparr>)
          | NoLineage \<Rightarrow> tx_ret no_effect
          | LineageNotOpen \<Rightarrow> tx_ret no_effect)))"

end
