(* ===== verification/Claim_Lifecycle.thy ===== *)
theory Claim_Lifecycle
  imports Ledger_Close
begin

section \<open>Record, retract and supersede\<close>

text \<open>
  The three claim mutations: \<^verbatim>\<open>record_claim\<close> of \<^verbatim>\<open>ledger/cockroach.rs\<close> and \<^verbatim>\<open>retract_claim\<close>,
  \<^verbatim>\<open>supersede_claim\<close> of \<^verbatim>\<open>cockroach/lifecycle_store.rs\<close>, each with its checks before any
  I/O and its transaction body. The embedding of a claim's passages happens before the
  transaction; its result is the argument \<open>passages\<close>.
\<close>

record ledger_config =
  lc_trusted_scope :: fleet_scope
  lc_claim_model :: ustr
  lc_conflict_lifecycle :: bool
  lc_conflict_adjudication :: bool
  lc_refuse_self_dispute :: bool

definition validate_component :: "ustr \<Rightarrow> unit res" where
  "validate_component v =
     (if trim v = [] then Inl (InvalidScope ''{name} must not be empty'')
      else if v \<noteq> trim v then Inl (InvalidScope ''{name} must not have leading or trailing whitespace'')
      else if utf8_len v > 256 then Inl (InvalidScope ''{name} exceeds 256 bytes'')
      else if list_ex is_control v then Inl (InvalidScope ''{name} must not contain control characters'')
      else Inr ())"

definition validate_scope :: "fleet_scope \<Rightarrow> unit res" where
  "validate_scope sc =
     (if sc_tenant_id sc = 0 then Inl (InvalidScope ''tenant_id must not be the nil UUID'')
      else try_then (validate_component (sc_project sc)) (\<lambda>_.
           try_then (validate_component (sc_agent sc)) (\<lambda>_.
           case sc_session_id sc of None \<Rightarrow> Inr () | Some i \<Rightarrow> validate_component i)))"

definition ensure_scope :: "ledger_config \<Rightarrow> fleet_scope \<Rightarrow> unit res" where
  "ensure_scope lc sc =
     try_then (validate_scope sc) (\<lambda>_.
       let t = lc_trusted_scope lc in
       ensure (sc_tenant_id sc = sc_tenant_id t \<and> sc_project sc = sc_project t
               \<and> sc_agent sc = sc_agent t \<and> sc_privacy_tier sc = sc_privacy_tier t)
         (InvalidScope ''claim operation is outside this repository's trusted fleet identity''))"

abbreviation "RECORD_OPERATION \<equiv> ''record''"
abbreviation "RETRACT_OPERATION \<equiv> ''retract''"
abbreviation "SUPERSEDE_OPERATION \<equiv> ''supersede''"

subsection \<open>Record\<close>

definition record_request :: "env \<Rightarrow> fleet_scope \<Rightarrow> claim_input \<Rightarrow> json" where
  "record_request en sc i = jobj
     [(''scope'', jobj [(''project'', JString (sc_project sc)), (''agent'', JString (sc_agent sc)),
         (''session_id'', jopt JString (sc_session_id sc)), (''privacy_tier'', jstr (sc_privacy_tier sc))]),
      (''input'', claim_input_json (e_show_time en) i)]"

definition record_once :: "env \<Rightarrow> tx_input \<Rightarrow> fleet_scope \<Rightarrow> claim_input \<Rightarrow> prepared_claim
    \<Rightarrow> claim_passage list \<Rightarrow> ustr \<Rightarrow> ustr \<Rightarrow> json \<Rightarrow> bool \<Rightarrow> lifecycle_mutation tx" where
  "record_once en ti sc i p passages model key request refuse_self_dispute =
     tx_then (replay_or_reserve is_claim_response sc key request RECORD_OPERATION) (\<lambda>replay. case replay of
       Some m \<Rightarrow> tx_ret m
     | None \<Rightarrow>
       tx_then (require_active_model model) (\<lambda>_.
       tx_then (insert_claim_projection en ti sc i p passages model
                  (jobj [(''idempotency_key'', JString key)])) (\<lambda>(claim, support).
       tx_then (detect_and_observe en ti sc claim p
                  (if refuse_self_dispute then Some (sc_agent sc) else None)) (\<lambda>(claim, ids, opened, detection).
       tx_then (insert_claim_recorded_event sc (cl_id claim) (Some key)
                  (jobj (claim_recorded_event_payload (cl_claim_key claim) detection))) (\<lambda>_.
       let m = \<lparr>cm_operation = ''record'',
                cm_claim = \<lparr>vw_claim = claim, vw_support = support, vw_conflict_ids = ids\<rparr>,
                cm_superseded = None, cm_idempotent_replay = False, cm_conflicts_opened = opened,
                cm_conflicts_resolved = [], cm_claims_restored = [], cm_reevaluation = None\<rparr> in
       tx_then (finish_claim_receipt en sc key request RECORD_OPERATION m) (\<lambda>_.
       tx_ret (ClaimResponse m)))))))"

text \<open>
  The whole of \<^verbatim>\<open>record_claim\<close>: the checks, the replay outside the transaction, the
  embedding and the transaction.
\<close>

definition record_claim :: "env \<Rightarrow> ledger_config \<Rightarrow> tx_input \<Rightarrow> (claim_input \<Rightarrow> claim_passage list res)
    \<Rightarrow> fleet_scope \<Rightarrow> claim_input \<Rightarrow> ustr \<Rightarrow> lifecycle_mutation tx" where
  "record_claim en lc ti encode sc i idempotency_key =
     tx_then (tx_res (ensure_scope lc sc)) (\<lambda>_.
     tx_then (tx_res (validated_idempotency_key idempotency_key)) (\<lambda>key.
     if opt_any (\<lambda>a. a \<noteq> sc_agent sc) (ci_actor i)
     then tx_fail (InvalidScope ''claim actor must match the authenticated fleet agent'')
     else tx_then (tx_res (prepare (e_fmt en) (e_unicode en) i)) (\<lambda>p.
       let request = record_request en sc i in
       tx_then (tx_get (select_receipt key)) (\<lambda>row. case row of
         Some r \<Rightarrow> tx_res (decode_receipt_values is_claim_response r sc RECORD_OPERATION request)
       | None \<Rightarrow>
           if cites_items i then item_support_unavailable
           else tx_then (tx_res (encode i)) (\<lambda>passages.
             record_once en ti sc i p passages (lc_claim_model lc) key request
               (lc_refuse_self_dispute lc))))))"

subsection \<open>Retract\<close>

definition retract_request :: "fleet_scope \<Rightarrow> claim_target \<Rightarrow> ustr option \<Rightarrow> json" where
  "retract_request sc t reason = lifecycle_request_identity RETRACT_OPERATION sc
     (jobj [(''claim_id'', jint (ct_claim_id t)), (''expected_revision'', jint (ct_expected_revision t)),
            (''reason'', jopt JString reason)])"

definition reevaluation_json :: "conflict_reevaluation \<Rightarrow> json" where
  "reevaluation_json r = jobj (
     [(''conflict_id'', jint (re_conflict_id r)), (''outcome'', jstr (re_outcome r)),
      (''conflict_revision'', jint (re_conflict_revision r)),
      (''remaining_pair_count'', jint (int (re_remaining_pair_count r))),
      (''remaining_pairs'', JArray (map jpair (re_remaining_pairs r)))]
      @ (if re_excluded_dismissed_pairs r = 0 then []
         else [(''excluded_dismissed_pairs'', jint (int (re_excluded_dismissed_pairs r)))]))"

definition retract_once :: "env \<Rightarrow> tx_input \<Rightarrow> fleet_scope \<Rightarrow> claim_target \<Rightarrow> ustr option \<Rightarrow> ustr \<Rightarrow> json
    \<Rightarrow> bool \<Rightarrow> lifecycle_mutation tx" where
  "retract_once en ti sc target reason key request log_closes =
     tx_then (replay_or_reserve is_claim_response sc key request RETRACT_OPERATION) (\<lambda>replay. case replay of
       Some m \<Rightarrow> tx_ret m
     | None \<Rightarrow>
       tx_then (read_target (ct_claim_id target)) (\<lambda>row. case row of
         None \<Rightarrow> claim_not_found (ct_claim_id target)
       | Some target_row \<Rightarrow>
         tx_then (lock_owned_target sc target target_row) (\<lambda>locked.
         let claim_id = lk_id (lt_claim locked) in
         tx_then (transition_owned_claim ti sc (lt_claim locked) Retracted) (\<lambda>revision.
         tx_then (insert_transition_event sc claim_id ''retracted_by_author'' (lk_state (lt_claim locked))
                    Retracted (jobj [(''idempotency_key'', JString key), (''reason'', jopt JString reason),
                      (''revision_before'', jint (lk_revision (lt_claim locked)))])) (\<lambda>_.
         tx_then (case lt_conflict_key locked of
             Some claim_key \<Rightarrow> reevaluate_key en ti sc (lt_lineage locked) claim_key (lt_remaining locked)
               (''no lifecycle-current incompatible pair remains after retract of claim '' @ show_int claim_id)
               \<lparr>ca_operation = RETRACT_OPERATION, ca_key = key,
                ca_cause = jobj [(''agent'', JString (sc_agent sc)), (''operation'', jstr RETRACT_OPERATION),
                  (''claims_retracted'', JArray [jint claim_id]), (''reason'', jopt JString reason)],
                ca_log = log_closes\<rparr>
           | None \<Rightarrow> tx_ret no_effect) (\<lambda>effect.
         tx_then (fetch_claim claim_id) (\<lambda>fetched. case fetched of
           None \<Rightarrow> tx_fail (protocol_error ''retracted claim disappeared inside its transaction'')
         | Some claim \<Rightarrow>
           if cl_revision (vw_claim claim) \<noteq> revision \<or> cl_state (vw_claim claim) \<noteq> Retracted
           then tx_fail (protocol_error ''retracted claim did not read back its committed transition'')
           else
             tx_then (insert_keyed_claim_event sc ''claim_retracted'' claim_id key
                (jobj [(''claim_key'', jopt JString (cl_claim_key (vw_claim claim))),
                       (''from_state'', jstr (claim_state_str (lk_state (lt_claim locked)))),
                       (''to_state'', jstr (claim_state_str Retracted)), (''revision'', jint revision),
                       (''conflict_reevaluation'', jopt reevaluation_json (ef_reevaluation effect))])) (\<lambda>_.
             let m = \<lparr>cm_operation = RETRACT_OPERATION, cm_claim = claim, cm_superseded = None,
                      cm_idempotent_replay = False, cm_conflicts_opened = [],
                      cm_conflicts_resolved = ef_conflicts_resolved effect,
                      cm_claims_restored = ef_claims_restored effect,
                      cm_reevaluation = ef_reevaluation effect\<rparr> in
             tx_then (finish_claim_receipt en sc key request RETRACT_OPERATION m) (\<lambda>_.
             tx_ret (ClaimResponse m))))))))))"

definition check_reason :: "ustr option \<Rightarrow> unit res" where
  "check_reason reason = (case reason of None \<Rightarrow> Inr ()
     | Some r \<Rightarrow> (case validate_reason r of Inl e \<Rightarrow> Inl (Memory e) | Inr _ \<Rightarrow> Inr ()))"

definition retract_claim :: "env \<Rightarrow> ledger_config \<Rightarrow> tx_input \<Rightarrow> fleet_scope \<Rightarrow> claim_target
    \<Rightarrow> ustr option \<Rightarrow> ustr \<Rightarrow> lifecycle_mutation tx" where
  "retract_claim en lc ti sc target reason idempotency_key =
     tx_then (tx_res (ensure_scope lc sc)) (\<lambda>_.
     tx_then (tx_res (validated_idempotency_key idempotency_key)) (\<lambda>key.
     tx_then (tx_res (validate_claim_target target)) (\<lambda>_.
     tx_then (tx_res (check_reason reason)) (\<lambda>_.
     retract_once en ti sc target reason key (retract_request sc target reason)
       (lc_conflict_lifecycle lc)))))"

subsection \<open>Supersede\<close>

definition supersede_request ::
    "env \<Rightarrow> fleet_scope \<Rightarrow> claim_target \<Rightarrow> ustr option \<Rightarrow> claim_input \<Rightarrow> json" where
  "supersede_request en sc t reason successor = lifecycle_request_identity SUPERSEDE_OPERATION sc
     (jobj [(''claim_id'', jint (ct_claim_id t)), (''expected_revision'', jint (ct_expected_revision t)),
            (''reason'', jopt JString reason), (''successor'', claim_input_json (e_show_time en) successor)])"

text \<open>\<^verbatim>\<open>SET_SUPERSEDED_BY_SQL\<close>: link a predecessor this transaction just superseded.\<close>

definition set_superseded_by :: "int \<Rightarrow> int \<Rightarrow> int option tx" where
  "set_superseded_by claim_id successor_id =
     (let p = (\<lambda>c. cl_id c = claim_id \<and> cl_state c = Superseded \<and> cl_superseded_by c = None) in
      tx_then (tx_get (\<lambda>s. map_option cl_revision (find p (l_claims s)))) (\<lambda>revision.
      tx_then (tx_put (update_claims p (\<lambda>c. c\<lparr>cl_superseded_by := Some successor_id\<rparr>))) (\<lambda>_.
      tx_ret revision)))"

definition supersede_once :: "env \<Rightarrow> tx_input \<Rightarrow> fleet_scope \<Rightarrow> claim_target \<Rightarrow> ustr option \<Rightarrow> claim_input
    \<Rightarrow> prepared_claim \<Rightarrow> claim_passage list \<Rightarrow> ustr \<Rightarrow> ustr \<Rightarrow> json \<Rightarrow> bool \<Rightarrow> lifecycle_mutation tx" where
  "supersede_once en ti sc target reason successor p passages model key request log_closes =
     tx_then (replay_or_reserve is_claim_response sc key request SUPERSEDE_OPERATION) (\<lambda>replay. case replay of
       Some m \<Rightarrow> tx_ret m
     | None \<Rightarrow>
       tx_then (read_target (ct_claim_id target)) (\<lambda>row. case row of
         None \<Rightarrow> claim_not_found (ct_claim_id target)
       | Some target_row \<Rightarrow>
         tx_then (tx_res (lift_refusal (check_successor (e_unicode en) (ct_claim_id target) (target_shape target_row)
             \<lparr>sh_kind = ci_kind successor, sh_claim_key = pc_claim_key p, sh_subject = pc_subject p,
              sh_predicate = pc_predicate p, sh_conflict_eligible = pc_conflict_eligible p\<rparr>))) (\<lambda>_.
         tx_then (lock_owned_target sc target target_row) (\<lambda>locked.
         let predecessor = lt_claim locked in
         tx_then (transition_owned_claim ti sc predecessor Superseded) (\<lambda>revision.
         tx_then (require_active_model model) (\<lambda>_.
         tx_then (insert_claim_projection en ti sc successor p passages model
             (jobj [(''idempotency_key'', JString key), (''supersedes'', jint (lk_id predecessor))])) (\<lambda>(claim, support).
         tx_then (detect_and_observe en ti sc claim p None) (\<lambda>(claim, ids, opened, detection).
         tx_then (set_superseded_by (lk_id predecessor) (cl_id claim)) (\<lambda>linked.
         if linked \<noteq> Some revision
         then tx_fail (protocol_error ''superseded claim changed before its successor link'')
         else
         tx_then (insert_transition_event sc (lk_id predecessor) ''superseded_by_author'' (lk_state predecessor)
             Superseded (jobj [(''idempotency_key'', JString key), (''reason'', jopt JString reason),
               (''revision_before'', jint (lk_revision predecessor)), (''successor_claim_id'', jint (cl_id claim))])) (\<lambda>_.
         tx_then (insert_claim_recorded_event sc (cl_id claim) None
             (jobj (claim_recorded_event_payload (cl_claim_key claim) detection
                    @ [(''supersedes'', jint (lk_id predecessor))]))) (\<lambda>_.
         tx_then (case lt_conflict_key locked of
             Some claim_key \<Rightarrow>
               tx_then (lock_lineages claim_key) (\<lambda>lineage.
               tx_then (if opt_any (\<lambda>l. lin_state l = Open) lineage then lock_current_claims claim_key
                        else tx_ret []) (\<lambda>current.
               reevaluate_key en ti sc lineage claim_key current
                 (''no lifecycle-current incompatible pair remains after supersede of claim ''
                   @ show_int (lk_id predecessor) @ '' by claim '' @ show_int (cl_id claim))
                 \<lparr>ca_operation = SUPERSEDE_OPERATION, ca_key = key,
                  ca_cause = jobj [(''agent'', JString (sc_agent sc)), (''operation'', jstr SUPERSEDE_OPERATION),
                    (''claim_superseded'', jint (lk_id predecessor)),
                    (''successor_claim_id'', jint (cl_id claim)), (''reason'', jopt JString reason)],
                  ca_log = log_closes\<rparr>))
           | None \<Rightarrow> tx_ret no_effect) (\<lambda>effect.
         tx_then (insert_keyed_claim_event sc ''claim_superseded'' (lk_id predecessor) key
             (jobj [(''claim_key'', jopt JString (cl_claim_key claim)),
                    (''predecessor_claim_key'', jopt JString (tr_claim_key target_row)),
                    (''from_state'', jstr (claim_state_str (lk_state predecessor))),
                    (''to_state'', jstr (claim_state_str Superseded)), (''revision'', jint revision),
                    (''successor_claim_id'', jint (cl_id claim)),
                    (''conflicts_opened'', JArray (map jint opened)),
                    (''conflict_reevaluation'', jopt reevaluation_json (ef_reevaluation effect))])) (\<lambda>_.
         tx_then (fetch_claim (cl_id claim)) (\<lambda>fetched. case fetched of
           None \<Rightarrow> tx_fail (protocol_error ''successor claim disappeared inside its transaction'')
         | Some view \<Rightarrow>
           if \<not> is_current (cl_state (vw_claim view))
           then tx_fail (protocol_error ''successor claim is not lifecycle-current inside its transaction'')
           else
             let m = \<lparr>cm_operation = SUPERSEDE_OPERATION, cm_claim = view,
                cm_superseded = Some \<lparr>sp_id = lk_id predecessor, sp_state = Superseded,
                   sp_revision = revision, sp_superseded_by = cl_id claim\<rparr>,
                cm_idempotent_replay = False, cm_conflicts_opened = opened,
                cm_conflicts_resolved = ef_conflicts_resolved effect,
                cm_claims_restored = ef_claims_restored effect, cm_reevaluation = ef_reevaluation effect\<rparr> in
             tx_then (finish_claim_receipt en sc key request SUPERSEDE_OPERATION m) (\<lambda>_.
             tx_ret (ClaimResponse m))))))))))))))))"

definition supersede_claim :: "env \<Rightarrow> ledger_config \<Rightarrow> tx_input \<Rightarrow> (claim_input \<Rightarrow> claim_passage list res)
    \<Rightarrow> fleet_scope \<Rightarrow> claim_target \<Rightarrow> ustr option \<Rightarrow> claim_input \<Rightarrow> ustr \<Rightarrow> lifecycle_mutation tx" where
  "supersede_claim en lc ti encode sc target reason successor idempotency_key =
     tx_then (tx_res (ensure_scope lc sc)) (\<lambda>_.
     tx_then (tx_res (validated_idempotency_key idempotency_key)) (\<lambda>key.
     tx_then (tx_res (validate_claim_target target)) (\<lambda>_.
     tx_then (tx_res (check_reason reason)) (\<lambda>_.
     if opt_any (\<lambda>a. a \<noteq> sc_agent sc) (ci_actor successor)
     then tx_fail (InvalidScope ''claim actor must match the authenticated fleet agent'')
     else tx_then (tx_res (prepare (e_fmt en) (e_unicode en) successor)) (\<lambda>p.
       if ci_origin successor \<noteq> OPERATOR_ASSERTED_ORIGIN
       then tx_fail (Memory ''a supersede successor must be an operator_asserted claim'')
       else (let request = supersede_request en sc target reason successor in
         tx_then (tx_get (select_receipt key)) (\<lambda>row. case row of
           Some r \<Rightarrow> tx_res (decode_receipt_values is_claim_response r sc SUPERSEDE_OPERATION request)
         | None \<Rightarrow>
             if cites_items successor then item_support_unavailable
             else tx_then (tx_res (encode successor)) (\<lambda>passages.
               supersede_once en ti sc target reason successor p passages (lc_claim_model lc) key request
                 (lc_conflict_lifecycle lc)))))))))"

end
