(* ===== verification/Conflict_Lifecycle.thy ===== *)
theory Conflict_Lifecycle
  imports Claim_Lifecycle
begin

section \<open>Acknowledge, resolve, dismiss and waive\<close>

text \<open>
  The four conflict mutations of \<^verbatim>\<open>cockroach/conflict_store.rs\<close>. Each locks the key's open
  v2 conflict at the revision and member count the caller read; a concession retracts the
  caller's own claims and commits only when the detector verifies the close; a dismissal
  closes the conflict and logs the judged pairs; an acknowledgement and a waiver only log.
\<close>

record conflict_target =
  xt_conflict_id :: int
  xt_expected_revision :: int
  xt_expected_member_count :: "int option"

record dismissal_terms =
  dt_reason_kind :: dismissal_reason
  dt_rationale :: ustr

record waiver_terms =
  wt_reason_kind :: waiver_reason
  wt_rationale :: ustr
  wt_expires_in_hours :: nat
  wt_review_in_hours :: "nat option"

abbreviation "ACKNOWLEDGE_OPERATION \<equiv> ''conflict_acknowledge''"
abbreviation "RESOLVE_OPERATION \<equiv> ''conflict_resolve''"
abbreviation "DISMISS_OPERATION \<equiv> ''conflict_dismiss''"
abbreviation "WAIVE_OPERATION \<equiv> ''conflict_waive''"
abbreviation "DISMISSAL_RESOLUTION_REASON \<equiv> ''dismissed by an adjudicator who authored none of its members; the rationale is in the private lifecycle log''"

subsection \<open>Requests and capabilities\<close>

definition target_fields :: "conflict_target \<Rightarrow> (string \<times> json) list" where
  "target_fields t = [(''conflict_id'', jint (xt_conflict_id t)),
     (''expected_revision'', jint (xt_expected_revision t)),
     (''expected_member_count'', jopt jint (xt_expected_member_count t))]"

definition acknowledge_request :: "fleet_scope \<Rightarrow> conflict_target \<Rightarrow> ustr option \<Rightarrow> json" where
  "acknowledge_request sc t reason = lifecycle_request_identity ACKNOWLEDGE_OPERATION sc
     (jobj [(''conflict_id'', jint (xt_conflict_id t)),
            (''expected_revision'', jint (xt_expected_revision t)), (''reason'', jopt JString reason)])"

definition resolve_request :: "fleet_scope \<Rightarrow> conflict_target \<Rightarrow> int list \<Rightarrow> ustr option \<Rightarrow> json" where
  "resolve_request sc t ids reason = lifecycle_request_identity RESOLVE_OPERATION sc
     (jobj (target_fields t @ [(''retract_claim_ids'', JArray (map jint (sort_dedup ids))),
            (''reason'', jopt JString reason)]))"

definition dismiss_request :: "fleet_scope \<Rightarrow> conflict_target \<Rightarrow> dismissal_terms \<Rightarrow> json" where
  "dismiss_request sc t terms = lifecycle_request_identity DISMISS_OPERATION sc
     (jobj (target_fields t @ [(''reason_kind'', jstr (dismissal_reason_kind (dt_reason_kind terms))),
            (''rationale'', JString (dt_rationale terms))]))"

definition waive_request :: "fleet_scope \<Rightarrow> conflict_target \<Rightarrow> waiver_terms \<Rightarrow> json" where
  "waive_request sc t terms = lifecycle_request_identity WAIVE_OPERATION sc
     (jobj (target_fields t @ [(''reason_kind'', jstr (waiver_reason_kind (wt_reason_kind terms))),
            (''rationale'', JString (wt_rationale terms)),
            (''expires_in_hours'', jint (int (wt_expires_in_hours terms))),
            (''review_in_hours'', jopt (\<lambda>h. jint (int h)) (wt_review_in_hours terms))]))"

definition require_capability :: "ledger_config \<Rightarrow> unit res" where
  "require_capability lc = (if lc_conflict_lifecycle lc then Inr () else refuse LifecycleUnavailable (jobj []))"

definition require_adjudication :: "ledger_config \<Rightarrow> unit res" where
  "require_adjudication lc = try_then (require_capability lc) (\<lambda>_.
     if lc_conflict_adjudication lc then Inr () else refuse AdjudicationDisabled (jobj []))"

definition validate_conflict_target :: "conflict_target \<Rightarrow> bool \<Rightarrow> unit res" where
  "validate_conflict_target t member_count_required =
     (if \<not> safe_int (xt_conflict_id t) \<or> \<not> safe_int (xt_expected_revision t)
      then Inl (Memory ''conflict_id and expected_revision must be between 1 and {MAX_SAFE_INTEGER}'')
      else case xt_expected_member_count t of
        None \<Rightarrow> if member_count_required then Inl (Memory ''expected_member_count is required'') else Inr ()
      | Some count \<Rightarrow>
          if \<not> (1 \<le> count \<and> count \<le> MAX_CONFLICT_MEMBER_COUNT)
          then Inl (Memory ''expected_member_count must be between 1 and {MAX_CONFLICT_MEMBER_COUNT}'')
          else Inr ())"

subsection \<open>Locking an open conflict\<close>

record locked_conflict =
  lx_lineage :: v2_lineage
  lx_claim_key :: ustr
  lx_member_count :: int

fun row_state_str :: "conflict_row_state \<Rightarrow> string" where
  "row_state_str Open = ''open''"
| "row_state_str Resolved = ''resolved''"
| "row_state_str Dismissed = ''dismissed''"

definition member_count :: "int \<Rightarrow> int tx" where
  "member_count conflict_id = tx_then (bounded_member_count conflict_id) (\<lambda>count.
     if count > MAX_CONFLICT_MEMBER_COUNT
     then tx_refuse BoundExceeded (jobj [(''conflict_id'', jint conflict_id),
            (''bound'', jint MAX_CONFLICT_MEMBER_COUNT)])
     else tx_ret count)"

definition lock_open_conflict :: "conflict_target \<Rightarrow> locked_conflict tx" where
  "lock_open_conflict t = (let conflict_id = xt_conflict_id t in
     tx_then (tx_get (conflict_by_id conflict_id)) (\<lambda>row. case row of
       None \<Rightarrow> tx_refuse NotFound (jobj [(''conflict_id'', jint conflict_id)])
     | Some r \<Rightarrow>
       if detector_class (cf_detector r) = 1
       then tx_refuse LegacyLineage (jobj [(''conflict_id'', jint conflict_id)])
       else if detector_class (cf_detector r) \<noteq> 2
       then tx_fail (protocol_error ''database returned an unadmitted conflict detector'')
       else tx_then (lock_lineages (cf_claim_key r)) (\<lambda>lineage.
         case lineage of
           None \<Rightarrow> tx_fail (protocol_error ''conflict left its key's locked lineage'')
         | Some lin \<Rightarrow>
           if lin_id lin \<noteq> conflict_id
           then tx_fail (protocol_error ''conflict left its key's locked lineage'')
           else
             (let details = jobj [(''conflict_id'', jint conflict_id),
                    (''current_revision'', jint (lin_revision lin)),
                    (''current_state'', jstr (row_state_str (lin_state lin)))] in
              if lin_state lin \<noteq> Open then tx_refuse NotOpen details
              else if lin_revision lin \<noteq> xt_expected_revision t then tx_refuse StaleRevision details
              else tx_then (member_count conflict_id) (\<lambda>count.
                if opt_any (\<lambda>expected. expected \<noteq> count) (xt_expected_member_count t)
                then tx_refuse StaleMemberCount (jobj [(''conflict_id'', jint conflict_id),
                       (''current_member_count'', jint count), (''current_revision'', jint (lin_revision lin))])
                else tx_ret \<lparr>lx_lineage = lin, lx_claim_key = cf_claim_key r, lx_member_count = count\<rparr>)))))"

definition members_among :: "int \<Rightarrow> int list \<Rightarrow> (int \<times> claim_state \<times> int) list tx" where
  "members_among conflict_id claim_ids =
     (if claim_ids = [] then tx_ret []
      else tx_get (\<lambda>s. map (\<lambda>c. (cl_id c, cl_state c, cl_revision c)) (sort_key cl_id (filter
        (\<lambda>c. (conflict_id, cl_id c) \<in> set (l_members s) \<and> cl_id c \<in> set claim_ids) (l_claims s)))))"

definition member_authorship_of :: "fleet_scope \<Rightarrow> int \<Rightarrow> member_authorship tx" where
  "member_authorship_of sc conflict_id = tx_get (\<lambda>s.
     let ids = take 4097 (sort (map snd (filter (\<lambda>m. fst m = conflict_id) (l_members s))));
         rows = filter (\<lambda>c. cl_id c \<in> set ids) (l_claims s) in
     \<lparr>members_checked = int (length rows),
      implicated_members = int (length (filter (\<lambda>c. cl_actor c = Some (sc_agent sc)) rows)),
      unattributed_members = int (length (filter (\<lambda>c. cl_actor c = None) rows))\<rparr>)"

subsection \<open>Acknowledge\<close>

definition ack_exists :: "int \<Rightarrow> int \<Rightarrow> ustr \<Rightarrow> ledger \<Rightarrow> bool" where
  "ack_exists conflict_id revision actor s = list_ex (\<lambda>r. ev_kind (lg_event r) = ''acknowledged''
     \<and> ev_episode_revision (lg_event r) = revision \<and> ev_actor (lg_event r) = actor)
     (conflict_log conflict_id s)"

definition acknowledge_once :: "env \<Rightarrow> tx_input \<Rightarrow> fleet_scope \<Rightarrow> conflict_target \<Rightarrow> ustr option \<Rightarrow> ustr
    \<Rightarrow> json \<Rightarrow> lifecycle_mutation tx" where
  "acknowledge_once en ti sc t reason key request =
     tx_then (replay_or_reserve is_conflict_response sc key request ACKNOWLEDGE_OPERATION) (\<lambda>replay. case replay of
       Some m \<Rightarrow> tx_ret m
     | None \<Rightarrow>
       tx_then (lock_open_conflict t) (\<lambda>locked.
       let conflict_id = lin_id (lx_lineage locked); revision = lin_revision (lx_lineage locked) in
       tx_then (tx_get (ack_exists conflict_id revision (sc_agent sc))) (\<lambda>existing.
       tx_then (if existing then tx_ret None
                else tx_then (append_lifecycle_event en ti sc
                  \<lparr>ed_conflict_id = conflict_id, ed_kind = ''acknowledged'', ed_episode_revision = revision,
                   ed_result_revision = revision, ed_to_state = ''open'', ed_actor_kind = ''agent'',
                   ed_actor = sc_agent sc, ed_operation = ACKNOWLEDGE_OPERATION, ed_key = key,
                   ed_member_count = lx_member_count locked, ed_reason_kind = None, ed_rationale = reason,
                   ed_payload = jobj [], ed_expires_in_hours = None, ed_review_in_hours = None\<rparr>)
                  (\<lambda>e. tx_ret (Some e))) (\<lambda>event.
       let applied = (event \<noteq> None);
           status = (if applied then ''acknowledged'' else ''already_acknowledged'') in
       tx_then (insert_keyed_conflict_event sc ''conflict_acknowledged'' conflict_id key
          (jobj [(''claim_key'', JString (lx_claim_key locked)), (''episode_revision'', jint revision),
                 (''applied'', JBool applied), (''status'', jstr status),
                 (''event_seq'', jopt (\<lambda>e. jint (ev_seq e)) event)])) (\<lambda>_.
       let m = \<lparr>xm_operation = ''acknowledge'', xm_conflict_id = conflict_id, xm_conflict_state = ''open'',
                xm_conflict_revision = revision, xm_member_count = lx_member_count locked,
                xm_applied = applied, xm_status = Some status, xm_lifecycle_event = event,
                xm_claims_retracted = [], xm_claims_restored = [], xm_conflicts_resolved = [],
                xm_reevaluation = None, xm_idempotent_replay = False\<rparr> in
       tx_then (finish_conflict_receipt en sc key request ACKNOWLEDGE_OPERATION m) (\<lambda>_.
       tx_ret (ConflictResponse m)))))))"

definition acknowledge_conflict :: "env \<Rightarrow> ledger_config \<Rightarrow> tx_input \<Rightarrow> fleet_scope \<Rightarrow> conflict_target
    \<Rightarrow> ustr option \<Rightarrow> ustr \<Rightarrow> lifecycle_mutation tx" where
  "acknowledge_conflict en lc ti sc t reason idempotency_key =
     tx_then (tx_res (ensure_scope lc sc)) (\<lambda>_.
     tx_then (tx_res (require_capability lc)) (\<lambda>_.
     tx_then (tx_res (validated_idempotency_key idempotency_key)) (\<lambda>key.
     tx_then (tx_res (validate_conflict_target t False)) (\<lambda>_.
     tx_then (tx_res (check_reason reason)) (\<lambda>_.
     acknowledge_once en ti sc t reason key (acknowledge_request sc t reason))))))"

subsection \<open>Resolve by concession\<close>

definition retract_conceded ::
    "tx_input \<Rightarrow> fleet_scope \<Rightarrow> int \<Rightarrow> ustr option \<Rightarrow> ustr \<Rightarrow> locked_key_claim \<Rightarrow> unit tx" where
  "retract_conceded ti sc conflict_id reason key claim =
     tx_then (transition_owned_claim ti sc claim Retracted) (\<lambda>_.
       insert_transition_event sc (lk_id claim) ''retracted_by_author'' (lk_state claim) Retracted
         (jobj [(''conflict_id'', jint conflict_id), (''idempotency_key'', JString key),
                (''reason'', jopt JString reason), (''revision_before'', jint (lk_revision claim))]))"

definition concession_reason :: "int list \<Rightarrow> string" where
  "concession_reason retracted =
     (if retracted = [] then ''no lifecycle-current incompatible pair remains on re-verification''
      else ''no lifecycle-current incompatible pair remains after concession retracting claims ''
        @ show_int (hd retracted) @ concat (map (\<lambda>i. '', '' @ show_int i) (tl retracted)))"

definition resolve_once :: "env \<Rightarrow> tx_input \<Rightarrow> fleet_scope \<Rightarrow> conflict_target \<Rightarrow> int list \<Rightarrow> ustr option
    \<Rightarrow> ustr \<Rightarrow> json \<Rightarrow> lifecycle_mutation tx" where
  "resolve_once en ti sc t retract_claim_ids reason key request =
     tx_then (replay_or_reserve is_conflict_response sc key request RESOLVE_OPERATION) (\<lambda>replay. case replay of
       Some m \<Rightarrow> tx_ret m
     | None \<Rightarrow>
       tx_then (lock_open_conflict t) (\<lambda>locked.
       let lin = lx_lineage locked; conflict_id = lin_id lin in
       tx_then (lock_current_claims (lx_claim_key locked)) (\<lambda>current.
       tx_then (members_among conflict_id retract_claim_ids) (\<lambda>members.
       tx_then (tx_res (plan_concession conflict_id (sc_agent sc) retract_claim_ids members current)) (\<lambda>con.
       tx_then (tx_each (retract_conceded ti sc conflict_id reason key) (con_retracted con)) (\<lambda>_.
       let retracted = map lk_id (con_retracted con) in
       tx_then (key_incompatible_pairs en (lx_claim_key locked)) (\<lambda>sql_pairs.
       tx_then (excluded_dismissed_pairs conflict_id) (\<lambda>excluded.
       case plan_reevaluation (e_fmt en) (Some lin) (con_remaining con) sql_pairs excluded of
         StillOpen _ _ pairs excluded_pairs \<Rightarrow>
           tx_refuse StillIncompatible (jobj [(''conflict_id'', jint conflict_id),
             (''pair_count'', jint (int (length pairs))),
             (''pairs'', JArray (map jpair (take MAX_REPORTED_REMAINING_PAIRS pairs))),
             (''excluded_dismissed_pairs'', jint (int excluded_pairs))])
       | Divergent _ _ _ _ \<Rightarrow>
           tx_refuse VerificationDivergence (jobj [(''conflict_id'', jint conflict_id)])
       | NoLineage \<Rightarrow> tx_fail (protocol_error ''locked open conflict was not open during its concession'')
       | LineageNotOpen \<Rightarrow> tx_fail (protocol_error ''locked open conflict was not open during its concession'')
       | Close _ _ candidates excluded_pairs \<Rightarrow>
           tx_then (apply_verified_close en ti sc
              \<lparr>vc_conflict_id = conflict_id, vc_conflict_revision = lin_revision lin,
               vc_claim_key = lx_claim_key locked, vc_restore_candidates = candidates,
               vc_current = con_remaining con, vc_resolution_reason = concession_reason retracted,
               vc_excluded_dismissed_pairs = excluded_pairs\<rparr>
              \<lparr>ca_operation = RESOLVE_OPERATION, ca_key = key,
               ca_cause = jobj [(''agent'', JString (sc_agent sc)), (''operation'', jstr RESOLVE_OPERATION),
                 (''claims_retracted'', JArray (map jint retracted)), (''reason'', jopt JString reason)],
               ca_log = True\<rparr>) (\<lambda>effect.
           case ef_reevaluation effect of
             None \<Rightarrow> tx_fail (protocol_error ''verified close reported no revision'')
           | Some re \<Rightarrow>
             tx_then (insert_keyed_conflict_event sc ''conflict_resolved'' conflict_id key
                (jobj [(''claim_key'', JString (lx_claim_key locked)),
                       (''episode_revision'', jint (lin_revision lin)),
                       (''conflict_revision'', jint (re_conflict_revision re)),
                       (''claims_retracted'', JArray (map jint retracted)),
                       (''claims_restored'', JArray (map jint (ef_claims_restored effect)))])) (\<lambda>_.
             let m = \<lparr>xm_operation = ''resolve'', xm_conflict_id = conflict_id,
                      xm_conflict_state = ''resolved'', xm_conflict_revision = re_conflict_revision re,
                      xm_member_count = lx_member_count locked, xm_applied = True,
                      xm_status = Some ''resolved'', xm_lifecycle_event = ef_lifecycle_event effect,
                      xm_claims_retracted = retracted, xm_claims_restored = ef_claims_restored effect,
                      xm_conflicts_resolved = ef_conflicts_resolved effect,
                      xm_reevaluation = Some re, xm_idempotent_replay = False\<rparr> in
             tx_then (finish_conflict_receipt en sc key request RESOLVE_OPERATION m) (\<lambda>_.
             tx_ret (ConflictResponse m))))))))))))"

definition resolve_conflict :: "env \<Rightarrow> ledger_config \<Rightarrow> tx_input \<Rightarrow> fleet_scope \<Rightarrow> conflict_target
    \<Rightarrow> int list \<Rightarrow> ustr option \<Rightarrow> ustr \<Rightarrow> lifecycle_mutation tx" where
  "resolve_conflict en lc ti sc t ids reason idempotency_key =
     tx_then (tx_res (ensure_scope lc sc)) (\<lambda>_.
     tx_then (tx_res (require_capability lc)) (\<lambda>_.
     tx_then (tx_res (validated_idempotency_key idempotency_key)) (\<lambda>key.
     tx_then (tx_res (validate_conflict_target t True)) (\<lambda>_.
     tx_then (tx_res (check_reason reason)) (\<lambda>_.
     let ids = sort_dedup ids in
     if length ids > MAX_CONCESSION_CLAIMS \<or> list_ex (\<lambda>i. \<not> safe_int i) ids
     then tx_fail (Memory ''retract_claim_ids must name at most {MAX_CONCESSION_CLAIMS} claims between 1 and {MAX_SAFE_INTEGER}'')
     else resolve_once en ti sc t ids reason key (resolve_request sc t ids reason))))))"

subsection \<open>Dismiss and waive\<close>

definition validate_adjudication :: "ledger_config \<Rightarrow> fleet_scope \<Rightarrow> conflict_target \<Rightarrow> ustr \<Rightarrow> ustr \<Rightarrow> ustr res" where
  "validate_adjudication lc sc t rationale idempotency_key =
     try_then (ensure_scope lc sc) (\<lambda>_.
     try_then (require_adjudication lc) (\<lambda>_.
     try_then (validated_idempotency_key idempotency_key) (\<lambda>key.
     try_then (validate_conflict_target t True) (\<lambda>_.
     case validate_rationale rationale of Inl e \<Rightarrow> Inl (Memory e) | Inr _ \<Rightarrow> Inr key))))"

definition dismiss_once :: "env \<Rightarrow> tx_input \<Rightarrow> fleet_scope \<Rightarrow> conflict_target \<Rightarrow> dismissal_terms \<Rightarrow> ustr
    \<Rightarrow> json \<Rightarrow> lifecycle_mutation tx" where
  "dismiss_once en ti sc t terms key request =
     tx_then (replay_or_reserve is_conflict_response sc key request DISMISS_OPERATION) (\<lambda>replay. case replay of
       Some m \<Rightarrow> tx_ret m
     | None \<Rightarrow>
       tx_then (lock_open_conflict t) (\<lambda>locked.
       let conflict_id = lin_id (lx_lineage locked); revision = lin_revision (lx_lineage locked);
           reason_kind = dismissal_reason_kind (dt_reason_kind terms) in
       tx_then (member_authorship_of sc conflict_id) (\<lambda>authorship.
       tx_then (tx_res (check_adjudicator conflict_id (lx_member_count locked) authorship)) (\<lambda>_.
       tx_then (lock_current_claims (lx_claim_key locked)) (\<lambda>current.
       tx_then (key_incompatible_pairs en (lx_claim_key locked)) (\<lambda>sql_pairs.
       tx_then (tx_res (lift_refusal (plan_dismissal (e_fmt en) conflict_id current sql_pairs))) (\<lambda>plan.
       tx_then (close_conflict ti conflict_id revision ''dismissed'' (''dismissed:'' @ reason_kind)
                  DISMISSAL_RESOLUTION_REASON) (\<lambda>closed_revision.
       tx_then (restore_disputed_members ti sc conflict_id closed_revision (lx_claim_key locked)
                  ''conflict_dismissed'' (dp_restore_candidates plan) key) (\<lambda>restored.
       tx_then (append_lifecycle_event en ti sc
          \<lparr>ed_conflict_id = conflict_id, ed_kind = ''dismissed'', ed_episode_revision = revision,
           ed_result_revision = closed_revision, ed_to_state = ''dismissed'', ed_actor_kind = ''agent'',
           ed_actor = sc_agent sc, ed_operation = DISMISS_OPERATION, ed_key = key,
           ed_member_count = lx_member_count locked, ed_reason_kind = Some reason_kind,
           ed_rationale = Some (dt_rationale terms),
           ed_payload = jobj [(''dismissed_pairs'', JArray (map jpair (dp_dismissed_pairs plan))),
             (''restored_claim_ids'', JArray (map jint restored)),
             (''members_checked'', jint (members_checked authorship)),
             (''current_claim_ids'', JArray (map (\<lambda>c. jint (lk_id c)) current))],
           ed_expires_in_hours = None, ed_review_in_hours = None\<rparr>) (\<lambda>event.
       tx_then (insert_keyed_conflict_event sc ''conflict_dismissed'' conflict_id key
          (jobj [(''claim_key'', JString (lx_claim_key locked)), (''episode_revision'', jint revision),
                 (''conflict_revision'', jint closed_revision), (''reason_kind'', jstr reason_kind),
                 (''dismissed_pair_count'', jint (int (length (dp_dismissed_pairs plan)))),
                 (''claims_restored'', JArray (map jint restored)), (''event_seq'', jint (ev_seq event))])) (\<lambda>_.
       let m = \<lparr>xm_operation = ''dismiss'', xm_conflict_id = conflict_id, xm_conflict_state = ''dismissed'',
                xm_conflict_revision = closed_revision, xm_member_count = lx_member_count locked,
                xm_applied = True, xm_status = Some ''dismissed'', xm_lifecycle_event = Some event,
                xm_claims_retracted = [], xm_claims_restored = restored, xm_conflicts_resolved = [],
                xm_reevaluation = None, xm_idempotent_replay = False\<rparr> in
       tx_then (finish_conflict_receipt en sc key request DISMISS_OPERATION m) (\<lambda>_.
       tx_ret (ConflictResponse m)))))))))))))"

definition dismiss_conflict :: "env \<Rightarrow> ledger_config \<Rightarrow> tx_input \<Rightarrow> fleet_scope \<Rightarrow> conflict_target
    \<Rightarrow> dismissal_terms \<Rightarrow> ustr \<Rightarrow> lifecycle_mutation tx" where
  "dismiss_conflict en lc ti sc t terms idempotency_key =
     tx_then (tx_res (validate_adjudication lc sc t (dt_rationale terms) idempotency_key)) (\<lambda>key.
     dismiss_once en ti sc t terms key (dismiss_request sc t terms))"

definition waive_once :: "env \<Rightarrow> tx_input \<Rightarrow> fleet_scope \<Rightarrow> conflict_target \<Rightarrow> waiver_terms \<Rightarrow> ustr
    \<Rightarrow> json \<Rightarrow> lifecycle_mutation tx" where
  "waive_once en ti sc t terms key request =
     tx_then (replay_or_reserve is_conflict_response sc key request WAIVE_OPERATION) (\<lambda>replay. case replay of
       Some m \<Rightarrow> tx_ret m
     | None \<Rightarrow>
       tx_then (lock_open_conflict t) (\<lambda>locked.
       let conflict_id = lin_id (lx_lineage locked); revision = lin_revision (lx_lineage locked);
           reason_kind = waiver_reason_kind (wt_reason_kind terms) in
       tx_then (member_authorship_of sc conflict_id) (\<lambda>authorship.
       tx_then (tx_res (check_adjudicator conflict_id (lx_member_count locked) authorship)) (\<lambda>_.
       tx_then (append_lifecycle_event en ti sc
          \<lparr>ed_conflict_id = conflict_id, ed_kind = ''waived'', ed_episode_revision = revision,
           ed_result_revision = revision, ed_to_state = ''open'', ed_actor_kind = ''agent'',
           ed_actor = sc_agent sc, ed_operation = WAIVE_OPERATION, ed_key = key,
           ed_member_count = lx_member_count locked, ed_reason_kind = Some reason_kind,
           ed_rationale = Some (wt_rationale terms), ed_payload = jobj [],
           ed_expires_in_hours = Some (int (wt_expires_in_hours terms)),
           ed_review_in_hours = map_option int (wt_review_in_hours terms)\<rparr>) (\<lambda>event.
       tx_then (insert_keyed_conflict_event sc ''conflict_waived'' conflict_id key
          (jobj [(''claim_key'', JString (lx_claim_key locked)), (''episode_revision'', jint revision),
                 (''reason_kind'', jstr reason_kind),
                 (''expires_at'', jopt (\<lambda>x. JString (e_show_time en x)) (ev_expires_at event)),
                 (''review_by'', jopt (\<lambda>x. JString (e_show_time en x)) (ev_review_by event)),
                 (''event_seq'', jint (ev_seq event))])) (\<lambda>_.
       let m = \<lparr>xm_operation = ''waive'', xm_conflict_id = conflict_id, xm_conflict_state = ''open'',
                xm_conflict_revision = revision, xm_member_count = lx_member_count locked,
                xm_applied = True, xm_status = Some ''waived'', xm_lifecycle_event = Some event,
                xm_claims_retracted = [], xm_claims_restored = [], xm_conflicts_resolved = [],
                xm_reevaluation = None, xm_idempotent_replay = False\<rparr> in
       tx_then (finish_conflict_receipt en sc key request WAIVE_OPERATION m) (\<lambda>_.
       tx_ret (ConflictResponse m))))))))"

definition waive_conflict :: "env \<Rightarrow> ledger_config \<Rightarrow> tx_input \<Rightarrow> fleet_scope \<Rightarrow> conflict_target
    \<Rightarrow> waiver_terms \<Rightarrow> ustr \<Rightarrow> lifecycle_mutation tx" where
  "waive_conflict en lc ti sc t terms idempotency_key =
     tx_then (tx_res (validate_adjudication lc sc t (wt_rationale terms) idempotency_key)) (\<lambda>key.
     tx_then (tx_res (case validate_waiver_hours (wt_expires_in_hours terms) (wt_review_in_hours terms) of
                        Inl e \<Rightarrow> Inl (Memory e) | Inr _ \<Rightarrow> Inr ())) (\<lambda>_.
     waive_once en ti sc t terms key (waive_request sc t terms)))"

end
