(* ===== verification/Ledger_Relations.thy ===== *)
theory Ledger_Relations
  imports Conflict_Lifecycle
begin

section \<open>Relations every mutation respects\<close>

text \<open>
  A preorder on ledgers that every primitive write respects is respected by every
  mutation. The locale \<open>tx_preorder\<close> gives the composition rules; \<open>ledger_relation\<close> asks
  for the primitive writes and proves the mutations once. It is interpreted at the end on
  four relations: claims only evolve within their author's authority, conflicts only move
  forward, the audit tables only grow, and receipts of other keys are untouched.
\<close>

subsection \<open>Composition\<close>

definition respecting :: "(ledger \<Rightarrow> ledger \<Rightarrow> bool) \<Rightarrow> 'a tx \<Rightarrow> bool" where
  "respecting R m \<longleftrightarrow> (\<forall>s x t. m s = Inr (x, t) \<longrightarrow> R s t)"

lemma respects_fail [simp, intro]: "respecting R (tx_fail e)" "respecting R (tx_refuse c d)"
  by (simp_all add: respecting_def tx_simps)

lemma respects_if [intro]: "respecting R a \<Longrightarrow> respecting R b \<Longrightarrow> respecting R (if c then a else b)"
  by simp

lemma respects_option [intro]:
  "respecting R a \<Longrightarrow> (\<And>x. respecting R (f x)) \<Longrightarrow> respecting R (case m of None \<Rightarrow> a | Some x \<Rightarrow> f x)"
  by (cases m) auto

lemma respects_list [intro]:
  "respecting R a \<Longrightarrow> (\<And>x xs. respecting R (f x xs)) \<Longrightarrow> respecting R (case m of [] \<Rightarrow> a | x # xs \<Rightarrow> f x xs)"
  by (cases m) auto

lemma respects_prod [intro]: "(\<And>x y. respecting R (f x y)) \<Longrightarrow> respecting R (case p of (x, y) \<Rightarrow> f x y)"
  by (cases p) auto

lemma respects_bool [intro]: "respecting R a \<Longrightarrow> respecting R b \<Longrightarrow> respecting R (case c of True \<Rightarrow> a | False \<Rightarrow> b)"
  by (cases c) auto

lemma respects_support [intro]:
  "(\<And>x. respecting R (f x)) \<Longrightarrow> (\<And>x. respecting R (g x)) \<Longrightarrow>
   respecting R (case m of Corpus x \<Rightarrow> f x | Item x \<Rightarrow> g x)"
  by (cases m) auto

lemma respects_reevaluation [intro]:
  "respecting R a \<Longrightarrow> respecting R b \<Longrightarrow> (\<And>i r p n. respecting R (f i r p n)) \<Longrightarrow>
   (\<And>i r p n. respecting R (g i r p n)) \<Longrightarrow> (\<And>i r p n. respecting R (h i r p n)) \<Longrightarrow>
   respecting R (case m of NoLineage \<Rightarrow> a | LineageNotOpen \<Rightarrow> b | StillOpen i r p n \<Rightarrow> f i r p n
     | Close i r p n \<Rightarrow> g i r p n | Divergent i r p n \<Rightarrow> h i r p n)"
  by (cases m) auto

lemmas respects_cases = respects_if respects_option respects_list respects_prod respects_bool
  respects_support respects_reevaluation respects_fail

locale tx_preorder =
  fixes R :: "ledger \<Rightarrow> ledger \<Rightarrow> bool"
  assumes rel_refl: "R s s"
    and rel_trans: "R s t \<Longrightarrow> R t u \<Longrightarrow> R s u"
begin

lemma respects_read: "read_only m \<Longrightarrow> respecting R m"
  unfolding respecting_def by (metis read_only_same rel_refl)

lemma respects_then: "respecting R m \<Longrightarrow> (\<And>x. respecting R (f x)) \<Longrightarrow> respecting R (tx_then m f)"
  unfolding respecting_def tx_simps using rel_trans by meson

lemma respects_each: "(\<And>x. respecting R (f x)) \<Longrightarrow> respecting R (tx_each f xs)"
  by (induction xs) (auto intro: respects_read respects_then)

lemma respects_basic: "respecting R (tx_ret x)" "respecting R (tx_get g)" "respecting R (tx_res r)"
  by (auto intro: respects_read)

lemmas respects_rules = respects_cases respects_basic respects_then respects_each

end

subsection \<open>Primitive reads\<close>

lemma read_only_lock_lineages [simp, intro]: "read_only (lock_lineages k)"
  unfolding lock_lineages_def by (intro read_only_intros)

lemma read_only_lock_current_claims [simp, intro]: "read_only (lock_current_claims k)"
  unfolding lock_current_claims_def Let_def by (intro read_only_intros)

lemma read_only_key_pairs [simp, intro]: "read_only (key_incompatible_pairs en k)"
  unfolding key_incompatible_pairs_def by (intro read_only_intros)

lemma read_only_read_target [simp, intro]: "read_only (read_target i)"
  unfolding read_target_def by (intro read_only_intros)

lemma read_only_claim_not_found [simp, intro]: "read_only (claim_not_found i)"
  unfolding claim_not_found_def by (intro read_only_intros)

lemma read_only_lock_owned_target [simp, intro]: "read_only (lock_owned_target sc t r)"
  unfolding lock_owned_target_def Let_def
  by (intro read_only_intros read_only_lock_lineages read_only_lock_current_claims
      read_only_read_target read_only_claim_not_found)

lemma read_only_next_seq [simp, intro]: "read_only (next_event_seq k)"
  unfolding next_event_seq_def by (intro read_only_intros)

lemma read_only_excluded [simp, intro]: "read_only (excluded_dismissed_pairs k)"
  unfolding excluded_dismissed_pairs_def by (intro read_only_intros)

lemma read_only_bounded_member_count [simp, intro]: "read_only (bounded_member_count k)"
  unfolding bounded_member_count_def by (intro read_only_intros)

lemma read_only_member_count [simp, intro]: "read_only (member_count k)"
  unfolding member_count_def by (intro read_only_intros read_only_bounded_member_count)

lemma read_only_lock_open_conflict [simp, intro]: "read_only (lock_open_conflict t)"
  unfolding lock_open_conflict_def Let_def
  by (intro read_only_intros read_only_lock_lineages read_only_member_count)

lemma read_only_members_among [simp, intro]: "read_only (members_among k ids)"
  unfolding members_among_def by (intro read_only_intros)

lemma read_only_authorship [simp, intro]: "read_only (member_authorship_of sc k)"
  unfolding member_authorship_of_def by (intro read_only_intros)

lemma read_only_require_model [simp, intro]: "read_only (require_active_model m)"
  unfolding require_active_model_def by (intro read_only_intros)

lemma read_only_require_detector [simp, intro]: "read_only (require_current_conflict_detector k)"
  unfolding require_current_conflict_detector_def by (intro read_only_intros)

lemmas ledger_reads = read_only_lock_lineages read_only_lock_current_claims read_only_key_pairs
  read_only_read_target read_only_claim_not_found read_only_lock_owned_target read_only_next_seq
  read_only_excluded read_only_bounded_member_count read_only_member_count
  read_only_lock_open_conflict read_only_members_among read_only_authorship
  read_only_require_model read_only_require_detector read_only_fetch_claim

subsection \<open>Mutations\<close>

definition restore_rows :: "tx_input \<Rightarrow> int \<Rightarrow> ustr \<Rightarrow> int list \<Rightarrow> ledger \<Rightarrow> ledger" where
  "restore_rows ti conflict_id claim_key candidates s =
     update_claims (restorable conflict_id claim_key candidates s)
       (\<lambda>c. c\<lparr>cl_state := Active, cl_revision := cl_revision c + 1, cl_updated_at := t_now ti\<rparr>) s"

text \<open>What identifies a receipt: no completion of a receipt changes it.\<close>

definition receipt_header :: "receipt \<Rightarrow> ustr \<times> ustr \<times> json \<times> string" where
  "receipt_header r = (rc_idempotency_key r, rc_project r, rc_request r, rc_operation r)"

locale ledger_relation = tx_preorder +
  fixes en :: env and ti :: tx_input and sc :: fleet_scope and key :: ustr
  assumes rel_reserve: "respecting R (reserve_receipt sc key request op)"
    and rel_finish: "(\<And>r. receipt_header (upd r) = receipt_header r) \<Longrightarrow>
      respecting R (finish_receipt en sc key request op upd)"
    and rel_claim_event: "respecting R (insert_claim_event ce)"
    and rel_memory_event: "respecting R (insert_memory_event me)"
    and rel_insert_claim: "respecting R (insert_claim ti sc i p)"
    and rel_support: "respecting R (insert_corpus_support ti k c)"
    and rel_embedding: "respecting R (insert_embedding k model passage)"
    and rel_chunk: "respecting R (upsert_chunk ch)"
    and rel_observe: "respecting R (observe_conflict ti claim_key)"
    and rel_member: "respecting R (insert_member k m)"
    and rel_dispute: "respecting R (dispute_members ti ids)"
    and rel_transition: "st = Retracted \<or> st = Superseded \<Longrightarrow> respecting R (transition_owned_claim ti sc lk st)"
    and rel_link: "respecting R (set_superseded_by a b)"
    and rel_close: "st' = ''resolved'' \<or> st' = ''dismissed'' \<Longrightarrow> respecting R (close_conflict ti k r st' rk rr)"
    and rel_restore: "R s (restore_rows ti k claim_key ids s)"
    and rel_append: "respecting R (append_lifecycle_event en ti sc d)"
    and rel_append_close: "respecting R (append_close_event en ti sc d)"
begin

lemma rel_put_restore:
  "respecting R (tx_put (\<lambda>s. update_claims (restorable k claim_key ids s)
     (\<lambda>c. c\<lparr>cl_state := Active, cl_revision := cl_revision c + 1, cl_updated_at := t_now ti\<rparr>) s))"
  using rel_restore by (auto simp: respecting_def tx_simps restore_rows_def)

lemmas rel_reads = ledger_reads [THEN respects_read]

lemma rel_supports: "respecting R (insert_corpus_supports ti k xs)"
  by (induction xs) (auto intro!: respects_rules rel_support split: support_input.splits)

lemma rel_insert_support: "respecting R (insert_support ti k i)"
  unfolding insert_support_def item_support_unavailable_def by (intro respects_rules rel_supports)

lemma rel_projection: "respecting R (insert_claim_projection en ti sc i p ps model payload)"
  unfolding insert_claim_projection_def
  by (intro respects_rules rel_insert_claim rel_insert_support rel_embedding rel_chunk rel_claim_event)

lemma rel_transition_event: "respecting R (insert_transition_event sc k reason st st2 payload)"
  unfolding insert_transition_event_def by (rule rel_claim_event)

lemma rel_detect: "respecting R (detect_and_observe en ti sc claim p own)"
  unfolding detect_and_observe_def insert_disputed_transition_event_def Let_def
  by (intro respects_rules rel_reads rel_observe rel_member rel_dispute rel_transition_event)

lemma rel_replay: "respecting R (replay_or_reserve d sc key request op)"
  unfolding replay_or_reserve_def by (intro respects_rules rel_reserve)

lemma rel_restore_members:
  "respecting R (restore_disputed_members ti sc k r claim_key reason ids key')"
  unfolding restore_disputed_members_def
  by (intro respects_rules rel_put_restore rel_transition_event)

lemma rel_resolved: "respecting R (close_conflict ti k r ''resolved'' rk rr)"
  and rel_dismissed: "respecting R (close_conflict ti k r ''dismissed'' rk rr)"
  by (simp_all add: rel_close)

lemma rel_retired: "respecting R (transition_owned_claim ti sc lk Retracted)"
  and rel_superseded: "respecting R (transition_owned_claim ti sc lk Superseded)"
  by (simp_all add: rel_transition)

lemma rel_verified_close: "respecting R (apply_verified_close en ti sc vc audit)"
  unfolding apply_verified_close_def Let_def
  by (intro respects_rules rel_resolved rel_restore_members rel_reads rel_append_close)

lemma rel_reevaluate: "respecting R (reevaluate_key en ti sc lin claim_key cur reason audit)"
  unfolding reevaluate_key_def by (intro respects_rules rel_reads rel_verified_close)

lemma rel_memory_events:
  "respecting R (insert_claim_recorded_event sc k ko payload)"
  "respecting R (insert_keyed_claim_event sc kind k key payload)"
  "respecting R (insert_keyed_conflict_event sc kind k key payload)"
  unfolding insert_claim_recorded_event_def insert_keyed_claim_event_def insert_keyed_conflict_event_def
  by (intro rel_memory_event)+

lemma rel_finish_claim: "respecting R (finish_claim_receipt en sc key request op m)"
  and rel_finish_conflict: "respecting R (finish_conflict_receipt en sc key request op m')"
  unfolding finish_claim_receipt_def finish_conflict_receipt_def by (intro rel_finish; simp add: receipt_header_def)+

lemmas rel_writes = rel_replay rel_projection rel_detect rel_transition_event rel_memory_events
  rel_finish_claim rel_finish_conflict rel_reevaluate rel_verified_close rel_retired rel_superseded
  rel_link rel_append rel_restore_members rel_dismissed

lemma rel_record_once: "respecting R (record_once en ti sc i p ps model key request own)"
  unfolding record_once_def Let_def by (intro respects_rules rel_reads rel_writes)

lemma rel_retract_once: "respecting R (retract_once en ti sc t reason key request logged)"
  unfolding retract_once_def Let_def by (intro respects_rules rel_reads rel_writes)

lemma rel_supersede_once:
  "respecting R (supersede_once en ti sc t reason i p ps model key request logged)"
  unfolding supersede_once_def Let_def by (intro respects_rules rel_reads rel_writes)

lemma rel_acknowledge_once: "respecting R (acknowledge_once en ti sc x reason key request)"
  unfolding acknowledge_once_def Let_def by (intro respects_rules rel_reads rel_writes)

lemma rel_retract_conceded: "respecting R (retract_conceded ti sc k reason key' claim)"
  unfolding retract_conceded_def by (intro respects_rules rel_writes)

lemma rel_resolve_once: "respecting R (resolve_once en ti sc x ids reason key request)"
  unfolding resolve_once_def Let_def by (intro respects_rules rel_reads rel_writes rel_retract_conceded)

lemma rel_dismiss_once: "respecting R (dismiss_once en ti sc x terms key request)"
  unfolding dismiss_once_def Let_def by (intro respects_rules rel_reads rel_writes)

lemma rel_waive_once: "respecting R (waive_once en ti sc x wterms key request)"
  unfolding waive_once_def Let_def by (intro respects_rules rel_reads rel_writes)

end

end
