(* ===== verification/Ledger_Frames.thy ===== *)
theory Ledger_Frames
  imports Ledger_Relations "HOL-Library.Sublist"
begin

section \<open>What no mutation can do\<close>

text \<open>
  Four interpretations of \<open>ledger_relation\<close>: how claims evolve, how conflicts evolve, which
  tables only grow, and that a mutation leaves the receipts of other keys alone.
\<close>

lemma set_update_claims: "set (l_claims (update_claims P f s)) = (\<lambda>c. if P c then f c else c) ` set (l_claims s)"
  by (simp add: update_claims_def)

lemma set_update_conflicts:
  "set (l_conflicts (update_conflicts P f s)) = (\<lambda>c. if P c then f c else c) ` set (l_conflicts s)"
  by (simp add: update_conflicts_def)

subsection \<open>Claims\<close>

text \<open>
  One claim across a mutation by \<open>agent\<close>: its content never changes, its revision never
  decreases and increases with its state, a retired claim keeps its state, and only its
  author retires an operator-asserted claim.
\<close>

definition claim_content :: "claim \<Rightarrow> claim" where
  "claim_content c = c\<lparr>cl_state := Active, cl_revision := 1, cl_updated_at := 0, cl_superseded_by := None\<rparr>"

definition claim_step :: "ustr \<Rightarrow> claim \<Rightarrow> claim \<Rightarrow> bool" where
  "claim_step agent c c' \<longleftrightarrow> claim_content c' = claim_content c \<and> cl_revision c \<le> cl_revision c'
     \<and> (cl_state c' \<noteq> cl_state c \<longrightarrow> cl_revision c < cl_revision c')
     \<and> (\<not> is_current (cl_state c) \<longrightarrow> cl_state c' = cl_state c \<and> cl_revision c' = cl_revision c)
     \<and> (cl_superseded_by c \<noteq> None \<longrightarrow> cl_superseded_by c' = cl_superseded_by c)
     \<and> (is_current (cl_state c) \<and> \<not> is_current (cl_state c') \<longrightarrow>
          cl_actor c = Some agent \<and> cl_origin c = OPERATOR_ASSERTED_ORIGIN)"

definition claims_evolve :: "ustr \<Rightarrow> ledger \<Rightarrow> ledger \<Rightarrow> bool" where
  "claims_evolve agent s t \<longleftrightarrow> (\<forall>c\<in>set (l_claims s). \<exists>c'\<in>set (l_claims t). claim_step agent c c')"

lemma claim_content_fields:
  assumes "claim_content c' = claim_content c"
  shows "cl_id c' = cl_id c" "cl_claim_key c' = cl_claim_key c" "cl_value c' = cl_value c"
    "cl_polarity c' = cl_polarity c" "cl_valid_from c' = cl_valid_from c"
    "cl_valid_to c' = cl_valid_to c" "cl_conflict_eligible c' = cl_conflict_eligible c"
    "cl_actor c' = cl_actor c" "cl_origin c' = cl_origin c" "cl_text c' = cl_text c"
    "cl_kind c' = cl_kind c" "cl_confidence c' = cl_confidence c"
  using assms by (cases c; cases c'; simp add: claim_content_def)+

lemma claim_step_refl [simp]: "claim_step agent c c"
  by (simp add: claim_step_def)

lemma claim_step_trans: "claim_step a c d \<Longrightarrow> claim_step a d e \<Longrightarrow> claim_step a c e"
  using claim_content_fields(8,9) [of d c] unfolding claim_step_def
  by (cases "is_current (cl_state c)"; cases "is_current (cl_state d)") auto

lemma claims_evolve_same: "l_claims t = l_claims s \<Longrightarrow> claims_evolve agent s t"
  by (auto simp: claims_evolve_def intro: claim_step_refl)

lemma claims_evolve_update:
  assumes "\<And>c. c \<in> set (l_claims s) \<Longrightarrow> P c \<Longrightarrow> claim_step agent c (f c)"
  shows "claims_evolve agent s (update_claims P f s)"
proof -
  have "claim_step agent c (if P c then f c else c)" if "c \<in> set (l_claims s)" for c
    using assms that by simp
  then show ?thesis unfolding claims_evolve_def set_update_claims by blast
qed

subsection \<open>Conflicts\<close>

definition conflict_step :: "conflict_row \<Rightarrow> conflict_row \<Rightarrow> bool" where
  "conflict_step c c' \<longleftrightarrow> cf_id c' = cf_id c \<and> cf_claim_key c' = cf_claim_key c
     \<and> cf_detector c' = cf_detector c \<and> cf_detected_at c' = cf_detected_at c
     \<and> cf_revision c \<le> cf_revision c'
     \<and> (cf_state c' \<noteq> cf_state c \<longrightarrow> cf_revision c < cf_revision c')
     \<and> (cf_detector c \<noteq> FUNCTIONAL_VALUE_CONFLICT_DETECTOR_V2 \<longrightarrow> c' = c)"

definition conflicts_evolve :: "ledger \<Rightarrow> ledger \<Rightarrow> bool" where
  "conflicts_evolve s t \<longleftrightarrow> (\<forall>c\<in>set (l_conflicts s). \<exists>c'\<in>set (l_conflicts t). conflict_step c c')"

lemma conflict_step_refl [simp]: "conflict_step c c"
  by (simp add: conflict_step_def)

lemma conflict_step_trans: "conflict_step c d \<Longrightarrow> conflict_step d e \<Longrightarrow> conflict_step c e"
  unfolding conflict_step_def by force

lemma conflicts_evolve_same: "l_conflicts t = l_conflicts s \<Longrightarrow> conflicts_evolve s t"
  by (auto simp: conflicts_evolve_def intro: conflict_step_refl)

lemma conflicts_evolve_update:
  assumes "\<And>c. c \<in> set (l_conflicts s) \<Longrightarrow> P c \<Longrightarrow> conflict_step c (f c)"
  shows "conflicts_evolve s (update_conflicts P f s)"
proof -
  have "conflict_step c (if P c then f c else c)" if "c \<in> set (l_conflicts s)" for c
    using assms that by simp
  then show ?thesis unfolding conflicts_evolve_def set_update_conflicts by blast
qed

subsection \<open>Append-only tables and receipts\<close>

definition audit_grows :: "ledger \<Rightarrow> ledger \<Rightarrow> bool" where
  "audit_grows s t \<longleftrightarrow> prefix (l_claim_events s) (l_claim_events t) \<and> prefix (l_events s) (l_events t)
     \<and> prefix (l_log s) (l_log t) \<and> prefix (l_members s) (l_members t)
     \<and> prefix (l_support s) (l_support t) \<and> prefix (l_embeddings s) (l_embeddings t)
     \<and> l_active_model t = l_active_model s"

definition other_receipts :: "ustr \<Rightarrow> ledger \<Rightarrow> receipt list" where
  "other_receipts key s = filter (\<lambda>r. rc_idempotency_key r \<noteq> key) (l_receipts s)"

subsection \<open>The primitive writes\<close>

lemmas primitive_defs = reserve_receipt_def finish_receipt_def insert_claim_event_def
  insert_memory_event_def insert_claim_def insert_corpus_support_def insert_embedding_def
  upsert_chunk_def observe_conflict_def insert_member_def dispute_members_def
  transition_owned_claim_def set_superseded_by_def close_conflict_def insert_lifecycle_event_def
  append_lifecycle_event_def append_close_event_def next_event_seq_def

lemma update_rows_simps [simp]:
  "l_conflicts (update_claims P f s) = l_conflicts s" "l_log (update_claims P f s) = l_log s"
  "l_members (update_claims P f s) = l_members s" "l_events (update_claims P f s) = l_events s"
  "l_claim_events (update_claims P f s) = l_claim_events s"
  "l_support (update_claims P f s) = l_support s" "l_embeddings (update_claims P f s) = l_embeddings s"
  "l_receipts (update_claims P f s) = l_receipts s"
  "l_active_model (update_claims P f s) = l_active_model s"
  "l_claims (update_conflicts Q g s) = l_claims s" "l_log (update_conflicts Q g s) = l_log s"
  "l_members (update_conflicts Q g s) = l_members s" "l_events (update_conflicts Q g s) = l_events s"
  "l_claim_events (update_conflicts Q g s) = l_claim_events s"
  "l_support (update_conflicts Q g s) = l_support s" "l_embeddings (update_conflicts Q g s) = l_embeddings s"
  "l_receipts (update_conflicts Q g s) = l_receipts s"
  "l_active_model (update_conflicts Q g s) = l_active_model s"
  by (simp_all add: update_claims_def update_conflicts_def)

lemma filter_map_kept:
  assumes "\<And>r. receipt_header (upd r) = receipt_header r"
  shows "filter (\<lambda>r. rc_idempotency_key r \<noteq> key)
      (map (\<lambda>r. if receipt_matches en sc key request op r then upd r else r) rs)
    = filter (\<lambda>r. rc_idempotency_key r \<noteq> key) rs"
proof -
  have "rc_idempotency_key (upd r) = rc_idempotency_key r" for r
    using assms [of r] by (simp add: receipt_header_def)
  then show ?thesis by (induction rs) (auto simp: receipt_matches_def)
qed

lemmas step_simps = claim_step_def claim_content_def owned_by_def restorable_def

interpretation evolve: ledger_relation "claims_evolve (sc_agent sc)" en ti sc key for en ti sc key
proof unfold_locales
  fix s t u assume "claims_evolve (sc_agent sc) s t" "claims_evolve (sc_agent sc) t u"
  then show "claims_evolve (sc_agent sc) s u" unfolding claims_evolve_def by (meson claim_step_trans)
next
  fix i p show "respecting (claims_evolve (sc_agent sc)) (insert_claim ti sc i p)"
    by (auto simp: respecting_def insert_claim_def Let_def tx_simps claims_evolve_def split: if_splits
        intro: claim_step_refl)
next
  fix ids show "respecting (claims_evolve (sc_agent sc)) (dispute_members ti ids)"
    by (auto simp: respecting_def dispute_members_def Let_def tx_simps step_simps
        intro!: claims_evolve_update)
next
  fix st lk assume "st = Retracted \<or> st = Superseded"
  then show "respecting (claims_evolve (sc_agent sc)) (transition_owned_claim ti sc lk st)"
    by (auto simp: respecting_def transition_owned_claim_def tx_simps step_simps
        intro!: claims_evolve_update split: option.splits)
next
  fix a b show "respecting (claims_evolve (sc_agent sc)) (set_superseded_by a b)"
    by (auto simp: respecting_def set_superseded_by_def Let_def tx_simps step_simps
        intro!: claims_evolve_update)
next
  fix s k claim_key ids show "claims_evolve (sc_agent sc) s (restore_rows ti k claim_key ids s)"
    by (auto simp: restore_rows_def step_simps intro!: claims_evolve_update)
qed (auto simp: respecting_def primitive_defs Let_def tx_simps split: if_splits option.splits prod.splits
      intro!: claims_evolve_same)

interpretation conflict: ledger_relation conflicts_evolve en ti sc key for en ti sc key
proof unfold_locales
  fix s t u assume "conflicts_evolve s t" "conflicts_evolve t u"
  then show "conflicts_evolve s u" unfolding conflicts_evolve_def by (meson conflict_step_trans)
next
  fix claim_key show "respecting conflicts_evolve (observe_conflict ti claim_key)"
    by (auto simp: respecting_def observe_conflict_def tx_simps reopened_row_def v2_in_state_def
        split: if_splits option.splits intro!: conflicts_evolve_update)
       (auto simp: conflicts_evolve_def conflict_step_def)
next
  fix st' k r rk rr assume "st' = ''resolved'' \<or> st' = ''dismissed''"
  then show "respecting conflicts_evolve (close_conflict ti k r st' rk rr)"
    by (auto simp: respecting_def close_conflict_def tx_simps conflict_step_def open_v2_at_def
        split: option.splits intro!: conflicts_evolve_update)
qed (auto simp: respecting_def primitive_defs Let_def tx_simps restore_rows_def
      split: if_splits option.splits prod.splits intro!: conflicts_evolve_same)

interpretation audit: ledger_relation audit_grows en ti sc key for en ti sc key
  by unfold_locales
     (auto simp: respecting_def audit_grows_def primitive_defs Let_def tx_simps restore_rows_def
       split: if_splits option.splits prod.splits intro: prefix_order.trans)

text \<open>Receipts are never removed or re-identified, and no key is reserved twice.\<close>

definition receipts_grow :: "ledger \<Rightarrow> ledger \<Rightarrow> bool" where
  "receipts_grow s t \<longleftrightarrow> prefix (map receipt_header (l_receipts s)) (map receipt_header (l_receipts t))
     \<and> (distinct (map rc_idempotency_key (l_receipts s)) \<longrightarrow> distinct (map rc_idempotency_key (l_receipts t)))"

lemma receipts_grow_same: "l_receipts t = l_receipts s \<Longrightarrow> receipts_grow s t"
  by (simp add: receipts_grow_def)

lemma receipts_grow_map:
  assumes "\<And>r. receipt_header (f r) = receipt_header r" and "l_receipts t = map f (l_receipts s)"
  shows "receipts_grow s t"
proof -
  have "rc_idempotency_key (f r) = rc_idempotency_key r" for r
    using assms(1) [of r] by (simp add: receipt_header_def)
  then show ?thesis by (simp add: receipts_grow_def assms comp_def)
qed

interpretation headers: ledger_relation receipts_grow en ti sc key for en ti sc key
proof unfold_locales
  fix s t u assume "receipts_grow s t" "receipts_grow t u"
  then show "receipts_grow s u" unfolding receipts_grow_def using prefix_order.trans by blast
next
  fix request op show "respecting receipts_grow (reserve_receipt sc key request op)"
    by (auto simp: respecting_def reserve_receipt_def tx_simps receipts_grow_def select_receipt_def
        find_None_iff split: if_splits)
next
  fix upd :: "receipt \<Rightarrow> receipt" and request op
  assume "\<And>r. receipt_header (upd r) = receipt_header r"
  then show "respecting receipts_grow (finish_receipt en sc key request op upd)"
    by (auto simp: respecting_def finish_receipt_def tx_simps split: if_splits
        intro!: receipts_grow_map [where f = "\<lambda>r. if receipt_matches en sc key request op r then upd r else r"])
qed (auto simp: respecting_def primitive_defs Let_def tx_simps restore_rows_def
      split: if_splits option.splits prod.splits intro!: receipts_grow_same)

interpretation receipts: ledger_relation "\<lambda>s t. other_receipts key t = other_receipts key s" en ti sc key
  for en ti sc key
  by unfold_locales
     (auto simp: respecting_def other_receipts_def primitive_defs Let_def tx_simps restore_rows_def
       filter_map_kept split: if_splits option.splits prod.splits)

end
