(* ===== verification/Ledger_Invariant.thy ===== *)
theory Ledger_Invariant
  imports Ledger_Frames
begin

section \<open>The ledger invariant\<close>

text \<open>
  What every committed ledger satisfies: the tables are well formed, a disputed claim is
  held by an open conflict, and every incompatible pair of current claims on a key is
  either disputed inside the key's open conflict or was judged by a logged dismissal. The
  lemmas here are about the table updates; the next theory applies them to the mutations.
\<close>

subsection \<open>Definitions\<close>

definition member :: "ledger \<Rightarrow> int \<Rightarrow> int \<Rightarrow> bool" where
  "member s k i \<longleftrightarrow> (k, i) \<in> set (l_members s)"

definition claim_rows_ok :: "claim list \<Rightarrow> bool" where
  "claim_rows_ok cs \<longleftrightarrow> distinct (map cl_id cs) \<and> (\<forall>c\<in>set cs. claim_checks c)"

definition conflict_rows_ok :: "conflict_row list \<Rightarrow> bool" where
  "conflict_rows_ok fs \<longleftrightarrow> distinct (map cf_id fs)
     \<and> (\<forall>f\<in>set fs. 0 < cf_id f \<and> 0 < cf_revision f \<and> cf_state f \<in> {''open'', ''resolved'', ''dismissed''})
     \<and> (\<forall>f\<in>set fs. \<forall>g\<in>set fs.
          cf_claim_key f = cf_claim_key g \<and> cf_detector f = cf_detector g \<longrightarrow> cf_id f = cf_id g)"

definition tables_ok :: "ledger \<Rightarrow> bool" where
  "tables_ok s \<longleftrightarrow> claim_rows_ok (l_claims s) \<and> conflict_rows_ok (l_conflicts s)
     \<and> (\<forall>k i. member s k i \<longrightarrow> (\<exists>f\<in>set (l_conflicts s). cf_id f = k
          \<and> (\<exists>c\<in>set (l_claims s). cl_id c = i \<and> cl_claim_key c = Some (cf_claim_key f))))"

definition disputes_held :: "ledger \<Rightarrow> bool" where
  "disputes_held s \<longleftrightarrow> (\<forall>c\<in>set (l_claims s). cl_state c = Disputed \<longrightarrow>
     (\<exists>f\<in>set (l_conflicts s). cf_state f = ''open'' \<and> member s (cf_id f) (cl_id c)))"

definition event_pairs :: "conflict_lifecycle_event \<Rightarrow> (int \<times> int) set" where
  "event_pairs e = (case ev_payload e of None \<Rightarrow> {} | Some p \<Rightarrow>
     (case json_get p ''dismissed_pairs'' of None \<Rightarrow> {} | Some v \<Rightarrow>
       (case dismissed_pairs [v] of Inl _ \<Rightarrow> {} | Inr ps \<Rightarrow> ps)))"

definition judged :: "ledger \<Rightarrow> int \<Rightarrow> int \<times> int \<Rightarrow> bool" where
  "judged s k p \<longleftrightarrow> (\<exists>r\<in>set (l_log s). lg_conflict_id r = k \<and> ev_kind (lg_event r) = ''dismissed''
     \<and> p \<in> event_pairs (lg_event r))"

text \<open>The pairs the detector would report on a key, smaller identifier first.\<close>

definition rival :: "env \<Rightarrow> ustr \<Rightarrow> claim \<Rightarrow> claim \<Rightarrow> bool" where
  "rival en key a b \<longleftrightarrow> on_key key a \<and> on_key key b \<and> cl_conflict_eligible a \<and> cl_conflict_eligible b
     \<and> cl_id a < cl_id b \<and> sql_incompatible (e_sql_eq en) a b"

definition tracked :: "ledger \<Rightarrow> ustr \<Rightarrow> claim \<Rightarrow> claim \<Rightarrow> bool" where
  "tracked s key a b \<longleftrightarrow> (\<exists>f\<in>set (l_conflicts s). v2_row key f
     \<and> (judged s (cf_id f) (cl_id a, cl_id b)
        \<or> (cf_state f = ''open'' \<and> member s (cf_id f) (cl_id a) \<and> member s (cf_id f) (cl_id b)
           \<and> cl_state a = Disputed \<and> cl_state b = Disputed)))"

definition pairs_tracked :: "env \<Rightarrow> ledger \<Rightarrow> bool" where
  "pairs_tracked en s \<longleftrightarrow> (\<forall>a\<in>set (l_claims s). \<forall>b\<in>set (l_claims s). \<forall>key.
     rival en key a b \<longrightarrow> tracked s key a b)"

definition ledger_ok :: "env \<Rightarrow> ledger \<Rightarrow> bool" where
  "ledger_ok en s \<longleftrightarrow> tables_ok s \<and> disputes_held s \<and> pairs_tracked en s"

text \<open>The invariant reads four tables; a mutation's audit writes leave them alone.\<close>

definition same_core :: "ledger \<Rightarrow> ledger \<Rightarrow> bool" where
  "same_core s t \<longleftrightarrow> l_claims t = l_claims s \<and> l_conflicts t = l_conflicts s
     \<and> l_members t = l_members s \<and> l_log t = l_log s"

lemmas ledger_ok_defs = ledger_ok_def tables_ok_def disputes_held_def pairs_tracked_def

lemma ledger_ok_core:
  assumes "ledger_ok en s" and "same_core s t"
  shows "ledger_ok en t"
proof -
  have eqs: "l_claims t = l_claims s" "l_conflicts t = l_conflicts s" "l_members t = l_members s"
      "l_log t = l_log s"
    using assms(2) by (simp_all add: same_core_def)
  show ?thesis
    using assms(1) unfolding ledger_ok_defs tracked_def judged_def member_def eqs .
qed

lemma ledger_ok_empty: "ledger_ok en (empty_ledger model)"
  by (simp add: ledger_ok_defs empty_ledger_def member_def claim_rows_ok_def conflict_rows_ok_def)

subsection \<open>Consequences of well-formed tables\<close>

lemma tables_okD:
  assumes "tables_ok s"
  shows "distinct (map cl_id (l_claims s))" and "distinct (map cf_id (l_conflicts s))"
    and "c \<in> set (l_claims s) \<Longrightarrow> claim_checks c"
    and "f \<in> set (l_conflicts s) \<Longrightarrow> 0 < cf_id f \<and> 0 < cf_revision f
      \<and> cf_state f \<in> {''open'', ''resolved'', ''dismissed''}"
    and "f \<in> set (l_conflicts s) \<Longrightarrow> g \<in> set (l_conflicts s) \<Longrightarrow> cf_claim_key f = cf_claim_key g \<Longrightarrow>
      cf_detector f = cf_detector g \<Longrightarrow> cf_id f = cf_id g"
    and "member s k i \<Longrightarrow> \<exists>f\<in>set (l_conflicts s). cf_id f = k
      \<and> (\<exists>c\<in>set (l_claims s). cl_id c = i \<and> cl_claim_key c = Some (cf_claim_key f))"
  using assms unfolding tables_ok_def claim_rows_ok_def conflict_rows_ok_def by blast+

lemma claim_unique:
  "tables_ok s \<Longrightarrow> c \<in> set (l_claims s) \<Longrightarrow> d \<in> set (l_claims s) \<Longrightarrow> cl_id c = cl_id d \<Longrightarrow> c = d"
  using tables_okD(1) [of s] by (auto simp: distinct_map dest: inj_onD)

lemma conflict_unique:
  "tables_ok s \<Longrightarrow> f \<in> set (l_conflicts s) \<Longrightarrow> g \<in> set (l_conflicts s) \<Longrightarrow> cf_id f = cf_id g \<Longrightarrow> f = g"
  using tables_okD(2) [of s] by (auto simp: distinct_map dest: inj_onD)

lemma v2_unique:
  assumes "tables_ok s" "f \<in> set (l_conflicts s)" "g \<in> set (l_conflicts s)" "v2_row key f" "v2_row key g"
  shows "f = g"
  using assms tables_okD(5) [OF assms(1-3)] conflict_unique [OF assms(1-3)] by (simp add: v2_row_def)

lemma member_key:
  assumes "tables_ok s" "member s (cf_id f) (cl_id c)" "f \<in> set (l_conflicts s)" "c \<in> set (l_claims s)"
  shows "cl_claim_key c = Some (cf_claim_key f)"
proof -
  obtain g d where "g \<in> set (l_conflicts s)" "cf_id g = cf_id f" "d \<in> set (l_claims s)"
      "cl_id d = cl_id c" "cl_claim_key d = Some (cf_claim_key g)"
    using tables_okD(6) [OF assms(1,2)] by blast
  then show ?thesis
    using assms conflict_unique [of s g f] claim_unique [of s d c] by simp
qed

subsection \<open>Content-preserving updates\<close>

definition keeps_content :: "(claim \<Rightarrow> claim) \<Rightarrow> bool" where
  "keeps_content g \<longleftrightarrow> (\<forall>c. claim_content (g c) = claim_content c \<and> cl_revision c \<le> cl_revision (g c))"

lemma keeps_content_fields:
  assumes "keeps_content g"
  shows "cl_id (g c) = cl_id c" "cl_claim_key (g c) = cl_claim_key c"
    "cl_conflict_eligible (g c) = cl_conflict_eligible c" "cl_revision c \<le> cl_revision (g c)"
    "sql_incompatible eq (g c) d = sql_incompatible eq c d"
    "sql_incompatible eq d (g c) = sql_incompatible eq d c"
  using assms claim_content_fields [of "g c" c] unfolding keeps_content_def
  by (simp_all add: sql_incompatible_def)

lemma keeps_content_checks: "keeps_content g \<Longrightarrow> claim_checks c \<Longrightarrow> claim_checks (g c)"
proof -
  assume g: "keeps_content g" and c: "claim_checks c"
  then have "0 < cl_revision (g c)"
    using keeps_content_fields(4) [OF g, of c] by (simp add: claim_checks_def)
  with g c claim_content_fields [of "g c" c] show ?thesis
    by (simp add: keeps_content_def claim_checks_def)
qed

lemma rival_content:
  assumes "keeps_content g" and "rival en key (g a) (g b)"
    and "is_current (cl_state (g a)) \<Longrightarrow> is_current (cl_state a)"
    and "is_current (cl_state (g b)) \<Longrightarrow> is_current (cl_state b)"
  shows "rival en key a b"
  using assms unfolding rival_def on_key_def by (simp add: keeps_content_fields)

lemma tables_ok_map:
  assumes ok: "tables_ok s" and g: "keeps_content g"
    and t: "l_claims t = map g (l_claims s)" "l_conflicts t = l_conflicts s" "l_members t = l_members s"
  shows "tables_ok t"
  unfolding tables_ok_def
proof (intro conjI)
  show "claim_rows_ok (l_claims t)"
    using tables_okD(1,3) [OF ok] keeps_content_checks [OF g]
    by (auto simp: claim_rows_ok_def t keeps_content_fields [OF g] comp_def)
  show "conflict_rows_ok (l_conflicts t)"
    using ok by (simp add: tables_ok_def t)
  show "\<forall>k i. member t k i \<longrightarrow> (\<exists>f\<in>set (l_conflicts t). cf_id f = k
      \<and> (\<exists>c\<in>set (l_claims t). cl_id c = i \<and> cl_claim_key c = Some (cf_claim_key f)))"
  proof (intro allI impI)
    fix k i assume "member t k i"
    then have "member s k i" by (simp add: member_def t)
    from tables_okD(6) [OF ok this] obtain f c where "f \<in> set (l_conflicts s)" "cf_id f = k" "c \<in> set (l_claims s)" "cl_id c = i"
        "cl_claim_key c = Some (cf_claim_key f)"
      by blast
    then show "\<exists>f\<in>set (l_conflicts t). cf_id f = k
        \<and> (\<exists>c\<in>set (l_claims t). cl_id c = i \<and> cl_claim_key c = Some (cf_claim_key f))"
      by (intro bexI [of _ f] conjI bexI [of _ "g c"]) (simp_all add: t keeps_content_fields [OF g])
  qed
qed

text \<open>Retiring: whatever changes leaves the current states.\<close>

lemma retire_ok:
  assumes ok: "ledger_ok en s" and g: "keeps_content g"
    and out: "\<And>c. g c \<noteq> c \<Longrightarrow> \<not> is_current (cl_state (g c))"
    and t: "l_claims t = map g (l_claims s)" "l_conflicts t = l_conflicts s" "l_members t = l_members s"
      "l_log t = l_log s"
  shows "ledger_ok en t"
proof -
  have cur: "g c = c" if "is_current (cl_state (g c))" for c using out that by blast
  have "disputes_held t"
    unfolding disputes_held_def
  proof (intro ballI impI)
    fix c assume "c \<in> set (l_claims t)" and d: "cl_state c = Disputed"
    then obtain c0 where "c0 \<in> set (l_claims s)" "c = g c0" unfolding t by auto
    moreover from this d have "c = c0" using cur [of c0] by simp
    ultimately have "c \<in> set (l_claims s)" by simp
    then show "\<exists>f\<in>set (l_conflicts t). cf_state f = ''open'' \<and> member t (cf_id f) (cl_id c)"
      using ok d unfolding ledger_ok_def disputes_held_def member_def t by simp
  qed
  moreover have "pairs_tracked en t"
    unfolding pairs_tracked_def
  proof (intro ballI allI impI)
    fix a b key assume "a \<in> set (l_claims t)" "b \<in> set (l_claims t)" and r: "rival en key a b"
    then obtain a0 b0 where ab: "a0 \<in> set (l_claims s)" "b0 \<in> set (l_claims s)" "a = g a0" "b = g b0"
      unfolding t by auto
    then have "a = a0" "b = b0" using r cur unfolding rival_def on_key_def by auto
    then have "tracked s key a b" using ok r ab unfolding ledger_ok_def pairs_tracked_def by blast
    then show "tracked t key a b" by (simp add: tracked_def judged_def member_def t)
  qed
  moreover have "tables_ok t"
    using ok g t tables_ok_map unfolding ledger_ok_def by blast
  ultimately show ?thesis by (simp add: ledger_ok_def)
qed

subsection \<open>Closing a conflict and restoring its members\<close>

definition activate :: "tx_input \<Rightarrow> claim \<Rightarrow> claim" where
  "activate ti c = c\<lparr>cl_state := Active, cl_revision := cl_revision c + 1, cl_updated_at := t_now ti\<rparr>"

definition restored :: "tx_input \<Rightarrow> int \<Rightarrow> ustr \<Rightarrow> int list \<Rightarrow> ledger \<Rightarrow> claim \<Rightarrow> claim" where
  "restored ti k key cands s c = (if restorable k key cands s c then activate ti c else c)"

lemma restored_content: "keeps_content (restored ti k key cands s)"
  by (simp add: keeps_content_def restored_def activate_def claim_content_def)

lemma restored_current: "is_current (cl_state (restored ti k key cands s c)) \<longleftrightarrow> is_current (cl_state c)"
  by (auto simp: restored_def restorable_def activate_def)

text \<open>A row update that keeps identity, key and detector and moves the revision on.\<close>

definition row_update :: "(conflict_row \<Rightarrow> conflict_row) \<Rightarrow> bool" where
  "row_update h \<longleftrightarrow> (\<forall>c. cf_id (h c) = cf_id c \<and> cf_claim_key (h c) = cf_claim_key c
     \<and> cf_detector (h c) = cf_detector c \<and> cf_revision c \<le> cf_revision (h c)
     \<and> (cf_state c \<in> {''open'', ''resolved'', ''dismissed''} \<longrightarrow>
          cf_state (h c) \<in> {''open'', ''resolved'', ''dismissed''}))"

lemma row_updateD:
  assumes "row_update h"
  shows "cf_id (h c) = cf_id c" "cf_claim_key (h c) = cf_claim_key c" "cf_detector (h c) = cf_detector c"
    "cf_revision c \<le> cf_revision (h c)" "v2_row key (h c) = v2_row key c"
  using assms by (simp_all add: row_update_def v2_row_def)

lemma conflict_rows_okD:
  assumes "conflict_rows_ok fs"
  shows "distinct (map cf_id fs)"
    and "f \<in> set fs \<Longrightarrow> 0 < cf_id f" and "f \<in> set fs \<Longrightarrow> 0 < cf_revision f"
    and "f \<in> set fs \<Longrightarrow> cf_state f \<in> {''open'', ''resolved'', ''dismissed''}"
    and "f \<in> set fs \<Longrightarrow> g \<in> set fs \<Longrightarrow> cf_claim_key f = cf_claim_key g \<Longrightarrow>
      cf_detector f = cf_detector g \<Longrightarrow> cf_id f = cf_id g"
  using assms unfolding conflict_rows_ok_def by blast+

lemma conflict_rows_map:
  assumes ok: "conflict_rows_ok fs" and h: "row_update h"
  shows "conflict_rows_ok (map h fs)"
  unfolding conflict_rows_ok_def
proof (intro conjI ballI impI)
  show "distinct (map cf_id (map h fs))"
    using conflict_rows_okD(1) [OF ok] by (simp add: row_updateD [OF h] comp_def)
  fix x assume "x \<in> set (map h fs)"
  then obtain f where f: "f \<in> set fs" "x = h f" by auto
  then have row: "0 < cf_id f" "0 < cf_revision f" "cf_state f \<in> {''open'', ''resolved'', ''dismissed''}"
    using conflict_rows_okD(2-4) [OF ok] by blast+
  show "0 < cf_id x" "0 < cf_revision x" "cf_state x \<in> {''open'', ''resolved'', ''dismissed''}"
    using row(1) less_le_trans [OF row(2) row_updateD(4) [OF h, of f]] row(3) h
    unfolding f row_updateD [OF h] by (simp, simp, unfold row_update_def) blast
  fix y assume "y \<in> set (map h fs)" and key: "cf_claim_key x = cf_claim_key y \<and> cf_detector x = cf_detector y"
  then obtain g where "g \<in> set fs" "y = h g" by auto
  then show "cf_id x = cf_id y"
    using conflict_rows_okD(5) [OF ok, of f g] f key by (simp add: row_updateD [OF h])
qed

lemma tables_ok_rows:
  assumes ok: "tables_ok s" and h: "row_update h"
    and t: "l_claims t = l_claims s" "l_conflicts t = map h (l_conflicts s)" "l_members t = l_members s"
  shows "tables_ok t"
  unfolding tables_ok_def
proof (intro conjI allI impI)
  show "claim_rows_ok (l_claims t)" "conflict_rows_ok (l_conflicts t)"
    using ok conflict_rows_map [OF _ h] by (simp_all add: tables_ok_def t)
  fix k i assume "member t k i"
  then have "member s k i" by (simp add: member_def t)
  from tables_okD(6) [OF ok this] obtain f c where "f \<in> set (l_conflicts s)" "cf_id f = k"
      "c \<in> set (l_claims s)" "cl_id c = i" "cl_claim_key c = Some (cf_claim_key f)"
    by blast
  then show "\<exists>f\<in>set (l_conflicts t). cf_id f = k
      \<and> (\<exists>c\<in>set (l_claims t). cl_id c = i \<and> cl_claim_key c = Some (cf_claim_key f))"
    by (intro bexI [of _ "h f"] conjI bexI [of _ c]) (simp_all add: t row_updateD [OF h])
qed

text \<open>
  The close: the key's open conflict \<open>f\<close> leaves the open state, its disputed members on the
  key return to active unless another open conflict holds them, and every incompatible pair
  still current on the key has been judged.
\<close>

definition closing :: "env \<Rightarrow> tx_input \<Rightarrow> ledger \<Rightarrow> ledger \<Rightarrow> ledger \<Rightarrow> conflict_row \<Rightarrow> ustr \<Rightarrow> int list
    \<Rightarrow> (conflict_row \<Rightarrow> conflict_row) \<Rightarrow> bool" where
  "closing en ti s u t f key cands h \<longleftrightarrow>
     ledger_ok en s \<and> f \<in> set (l_conflicts s) \<and> v2_row key f
     \<and> row_update h \<and> (\<forall>c. c \<noteq> f \<longrightarrow> h c = c)
     \<and> (l_claims u = l_claims s \<and> l_conflicts u = map h (l_conflicts s) \<and> l_members u = l_members s)
     \<and> (l_claims t = map (restored ti (cf_id f) key cands u) (l_claims s)
         \<and> l_conflicts t = map h (l_conflicts s) \<and> l_members t = l_members s \<and> set (l_log s) \<subseteq> set (l_log t))
     \<and> (\<forall>c\<in>set (l_claims s). cl_state c = Disputed \<and> on_key key c \<longrightarrow> cl_id c \<in> set cands)
     \<and> (\<forall>c\<in>set (l_claims s). cl_id c \<in> set cands \<longrightarrow> on_key key c)
     \<and> (\<forall>a\<in>set (l_claims s). \<forall>b\<in>set (l_claims s). rival en key a b \<longrightarrow>
          judged t (cf_id f) (cl_id a, cl_id b))"

lemma closingD:
  assumes "closing en ti s u t f key cands h"
  shows "ledger_ok en s" "tables_ok s" "f \<in> set (l_conflicts s)" "v2_row key f" "row_update h"
    "c \<noteq> f \<Longrightarrow> h c = c" "l_claims u = l_claims s" "l_conflicts u = map h (l_conflicts s)"
    "l_members u = l_members s" "l_claims t = map (restored ti (cf_id f) key cands u) (l_claims s)"
    "l_conflicts t = map h (l_conflicts s)" "l_members t = l_members s" "set (l_log s) \<subseteq> set (l_log t)"
    "d \<in> set (l_claims s) \<Longrightarrow> cl_state d = Disputed \<Longrightarrow> on_key key d \<Longrightarrow> cl_id d \<in> set cands"
    "d \<in> set (l_claims s) \<Longrightarrow> cl_id d \<in> set cands \<Longrightarrow> on_key key d"
    "a \<in> set (l_claims s) \<Longrightarrow> b \<in> set (l_claims s) \<Longrightarrow> rival en key a b \<Longrightarrow>
      judged t (cf_id f) (cl_id a, cl_id b)"
  using assms unfolding closing_def ledger_ok_def by blast+

lemma closing_tables:
  assumes "closing en ti s u t f key cands h"
  shows "tables_ok t"
proof -
  note D = closingD [OF assms]
  have "tables_ok u" by (rule tables_ok_rows [OF D(2,5,7,8,9)])
  then show ?thesis
    by (rule tables_ok_map [OF _ restored_content [of ti "cf_id f" key cands u]]) (simp_all add: D)
qed

lemma closing_row_kept:
  assumes "closing en ti s u t f key cands h" and "e \<in> set (l_conflicts s)" and "e \<noteq> f"
  shows "e \<in> set (l_conflicts t)"
  using closingD(6) [OF assms(1), of e] closingD(11) [OF assms(1)] assms(2,3) by (metis image_eqI list.set_map)

lemma closing_disputes:
  assumes cl: "closing en ti s u t f key cands h"
  shows "disputes_held t"
  unfolding disputes_held_def
proof (intro ballI impI)
  note D = closingD [OF cl]
  fix c' assume "c' \<in> set (l_claims t)" and dis: "cl_state c' = Disputed"
  then obtain c where c: "c \<in> set (l_claims s)" "c' = restored ti (cf_id f) key cands u c"
    unfolding D(10) by auto
  with dis have same: "c' = c" and unrest: "\<not> restorable (cf_id f) key cands u c"
    by (auto simp: restored_def activate_def split: if_splits)
  obtain e where e: "e \<in> set (l_conflicts s)" "cf_state e = ''open''" "member s (cf_id e) (cl_id c)"
    using D(1) c(1) dis same unfolding ledger_ok_def disputes_held_def by blast
  show "\<exists>f\<in>set (l_conflicts t). cf_state f = ''open'' \<and> member t (cf_id f) (cl_id c')"
  proof (cases "e = f")
    case False
    with closing_row_kept [OF cl e(1)] e same D(12) show ?thesis by (auto simp: member_def)
  next
    case True
    have "cl_claim_key c = Some key"
      using member_key [OF D(2) e(3,1) c(1)] True D(4) by (simp add: v2_row_def)
    then have "on_key key c" using dis same by (simp add: on_key_def)
    then have "cl_id c \<in> set cands" using D(14) [OF c(1)] dis same by simp
    then have "held_elsewhere (cf_id f) key u (cl_id c)"
      using unrest dis same e(3) True by (simp add: restorable_def member_def D)
    then obtain e' where "(cf_id e', cl_id c) \<in> set (l_members u)" "e' \<in> set (l_conflicts u)"
        "cf_state e' = ''open''"
      by (auto simp: held_elsewhere_def list_ex_iff)
    then show ?thesis using same by (auto simp: member_def D)
  qed
qed

lemma closing_pairs:
  assumes cl: "closing en ti s u t f key cands h"
  shows "pairs_tracked en t"
  unfolding pairs_tracked_def
proof (intro ballI allI impI)
  note D = closingD [OF cl]
  let ?g = "restored ti (cf_id f) key cands u"
  fix a' b' key' assume "a' \<in> set (l_claims t)" "b' \<in> set (l_claims t)" and r': "rival en key' a' b'"
  then obtain a b where ab: "a \<in> set (l_claims s)" "b \<in> set (l_claims s)" "a' = ?g a" "b' = ?g b"
    unfolding D(10) by auto
  have r: "rival en key' a b"
    by (rule rival_content [OF restored_content [of ti "cf_id f" key cands u]])
       (use r' ab in \<open>simp_all add: restored_current\<close>)
  have ids: "cl_id a' = cl_id a" "cl_id b' = cl_id b"
    unfolding ab by (simp_all only: keeps_content_fields [OF restored_content])
  show "tracked t key' a' b'"
  proof (cases "key' = key")
    case True
    then have "judged t (cf_id f) (cl_id a', cl_id b')" using D(16) [OF ab(1,2)] r ids by simp
    moreover have "h f \<in> set (l_conflicts t)" "v2_row key (h f)" "cf_id (h f) = cf_id f"
      using D(3,4) by (simp_all add: D(11) row_updateD [OF D(5)])
    ultimately show ?thesis unfolding tracked_def True by metis
  next
    case False
    obtain e where e: "e \<in> set (l_conflicts s)" "v2_row key' e"
      and alt: "judged s (cf_id e) (cl_id a, cl_id b) \<or> (cf_state e = ''open'' \<and> member s (cf_id e) (cl_id a)
        \<and> member s (cf_id e) (cl_id b) \<and> cl_state a = Disputed \<and> cl_state b = Disputed)"
      using D(1) ab r unfolding ledger_ok_def pairs_tracked_def tracked_def by blast
    have "e \<noteq> f" using False e(2) D(4) by (auto simp: v2_row_def)
    then have e': "e \<in> set (l_conflicts t)" using closing_row_kept [OF cl e(1)] by simp
    have "\<not> on_key key a" "\<not> on_key key b" using r False by (auto simp: rival_def on_key_def)
    then have "cl_id a \<notin> set cands" "cl_id b \<notin> set cands" using D(15) ab by blast+
    then have "a' = a" "b' = b" by (simp_all add: ab restored_def restorable_def)
    then show ?thesis
      using alt e(2) e' D(13) unfolding tracked_def judged_def member_def D(12) by blast
  qed
qed

lemma closing_ok: "closing en ti s u t f key cands h \<Longrightarrow> ledger_ok en t"
  using closing_tables closing_disputes closing_pairs by (simp add: ledger_ok_def)

subsection \<open>A new claim joining its key\<close>

definition sql_symmetric :: "env \<Rightarrow> bool" where
  "sql_symmetric en \<longleftrightarrow> (\<forall>x y. e_sql_eq en x y = e_sql_eq en y x)"

lemma sql_incompatible_sym:
  "sql_symmetric en \<Longrightarrow> sql_incompatible (e_sql_eq en) a b \<longleftrightarrow> sql_incompatible (e_sql_eq en) b a"
  by (auto simp: sql_incompatible_def sql_symmetric_def sql_not_distinct_def split: option.splits)

definition fresh_claim :: "ledger \<Rightarrow> claim \<Rightarrow> bool" where
  "fresh_claim s c \<longleftrightarrow> (\<forall>x\<in>set (l_claims s). cl_id x \<noteq> cl_id c) \<and> claim_checks c \<and> cl_state c = Active"

lemma new_claim_ok:
  assumes ok: "ledger_ok en s" and c: "fresh_claim s c"
    and alone: "\<And>x key. x \<in> set (l_claims s) \<Longrightarrow> \<not> rival en key x c \<and> \<not> rival en key c x"
    and t: "l_claims t = l_claims s @ [c]" "l_conflicts t = l_conflicts s" "l_members t = l_members s"
      "l_log t = l_log s"
  shows "ledger_ok en t"
proof -
  have tab: "tables_ok s" using ok by (simp add: ledger_ok_def)
  have "claim_rows_ok (l_claims t)"
    using tables_okD(1,3) [OF tab] c by (auto simp: claim_rows_ok_def t fresh_claim_def)
  moreover have "\<exists>f\<in>set (l_conflicts t). cf_id f = k
      \<and> (\<exists>d\<in>set (l_claims t). cl_id d = i \<and> cl_claim_key d = Some (cf_claim_key f))" if "member t k i" for k i
    using tables_okD(6) [OF tab, of k i] that by (fastforce simp: t member_def)
  moreover have "conflict_rows_ok (l_conflicts t)" using tab by (simp add: tables_ok_def t)
  ultimately have "tables_ok t" by (simp add: tables_ok_def)
  moreover have "disputes_held t"
    using ok c unfolding ledger_ok_def disputes_held_def t member_def fresh_claim_def by auto
  moreover have "pairs_tracked en t"
    unfolding pairs_tracked_def
  proof (intro ballI allI impI)
    fix a b key assume "a \<in> set (l_claims t)" "b \<in> set (l_claims t)" and r: "rival en key a b"
    then have "a \<in> set (l_claims s)" "b \<in> set (l_claims s)"
      using alone r by (auto simp: t rival_def)
    then have "tracked s key a b" using ok r unfolding ledger_ok_def pairs_tracked_def by blast
    then show "tracked t key a b" by (simp add: tracked_def judged_def member_def t)
  qed
  ultimately show ?thesis by (simp add: ledger_ok_def)
qed

definition disputed_by :: "tx_input \<Rightarrow> int set \<Rightarrow> claim \<Rightarrow> claim" where
  "disputed_by ti ids x = (if cl_id x \<in> ids \<and> cl_state x = Active
     then x\<lparr>cl_state := Disputed, cl_revision := cl_revision x + 1, cl_updated_at := t_now ti\<rparr> else x)"

lemma disputed_content: "keeps_content (disputed_by ti ids)"
  by (simp add: keeps_content_def disputed_by_def claim_content_def)

lemma disputed_state:
  "cl_state (disputed_by ti ids x) = (if cl_id x \<in> ids \<and> cl_state x = Active then Disputed else cl_state x)"
  "is_current (cl_state (disputed_by ti ids x)) \<longleftrightarrow> is_current (cl_state x)"
  by (auto simp: disputed_by_def)

lemmas disputed_fields = keeps_content_fields [OF disputed_content]

text \<open>Every row of \<open>s\<close> survives in \<open>t\<close>, and an open one is still open.\<close>

definition rows_carried :: "ledger \<Rightarrow> ledger \<Rightarrow> bool" where
  "rows_carried s t \<longleftrightarrow> (\<forall>f\<in>set (l_conflicts s). \<exists>f'\<in>set (l_conflicts t). cf_id f' = cf_id f
     \<and> cf_claim_key f' = cf_claim_key f \<and> cf_detector f' = cf_detector f
     \<and> (cf_state f = ''open'' \<longrightarrow> cf_state f' = ''open''))"

definition joining :: "env \<Rightarrow> tx_input \<Rightarrow> ledger \<Rightarrow> ledger \<Rightarrow> claim \<Rightarrow> ustr \<Rightarrow> int \<Rightarrow> int set \<Rightarrow> bool" where
  "joining en ti s t c key k ids \<longleftrightarrow>
     ledger_ok en s \<and> fresh_claim s c \<and> on_key key c
     \<and> (l_claims t = map (disputed_by ti ids) (l_claims s @ [c]) \<and> l_log t = l_log s
         \<and> set (l_members t) = set (l_members s) \<union> {k} \<times> ids)
     \<and> (conflict_rows_ok (l_conflicts t) \<and> rows_carried s t
         \<and> (\<exists>f\<in>set (l_conflicts t). v2_row key f \<and> cf_id f = k \<and> cf_state f = ''open''))
     \<and> cl_id c \<in> ids
     \<and> (\<forall>i\<in>ids. \<exists>x\<in>set (l_claims s @ [c]). cl_id x = i \<and> on_key key x)
     \<and> (\<forall>x\<in>set (l_claims s). on_key key x \<and> cl_conflict_eligible x \<and> sql_incompatible (e_sql_eq en) x c
          \<longrightarrow> cl_id x \<in> ids)"

lemma joiningD:
  assumes "joining en ti s t c key k ids"
  shows "ledger_ok en s" "tables_ok s" "fresh_claim s c" "on_key key c"
    "l_claims t = map (disputed_by ti ids) (l_claims s @ [c])" "l_log t = l_log s"
    "member t k' i \<longleftrightarrow> member s k' i \<or> (k' = k \<and> i \<in> ids)"
    "conflict_rows_ok (l_conflicts t)" "rows_carried s t"
    "\<exists>f\<in>set (l_conflicts t). v2_row key f \<and> cf_id f = k \<and> cf_state f = ''open''"
    "cl_id c \<in> ids" "i \<in> ids \<Longrightarrow> \<exists>x\<in>set (l_claims s @ [c]). cl_id x = i \<and> on_key key x"
    "x \<in> set (l_claims s) \<Longrightarrow> on_key key x \<Longrightarrow> cl_conflict_eligible x \<Longrightarrow>
      sql_incompatible (e_sql_eq en) x c \<Longrightarrow> cl_id x \<in> ids"
  using assms unfolding joining_def ledger_ok_def member_def by blast+

lemma joining_tables:
  assumes j: "joining en ti s t c key k ids"
  shows "tables_ok t"
  unfolding tables_ok_def
proof (intro conjI allI impI)
  note D = joiningD [OF j]
  let ?g = "disputed_by ti ids"
  show "claim_rows_ok (l_claims t)"
    using tables_okD(1,3) [OF D(2)] D(3) keeps_content_checks [OF disputed_content]
    by (auto simp: claim_rows_ok_def D(5) fresh_claim_def disputed_fields comp_def)
  show "conflict_rows_ok (l_conflicts t)" by (rule D(8))
  fix k' i assume "member t k' i"
  then consider "member s k' i" | "k' = k" "i \<in> ids" using D(7) by blast
  then show "\<exists>f\<in>set (l_conflicts t). cf_id f = k'
      \<and> (\<exists>d\<in>set (l_claims t). cl_id d = i \<and> cl_claim_key d = Some (cf_claim_key f))"
  proof cases
    case 1
    then obtain f x where "f \<in> set (l_conflicts s)" "cf_id f = k'" "x \<in> set (l_claims s)" "cl_id x = i"
        "cl_claim_key x = Some (cf_claim_key f)"
      using tables_okD(6) [OF D(2)] by blast
    moreover then obtain f' where "f' \<in> set (l_conflicts t)" "cf_id f' = cf_id f" "cf_claim_key f' = cf_claim_key f"
      using D(9) unfolding rows_carried_def by blast
    ultimately show ?thesis
      by (intro bexI [of _ f'] conjI bexI [of _ "?g x"]) (simp_all add: D(5) disputed_fields)
  next
    case 2
    then obtain f x where "f \<in> set (l_conflicts t)" "v2_row key f" "cf_id f = k'"
        "x \<in> set (l_claims s @ [c])" "cl_id x = i" "on_key key x"
      using D(10,12) by blast
    then show ?thesis
      by (intro bexI [of _ f] conjI bexI [of _ "?g x"])
         (auto simp: D(5) disputed_fields v2_row_def on_key_def)
  qed
qed

lemma joining_disputes:
  assumes j: "joining en ti s t c key k ids"
  shows "disputes_held t"
  unfolding disputes_held_def
proof (intro ballI impI)
  note D = joiningD [OF j]
  fix x' assume "x' \<in> set (l_claims t)" and dis: "cl_state x' = Disputed"
  then obtain x where x: "x \<in> set (l_claims s @ [c])" "x' = disputed_by ti ids x" unfolding D(5) by auto
  show "\<exists>f\<in>set (l_conflicts t). cf_state f = ''open'' \<and> member t (cf_id f) (cl_id x')"
  proof (cases "cl_id x \<in> ids")
    case True
    with D(7,10) x show ?thesis by (auto simp: disputed_fields)
  next
    case False
    then have "x \<in> set (l_claims s)" "cl_state x = Disputed"
      using dis x D(11) by (auto simp: disputed_state)
    then obtain f where "f \<in> set (l_conflicts s)" "cf_state f = ''open''" "member s (cf_id f) (cl_id x)"
      using D(1) unfolding ledger_ok_def disputes_held_def by blast
    then show ?thesis
      using D(7,9) x unfolding rows_carried_def by (metis disputed_fields(1))
  qed
qed

lemma joining_pairs:
  assumes j: "joining en ti s t c key k ids" and sym: "sql_symmetric en"
  shows "pairs_tracked en t"
  unfolding pairs_tracked_def
proof (intro ballI allI impI)
  note D = joiningD [OF j]
  let ?g = "disputed_by ti ids"
  fix a' b' key' assume "a' \<in> set (l_claims t)" "b' \<in> set (l_claims t)" and r': "rival en key' a' b'"
  then obtain a b where ab: "a \<in> set (l_claims s @ [c])" "b \<in> set (l_claims s @ [c])" "a' = ?g a" "b' = ?g b"
    unfolding D(5) by auto
  have r: "rival en key' a b"
    by (rule rival_content [OF disputed_content [of ti ids]]) (use r' ab in \<open>simp_all add: disputed_state(2)\<close>)
  show "tracked t key' a' b'"
  proof (cases "a = c \<or> b = c")
    case True
    then have key: "key' = key" using r D(4) by (auto simp: rival_def on_key_def)
    have "cl_id x \<in> ids" if "x \<in> set (l_claims s @ [c])" "rival en key x c \<or> rival en key c x" for x
      using that D(11) D(13) [of x] sql_incompatible_sym [OF sym, of x c] by (auto simp: rival_def)
    then have ids: "cl_id a \<in> ids" "cl_id b \<in> ids" using True r ab D(11) unfolding key by auto
    moreover have "cl_state a' = Disputed" "cl_state b' = Disputed"
      using r ids by (auto simp: ab disputed_state rival_def on_key_def is_current_iff)
    ultimately show ?thesis
      using D(7,10) unfolding tracked_def key by (auto simp: ab disputed_fields)
  next
    case False
    then have in_s: "a \<in> set (l_claims s)" "b \<in> set (l_claims s)" using ab by auto
    then obtain f where f: "f \<in> set (l_conflicts s)" "v2_row key' f"
      and alt: "judged s (cf_id f) (cl_id a, cl_id b) \<or> (cf_state f = ''open'' \<and> member s (cf_id f) (cl_id a)
        \<and> member s (cf_id f) (cl_id b) \<and> cl_state a = Disputed \<and> cl_state b = Disputed)"
      using D(1) r unfolding ledger_ok_def pairs_tracked_def tracked_def by blast
    obtain f' where "f' \<in> set (l_conflicts t)" "cf_id f' = cf_id f" "v2_row key' f'"
        "cf_state f = ''open'' \<longrightarrow> cf_state f' = ''open''"
      using D(9) f unfolding rows_carried_def v2_row_def by metis
    then show ?thesis
      using alt D(7) unfolding tracked_def judged_def D(6)
      by (intro bexI [of _ f']) (auto simp: ab disputed_fields disputed_state)
  qed
qed

lemma joining_ok:
  "joining en ti s t c key k ids \<Longrightarrow> sql_symmetric en \<Longrightarrow> ledger_ok en t"
  using joining_tables joining_disputes joining_pairs by (simp add: ledger_ok_def)

end
