(* ===== verification/Ledger_Reads.thy ===== *)
theory Ledger_Reads
  imports Ledger_Invariant
begin

section \<open>What the locked reads mean\<close>

text \<open>
  The bounded reads of a key are complete when they return: the locked claims are all the
  current claims of the key, the pair query lists every incompatible pair, the lineage lock
  finds the key's v2 conflict, and the pairs excluded from a re-evaluation were judged by a
  logged dismissal.
\<close>

subsection \<open>Audit writes\<close>

interpretation core: tx_preorder same_core
  by unfold_locales (simp_all add: same_core_def)

lemma core_audit:
  "respecting same_core (insert_claim_event ce)"
  "respecting same_core (insert_memory_event me)"
  "respecting same_core (insert_corpus_support ti k c)"
  "respecting same_core (insert_embedding k model passage)"
  "respecting same_core (upsert_chunk ch)"
  "respecting same_core (reserve_receipt sc key request op)"
  "respecting same_core (finish_receipt en sc key request op upd)"
  by (auto simp: respecting_def primitive_defs Let_def tx_simps same_core_def split: if_splits prod.splits)

lemma core_supports: "respecting same_core (insert_corpus_supports ti k xs)"
  by (induction xs) (auto intro!: core.respects_rules core_audit split: support_input.splits)

lemma core_events:
  "respecting same_core (insert_transition_event sc k reason st st2 payload)"
  "respecting same_core (insert_claim_recorded_event sc k ko payload)"
  "respecting same_core (insert_keyed_claim_event sc kind k key payload)"
  "respecting same_core (insert_keyed_conflict_event sc kind k key payload)"
  "respecting same_core (finish_claim_receipt en sc key request op m)"
  "respecting same_core (finish_conflict_receipt en sc key request op m')"
  by (simp_all only: insert_transition_event_def insert_claim_recorded_event_def
      insert_keyed_claim_event_def insert_keyed_conflict_event_def finish_claim_receipt_def
      finish_conflict_receipt_def core_audit)

lemma core_insert_support: "respecting same_core (insert_support ti k i)"
  unfolding insert_support_def item_support_unavailable_def
  by (intro core.respects_rules core_supports)

lemma core_replay: "respecting same_core (replay_or_reserve d sc key request op)"
  unfolding replay_or_reserve_def by (intro core.respects_rules core_audit)

lemma core_same: "respecting same_core m \<Longrightarrow> m s = Inr (x, t) \<Longrightarrow> same_core s t"
  by (simp add: respecting_def)

lemma respecting_ok:
  "respecting same_core m \<Longrightarrow> ledger_ok en s \<Longrightarrow> m s = Inr (x, t) \<Longrightarrow> ledger_ok en t"
  by (rule ledger_ok_core [OF _ core_same])

subsection \<open>Bounded reads\<close>

lemma take_complete: "length (take (Suc n) xs) \<le> n \<Longrightarrow> take (Suc n) xs = xs"
  by (simp add: min_def split: if_splits)

lemma by_state_and_id [simp]:
  "set (by_state_and_id cs) = set cs" "length (by_state_and_id cs) = length cs"
  using sum_length_filter_compl [of "\<lambda>c. cl_state c = Active" cs] by (auto simp: by_state_and_id_def)

lemma bounded_current_complete:
  assumes "length (filter (on_key key) (l_claims s)) \<le> MAX_CURRENT_CLAIMS_PER_KEY_COMPARISON"
  shows "bounded_current key s = sort_key cl_id (by_state_and_id (filter (on_key key) (l_claims s)))"
    and "set (bounded_current key s) = {c \<in> set (l_claims s). on_key key c}"
  using assms by (auto simp: bounded_current_def)

lemma lock_current_claims_complete:
  assumes "lock_current_claims key s = Inr (cur, t)"
  shows "t = s" and "cur = map decode_locked_claim (bounded_current key s)"
    and "length (filter (on_key key) (l_claims s)) \<le> MAX_CURRENT_CLAIMS_PER_KEY_COMPARISON"
    and "sorted_wrt (<) (map lk_id cur)"
    and "set cur = decode_locked_claim ` {c \<in> set (l_claims s). on_key key c}"
proof -
  show eqs: "t = s" "cur = map decode_locked_claim (bounded_current key s)"
    using assms by (auto simp: lock_current_claims_def Let_def tx_simps split: if_splits)
  have "length (bounded_current key s) \<le> MAX_CURRENT_CLAIMS_PER_KEY_COMPARISON"
    using assms by (auto simp: lock_current_claims_def Let_def tx_simps split: if_splits)
  then show n: "length (filter (on_key key) (l_claims s)) \<le> MAX_CURRENT_CLAIMS_PER_KEY_COMPARISON"
    by (simp add: bounded_current_def)
  show "sorted_wrt (<) (map lk_id cur)"
    using assms by (auto simp: lock_current_claims_def Let_def tx_simps split: if_splits)
  show "set cur = decode_locked_claim ` {c \<in> set (l_claims s). on_key key c}"
    using bounded_current_complete(2) [OF n] eqs by simp
qed

lemma lk_decode [simp]:
  "lk_id (decode_locked_claim c) = cl_id c" "lk_state (decode_locked_claim c) = cl_state c"
  "lk_actor (decode_locked_claim c) = cl_actor c" "lk_origin (decode_locked_claim c) = cl_origin c"
  "lk_revision (decode_locked_claim c) = cl_revision c"
  by (simp_all add: decode_locked_claim_def)

lemma key_pairs_complete:
  assumes "length (filter (on_key key) (l_claims s)) \<le> MAX_CURRENT_CLAIMS_PER_KEY_COMPARISON"
    and "key_incompatible_pairs en key s = Inr (pairs, t)"
  shows "t = s" and "set pairs = {(cl_id a, cl_id b) |a b. a \<in> set (l_claims s) \<and> b \<in> set (l_claims s) \<and> rival en key a b}"
proof -
  let ?cs = "filter cl_conflict_eligible (bounded_current key s)"
  let ?all = "concat (map (\<lambda>a. map (\<lambda>b. (cl_id a, cl_id b))
     (filter (\<lambda>b. cl_id a < cl_id b \<and> sql_incompatible (e_sql_eq en) a b) ?cs)) ?cs)"
  from assms(2) have p: "pairs = take (Suc MAX_KEY_INCOMPATIBLE_PAIRS) (sort ?all)"
      "length pairs \<le> MAX_KEY_INCOMPATIBLE_PAIRS" and "t = s"
    by (auto simp: key_incompatible_pairs_def key_pairs_def Let_def tx_simps split: if_splits)
  then have "set pairs = set ?all" using take_complete [of MAX_KEY_INCOMPATIBLE_PAIRS "sort ?all"] by simp
  also have "\<dots> = {(cl_id a, cl_id b) |a b. a \<in> set (l_claims s) \<and> b \<in> set (l_claims s) \<and> rival en key a b}"
  proof -
    have "set ?cs = {c \<in> set (l_claims s). on_key key c \<and> cl_conflict_eligible c}"
      using bounded_current_complete(2) [OF assms(1)] by auto
    then have "x \<in> set ?all \<longleftrightarrow> (\<exists>a b. x = (cl_id a, cl_id b) \<and> a \<in> set (l_claims s)
        \<and> b \<in> set (l_claims s) \<and> rival en key a b)" for x
      by (cases x) (fastforce simp: rival_def)
    then show ?thesis by blast
  qed
  finally show "set pairs = {(cl_id a, cl_id b) |a b. a \<in> set (l_claims s) \<and> b \<in> set (l_claims s) \<and> rival en key a b}" .
  show "t = s" by fact
qed

subsection \<open>Lineages\<close>

lemma classify_rows_v2:
  "classify_rows rows v2 legacy = Inr (Some lin, l) \<Longrightarrow>
   v2 = Some lin \<or> (\<exists>st. (lin_id lin, 2, st, lin_revision lin) \<in> set rows
     \<and> parse_conflict_row_state st = Inr (lin_state lin))"
proof (induction rows v2 legacy rule: classify_rows.induct)
  case (2 i c st r rows v2 legacy)
  consider "c = 2" | "c = 1" | "c \<noteq> 2" "c \<noteq> 1" by blast
  then show ?case
  proof cases
    case 1
    then obtain rs where rs: "parse_conflict_row_state st = Inr rs" "v2 = None"
        "classify_rows rows (Some \<lparr>lin_id = i, lin_state = rs, lin_revision = r\<rparr>) legacy = Inr (Some lin, l)"
      using "2.prems" by (auto simp: res_simps split: if_splits)
    moreover have "\<not> (i \<le> 0 \<or> r \<le> 0)" using "2.prems" by (auto split: if_splits)
    ultimately have "\<lparr>lin_id = i, lin_state = rs, lin_revision = r\<rparr> = lin
        \<or> (\<exists>st. (lin_id lin, 2, st, lin_revision lin) \<in> set rows \<and> parse_conflict_row_state st = Inr (lin_state lin))"
      using "2.IH"(1) 1 by simp
    then show ?thesis using rs(1) 1 by fastforce
  next
    case 2
    then show ?thesis using "2.prems" "2.IH"(2) by (auto split: if_splits)
  next
    case 3
    then show ?thesis using "2.prems" by (auto split: if_splits)
  qed
qed simp

lemma parse_conflict_row_state_Open: "parse_conflict_row_state st = Inr Open \<longleftrightarrow> st = ''open''"
  by (auto simp: parse_conflict_row_state_def)

lemma lock_lineages_open:
  assumes "lock_lineages key s = Inr (Some lin, t)" and "lin_state lin = Open"
  shows "\<exists>f\<in>set (l_conflicts s). v2_row key f \<and> cf_state f = ''open'' \<and> cf_id f = lin_id lin
    \<and> cf_revision f = lin_revision lin"
proof -
  let ?rows = "map (\<lambda>c. (cf_id c, detector_class (cf_detector c), cf_state c, cf_revision c)) (lineage_rows key s)"
  have "classify_lineages ?rows = Inr (Some lin)"
    using assms(1) by (simp add: lock_lineages_def tx_simps)
  then obtain l where "classify_rows ?rows None False = Inr (Some lin, l)"
    by (auto simp: classify_lineages_def res_simps split: if_splits)
  from classify_rows_v2 [OF this] assms(2)
  obtain f where f: "f \<in> set (lineage_rows key s)" "cf_id f = lin_id lin" "detector_class (cf_detector f) = 2"
      "cf_revision f = lin_revision lin" "cf_state f = ''open''"
    by (auto simp: parse_conflict_row_state_Open)
  from f(1) have "f \<in> set (l_conflicts s)" "cf_claim_key f = key"
    by (auto simp: lineage_rows_def dest!: in_set_takeD)
  moreover have "cf_detector f = FUNCTIONAL_VALUE_CONFLICT_DETECTOR_V2"
    using f(3) by (simp add: detector_class_def split: if_splits)
  ultimately show ?thesis using f by (auto simp: v2_row_def)
qed

subsection \<open>Dismissed pairs\<close>

lemma dismissed_pairs_member:
  "dismissed_pairs vs = Inr ps \<Longrightarrow> p \<in> ps \<Longrightarrow> \<exists>v\<in>set vs. \<exists>qs. dismissed_pairs [v] = Inr qs \<and> p \<in> qs"
proof (induction vs arbitrary: ps)
  case (Cons v vs)
  then obtain qs rest where "dismissed_pairs [v] = Inr qs" "dismissed_pairs vs = Inr rest" "ps = qs \<union> rest"
    by (auto simp: res_simps split: if_splits)
  with Cons show ?case by auto
qed simp

lemma excluded_judged:
  assumes "excluded_dismissed_pairs k s = Inr (ps, t)"
  shows "t = s" and "\<forall>p\<in>ps. judged s k p"
proof -
  from assms have ps: "dismissed_pairs (dismissal_payloads k s) = Inr ps" and "t = s"
    by (auto simp: excluded_dismissed_pairs_def tx_simps)
  show "t = s" by fact
  show "\<forall>p\<in>ps. judged s k p"
  proof
    fix p assume "p \<in> ps"
    from dismissed_pairs_member [OF ps this] obtain v qs where
      v: "v \<in> set (dismissal_payloads k s)" "dismissed_pairs [v] = Inr qs" "p \<in> qs" by blast
    have nz: "v \<noteq> JNull" using v(2) by auto
    from v(1) obtain r where r: "r \<in> set (l_log s)" "lg_conflict_id r = k" "ev_kind (lg_event r) = ''dismissed''"
      "v = (case ev_payload (lg_event r) of None \<Rightarrow> JNull
          | Some p \<Rightarrow> (case json_get p ''dismissed_pairs'' of None \<Rightarrow> JNull | Some v \<Rightarrow> v))"
      by (auto simp: dismissal_payloads_def conflict_log_def dest!: in_set_takeD)
    then have "p \<in> event_pairs (lg_event r)"
      using nz v(2,3) by (auto simp: event_pairs_def split: option.splits)
    with r show "judged s k p" by (auto simp: judged_def)
  qed
qed

subsection \<open>A verified close\<close>

lemma normalized_pairs_id:
  "(\<And>p. p \<in> set ps \<Longrightarrow> fst p < snd p) \<Longrightarrow> set (normalized_pairs ps) = set ps"
  by (force simp: normalized_pairs_def)

lemma plan_close:
  assumes "plan_reevaluation fmt (Some lin) cur sql ex = Close k rv cands n"
    and "\<And>p. p \<in> set sql \<Longrightarrow> fst p < snd p"
  shows "k = lin_id lin" "rv = lin_revision lin" "cands = disputed_ids cur" "set sql \<subseteq> ex"
    "lin_state lin = Open"
proof -
  let ?rust = "incompatible_pairs fmt cur"
  have a: "lin_state lin = Open" "?rust = normalized_pairs sql" "filter (\<lambda>p. p \<notin> ex) ?rust = []"
      "k = lin_id lin" "rv = lin_revision lin" "cands = disputed_ids cur"
    using assms(1) by (auto simp: plan_reevaluation_def Let_def split: if_splits)
  then show "k = lin_id lin" "rv = lin_revision lin" "cands = disputed_ids cur" "lin_state lin = Open"
    by simp_all
  have "set ?rust = set sql" using a(2) normalized_pairs_id [OF assms(2)] by simp
  then show "set sql \<subseteq> ex" using a(3) by (auto simp: filter_empty_conv)
qed

lemma disputed_ids_iff: "i \<in> set (disputed_ids cur) \<longleftrightarrow> (\<exists>c\<in>set cur. lk_id c = i \<and> lk_state c = Disputed)"
  by (auto simp: disputed_ids_def)

end
