(* ===== verification/Ledger_Safety.thy ===== *)
theory Ledger_Safety
  imports Ledger_Reads
begin

section \<open>The invariant through closes, retirements and detection\<close>

text \<open>
  The compound writes of the mutations keep the ledger invariant: a verified close, the
  re-evaluation of a key, the retirement of claims by their author, and the insertion of a
  claim followed by detection.
\<close>

subsection \<open>Log-only writes\<close>

definition log_only :: "ledger \<Rightarrow> ledger \<Rightarrow> bool" where
  "log_only s t \<longleftrightarrow> l_claims t = l_claims s \<and> l_conflicts t = l_conflicts s
     \<and> l_members t = l_members s \<and> set (l_log s) \<subseteq> set (l_log t)"

interpretation logged: tx_preorder log_only
  by unfold_locales (auto simp: log_only_def)

lemma same_core_log_only: "same_core s t \<Longrightarrow> log_only s t"
  by (simp add: same_core_def log_only_def)

lemma log_insert: "respecting log_only (insert_lifecycle_event en ti sc seq d)"
  by (auto simp: respecting_def insert_lifecycle_event_def Let_def tx_simps log_only_def split: if_splits)

lemma log_append:
  "respecting log_only (append_lifecycle_event en ti sc d)"
  "respecting log_only (append_close_event en ti sc d)"
  unfolding append_lifecycle_event_def append_close_event_def
  by (intro logged.respects_rules logged.respects_read [OF read_only_next_seq] log_insert)+

lemma judged_mono: "judged s k p \<Longrightarrow> log_only s t \<Longrightarrow> judged t k p"
  by (auto simp: judged_def log_only_def)

lemma ledger_ok_log:
  assumes ok: "ledger_ok en s" and l: "log_only s t"
  shows "ledger_ok en t"
proof -
  have eqs: "l_claims t = l_claims s" "l_conflicts t = l_conflicts s" "l_members t = l_members s"
    using l by (simp_all add: log_only_def)
  have "tracked t key a b" if "tracked s key a b" for key a b
    using that judged_mono [OF _ l] unfolding tracked_def member_def eqs by blast
  then show ?thesis
    using ok unfolding ledger_ok_defs member_def eqs by blast
qed

subsection \<open>Close and restore\<close>

definition closed_row :: "tx_input \<Rightarrow> string \<Rightarrow> string \<Rightarrow> string \<Rightarrow> conflict_row \<Rightarrow> conflict_row" where
  "closed_row ti state kind reason c = c\<lparr>cf_state := state, cf_resolved_at := Some (t_now ti),
     cf_resolution_kind := Some kind, cf_resolution_reason := Some reason, cf_revision := cf_revision c + 1\<rparr>"

lemma close_conflict_result:
  assumes "close_conflict ti k rv state kind reason s = Inr (n, t)"
  shows "t = update_conflicts (open_v2_at k rv) (closed_row ti state kind reason) s"
    and "n = rv + 1"
  using assms
  by (auto simp: close_conflict_def tx_simps closed_row_def [abs_def] find_Some_iff open_v2_at_def
      split: option.splits)

lemma get_put_core:
  assumes "tx_then (tx_get g) (\<lambda>r. tx_then (tx_put h) (\<lambda>_. rest r)) s = Inr (x, t)"
    and "\<And>r. respecting same_core (rest r)"
  shows "same_core (h s) t"
  using assms by (auto simp: tx_simps respecting_def)

lemma restore_result:
  assumes "restore_disputed_members ti sc k rv key reason cands ikey s = Inr (ids, t)"
  shows "same_core (restore_rows ti k key cands s) t"
proof (cases "cands = []")
  case True
  then have "t = s" using assms by (simp add: restore_disputed_members_def tx_simps)
  with True show ?thesis
    by (simp add: same_core_def restore_rows_def update_claims_def restorable_def)
next
  case False
  have run: "tx_then (tx_get (\<lambda>s. map cl_id (filter (restorable k key cands s) (l_claims s)))) (\<lambda>restored.
      tx_then (tx_put (restore_rows ti k key cands)) (\<lambda>_.
      tx_then (tx_each (\<lambda>i.
         if i \<notin> set cands then tx_fail (protocol_error ''restore escaped its locked candidate set'')
         else insert_transition_event sc i reason Disputed Active
                (jobj [(''conflict_id'', jint k), (''conflict_revision'', jint rv),
                       (''idempotency_key'', JString ikey)])) restored) (\<lambda>_.
      tx_ret (sort restored)))) s = Inr (ids, t)"
    using assms unfolding restore_disputed_members_def restore_rows_def [abs_def] if_not_P [OF False] .
  show ?thesis
    by (rule get_put_core [OF run]) (intro core.respects_rules core_events)
qed

lemma closed_row_update:
  assumes "state \<in> {''resolved'', ''dismissed''}"
  shows "row_update (\<lambda>c. if c = f then closed_row ti state kind reason c else c)"
  using assms by (auto simp: row_update_def closed_row_def)

text \<open>A close of the key's open conflict whose remaining pairs are all judged keeps the invariant.\<close>

lemma close_restore_ok:
  assumes ok: "ledger_ok en s" and f: "f \<in> set (l_conflicts s)" "v2_row key f" "open_v2_at k rv f"
    and st: "state \<in> {''resolved'', ''dismissed''}"
    and cl: "close_conflict ti k rv state kind reason s = Inr (n, u)"
    and re: "restore_disputed_members ti sc k n key reason' cands ikey u = Inr (ids, v)"
    and lo: "log_only v t"
    and c1: "\<And>c. c \<in> set (l_claims s) \<Longrightarrow> cl_id c \<in> set cands \<longleftrightarrow> cl_state c = Disputed \<and> on_key key c"
    and ver: "\<And>a b. a \<in> set (l_claims s) \<Longrightarrow> b \<in> set (l_claims s) \<Longrightarrow> rival en key a b \<Longrightarrow>
      judged t k (cl_id a, cl_id b)"
  shows "ledger_ok en t"
proof (rule closing_ok)
  let ?h = "\<lambda>c. if c = f then closed_row ti state kind reason c else c"
  have k: "cf_id f = k" using f(3) by (simp add: open_v2_at_def)
  have "open_v2_at k rv c \<longleftrightarrow> c = f" if "c \<in> set (l_conflicts s)" for c
    using that f k conflict_unique [of s c f] ok by (auto simp: open_v2_at_def ledger_ok_def)
  then have rows: "l_conflicts u = map ?h (l_conflicts s)"
    unfolding close_conflict_result(1) [OF cl] update_conflicts_def by simp
  have u: "l_claims u = l_claims s" "l_members u = l_members s" "l_log u = l_log s"
    by (simp_all add: close_conflict_result(1) [OF cl])
  have v: "l_claims v = map (restored ti k key cands u) (l_claims s)" "l_conflicts v = map ?h (l_conflicts s)"
      "l_members v = l_members s" "l_log v = l_log s"
    using restore_result [OF re] rows u
    by (simp_all add: same_core_def restore_rows_def update_claims_def restored_def [abs_def] activate_def)
  show "closing en ti s u t f key cands ?h"
    unfolding closing_def k
    using ok f(1,2) closed_row_update [OF st] rows u v lo c1 ver by (auto simp: log_only_def)
qed

lemma verified_close_ok:
  assumes ok: "ledger_ok en s" and f: "f \<in> set (l_conflicts s)" "v2_row key f"
      "open_v2_at (vc_conflict_id vc) (vc_conflict_revision vc) f" and key: "vc_claim_key vc = key"
    and cands: "\<And>c. c \<in> set (l_claims s) \<Longrightarrow>
      cl_id c \<in> set (vc_restore_candidates vc) \<longleftrightarrow> cl_state c = Disputed \<and> on_key key c"
    and ver: "\<And>a b. a \<in> set (l_claims s) \<Longrightarrow> b \<in> set (l_claims s) \<Longrightarrow> rival en key a b \<Longrightarrow>
      judged s (vc_conflict_id vc) (cl_id a, cl_id b)"
    and run: "apply_verified_close en ti sc vc audit s = Inr (ef, t)"
  shows "ledger_ok en t"
proof -
  obtain n u ids v kind reason where
    cl: "close_conflict ti (vc_conflict_id vc) (vc_conflict_revision vc) ''resolved'' kind reason s = Inr (n, u)" and
    re: "restore_disputed_members ti sc (vc_conflict_id vc) n key ''conflict_resolved''
           (vc_restore_candidates vc) (ca_key audit) u = Inr (ids, v)" and
    lo: "log_only v t"
    using run core.rel_refl
    by (auto simp: apply_verified_close_def Let_def tx_simps key log_only_def
        dest!: log_append(2) [unfolded respecting_def, rule_format] read_only_same [OF read_only_bounded_member_count]
        split: if_splits)
  have "set (l_log s) \<subseteq> set (l_log t)"
    using lo restore_result [OF re] close_conflict_result(1) [OF cl]
    by (simp add: log_only_def same_core_def restore_rows_def)
  then have "judged s k p \<Longrightarrow> judged t k p" for k p by (auto simp: judged_def)
  then show ?thesis
    using ver by (intro close_restore_ok [OF ok f _ cl re lo cands]) simp_all
qed

subsection \<open>Re-evaluation of a key\<close>

text \<open>The view a re-evaluation is given: the key's open lineage and all its current claims.\<close>

definition key_view :: "ustr \<Rightarrow> v2_lineage option \<Rightarrow> locked_key_claim list \<Rightarrow> ledger \<Rightarrow> bool" where
  "key_view key lineage cur s \<longleftrightarrow>
     (\<forall>lin. lineage = Some lin \<longrightarrow> lin_state lin = Open \<longrightarrow>
        (\<exists>f\<in>set (l_conflicts s). v2_row key f \<and> open_v2_at (lin_id lin) (lin_revision lin) f)
        \<and> set cur = decode_locked_claim ` {c \<in> set (l_claims s). on_key key c}
        \<and> length (filter (on_key key) (l_claims s)) \<le> MAX_CURRENT_CLAIMS_PER_KEY_COMPARISON)"

lemma key_view_core: "key_view key l cur s \<Longrightarrow> same_core s t \<Longrightarrow> key_view key l cur t"
  by (simp add: key_view_def same_core_def)

lemma rival_ids: "rival en key a b \<Longrightarrow> cl_id a < cl_id b"
  by (simp add: rival_def)

lemma disputed_candidates:
  assumes "tables_ok s" and "set cur = decode_locked_claim ` {c \<in> set (l_claims s). on_key key c}"
    and "c \<in> set (l_claims s)"
  shows "cl_id c \<in> set (disputed_ids cur) \<longleftrightarrow> cl_state c = Disputed \<and> on_key key c"
  unfolding disputed_ids_iff assms(2)
  using assms(3) claim_unique [OF assms(1) _ assms(3)] by fastforce

lemma planned_close_ok:
  assumes ok: "ledger_ok en s" and view: "key_view key (Some lin) cur s"
    and pairs: "key_incompatible_pairs en key s = Inr (pairs, u)" and ex: "\<forall>p\<in>ex. judged s (lin_id lin) p"
    and plan: "plan_reevaluation fmt (Some lin) cur pairs ex = Close k rv cands n"
    and vc: "vc_conflict_id vc = lin_id lin" "vc_conflict_revision vc = lin_revision lin" "vc_claim_key vc = key"
      "vc_restore_candidates vc = cands"
    and run: "apply_verified_close en ti sc vc audit s = Inr (ef, t)"
  shows "ledger_ok en t"
proof -
  have op: "lin_state lin = Open" using plan by (auto simp: plan_reevaluation_def split: if_splits)
  with view obtain f where f: "f \<in> set (l_conflicts s)" "v2_row key f" "open_v2_at (lin_id lin) (lin_revision lin) f"
    and cur: "set cur = decode_locked_claim ` {c \<in> set (l_claims s). on_key key c}"
    and len: "length (filter (on_key key) (l_claims s)) \<le> MAX_CURRENT_CLAIMS_PER_KEY_COMPARISON"
    by (auto simp: key_view_def)
  note P = key_pairs_complete [OF len pairs]
  have lt: "\<And>p. p \<in> set pairs \<Longrightarrow> fst p < snd p" using P(2) rival_ids by fastforce
  note C = plan_close [OF plan lt]
  have tab: "tables_ok s" using ok by (simp add: ledger_ok_def)
  show ?thesis
    by (rule verified_close_ok [OF ok f(1,2) _ vc(3) _ _ run])
       (use f(3) C disputed_candidates [OF tab cur] ex P(2) in \<open>auto simp: vc C\<close>)
qed

lemma reevaluate_ok:
  assumes ok: "ledger_ok en s" and view: "key_view key lineage cur s"
    and run: "reevaluate_key en ti sc lineage key cur reason audit s = Inr (ef, t)"
  shows "ledger_ok en t"
proof (cases "\<exists>lin. lineage = Some lin \<and> lin_state lin = Open")
  case False
  then have "t = s" using run by (auto simp: reevaluate_key_def tx_simps split: option.splits if_splits)
  with ok show ?thesis by simp
next
  case True
  then obtain lin where lin: "lineage = Some lin" "lin_state lin = Open" by blast
  then obtain f where f: "f \<in> set (l_conflicts s)"
      "length (filter (on_key key) (l_claims s)) \<le> MAX_CURRENT_CLAIMS_PER_KEY_COMPARISON"
    using view by (auto simp: key_view_def)
  obtain pairs s1 ex s2 where
    pairs: "key_incompatible_pairs en key s = Inr (pairs, s1)" and
    ex: "(if ca_log audit then excluded_dismissed_pairs (lin_id lin) else tx_ret {}) s1 = Inr (ex, s2)" and
    rest: "(case plan_reevaluation (e_fmt en) (Some lin) cur pairs ex of
            Close k rv cands n \<Rightarrow> apply_verified_close en ti sc
                \<lparr>vc_conflict_id = k, vc_conflict_revision = rv, vc_claim_key = key,
                 vc_restore_candidates = cands, vc_current = cur, vc_resolution_reason = reason,
                 vc_excluded_dismissed_pairs = n\<rparr> audit
          | StillOpen k rv ps n \<Rightarrow> tx_ret (no_effect\<lparr>ef_reevaluation := Some (reevaluation_report k ''still_open'' rv ps n)\<rparr>)
          | Divergent k rv rust sql \<Rightarrow> tx_ret (no_effect\<lparr>ef_reevaluation := Some (reevaluation_report k ''divergent'' rv sql 0)\<rparr>)
          | NoLineage \<Rightarrow> tx_ret no_effect | LineageNotOpen \<Rightarrow> tx_ret no_effect) s2 = Inr (ef, t)"
    using run unfolding reevaluate_key_def lin by (auto simp: tx_simps lin(2))
  have s2: "s2 = s" and judged: "\<forall>p\<in>ex. judged s (lin_id lin) p"
    using ex key_pairs_complete(1) [OF f(2) pairs] excluded_judged by (auto simp: tx_simps split: if_splits)
  show ?thesis
  proof (cases "plan_reevaluation (e_fmt en) (Some lin) cur pairs ex")
    case (Close k rv cands m)
    have eqs: "k = lin_id lin" "rv = lin_revision lin"
      using Close by (auto simp: plan_reevaluation_def Let_def split: if_splits)
    have "apply_verified_close en ti sc \<lparr>vc_conflict_id = k, vc_conflict_revision = rv, vc_claim_key = key,
          vc_restore_candidates = cands, vc_current = cur, vc_resolution_reason = reason,
          vc_excluded_dismissed_pairs = m\<rparr> audit s = Inr (ef, t)"
      using rest by (simp add: Close s2)
    from planned_close_ok [OF ok _ pairs judged Close _ _ _ _ this] view lin(1) show ?thesis
      by (simp add: eqs)
  qed (use rest ok s2 in \<open>auto simp: tx_simps\<close>)
qed

subsection \<open>Retiring claims\<close>

definition retires :: "int set \<Rightarrow> ledger \<Rightarrow> ledger \<Rightarrow> bool" where
  "retires ids s t \<longleftrightarrow> (\<exists>g. keeps_content g \<and> (\<forall>c. g c \<noteq> c \<longrightarrow> \<not> is_current (cl_state (g c)))
     \<and> l_claims t = map g (l_claims s)
     \<and> (\<forall>c\<in>set (l_claims s). is_current (cl_state (g c)) \<longleftrightarrow> is_current (cl_state c) \<and> cl_id c \<notin> ids))
     \<and> l_conflicts t = l_conflicts s \<and> l_members t = l_members s \<and> l_log t = l_log s"

lemma retires_ok: "ledger_ok en s \<Longrightarrow> retires ids s t \<Longrightarrow> ledger_ok en t"
  unfolding retires_def using retire_ok by blast

lemma retires_current:
  assumes "retires ids s t"
  shows "{c \<in> set (l_claims t). on_key key c} = {c \<in> set (l_claims s). on_key key c \<and> cl_id c \<notin> ids}"
    and "length (filter (on_key key) (l_claims t)) \<le> length (filter (on_key key) (l_claims s))"
proof -
  obtain g where g: "keeps_content g" "\<forall>c. g c \<noteq> c \<longrightarrow> \<not> is_current (cl_state (g c))"
    "l_claims t = map g (l_claims s)"
    "\<forall>c\<in>set (l_claims s). is_current (cl_state (g c)) \<longleftrightarrow> is_current (cl_state c) \<and> cl_id c \<notin> ids"
    using assms unfolding retires_def by blast
  have key: "on_key key (g c) \<longleftrightarrow> on_key key c \<and> cl_id c \<notin> ids" if "c \<in> set (l_claims s)" for c
    using that g(4) by (auto simp: on_key_def keeps_content_fields [OF g(1)])
  have same: "g c = c" if "on_key key (g c)" for c
    using that g(2) by (auto simp: on_key_def)
  show "{c \<in> set (l_claims t). on_key key c} = {c \<in> set (l_claims s). on_key key c \<and> cl_id c \<notin> ids}"
  proof (intro set_eqI iffI)
    fix x assume "x \<in> {c \<in> set (l_claims t). on_key key c}"
    then obtain c where "c \<in> set (l_claims s)" "x = g c" "on_key key (g c)" by (auto simp: g(3))
    with key [of c] same [of c] show "x \<in> {c \<in> set (l_claims s). on_key key c \<and> cl_id c \<notin> ids}" by simp
  next
    fix x assume x: "x \<in> {c \<in> set (l_claims s). on_key key c \<and> cl_id c \<notin> ids}"
    with key [of x] same [of x] have "g x = x" "on_key key x" by auto
    with x show "x \<in> {c \<in> set (l_claims t). on_key key c}" by (simp add: g(3)) (metis image_eqI)
  qed
  have "length (filter (on_key key) (map g xs)) \<le> length (filter (on_key key) xs)"
    if "set xs \<subseteq> set (l_claims s)" for xs
    using that key by (induction xs) auto
  then show "length (filter (on_key key) (l_claims t)) \<le> length (filter (on_key key) (l_claims s))"
    unfolding g(3) by blast
qed

lemma retires_trans:
  assumes "retires A s t" and "retires B t u"
  shows "retires (A \<union> B) s u"
proof -
  obtain g where g: "keeps_content g" "\<forall>c. g c \<noteq> c \<longrightarrow> \<not> is_current (cl_state (g c))"
    "l_claims t = map g (l_claims s)"
    "\<forall>c\<in>set (l_claims s). is_current (cl_state (g c)) \<longleftrightarrow> is_current (cl_state c) \<and> cl_id c \<notin> A"
    using assms(1) unfolding retires_def by blast
  obtain h where h: "keeps_content h" "\<forall>c. h c \<noteq> c \<longrightarrow> \<not> is_current (cl_state (h c))"
    "l_claims u = map h (l_claims t)"
    "\<forall>c\<in>set (l_claims t). is_current (cl_state (h c)) \<longleftrightarrow> is_current (cl_state c) \<and> cl_id c \<notin> B"
    using assms(2) unfolding retires_def by blast
  have "keeps_content (h \<circ> g)"
    using g(1) h(1) unfolding keeps_content_def by (auto intro: order_trans)
  moreover have "\<forall>c. (h \<circ> g) c \<noteq> c \<longrightarrow> \<not> is_current (cl_state ((h \<circ> g) c))"
    using g(2) h(2) by (metis comp_apply)
  moreover have "\<forall>c\<in>set (l_claims s). is_current (cl_state ((h \<circ> g) c)) \<longleftrightarrow>
      is_current (cl_state c) \<and> cl_id c \<notin> A \<union> B"
    using g(4) h(4) by (auto simp: g(3) keeps_content_fields(1) [OF g(1)])
  moreover have "l_claims u = map (h \<circ> g) (l_claims s)" by (simp add: h(3) g(3))
  ultimately show ?thesis
    using assms unfolding retires_def by (intro conjI exI [of _ "h \<circ> g"]) simp_all
qed

lemma transition_retires:
  assumes tab: "tables_ok s" and out: "\<not> is_current st"
    and run: "transition_owned_claim ti sc lk st s = Inr (n, t)"
  shows "retires {lk_id lk} s t"
proof -
  let ?g = "\<lambda>c. if owned_by sc lk c
    then c\<lparr>cl_state := st, cl_revision := cl_revision c + 1, cl_updated_at := t_now ti\<rparr> else c"
  obtain r where r: "r \<in> set (l_claims s)" "owned_by sc lk r"
    and t: "t = update_claims (owned_by sc lk)
      (\<lambda>c. c\<lparr>cl_state := st, cl_revision := cl_revision c + 1, cl_updated_at := t_now ti\<rparr>) s"
    using run by (auto simp: transition_owned_claim_def tx_simps split: option.splits dest: find_SomeD)
  have owned: "owned_by sc lk c \<longleftrightarrow> cl_id c = lk_id lk" if "c \<in> set (l_claims s)" for c
    using that r claim_unique [OF tab, of c r] by (auto simp: owned_by_def)
  have "keeps_content ?g" by (simp add: keeps_content_def claim_content_def)
  moreover have "\<forall>c. ?g c \<noteq> c \<longrightarrow> \<not> is_current (cl_state (?g c))" using out by simp
  moreover have "l_claims t = map ?g (l_claims s)" by (simp add: t update_claims_def)
  moreover have "\<forall>c\<in>set (l_claims s). is_current (cl_state (?g c)) \<longleftrightarrow> is_current (cl_state c) \<and> cl_id c \<notin> {lk_id lk}"
    using owned out by auto
  ultimately show ?thesis
    unfolding retires_def by (intro conjI exI [of _ ?g]) (simp_all add: t)
qed

lemma retires_core: "retires ids s t \<Longrightarrow> same_core t u \<Longrightarrow> retires ids s u"
  by (simp add: retires_def same_core_def)

lemma retires_none: "retires {} s s"
  unfolding retires_def by (intro conjI exI [of _ "\<lambda>c. c"]) (simp_all add: keeps_content_def)

lemma retract_conceded_one:
  assumes "tables_ok s" and "retract_conceded ti sc k reason key c s = Inr (u, t)"
  shows "retires {lk_id c} s t"
proof -
  obtain n s1 where s1: "transition_owned_claim ti sc c Retracted s = Inr (n, s1)" and t: "same_core s1 t"
    using assms(2) core_same [OF core_events(1)] unfolding retract_conceded_def tx_simps by blast
  from transition_retires [OF assms(1) _ s1] t show ?thesis by (auto intro: retires_core)
qed

lemma retract_conceded_retires:
  assumes "ledger_ok en s" and "tx_each (retract_conceded ti sc k reason key) cs s = Inr (u, t)"
  shows "retires (lk_id ` set cs) s t"
  using assms
proof (induction cs arbitrary: s)
  case Nil
  then show ?case by (simp add: tx_simps retires_none)
next
  case (Cons c cs)
  then obtain v s1 where s1: "retract_conceded ti sc k reason key c s = Inr (v, s1)"
    and rest: "tx_each (retract_conceded ti sc k reason key) cs s1 = Inr (u, t)"
    unfolding tx_each.simps tx_simps by blast
  have a: "retires {lk_id c} s s1"
    using retract_conceded_one [OF _ s1] Cons.prems(1) by (simp add: ledger_ok_def)
  have "retires (lk_id ` set cs) s1 t"
    by (rule Cons.IH [OF retires_ok [OF Cons.prems(1) a] rest])
  from retires_trans [OF a this] show ?case by simp
qed

subsection \<open>Detection\<close>

lemma rows_carried_map:
  assumes "row_update h" and "\<And>c. cf_state c = ''open'' \<Longrightarrow> cf_state (h c) = ''open''"
    and "l_conflicts t = map h (l_conflicts s)"
  shows "rows_carried s t"
  unfolding rows_carried_def assms(3) using assms(2) row_updateD [OF assms(1)] by fastforce

lemma observed_row:
  assumes "conflict_rows_ok (l_conflicts s)" and "find (v2_row key) (l_conflicts s) = Some r"
    and h: "row_update h" "\<And>c. cf_state c = ''open'' \<Longrightarrow> cf_state (h c) = ''open''"
      "cf_state (h r) = ''open''"
    and t: "l_conflicts t = map h (l_conflicts s)"
  shows "conflict_rows_ok (l_conflicts t) \<and> rows_carried s t
    \<and> (\<exists>f\<in>set (l_conflicts t). v2_row key f \<and> cf_id f = cf_id r \<and> cf_state f = ''open'')"
proof -
  have r: "r \<in> set (l_conflicts s)" "v2_row key r" using assms(2) by (auto simp: find_Some_iff)
  have "h r \<in> set (l_conflicts t)" using r(1) by (simp add: t)
  with h(3) r(2) row_updateD [OF h(1)] conflict_rows_map [OF assms(1) h(1)] rows_carried_map [OF h(1,2) t]
  show ?thesis unfolding t by metis
qed

lemma observe_cases:
  assumes "observe_conflict ti key s = Inr (ob, t)"
  obtains "\<forall>f\<in>set (l_conflicts s). \<not> v2_row key f \<and> cf_id f \<noteq> t_conflict_id ti"
      "safe_int (t_conflict_id ti)" "ob_id ob = t_conflict_id ti"
      "t = s\<lparr>l_conflicts := l_conflicts s @ [new_conflict ti key]\<rparr>"
  | r where "find (v2_row key) (l_conflicts s) = Some r" "ob_id ob = cf_id r" "cf_state r = ''open''"
      "t = update_conflicts (v2_in_state (cf_id r) ''open'') (\<lambda>c. c\<lparr>cf_last_seen_at := t_now ti\<rparr>) s"
  | r where "find (v2_row key) (l_conflicts s) = Some r" "ob_id ob = cf_id r" "cf_state r \<noteq> ''open''"
      "t = update_conflicts (v2_in_state (cf_id r) (cf_state r)) (reopened_row ti) s"
  using assms unfolding observe_conflict_def
  by (auto simp: tx_simps list_ex_iff split: if_splits option.splits)

lemma new_conflict_rows:
  assumes ok: "conflict_rows_ok fs" and "safe_int (t_conflict_id ti)"
    and new: "\<forall>f\<in>set fs. \<not> v2_row key f \<and> cf_id f \<noteq> t_conflict_id ti"
  shows "conflict_rows_ok (fs @ [new_conflict ti key])"
  unfolding conflict_rows_ok_def
proof (intro conjI ballI impI)
  note R = conflict_rows_okD [OF ok]
  show "distinct (map cf_id (fs @ [new_conflict ti key]))"
    using R(1) new by (auto simp: new_conflict_def)
  fix f assume f: "f \<in> set (fs @ [new_conflict ti key])"
  then show "0 < cf_id f" "0 < cf_revision f" "cf_state f \<in> {''open'', ''resolved'', ''dismissed''}"
    using R(2-4) assms(2) by (auto simp: new_conflict_def safe_int_def)
  fix g assume g: "g \<in> set (fs @ [new_conflict ti key])"
    and eq: "cf_claim_key f = cf_claim_key g \<and> cf_detector f = cf_detector g"
  have v2: "v2_row key (new_conflict ti key)" by (simp add: v2_row_def new_conflict_def)
  show "cf_id f = cf_id g"
    using f g eq new v2 R(5) [of f g] by (auto simp: v2_row_def)
qed

lemma observe_rows:
  assumes ok: "conflict_rows_ok (l_conflicts s)" and run: "observe_conflict ti key s = Inr (ob, t)"
  shows "l_claims t = l_claims s" and "l_members t = l_members s" and "l_log t = l_log s"
    and "conflict_rows_ok (l_conflicts t) \<and> rows_carried s t
      \<and> (\<exists>f\<in>set (l_conflicts t). v2_row key f \<and> cf_id f = ob_id ob \<and> cf_state f = ''open'')"
proof -
  show "l_claims t = l_claims s" "l_members t = l_members s" "l_log t = l_log s"
    by (rule observe_cases [OF run]; simp)+
  from run show "conflict_rows_ok (l_conflicts t) \<and> rows_carried s t
      \<and> (\<exists>f\<in>set (l_conflicts t). v2_row key f \<and> cf_id f = ob_id ob \<and> cf_state f = ''open'')"
  proof (cases rule: observe_cases)
    case 1
    then show ?thesis
      using new_conflict_rows [OF ok] by (auto simp: rows_carried_def new_conflict_def v2_row_def)
  next
    case (2 r)
    show ?thesis unfolding 2(2)
      by (rule observed_row [OF ok 2(1), where h = "\<lambda>c. if v2_in_state (cf_id r) ''open'' c
              then c\<lparr>cf_last_seen_at := t_now ti\<rparr> else c"])
         (auto simp: row_update_def 2 update_conflicts_def)
  next
    case (3 r)
    then have "cf_detector r = FUNCTIONAL_VALUE_CONFLICT_DETECTOR_V2"
      by (auto dest: find_SomeD simp: v2_row_def)
    then show ?thesis unfolding 3(2)
      by (intro observed_row [OF ok 3(1), where h = "\<lambda>c. if v2_in_state (cf_id r) (cf_state r) c
              then reopened_row ti c else c"])
         (auto simp: row_update_def 3 update_conflicts_def reopened_row_def v2_in_state_def)
  qed
qed

lemma insert_members_result:
  assumes "tx_each (insert_member k) ids s = Inr (u, t)"
  shows "set (l_members t) = set (l_members s) \<union> {k} \<times> set ids" "l_claims t = l_claims s"
    "l_conflicts t = l_conflicts s" "l_log t = l_log s"
  using assms by (induction ids arbitrary: s) (auto simp: tx_simps insert_member_def split: if_splits)

end
