(* ===== verification/Lifecycle_Laws.thy ===== *)
theory Lifecycle_Laws
  imports Lifecycle_Plan
begin

section \<open>Laws of the lifecycle decisions\<close>

text \<open>
  What the pure decisions of \<^verbatim>\<open>ledger/lifecycle.rs\<close> mean: which claims a concession may retract,
  that the pairs a dismissal records are read back, when an adjudicator is admitted, and
  what a re-evaluation of a key concludes.
\<close>

subsection \<open>Ownership and concessions\<close>

lemma check_owner_transition_Inr:
  "check_owner_transition target agent rv = Inr u \<longleftrightarrow>
     lk_actor target = Some agent \<and> lk_origin target = OPERATOR_ASSERTED_ORIGIN
     \<and> is_current (lk_state target) \<and> lk_revision target = rv"
  by (auto simp: check_owner_transition_def Let_def)

lemma lift_refusal_Inr [res_simps]: "lift_refusal r = Inr x \<longleftrightarrow> r = Inr x"
  by (cases r) (auto simp: lift_refusal_def)

lemma concede_one_Inr:
  assumes "concede_one k agent members current i = Inr c"
  shows "find (\<lambda>c. lk_id c = i) current = Some c" "lk_id c = i" "lk_actor c = Some agent"
    "lk_origin c = OPERATOR_ASSERTED_ORIGIN" "is_current (lk_state c)" "i \<in> fst ` set members"
proof -
  from assms obtain st rv where "map_of (rev members) i = Some (st, rv)"
      and f: "find (\<lambda>c. lk_id c = i) current = Some c"
      and "check_owner_transition c agent (lk_revision c) = Inr ()"
    by (auto simp: concede_one_def res_simps refuse_def split: option.splits if_splits)
  then show "find (\<lambda>c. lk_id c = i) current = Some c" "lk_actor c = Some agent"
    "lk_origin c = OPERATOR_ASSERTED_ORIGIN" "is_current (lk_state c)" "i \<in> fst ` set members"
    by (auto simp: check_owner_transition_Inr dest!: map_of_SomeD intro: rev_image_eqI)
  show "lk_id c = i" using find_SomeD [OF f] by simp
qed

lemma plan_concession_Inr:
  assumes "plan_concession k agent ids members current = Inr con"
  shows "map lk_id (con_retracted con) = ids"
    and "con_remaining con = filter (\<lambda>c. lk_id c \<notin> set ids) current"
    and "\<forall>c\<in>set (con_retracted con). c \<in> set current \<and> lk_actor c = Some agent
      \<and> lk_origin c = OPERATOR_ASSERTED_ORIGIN \<and> is_current (lk_state c) \<and> lk_id c \<in> fst ` set members"
proof -
  from assms have all: "list_all2 (\<lambda>i c. concede_one k agent members current i = Inr c) ids (con_retracted con)"
    and r: "con_remaining con = filter (\<lambda>c. lk_id c \<notin> set ids) current"
    by (auto simp: plan_concession_def res_simps try_map_eq_Inr)
  show "con_remaining con = filter (\<lambda>c. lk_id c \<notin> set ids) current" by fact
  from all show "map lk_id (con_retracted con) = ids"
    by (induction rule: list_all2_induct) (auto dest: concede_one_Inr(2))
  from all have "\<exists>i. concede_one k agent members current i = Inr c" if "c \<in> set (con_retracted con)" for c
    using that by (induction rule: list_all2_induct) auto
  then show "\<forall>c\<in>set (con_retracted con). c \<in> set current \<and> lk_actor c = Some agent
      \<and> lk_origin c = OPERATOR_ASSERTED_ORIGIN \<and> is_current (lk_state c) \<and> lk_id c \<in> fst ` set members"
  proof (intro ballI)
    fix c assume "c \<in> set (con_retracted con)"
    with \<open>\<And>c. c \<in> set (con_retracted con) \<Longrightarrow> \<exists>i. concede_one k agent members current i = Inr c\<close>
    obtain i where i: "concede_one k agent members current i = Inr c" by blast
    show "c \<in> set current \<and> lk_actor c = Some agent \<and> lk_origin c = OPERATOR_ASSERTED_ORIGIN
        \<and> is_current (lk_state c) \<and> lk_id c \<in> fst ` set members"
      using concede_one_Inr [OF i] find_SomeD [OF concede_one_Inr(1) [OF i]] by simp
  qed
qed

subsection \<open>Adjudicators\<close>

lemma check_adjudicator_Inr:
  "check_adjudicator k n a = Inr u \<longleftrightarrow>
     0 \<le> n \<and> n \<le> 4096 \<and> members_checked a = n \<and> implicated_members a = 0 \<and> unattributed_members a = 0"
  by (auto simp: check_adjudicator_def)

subsection \<open>Dismissed pairs\<close>

lemma decode_jpair:
  assumes "1 \<le> fst p" "fst p < snd p" "snd p \<le> i64_max"
  shows "decode_dismissed_pair (jpair p) = Inr p"
proof -
  have "is_i64 (fst p)" "is_i64 (snd p)" using assms by (simp_all add: is_i64_def i64_min_def)
  with assms show ?thesis by (simp add: decode_dismissed_pair_def jpair_def ok_or_def)
qed

lemma dismissed_pairs_jpairs:
  assumes "length ps \<le> MAX_DISMISSED_PAIRS" and "\<And>p. p \<in> set ps \<Longrightarrow> 1 \<le> fst p \<and> fst p < snd p \<and> snd p \<le> i64_max"
  shows "dismissed_pairs [JArray (map jpair ps)] = Inr (set ps)"
proof -
  have "try_map decode_dismissed_pair (map jpair ps) = Inr ps"
    using assms(2) by (simp add: try_map_eq_Inr list_all2_map1 list_all2_same decode_jpair)
  with assms(1) show ?thesis by (simp add: ok_or_def)
qed

end
