(* ===== verification/Ledger_Mutations.thy ===== *)
theory Ledger_Mutations
  imports Ledger_Safety Lifecycle_Laws
begin

section \<open>Every mutation keeps the invariant\<close>

text \<open>
  The insertion of a claim with its detection, and then each of the seven mutations, as
  triples: from a ledger that satisfies the invariant a committed mutation ends in one.
\<close>

subsection \<open>Rules for triples\<close>

lemma triple_pre: "(\<And>s. P s \<Longrightarrow> P' s) \<Longrightarrow> triple P' m Q \<Longrightarrow> triple P m Q"
  by (auto simp: triple_def)

lemma triple_post: "triple P m Q' \<Longrightarrow> (\<And>x s. Q' x s \<Longrightarrow> Q x s) \<Longrightarrow> triple P m Q"
  by (auto simp: triple_def)

lemma triple_run: "triple P m (\<lambda>x t. \<exists>s. P s \<and> m s = Inr (x, t))"
  by (auto simp: triple_def)

lemma triple_read: "read_only m \<Longrightarrow> triple P m (\<lambda>x s. P s \<and> m s = Inr (x, s))"
  unfolding triple_def using read_only_same by metis

lemma triple_read_keep: "read_only m \<Longrightarrow> triple P m (\<lambda>_. P)"
  unfolding triple_def using read_only_same by metis

lemma triple_ret: "(\<And>s. P s \<Longrightarrow> Q x s) \<Longrightarrow> triple P (tx_ret x) Q"
  by (simp add: triple_def tx_simps)

lemma triple_fail [simp, intro]: "triple P (tx_fail e) Q" "triple P (tx_refuse c d) Q"
  by (simp_all add: triple_def tx_simps)

lemma triple_if: "(c \<Longrightarrow> triple P a Q) \<Longrightarrow> (\<not> c \<Longrightarrow> triple P b Q) \<Longrightarrow> triple P (if c then a else b) Q"
  by simp

lemma triple_option:
  "(m = None \<Longrightarrow> triple P a Q) \<Longrightarrow> (\<And>x. m = Some x \<Longrightarrow> triple P (f x) Q) \<Longrightarrow>
   triple P (case m of None \<Rightarrow> a | Some x \<Rightarrow> f x) Q"
  by (cases m) auto

lemma triple_list:
  "(m = [] \<Longrightarrow> triple P a Q) \<Longrightarrow> (\<And>x xs. m = x # xs \<Longrightarrow> triple P (f x xs) Q) \<Longrightarrow>
   triple P (case m of [] \<Rightarrow> a | x # xs \<Rightarrow> f x xs) Q"
  by (cases m) auto

lemma triple_prod: "(\<And>x y. p = (x, y) \<Longrightarrow> triple P (f x y) Q) \<Longrightarrow> triple P (case p of (x, y) \<Rightarrow> f x y) Q"
  by (cases p) auto

text \<open>Audit writes keep every assertion that reads the four core tables only.\<close>

definition core_stable :: "(ledger \<Rightarrow> bool) \<Rightarrow> bool" where
  "core_stable P \<longleftrightarrow> (\<forall>s t. P s \<longrightarrow> same_core s t \<longrightarrow> P t)"

lemma triple_core: "core_stable P \<Longrightarrow> respecting same_core m \<Longrightarrow> triple P m (\<lambda>_. P)"
  unfolding triple_def core_stable_def respecting_def by blast

lemma core_stable_ok [simp, intro]: "core_stable (ledger_ok en)"
  unfolding core_stable_def using ledger_ok_core by blast

lemmas triple_cases = triple_fail triple_if triple_option triple_list triple_prod

subsection \<open>Inserting and detecting\<close>

text \<open>A ledger that is \<open>s\<close> plus one fresh claim.\<close>

definition extended :: "env \<Rightarrow> claim \<Rightarrow> ledger \<Rightarrow> bool" where
  "extended en c t \<longleftrightarrow> (\<exists>s. ledger_ok en s \<and> fresh_claim s c \<and> l_claims t = l_claims s @ [c]
     \<and> l_conflicts t = l_conflicts s \<and> l_members t = l_members s \<and> l_log t = l_log s)"

lemma extended_core: "extended en c s \<Longrightarrow> same_core s t \<Longrightarrow> extended en c t"
  unfolding extended_def same_core_def by metis

lemma claim_by_id_None: "claim_by_id i s = None \<Longrightarrow> \<forall>x\<in>set (l_claims s). cl_id x \<noteq> i"
  by (auto simp: claim_by_id_def find_None_iff)

lemma insert_claim_extends:
  assumes "ledger_ok en s" and "insert_claim ti sc i p s = Inr (c, t)"
  shows "extended en c t \<and> c = new_claim ti sc i p"
proof -
  have c: "c = new_claim ti sc i p" and t: "t = s\<lparr>l_claims := l_claims s @ [c]\<rparr>"
    and n: "claim_by_id (cl_id c) s = None" and ch: "claim_checks c"
    using assms(2) by (auto simp: insert_claim_def Let_def tx_simps split: if_splits)
  have "fresh_claim s c"
    using claim_by_id_None [OF n] ch c by (simp add: fresh_claim_def new_claim_def)
  with assms(1) t have "extended en c t" unfolding extended_def by (intro exI [of _ s]) simp
  with c show ?thesis by simp
qed

lemma core_stable_extended [simp, intro]: "core_stable (extended en c)"
  unfolding core_stable_def using extended_core by blast

lemma insert_claim_triple:
  "triple (ledger_ok en) (insert_claim ti sc i p) (\<lambda>c s. extended en c s \<and> c = new_claim ti sc i p)"
  unfolding triple_def using insert_claim_extends by blast

lemma core_stable_const: "core_stable P \<Longrightarrow> core_stable (\<lambda>s. P s \<and> q)"
  unfolding core_stable_def by blast

lemma projection_extends:
  "triple (ledger_ok en) (insert_claim_projection en ti sc i p passages model payload)
     (\<lambda>(c, rows) s. extended en c s \<and> c = new_claim ti sc i p)"
proof -
  let ?Q = "\<lambda>c s. extended en c s \<and> c = new_claim ti sc i p"
  have st: "core_stable (?Q c)" for c by (intro core_stable_const core_stable_extended)
  show ?thesis
    unfolding insert_claim_projection_def
    apply (rule triple_then [OF insert_claim_triple])
    apply (rule triple_then [OF triple_core [OF st core_insert_support]])
    apply (rule triple_then [OF triple_core [OF st core.respects_each]], rule core_audit)
    apply (rule triple_list, rule triple_fail)
    apply (rule triple_then [OF triple_core [OF st]], rule core_audit)
    apply (rule triple_then [OF triple_core [OF st]], rule core_audit)
    apply (rule triple_ret, simp)
    done
qed

definition describes :: "prepared_claim \<Rightarrow> claim \<Rightarrow> bool" where
  "describes p c \<longleftrightarrow> cl_conflict_eligible c = pc_conflict_eligible p \<and> cl_claim_key c = pc_claim_key p
     \<and> cl_value c = pc_value p"

lemma describes_new: "describes p (new_claim ti sc i p)"
  by (simp add: describes_def new_claim_def)

lemma candidates_complete:
  assumes "length (detection_candidates c key s) \<le> MAX_CURRENT_CLAIMS_PER_KEY_COMPARISON"
  shows "set (detection_candidates c key s) = {x \<in> set (l_claims s). on_key key x \<and> cl_id x \<noteq> cl_id c}"
proof -
  let ?all = "by_state_and_id (filter (\<lambda>x. on_key key x \<and> cl_id x \<noteq> cl_id c) (l_claims s))"
  have "take (Suc MAX_CURRENT_CLAIMS_PER_KEY_COMPARISON) ?all = ?all"
    by (rule take_complete) (use assms in \<open>simp add: detection_candidates_def\<close>)
  then show ?thesis by (auto simp: detection_candidates_def)
qed

lemma dispute_members_result:
  assumes "dispute_members ti ids s = Inr (tr, t)"
  shows "l_claims t = map (disputed_by ti (set ids)) (l_claims s)" "l_conflicts t = l_conflicts s"
    "l_members t = l_members s" "l_log t = l_log s"
  using assms by (simp_all add: dispute_members_def Let_def tx_simps update_claims_def disputed_by_def [abs_def])

text \<open>What a committed detection did: nothing to compare, no rival, or a join.\<close>

definition detection_join :: "env \<Rightarrow> tx_input \<Rightarrow> claim \<Rightarrow> ustr \<Rightarrow> int list \<Rightarrow> ledger \<Rightarrow> ledger \<Rightarrow> bool" where
  "detection_join en ti c key ids s t \<longleftrightarrow> (\<exists>ob u v w tr. observe_conflict ti key s = Inr (ob, u)
     \<and> tx_each (insert_member (ob_id ob)) ids u = Inr ((), v) \<and> dispute_members ti ids v = Inr (tr, w)
     \<and> same_core w t)"

lemma core_disputed_events:
  "respecting same_core (tx_each (\<lambda>i. insert_disputed_transition_event sc i k) xs)"
  unfolding insert_disputed_transition_event_def by (intro core.respects_rules core_events)

lemma detection_join_core: "core_stable (detection_join en ti c key ids s)"
  unfolding core_stable_def detection_join_def using core.rel_trans by blast

lemma join_run:
  "triple (\<lambda>u. \<exists>s. P s \<and> observe_conflict ti key s = Inr (ob, u))
     (tx_then (tx_each (insert_member (ob_id ob)) ids) (\<lambda>_.
      tx_then (dispute_members ti ids) (\<lambda>tr.
      tx_then (tx_each (\<lambda>i. insert_disputed_transition_event sc i (ob_id ob)) tr) (\<lambda>_. tx_ret (g tr)))))
     (\<lambda>_ t. \<exists>s. P s \<and> detection_join en ti c key ids s t)"
proof -
  have st: "core_stable (\<lambda>t. \<exists>s. P s \<and> detection_join en ti c key ids s t)"
    using detection_join_core unfolding core_stable_def by blast
  have join: "detection_join en ti c key ids s t" if "observe_conflict ti key s = Inr (ob, u)"
    "tx_each (insert_member (ob_id ob)) ids u = Inr ((), v)" "dispute_members ti ids v = Inr (tr, t)" for s t u v tr
    unfolding detection_join_def using that core.rel_refl by blast
  show ?thesis
    apply (rule triple_then [OF triple_run])
    apply (rule triple_then [OF triple_run])
    apply (rule triple_pre [where P' = "\<lambda>t. \<exists>s. P s \<and> detection_join en ti c key ids s t"])
    using join apply (metis (full_types) old.unit.exhaust)
    apply (rule triple_then [OF triple_core [OF st core_disputed_events]])
    apply (rule triple_ret, assumption)
    done
qed

lemma detect_eligible:
  assumes kv: "pc_conflict_eligible p" "pc_claim_key p = Some key" "pc_value p = Some val"
    and alone: "\<And>s. P s \<Longrightarrow> length (detection_candidates c key s) \<le> MAX_CURRENT_CLAIMS_PER_KEY_COMPARISON \<Longrightarrow>
      filter (candidate_incompatible en c) (detection_candidates c key s) = [] \<Longrightarrow> Q s"
    and join: "\<And>s t ids. P s \<Longrightarrow> length (detection_candidates c key s) \<le> MAX_CURRENT_CLAIMS_PER_KEY_COMPARISON \<Longrightarrow>
      set ids = insert (cl_id c) (cl_id ` set (filter (candidate_incompatible en c) (detection_candidates c key s))) \<Longrightarrow>
      detection_join en ti c key ids s t \<Longrightarrow> Q t"
  shows "triple P (detect_and_observe en ti sc c p own) (\<lambda>_. Q)"
proof -
  have elig: "pc_conflict_eligible p = True" using kv(1) by simp
  have run: "triple (\<lambda>s. P s \<and> rows = detection_candidates c key s)
      (tx_then (observe_conflict ti key) (\<lambda>ob.
       tx_then (tx_each (insert_member (ob_id ob)) ids) (\<lambda>_.
       tx_then (dispute_members ti ids) (\<lambda>tr.
       tx_then (tx_each (\<lambda>i. insert_disputed_transition_event sc i (ob_id ob)) tr) (\<lambda>_. tx_ret (g ob tr))))))
      (\<lambda>_. Q)"
    if "length rows \<le> MAX_CURRENT_CLAIMS_PER_KEY_COMPARISON"
      "set ids = insert (cl_id c) (cl_id ` set (filter (candidate_incompatible en c) rows))" for rows ids g
  proof (rule triple_then [OF triple_run], rule triple_post [OF join_run], elim exE conjE)
    fix t s assume "P s" "rows = detection_candidates c key s" "detection_join en ti c key ids s t"
    with that show "Q t" using join by blast
  qed
  show ?thesis
    unfolding detect_and_observe_def kv(2,3) elig prod.case option.case bool.case Let_def
    apply (rule triple_then [OF triple_read_keep [OF read_only_require_detector]])
    apply (rule triple_then [where R = "\<lambda>rows s. P s \<and> rows = detection_candidates c key s"])
     apply (simp add: triple_def tx_simps)
    apply (intro triple_if triple_option triple_fail)
     apply (rule triple_ret, use alone in force)
    apply (rule run, simp, simp)
    done
qed

lemma rival_key:
  "rival en key x c \<or> rival en key c x \<Longrightarrow> cl_claim_key c = Some key \<and> on_key key x
     \<and> cl_conflict_eligible x \<and> cl_conflict_eligible c \<and> cl_id x \<noteq> cl_id c
     \<and> (sql_incompatible (e_sql_eq en) x c \<or> sql_incompatible (e_sql_eq en) c x)"
  by (auto simp: rival_def on_key_def)

lemma extended_alone:
  assumes ext: "extended en c t" and sym: "sql_symmetric en"
    and none: "\<And>key x. cl_conflict_eligible c \<Longrightarrow> cl_claim_key c = Some key \<Longrightarrow> x \<in> set (l_claims t) \<Longrightarrow>
      on_key key x \<Longrightarrow> cl_id x \<noteq> cl_id c \<Longrightarrow> \<not> candidate_incompatible en c x"
  shows "ledger_ok en t"
proof -
  obtain s where s: "ledger_ok en s" "fresh_claim s c" "l_claims t = l_claims s @ [c]"
     "l_conflicts t = l_conflicts s" "l_members t = l_members s" "l_log t = l_log s"
    using ext unfolding extended_def by blast
  show ?thesis
  proof (rule new_claim_ok [OF s(1,2) _ s(3-6)])
    fix x key assume x: "x \<in> set (l_claims s)"
    show "\<not> rival en key x c \<and> \<not> rival en key c x"
      using rival_key [of en key x c] none [of key x] x s(3) sql_incompatible_sym [OF sym, of x c]
      unfolding candidate_incompatible_def by auto
  qed
qed

lemma extended_join:
  assumes ext: "extended en c s" and sym: "sql_symmetric en" and key: "cl_claim_key c = Some key"
    and n: "length (detection_candidates c key s) \<le> MAX_CURRENT_CLAIMS_PER_KEY_COMPARISON"
    and ids: "set ids = insert (cl_id c) (cl_id ` set (filter (candidate_incompatible en c) (detection_candidates c key s)))"
    and run: "detection_join en ti c key ids s t"
  shows "ledger_ok en t"
proof -
  obtain s0 where s0: "ledger_ok en s0" "fresh_claim s0 c" "l_claims s = l_claims s0 @ [c]"
     "l_conflicts s = l_conflicts s0" "l_members s = l_members s0" "l_log s = l_log s0"
    using ext unfolding extended_def by blast
  obtain ob u v w tr where r: "observe_conflict ti key s = Inr (ob, u)"
      "tx_each (insert_member (ob_id ob)) ids u = Inr ((), v)" "dispute_members ti ids v = Inr (tr, w)"
      "same_core w t"
    using run unfolding detection_join_def by blast
  have rows: "conflict_rows_ok (l_conflicts s)" using s0(1,4) by (simp add: ledger_ok_def tables_ok_def)
  note O = observe_rows [OF rows r(1)] and M = insert_members_result [OF r(2)] and D = dispute_members_result [OF r(3)]
  have C: "set (detection_candidates c key s) = {x \<in> set (l_claims s). on_key key x \<and> cl_id x \<noteq> cl_id c}"
    by (rule candidates_complete [OF n])
  have on: "on_key key c" using key s0(2) by (simp add: on_key_def fresh_claim_def)
  have carried: "rows_carried s0 t"
    using O(4) M(3) D(2) r(4) s0(4) by (simp add: rows_carried_def same_core_def)
  have "joining en ti s0 t c key (ob_id ob) (set ids)"
    unfolding joining_def
  proof (intro conjI)
    show "l_claims t = map (disputed_by ti (set ids)) (l_claims s0 @ [c])" "l_log t = l_log s0"
      "set (l_members t) = set (l_members s0) \<union> {ob_id ob} \<times> set ids"
      using O(1-3) M D r(4) s0(3-6) by (simp_all add: same_core_def)
    show "conflict_rows_ok (l_conflicts t)"
      "\<exists>f\<in>set (l_conflicts t). v2_row key f \<and> cf_id f = ob_id ob \<and> cf_state f = ''open''"
      using O(4) M(3) D(2) r(4) by (simp_all add: same_core_def)
    show "\<forall>i\<in>set ids. \<exists>x\<in>set (l_claims s0 @ [c]). cl_id x = i \<and> on_key key x"
      using ids C s0(3) on by auto
    show "\<forall>x\<in>set (l_claims s0). on_key key x \<and> cl_conflict_eligible x \<and> sql_incompatible (e_sql_eq en) x c
        \<longrightarrow> cl_id x \<in> set ids"
      using ids C s0(2,3) by (auto simp: candidate_incompatible_def fresh_claim_def)
  qed (use s0 on ids carried in auto)
  with joining_ok sym show ?thesis by blast
qed

lemma detect_ok:
  assumes sym: "sql_symmetric en" and d: "describes p c"
  shows "triple (extended en c) (detect_and_observe en ti sc c p own) (\<lambda>_. ledger_ok en)"
proof (cases "pc_conflict_eligible p \<and> pc_claim_key p \<noteq> None \<and> pc_value p \<noteq> None")
  case True
  then obtain key val where kv: "pc_conflict_eligible p" "pc_claim_key p = Some key" "pc_value p = Some val"
    by auto
  have key: "cl_claim_key c = Some key" using kv d by (simp add: describes_def)
  show ?thesis
  proof (rule detect_eligible [OF kv])
    fix s assume a: "extended en c s" "length (detection_candidates c key s) \<le> MAX_CURRENT_CLAIMS_PER_KEY_COMPARISON"
      "filter (candidate_incompatible en c) (detection_candidates c key s) = []"
    show "ledger_ok en s"
      by (rule extended_alone [OF a(1) sym])
         (use a(3) key candidates_complete [OF a(2)] in \<open>auto simp: filter_empty_conv\<close>)
  qed (rule extended_join [OF _ sym key])
next
  case False
  have "ledger_ok en s" if "extended en c s" for s
  proof (rule extended_alone [OF that sym])
    assume "cl_conflict_eligible c"
    moreover have "claim_checks c" using that by (auto simp: extended_def fresh_claim_def)
    ultimately show "\<not> candidate_incompatible en c x" for x
      using False d by (auto simp: claim_checks_def describes_def)
  qed
  then show ?thesis
    using False by (auto simp: detect_and_observe_def triple_def tx_simps split: option.splits bool.splits)
qed

subsection \<open>Record\<close>

lemma ok_core: "respecting same_core m \<Longrightarrow> triple (ledger_ok en) m (\<lambda>_. ledger_ok en)"
  by (rule triple_core [OF core_stable_ok])

lemma replay_ok:
  assumes "triple (ledger_ok en) body (\<lambda>_. ledger_ok en)"
  shows "triple (ledger_ok en) (tx_then (replay_or_reserve d sc key request op)
    (\<lambda>r. case r of None \<Rightarrow> body | Some m \<Rightarrow> tx_ret m)) (\<lambda>_. ledger_ok en)"
  by (rule triple_then [OF ok_core [OF core_replay]]) (intro triple_option assms triple_ret)

lemma project_detect_ok:
  assumes sym: "sql_symmetric en" and "\<And>c support x. triple (ledger_ok en) (f c support x) Q"
  shows "triple (ledger_ok en)
    (tx_then (insert_claim_projection en ti sc i p passages model payload) (\<lambda>(c, support).
       tx_then (detect_and_observe en ti sc c p own) (f c support))) Q"
proof (rule triple_then [OF projection_extends])
  fix x :: "claim \<times> claim_support list"
  obtain c support where x: "x = (c, support)" by (cases x)
  have d: "describes p (new_claim ti sc i p)" by (rule describes_new)
  show "triple (case x of (c, rows) \<Rightarrow> \<lambda>s. extended en c s \<and> c = new_claim ti sc i p)
      (case x of (c, support) \<Rightarrow> tx_then (detect_and_observe en ti sc c p own) (f c support)) Q"
    unfolding x prod.case
  proof (rule triple_then [where R = "\<lambda>_. ledger_ok en"])
    show "triple (\<lambda>s. extended en c s \<and> c = new_claim ti sc i p) (detect_and_observe en ti sc c p own)
       (\<lambda>_. ledger_ok en)"
      using detect_ok [OF sym d, of ti sc own] unfolding triple_def by blast
  qed (rule assms(2))
qed

lemmas core_tail = core.respects_rules core_events core_audit

lemma record_once_ok:
  assumes sym: "sql_symmetric en"
  shows "triple (ledger_ok en) (record_once en ti sc i p passages model key request own) (\<lambda>_. ledger_ok en)"
  unfolding record_once_def Let_def
  apply (rule replay_ok)
  apply (rule triple_then [OF triple_read_keep [OF read_only_require_model]])
  apply (rule project_detect_ok [OF sym])
  apply (rule ok_core)
  apply (intro core_tail)
  done

subsection \<open>Retract\<close>

lemma view_after:
  assumes lin: "lock_lineages key s = Inr (lineage, u)" and cur: "lock_current_claims key s = Inr (cur, v)"
    and ret: "retires ids s t"
  shows "key_view key lineage (filter (\<lambda>c. lk_id c \<notin> ids) cur) t"
  unfolding key_view_def
proof (intro allI impI conjI)
  fix l assume "lineage = Some l" "lin_state l = Open"
  then obtain f where "f \<in> set (l_conflicts s)" "v2_row key f" "cf_state f = ''open''" "cf_id f = lin_id l"
      "cf_revision f = lin_revision l"
    using lock_lineages_open [of key s l u] lin by blast
  then show "\<exists>f\<in>set (l_conflicts t). v2_row key f \<and> open_v2_at (lin_id l) (lin_revision l) f"
    using ret by (auto simp: retires_def open_v2_at_def v2_row_def)
  show "set (filter (\<lambda>c. lk_id c \<notin> ids) cur) = decode_locked_claim ` {c \<in> set (l_claims t). on_key key c}"
    unfolding retires_current(1) [OF ret] using lock_current_claims_complete(5) [OF cur] by auto
  show "length (filter (on_key key) (l_claims t)) \<le> MAX_CURRENT_CLAIMS_PER_KEY_COMPARISON"
    using retires_current(2) [OF ret, of key] lock_current_claims_complete(3) [OF cur] by linarith
qed

text \<open>The locked target names the target claim and holds the rest of its key.\<close>

lemma lock_owned_target_result:
  assumes "lock_owned_target sc target row s = Inr (l, s)"
  shows "lt_conflict_key l = Some key \<Longrightarrow> lock_lineages key s = Inr (lt_lineage l, s)"
    and "lt_conflict_key l = Some key \<Longrightarrow> \<exists>cur. lock_current_claims key s = Inr (cur, s)
      \<and> lt_remaining l = filter (\<lambda>c. lk_id c \<notin> {lk_id (lt_claim l)}) cur"
proof -
  let ?key = "if lk_conflict_eligible (tr_claim row) then tr_claim_key row else None"
  have both: "lock_lineages key s = Inr (lt_lineage l, s) \<and> (\<exists>cur. lock_current_claims key s = Inr (cur, s)
      \<and> lt_remaining l = filter (\<lambda>c. lk_id c \<notin> {lk_id (lt_claim l)}) cur)" if lk: "lt_conflict_key l = Some key"
  proof (cases ?key)
    case None
    then have "lt_conflict_key l = None"
      using assms unfolding lock_owned_target_def Let_def
      by (auto simp: tx_simps claim_not_found_def split: option.splits)
    with lk show ?thesis by simp
  next
    case (Some k)
    obtain lineage s1 cur s2 where lin: "lock_lineages k s = Inr (lineage, s1)"
        and cur: "lock_current_claims k s1 = Inr (cur, s2)"
        and rest: "(case find (\<lambda>c. lk_id c = ct_claim_id target) cur of
            None \<Rightarrow> tx_then (tx_res (lift_refusal (check_owner_transition (tr_claim row) (sc_agent sc)
                      (ct_expected_revision target))))
                (\<lambda>_. tx_fail (protocol_error ''lifecycle target left the locked current claim set''))
          | Some claim \<Rightarrow> tx_then (tx_res (lift_refusal (check_owner_transition claim (sc_agent sc)
                      (ct_expected_revision target))))
                (\<lambda>_. tx_ret \<lparr>lt_claim = claim, lt_conflict_key = Some k, lt_lineage = lineage,
                     lt_remaining = filter (\<lambda>c. lk_id c \<noteq> ct_claim_id target) cur\<rparr>)) s2 = Inr (l, s)"
      using assms unfolding lock_owned_target_def Let_def Some option.case tx_then_Inr by blast
    have "s1 = s" using read_only_same [OF read_only_lock_lineages lin] .
    moreover have "s2 = s1" using read_only_same [OF read_only_lock_current_claims cur] .
    moreover obtain c where c: "find (\<lambda>c. lk_id c = ct_claim_id target) cur = Some c"
        "l = \<lparr>lt_claim = c, lt_conflict_key = Some k, lt_lineage = lineage,
              lt_remaining = filter (\<lambda>c. lk_id c \<noteq> ct_claim_id target) cur\<rparr>"
      using rest by (auto simp: tx_simps split: option.splits)
    moreover have "lk_id c = ct_claim_id target" using find_SomeD [OF c(1)] by simp
    ultimately show ?thesis using lk lin cur by simp
  qed
  then show "lt_conflict_key l = Some key \<Longrightarrow> lock_lineages key s = Inr (lt_lineage l, s)"
    "lt_conflict_key l = Some key \<Longrightarrow> \<exists>cur. lock_current_claims key s = Inr (cur, s)
      \<and> lt_remaining l = filter (\<lambda>c. lk_id c \<notin> {lk_id (lt_claim l)}) cur"
    by blast+
qed

definition target_view :: "env \<Rightarrow> locked_target \<Rightarrow> ledger \<Rightarrow> bool" where
  "target_view en l s \<longleftrightarrow> ledger_ok en s
     \<and> (\<forall>key. lt_conflict_key l = Some key \<longrightarrow> key_view key (lt_lineage l) (lt_remaining l) s)"

lemma core_stable_view [simp, intro]: "core_stable (target_view en l)"
  unfolding core_stable_def target_view_def using ledger_ok_core key_view_core by blast

lemma transition_view:
  assumes "\<not> is_current st"
  shows "triple (\<lambda>s. ledger_ok en s \<and> lock_owned_target sc target row s = Inr (l, s))
    (transition_owned_claim ti sc (lt_claim l) st) (\<lambda>_. target_view en l)"
  unfolding triple_def
proof (intro allI impI, elim conjE)
  fix s n t assume ok: "ledger_ok en s" and l: "lock_owned_target sc target row s = Inr (l, s)"
    and run: "transition_owned_claim ti sc (lt_claim l) st s = Inr (n, t)"
  have r: "retires {lk_id (lt_claim l)} s t"
    using transition_retires [OF _ assms run] ok by (simp add: ledger_ok_def)
  have "key_view key (lt_lineage l) (lt_remaining l) t" if k: "lt_conflict_key l = Some key" for key
    using lock_owned_target_result [OF l k] view_after [OF _ _ r] by metis
  with retires_ok [OF ok r] show "target_view en l t" by (simp add: target_view_def)
qed

lemma reevaluate_triple:
  "triple (\<lambda>s. ledger_ok en s \<and> key_view key lineage cur s)
     (reevaluate_key en ti sc lineage key cur reason audit) (\<lambda>_. ledger_ok en)"
  unfolding triple_def using reevaluate_ok by blast

lemma target_reevaluate:
  "triple (target_view en l)
     (case lt_conflict_key l of None \<Rightarrow> tx_ret no_effect
      | Some key \<Rightarrow> reevaluate_key en ti sc (lt_lineage l) key (lt_remaining l) (reason key) (audit key))
     (\<lambda>_. ledger_ok en)"
  by (intro triple_option triple_ret triple_pre [OF _ reevaluate_triple]) (auto simp: target_view_def)

lemma retract_once_ok:
  "triple (ledger_ok en) (retract_once en ti sc target reason key request log_closes) (\<lambda>_. ledger_ok en)"
  unfolding retract_once_def Let_def
  apply (rule replay_ok)
  apply (rule triple_then [OF triple_read_keep [OF read_only_read_target]])
  apply (intro triple_option)
   apply (simp add: claim_not_found_def)
  apply (rule triple_then [OF triple_read [OF read_only_lock_owned_target]])
  apply (rule triple_then [OF transition_view], simp)
  apply (rule triple_then [OF triple_core [OF core_stable_view core_events(1)]])
  apply (rule triple_then [OF target_reevaluate])
  apply (rule ok_core)
  apply (intro core_tail core.respects_read [OF read_only_fetch_claim])
  done

subsection \<open>Supersede\<close>

lemma transition_ok:
  "\<not> is_current st \<Longrightarrow> triple (ledger_ok en) (transition_owned_claim ti sc lk st) (\<lambda>_. ledger_ok en)"
  unfolding triple_def using transition_retires retires_ok ledger_ok_def by metis

lemma set_superseded_ok: "triple (ledger_ok en) (set_superseded_by i j) (\<lambda>_. ledger_ok en)"
  unfolding triple_def
proof (intro allI impI)
  fix s x t assume ok: "ledger_ok en s" and run: "set_superseded_by i j s = Inr (x, t)"
  let ?g = "\<lambda>c. if cl_id c = i \<and> cl_state c = Superseded \<and> cl_superseded_by c = None
    then c\<lparr>cl_superseded_by := Some j\<rparr> else c"
  have t: "t = s\<lparr>l_claims := map ?g (l_claims s)\<rparr>"
    using run by (simp add: set_superseded_by_def Let_def tx_simps update_claims_def)
  show "ledger_ok en t"
    by (rule retire_ok [OF ok, where g = ?g]) (auto simp: t keeps_content_def claim_content_def)
qed

lemma reread_reevaluate:
  "triple (ledger_ok en)
     (tx_then (lock_lineages key) (\<lambda>lineage.
      tx_then (if opt_any (\<lambda>l. lin_state l = Open) lineage then lock_current_claims key else tx_ret []) (\<lambda>cur.
      reevaluate_key en ti sc lineage key cur reason audit))) (\<lambda>_. ledger_ok en)"
proof (rule triple_then [OF triple_read [OF read_only_lock_lineages]], rule triple_then)
  let ?read = "\<lambda>lineage. if opt_any (\<lambda>l. lin_state l = Open) lineage then lock_current_claims key else tx_ret []"
  fix lineage cur
  show "triple (\<lambda>s. ledger_ok en s \<and> lock_lineages key s = Inr (lineage, s)) (?read lineage)
      (\<lambda>cur s. (ledger_ok en s \<and> lock_lineages key s = Inr (lineage, s)) \<and> ?read lineage s = Inr (cur, s))"
    by (rule triple_read) auto
  have "key_view key lineage cur s" if "lock_lineages key s = Inr (lineage, s)" "?read lineage s = Inr (cur, s)" for s
  proof (cases "opt_any (\<lambda>l. lin_state l = Open) lineage")
    case True
    with view_after [OF that(1) _ retires_none] that(2) show ?thesis by simp
  next
    case False
    then show ?thesis by (auto simp: key_view_def opt_any_def split: option.splits)
  qed
  then show "triple (\<lambda>s. (ledger_ok en s \<and> lock_lineages key s = Inr (lineage, s)) \<and> ?read lineage s = Inr (cur, s))
      (reevaluate_key en ti sc lineage key cur reason audit) (\<lambda>_. ledger_ok en)"
    by (intro triple_pre [OF _ reevaluate_triple]) blast
qed

lemma supersede_once_ok:
  assumes sym: "sql_symmetric en"
  shows "triple (ledger_ok en)
    (supersede_once en ti sc target reason successor p passages model key request log_closes) (\<lambda>_. ledger_ok en)"
  unfolding supersede_once_def Let_def
  apply (rule replay_ok)
  apply (rule triple_then [OF triple_read_keep [OF read_only_read_target]])
  apply (intro triple_option)
   apply (simp add: claim_not_found_def)
  apply (rule triple_then [OF triple_read_keep], simp)
  apply (rule triple_then [OF triple_read_keep [OF read_only_lock_owned_target]])
  apply (rule triple_then [OF transition_ok], simp)
  apply (rule triple_then [OF triple_read_keep [OF read_only_require_model]])
  apply (rule project_detect_ok [OF sym])
  apply (rule triple_prod)+
  apply (rule triple_then [OF set_superseded_ok])
  apply (intro triple_if triple_fail)
  apply (rule triple_then [OF ok_core [OF core_events(1)]])
  apply (rule triple_then [OF ok_core [OF core_events(2)]])
  apply (rule triple_then [where R = "\<lambda>_. ledger_ok en"])
   apply (intro triple_option triple_ret reread_reevaluate, assumption)
  apply (rule ok_core)
  apply (intro core_tail core.respects_read [OF read_only_fetch_claim])
  done

subsection \<open>Acknowledge and waive\<close>

lemma ok_log: "respecting log_only m \<Longrightarrow> triple (ledger_ok en) m (\<lambda>_. ledger_ok en)"
  unfolding triple_def respecting_def using ledger_ok_log by blast

lemma log_core: "respecting same_core m \<Longrightarrow> respecting log_only m"
  unfolding respecting_def using same_core_log_only by blast

lemma acknowledge_once_ok:
  "triple (ledger_ok en) (acknowledge_once en ti sc t reason key request) (\<lambda>_. ledger_ok en)"
  unfolding acknowledge_once_def Let_def
  by (intro ok_log logged.respects_rules log_append log_core [OF core_replay] log_core [OF core_events(4)]
      log_core [OF core_events(6)] logged.respects_read [OF read_only_lock_open_conflict])

lemma waive_once_ok:
  "triple (ledger_ok en) (waive_once en ti sc t terms key request) (\<lambda>_. ledger_ok en)"
  unfolding waive_once_def Let_def
  by (intro ok_log logged.respects_rules log_append log_core [OF core_replay] log_core [OF core_events(4)]
      log_core [OF core_events(6)] logged.respects_read [OF read_only_lock_open_conflict]
      logged.respects_read [OF read_only_authorship])

subsection \<open>Resolve\<close>

lemma triple_res:
  "(\<And>x. r = Inr x \<Longrightarrow> triple P (f x) Q) \<Longrightarrow> triple P (tx_then (tx_res r) f) Q"
  by (auto simp: triple_def tx_simps)

lemma lock_open_triple:
  "triple (ledger_ok en) (lock_open_conflict t) (\<lambda>l s. ledger_ok en s \<and> lin_state (lx_lineage l) = Open
     \<and> lock_lineages (lx_claim_key l) s = Inr (Some (lx_lineage l), s))"
  unfolding lock_open_conflict_def Let_def
  apply (rule triple_then [OF triple_read_keep], simp)
  apply (intro triple_option triple_if triple_fail)
  apply (rule triple_then [OF triple_read [OF read_only_lock_lineages]])
  apply (intro triple_option triple_if triple_fail)
  apply (rule triple_then [OF triple_read_keep [OF read_only_member_count]])
  apply (intro triple_if triple_fail triple_ret)
  apply simp
  done

text \<open>What a resolve or a dismissal holds once it has locked the conflict and its key.\<close>

definition conflict_locked :: "env \<Rightarrow> locked_conflict \<Rightarrow> locked_key_claim list \<Rightarrow> ledger \<Rightarrow> bool" where
  "conflict_locked en l cur s \<longleftrightarrow> ledger_ok en s \<and> lin_state (lx_lineage l) = Open
     \<and> lock_lineages (lx_claim_key l) s = Inr (Some (lx_lineage l), s)
     \<and> lock_current_claims (lx_claim_key l) s = Inr (cur, s)"

lemma lock_key_triple:
  "triple (\<lambda>s. ledger_ok en s \<and> lin_state (lx_lineage l) = Open
       \<and> lock_lineages (lx_claim_key l) s = Inr (Some (lx_lineage l), s))
     (lock_current_claims (lx_claim_key l)) (conflict_locked en l)"
  by (rule triple_post [OF triple_read [OF read_only_lock_current_claims]]) (simp add: conflict_locked_def)

definition conceded_view :: "env \<Rightarrow> locked_conflict \<Rightarrow> concession \<Rightarrow> ledger \<Rightarrow> bool" where
  "conceded_view en l con s \<longleftrightarrow> ledger_ok en s \<and> key_view (lx_claim_key l) (Some (lx_lineage l)) (con_remaining con) s"

lemma concession_view:
  assumes "plan_concession k agent ids members cur = Inr con"
  shows "triple (conflict_locked en l cur) (tx_each (retract_conceded ti sc k reason key) (con_retracted con))
    (\<lambda>_. conceded_view en l con)"
  unfolding triple_def
proof (intro allI impI)
  fix s x t assume s: "conflict_locked en l cur s"
    and run: "tx_each (retract_conceded ti sc k reason key) (con_retracted con) s = Inr (x, t)"
  note P = plan_concession_Inr [OF assms]
  have "retires (lk_id ` set (con_retracted con)) s t"
    using retract_conceded_retires [OF _ run, of en] s by (simp add: conflict_locked_def)
  then have r: "retires (set ids) s t" using P(1) by (metis list.set_map)
  have "key_view (lx_claim_key l) (Some (lx_lineage l)) (con_remaining con) t"
    using view_after [OF _ _ r] s P(2) by (auto simp: conflict_locked_def)
  with retires_ok [OF _ r] s show "conceded_view en l con t"
    by (simp add: conceded_view_def conflict_locked_def)
qed

lemma concession_close:
  assumes "plan_reevaluation fmt (Some (lx_lineage l)) (con_remaining con) pairs ex = Close k rv cands n"
    and "vc_conflict_id vc = lin_id (lx_lineage l)" "vc_conflict_revision vc = lin_revision (lx_lineage l)"
      "vc_claim_key vc = lx_claim_key l" "vc_restore_candidates vc = cands"
  shows "triple (\<lambda>s. (conceded_view en l con s \<and> key_incompatible_pairs en (lx_claim_key l) s = Inr (pairs, s))
       \<and> excluded_dismissed_pairs (lin_id (lx_lineage l)) s = Inr (ex, s))
     (apply_verified_close en ti sc vc audit) (\<lambda>_. ledger_ok en)"
  unfolding triple_def conceded_view_def
proof (intro allI impI, elim conjE)
  fix s x t assume s: "ledger_ok en s" "key_view (lx_claim_key l) (Some (lx_lineage l)) (con_remaining con) s"
    "key_incompatible_pairs en (lx_claim_key l) s = Inr (pairs, s)"
    "excluded_dismissed_pairs (lin_id (lx_lineage l)) s = Inr (ex, s)"
    and run: "apply_verified_close en ti sc vc audit s = Inr (x, t)"
  show "ledger_ok en t"
    by (rule planned_close_ok [OF s(1,2,3) excluded_judged(2) [OF s(4)] assms run])
qed

lemma triple_reevaluation:
  "triple P a Q \<Longrightarrow> triple P b Q \<Longrightarrow> (\<And>i r p n. m = StillOpen i r p n \<Longrightarrow> triple P (f i r p n) Q) \<Longrightarrow>
   (\<And>i r p n. m = Close i r p n \<Longrightarrow> triple P (g i r p n) Q) \<Longrightarrow>
   (\<And>i r p n. m = Divergent i r p n \<Longrightarrow> triple P (h i r p n) Q) \<Longrightarrow>
   triple P (case m of NoLineage \<Rightarrow> a | LineageNotOpen \<Rightarrow> b | StillOpen i r p n \<Rightarrow> f i r p n
     | Close i r p n \<Rightarrow> g i r p n | Divergent i r p n \<Rightarrow> h i r p n) Q"
  by (cases m) auto

lemma resolve_once_ok:
  "triple (ledger_ok en) (resolve_once en ti sc t ids reason key request) (\<lambda>_. ledger_ok en)"
  unfolding resolve_once_def Let_def
  apply (rule replay_ok)
  apply (rule triple_then [OF lock_open_triple])
  apply (rule triple_then [OF lock_key_triple])
  apply (rule triple_then [OF triple_read_keep [OF read_only_members_among]])
  apply (rule triple_res)
  apply (rule triple_then [OF concession_view], assumption)
  apply (rule triple_then [OF triple_read [OF read_only_key_pairs]])
  apply (rule triple_then [OF triple_read [OF read_only_excluded]])
  apply (intro triple_reevaluation triple_fail)
  apply (rule triple_then [OF concession_close], assumption, simp, simp, simp, simp)
  apply (rule ok_core)
  apply (intro core_tail)
  done

subsection \<open>Dismiss\<close>

lemma append_logged:
  assumes "append_lifecycle_event en ti sc d s = Inr (e, t)"
  shows "log_only s t" and "\<exists>r\<in>set (l_log t). lg_conflict_id r = ed_conflict_id d
    \<and> ev_kind (lg_event r) = ed_kind d \<and> ev_payload (lg_event r) = Some (ed_payload d)"
proof -
  show "log_only s t" using log_append(1) assms by (auto simp: respecting_def)
  show "\<exists>r\<in>set (l_log t). lg_conflict_id r = ed_conflict_id d
    \<and> ev_kind (lg_event r) = ed_kind d \<and> ev_payload (lg_event r) = Some (ed_payload d)"
    using assms unfolding append_lifecycle_event_def insert_lifecycle_event_def Let_def
    by (auto simp: tx_simps draft_event_def next_event_seq_def split: if_splits)
qed

lemma dismissal_payload_get:
  "json_get (jobj [(''dismissed_pairs'', a), (''restored_claim_ids'', b), (''members_checked'', c),
     (''current_claim_ids'', d)]) ''dismissed_pairs'' = Some a"
  by (simp add: jobj_def btree_collect_def map_of_btree_insert del: btree_insert.simps)

lemma rival_pair_bounds:
  assumes "tables_ok s" "a \<in> set (l_claims s)" "b \<in> set (l_claims s)" "rival en key a b"
  shows "1 \<le> cl_id a \<and> cl_id a < cl_id b \<and> cl_id b \<le> i64_max"
  using tables_okD(3) [OF assms(1,2)] tables_okD(3) [OF assms(1,3)] rival_ids [OF assms(4)]
  by (simp add: claim_checks_def safe_int_def i64_max_def)

lemma dismissal_ok:
  assumes locked: "conflict_locked en l cur s"
    and pairs: "key_incompatible_pairs en (lx_claim_key l) s = Inr (pairs, s)"
    and plan: "plan_dismissal fmt k cur pairs = Inr plan" and k: "k = lin_id (lx_lineage l)"
    and cl: "close_conflict ti k (lin_revision (lx_lineage l)) ''dismissed'' kind reason s = Inr (n, u)"
    and re: "restore_disputed_members ti sc k n (lx_claim_key l) reason' (dp_restore_candidates plan) ikey u = Inr (ids, v)"
    and ap: "append_lifecycle_event en ti sc d v = Inr (e, t)"
    and d: "ed_conflict_id d = k" "ed_kind d = ''dismissed''"
      "json_get (ed_payload d) ''dismissed_pairs'' = Some (JArray (map jpair (dp_dismissed_pairs plan)))"
  shows "ledger_ok en t"
proof -
  let ?key = "lx_claim_key l" and ?lin = "lx_lineage l"
  have ok: "ledger_ok en s" and tab: "tables_ok s" using locked by (simp_all add: conflict_locked_def ledger_ok_def)
  have "key_view ?key (Some ?lin) cur s"
    using view_after [OF _ _ retires_none, of ?key s] locked by (simp add: conflict_locked_def)
  then obtain f where f: "f \<in> set (l_conflicts s)" "v2_row ?key f" "open_v2_at k (lin_revision ?lin) f"
    and cur: "set cur = decode_locked_claim ` {c \<in> set (l_claims s). on_key ?key c}"
    and len: "length (filter (on_key ?key) (l_claims s)) \<le> MAX_CURRENT_CLAIMS_PER_KEY_COMPARISON"
    using locked by (auto simp: key_view_def conflict_locked_def k)
  note P = key_pairs_complete(2) [OF len pairs]
  have lt: "\<And>p. p \<in> set pairs \<Longrightarrow> fst p < snd p" using P rival_ids by fastforce
  have plan': "dp_restore_candidates plan = disputed_ids cur" "length (dp_dismissed_pairs plan) \<le> MAX_DISMISSED_PAIRS"
      "dp_dismissed_pairs plan = normalized_pairs pairs"
    using plan by (auto simp: plan_dismissal_def Let_def split: if_splits)
  have set: "set (dp_dismissed_pairs plan) = set pairs" using plan'(3) normalized_pairs_id [OF lt] by simp
  have "dismissed_pairs [JArray (map jpair (dp_dismissed_pairs plan))] = Inr (set pairs)"
    using dismissed_pairs_jpairs [OF plan'(2)] rival_pair_bounds [OF tab] set P by fastforce
  then have ver: "judged t k p" if "p \<in> set pairs" for p
    using append_logged(2) [OF ap] that d unfolding judged_def event_pairs_def by fastforce
  show ?thesis
  proof (rule close_restore_ok [OF ok f _ cl re append_logged(1) [OF ap]])
    show "cl_id c \<in> set (dp_restore_candidates plan) \<longleftrightarrow> cl_state c = Disputed \<and> on_key ?key c"
      if "c \<in> set (l_claims s)" for c
      using disputed_candidates [OF tab cur that] plan'(1) by simp
    show "judged t k (cl_id a, cl_id b)"
      if "a \<in> set (l_claims s)" "b \<in> set (l_claims s)" "rival en ?key a b" for a b
      using ver that P by blast
  qed simp
qed

lemma dismissal_triple:
  assumes "plan_dismissal fmt (lin_id (lx_lineage l)) cur pairs = Inr plan"
    and "\<And>n ids. ed_conflict_id (d n ids) = lin_id (lx_lineage l)" "\<And>n ids. ed_kind (d n ids) = ''dismissed''"
      "\<And>n ids. json_get (ed_payload (d n ids)) ''dismissed_pairs'' = Some (JArray (map jpair (dp_dismissed_pairs plan)))"
    and rest: "\<And>n ids e. triple (ledger_ok en) (rest n ids e) (\<lambda>_. ledger_ok en)"
  shows "triple (\<lambda>s. conflict_locked en l cur s \<and> key_incompatible_pairs en (lx_claim_key l) s = Inr (pairs, s))
    (tx_then (close_conflict ti (lin_id (lx_lineage l)) (lin_revision (lx_lineage l)) ''dismissed'' kind reason) (\<lambda>n.
     tx_then (restore_disputed_members ti sc (lin_id (lx_lineage l)) n (lx_claim_key l) reason'
        (dp_restore_candidates plan) key) (\<lambda>ids.
     tx_then (append_lifecycle_event en ti sc (d n ids)) (rest n ids)))) (\<lambda>_. ledger_ok en)"
  apply (rule triple_then [OF triple_run])
  apply (rule triple_then [OF triple_run])
  apply (rule triple_then [OF triple_post [OF triple_run]])
   apply (elim exE conjE)
   apply (rule dismissal_ok, assumption, assumption, rule assms(1), rule refl, assumption, assumption, assumption)
     apply (rule assms)+
  done

lemma dismiss_once_ok:
  "triple (ledger_ok en) (dismiss_once en ti sc t terms key request) (\<lambda>_. ledger_ok en)"
  unfolding dismiss_once_def Let_def
  apply (rule replay_ok)
  apply (rule triple_then [OF lock_open_triple])
  apply (rule triple_then [OF triple_read_keep [OF read_only_authorship]])
  apply (rule triple_res)
  apply (rule triple_then [OF lock_key_triple])
  apply (rule triple_then [OF triple_read [OF read_only_key_pairs]])
  apply (rule triple_res)
  apply (rule dismissal_triple)
      apply (simp add: lift_refusal_Inr)
     apply simp
    apply simp
   apply (simp add: dismissal_payload_get)
  apply (rule ok_core)
  apply (intro core_tail)
  done

end
