(* ===== verification/Ledger_Receipts.thy ===== *)
theory Ledger_Receipts
  imports Ledger_Mutations
begin

section \<open>Receipts and idempotent replay\<close>

text \<open>
  Every committed mutation leaves a receipt that holds its response, under its key, its
  operation and its request. A receipt never changes once it is answered, and a repeated
  request is answered from it without touching the ledger.
\<close>

subsection \<open>A body that ends by completing its receipt\<close>

definition completes :: "env \<Rightarrow> fleet_scope \<Rightarrow> ustr \<Rightarrow> json \<Rightarrow> string \<Rightarrow> lifecycle_mutation \<Rightarrow> unit tx" where
  "completes en sc key request op m = (case m of
      ClaimResponse c \<Rightarrow> finish_claim_receipt en sc key request op c
    | ConflictResponse c \<Rightarrow> finish_conflict_receipt en sc key request op c)"

definition finishes :: "env \<Rightarrow> fleet_scope \<Rightarrow> ustr \<Rightarrow> json \<Rightarrow> string \<Rightarrow> (lifecycle_mutation \<Rightarrow> bool)
    \<Rightarrow> lifecycle_mutation tx \<Rightarrow> bool" where
  "finishes en sc key request op d body \<longleftrightarrow> (\<forall>s m t. body s = Inr (m, t) \<longrightarrow>
     d m \<and> (\<exists>u v. receipts_grow s u \<and> completes en sc key request op m u = Inr (v, t)))"

lemma finishes_then:
  assumes "respecting receipts_grow m" and "\<And>x. finishes en sc key request op d (f x)"
  shows "finishes en sc key request op d (tx_then m f)"
  unfolding finishes_def
proof (intro allI impI)
  fix s r t assume "tx_then m f s = Inr (r, t)"
  then obtain x s1 where a: "m s = Inr (x, s1)" "f x s1 = Inr (r, t)" unfolding tx_then_Inr by blast
  then obtain u v where "d r" "receipts_grow s1 u" "completes en sc key request op r u = Inr (v, t)"
    using assms(2) [of x] unfolding finishes_def by blast
  moreover have "receipts_grow s s1" using a(1) assms(1) by (simp add: respecting_def)
  ultimately show "d r \<and> (\<exists>u v. receipts_grow s u \<and> completes en sc key request op r u = Inr (v, t))"
    using headers.rel_trans by blast
qed

lemma finishes_claim:
  "finishes en sc key request op is_claim_response
     (tx_then (finish_claim_receipt en sc key request op m) (\<lambda>_. tx_ret (ClaimResponse m)))"
  unfolding finishes_def completes_def using headers.rel_refl by (auto simp: tx_simps)

lemma finishes_conflict:
  "finishes en sc key request op is_conflict_response
     (tx_then (finish_conflict_receipt en sc key request op m) (\<lambda>_. tx_ret (ConflictResponse m)))"
  unfolding finishes_def completes_def using headers.rel_refl by (auto simp: tx_simps)

lemma finishes_fail:
  "finishes en sc key request op d (tx_fail e)" "finishes en sc key request op d (tx_refuse c j)"
  by (simp_all add: finishes_def tx_simps)

lemma finishes_if:
  "finishes en sc key request op d a \<Longrightarrow> finishes en sc key request op d b \<Longrightarrow>
   finishes en sc key request op d (if c then a else b)"
  by simp

lemma finishes_option:
  "finishes en sc key request op d a \<Longrightarrow> (\<And>x. finishes en sc key request op d (f x)) \<Longrightarrow>
   finishes en sc key request op d (case m of None \<Rightarrow> a | Some x \<Rightarrow> f x)"
  by (cases m) auto

lemma finishes_prod:
  "(\<And>x y. finishes en sc key request op d (f x y)) \<Longrightarrow>
   finishes en sc key request op d (case p of (x, y) \<Rightarrow> f x y)"
  by (cases p) auto

lemma finishes_reevaluation:
  "finishes en sc key request op d a \<Longrightarrow> finishes en sc key request op d b \<Longrightarrow>
   (\<And>i r p n. finishes en sc key request op d (f i r p n)) \<Longrightarrow>
   (\<And>i r p n. finishes en sc key request op d (g i r p n)) \<Longrightarrow>
   (\<And>i r p n. finishes en sc key request op d (h i r p n)) \<Longrightarrow>
   finishes en sc key request op d (case m of NoLineage \<Rightarrow> a | LineageNotOpen \<Rightarrow> b
     | StillOpen i r p n \<Rightarrow> f i r p n | Close i r p n \<Rightarrow> g i r p n | Divergent i r p n \<Rightarrow> h i r p n)"
  by (cases m) auto

lemmas finishes_rules = finishes_claim finishes_conflict finishes_fail finishes_if finishes_option
  finishes_prod finishes_reevaluation

lemmas grow_rules = headers.respects_rules headers.rel_reads headers.rel_writes headers.rel_retract_conceded

text \<open>The body of a mutation, after its receipt was looked up and reserved.\<close>

definition replaying :: "env \<Rightarrow> fleet_scope \<Rightarrow> ustr \<Rightarrow> json \<Rightarrow> string \<Rightarrow> (lifecycle_mutation \<Rightarrow> bool)
    \<Rightarrow> lifecycle_mutation tx \<Rightarrow> bool" where
  "replaying en sc key request op d m \<longleftrightarrow> (\<exists>body. finishes en sc key request op d body
     \<and> m = tx_then (replay_or_reserve d sc key request op)
             (\<lambda>r. case r of None \<Rightarrow> body | Some x \<Rightarrow> tx_ret x))"

lemma replayingI:
  "finishes en sc key request op d body \<Longrightarrow>
   replaying en sc key request op d (tx_then (replay_or_reserve d sc key request op)
     (\<lambda>r. case r of None \<Rightarrow> body | Some x \<Rightarrow> tx_ret x))"
  unfolding replaying_def by blast

lemma replaying_record:
  "replaying en sc key request RECORD_OPERATION is_claim_response
     (record_once en ti sc i p passages model key request own)"
  unfolding record_once_def Let_def
  by (rule replayingI, (rule finishes_rules | rule finishes_then, (intro grow_rules; fail))+)

lemma replaying_retract:
  "replaying en sc key request RETRACT_OPERATION is_claim_response
     (retract_once en ti sc t reason key request log_closes)"
  unfolding retract_once_def Let_def claim_not_found_def
  by (rule replayingI, (rule finishes_rules | rule finishes_then, (intro grow_rules; fail))+)

lemma replaying_supersede:
  "replaying en sc key request SUPERSEDE_OPERATION is_claim_response
     (supersede_once en ti sc t reason i p passages model key request log_closes)"
  unfolding supersede_once_def Let_def claim_not_found_def
  by (rule replayingI, (rule finishes_rules | rule finishes_then, (intro grow_rules; fail))+)

lemma replaying_acknowledge:
  "replaying en sc key request ACKNOWLEDGE_OPERATION is_conflict_response
     (acknowledge_once en ti sc x reason key request)"
  unfolding acknowledge_once_def Let_def
  by (rule replayingI, (rule finishes_rules | rule finishes_then, (intro grow_rules; fail))+)

lemma replaying_resolve:
  "replaying en sc key request RESOLVE_OPERATION is_conflict_response
     (resolve_once en ti sc x ids reason key request)"
  unfolding resolve_once_def Let_def
  by (rule replayingI, (rule finishes_rules | rule finishes_then, (intro grow_rules; fail))+)

lemma replaying_dismiss:
  "replaying en sc key request DISMISS_OPERATION is_conflict_response
     (dismiss_once en ti sc x terms key request)"
  unfolding dismiss_once_def Let_def
  by (rule replayingI, (rule finishes_rules | rule finishes_then, (intro grow_rules; fail))+)

lemma replaying_waive:
  "replaying en sc key request WAIVE_OPERATION is_conflict_response
     (waive_once en ti sc x wterms key request)"
  unfolding waive_once_def Let_def
  by (rule replayingI, (rule finishes_rules | rule finishes_then, (intro grow_rules; fail))+)

subsection \<open>The receipt a mutation leaves\<close>

text \<open>The receipt of a committed mutation that answered \<open>m\<close> (or replayed it).\<close>

definition answered :: "fleet_scope \<Rightarrow> ustr \<Rightarrow> json \<Rightarrow> string \<Rightarrow> (lifecycle_mutation \<Rightarrow> bool)
    \<Rightarrow> lifecycle_mutation \<Rightarrow> ledger \<Rightarrow> bool" where
  "answered sc key request op d m s \<longleftrightarrow> (\<exists>r m'. select_receipt key s = Some r \<and> rc_project r = sc_project sc
     \<and> rc_operation r = op \<and> json_eq (rc_request r) request \<and> rc_response r = Some m' \<and> d m'
     \<and> mark_replayed m = mark_replayed m')"

definition receipts_ok :: "ledger \<Rightarrow> bool" where
  "receipts_ok s \<longleftrightarrow> distinct (map rc_idempotency_key (l_receipts s))"

lemma receipts_ok_grow: "receipts_grow s t \<Longrightarrow> receipts_ok s \<Longrightarrow> receipts_ok t"
  by (simp add: receipts_grow_def receipts_ok_def)

lemma mark_replayed_idem [simp]: "mark_replayed (mark_replayed m) = mark_replayed m"
  by (cases m) (simp_all add: mark_replayed_def)

lemma select_receiptI:
  assumes "receipts_ok s" and "r \<in> set (l_receipts s)" and "rc_idempotency_key r = key"
  shows "select_receipt key s = Some r"
proof (cases "select_receipt key s")
  case None
  then show ?thesis using assms(2,3) by (auto simp: select_receipt_def find_None_iff)
next
  case (Some r')
  then have "r' \<in> set (l_receipts s)" "rc_idempotency_key r' = key"
    by (auto simp: select_receipt_def dest: find_SomeD)
  then have "r' = r" using assms by (auto simp: receipts_ok_def distinct_map dest: inj_onD)
  with Some show ?thesis by simp
qed

lemma receipts_grow_header:
  assumes "receipts_grow s t" and "r \<in> set (l_receipts s)"
  shows "\<exists>r'\<in>set (l_receipts t). receipt_header r' = receipt_header r"
proof -
  have "set (map receipt_header (l_receipts s)) \<subseteq> set (map receipt_header (l_receipts t))"
    using assms(1) unfolding receipts_grow_def by (meson set_mono_prefix)
  with assms(2) show ?thesis by fastforce
qed

lemma completes_answer:
  assumes run: "completes en sc key request op m u = Inr (v, t)" and "d m" and ok: "receipts_ok u"
    and r: "r \<in> set (l_receipts u)" "receipt_header r = (key, sc_project sc, req, op)" and eq: "json_eq req request"
  shows "answered sc key request op d m t"
proof -
  obtain upd where fin: "finish_receipt en sc key request op upd u = Inr (v, t)"
    and upd: "\<And>r. receipt_header (upd r) = receipt_header r" "\<And>r. rc_response (upd r) = Some m"
    using run by (cases m) (auto simp: completes_def finish_claim_receipt_def finish_conflict_receipt_def
        receipt_header_def)
  let ?f = "\<lambda>r. if receipt_matches en sc key request op r then upd r else r"
  from fin have len: "length (filter (receipt_matches en sc key request op) (l_receipts u)) = 1"
    and t: "l_receipts t = map ?f (l_receipts u)"
    by (auto simp: finish_receipt_def tx_simps split: if_splits)
  then obtain x where "filter (receipt_matches en sc key request op) (l_receipts u) = [x]"
    by (auto simp: length_Suc_conv)
  then have "x \<in> set (filter (receipt_matches en sc key request op) (l_receipts u))" by simp
  then have x: "x \<in> set (l_receipts u)" "receipt_matches en sc key request op x" by auto
  then have "rc_idempotency_key x = rc_idempotency_key r"
    using r(2) by (simp add: receipt_matches_def receipt_header_def)
  then have xr: "x = r" using x(1) r(1) ok by (auto simp: receipts_ok_def distinct_map dest: inj_onD)
  have grow: "receipts_grow u t" by (rule receipts_grow_map [OF _ t]) (simp add: upd)
  have row: "upd r \<in> set (l_receipts t)" "receipt_header (upd r) = (key, sc_project sc, req, op)"
    using x xr r(2) upd(1) by (auto simp: t)
  then have "select_receipt key t = Some (upd r)"
    by (intro select_receiptI receipts_ok_grow [OF grow ok]) (simp_all add: receipt_header_def)
  then show ?thesis
    unfolding answered_def using row(2) upd(2) eq assms(2) by (auto simp: receipt_header_def)
qed

lemma replay_or_reserve_cases:
  assumes "replay_or_reserve d sc key request op s = Inr (x, t)"
  obtains m where "x = Some (mark_replayed m)" "t = s" "answered sc key request op d (mark_replayed m) s"
  | r where "x = None" "select_receipt key s = None" "l_receipts t = l_receipts s @ [r]"
      "receipt_header r = (key, sc_project sc, request, op)"
  using assms
  by (cases "select_receipt key s")
     (auto simp: replay_or_reserve_def reserve_receipt_def tx_simps decode_receipt_values_def res_simps
       answered_def receipt_header_def split: if_splits)

lemma replaying_answers:
  assumes rep: "replaying en sc key request op d m" and run: "m s = Inr (x, t)"
    and ok: "receipts_ok s" and wf: "wf_json request"
  shows "answered sc key request op d x t"
proof -
  obtain body where fin: "finishes en sc key request op d body"
    and m: "m = tx_then (replay_or_reserve d sc key request op) (\<lambda>r. case r of None \<Rightarrow> body | Some x \<Rightarrow> tx_ret x)"
    using rep unfolding replaying_def by blast
  then obtain y u where a: "replay_or_reserve d sc key request op s = Inr (y, u)"
    and b: "(case y of None \<Rightarrow> body | Some x \<Rightarrow> tx_ret x) u = Inr (x, t)"
    using run unfolding m tx_then_Inr by blast
  have grow: "receipts_grow s u" using headers.rel_replay a by (auto simp: respecting_def)
  from a show ?thesis
  proof (cases rule: replay_or_reserve_cases)
    case (1 m')
    with b show ?thesis by (simp add: tx_simps)
  next
    case (2 r)
    then have "body u = Inr (x, t)" using b by simp
    then obtain v w where f: "d x" "receipts_grow u v" "completes en sc key request op x v = Inr (w, t)"
      using fin unfolding finishes_def by blast
    obtain r' where r': "r' \<in> set (l_receipts v)" "receipt_header r' = (key, sc_project sc, request, op)"
      using receipts_grow_header [OF f(2), of r] 2 by auto
    have "json_eq request request" using serde.json_refl [OF wf] by (simp add: json_eq_def)
    moreover have "receipts_ok v" using receipts_ok_grow f(2) grow ok by blast
    ultimately show ?thesis using completes_answer [where d = d, OF f(3,1) _ r'] by blast
  qed
qed

lemma answered_replays:
  assumes "replaying en sc key request op d m" and "answered sc key request op d x s"
  shows "m s = Inr (mark_replayed x, s)"
proof -
  obtain r m' where "select_receipt key s = Some r" "rc_project r = sc_project sc" "rc_operation r = op"
      "json_eq (rc_request r) request" "rc_response r = Some m'" "d m'" "mark_replayed x = mark_replayed m'"
    using assms(2) unfolding answered_def by blast
  then have "replay_or_reserve d sc key request op s = Inr (Some (mark_replayed x), s)"
    by (simp add: replay_or_reserve_def tx_simps decode_receipt_values_def ok_or_def)
  then show ?thesis
    using assms(1) unfolding replaying_def by (auto simp: tx_simps)
qed

end
