(* ===== verification/Ledger_Steps.thy ===== *)
theory Ledger_Steps
  imports Ledger_Receipts
begin

section \<open>The ledger as a state machine\<close>

text \<open>
  A step of the ledger is one committed call of one of its seven entry points, or a receipt
  another project of the tenant commits. The states reachable from an empty ledger satisfy
  the invariant; along every run claims and conflicts only move forward, the audit tables
  only grow and answered receipts stay as they are.
\<close>

subsection \<open>Calls\<close>

datatype call =
    RecordCall claim_input
  | RetractCall claim_target "ustr option"
  | SupersedeCall claim_target "ustr option" claim_input
  | AcknowledgeCall conflict_target "ustr option"
  | ResolveCall conflict_target "int list" "ustr option"
  | DismissCall conflict_target dismissal_terms
  | WaiveCall conflict_target waiver_terms

definition run_call :: "env \<Rightarrow> ledger_config \<Rightarrow> tx_input \<Rightarrow> (claim_input \<Rightarrow> claim_passage list res)
    \<Rightarrow> fleet_scope \<Rightarrow> call \<Rightarrow> ustr \<Rightarrow> lifecycle_mutation tx" where
  "run_call en lc ti encode sc c idempotency_key = (case c of
      RecordCall i \<Rightarrow> record_claim en lc ti encode sc i idempotency_key
    | RetractCall t reason \<Rightarrow> retract_claim en lc ti sc t reason idempotency_key
    | SupersedeCall t reason i \<Rightarrow> supersede_claim en lc ti encode sc t reason i idempotency_key
    | AcknowledgeCall t reason \<Rightarrow> acknowledge_conflict en lc ti sc t reason idempotency_key
    | ResolveCall t ids reason \<Rightarrow> resolve_conflict en lc ti sc t ids reason idempotency_key
    | DismissCall t terms \<Rightarrow> dismiss_conflict en lc ti sc t terms idempotency_key
    | WaiveCall t terms \<Rightarrow> waive_conflict en lc ti sc t terms idempotency_key)"

definition call_request :: "env \<Rightarrow> fleet_scope \<Rightarrow> call \<Rightarrow> json" where
  "call_request en sc c = (case c of
      RecordCall i \<Rightarrow> record_request en sc i
    | RetractCall t reason \<Rightarrow> retract_request sc t reason
    | SupersedeCall t reason i \<Rightarrow> supersede_request en sc t reason i
    | AcknowledgeCall t reason \<Rightarrow> acknowledge_request sc t reason
    | ResolveCall t ids reason \<Rightarrow> resolve_request sc t (sort_dedup ids) reason
    | DismissCall t terms \<Rightarrow> dismiss_request sc t terms
    | WaiveCall t terms \<Rightarrow> waive_request sc t terms)"

fun call_operation :: "call \<Rightarrow> string" where
  "call_operation (RecordCall _) = RECORD_OPERATION"
| "call_operation (RetractCall _ _) = RETRACT_OPERATION"
| "call_operation (SupersedeCall _ _ _) = SUPERSEDE_OPERATION"
| "call_operation (AcknowledgeCall _ _) = ACKNOWLEDGE_OPERATION"
| "call_operation (ResolveCall _ _ _) = RESOLVE_OPERATION"
| "call_operation (DismissCall _ _) = DISMISS_OPERATION"
| "call_operation (WaiveCall _ _) = WAIVE_OPERATION"

fun is_claim_call :: "call \<Rightarrow> bool" where
  "is_claim_call (RecordCall _) = True"
| "is_claim_call (RetractCall _ _) = True"
| "is_claim_call (SupersedeCall _ _ _) = True"
| "is_claim_call _ = False"

definition call_response :: "call \<Rightarrow> lifecycle_mutation \<Rightarrow> bool" where
  "call_response c = (if is_claim_call c then is_claim_response else is_conflict_response)"

text \<open>The transaction of a call, for a prepared claim and embedded passages.\<close>

definition transaction :: "env \<Rightarrow> ledger_config \<Rightarrow> tx_input \<Rightarrow> fleet_scope \<Rightarrow> call \<Rightarrow> ustr
    \<Rightarrow> prepared_claim \<Rightarrow> claim_passage list \<Rightarrow> lifecycle_mutation tx" where
  "transaction en lc ti sc c key p passages = (let request = call_request en sc c in case c of
      RecordCall i \<Rightarrow> record_once en ti sc i p passages (lc_claim_model lc) key request (lc_refuse_self_dispute lc)
    | RetractCall t reason \<Rightarrow> retract_once en ti sc t reason key request (lc_conflict_lifecycle lc)
    | SupersedeCall t reason i \<Rightarrow> supersede_once en ti sc t reason i p passages (lc_claim_model lc) key request
        (lc_conflict_lifecycle lc)
    | AcknowledgeCall t reason \<Rightarrow> acknowledge_once en ti sc t reason key request
    | ResolveCall t ids reason \<Rightarrow> resolve_once en ti sc t (sort_dedup ids) reason key request
    | DismissCall t terms \<Rightarrow> dismiss_once en ti sc t terms key request
    | WaiveCall t terms \<Rightarrow> waive_once en ti sc t terms key request)"

lemma transaction_replaying:
  "replaying en sc key (call_request en sc c) (call_operation c) (call_response c)
     (transaction en lc ti sc c key p passages)"
  by (cases c) (simp_all add: transaction_def call_response_def replaying_record replaying_retract
      replaying_supersede replaying_acknowledge replaying_resolve replaying_dismiss replaying_waive)

lemma transaction_ok:
  assumes "sql_symmetric en"
  shows "triple (ledger_ok en) (transaction en lc ti sc c key p passages) (\<lambda>_. ledger_ok en)"
  by (cases c) (simp_all add: transaction_def Let_def record_once_ok [OF assms] supersede_once_ok [OF assms]
      retract_once_ok acknowledge_once_ok resolve_once_ok dismiss_once_ok waive_once_ok)

lemma decode_answered:
  "decode_receipt_values d r sc op request = Inr m \<Longrightarrow> select_receipt key s = Some r \<Longrightarrow>
   answered sc key request op d m s"
  by (auto simp: decode_receipt_values_def answered_def res_simps split: if_splits)

lemma validated_key_Inr:
  "validated_idempotency_key k = Inr x \<longleftrightarrow>
     x = trim k \<and> trim k \<noteq> [] \<and> utf8_len (trim k) \<le> MAX_IDEMPOTENCY_KEY_BYTES"
  by (auto simp: validated_idempotency_key_def Let_def)

text \<open>
  Record and supersede answer a known key before they embed anything; that answer is the one
  their transaction would give.
\<close>

lemma outer_replay:
  assumes run: "(case select_receipt key s of
       Some r \<Rightarrow> tx_res (decode_receipt_values (call_response c) r sc (call_operation c) (call_request en sc c))
     | None \<Rightarrow> body) s = Inr (m, t)"
    and body: "body s = Inr (m, t) \<Longrightarrow> \<exists>p passages. transaction en lc ti sc c key p passages s = Inr (m, t)"
  shows "\<exists>p passages. transaction en lc ti sc c key p passages s = Inr (m, t)"
proof (cases "select_receipt key s")
  case None
  with run body show ?thesis by simp
next
  case (Some r)
  with run have d: "decode_receipt_values (call_response c) r sc (call_operation c) (call_request en sc c) = Inr m"
    and t: "t = s" by (simp_all add: tx_simps)
  from d have m: "mark_replayed m = m" by (auto simp: decode_receipt_values_def res_simps split: if_splits)
  from answered_replays [OF transaction_replaying decode_answered [OF d Some]] m t
  show ?thesis by metis
qed

lemma call_equations:
  "call_response (RecordCall i) = is_claim_response" "call_response (SupersedeCall x reason i) = is_claim_response"
  "call_request en sc (RecordCall i) = record_request en sc i"
  "call_request en sc (SupersedeCall x reason i) = supersede_request en sc x reason i"
  by (simp_all add: call_response_def call_request_def)

lemmas call_defs = transaction_def call_request_def call_response_def item_support_unavailable_def Let_def

lemma record_transaction:
  assumes "record_claim en lc ti encode sc i ikey s = Inr (m, t)"
  shows "\<exists>p passages. transaction en lc ti sc (RecordCall i) (trim ikey) p passages s = Inr (m, t)"
proof -
  have actor: "\<not> opt_any (\<lambda>a. a \<noteq> sc_agent sc) (ci_actor i)"
    using assms by (auto simp: record_claim_def tx_simps)
  with assms obtain p where "(case select_receipt (trim ikey) s of
         Some r \<Rightarrow> tx_res (decode_receipt_values is_claim_response r sc RECORD_OPERATION (record_request en sc i))
       | None \<Rightarrow> if cites_items i then item_support_unavailable
           else tx_then (tx_res (encode i)) (\<lambda>passages.
             record_once en ti sc i p passages (lc_claim_model lc) (trim ikey) (record_request en sc i)
               (lc_refuse_self_dispute lc))) s = Inr (m, t)"
    by (auto simp: record_claim_def validated_key_Inr Let_def tx_simps)
  then show ?thesis
    by (rule outer_replay [where c = "RecordCall i", unfolded call_equations call_operation.simps])
       (auto simp: call_defs tx_simps split: if_splits)
qed

lemma supersede_transaction:
  assumes "supersede_claim en lc ti encode sc x reason i ikey s = Inr (m, t)"
  shows "\<exists>p passages. transaction en lc ti sc (SupersedeCall x reason i) (trim ikey) p passages s = Inr (m, t)"
proof -
  have actor: "\<not> opt_any (\<lambda>a. a \<noteq> sc_agent sc) (ci_actor i)"
    using assms by (auto simp: supersede_claim_def tx_simps)
  have "ci_origin i = OPERATOR_ASSERTED_ORIGIN"
    by (rule ccontr) (use assms actor in \<open>auto simp: supersede_claim_def tx_simps\<close>)
  with actor assms obtain p where "(case select_receipt (trim ikey) s of
         Some r \<Rightarrow> tx_res (decode_receipt_values is_claim_response r sc SUPERSEDE_OPERATION
                    (supersede_request en sc x reason i))
       | None \<Rightarrow> if cites_items i then item_support_unavailable
           else tx_then (tx_res (encode i)) (\<lambda>passages.
             supersede_once en ti sc x reason i p passages (lc_claim_model lc) (trim ikey)
               (supersede_request en sc x reason i) (lc_conflict_lifecycle lc))) s = Inr (m, t)"
    by (auto simp: supersede_claim_def validated_key_Inr Let_def tx_simps)
  then show ?thesis
    by (rule outer_replay [where c = "SupersedeCall x reason i", unfolded call_equations call_operation.simps])
       (auto simp: call_defs tx_simps split: if_splits)
qed

lemma call_transaction:
  assumes "run_call en lc ti encode sc c ikey s = Inr (m, t)"
  shows "\<exists>p passages. transaction en lc ti sc c (trim ikey) p passages s = Inr (m, t)"
proof (cases c)
  case (RecordCall i)
  with assms record_transaction show ?thesis by (simp add: run_call_def)
next
  case (SupersedeCall x reason i)
  with assms supersede_transaction show ?thesis by (simp add: run_call_def)
qed (use assms in \<open>auto simp: run_call_def retract_claim_def acknowledge_conflict_def resolve_conflict_def
      dismiss_conflict_def waive_conflict_def validate_adjudication_def validated_key_Inr call_defs
      tx_simps res_simps split: if_splits sum.splits\<close>)

subsection \<open>Requests are well-formed values\<close>

lemma wf_jobj: "(\<And>k v. (k, v) \<in> set kvs \<Longrightarrow> wf_json v) \<Longrightarrow> wf_json (jobj kvs)"
  using set_btree_collect [of "map (\<lambda>(k, v). (lit k, v)) kvs"] by (fastforce simp: jobj_def)

lemma wf_atoms [simp]: "wf_json (jint i)" "wf_json (jstr x)"
  by (simp_all add: jint_def jstr_def)

lemma opt_all_True [simp]: "opt_all (\<lambda>x. True) m"
  by (cases m) simp_all

lemma wf_jopt: "opt_all (\<lambda>x. wf_json (f x)) m \<Longrightarrow> wf_json (jopt f m)"
  by (cases m) (simp_all add: jopt_def)

definition call_inputs :: "call \<Rightarrow> claim_input list" where
  "call_inputs c = (case c of RecordCall i \<Rightarrow> [i] | SupersedeCall _ _ i \<Rightarrow> [i] | _ \<Rightarrow> [])"

definition wf_call :: "call \<Rightarrow> bool" where
  "wf_call c \<longleftrightarrow> (\<forall>i\<in>set (call_inputs c). opt_all wf_json (ci_value i))"

lemma wf_support_json: "wf_json (support_json x)"
  by (auto simp: support_json_def item_ref_json_def split: support_input.splits item_ref.splits
      intro!: wf_jobj wf_jopt)

lemma wf_claim_input_json: "opt_all wf_json (ci_value i) \<Longrightarrow> wf_json (claim_input_json st i)"
  unfolding claim_input_json_def by (intro wf_jobj) (auto intro!: wf_jopt wf_support_json)

lemma wf_request_identity: "wf_json input \<Longrightarrow> wf_json (lifecycle_request_identity op sc input)"
  unfolding lifecycle_request_identity_def by (intro wf_jobj) (auto intro!: wf_jopt wf_jobj)

lemma wf_call_request: "wf_call c \<Longrightarrow> wf_json (call_request en sc c)"
  by (cases c)
     (auto simp: call_request_def wf_call_def call_inputs_def record_request_def retract_request_def
       supersede_request_def acknowledge_request_def resolve_request_def dismiss_request_def waive_request_def
       target_fields_def intro!: wf_request_identity wf_jobj wf_jopt wf_claim_input_json)

subsection \<open>Steps and runs\<close>

inductive ledger_step :: "env \<Rightarrow> ustr \<Rightarrow> ledger \<Rightarrow> ledger \<Rightarrow> bool" for en where
  call: "run_call en lc ti encode sc c ikey s = Inr (m, t) \<Longrightarrow> ledger_step en (sc_agent sc) s t"
| foreign: "select_receipt (rc_idempotency_key r) s = None \<Longrightarrow>
    ledger_step en agent s (s\<lparr>l_receipts := l_receipts s @ [r]\<rparr>)"

inductive_cases ledger_stepE: "ledger_step en agent s t"

inductive ledger_run :: "env \<Rightarrow> ledger \<Rightarrow> ledger \<Rightarrow> bool" for en where
  stop: "ledger_run en s s"
| step: "ledger_run en s t \<Longrightarrow> ledger_step en agent t u \<Longrightarrow> ledger_run en s u"

definition reachable :: "env \<Rightarrow> ledger \<Rightarrow> bool" where
  "reachable en s \<longleftrightarrow> (\<exists>model. ledger_run en (empty_ledger model) s)"

lemma transaction_respects:
  assumes "ledger_relation R en ti sc key"
  shows "respecting R (transaction en lc ti sc c key p passages)"
  using assms
  by (cases c) (simp_all add: transaction_def Let_def ledger_relation.rel_record_once
      ledger_relation.rel_retract_once ledger_relation.rel_supersede_once ledger_relation.rel_acknowledge_once
      ledger_relation.rel_resolve_once ledger_relation.rel_dismiss_once ledger_relation.rel_waive_once)

text \<open>A relation the transactions respect, and a foreign receipt too, holds across every step.\<close>

lemma step_cases:
  assumes "ledger_step en agent s t"
  obtains (mutation) lc ti sc c key p passages m where "agent = sc_agent sc"
      "transaction en lc ti sc c key p passages s = Inr (m, t)"
  | (receipt) r where "select_receipt (rc_idempotency_key r) s = None" "t = s\<lparr>l_receipts := l_receipts s @ [r]\<rparr>"
  using assms
proof (rule ledger_stepE)
  fix lc ti encode sc c ikey m assume "agent = sc_agent sc" "run_call en lc ti encode sc c ikey s = Inr (m, t)"
  then show thesis using call_transaction mutation by metis
qed (rule receipt)

lemma step_respects:
  assumes "ledger_step en agent s t"
    and "\<And>ti sc key. agent = sc_agent sc \<Longrightarrow> ledger_relation R en ti sc key"
    and "\<And>r. select_receipt (rc_idempotency_key r) s = None \<Longrightarrow> R s (s\<lparr>l_receipts := l_receipts s @ [r]\<rparr>)"
  shows "R s t"
  using assms(1)
proof (cases rule: step_cases)
  case (mutation lc ti sc c key p passages m)
  with transaction_respects [OF assms(2) [OF mutation(1)]] show ?thesis
    unfolding respecting_def by blast
next
  case (receipt r)
  with assms(3) show ?thesis by simp
qed

lemma step_ok:
  assumes "ledger_step en agent s t" and "sql_symmetric en" and "ledger_ok en s"
  shows "ledger_ok en t"
  using assms(1)
proof (cases rule: step_cases)
  case (mutation lc ti sc c key p passages m)
  with transaction_ok [OF assms(2)] assms(3) show ?thesis unfolding triple_def by blast
next
  case (receipt r)
  then have "same_core s t" by (simp add: same_core_def)
  with assms(3) show ?thesis by (rule ledger_ok_core)
qed

subsection \<open>What a step keeps\<close>

lemma step_claims: "ledger_step en agent s t \<Longrightarrow> claims_evolve agent s t"
  by (erule step_respects) (simp_all add: evolve.ledger_relation_axioms claims_evolve_same)

lemma step_conflicts: "ledger_step en agent s t \<Longrightarrow> conflicts_evolve s t"
  by (erule step_respects) (simp_all add: conflict.ledger_relation_axioms conflicts_evolve_same)

lemma step_audit: "ledger_step en agent s t \<Longrightarrow> audit_grows s t"
  by (erule step_respects) (simp_all add: audit.ledger_relation_axioms, simp add: audit_grows_def)

lemma step_receipts_grow: "ledger_step en agent s t \<Longrightarrow> receipts_grow s t"
  by (erule step_respects) (simp_all add: headers.ledger_relation_axioms,
      auto simp: receipts_grow_def select_receipt_def find_None_iff)

lemma transaction_keeps_receipt:
  assumes run: "transaction en lc ti sc c key p passages s = Inr (m, t)" and r: "r \<in> set (l_receipts s)"
  shows "r \<in> set (l_receipts t)"
proof (cases "rc_idempotency_key r = key")
  case False
  have "other_receipts key t = other_receipts key s"
    using transaction_respects [OF receipts.ledger_relation_axioms] run unfolding respecting_def by blast
  moreover have "r \<in> set (other_receipts key s)" using False r by (simp add: other_receipts_def)
  ultimately have "r \<in> set (other_receipts key t)" by simp
  then show ?thesis by (simp add: other_receipts_def)
next
  case True
  then have "select_receipt key s \<noteq> None" using r by (auto simp: select_receipt_def find_None_iff)
  obtain body where body: "transaction en lc ti sc c key p passages =
      tx_then (replay_or_reserve (call_response c) sc key (call_request en sc c) (call_operation c))
        (\<lambda>r. case r of None \<Rightarrow> body | Some x \<Rightarrow> tx_ret x)"
    using transaction_replaying [of en sc key c lc ti p passages] unfolding replaying_def by blast
  obtain x u where "replay_or_reserve (call_response c) sc key (call_request en sc c) (call_operation c) s = Inr (x, u)"
      "(case x of None \<Rightarrow> body | Some y \<Rightarrow> tx_ret y) u = Inr (m, t)"
    using run unfolding body tx_then_Inr by blast
  with \<open>select_receipt key s \<noteq> None\<close> have "t = s"
    by (elim replay_or_reserve_cases) (auto simp: tx_simps)
  with r show ?thesis by simp
qed

lemma step_keeps_receipt:
  assumes "ledger_step en agent s t" and "r \<in> set (l_receipts s)"
  shows "r \<in> set (l_receipts t)"
  using assms(1)
proof (cases rule: step_cases)
  case (mutation lc ti sc c key p passages m)
  then show ?thesis using transaction_keeps_receipt assms(2) by blast
qed (use assms(2) in auto)

lemma run_induct_rel:
  assumes "ledger_run en s t" and "\<And>s. R s s" and "\<And>s t u. R s t \<Longrightarrow> R t u \<Longrightarrow> R s u"
    and "\<And>agent s t. ledger_step en agent s t \<Longrightarrow> R s t"
  shows "R s t"
  using assms(1) by induction (use assms(2-4) in blast)+

lemma run_ok: "ledger_run en s t \<Longrightarrow> sql_symmetric en \<Longrightarrow> ledger_ok en s \<Longrightarrow> ledger_ok en t"
  by (induction rule: ledger_run.induct) (auto intro: step_ok)

lemma run_receipts_ok: "ledger_run en s t \<Longrightarrow> receipts_ok s \<Longrightarrow> receipts_ok t"
  by (induction rule: ledger_run.induct) (auto intro: receipts_ok_grow step_receipts_grow)

lemma run_keeps_receipt: "ledger_run en s t \<Longrightarrow> r \<in> set (l_receipts s) \<Longrightarrow> r \<in> set (l_receipts t)"
  by (induction rule: ledger_run.induct) (auto intro: step_keeps_receipt)

lemma answered_run:
  assumes "answered sc key request op d x s" and "ledger_run en s t" and "receipts_ok s"
  shows "answered sc key request op d x t"
proof -
  obtain r m' where r: "select_receipt key s = Some r" and rest: "rc_project r = sc_project sc"
     "rc_operation r = op" "json_eq (rc_request r) request" "rc_response r = Some m'" "d m'"
     "mark_replayed x = mark_replayed m'"
    using assms(1) unfolding answered_def by blast
  from r have "r \<in> set (l_receipts s)" "rc_idempotency_key r = key"
    by (auto simp: select_receipt_def dest: find_SomeD)
  then have "select_receipt key t = Some r"
    using run_keeps_receipt [OF assms(2)] run_receipts_ok [OF assms(2,3)] by (intro select_receiptI)
  with rest show ?thesis unfolding answered_def by blast
qed

subsection \<open>Idempotent replay\<close>

lemma answered_decode:
  assumes "answered sc key request op d x s"
  shows "\<exists>r. select_receipt key s = Some r \<and> decode_receipt_values d r sc op request = Inr (mark_replayed x)"
  using assms by (auto simp: answered_def decode_receipt_values_def ok_or_def)

lemma record_replays:
  assumes "record_claim en lc ti encode sc i ikey s = Inr (m, t)"
    and a: "answered sc (trim ikey) (record_request en sc i) RECORD_OPERATION is_claim_response x u"
  shows "record_claim en lc ti' encode' sc i ikey u = Inr (mark_replayed x, u)"
proof -
  have actor: "\<not> opt_any (\<lambda>a. a \<noteq> sc_agent sc) (ci_actor i)"
    using assms(1) by (auto simp: record_claim_def tx_simps)
  then obtain p where "ensure_scope lc sc = Inr ()" "validated_idempotency_key ikey = Inr (trim ikey)"
      "prepare (e_fmt en) (e_unicode en) i = Inr p"
    using assms(1) by (auto simp: record_claim_def validated_key_Inr tx_simps)
  then show ?thesis
    using actor answered_decode [OF a] by (auto simp: record_claim_def tx_simps Let_def)
qed

lemma supersede_replays:
  assumes "supersede_claim en lc ti encode sc y reason i ikey s = Inr (m, t)"
    and a: "answered sc (trim ikey) (supersede_request en sc y reason i) SUPERSEDE_OPERATION is_claim_response x u"
  shows "supersede_claim en lc ti' encode' sc y reason i ikey u = Inr (mark_replayed x, u)"
proof -
  have actor: "\<not> opt_any (\<lambda>a. a \<noteq> sc_agent sc) (ci_actor i)"
    using assms(1) by (auto simp: supersede_claim_def tx_simps)
  have origin: "ci_origin i = OPERATOR_ASSERTED_ORIGIN"
    by (rule ccontr) (use assms(1) actor in \<open>auto simp: supersede_claim_def tx_simps\<close>)
  obtain p where "ensure_scope lc sc = Inr ()" "validated_idempotency_key ikey = Inr (trim ikey)"
      "validate_claim_target y = Inr ()" "check_reason reason = Inr ()"
      "prepare (e_fmt en) (e_unicode en) i = Inr p"
    using assms(1) actor by (auto simp: supersede_claim_def validated_key_Inr tx_simps)
  then show ?thesis
    using actor origin answered_decode [OF a] by (auto simp: supersede_claim_def tx_simps Let_def)
qed

lemma call_replays:
  assumes run: "run_call en lc ti encode sc c ikey s = Inr (m, t)"
    and a: "answered sc (trim ikey) (call_request en sc c) (call_operation c) (call_response c) x u"
  shows "run_call en lc ti' encode' sc c ikey u = Inr (mark_replayed x, u)"
proof -
  note rep = answered_replays [OF transaction_replaying [of en sc "trim ikey" c lc ti'] a]
  show ?thesis
  proof (cases c)
    case (RecordCall i)
    then show ?thesis using run a record_replays by (simp add: run_call_def call_equations)
  next
    case (SupersedeCall y reason i)
    then show ?thesis using run a supersede_replays by (simp add: run_call_def call_equations)
  qed (use run rep in \<open>auto simp: run_call_def retract_claim_def acknowledge_conflict_def resolve_conflict_def
      dismiss_conflict_def waive_conflict_def validate_adjudication_def validated_key_Inr call_defs
      tx_simps res_simps split: if_splits sum.splits\<close>)
qed

text \<open>A committed call is answered by its receipt, after any further steps of the ledger.\<close>

lemma committed_answered:
  assumes "run_call en lc ti encode sc c ikey s = Inr (m, t)" and "receipts_ok s" and "wf_call c" and "ledger_run en t u"
  shows "answered sc (trim ikey) (call_request en sc c) (call_operation c) (call_response c) m u"
proof -
  obtain p passages where run: "transaction en lc ti sc c (trim ikey) p passages s = Inr (m, t)"
    using call_transaction [OF assms(1)] by blast
  have a: "answered sc (trim ikey) (call_request en sc c) (call_operation c) (call_response c) m t"
    by (rule replaying_answers [OF transaction_replaying run assms(2) wf_call_request [OF assms(3)]])
  have "receipts_grow s t"
    using transaction_respects [OF headers.ledger_relation_axioms] run unfolding respecting_def by blast
  then have "receipts_ok t" using assms(2) by (rule receipts_ok_grow)
  then show ?thesis by (rule answered_run [OF a assms(4)])
qed

subsection \<open>Histories\<close>

definition claim_history :: "claim \<Rightarrow> claim \<Rightarrow> bool" where
  "claim_history c c' \<longleftrightarrow> claim_content c' = claim_content c \<and> cl_revision c \<le> cl_revision c'
     \<and> (\<not> is_current (cl_state c) \<longrightarrow> cl_state c' = cl_state c \<and> cl_revision c' = cl_revision c)"

lemma claim_history_refl: "claim_history c c"
  by (simp add: claim_history_def)

lemma claim_step_history: "claim_step agent c c' \<Longrightarrow> claim_history c c'"
  by (simp add: claim_step_def claim_history_def)

lemma claim_history_trans: "claim_history c d \<Longrightarrow> claim_history d e \<Longrightarrow> claim_history c e"
  unfolding claim_history_def by auto

lemma run_claims:
  assumes "ledger_run en s t"
  shows "\<forall>c\<in>set (l_claims s). \<exists>c'\<in>set (l_claims t). claim_history c c'"
  using assms
proof (rule run_induct_rel)
  fix s show "\<forall>c\<in>set (l_claims s). \<exists>c'\<in>set (l_claims s). claim_history c c'"
    using claim_history_refl by blast
next
  fix s t u assume "\<forall>c\<in>set (l_claims s). \<exists>c'\<in>set (l_claims t). claim_history c c'"
    "\<forall>c\<in>set (l_claims t). \<exists>c'\<in>set (l_claims u). claim_history c c'"
  then show "\<forall>c\<in>set (l_claims s). \<exists>c'\<in>set (l_claims u). claim_history c c'"
    by (meson claim_history_trans)
next
  fix agent s t assume "ledger_step en agent s t"
  then show "\<forall>c\<in>set (l_claims s). \<exists>c'\<in>set (l_claims t). claim_history c c'"
    using step_claims claim_step_history unfolding claims_evolve_def by blast
qed

lemma run_conflicts: "ledger_run en s t \<Longrightarrow> conflicts_evolve s t"
  by (erule run_induct_rel) (auto intro: conflict.rel_refl conflict.rel_trans step_conflicts)

lemma run_audit: "ledger_run en s t \<Longrightarrow> audit_grows s t"
  by (erule run_induct_rel) (auto intro: audit.rel_refl audit.rel_trans step_audit)

end
