(* ===== verification/Ledger_Example.thy ===== *)
theory Ledger_Example
  imports Ledger_Steps
begin

section \<open>A concrete ledger\<close>

text \<open>
  One deployment the properties are instantiated at: an environment with ASCII case rules,
  structural equality of stored values and constant digests, two agents of one project, and
  a short history in which they record incompatible values under one key.
\<close>

definition demo_env :: env where
  "demo_env = \<lparr>e_fmt = plain_render, e_unicode = ascii_unicode, e_sql_eq = (\<lambda>x y. x = y),
     e_sha256_hex = (\<lambda>_. []), e_embedding_input_hash = (\<lambda>_ _. []), e_show_time = (\<lambda>_. []),
     e_payload_bytes = (\<lambda>_. 0)\<rparr>"

definition demo_scope :: "string \<Rightarrow> fleet_scope" where
  "demo_scope agent = \<lparr>sc_tenant_id = 1, sc_project = lit ''p'', sc_agent = lit agent, sc_session_id = None,
     sc_privacy_tier = ''internal''\<rparr>"

definition demo_config :: "string \<Rightarrow> ledger_config" where
  "demo_config agent = \<lparr>lc_trusted_scope = demo_scope agent, lc_claim_model = lit ''m'',
     lc_conflict_lifecycle = True, lc_conflict_adjudication = True, lc_refuse_self_dispute = False\<rparr>"

definition demo_tx :: "int \<Rightarrow> tx_input" where
  "demo_tx n = \<lparr>t_now = n, t_claim_id = n, t_conflict_id = 100 + n\<rparr>"

definition demo_encode :: "claim_input \<Rightarrow> claim_passage list res" where
  "demo_encode i = Inr [(0, ci_text i, [])]"

definition demo_input :: "bool \<Rightarrow> claim_input" where
  "demo_input v = \<lparr>ci_kind = Decision, ci_text = lit ''t'', ci_subject = Some (lit ''s''),
     ci_predicate = Some (lit ''q''), ci_value = Some (JBool v), ci_polarity = 1,
     ci_origin = OPERATOR_ASSERTED_ORIGIN, ci_actor = None, ci_confidence = 0,
     ci_valid_from = None, ci_valid_to = None, ci_support = []\<rparr>"

definition demo_call :: "string \<Rightarrow> int \<Rightarrow> call \<Rightarrow> string \<Rightarrow> lifecycle_mutation tx" where
  "demo_call agent n c key =
     run_call demo_env (demo_config agent) (demo_tx n) demo_encode (demo_scope agent) c (lit key)"

definition after :: "lifecycle_mutation tx \<Rightarrow> ledger \<Rightarrow> ledger" where
  "after m s = snd (run_tx m s)"

definition commits :: "lifecycle_mutation tx \<Rightarrow> ledger \<Rightarrow> bool" where
  "commits m s = (case m s of Inl _ \<Rightarrow> False | Inr _ \<Rightarrow> True)"

lemma demo_input_fields [simp]:
  "ci_kind (demo_input v) = Decision" "ci_text (demo_input v) = lit ''t''"
  "ci_subject (demo_input v) = Some (lit ''s'')" "ci_predicate (demo_input v) = Some (lit ''q'')"
  "ci_value (demo_input v) = Some (JBool v)" "ci_polarity (demo_input v) = 1"
  "ci_origin (demo_input v) = OPERATOR_ASSERTED_ORIGIN" "ci_actor (demo_input v) = None"
  "ci_confidence (demo_input v) = 0" "ci_valid_from (demo_input v) = None" "ci_valid_to (demo_input v) = None"
  "ci_support (demo_input v) = []"
  by (simp_all add: demo_input_def)

lemma demo_env_fields [simp]:
  "e_fmt demo_env = plain_render" "e_unicode demo_env = ascii_unicode" "e_sql_eq demo_env = (=)"
  by (simp_all add: demo_env_def fun_eq_iff)

lemma demo_scope_fields [simp]:
  "sc_project (demo_scope a) = lit ''p''" "sc_agent (demo_scope a) = lit a" "sc_session_id (demo_scope a) = None"
  by (simp_all add: demo_scope_def)

lemma demo_config_fields [simp]:
  "lc_claim_model (demo_config a) = lit ''m''" "lc_refuse_self_dispute (demo_config a) = False"
  "lc_conflict_lifecycle (demo_config a) = True" "lc_conflict_adjudication (demo_config a) = True"
  by (simp_all add: demo_config_def)

lemma demo_tx_fields [simp]: "t_now (demo_tx n) = n" "t_claim_id (demo_tx n) = n" "t_conflict_id (demo_tx n) = 100 + n"
  by (simp_all add: demo_tx_def)

lemma demo_valid: "validate_claim plain_render (demo_input v) = Inr ()"
  by (simp add: validate_claim_def opt_any_def trim_def is_whitespace_def lit_def utf8_len_def
      utf8_char_len_def Let_def json_to_string.simps known_origin_def unit_interval_def)

definition demo_key :: ustr where
  "demo_key = lit ''s::q''"

definition demo_prepared :: "bool \<Rightarrow> prepared_claim" where
  "demo_prepared v = \<lparr>pc_subject = Some (lit ''s''), pc_predicate = Some (lit ''q''), pc_claim_key = Some demo_key,
     pc_value = Some (JBool v), pc_conflict_eligible = True\<rparr>"

lemma demo_normalize: "normalize_key_part ascii_unicode (lit ''s'') = lit ''s''" "normalize_key_part ascii_unicode (lit ''q'') = lit ''q''"
  by (simp_all add: normalize_key_part_def key_words_def to_lowercase_def ascii_unicode_def is_separator_def is_whitespace_def lit_def)

lemma demo_claim_key: "claim_key_from_parts ascii_unicode (lit ''s'') (lit ''q'') = Some demo_key"
  unfolding claim_key_from_parts_def demo_normalize demo_key_def by (simp add: lit_def Let_def)

lemma demo_prepare: "prepare plain_render ascii_unicode (demo_input v) = Inr (demo_prepared v)"
  by (simp add: prepare_def demo_valid demo_normalize demo_claim_key demo_prepared_def is_conflict_eligible_def)

lemma demo_scope_ok: "ensure_scope (demo_config ''a'') (demo_scope ''a'') = Inr ()" "ensure_scope (demo_config ''b'') (demo_scope ''b'') = Inr ()"
  by (simp_all add: ensure_scope_def validate_scope_def validate_component_def demo_scope_def demo_config_def trim_def lit_def
      is_whitespace_def utf8_len_def utf8_char_len_def is_control_def ensure_def Let_def)

lemma demo_key_ok: "validated_idempotency_key (lit ''k1'') = Inr (lit ''k1'')" "validated_idempotency_key (lit ''k2'') = Inr (lit ''k2'')"
  by (simp_all add: validated_key_Inr trim_def lit_def is_whitespace_def utf8_len_def utf8_char_len_def)

abbreviation "demo0 \<equiv> empty_ledger (Some (lit ''m''))"

lemma tx_eval:
  "tx_then m f s = (case m s of Inl e \<Rightarrow> Inl e | Inr xt \<Rightarrow> f (fst xt) (snd xt))"
  "tx_ret x s = Inr (x, s)" "tx_get g s = Inr (g s, s)" "tx_put h s = Inr ((), h s)"
  "tx_res r s = (case r of Inl e \<Rightarrow> Inl e | Inr x \<Rightarrow> Inr (x, s))" "tx_fail e s = Inl e"
  by (simp_all add: tx_then_def tx_ret_def tx_get_def tx_put_def tx_res_def tx_fail_def try_then_def split: sum.splits prod.splits)

lemmas eval_entry = demo_call_def run_call_def record_claim_def tx_eval demo_scope_ok demo_key_ok demo_prepare
  select_receipt_def cites_items_def opt_any_def demo_encode_def record_once_def replay_or_reserve_def reserve_receipt_def
  require_active_model_def

lemmas eval_insert = insert_claim_projection_def insert_claim_def claim_by_id_def new_claim_def claim_checks_def Let_def
  demo_prepared_def safe_int_def window_ok_def known_origin_def unit_interval_def is_conflict_eligible_def
  insert_support_def insert_embedding_def upsert_chunk_def insert_claim_event_def

lemmas eval_detect = detect_and_observe_def require_current_conflict_detector_def lineage_rows_def
  detection_candidates_def on_key_def by_state_and_id_def sort_dedup_def

lemmas eval_finish = insert_claim_recorded_event_def insert_memory_event_def finish_claim_receipt_def finish_receipt_def
  receipt_matches_def

lemma demo_trim: "trim (lit ''t'') = lit ''t''" "trim OPERATOR_ASSERTED_ORIGIN = OPERATOR_ASSERTED_ORIGIN"
  by (simp_all add: trim_def lit_def is_whitespace_def)

lemmas eval_all = eval_entry eval_insert eval_detect eval_finish tx_eval demo_trim

subsection \<open>Two incompatible records\<close>

definition demo_claim :: "string \<Rightarrow> int \<Rightarrow> bool \<Rightarrow> claim_state \<Rightarrow> int \<Rightarrow> time \<Rightarrow> claim" where
  "demo_claim a n v st rv now = \<lparr>cl_id = n, cl_project = lit ''p'', cl_kind = Decision,
     cl_claim_key = Some demo_key, cl_subject = Some (lit ''s''), cl_predicate = Some (lit ''q''),
     cl_value = Some (JBool v), cl_text = lit ''t'', cl_polarity = 1, cl_state = st,
     cl_origin = OPERATOR_ASSERTED_ORIGIN, cl_actor = Some (lit a), cl_confidence = 0,
     cl_valid_from = None, cl_valid_to = None, cl_superseded_by = None, cl_revision = rv,
     cl_conflict_eligible = True, cl_created_at = n, cl_updated_at = now\<rparr>"

definition demo_reply :: "claim \<Rightarrow> int list \<Rightarrow> claim_mutation" where
  "demo_reply c ids = \<lparr>cm_operation = RECORD_OPERATION,
     cm_claim = \<lparr>vw_claim = c, vw_support = [], vw_conflict_ids = ids\<rparr>, cm_superseded = None,
     cm_idempotent_replay = False, cm_conflicts_opened = ids, cm_conflicts_resolved = [],
     cm_claims_restored = [], cm_reevaluation = None\<rparr>"

definition demo_receipt :: "string \<Rightarrow> string \<Rightarrow> bool \<Rightarrow> claim_mutation \<Rightarrow> receipt" where
  "demo_receipt a key v m = \<lparr>rc_idempotency_key = lit key, rc_project = lit ''p'',
     rc_request = record_request demo_env (demo_scope a) (demo_input v), rc_operation = RECORD_OPERATION,
     rc_claim_id = Some (cl_id (vw_claim (cm_claim m))), rc_conflict_id = None, rc_response = Some (ClaimResponse m)\<rparr>"

definition demo_embedding :: "int \<Rightarrow> claim_embedding" where
  "demo_embedding n = \<lparr>em_claim_id = n, em_passage_index = 0, em_passage_text = lit ''t'', em_model = lit ''m'',
     em_vector = []\<rparr>"

definition demo_recorded :: "string \<Rightarrow> int \<Rightarrow> string \<Rightarrow> claim_event" where
  "demo_recorded a n key = \<lparr>ce_claim_id = n, ce_event_kind = ''recorded'', ce_actor = lit a, ce_reason = None,
     ce_from_state = None, ce_to_state = Active, ce_payload = jobj [(''idempotency_key'', JString (lit key))]\<rparr>"

definition demo_event :: "string \<Rightarrow> int \<Rightarrow> string \<Rightarrow> conflict_detection_audit \<Rightarrow> memory_event" where
  "demo_event a n key d = \<lparr>me_agent = lit a, me_session_id = None, me_event_kind = ''claim_recorded'',
     me_entity_kind = ''claim'', me_entity_id = n, me_idempotency_key = Some (lit key),
     me_payload = jobj (claim_recorded_event_payload (Some demo_key) (Some d))\<rparr>"

definition demo1 :: ledger where
  "demo1 = (let c = demo_claim ''a'' 1 True Active 1 1 in
     \<lparr>l_claims = [c], l_support = [], l_embeddings = [demo_embedding 1],
      l_chunks = [claim_chunk demo_env (demo_scope ''a'') (lit ''m'') c (0, lit ''t'', [])],
      l_claim_events = [demo_recorded ''a'' 1 ''k1''], l_conflicts = [], l_members = [], l_log = [],
      l_events = [demo_event ''a'' 1 ''k1'' \<lparr>au_conflict_id = None, au_incompatible_claim_ids = [],
                    au_candidate_count = 0\<rparr>],
      l_receipts = [demo_receipt ''a'' ''k1'' True (demo_reply c [])], l_active_model = Some (lit ''m'')\<rparr>)"

lemmas demo_row_defs = demo_claim_def demo_reply_def demo_receipt_def demo_embedding_def demo_recorded_def demo_event_def Let_def

lemma demo_step1: "demo_call ''a'' 1 (RecordCall (demo_input True)) ''k1'' demo0
    = Inr (ClaimResponse (demo_reply (demo_claim ''a'' 1 True Active 1 1) []), demo1)"
  by (simp add: eval_all empty_ledger_def demo1_def demo_row_defs)

lemma demo_chunk_ids [simp]: "ch_chunk_id (claim_chunk en sc m c ps) = lit (''claim:'' @ show_int (cl_id c))"
  by (simp add: claim_chunk_def split: prod.splits)

lemma show_small [simp]: "show_int 1 = ''1''" "show_int 2 = ''2''"
  by code_simp+

lemmas eval_join = candidate_incompatible_def sql_incompatible_def sql_not_distinct_def observe_conflict_def
  v2_row_def insert_member_def dispute_members_def update_claims_def insert_disputed_transition_event_def
  insert_transition_event_def

definition demo_disputed :: "int \<Rightarrow> claim_event" where
  "demo_disputed n = \<lparr>ce_claim_id = n, ce_event_kind = ''state_transition'', ce_actor = lit ''b'',
     ce_reason = Some ''conflict_detected'', ce_from_state = Some Active, ce_to_state = Disputed,
     ce_payload = jobj [(''conflict_id'', jint 102)]\<rparr>"

definition demo2 :: ledger where
  "demo2 = (let c = demo_claim ''b'' 2 False Active 1 2; c' = demo_claim ''b'' 2 False Disputed 2 2 in
     demo1\<lparr>l_claims := [demo_claim ''a'' 1 True Disputed 2 2, c'], l_embeddings := [demo_embedding 1, demo_embedding 2],
       l_chunks := l_chunks demo1 @ [claim_chunk demo_env (demo_scope ''b'') (lit ''m'') c (0, lit ''t'', [])],
       l_claim_events := [demo_recorded ''a'' 1 ''k1'', demo_recorded ''b'' 2 ''k2'', demo_disputed 1, demo_disputed 2],
       l_conflicts := [new_conflict (demo_tx 2) demo_key], l_members := [(102, 1), (102, 2)],
       l_events := l_events demo1 @ [demo_event ''b'' 2 ''k2'' \<lparr>au_conflict_id = Some 102,
          au_incompatible_claim_ids = [1], au_candidate_count = 1\<rparr>],
       l_receipts := l_receipts demo1 @ [demo_receipt ''b'' ''k2'' False (demo_reply c' [102])]\<rparr>)"

lemma demo_step2: "demo_call ''b'' 2 (RecordCall (demo_input False)) ''k2'' demo1
    = Inr (ClaimResponse (demo_reply (demo_claim ''b'' 2 False Disputed 2 2) [102]), demo2)"
  by (simp add: eval_all eval_join demo1_def demo2_def demo_row_defs demo_disputed_def)

subsection \<open>The history as a run\<close>

lemma demo_symmetric: "sql_symmetric demo_env"
  by (auto simp: sql_symmetric_def)

lemma demo_ledger_steps: "ledger_step demo_env (lit ''a'') demo0 demo1" "ledger_step demo_env (lit ''b'') demo1 demo2"
  using ledger_step.call [OF demo_step1 [unfolded demo_call_def]]
    ledger_step.call [OF demo_step2 [unfolded demo_call_def]] by simp_all

lemma demo_runs: "ledger_run demo_env demo0 demo1" "ledger_run demo_env demo1 demo2" "ledger_run demo_env demo0 demo2"
  using demo_ledger_steps by (blast intro: ledger_run.intros)+

lemma demo_reachable: "reachable demo_env demo1" "reachable demo_env demo2"
  using demo_runs unfolding reachable_def by blast+

end
