(* ===== verification/Conflict_Overlay.thy ===== *)
theory Conflict_Overlay
  imports Conflict_Lifecycle
begin

section \<open>The lifecycle overlay and history of a conflict\<close>

text \<open>
  The read side of the lifecycle log: the overlay an agent sees beside a conflict row
  (\<^verbatim>\<open>derive_overlay\<close> of \<^verbatim>\<open>ledger/lifecycle.rs\<close> over the bounded episode read of
  \<^verbatim>\<open>cockroach/conflict_store.rs\<close>), the bounded history and its revision gaps. The byte length
  of a serialised event is a parameter. A \<^verbatim>\<open>HashMap\<close> keyed by conflict is a map.
\<close>

abbreviation "MAX_OVERLAY_EPISODE_EVENTS \<equiv> (32::nat)"
abbreviation "MAX_OVERLAY_ACKNOWLEDGERS \<equiv> (16::nat)"
abbreviation "MAX_HISTORY_EVENTS \<equiv> (256::nat)"
abbreviation "MAX_OVERLAY_RATIONALE_CHARS \<equiv> (1000::nat)"
abbreviation "MAX_HISTORY_PAYLOAD_BYTES \<equiv> (4096::nat)"

subsection \<open>Views\<close>

record acknowledgement =
  ak_actor :: ustr
  ak_at :: time
  ak_reason :: "ustr option"

record waiver_view =
  wv_actor :: ustr
  wv_reason_kind :: "string option"
  wv_rationale :: "ustr option"
  wv_expires_at :: time
  wv_review_by :: "time option"
  wv_review_due :: bool
  wv_member_count :: int
  wv_active :: bool
  wv_void_reason :: "string option"

record closure_view =
  cv_actor_kind :: string
  cv_actor :: ustr
  cv_operation :: string
  cv_reason_kind :: "string option"
  cv_at :: time

record overlay =
  ov_state :: string
  ov_read_side :: string
  ov_episode_revision :: int
  ov_acknowledged_by :: "acknowledgement list"
  ov_acknowledgers_truncated :: bool
  ov_waiver :: "waiver_view option"
  ov_closed_by :: "closure_view option"
  ov_closed_unlogged :: bool
  ov_evaluated_at :: time

record revision_gap =
  from_revision :: int
  to_revision :: int

record conflict_history =
  hi_events :: "conflict_lifecycle_event list"
  hi_truncated :: bool

record lifecycle_rows =
  cr_events :: "int \<rightharpoonup> conflict_lifecycle_event list"
  cr_truncated :: "int set"
  cr_evaluated_at :: time

subsection \<open>Deriving the overlay\<close>

definition is_closed_state :: "string \<Rightarrow> bool" where
  "is_closed_state state \<longleftrightarrow> state = ''resolved'' \<or> state = ''dismissed''"

definition overlay_episode_revision :: "string \<Rightarrow> int \<Rightarrow> int" where
  "overlay_episode_revision state revision =
     (if is_closed_state state then max (revision - 1) 1 else revision)"

definition acknowledgement_of :: "conflict_lifecycle_event \<Rightarrow> acknowledgement" where
  "acknowledgement_of e = \<lparr>ak_actor = ev_actor e, ak_at = ev_created_at e, ak_reason = ev_rationale e\<rparr>"

definition closure_of :: "conflict_lifecycle_event \<Rightarrow> closure_view" where
  "closure_of e = \<lparr>cv_actor_kind = ev_actor_kind e, cv_actor = ev_actor e, cv_operation = ev_operation e,
     cv_reason_kind = ev_reason_kind e, cv_at = ev_created_at e\<rparr>"

definition waiver_of :: "int \<Rightarrow> time \<Rightarrow> conflict_lifecycle_event \<Rightarrow> waiver_view option" where
  "waiver_of members evaluated_at e =
     (case ev_expires_at e of None \<Rightarrow> None
      | Some expires_at \<Rightarrow>
         (let void_reason = (if expires_at \<le> evaluated_at then Some ''expired''
                             else if ev_member_count e \<noteq> members then Some ''membership_changed''
                             else None);
              active = (void_reason = None) in
          Some \<lparr>wv_actor = ev_actor e, wv_reason_kind = ev_reason_kind e,
                wv_rationale = map_option (take MAX_OVERLAY_RATIONALE_CHARS) (ev_rationale e),
                wv_expires_at = expires_at, wv_review_by = ev_review_by e,
                wv_review_due = (active \<and> opt_any (\<lambda>x. x \<le> evaluated_at) (ev_review_by e)),
                wv_member_count = ev_member_count e, wv_active = active, wv_void_reason = void_reason\<rparr>))"

definition derive_overlay :: "string \<Rightarrow> int \<Rightarrow> int \<Rightarrow> conflict_lifecycle_event list \<Rightarrow> bool \<Rightarrow> time \<Rightarrow> overlay" where
  "derive_overlay state revision members events events_truncated evaluated_at =
     (let episode_revision = overlay_episode_revision state revision;
          episode = sort_key ev_seq (filter (\<lambda>e. ev_episode_revision e = episode_revision) events);
          acknowledgements = filter (\<lambda>e. ev_kind e = ''acknowledged'') episode;
          acknowledged_by = map acknowledgement_of (take MAX_OVERLAY_ACKNOWLEDGERS acknowledgements);
          acknowledgers_truncated = (length acknowledgements > MAX_OVERLAY_ACKNOWLEDGERS \<or> events_truncated) in
      if is_closed_state state then
        (let closed_by = map_option closure_of
               (find (\<lambda>e. is_closed_state (ev_kind e) \<and> ev_result_revision e = revision) (rev episode)) in
         \<lparr>ov_state = state, ov_read_side = ''clear'', ov_episode_revision = episode_revision,
          ov_acknowledged_by = acknowledged_by, ov_acknowledgers_truncated = acknowledgers_truncated,
          ov_waiver = None, ov_closed_by = closed_by, ov_closed_unlogged = (closed_by = None),
          ov_evaluated_at = evaluated_at\<rparr>)
      else
        (let waiver = (case find (\<lambda>e. ev_kind e = ''waived'') (rev episode) of None \<Rightarrow> None
                       | Some e \<Rightarrow> waiver_of members evaluated_at e);
             waiver_active = opt_any wv_active waiver;
             overlay_state = (if waiver_active then ''waived''
                              else if acknowledged_by = [] then ''open'' else ''acknowledged'') in
         \<lparr>ov_state = overlay_state, ov_read_side = (if waiver_active then ''waived'' else ''open''),
          ov_episode_revision = episode_revision, ov_acknowledged_by = acknowledged_by,
          ov_acknowledgers_truncated = acknowledgers_truncated, ov_waiver = waiver, ov_closed_by = None,
          ov_closed_unlogged = False, ov_evaluated_at = evaluated_at\<rparr>))"

subsection \<open>History\<close>

text \<open>The loop of \<^verbatim>\<open>unlogged_transitions\<close> from a cursor.\<close>

fun revision_gaps :: "int \<Rightarrow> conflict_lifecycle_event list \<Rightarrow> int \<Rightarrow> revision_gap list" where
  "revision_gaps cursor [] current_revision =
     (if current_revision > cursor then [\<lparr>from_revision = cursor, to_revision = current_revision\<rparr>] else [])"
| "revision_gaps cursor (e # es) current_revision =
     (if ev_episode_revision e > cursor
      then [\<lparr>from_revision = cursor, to_revision = ev_episode_revision e\<rparr>] else [])
     @ revision_gaps (max cursor (ev_result_revision e)) es current_revision"

definition unlogged_transitions ::
    "conflict_lifecycle_event list \<Rightarrow> int \<Rightarrow> bool \<Rightarrow> revision_gap list" where
  "unlogged_transitions events current_revision from_first_event =
     (if from_first_event then revision_gaps 1 events current_revision
      else case events of [] \<Rightarrow> []
           | first # _ \<Rightarrow> revision_gaps (ev_episode_revision first) events current_revision)"

definition usize_max :: nat where
  "usize_max = 2 ^ 64 - 1"

definition saturating_add :: "nat \<Rightarrow> nat \<Rightarrow> nat" where
  "saturating_add a b = min (a + b) usize_max"

text \<open>How many of the newest events fit: the loop over \<^verbatim>\<open>events.iter().rev()\<close>.\<close>

fun kept_events :: "(conflict_lifecycle_event \<Rightarrow> nat) \<Rightarrow> nat \<Rightarrow> nat \<Rightarrow> conflict_lifecycle_event list \<Rightarrow> nat" where
  "kept_events event_bytes budget used [] = 0"
| "kept_events event_bytes budget used (e # es) =
     (let used' = saturating_add used (saturating_add (event_bytes e) 1) in
      if used' > budget then 0 else Suc (kept_events event_bytes budget used' es))"

definition history_within_bytes ::
    "(conflict_lifecycle_event \<Rightarrow> nat) \<Rightarrow> conflict_history \<Rightarrow> nat \<Rightarrow> conflict_history" where
  "history_within_bytes event_bytes history byte_budget =
     (let kept = kept_events event_bytes byte_budget 0 (rev (hi_events history));
          dropped = length (hi_events history) - kept in
      if dropped > 0 then \<lparr>hi_events = drop dropped (hi_events history), hi_truncated = True\<rparr>
      else history)"

subsection \<open>The bounded reads\<close>

definition decode_lifecycle_event :: "env \<Rightarrow> bool \<Rightarrow> conflict_lifecycle_event \<Rightarrow> conflict_lifecycle_event" where
  "decode_lifecycle_event en with_payload e =
     (let elided = opt_any (\<lambda>p. e_payload_bytes en p > MAX_HISTORY_PAYLOAD_BYTES) (ev_payload e) in
      if with_payload
      then e\<lparr>ev_payload := (if elided then None else ev_payload e), ev_payload_elided := elided\<rparr>
      else e\<lparr>ev_payload := None, ev_payload_elided := False\<rparr>)"

text \<open>A conflict's log events, newest first.\<close>

definition newest_events :: "int \<Rightarrow> ledger \<Rightarrow> conflict_lifecycle_event list" where
  "newest_events conflict_id s = rev (sort_key ev_seq (map lg_event (conflict_log conflict_id s)))"

text \<open>\<^verbatim>\<open>Vec::dedup_by_key\<close>: of consecutive elements with the same key the first stays.\<close>

fun dedup_by :: "('a \<Rightarrow> 'b) \<Rightarrow> 'a list \<Rightarrow> 'a list" where
  "dedup_by f [] = []"
| "dedup_by f [x] = [x]"
| "dedup_by f (x # y # ys) = (if f x = f y then dedup_by f (x # ys) else x # dedup_by f (y # ys))"

definition overlay_events :: "conflict_lifecycle_event list \<Rightarrow> conflict_lifecycle_event option
    \<Rightarrow> conflict_lifecycle_event list \<times> bool" where
  "overlay_events window latest_waiver =
     (let window = dedup_by ev_seq (sort_key (\<lambda>e. - ev_seq e) window);
          truncated = (length window > MAX_OVERLAY_EPISODE_EVENTS);
          window = take MAX_OVERLAY_EPISODE_EVENTS window;
          window = (case latest_waiver of None \<Rightarrow> window
                    | Some waiver \<Rightarrow> if list_ex (\<lambda>e. ev_seq e = ev_seq waiver) window then window
                                    else window @ [waiver]) in
      (window, truncated))"

text \<open>
  The rows of \<^verbatim>\<open>LIFECYCLE_OVERLAY_SQL\<close> for one wanted episode: its newest events with one
  sentinel, and its latest waiver; \<^verbatim>\<open>LEFT JOIN\<close> gives an empty row when there is none.
\<close>

definition episode_rows :: "env \<Rightarrow> ledger \<Rightarrow> int \<times> int \<Rightarrow> (int \<times> (bool \<times> conflict_lifecycle_event) option) list" where
  "episode_rows en s w = (case w of (conflict_id, revision) \<Rightarrow>
     let es = map (decode_lifecycle_event en False)
                (filter (\<lambda>e. ev_episode_revision e = revision) (newest_events conflict_id s));
         rows = map (Pair True) (take (MAX_OVERLAY_EPISODE_EVENTS + 1) es)
              @ map (Pair False) (take 1 (filter (\<lambda>e. ev_kind e = ''waived'') es)) in
     if rows = [] then [(conflict_id, None)] else map (\<lambda>r. (conflict_id, Some r)) rows)"

definition windows_of :: "(int \<times> (bool \<times> conflict_lifecycle_event) option) list \<Rightarrow> int
    \<rightharpoonup> conflict_lifecycle_event list" where
  "windows_of rows i = (if i \<in> fst ` set rows
     then Some (concat (map (\<lambda>(j, r). case r of Some (True, e) \<Rightarrow> if j = i then [e] else [] | _ \<Rightarrow> []) rows))
     else None)"

definition waivers_of :: "(int \<times> (bool \<times> conflict_lifecycle_event) option) list \<Rightarrow> int
    \<rightharpoonup> conflict_lifecycle_event" where
  "waivers_of rows i = map_of (rev (concat (map
     (\<lambda>(j, r). case r of Some (False, e) \<Rightarrow> [(j, e)] | _ \<Rightarrow> []) rows))) i"

definition conflict_lifecycle_rows :: "env \<Rightarrow> ledger_config \<Rightarrow> fleet_scope \<Rightarrow> time \<Rightarrow> (int \<times> int) list \<Rightarrow> ledger
    \<Rightarrow> lifecycle_rows res" where
  "conflict_lifecycle_rows en lc sc now episodes s =
     try_then (ensure_scope lc sc) (\<lambda>_.
     try_then (require_capability lc) (\<lambda>_.
     if length episodes > MAX_LEDGER_RESULTS
     then Inl (Memory ''the lifecycle overlay reads at most {MAX_LEDGER_RESULTS} conflicts'')
     else if list_ex (\<lambda>(i, revision). \<not> safe_int i \<or> \<not> safe_int revision) episodes
     then Inl (Memory ''lifecycle overlay coordinates must be positive safe integers'')
     else
       (let rows = concat (map (episode_rows en s) episodes);
            shown = (\<lambda>i. map_option (\<lambda>w. overlay_events w (waivers_of rows i)) (windows_of rows i)) in
        Inr \<lparr>cr_events = (\<lambda>i. map_option fst (shown i)),
             cr_truncated = set (filter (\<lambda>i. opt_any snd (shown i)) (map fst episodes)), cr_evaluated_at = now\<rparr>)))"

definition conflict_lifecycle_history :: "env \<Rightarrow> ledger_config \<Rightarrow> fleet_scope \<Rightarrow> int \<Rightarrow> ledger
    \<Rightarrow> conflict_history res" where
  "conflict_lifecycle_history en lc sc conflict_id s =
     try_then (ensure_scope lc sc) (\<lambda>_.
     try_then (require_capability lc) (\<lambda>_.
     if \<not> safe_int conflict_id then Inl (Memory ''conflict_id must be between 1 and {MAX_SAFE_INTEGER}'')
     else
       (let rows = take (MAX_HISTORY_EVENTS + 1) (newest_events conflict_id s);
            truncated = (length rows > MAX_HISTORY_EVENTS);
            events = rev (map (decode_lifecycle_event en True) (take MAX_HISTORY_EVENTS rows)) in
        if \<not> sorted_wrt (<) (map ev_seq events)
        then Inl (protocol_error ''lifecycle history was not in event order'')
        else Inr \<lparr>hi_events = events, hi_truncated = truncated\<rparr>)))"

end
