(* ===== verification/Ledger_Log.thy ===== *)
theory Ledger_Log
  imports Ledger_Steps Conflict_Overlay
begin

section \<open>The lifecycle log\<close>

text \<open>
  The invariant of the lifecycle log of a reachable ledger: every row satisfies the CHECK
  constraints, no two rows clash on a unique index, and the log of each conflict is numbered
  from one without gaps and holds at most 4096 events. It is an interpretation of
  \<open>ledger_relation\<close> on the implication between the logs before and after.
\<close>

definition numbered :: "log_row list \<Rightarrow> bool" where
  "numbered rows \<longleftrightarrow> map (\<lambda>r. ev_seq (lg_event r)) rows = map int [1..<length rows + 1]"

definition log_ok :: "env \<Rightarrow> log_row list \<Rightarrow> bool" where
  "log_ok en rows \<longleftrightarrow> (\<forall>r\<in>set rows. log_checks en r) \<and> sorted_wrt (\<lambda>a b. \<not> log_clash b a) rows
     \<and> (\<forall>k. numbered (filter (\<lambda>r. lg_conflict_id r = k) rows))"

lemma numbered_snoc: "numbered (rows @ [r]) \<longleftrightarrow> numbered rows \<and> ev_seq (lg_event r) = int (length rows) + 1"
  by (auto simp: numbered_def)

lemma fold_max_upt: "fold max (map int [1..<n + 1]) 0 = int n"
  by (induction n) (auto simp: max_def)

lemma next_seq_numbered:
  assumes "numbered (conflict_log k s)"
  shows "next_event_seq k s = Inr (int (length (conflict_log k s)) + 1, s)"
  using assms fold_max_upt [of "length (conflict_log k s)"] unfolding numbered_def
  by (simp add: next_event_seq_def tx_simps)

lemma log_ok_insert:
  assumes "log_ok en (l_log s)" and "insert_lifecycle_event en ti sc seq d s = Inr (e, t)"
    and "seq = int (length (conflict_log (ed_conflict_id d) s)) + 1"
  shows "log_ok en (l_log t)"
proof -
  let ?row = "\<lparr>lg_project = sc_project sc, lg_conflict_id = ed_conflict_id d, lg_event = draft_event ti seq d, lg_to_state = ed_to_state d,
    lg_session_id = sc_session_id sc, lg_idempotency_key = ed_key d\<rparr>"
  have t: "l_log t = l_log s @ [?row]" "\<not> list_ex (log_clash ?row) (l_log s)" "log_checks en ?row"
    using assms(2) by (auto simp: insert_lifecycle_event_def Let_def tx_simps split: if_splits)
  have "numbered (filter (\<lambda>r. lg_conflict_id r = k) (l_log s @ [?row]))" for k
    using assms(1,3) unfolding log_ok_def conflict_log_def
    by (cases "k = ed_conflict_id d") (simp_all add: numbered_snoc draft_event_def)
  then show ?thesis using assms(1) t by (auto simp: log_ok_def sorted_wrt_append list_ex_iff)
qed

lemma log_ok_append:
  "respecting (\<lambda>s t. log_ok en (l_log s) \<longrightarrow> log_ok en (l_log t)) (append_lifecycle_event en ti sc d)"
  "respecting (\<lambda>s t. log_ok en (l_log s) \<longrightarrow> log_ok en (l_log t)) (append_close_event en ti sc d)"
proof -
  have n: "next_event_seq (ed_conflict_id d) s = Inr (int (length (conflict_log (ed_conflict_id d) s)) + 1, s)"
    if "log_ok en (l_log s)" for s
    by (rule next_seq_numbered) (use that in \<open>simp add: log_ok_def conflict_log_def\<close>)
  show "respecting (\<lambda>s t. log_ok en (l_log s) \<longrightarrow> log_ok en (l_log t)) (append_lifecycle_event en ti sc d)"
    using n log_ok_insert
    by (auto simp: respecting_def append_lifecycle_event_def tx_simps tx_refuse_def split: if_splits)
  show "respecting (\<lambda>s t. log_ok en (l_log s) \<longrightarrow> log_ok en (l_log t)) (append_close_event en ti sc d)"
    using n log_ok_insert
    by (auto simp: respecting_def append_close_event_def tx_simps split: if_splits)
qed

interpretation logs: ledger_relation "\<lambda>s t. log_ok en (l_log s) \<longrightarrow> log_ok en (l_log t)" en ti sc key
  for en ti sc key
proof unfold_locales
  fix d
  show "respecting (\<lambda>s t. log_ok en (l_log s) \<longrightarrow> log_ok en (l_log t)) (append_lifecycle_event en ti sc d)"
    by (rule log_ok_append)
next
  fix d
  show "respecting (\<lambda>s t. log_ok en (l_log s) \<longrightarrow> log_ok en (l_log t)) (append_close_event en ti sc d)"
    by (rule log_ok_append)
qed (auto simp: respecting_def primitive_defs Let_def tx_simps restore_rows_def
      split: if_splits option.splits prod.splits)

lemma step_log: "ledger_step en agent s t \<Longrightarrow> log_ok en (l_log s) \<longrightarrow> log_ok en (l_log t)"
  by (erule step_respects [where R = "\<lambda>s t. log_ok en (l_log s) \<longrightarrow> log_ok en (l_log t)"])
    (simp_all add: logs.ledger_relation_axioms)

lemma reachable_log:
  assumes "reachable en s"
  shows "log_ok en (l_log s)"
proof -
  from assms obtain m where "ledger_run en (empty_ledger m) s" unfolding reachable_def by blast
  then have "log_ok en (l_log (empty_ledger m)) \<longrightarrow> log_ok en (l_log s)"
    by (rule run_induct_rel [where R = "\<lambda>s t. log_ok en (l_log s) \<longrightarrow> log_ok en (l_log t)"])
      (use step_log in blast)+
  then show ?thesis by (simp add: log_ok_def empty_ledger_def numbered_def)
qed

end
