(* ===== verification/Overlay_Laws.thy ===== *)
theory Overlay_Laws
  imports Ledger_Log "HOL-Library.Multiset"
begin

section \<open>Laws of the overlay and the history\<close>

text \<open>
  The bounded reads lose nothing that decides: the overlay derived from an episode's window and
  its latest waiver has the waiver and the read side of the whole log, and the history names
  exactly the revisions that no kept event covers.
\<close>

subsection \<open>The latest event of a kind\<close>

lemma find_greatest:
  assumes "sorted_wrt (\<lambda>x y. (f y :: int) < f x) zs"
  shows "find P zs = Some e \<longleftrightarrow> e \<in> set zs \<and> P e \<and> (\<forall>y\<in>set zs. P y \<longrightarrow> f y \<le> f e)"
  using assms
proof (induction zs)
  case (Cons z zs)
  then show ?case by (cases "P z") (auto intro: less_imp_le dest: leD)
qed simp

lemma sort_key_rev_strict:
  assumes "distinct (map f xs)"
  shows "sorted_wrt (\<lambda>x y. (f y :: int) < f x) (rev (sort_key f xs))"
proof -
  have "sorted_wrt (<) (map f (sort_key f xs))"
    using assms by (simp add: strict_sorted_iff distinct_map)
  then show ?thesis by (simp add: sorted_wrt_rev sorted_wrt_map)
qed

definition latest :: "(conflict_lifecycle_event \<Rightarrow> bool) \<Rightarrow> conflict_lifecycle_event list
    \<Rightarrow> conflict_lifecycle_event option" where
  "latest P es = find P (rev (sort_key ev_seq es))"

lemma latest_iff:
  assumes "distinct (map ev_seq es)"
  shows "latest P es = Some e \<longleftrightarrow> e \<in> set es \<and> P e \<and> (\<forall>y\<in>set es. P y \<longrightarrow> ev_seq y \<le> ev_seq e)"
  unfolding latest_def using find_greatest [OF sort_key_rev_strict [OF assms]] by simp

lemma latest_None: "latest P es = None \<longleftrightarrow> (\<forall>e\<in>set es. \<not> P e)"
  by (auto simp: latest_def find_None_iff)

lemma latest_sub:
  assumes "distinct (map ev_seq es)" and "distinct (map ev_seq ds)" and "set ds \<subseteq> set es"
    and "\<And>e. latest P es = Some e \<Longrightarrow> e \<in> set ds"
  shows "latest P ds = latest P es"
proof (cases "latest P es")
  case None
  then have "latest P ds = None" using assms(3) by (auto simp: latest_None)
  with None show ?thesis by simp
next
  case (Some e)
  with assms latest_iff show ?thesis by (metis subsetD)
qed

text \<open>An event without its payload is the same event for the overlay.\<close>

lemma sort_key_map: "(\<And>x. f (g x) = f x) \<Longrightarrow> sort_key f (map g xs) = map g (sort_key f xs)"
proof -
  assume f: "\<And>x. f (g x) = f x"
  have "insort_key f (g x) (map g ys) = map g (insort_key f x ys)" for x ys
    by (induction ys) (simp_all add: f)
  then show ?thesis by (induction xs) simp_all
qed

lemma strip_fields [simp]:
  "ev_seq (decode_lifecycle_event en w e) = ev_seq e" "ev_kind (decode_lifecycle_event en w e) = ev_kind e"
  "ev_episode_revision (decode_lifecycle_event en w e) = ev_episode_revision e"
  "ev_result_revision (decode_lifecycle_event en w e) = ev_result_revision e"
  "ev_actor (decode_lifecycle_event en w e) = ev_actor e"
  "ev_actor_kind (decode_lifecycle_event en w e) = ev_actor_kind e"
  "ev_operation (decode_lifecycle_event en w e) = ev_operation e"
  "ev_reason_kind (decode_lifecycle_event en w e) = ev_reason_kind e"
  "ev_rationale (decode_lifecycle_event en w e) = ev_rationale e"
  "ev_expires_at (decode_lifecycle_event en w e) = ev_expires_at e"
  "ev_review_by (decode_lifecycle_event en w e) = ev_review_by e"
  "ev_member_count (decode_lifecycle_event en w e) = ev_member_count e"
  "ev_created_at (decode_lifecycle_event en w e) = ev_created_at e"
  by (simp_all add: decode_lifecycle_event_def Let_def)

lemma strip_views [simp]:
  "acknowledgement_of (decode_lifecycle_event en w e) = acknowledgement_of e"
  "closure_of (decode_lifecycle_event en w e) = closure_of e"
  "waiver_of n x (decode_lifecycle_event en w e) = waiver_of n x e"
  by (simp_all only: acknowledgement_of_def closure_of_def waiver_of_def strip_fields)

lemma find_map_strip: "(\<And>x. P (g x) = P x) \<Longrightarrow> find P (map g xs) = map_option g (find P xs)"
  by (induction xs) auto

lemma episode_strip:
  "sort_key ev_seq (filter (\<lambda>e. ev_episode_revision e = r) (map (decode_lifecycle_event en w) es))
     = map (decode_lifecycle_event en w) (sort_key ev_seq (filter (\<lambda>e. ev_episode_revision e = r) es))"
  by (simp add: filter_map comp_def sort_key_map)

lemma derive_overlay_strip:
  "derive_overlay st rv n (map (decode_lifecycle_event en w) es) tr x = derive_overlay st rv n es tr x"
proof -
  have f: "find P (rev (map (decode_lifecycle_event en w) xs)) = map_option (decode_lifecycle_event en w) (find P (rev xs))"
    if "\<And>x. P (decode_lifecycle_event en w x) = P x" for P xs
    unfolding rev_map using that by (rule find_map_strip)
  have a: "map acknowledgement_of (take k (filter (\<lambda>e. ev_kind e = c) (map (decode_lifecycle_event en w) xs)))
      = map acknowledgement_of (take k (filter (\<lambda>e. ev_kind e = c) xs))"
    "length (filter (\<lambda>e. ev_kind e = c) (map (decode_lifecycle_event en w) xs)) = length (filter (\<lambda>e. ev_kind e = c) xs)"
    for k c xs by (simp_all add: filter_map comp_def take_map)
  have w: "(case map_option (decode_lifecycle_event en w) m of None \<Rightarrow> None | Some e \<Rightarrow> waiver_of n x e)
      = (case m of None \<Rightarrow> None | Some e \<Rightarrow> waiver_of n x e)"
    "map_option closure_of (map_option (decode_lifecycle_event en w) m) = map_option closure_of m" for m
    by (cases m; simp)+
  have f1: "find (\<lambda>e. ev_kind e = ''waived'') (rev (map (decode_lifecycle_event en w) xs))
      = map_option (decode_lifecycle_event en w) (find (\<lambda>e. ev_kind e = ''waived'') (rev xs))"
    "find (\<lambda>e. is_closed_state (ev_kind e) \<and> ev_result_revision e = rv) (rev (map (decode_lifecycle_event en w) xs))
      = map_option (decode_lifecycle_event en w) (find (\<lambda>e. is_closed_state (ev_kind e) \<and> ev_result_revision e = rv) (rev xs))"
    for xs by (rule f; simp)+
  show ?thesis
    unfolding derive_overlay_def Let_def episode_strip a f1 w by (rule refl)
qed

subsection \<open>The bounded episode read\<close>

lemma newest_events_strict:
  assumes "numbered (conflict_log k s)"
  shows "sorted_wrt (\<lambda>x y. ev_seq y < ev_seq x) (newest_events k s)"
proof -
  have "distinct (map ev_seq (map lg_event (conflict_log k s)))"
    using assms unfolding numbered_def by (simp add: comp_def distinct_map)
  from sort_key_rev_strict [OF this] show ?thesis by (simp add: newest_events_def)
qed

lemma dedup_strict: "sorted_wrt (\<lambda>x y. (f y :: int) < f x) xs \<Longrightarrow> dedup_by f xs = xs"
  by (induction f xs rule: dedup_by.induct) auto

lemma sort_descending: "sorted_wrt (\<lambda>x y. (f y :: int) < f x) xs \<Longrightarrow> sort_key (\<lambda>e. - f e) xs = xs"
  by (rule sort_key_id_if_sorted) (auto simp: sorted_wrt_map elim: sorted_wrt_mono_rel [rotated])

text \<open>What the overlay is given for an episode whose events, newest first, are \<open>es\<close>.\<close>

definition shown_events :: "conflict_lifecycle_event list \<Rightarrow> conflict_lifecycle_event list" where
  "shown_events es = take 32 es @ (case find (\<lambda>e. ev_kind e = ''waived'') es of None \<Rightarrow> []
     | Some w \<Rightarrow> if w \<in> set (take 32 es) then [] else [w])"

abbreviation waived :: "conflict_lifecycle_event \<Rightarrow> bool" where
  "waived e \<equiv> ev_kind e = ''waived''"

lemma strict_inj:
  assumes "sorted_wrt (\<lambda>x y. (f y :: int) < f x) es" and "a \<in> set es" and "b \<in> set es" and "f a = f b"
  shows "a = b"
  using assms by (induction es) auto

lemma overlay_events_shown:
  assumes "sorted_wrt (\<lambda>x y. ev_seq y < ev_seq x) es"
  shows "overlay_events (take 33 es) (find waived es) = (shown_events es, length es > 32)"
proof -
  have st: "sorted_wrt (\<lambda>x y. ev_seq y < ev_seq x) (take 33 es)" using assms by (rule sorted_wrt_take)
  have m: "list_ex (\<lambda>e. ev_seq e = ev_seq w) (take 32 es) \<longleftrightarrow> w \<in> set (take 32 es)" if "w \<in> set es" for w
    using strict_inj [OF assms _ that] by (auto simp: list_ex_iff dest: in_set_takeD)
  have "(case find waived es of None \<Rightarrow> take 32 es
         | Some w \<Rightarrow> if list_ex (\<lambda>e. ev_seq e = ev_seq w) (take 32 es) then take 32 es else take 32 es @ [w])
      = shown_events es"
    by (auto simp: shown_events_def m split: option.splits dest!: find_SomeD)
  moreover have "take 32 (take 33 es) = take 32 es" by simp
  moreover have "length (take 33 es) > 32 \<longleftrightarrow> length es > 32" by auto
  ultimately show ?thesis
    by (simp only: overlay_events_def Let_def sort_descending [OF st] dedup_strict [OF st])
qed

lemma shown_events_sub: "set (shown_events es) \<subseteq> set es"
proof (cases "find waived es")
  case (Some w)
  with find_SomeD [OF Some] show ?thesis by (auto simp: shown_events_def dest: in_set_takeD)
qed (auto simp: shown_events_def dest: in_set_takeD)

lemma strict_distinct: "sorted_wrt (\<lambda>x y. (f y :: int) < f x) es \<Longrightarrow> distinct (map f es)"
  by (induction es) auto

lemma shown_events_distinct:
  assumes "sorted_wrt (\<lambda>x y. ev_seq y < ev_seq x) es"
  shows "distinct (map ev_seq (shown_events es))"
proof -
  have "distinct (map ev_seq (take 32 es))" using assms by (intro strict_distinct sorted_wrt_take)
  moreover have "ev_seq x \<noteq> ev_seq w" if "w \<in> set es" "w \<notin> set (take 32 es)" "x \<in> set (take 32 es)" for w x
    using strict_inj [OF assms _ that(1)] that(2,3) by (metis in_set_takeD)
  ultimately show ?thesis
    by (auto simp: shown_events_def split: option.splits dest!: find_SomeD)
qed

lemma latest_find:
  assumes "sorted_wrt (\<lambda>x y. ev_seq y < ev_seq x) es"
  shows "latest P es = find P es"
proof (cases "find P es")
  case None
  then have "latest P es = None" using latest_None [of P es] by (simp add: find_None_iff)
  with None show ?thesis by simp
next
  case (Some e)
  then have "latest P es = Some e"
    unfolding latest_iff [OF strict_distinct [OF assms]] find_greatest [OF assms] .
  with Some show ?thesis by simp
qed

lemma latest_shown:
  assumes "sorted_wrt (\<lambda>x y. ev_seq y < ev_seq x) es"
  shows "latest waived (shown_events es) = latest waived es"
proof (rule latest_sub [OF strict_distinct [OF assms] shown_events_distinct [OF assms] shown_events_sub])
  fix e assume "latest waived es = Some e"
  then show "e \<in> set (shown_events es)" by (simp add: latest_find [OF assms] shown_events_def)
qed

definition episode_events :: "env \<Rightarrow> ledger \<Rightarrow> int \<Rightarrow> int \<Rightarrow> conflict_lifecycle_event list" where
  "episode_events en s k r = map (decode_lifecycle_event en False)
     (filter (\<lambda>e. ev_episode_revision e = r) (newest_events k s))"

lemma episode_events_strict:
  assumes "numbered (conflict_log k s)"
  shows "sorted_wrt (\<lambda>x y. ev_seq y < ev_seq x) (episode_events en s k r)"
  using sorted_wrt_filter [OF newest_events_strict [OF assms]]
  by (simp add: episode_events_def sorted_wrt_map)

lemma concat_only:
  assumes "distinct (map fst eps)" and "(k, r) \<in> set eps" and "\<And>j q. j \<noteq> k \<Longrightarrow> F (j, q) = []"
  shows "concat (map F eps) = F (k, r)"
  using assms(1,2)
proof (induction eps)
  case (Cons w eps)
  have "concat (map F eps) = []" if "k \<notin> fst ` set eps"
    using that assms(3) by (auto simp: concat_eq_Nil_conv) (metis fst_conv rev_image_eqI surj_pair)
  then show ?case using Cons assms(3) by (cases w) (force simp: image_iff)
qed simp

definition window_part :: "int \<Rightarrow> (int \<times> (bool \<times> conflict_lifecycle_event) option) list \<Rightarrow> conflict_lifecycle_event list" where
  "window_part k rows = concat (map (\<lambda>(j, r). case r of Some (True, e) \<Rightarrow> if j = k then [e] else [] | _ \<Rightarrow> []) rows)"

definition waiver_part :: "int \<Rightarrow> (int \<times> (bool \<times> conflict_lifecycle_event) option) list
    \<Rightarrow> (int \<times> conflict_lifecycle_event) list" where
  "waiver_part k rows = filter (\<lambda>p. fst p = k) (concat (map (\<lambda>(j, r). case r of Some (False, e) \<Rightarrow> [(j, e)] | _ \<Rightarrow> []) rows))"

lemma parts_concat:
  "window_part k (concat rss) = concat (map (window_part k) rss)"
  "waiver_part k (concat rss) = concat (map (waiver_part k) rss)"
  by (induction rss) (simp_all add: window_part_def waiver_part_def)

lemma parts_map:
  "window_part k (map (\<lambda>x. (j, Some (True, x))) xs) = (if j = k then xs else [])"
  "window_part k (map (\<lambda>x. (j, Some (False, x))) xs) = []"
  "waiver_part k (map (\<lambda>x. (j, Some (True, x))) xs) = []"
  "waiver_part k (map (\<lambda>x. (j, Some (False, x))) xs) = (if j = k then map (Pair k) xs else [])"
  by (induction xs; simp add: window_part_def waiver_part_def split: if_splits)+

lemma parts_append:
  "window_part k (xs @ ys) = window_part k xs @ window_part k ys"
  "waiver_part k (xs @ ys) = waiver_part k xs @ waiver_part k ys"
  by (simp_all add: window_part_def waiver_part_def)

lemma parts_episode:
  "window_part k (episode_rows en s (j, r)) = (if j = k then take 33 (episode_events en s j r) else [])"
  "waiver_part k (episode_rows en s (j, r)) =
     (if j = k then map (Pair k) (take 1 (filter waived (episode_events en s j r))) else [])"
proof -
  let ?es = "episode_events en s j r"
  let ?rows = "map (Pair True) (take 33 ?es) @ map (Pair False) (take 1 (filter waived ?es))"
  have e: "episode_rows en s (j, r) = (if ?rows = [] then [(j, None)] else map (\<lambda>r. (j, Some r)) ?rows)"
    by (simp add: episode_rows_def episode_events_def Let_def)
  have m: "map (\<lambda>r. (j, Some r)) ?rows = map (\<lambda>x. (j, Some (True, x))) (take 33 ?es)
      @ map (\<lambda>x. (j, Some (False, x))) (take 1 (filter waived ?es))" by simp
  show "window_part k (episode_rows en s (j, r)) = (if j = k then take 33 ?es else [])"
  proof (cases "?rows = []")
    case True
    then have "take 33 ?es = []" by simp
    then show ?thesis unfolding e using True by (auto simp add: window_part_def)
  next
    case False
    then show ?thesis unfolding e m by (simp only: if_False parts_append parts_map append_Nil2)
  qed
  show "waiver_part k (episode_rows en s (j, r)) = (if j = k then map (Pair k) (take 1 (filter waived ?es)) else [])"
  proof (cases "?rows = []")
    case True
    then have "take 1 (filter waived ?es) = []" by simp
    then show ?thesis unfolding e using True by (auto simp add: waiver_part_def)
  next
    case False
    then show ?thesis unfolding e m by (simp only: if_False parts_append parts_map append_Nil)
  qed
qed

lemma map_of_filter_key: "map_of (filter (\<lambda>p. fst p = k) xs) k = map_of xs k"
  by (induction xs) auto

lemma find_take_filter: "find P xs = (case take 1 (filter P xs) of [] \<Rightarrow> None | x # _ \<Rightarrow> Some x)"
  by (induction xs) auto

lemma rows_lookup:
  assumes "distinct (map fst eps)" and "(k, r) \<in> set eps"
  shows "windows_of (concat (map (episode_rows en s) eps)) k = Some (take 33 (episode_events en s k r))"
    and "waivers_of (concat (map (episode_rows en s) eps)) k = find waived (episode_events en s k r)"
proof -
  let ?rows = "concat (map (episode_rows en s) eps)"
  have "map fst (episode_rows en s (k, r)) \<noteq> []" "\<forall>i\<in>set (map fst (episode_rows en s (k, r))). i = k"
    by (auto simp: episode_rows_def Let_def split: if_splits)
  then have "k \<in> set (map fst (episode_rows en s (k, r)))" by (metis list.set_intros(1) neq_Nil_conv)
  then have "k \<in> fst ` set ?rows" using assms(2) by (auto simp: image_UN)
  moreover have "window_part k ?rows = take 33 (episode_events en s k r)"
    unfolding parts_concat map_map
    by (subst concat_only [OF assms]) (simp_all add: parts_episode)
  ultimately show "windows_of ?rows k = Some (take 33 (episode_events en s k r))"
    unfolding windows_of_def window_part_def by simp
  have "waiver_part k ?rows = map (Pair k) (take 1 (filter waived (episode_events en s k r)))"
    unfolding parts_concat map_map
    by (subst concat_only [OF assms]) (simp_all add: parts_episode)
  then have "waivers_of ?rows k = map_of (rev (map (Pair k) (take 1 (filter waived (episode_events en s k r))))) k"
    unfolding waivers_of_def waiver_part_def by (metis map_of_filter_key rev_filter)
  then show "waivers_of ?rows k = find waived (episode_events en s k r)"
    unfolding find_take_filter by (cases "filter waived (episode_events en s k r)") simp_all
qed

subsection \<open>The overlay of an open conflict\<close>

text \<open>The events of one conflict, as the log holds them.\<close>

definition log_events :: "int \<Rightarrow> ledger \<Rightarrow> conflict_lifecycle_event list" where
  "log_events k s = map lg_event (conflict_log k s)"

lemma log_events_distinct:
  "numbered (conflict_log k s) \<Longrightarrow> distinct (map ev_seq (log_events k s))"
  unfolding numbered_def log_events_def by (simp add: comp_def distinct_map)

definition waiver_of_latest :: "int \<Rightarrow> time \<Rightarrow> conflict_lifecycle_event option \<Rightarrow> waiver_view option" where
  "waiver_of_latest n x m = (case m of None \<Rightarrow> None | Some e \<Rightarrow> waiver_of n x e)"

lemma derive_overlay_open:
  assumes "\<not> is_closed_state st"
  shows "ov_waiver (derive_overlay st rv n es tr x) =
      waiver_of_latest n x (latest waived (filter (\<lambda>e. ev_episode_revision e = rv) es))"
    and "ov_read_side (derive_overlay st rv n es tr x) =
      (if opt_any wv_active (ov_waiver (derive_overlay st rv n es tr x)) then ''waived'' else ''open'')"
  using assms by (simp_all add: derive_overlay_def Let_def overlay_episode_revision_def latest_def waiver_of_latest_def)

lemma episode_filter:
  "filter (\<lambda>e. ev_episode_revision e = r) (episode_events en s k r) = episode_events en s k r"
  by (simp add: episode_events_def filter_map comp_def)

lemma shown_filter:
  "filter (\<lambda>e. ev_episode_revision e = r) (shown_events (episode_events en s k r)) = shown_events (episode_events en s k r)"
  using shown_events_sub [of "episode_events en s k r"]
  by (auto simp: filter_id_conv episode_events_def)

lemma newest_log_events: "newest_events k s = rev (sort_key ev_seq (log_events k s))"
  by (simp add: newest_events_def log_events_def)

lemma sort_key_same:
  fixes f :: "'a \<Rightarrow> int"
  shows "mset xs = mset ys \<Longrightarrow> inj_on f (set xs) \<Longrightarrow> sort_key f xs = sort_key f ys"
  by (rule sort_key_inj_key_eq) simp_all

lemma episode_sorted:
  assumes "numbered (conflict_log k s)"
  shows "sort_key ev_seq (episode_events en s k r) =
    sort_key ev_seq (filter (\<lambda>e. ev_episode_revision e = r) (map (decode_lifecycle_event en False) (log_events k s)))"
proof (rule sort_key_same)
  show "mset (episode_events en s k r) =
      mset (filter (\<lambda>e. ev_episode_revision e = r) (map (decode_lifecycle_event en False) (log_events k s)))"
    by (simp add: episode_events_def newest_log_events filter_map comp_def)
  show "inj_on ev_seq (set (episode_events en s k r))"
    using strict_distinct [OF episode_events_strict [OF assms]] by (simp add: distinct_map)
qed

lemma overlay_read:
  assumes "conflict_lifecycle_rows en lc sc now eps s = Inr R" and "distinct (map fst eps)" and "(k, r) \<in> set eps"
    and "numbered (conflict_log k s)"
  shows "cr_events R k = Some (shown_events (episode_events en s k r))"
    and "k \<in> cr_truncated R \<longleftrightarrow> length (episode_events en s k r) > 32"
    and "cr_evaluated_at R = now"
proof -
  let ?rows = "concat (map (episode_rows en s) eps)"
  let ?shown = "\<lambda>i. map_option (\<lambda>w. overlay_events w (waivers_of ?rows i)) (windows_of ?rows i)"
  have R: "R = \<lparr>cr_events = (\<lambda>i. map_option fst (?shown i)),
      cr_truncated = set (filter (\<lambda>i. opt_any snd (?shown i)) (map fst eps)), cr_evaluated_at = now\<rparr>"
    using assms(1) by (auto simp: conflict_lifecycle_rows_def Let_def res_simps split: if_splits)
  have k: "?shown k = Some (shown_events (episode_events en s k r), length (episode_events en s k r) > 32)"
    by (simp add: rows_lookup [OF assms(2,3)] overlay_events_shown [OF episode_events_strict [OF assms(4)]])
  have "k \<in> fst ` set eps" using assms(3) by (metis fst_conv rev_image_eqI)
  then show "cr_events R k = Some (shown_events (episode_events en s k r))"
      "k \<in> cr_truncated R \<longleftrightarrow> length (episode_events en s k r) > 32" "cr_evaluated_at R = now"
    unfolding R lifecycle_rows.select_convs set_filter mem_Collect_eq k by (simp_all add: opt_any_def)
qed

lemma open_not_closed [simp]: "\<not> is_closed_state ''open''"
  by (simp add: is_closed_state_def)

lemma shown_waiver:
  assumes "numbered (conflict_log k s)"
  shows "ov_waiver (derive_overlay ''open'' r n (shown_events (episode_events en s k r)) tr x)
    = ov_waiver (derive_overlay ''open'' r n (log_events k s) tr' x)"
proof -
  let ?es = "episode_events en s k r" and ?d = "map (decode_lifecycle_event en False) (log_events k s)"
  have "latest waived (shown_events ?es) = latest waived ?es"
    by (rule latest_shown [OF episode_events_strict [OF assms]])
  also have "\<dots> = latest waived (filter (\<lambda>e. ev_episode_revision e = r) ?d)"
    unfolding latest_def episode_sorted [OF assms] ..
  finally have "ov_waiver (derive_overlay ''open'' r n (shown_events ?es) tr x)
      = ov_waiver (derive_overlay ''open'' r n ?d tr' x)"
    by (simp add: derive_overlay_open(1) shown_filter)
  then show ?thesis by (simp add: derive_overlay_strip)
qed

lemma shown_whole:
  assumes "numbered (conflict_log k s)" and "length (episode_events en s k r) \<le> 32"
  shows "derive_overlay ''open'' r n (shown_events (episode_events en s k r)) tr x
    = derive_overlay ''open'' r n (log_events k s) tr x"
proof -
  let ?es = "episode_events en s k r" and ?d = "map (decode_lifecycle_event en False) (log_events k s)"
  have "shown_events ?es = ?es"
    using assms(2) by (auto simp: shown_events_def split: option.splits dest!: find_SomeD)
  then have "sort_key ev_seq (filter (\<lambda>e. ev_episode_revision e = r) (shown_events ?es))
      = sort_key ev_seq (filter (\<lambda>e. ev_episode_revision e = r) ?d)"
    by (simp only: episode_filter episode_sorted [OF assms(1)])
  then have "derive_overlay ''open'' r n (shown_events ?es) tr x = derive_overlay ''open'' r n ?d tr x"
    by (simp add: derive_overlay_def Let_def overlay_episode_revision_def)
  then show ?thesis by (simp only: derive_overlay_strip)
qed

subsection \<open>Revision gaps and the byte budget\<close>

definition covers :: "conflict_lifecycle_event list \<Rightarrow> int \<Rightarrow> bool" where
  "covers es v \<longleftrightarrow> (\<exists>e\<in>set es. ev_episode_revision e \<le> v \<and> v < ev_result_revision e)"

definition in_gap :: "revision_gap list \<Rightarrow> int \<Rightarrow> bool" where
  "in_gap gs v \<longleftrightarrow> (\<exists>g\<in>set gs. from_revision g \<le> v \<and> v < to_revision g)"

lemma revision_gaps_exact:
  assumes "sorted (map ev_episode_revision es)"
    and "\<forall>e\<in>set es. ev_episode_revision e \<le> ev_result_revision e \<and> ev_result_revision e \<le> current"
  shows "in_gap (revision_gaps c es current) v \<longleftrightarrow> c \<le> v \<and> v < current \<and> \<not> covers es v"
  using assms
proof (induction es arbitrary: c)
  case Nil
  then show ?case by (auto simp: in_gap_def covers_def)
next
  case (Cons e es)
  have "in_gap (revision_gaps (max c (ev_result_revision e)) es current) v \<longleftrightarrow>
      max c (ev_result_revision e) \<le> v \<and> v < current \<and> \<not> covers es v"
    using Cons.prems by (intro Cons.IH) auto
  moreover have "\<not> covers es v" if "v < ev_episode_revision e"
    using that Cons.prems(1) by (fastforce simp: covers_def)
  moreover have "covers (e # es) v \<longleftrightarrow> covers es v \<or> (ev_episode_revision e \<le> v \<and> v < ev_result_revision e)"
    by (auto simp: covers_def)
  moreover have "in_gap (gs @ hs) v \<longleftrightarrow> in_gap gs v \<or> in_gap hs v" for gs hs by (auto simp: in_gap_def)
  moreover have "in_gap (if ev_episode_revision e > c
      then [\<lparr>from_revision = c, to_revision = ev_episode_revision e\<rparr>] else []) v \<longleftrightarrow> c \<le> v \<and> v < ev_episode_revision e"
    by (auto simp: in_gap_def)
  ultimately show ?case using Cons.prems(2) by auto
qed

text \<open>The bytes the kept events take, and that one more would not fit.\<close>

definition event_cost :: "(conflict_lifecycle_event \<Rightarrow> nat) \<Rightarrow> conflict_lifecycle_event list \<Rightarrow> nat" where
  "event_cost event_bytes es = sum_list (map (\<lambda>e. event_bytes e + 1) es)"

lemma saturating_add_le: "b < usize_max \<Longrightarrow> saturating_add a c \<le> b \<longleftrightarrow> a + c \<le> b"
  by (auto simp: saturating_add_def)

lemma kept_events_length: "kept_events f b u es \<le> length es"
  by (induction es arbitrary: u) (auto simp: Let_def)

lemma kept_events_fit:
  assumes "b < usize_max" and "u \<le> b"
  shows "u + event_cost f (take (kept_events f b u es) es) \<le> b
    \<and> (kept_events f b u es < length es \<longrightarrow> u + event_cost f (take (Suc (kept_events f b u es)) es) > b)"
  using assms(2)
proof (induction es arbitrary: u)
  case (Cons e es)
  let ?u = "saturating_add u (saturating_add (f e) 1)"
  show ?case
  proof (cases "?u \<le> b")
    case True
    then have "?u < usize_max" using assms(1) by simp
    then have "?u = u + (f e + 1)" by (auto simp: saturating_add_def min_def split: if_splits)
    with Cons.IH [OF True] True show ?thesis by (simp add: event_cost_def add.assoc)
  next
    case False
    then have "u + (f e + 1) > b" by (auto simp: saturating_add_def min_def split: if_splits)
    with False Cons.prems show ?thesis by (simp add: event_cost_def)
  qed
qed (simp add: event_cost_def)

end
