(* ===== verification/Conflict_Outcomes.thy ===== *)
theory Conflict_Outcomes
  imports Overlay_Laws
begin

section \<open>Outcomes of the conflict mutations\<close>

text \<open>
  What a first, not replayed, conflict mutation did: who was admitted, which event was
  appended to the log and what became of the conflict. Stated against the ledger \<open>s0\<close> the
  transaction started from.
\<close>

subsection \<open>Admission\<close>

definition disinterested :: "ustr \<Rightarrow> int \<Rightarrow> ledger \<Rightarrow> bool" where
  "disinterested agent k s \<longleftrightarrow> (\<forall>c\<in>set (l_claims s). (k, cl_id c) \<in> set (l_members s) \<longrightarrow>
     cl_actor c \<noteq> None \<and> cl_actor c \<noteq> Some agent)"

definition members_of :: "int \<Rightarrow> ledger \<Rightarrow> (int \<times> int) list" where
  "members_of k s = filter (\<lambda>m. fst m = k) (l_members s)"

definition open_locked :: "ledger \<Rightarrow> conflict_target \<Rightarrow> locked_conflict \<Rightarrow> bool" where
  "open_locked s x l \<longleftrightarrow> lin_id (lx_lineage l) = xt_conflict_id x \<and> lin_revision (lx_lineage l) = xt_expected_revision x
     \<and> lin_state (lx_lineage l) = Open \<and> lx_member_count l = int (length (members_of (xt_conflict_id x) s))
     \<and> length (members_of (xt_conflict_id x) s) \<le> 4096
     \<and> opt_all (\<lambda>n. n = lx_member_count l) (xt_expected_member_count x)"

lemma fresh_replay:
  "triple (\<lambda>s. s = s0 \<and> select_receipt key s0 = None) (replay_or_reserve d sc key request op)
     (\<lambda>r s. r = None \<and> same_core s0 s)"
  by (auto simp: triple_def replay_or_reserve_def reserve_receipt_def tx_simps same_core_def)

lemma opt_any_differs: "\<not> opt_any (\<lambda>e. e \<noteq> n) m \<longleftrightarrow> opt_all (\<lambda>e. e = n) m"
  by (cases m) (simp_all add: opt_any_def)

lemma member_count_triple:
  "triple (same_core s0) (member_count k) (\<lambda>n s. same_core s0 s \<and> n = int (length (members_of k s0))
     \<and> length (members_of k s0) \<le> 4096)"
  by (auto simp: triple_def member_count_def bounded_member_count_def members_of_def tx_simps same_core_def
      split: if_splits)

lemma lock_open_exact:
  "triple (same_core s0) (lock_open_conflict x) (\<lambda>l s. same_core s0 s \<and> open_locked s0 x l)"
  unfolding lock_open_conflict_def Let_def
  apply (rule triple_then [OF triple_read_keep], simp)
  apply (intro triple_option triple_if triple_fail)
  apply (rule triple_then [OF triple_read_keep [OF read_only_lock_lineages]])
  apply (intro triple_option triple_if triple_fail)
  apply (rule triple_then [OF member_count_triple])
  apply (intro triple_if triple_fail triple_ret)
  apply (simp add: open_locked_def opt_any_differs)
  done

lemma same_core_refl [simp]: "same_core s s"
  by (simp add: same_core_def)

lemma admitted_disinterested:
  assumes "open_locked s0 x l" and "same_core s0 s" and "member_authorship_of sc (xt_conflict_id x) s = Inr (a, t)"
    and "check_adjudicator (xt_conflict_id x) (lx_member_count l) a = Inr u"
  shows "disinterested (sc_agent sc) (xt_conflict_id x) s0"
proof -
  let ?k = "xt_conflict_id x"
  let ?ids = "take 4097 (sort (map snd (members_of ?k s0)))"
  let ?rows = "filter (\<lambda>c. cl_id c \<in> set ?ids) (l_claims s0)"
  have len: "length (members_of ?k s0) \<le> 4096" using assms(1) by (simp add: open_locked_def)
  then have ids: "set ?ids = snd ` set (members_of ?k s0)" by simp
  have "implicated_members a = 0" "unattributed_members a = 0"
    using assms(4) by (simp_all add: check_adjudicator_Inr)
  then have "filter (\<lambda>c. cl_actor c = Some (sc_agent sc)) ?rows = []" "filter (\<lambda>c. cl_actor c = None) ?rows = []"
    using assms(2,3) by (auto simp: member_authorship_of_def tx_simps Let_def same_core_def members_of_def)
  then have no: "cl_actor c \<noteq> None \<and> cl_actor c \<noteq> Some (sc_agent sc)"
    if "c \<in> set (l_claims s0)" "cl_id c \<in> set ?ids" for c
    using that by (auto simp: filter_empty_conv simp del: ids)
  show ?thesis
    unfolding disinterested_def
  proof (intro ballI impI)
    fix c assume c: "c \<in> set (l_claims s0)" "(?k, cl_id c) \<in> set (l_members s0)"
    then have "(?k, cl_id c) \<in> set (members_of ?k s0)" by (simp add: members_of_def)
    then have "cl_id c \<in> set ?ids" unfolding ids by (rule rev_image_eqI) simp
    with no c(1) show "cl_actor c \<noteq> None \<and> cl_actor c \<noteq> Some (sc_agent sc)" by blast
  qed
qed

lemma admission_triple:
  assumes "open_locked s0 x l"
    and "\<And>a. disinterested (sc_agent sc) (xt_conflict_id x) s0 \<Longrightarrow> triple (same_core s0) (f a) Q"
  shows "triple (same_core s0) (tx_then (member_authorship_of sc (xt_conflict_id x))
      (\<lambda>a. tx_then (tx_res (check_adjudicator (xt_conflict_id x) (lx_member_count l) a)) (\<lambda>_. f a))) Q"
proof (unfold triple_def, intro allI impI)
  fix s m t
  assume s: "same_core s0 s" and "tx_then (member_authorship_of sc (xt_conflict_id x))
      (\<lambda>a. tx_then (tx_res (check_adjudicator (xt_conflict_id x) (lx_member_count l) a)) (\<lambda>_. f a)) s = Inr (m, t)"
  then obtain a u where au: "member_authorship_of sc (xt_conflict_id x) s = Inr (a, u)"
    and "tx_then (tx_res (check_adjudicator (xt_conflict_id x) (lx_member_count l) a)) (\<lambda>_. f a) u = Inr (m, t)"
    unfolding tx_then_Inr [of "member_authorship_of sc (xt_conflict_id x)"] by blast
  then obtain v where ch: "check_adjudicator (xt_conflict_id x) (lx_member_count l) a = Inr v" and f: "f a u = Inr (m, t)"
    by (auto simp: tx_simps)
  have "u = s" using read_only_same [OF read_only_authorship au] by simp
  with s f assms(2) [OF admitted_disinterested [OF assms(1) s au ch]] show "Q m t" unfolding triple_def by blast
qed

subsection \<open>Appending an event\<close>

definition appended :: "ledger \<Rightarrow> int \<Rightarrow> conflict_lifecycle_event \<Rightarrow> ledger \<Rightarrow> bool" where
  "appended s0 k e s \<longleftrightarrow> (\<exists>row. l_log s = l_log s0 @ [row] \<and> lg_conflict_id row = k \<and> lg_event row = e)"

lemma append_triple:
  "triple (\<lambda>s. P s \<and> l_log s = l_log s0) (append_lifecycle_event en ti sc d)
     (\<lambda>e s. (\<exists>seq. e = draft_event ti seq d) \<and> appended s0 (ed_conflict_id d) e s)"
  by (auto simp: triple_def append_lifecycle_event_def insert_lifecycle_event_def Let_def tx_simps tx_refuse_def
      appended_def next_event_seq_def split: if_splits)

lemma appended_core: "core_stable (appended s0 k e)"
  by (auto simp: core_stable_def appended_def same_core_def)

lemma core_stable_const2: "core_stable (\<lambda>s. q \<and> appended s0 k e s)"
  using appended_core unfolding core_stable_def by blast

subsection \<open>Waivers\<close>

definition waiver_event :: "tx_input \<Rightarrow> fleet_scope \<Rightarrow> conflict_target \<Rightarrow> waiver_terms \<Rightarrow> int \<Rightarrow> conflict_lifecycle_event \<Rightarrow> bool" where
  "waiver_event ti sc x terms n e \<longleftrightarrow> ev_kind e = ''waived'' \<and> ev_actor e = sc_agent sc
     \<and> ev_episode_revision e = xt_expected_revision x \<and> ev_member_count e = n
     \<and> ev_expires_at e = Some (t_now ti + int (wt_expires_in_hours terms) * hour)
     \<and> ev_review_by e = map_option (\<lambda>h. t_now ti + int h * hour) (wt_review_in_hours terms)"

definition waived_outcome :: "tx_input \<Rightarrow> fleet_scope \<Rightarrow> conflict_target \<Rightarrow> waiver_terms \<Rightarrow> ledger
    \<Rightarrow> lifecycle_mutation \<Rightarrow> ledger \<Rightarrow> bool" where
  "waived_outcome ti sc x terms s0 m t \<longleftrightarrow> disinterested (sc_agent sc) (xt_conflict_id x) s0
     \<and> (\<exists>e r. m = ConflictResponse r \<and> xm_conflict_id r = xt_conflict_id x \<and> xm_lifecycle_event r = Some e
          \<and> xm_conflict_revision r = xt_expected_revision x
          \<and> xm_member_count r = int (length (members_of (xt_conflict_id x) s0))
          \<and> waiver_event ti sc x terms (xm_member_count r) e \<and> appended s0 (xt_conflict_id x) e t)"

lemma open_lockedD:
  assumes "open_locked s0 x l"
  shows "lin_id (lx_lineage l) = xt_conflict_id x" "lin_revision (lx_lineage l) = xt_expected_revision x"
    "lx_member_count l = int (length (members_of (xt_conflict_id x) s0))"
  using assms by (simp_all add: open_locked_def)

lemma triple_fact: "(R \<Longrightarrow> triple P m Q) \<Longrightarrow> triple (\<lambda>s. P s \<and> R) m Q"
  by (auto simp: triple_def)

lemma triple_fact2: "(R \<Longrightarrow> triple P m Q) \<Longrightarrow> triple (\<lambda>s. R \<and> P s) m Q"
  by (auto simp: triple_def)

lemma waive_outcome:
  "triple (\<lambda>s. s = s0 \<and> select_receipt key s0 = None) (waive_once en ti sc x terms key request)
     (waived_outcome ti sc x terms s0)"
  unfolding waive_once_def Let_def
  apply (rule triple_then [OF fresh_replay])
  apply (rule triple_option)
   apply (rule triple_pre [where P' = "same_core s0"], simp)
   apply (rule triple_then [OF lock_open_exact], rule triple_fact)
   apply (simp only: open_lockedD(1,2))
   apply (rule admission_triple, assumption)
   apply (rule triple_then [OF triple_pre [OF _ append_triple [where P = "\<lambda>_. True" and ?s0.0 = s0]]], simp add: same_core_def)
   apply (rule triple_then [OF triple_core [OF core_stable_const2 core_events(4)]])
   apply (rule triple_then [OF triple_core [OF core_stable_const2 core_events(6)]])
   apply (rule triple_ret)
   apply (auto simp: waived_outcome_def waiver_event_def draft_event_def open_lockedD option.map_comp comp_def)[1]
  apply (simp add: triple_def)
  done

subsection \<open>Dismissals\<close>

definition closed_as :: "string \<Rightarrow> int \<Rightarrow> int \<Rightarrow> ledger \<Rightarrow> bool" where
  "closed_as st k v s \<longleftrightarrow> (\<exists>f\<in>set (l_conflicts s). cf_id f = k \<and> cf_state f = st \<and> cf_revision f = v)"

lemma closed_as_same: "l_conflicts t = l_conflicts s \<Longrightarrow> closed_as st k v t = closed_as st k v s"
  by (simp add: closed_as_def)

lemma close_triple:
  "triple (same_core s0) (close_conflict ti k r st kind reason)
     (\<lambda>v s. v = r + 1 \<and> closed_as st k (r + 1) s \<and> l_log s = l_log s0)"
proof (unfold triple_def, intro allI impI)
  fix s v t assume s: "same_core s0 s" and run: "close_conflict ti k r st kind reason s = Inr (v, t)"
  from run obtain f where "f \<in> set (l_conflicts s)" "open_v2_at k r f"
    by (auto simp: close_conflict_def tx_simps split: option.splits dest!: find_SomeD)
  then have "closed_row ti st kind reason f \<in> set (l_conflicts t)" "cf_id f = k" "cf_revision f = r"
    unfolding close_conflict_result(1) [OF run] set_update_conflicts by (auto simp: open_v2_at_def)
  then have "closed_as st k (r + 1) t"
    unfolding closed_as_def by (intro bexI [of _ "closed_row ti st kind reason f"]) (simp_all add: closed_row_def)
  then show "v = r + 1 \<and> closed_as st k (r + 1) t \<and> l_log t = l_log s0"
    using s close_conflict_result [OF run] by (simp add: same_core_def)
qed

lemma restore_triple:
  "triple (\<lambda>s. closed_as st k v s \<and> l_log s = l_log s0) (restore_disputed_members ti sc k' rv key reason ids ikey)
     (\<lambda>_ s. closed_as st k v s \<and> l_log s = l_log s0)"
proof (unfold triple_def, intro allI impI)
  fix s m t assume s: "closed_as st k v s \<and> l_log s = l_log s0"
    and run: "restore_disputed_members ti sc k' rv key reason ids ikey s = Inr (m, t)"
  from restore_result [OF run] have c: "l_conflicts t = l_conflicts s" and "l_log t = l_log s"
    by (simp_all add: same_core_def restore_rows_def)
  with s show "closed_as st k v t \<and> l_log t = l_log s0" by (simp add: closed_as_same [OF c])
qed

lemma append_closed_triple:
  "triple (\<lambda>s. closed_as st k v s \<and> l_log s = l_log s0) (append_lifecycle_event en ti sc d)
     (\<lambda>e s. (\<exists>seq. e = draft_event ti seq d) \<and> closed_as st k v s \<and> appended s0 (ed_conflict_id d) e s)"
  by (auto simp: triple_def append_lifecycle_event_def insert_lifecycle_event_def Let_def tx_simps tx_refuse_def
      appended_def next_event_seq_def closed_as_def split: if_splits)

definition dismissed_outcome :: "env \<Rightarrow> fleet_scope \<Rightarrow> conflict_target \<Rightarrow> dismissal_terms \<Rightarrow> ledger
    \<Rightarrow> lifecycle_mutation \<Rightarrow> ledger \<Rightarrow> bool" where
  "dismissed_outcome en sc x terms s0 m t \<longleftrightarrow> disinterested (sc_agent sc) (xt_conflict_id x) s0
     \<and> closed_as ''dismissed'' (xt_conflict_id x) (xt_expected_revision x + 1) t
     \<and> (\<exists>e r. m = ConflictResponse r \<and> xm_conflict_id r = xt_conflict_id x \<and> xm_lifecycle_event r = Some e
          \<and> xm_conflict_revision r = xt_expected_revision x + 1 \<and> ev_kind e = ''dismissed''
          \<and> ev_actor e = sc_agent sc \<and> ev_episode_revision e = xt_expected_revision x
          \<and> ev_result_revision e = xt_expected_revision x + 1
          \<and> ev_reason_kind e = Some (dismissal_reason_kind (dt_reason_kind terms))
          \<and> ev_rationale e = Some (dt_rationale terms) \<and> appended s0 (xt_conflict_id x) e t)"

lemma core_stable_closed: "core_stable (\<lambda>s. q \<and> closed_as st k v s \<and> appended s0 k' e s)"
  using appended_core unfolding core_stable_def same_core_def closed_as_def by metis

lemma dismiss_outcome:
  "triple (\<lambda>s. s = s0 \<and> select_receipt key s0 = None) (dismiss_once en ti sc x terms key request)
     (dismissed_outcome en sc x terms s0)"
  unfolding dismiss_once_def Let_def
  apply (rule triple_then [OF fresh_replay])
  apply (rule triple_option)
   apply (rule triple_pre [where P' = "same_core s0"], simp)
   apply (rule triple_then [OF lock_open_exact], rule triple_fact)
   apply (simp only: open_lockedD(1,2))
   apply (rule admission_triple, assumption)
   apply (rule triple_then [OF triple_read_keep [OF read_only_lock_current_claims]])
   apply (rule triple_then [OF triple_read_keep [OF read_only_key_pairs]])
   apply (rule triple_res)
   apply (rule triple_then [OF close_triple], rule triple_fact2, hypsubst)
   apply (rule triple_then [OF restore_triple])
   apply (rule triple_then [OF append_closed_triple])
   apply (rule triple_then [OF triple_core [OF core_stable_closed core_events(4)]])
   apply (rule triple_then [OF triple_core [OF core_stable_closed core_events(6)]])
   apply (rule triple_ret)
   apply (auto simp: dismissed_outcome_def draft_event_def open_lockedD)[1]
  apply (simp add: triple_def)
  done

end
