(* ===== verification/Conflict_Example.thy ===== *)
theory Conflict_Example
  imports Ledger_Example Conflict_Outcomes
begin

section \<open>A waiver in the concrete ledger\<close>

text \<open>
  A third agent, who authored neither rival, waives the conflict of the example for two hours
  with a review after one. The conflict and its members are as in \<open>demo2\<close>, so the locked
  conflict and the authorship are evaluated once for every ledger with that core.
\<close>

definition demo_target :: conflict_target where
  "demo_target = \<lparr>xt_conflict_id = 102, xt_expected_revision = 1, xt_expected_member_count = Some 2\<rparr>"

definition demo_waiver :: waiver_terms where
  "demo_waiver = \<lparr>wt_reason_kind = UpstreamBlocked, wt_rationale = lit ''w'', wt_expires_in_hours = 2,
     wt_review_in_hours = Some 1\<rparr>"

lemma demo_target_fields [simp]:
  "xt_conflict_id demo_target = 102" "xt_expected_revision demo_target = 1"
  "xt_expected_member_count demo_target = Some 2"
  by (simp_all add: demo_target_def)

lemma demo_waiver_fields [simp]:
  "wt_reason_kind demo_waiver = UpstreamBlocked" "wt_rationale demo_waiver = lit ''w''"
  "wt_expires_in_hours demo_waiver = 2" "wt_review_in_hours demo_waiver = Some 1"
  by (simp_all add: demo_waiver_def)

text \<open>The ledgers in which the conflict of the example is open with its two members.\<close>

definition demo_tables :: "ledger \<Rightarrow> bool" where
  "demo_tables s \<longleftrightarrow> l_conflicts s = [new_conflict (demo_tx 2) demo_key] \<and> l_members s = [(102, 1), (102, 2)]
     \<and> l_claims s = [demo_claim ''a'' 1 True Disputed 2 2, demo_claim ''b'' 2 False Disputed 2 2]"

lemma demo_tablesD:
  assumes "demo_tables s"
  shows "l_conflicts s = [new_conflict (demo_tx 2) demo_key]" "l_members s = [(102, 1), (102, 2)]"
    "l_claims s = [demo_claim ''a'' 1 True Disputed 2 2, demo_claim ''b'' 2 False Disputed 2 2]"
  using assms by (simp_all add: demo_tables_def)

lemma demo2_core:
  assumes "same_core demo2 s"
  shows "demo_tables s" "l_log s = []"
  using assms by (simp_all add: same_core_def demo_tables_def demo2_def demo1_def Let_def)

definition demo_lock :: locked_conflict where
  "demo_lock = \<lparr>lx_lineage = \<lparr>lin_id = 102, lin_state = Open, lin_revision = 1\<rparr>, lx_claim_key = demo_key,
     lx_member_count = 2\<rparr>"

lemma demo_locks:
  assumes "demo_tables s"
  shows "lock_open_conflict demo_target s = Inr (demo_lock, s)"
proof -
  have l: "lock_lineages demo_key s = Inr (Some \<lparr>lin_id = 102, lin_state = Open, lin_revision = 1\<rparr>, s)"
    by (simp add: lock_lineages_def tx_eval lineage_rows_def demo_tablesD [OF assms] new_conflict_def
        classify_lineages_def detector_class_def parse_conflict_row_state_def)
  have m: "member_count 102 s = Inr (2, s)"
    by (simp add: member_count_def bounded_member_count_def tx_eval demo_tablesD [OF assms])
  have c: "conflict_by_id 102 s = Some (new_conflict (demo_tx 2) demo_key)"
    by (simp add: conflict_by_id_def demo_tablesD [OF assms] new_conflict_def)
  have r: "detector_class (cf_detector (new_conflict (demo_tx 2) demo_key)) = 2"
      "cf_claim_key (new_conflict (demo_tx 2) demo_key) = demo_key"
    by (simp_all add: new_conflict_def detector_class_def)
  show ?thesis
    by (simp add: lock_open_conflict_def tx_eval c r l m opt_any_def demo_lock_def)
qed

lemma demo_authorship:
  assumes "demo_tables s"
  shows "member_authorship_of (demo_scope ''c'') 102 s
    = Inr (\<lparr>members_checked = 2, implicated_members = 0, unattributed_members = 0\<rparr>, s)"
  by (simp add: member_authorship_of_def tx_eval demo_tablesD [OF assms] demo_claim_def lit_def Let_def)

definition demo_waived :: conflict_lifecycle_event where
  "demo_waived = \<lparr>ev_seq = 1, ev_kind = ''waived'', ev_actor_kind = ''agent'', ev_actor = lit ''c'',
     ev_operation = WAIVE_OPERATION, ev_episode_revision = 1, ev_result_revision = 1,
     ev_reason_kind = Some ''upstream_blocked'', ev_rationale = Some (lit ''w''),
     ev_expires_at = Some (3 + 2 * hour), ev_review_by = Some (3 + hour), ev_member_count = 2, ev_created_at = 3,
     ev_payload = Some (jobj []), ev_payload_elided = False\<rparr>"

definition demo_log_row :: log_row where
  "demo_log_row = \<lparr>lg_project = lit ''p'', lg_conflict_id = 102, lg_event = demo_waived, lg_to_state = ''open'', lg_session_id = None,
     lg_idempotency_key = lit ''k3''\<rparr>"

abbreviation "demo_waive_request \<equiv> waive_request (demo_scope ''c'') demo_target demo_waiver"

definition demo_reserved :: receipt where
  "demo_reserved = \<lparr>rc_idempotency_key = lit ''k3'', rc_project = lit ''p'', rc_request = demo_waive_request,
     rc_operation = WAIVE_OPERATION, rc_claim_id = None, rc_conflict_id = None, rc_response = None\<rparr>"

definition demo_draft :: lifecycle_event_draft where
  "demo_draft = \<lparr>ed_conflict_id = 102, ed_kind = ''waived'', ed_episode_revision = 1, ed_result_revision = 1,
     ed_to_state = ''open'', ed_actor_kind = ''agent'', ed_actor = lit ''c'', ed_operation = WAIVE_OPERATION,
     ed_key = lit ''k3'', ed_member_count = 2, ed_reason_kind = Some ''upstream_blocked'',
     ed_rationale = Some (lit ''w''), ed_payload = jobj [], ed_expires_in_hours = Some 2, ed_review_in_hours = Some 1\<rparr>"

lemma demo_reserve:
  "replay_or_reserve is_conflict_response (demo_scope ''c'') (lit ''k3'') demo_waive_request WAIVE_OPERATION demo2
     = Inr (None, demo2\<lparr>l_receipts := l_receipts demo2 @ [demo_reserved]\<rparr>)"
proof -
  have "select_receipt (lit ''k3'') demo2 = None"
    by (simp add: select_receipt_def demo2_def demo1_def Let_def demo_receipt_def lit_def)
  then show ?thesis
    by (simp add: replay_or_reserve_def reserve_receipt_def tx_eval demo_reserved_def)
qed

lemma hour_pos: "0 < hour" by (simp add: hour_def)

lemma demo_append:
  assumes "same_core demo2 s"
  shows "append_lifecycle_event demo_env (demo_tx 3) (demo_scope ''c'') demo_draft s
    = Inr (demo_waived, s\<lparr>l_log := [demo_log_row]\<rparr>)"
proof -
  have "draft_event (demo_tx 3) 1 demo_draft = demo_waived"
    by (simp add: draft_event_def demo_draft_def demo_waived_def)
  moreover have "log_checks demo_env demo_log_row"
    using hour_pos
    by (simp add: log_checks_def demo_log_row_def demo_waived_def safe_int_def Let_def utf8_len_def utf8_char_len_def
        lit_def opt_any_def demo_env_def)
  ultimately show ?thesis
    by (simp add: append_lifecycle_event_def next_event_seq_def conflict_log_def tx_eval demo2_core(2) [OF assms]
        event_fits_log_def insert_lifecycle_event_def Let_def demo_draft_def demo_log_row_def)
qed

definition demo_waive_reply :: conflict_mutation where
  "demo_waive_reply = \<lparr>xm_operation = ''waive'', xm_conflict_id = 102, xm_conflict_state = ''open'',
     xm_conflict_revision = 1, xm_member_count = 2, xm_applied = True, xm_status = Some ''waived'',
     xm_lifecycle_event = Some demo_waived, xm_claims_retracted = [], xm_claims_restored = [],
     xm_conflicts_resolved = [], xm_reevaluation = None, xm_idempotent_replay = False\<rparr>"

definition demo_waive_audit :: memory_event where
  "demo_waive_audit = \<lparr>me_agent = lit ''c'', me_session_id = None, me_event_kind = ''conflict_waived'',
     me_entity_kind = ''conflict'', me_entity_id = 102, me_idempotency_key = Some (lit ''k3''),
     me_payload = jobj [(''claim_key'', JString demo_key), (''episode_revision'', jint 1),
       (''reason_kind'', jstr ''upstream_blocked''), (''expires_at'', JString []), (''review_by'', JString []),
       (''event_seq'', jint 1)]\<rparr>"

definition demo3 :: ledger where
  "demo3 = demo2\<lparr>l_receipts := l_receipts demo2 @ [demo_reserved\<lparr>rc_conflict_id := Some 102,
       rc_response := Some (ConflictResponse demo_waive_reply)\<rparr>],
     l_log := [demo_log_row], l_events := l_events demo2 @ [demo_waive_audit]\<rparr>"

lemma demo_finish:
  "finish_conflict_receipt demo_env (demo_scope ''c'') (lit ''k3'') demo_waive_request WAIVE_OPERATION demo_waive_reply
     (demo2\<lparr>l_receipts := l_receipts demo2 @ [demo_reserved], l_log := [demo_log_row],
        l_events := l_events demo2 @ [demo_waive_audit]\<rparr>) = Inr ((), demo3)"
proof -
  have n: "\<not> receipt_matches demo_env (demo_scope ''c'') (lit ''k3'') demo_waive_request WAIVE_OPERATION
      (demo_receipt a k v m)" if "lit k \<noteq> lit ''k3''" for a k v m
    using that by (simp add: receipt_matches_def demo_receipt_def)
  have r: "receipt_matches demo_env (demo_scope ''c'') (lit ''k3'') demo_waive_request WAIVE_OPERATION demo_reserved"
    by (simp add: receipt_matches_def demo_reserved_def)
  have "lit ''k1'' \<noteq> lit ''k3''" "lit ''k2'' \<noteq> lit ''k3''" by (simp_all add: lit_def)
  then show ?thesis
    by (simp add: finish_conflict_receipt_def finish_receipt_def tx_eval demo3_def demo2_def demo1_def Let_def n r
        demo_waive_reply_def)
qed

lemma demo_waive_once:
  "waive_once demo_env (demo_tx 3) (demo_scope ''c'') demo_target demo_waiver (lit ''k3'') demo_waive_request demo2
     = Inr (ConflictResponse demo_waive_reply, demo3)"
proof -
  let ?u = "demo2\<lparr>l_receipts := l_receipts demo2 @ [demo_reserved]\<rparr>"
  have u: "same_core demo2 ?u" by (simp add: same_core_def)
  have a: "check_adjudicator 102 2 \<lparr>members_checked = 2, implicated_members = 0, unattributed_members = 0\<rparr> = Inr ()"
    by (simp add: check_adjudicator_Inr)
  have f: "lin_id (lx_lineage demo_lock) = 102" "lin_revision (lx_lineage demo_lock) = 1" "lx_member_count demo_lock = 2"
      "lx_claim_key demo_lock = demo_key" by (simp_all add: demo_lock_def)
  have e: "ev_expires_at demo_waived = Some (3 + 2 * hour)" "ev_review_by demo_waived = Some (3 + hour)"
      "ev_seq demo_waived = 1" by (simp_all add: demo_waived_def)
  have k: "\<not> list_ex (\<lambda>x. me_idempotency_key x = Some (lit ''k3'')) (l_events demo2)"
    by (simp add: demo2_def demo1_def Let_def demo_event_def)
  have i: "insert_keyed_conflict_event (demo_scope ''c'') ''conflict_waived'' 102 (lit ''k3'')
      (jobj [(''claim_key'', JString demo_key), (''episode_revision'', jint 1),
        (''reason_kind'', jstr ''upstream_blocked''), (''expires_at'', JString []), (''review_by'', JString []),
        (''event_seq'', jint 1)]) (?u\<lparr>l_log := [demo_log_row]\<rparr>)
    = Inr ((), demo2\<lparr>l_receipts := l_receipts demo2 @ [demo_reserved], l_log := [demo_log_row],
        l_events := l_events demo2 @ [demo_waive_audit]\<rparr>)"
    by (simp add: insert_keyed_conflict_event_def insert_memory_event_def tx_eval demo_waive_audit_def k)
  show ?thesis
    by (simp add: waive_once_def tx_eval Let_def demo_reserve demo_locks [OF demo2_core(1) [OF u]] f demo_authorship [OF demo2_core(1) [OF u]] a
        demo_append [OF u, unfolded demo_draft_def] e demo_env_def [THEN arg_cong [where f = e_show_time]]
        i demo_finish [unfolded demo_waive_reply_def] demo_waive_reply_def jopt_def)
qed

lemma demo_waive_valid:
  "validate_adjudication (demo_config ''c'') (demo_scope ''c'') demo_target (lit ''w'') (lit ''k3'') = Inr (lit ''k3'')"
proof -
  have s: "ensure_scope (demo_config ''c'') (demo_scope ''c'') = Inr ()"
    by (simp add: ensure_scope_def validate_scope_def validate_component_def demo_scope_def demo_config_def trim_def lit_def
        is_whitespace_def utf8_len_def utf8_char_len_def is_control_def ensure_def Let_def)
  have k: "validated_idempotency_key (lit ''k3'') = Inr (lit ''k3'')"
    by (simp add: validated_key_Inr trim_def lit_def is_whitespace_def utf8_len_def utf8_char_len_def)
  have r: "validate_rationale (lit ''w'') = Inr ()"
    by (simp add: validate_rationale_def validate_note_def lit_def is_blank_rationale_def trim_def is_whitespace_def
        is_control_def utf8_len_def utf8_char_len_def)
  show ?thesis
    by (simp add: validate_adjudication_def s k r require_adjudication_def require_capability_def
        validate_conflict_target_def safe_int_def)
qed

lemma demo_waive: "demo_call ''c'' 3 (WaiveCall demo_target demo_waiver) ''k3'' demo2
    = Inr (ConflictResponse demo_waive_reply, demo3)"
  by (simp add: demo_call_def run_call_def waive_conflict_def tx_eval demo_waive_valid validate_waiver_hours_def
      demo_waive_once)

lemma demo3_reachable: "ledger_run demo_env demo2 demo3" "reachable demo_env demo3"
proof -
  have "ledger_step demo_env (lit ''c'') demo2 demo3"
    using ledger_step.call [OF demo_waive [unfolded demo_call_def]] by simp
  then show "ledger_run demo_env demo2 demo3" "reachable demo_env demo3"
    using demo_runs(3) unfolding reachable_def by (blast intro: ledger_run.intros)+
qed

end
