(* ===== verification/Crowded_Example.thy ===== *)
theory Crowded_Example
  imports Conflict_Example
begin

section \<open>A crowded episode\<close>

text \<open>
  A longer history of the example: an agent acknowledges the conflict and a disinterested agent waives it
  again and again, each time under a fresh key. Every such ledger is reachable, and its log is
  one acknowledgement followed by waivers of one episode.
\<close>

subsection \<open>One more event\<close>

definition short_keys :: "nat \<Rightarrow> ledger \<Rightarrow> bool" where
  "short_keys n s \<longleftrightarrow> (\<forall>r\<in>set (l_receipts s). length (rc_idempotency_key r) < n + 3)
     \<and> (\<forall>x\<in>set (l_events s). \<forall>k. me_idempotency_key x = Some k \<longrightarrow> length k < n + 3)
     \<and> (\<forall>r\<in>set (l_log s). length (lg_idempotency_key r) < n + 3)"

definition crowd_key :: "nat \<Rightarrow> ustr" where
  "crowd_key n = replicate (n + 3) 120"

lemma crowd_key_length [simp]: "length (crowd_key n) = n + 3" "utf8_len (crowd_key n) = n + 3"
  by (simp_all add: crowd_key_def utf8_len_def utf8_char_len_def map_replicate_const sum_list_replicate)

lemma crowd_key_ok: "n \<le> 100 \<Longrightarrow> validated_idempotency_key (crowd_key n) = Inr (crowd_key n)"
proof -
  assume "n \<le> 100"
  moreover have "trim (crowd_key n) = crowd_key n" by (simp add: crowd_key_def trim_def is_whitespace_def)
  moreover have "crowd_key n \<noteq> []" by (simp add: crowd_key_def)
  ultimately show ?thesis by (simp add: validated_key_Inr)
qed

lemma fresh_reserve:
  assumes "short_keys n s"
  shows "replay_or_reserve d (demo_scope ''c'') (crowd_key n) request op s = Inr (None, s\<lparr>l_receipts := l_receipts s @
    [\<lparr>rc_idempotency_key = crowd_key n, rc_project = lit ''p'', rc_request = request, rc_operation = op, rc_claim_id = None,
      rc_conflict_id = None, rc_response = None\<rparr>]\<rparr>)"
proof -
  have "select_receipt (crowd_key n) s = None"
    using assms unfolding short_keys_def select_receipt_def find_None_iff by (metis crowd_key_length(1) less_irrefl)
  then show ?thesis by (simp add: replay_or_reserve_def reserve_receipt_def tx_eval)
qed

lemma fresh_finish:
  assumes "short_keys n s" and "l_receipts t = l_receipts s @
    [\<lparr>rc_idempotency_key = crowd_key n, rc_project = lit ''p'', rc_request = request, rc_operation = op, rc_claim_id = None,
      rc_conflict_id = None, rc_response = None\<rparr>]"
  shows "\<exists>r. finish_conflict_receipt demo_env (demo_scope ''c'') (crowd_key n) request op m t
      = Inr ((), t\<lparr>l_receipts := l_receipts s @ [r]\<rparr>) \<and> rc_idempotency_key r = crowd_key n"
proof -
  have n: "\<not> receipt_matches demo_env (demo_scope ''c'') (crowd_key n) request op r" if "r \<in> set (l_receipts s)" for r
    using assms(1) that unfolding short_keys_def receipt_matches_def by (metis crowd_key_length(1) less_irrefl)
  then have "filter (receipt_matches demo_env (demo_scope ''c'') (crowd_key n) request op) (l_receipts s) = []"
    by (simp add: filter_empty_conv)
  moreover have "map (\<lambda>r. if receipt_matches demo_env (demo_scope ''c'') (crowd_key n) request op r then f r else r) (l_receipts s)
      = l_receipts s" for f
    using n by (intro map_idI) simp
  ultimately show ?thesis
    by (simp add: finish_conflict_receipt_def finish_receipt_def tx_eval assms(2) receipt_matches_def)
       (rule exI, rule conjI, rule refl, simp)
qed

lemma fresh_event:
  assumes "short_keys n s" and "l_events t = l_events s"
  shows "\<exists>x. insert_keyed_conflict_event (demo_scope ''c'') kind i (crowd_key n) payload t = Inr ((), t\<lparr>l_events := l_events s @ [x]\<rparr>)
    \<and> me_idempotency_key x = Some (crowd_key n)"
proof -
  have "\<not> list_ex (\<lambda>x. me_idempotency_key x = Some (crowd_key n)) (l_events s)"
    using assms(1) unfolding short_keys_def list_ex_iff by (metis crowd_key_length(1) less_irrefl)
  then show ?thesis
    by (simp add: insert_keyed_conflict_event_def insert_memory_event_def tx_eval assms(2)) (rule exI, rule conjI, rule refl, simp)
qed

definition crowd_row :: "nat \<Rightarrow> lifecycle_event_draft \<Rightarrow> log_row" where
  "crowd_row n d = \<lparr>lg_project = lit ''p'', lg_conflict_id = 102, lg_event = draft_event (demo_tx 3) (int n + 1) d, lg_to_state = ''open'',
     lg_session_id = None, lg_idempotency_key = crowd_key n\<rparr>"

lemma fresh_append:
  assumes k: "short_keys n s" and num: "numbered (conflict_log 102 s)" "conflict_log 102 s = l_log s" "length (l_log s) = n" "n \<le> 100"
    and d: "ed_conflict_id d = 102" "ed_key d = crowd_key n" "ed_to_state d = ''open''" "ed_member_count d = 2"
      "ed_kind d = ''acknowledged'' \<Longrightarrow> l_log s = []" "log_checks demo_env (crowd_row n d)" and t: "l_log t = l_log s"
  shows "append_lifecycle_event demo_env (demo_tx 3) (demo_scope ''c'') d t
    = Inr (lg_event (crowd_row n d), t\<lparr>l_log := l_log s @ [crowd_row n d]\<rparr>)"
proof -
  have c: "conflict_log 102 t = l_log s" using num(2) t by (simp add: conflict_log_def)
  have seq: "next_event_seq 102 t = Inr (int n + 1, t)"
    using next_seq_numbered [of 102 t] num c by simp
  have "map (\<lambda>r. ev_seq (lg_event r)) (l_log s) = map int [1..<n + 1]" using num by (simp add: numbered_def)
  then have seqs: "ev_seq (lg_event r) < int n + 1" if "r \<in> set (l_log s)" for r
    using imageI [OF that, of "\<lambda>r. ev_seq (lg_event r)"] by (simp only: list.set_map [symmetric]) auto
  have "\<not> log_clash (crowd_row n d) r" if r: "r \<in> set (l_log s)" for r
  proof -
    have "lg_idempotency_key r \<noteq> crowd_key n" using k r unfolding short_keys_def by force
    moreover have "ed_kind d \<noteq> ''acknowledged''" using d(5) r by force
    ultimately show ?thesis using seqs [OF r] by (simp add: log_clash_def crowd_row_def draft_event_def)
  qed
  then have "\<not> list_ex (log_clash (crowd_row n d)) (l_log s)" by (auto simp: list_ex_iff)
  then show ?thesis
    using d(6) \<open>n \<le> 100\<close>
    by (simp add: append_lifecycle_event_def tx_eval d(1-4) seq event_fits_log_def insert_lifecycle_event_def Let_def t)
       (simp add: crowd_row_def)
qed

subsection \<open>The history\<close>

definition crowd_event :: "nat \<Rightarrow> conflict_lifecycle_event \<Rightarrow> bool" where
  "crowd_event i e \<longleftrightarrow> ev_episode_revision e = 1
     \<and> (if i = 0 then ev_kind e = ''acknowledged'' else ev_kind e = ''waived'' \<and> ev_expires_at e = Some (3 + 2 * hour))"

definition crowded :: "nat \<Rightarrow> ledger \<Rightarrow> bool" where
  "crowded n s \<longleftrightarrow> reachable demo_env s \<and> demo_tables s \<and> short_keys n s \<and> length (l_log s) = n
     \<and> (\<forall>i<n. lg_conflict_id (l_log s ! i) = 102 \<and> crowd_event i (lg_event (l_log s ! i)))"

lemma crowded_start: "crowded 0 demo2"
  using demo_reachable(2) demo2_core [of demo2]
  by (simp add: crowded_def same_core_def short_keys_def)
     (simp add: demo2_def demo1_def Let_def demo_receipt_def demo_event_def lit_def)

lemma crowded_log:
  assumes "crowded n s"
  shows "numbered (conflict_log 102 s)" and "conflict_log 102 s = l_log s"
proof -
  have "\<forall>r\<in>set (l_log s). lg_conflict_id r = 102" using assms by (auto simp: crowded_def in_set_conv_nth)
  then show "conflict_log 102 s = l_log s" by (simp add: conflict_log_def)
  show "numbered (conflict_log 102 s)"
    using reachable_log assms unfolding crowded_def log_ok_def conflict_log_def by blast
qed

lemma crowded_next:
  assumes c: "crowded n s" and run: "run_call demo_env (demo_config ''c'') (demo_tx 3) demo_encode (demo_scope ''c'') call (crowd_key n) s = Inr (m, t)"
    and t: "demo_tables t" "l_receipts t = l_receipts s @ [r]" "rc_idempotency_key r = crowd_key n"
      "l_events t = l_events s @ [x]" "me_idempotency_key x = Some (crowd_key n)"
      "l_log t = l_log s @ [crowd_row n d]" "crowd_event n (lg_event (crowd_row n d))"
  shows "crowded (Suc n) t"
proof -
  have "ledger_step demo_env (sc_agent (demo_scope ''c'')) s t" by (rule ledger_step.call [OF run])
  then have "reachable demo_env t" using c unfolding crowded_def reachable_def by (blast intro: ledger_run.intros)
  moreover have "short_keys (Suc n) t"
    using c t(2-6) unfolding crowded_def short_keys_def by (auto simp: crowd_row_def intro: less_SucI)
  ultimately show ?thesis
    using c t(1,6,7) by (auto simp: crowded_def nth_append less_Suc_eq crowd_row_def)
qed

lemma demo_c_ok: "ensure_scope (demo_config ''c'') (demo_scope ''c'') = Inr ()"
  by (simp add: ensure_scope_def validate_scope_def validate_component_def demo_scope_def demo_config_def trim_def lit_def
      is_whitespace_def utf8_len_def utf8_char_len_def is_control_def ensure_def Let_def)

definition crowd_ack :: lifecycle_event_draft where
  "crowd_ack = \<lparr>ed_conflict_id = 102, ed_kind = ''acknowledged'', ed_episode_revision = 1, ed_result_revision = 1,
     ed_to_state = ''open'', ed_actor_kind = ''agent'', ed_actor = lit ''c'', ed_operation = ACKNOWLEDGE_OPERATION,
     ed_key = crowd_key 0, ed_member_count = 2, ed_reason_kind = None, ed_rationale = None, ed_payload = jobj [],
     ed_expires_in_hours = None, ed_review_in_hours = None\<rparr>"

definition crowd_waiver :: "nat \<Rightarrow> lifecycle_event_draft" where
  "crowd_waiver n = demo_draft\<lparr>ed_key := crowd_key n\<rparr>"

lemma crowd_rows_checked:
  "log_checks demo_env (crowd_row 0 crowd_ack)" "n \<le> 100 \<Longrightarrow> log_checks demo_env (crowd_row n (crowd_waiver n))"
  using hour_pos
  by (simp_all add: log_checks_def crowd_row_def crowd_ack_def crowd_waiver_def demo_draft_def draft_event_def safe_int_def Let_def
      lit_def opt_any_def opt_all_def demo_env_def utf8_len_def [of "_ # _"] utf8_len_def [of "[]"] utf8_char_len_def)

lemma crowd_lock_fields:
  "lin_id (lx_lineage demo_lock) = 102" "lin_revision (lx_lineage demo_lock) = 1" "lx_member_count demo_lock = 2"
  "lx_claim_key demo_lock = demo_key"
  by (simp_all add: demo_lock_def)

lemma crowd_call:
  assumes c: "crowded n s" and n: "n \<le> 100"
    and d: "ed_conflict_id d = 102" "ed_key d = crowd_key n" "ed_to_state d = ''open''" "ed_member_count d = 2"
      "ed_kind d = ''acknowledged'' \<Longrightarrow> n = 0" "log_checks demo_env (crowd_row n d)" "crowd_event n (lg_event (crowd_row n d))"
  obtains u v w Z where
    "replay_or_reserve is_conflict_response (demo_scope ''c'') (crowd_key n) request op s = Inr (None, u)"
    and "demo_tables u" and "l_log u = l_log s"
    and "append_lifecycle_event demo_env (demo_tx 3) (demo_scope ''c'') d u = Inr (lg_event (crowd_row n d), v)"
    and "insert_keyed_conflict_event (demo_scope ''c'') kind 102 (crowd_key n) payload v = Inr ((), w)"
    and "\<And>m. finish_conflict_receipt demo_env (demo_scope ''c'') (crowd_key n) request op m w = Inr ((), Z m)"
    and "\<And>m call. run_call demo_env (demo_config ''c'') (demo_tx 3) demo_encode (demo_scope ''c'') call (crowd_key n) s
        = Inr (ConflictResponse m, Z m) \<Longrightarrow> crowded (Suc n) (Z m)"
proof -
  define u where "u = s\<lparr>l_receipts := l_receipts s @ [\<lparr>rc_idempotency_key = crowd_key n, rc_project = lit ''p'', rc_request = request,
    rc_operation = op, rc_claim_id = None, rc_conflict_id = None, rc_response = None\<rparr>]\<rparr>"
  define v where "v = u\<lparr>l_log := l_log s @ [crowd_row n d]\<rparr>"
  have k: "short_keys n s" and tab: "demo_tables s" and len: "length (l_log s) = n" using c by (simp_all add: crowded_def)
  have ev: "l_events v = l_events s" by (simp add: v_def u_def)
  obtain x where x: "insert_keyed_conflict_event (demo_scope ''c'') kind 102 (crowd_key n) payload v = Inr ((), v\<lparr>l_events := l_events s @ [x]\<rparr>)"
      "me_idempotency_key x = Some (crowd_key n)"
    using fresh_event [OF k ev, of kind 102 payload] by blast
  define w where "w = v\<lparr>l_events := l_events s @ [x]\<rparr>"
  have "\<forall>m. \<exists>r. finish_conflict_receipt demo_env (demo_scope ''c'') (crowd_key n) request op m w = Inr ((), w\<lparr>l_receipts := l_receipts s @ [r]\<rparr>)
      \<and> rc_idempotency_key r = crowd_key n"
    using fresh_finish [OF k, of w] by (simp add: w_def v_def u_def)
  then obtain R where R: "\<And>m. finish_conflict_receipt demo_env (demo_scope ''c'') (crowd_key n) request op m w
      = Inr ((), w\<lparr>l_receipts := l_receipts s @ [R m]\<rparr>)" "\<And>m. rc_idempotency_key (R m) = crowd_key n" by metis
  show ?thesis
  proof (rule that)
    show "replay_or_reserve is_conflict_response (demo_scope ''c'') (crowd_key n) request op s = Inr (None, u)"
      unfolding u_def by (rule fresh_reserve [OF k])
    show "demo_tables u" "l_log u = l_log s" using tab by (simp_all add: u_def demo_tables_def)
    have "ed_kind d = ''acknowledged'' \<Longrightarrow> l_log s = []" using d(5) len by simp
    from fresh_append [OF k crowded_log [OF c] len n d(1-4) this d(6), of u]
    show "append_lifecycle_event demo_env (demo_tx 3) (demo_scope ''c'') d u = Inr (lg_event (crowd_row n d), v)"
      by (simp add: v_def u_def)
    show "insert_keyed_conflict_event (demo_scope ''c'') kind 102 (crowd_key n) payload v = Inr ((), w)" using x(1) by (simp add: w_def)
    show "finish_conflict_receipt demo_env (demo_scope ''c'') (crowd_key n) request op m w = Inr ((), w\<lparr>l_receipts := l_receipts s @ [R m]\<rparr>)" for m
      by (rule R(1))
    show "crowded (Suc n) (w\<lparr>l_receipts := l_receipts s @ [R m]\<rparr>)"
      if "run_call demo_env (demo_config ''c'') (demo_tx 3) demo_encode (demo_scope ''c'') call (crowd_key n) s
        = Inr (ConflictResponse m, w\<lparr>l_receipts := l_receipts s @ [R m]\<rparr>)" for m call
      by (rule crowded_next [OF c that, of "R m" x d])
        (use tab R(2) x(2) d(7) in \<open>simp_all add: w_def v_def u_def demo_tables_def\<close>)
  qed
qed

lemma crowd_acknowledged: "\<exists>t. crowded 1 t"
proof -
  let ?rq = "acknowledge_request (demo_scope ''c'') demo_target None"
  let ?payload = "jobj [(''claim_key'', JString demo_key), (''episode_revision'', jint 1), (''applied'', JBool True),
    (''status'', jstr ''acknowledged''), (''event_seq'', jint (ev_seq (lg_event (crowd_row 0 crowd_ack))))]"
  have "crowd_event 0 (lg_event (crowd_row 0 crowd_ack))"
    by (simp add: crowd_event_def crowd_row_def crowd_ack_def draft_event_def)
  note d = this and f = crowd_rows_checked(1)
  have "ed_conflict_id crowd_ack = 102" "ed_key crowd_ack = crowd_key 0" "ed_to_state crowd_ack = ''open''" "ed_member_count crowd_ack = 2"
    by (simp_all add: crowd_ack_def)
  from crowd_call [OF crowded_start _ this _ f d, of ?rq ACKNOWLEDGE_OPERATION "''conflict_acknowledged''" ?payload]
  obtain u v w Z where r: "replay_or_reserve is_conflict_response (demo_scope ''c'') (crowd_key 0) ?rq ACKNOWLEDGE_OPERATION demo2 = Inr (None, u)"
    and u: "demo_tables u" "l_log u = l_log demo2"
    and a: "append_lifecycle_event demo_env (demo_tx 3) (demo_scope ''c'') crowd_ack u = Inr (lg_event (crowd_row 0 crowd_ack), v)"
    and e: "insert_keyed_conflict_event (demo_scope ''c'') ''conflict_acknowledged'' 102 (crowd_key 0) ?payload v = Inr ((), w)"
    and f: "\<And>m. finish_conflict_receipt demo_env (demo_scope ''c'') (crowd_key 0) ?rq ACKNOWLEDGE_OPERATION m w = Inr ((), Z m)"
    and more: "\<And>m call. run_call demo_env (demo_config ''c'') (demo_tx 3) demo_encode (demo_scope ''c'') call (crowd_key 0) demo2
        = Inr (ConflictResponse m, Z m) \<Longrightarrow> crowded (Suc 0) (Z m)"
    by (simp only: refl le0) metis
  have "\<not> ack_exists 102 1 (lit ''c'') u" using u(2) crowded_start by (simp add: ack_exists_def conflict_log_def crowded_def)
  then have "\<exists>m. acknowledge_once demo_env (demo_tx 3) (demo_scope ''c'') demo_target None (crowd_key 0) ?rq demo2 = Inr (ConflictResponse m, Z m)"
    using a [unfolded crowd_ack_def] e
    by (simp add: acknowledge_once_def tx_eval r demo_locks [OF u(1)] crowd_lock_fields Let_def jopt_def f crowd_ack_def)
  then have "\<exists>m. run_call demo_env (demo_config ''c'') (demo_tx 3) demo_encode (demo_scope ''c'') (AcknowledgeCall demo_target None) (crowd_key 0) demo2
      = Inr (ConflictResponse m, Z m)"
    using crowd_key_ok [of 0]
    by (simp add: run_call_def acknowledge_conflict_def tx_eval demo_c_ok require_capability_def validate_conflict_target_def safe_int_def check_reason_def)
  then show ?thesis using more by auto
qed

lemma crowd_waived:
  assumes c: "crowded n s" and n: "0 < n" "n \<le> 100"
  shows "\<exists>t. crowded (Suc n) t"
proof -
  let ?rq = "waive_request (demo_scope ''c'') demo_target demo_waiver" and ?e = "lg_event (crowd_row n (crowd_waiver n))"
  let ?payload = "jobj [(''claim_key'', JString demo_key), (''episode_revision'', jint 1), (''reason_kind'', jstr ''upstream_blocked''),
    (''expires_at'', JString []), (''review_by'', JString []), (''event_seq'', jint (ev_seq ?e))]"
  have "ed_conflict_id (crowd_waiver n) = 102" "ed_key (crowd_waiver n) = crowd_key n" "ed_to_state (crowd_waiver n) = ''open''"
      "ed_member_count (crowd_waiver n) = 2" "ed_kind (crowd_waiver n) = ''acknowledged'' \<Longrightarrow> n = 0"
    by (simp_all add: crowd_waiver_def demo_draft_def)
  moreover have ev: "ev_expires_at ?e = Some (3 + 2 * hour)" "ev_review_by ?e = Some (3 + hour)"
    by (simp_all add: crowd_row_def draft_event_def crowd_waiver_def demo_draft_def)
  moreover have "crowd_event n ?e"
    using n ev(1) by (simp add: crowd_event_def) (simp add: crowd_row_def draft_event_def crowd_waiver_def demo_draft_def)
  ultimately obtain u v w Z where r: "replay_or_reserve is_conflict_response (demo_scope ''c'') (crowd_key n) ?rq WAIVE_OPERATION s = Inr (None, u)"
    and u: "demo_tables u"
    and a: "append_lifecycle_event demo_env (demo_tx 3) (demo_scope ''c'') (crowd_waiver n) u = Inr (?e, v)"
    and e: "insert_keyed_conflict_event (demo_scope ''c'') ''conflict_waived'' 102 (crowd_key n) ?payload v = Inr ((), w)"
    and f: "\<And>m. finish_conflict_receipt demo_env (demo_scope ''c'') (crowd_key n) ?rq WAIVE_OPERATION m w = Inr ((), Z m)"
    and more: "\<And>m call. run_call demo_env (demo_config ''c'') (demo_tx 3) demo_encode (demo_scope ''c'') call (crowd_key n) s
        = Inr (ConflictResponse m, Z m) \<Longrightarrow> crowded (Suc n) (Z m)"
    using crowd_call [OF c n(2), of "crowd_waiver n" ?rq WAIVE_OPERATION "''conflict_waived''" ?payload] crowd_rows_checked(2) [OF n(2)]
    by metis
  have "check_adjudicator 102 2 \<lparr>members_checked = 2, implicated_members = 0, unattributed_members = 0\<rparr> = Inr ()"
    by (simp add: check_adjudicator_Inr)
  then have "\<exists>m. waive_once demo_env (demo_tx 3) (demo_scope ''c'') demo_target demo_waiver (crowd_key n) ?rq s = Inr (ConflictResponse m, Z m)"
    using a [unfolded crowd_waiver_def demo_draft_def] e ev
    by (simp add: waive_once_def tx_eval r demo_locks [OF u] demo_authorship [OF u] crowd_lock_fields Let_def jopt_def f
        crowd_waiver_def demo_draft_def demo_env_def [THEN arg_cong [where f = e_show_time]])
  moreover have "validate_rationale (lit ''w'') = Inr ()"
    by (simp add: validate_rationale_def validate_note_def lit_def is_blank_rationale_def trim_def is_whitespace_def
        is_control_def utf8_len_def utf8_char_len_def)
  ultimately have "\<exists>m. run_call demo_env (demo_config ''c'') (demo_tx 3) demo_encode (demo_scope ''c'') (WaiveCall demo_target demo_waiver) (crowd_key n) s
      = Inr (ConflictResponse m, Z m)"
    using crowd_key_ok [OF n(2)]
    by (simp add: run_call_def waive_conflict_def tx_eval validate_adjudication_def demo_c_ok require_adjudication_def require_capability_def
        validate_conflict_target_def safe_int_def validate_waiver_hours_def)
  then show ?thesis using more by blast
qed

lemma crowded_reachable: "0 < n \<Longrightarrow> n \<le> 100 \<Longrightarrow> \<exists>s. crowded n s"
proof (induction n rule: nat_induct_non_zero)
  case 1
  show ?case by (rule crowd_acknowledged)
next
  case (Suc n)
  then obtain s where "crowded n s" by auto
  from crowd_waived [OF this] Suc show ?case by simp
qed

end
