(* ===== verification/Conflict_Properties.thy ===== *)
theory Conflict_Properties
  imports Crowded_Example
begin

section \<open>Properties of adjudication, the log and its reads\<close>

text \<open>
  What an adjudication leaves behind and what a later reader sees of it: the numbering of the
  log, the separation of duties, the life of a waiver, the bounded overlay and history.
\<close>

lemma waive_conflict_once:
  assumes "waive_conflict en lc ti sc x terms ikey s = Inr (m, t)"
  shows "waive_once en ti sc x terms (trim ikey) (waive_request sc x terms) s = Inr (m, t)"
  using assms by (auto simp: waive_conflict_def validate_adjudication_def tx_simps res_simps validated_key_Inr
      split: sum.splits)

lemma dismiss_conflict_once:
  assumes "dismiss_conflict en lc ti sc x terms ikey s = Inr (m, t)"
  shows "dismiss_once en ti sc x terms (trim ikey) (dismiss_request sc x terms) s = Inr (m, t)"
  using assms by (auto simp: dismiss_conflict_def validate_adjudication_def tx_simps res_simps validated_key_Inr
      split: sum.splits)

lemma waive_run:
  assumes "waive_conflict en lc ti sc x terms ikey s = Inr (m, t)" and "select_receipt (trim ikey) s = None"
  shows "waived_outcome ti sc x terms s m t"
  using waive_outcome [of s "trim ikey" en ti sc x terms] waive_conflict_once [OF assms(1)] assms(2)
  unfolding triple_def by blast

lemma dismiss_run:
  assumes "dismiss_conflict en lc ti sc x terms ikey s = Inr (m, t)" and "select_receipt (trim ikey) s = None"
  shows "dismissed_outcome en sc x terms s m t"
  using dismiss_outcome [of s "trim ikey" en ti sc x terms] dismiss_conflict_once [OF assms(1)] assms(2)
  unfolding triple_def by blast

subsection \<open>The log\<close>

text \<open>C15: in every reachable ledger the lifecycle log of each conflict is numbered from one
  without gaps, every row passes the CHECK constraints of the table, and no two rows of a
  conflict share a number, an idempotency key, or an agent's acknowledgement of an episode.\<close>

theorem lifecycle_log_numbered:
  assumes "reachable en s"
  shows "(\<forall>r\<in>set (l_log s). log_checks en r) \<and> sorted_wrt (\<lambda>a b. \<not> log_clash b a) (l_log s)
    \<and> (\<forall>k. map (\<lambda>r. ev_seq (lg_event r)) (conflict_log k s) = map int [1..<length (conflict_log k s) + 1])"
  using reachable_log [OF assms] unfolding log_ok_def numbered_def conflict_log_def .

theorem lifecycle_log_numbered_witness:
  "conflict_log 102 demo3 = [demo_log_row] \<and> log_checks demo_env demo_log_row"
proof -
  have "l_log demo3 = [demo_log_row]" by (simp add: demo3_def)
  then show ?thesis using lifecycle_log_numbered [OF demo3_reachable(2)] by (simp add: conflict_log_def demo_log_row_def)
qed

subsection \<open>Separation of duties\<close>

text \<open>C16: a conflict is dismissed or waived only by an agent who authored none of its members,
  when every member is attributed; the call appends its event to the log under that agent's
  name, and a dismissal closes the episode it was decided against.\<close>

theorem adjudicators_are_disinterested:
  assumes "select_receipt (trim ikey) s = None"
  shows "(waive_conflict en lc ti sc x terms ikey s = Inr (m, t) \<longrightarrow> disinterested (sc_agent sc) (xt_conflict_id x) s
      \<and> (\<exists>row. l_log t = l_log s @ [row] \<and> ev_actor (lg_event row) = sc_agent sc \<and> ev_kind (lg_event row) = ''waived''
           \<and> ev_episode_revision (lg_event row) = xt_expected_revision x))
    \<and> (dismiss_conflict en lc ti sc x terms' ikey s = Inr (m, t) \<longrightarrow> disinterested (sc_agent sc) (xt_conflict_id x) s
      \<and> closed_as ''dismissed'' (xt_conflict_id x) (xt_expected_revision x + 1) t
      \<and> (\<exists>row. l_log t = l_log s @ [row] \<and> ev_actor (lg_event row) = sc_agent sc \<and> ev_kind (lg_event row) = ''dismissed''
           \<and> ev_episode_revision (lg_event row) = xt_expected_revision x))"
  using waive_run [OF _ assms] dismiss_run [OF _ assms]
  unfolding waived_outcome_def dismissed_outcome_def waiver_event_def appended_def by fastforce

theorem adjudicators_are_disinterested_witness: "disinterested (lit ''c'') 102 demo2"
proof -
  have "trim (lit ''k3'') = lit ''k3''" by (simp add: trim_def lit_def is_whitespace_def)
  moreover have "select_receipt (lit ''k3'') demo2 = None"
    by (simp add: select_receipt_def demo2_def demo1_def Let_def demo_receipt_def lit_def)
  ultimately have f: "select_receipt (trim (lit ''k3'')) demo2 = None" by simp
  have w: "waive_conflict demo_env (demo_config ''c'') (demo_tx 3) (demo_scope ''c'') demo_target demo_waiver (lit ''k3'') demo2
      = Inr (ConflictResponse demo_waive_reply, demo3)"
    using demo_waive by (simp add: demo_call_def run_call_def)
  from adjudicators_are_disinterested [OF f] w have "disinterested (sc_agent (demo_scope ''c'')) (xt_conflict_id demo_target) demo2"
    by blast
  then show ?thesis by simp
qed

subsection \<open>The overlay\<close>

lemma appended_latest:
  assumes "log_ok en (l_log t)" and "appended s0 k e t" and "ev_kind e = ''waived''" and "ev_episode_revision e = r"
  shows "latest waived (filter (\<lambda>x. ev_episode_revision x = r) (log_events k t)) = Some e"
proof -
  from assms(2) obtain row where row: "l_log t = l_log s0 @ [row]" "lg_conflict_id row = k" "lg_event row = e"
    by (auto simp: appended_def)
  have n: "numbered (conflict_log k t)" using assms(1) by (simp add: log_ok_def conflict_log_def)
  have c: "conflict_log k t = conflict_log k s0 @ [row]" using row by (simp add: conflict_log_def)
  have le: "ev_seq y \<le> ev_seq e" if "y \<in> set (log_events k t)" for y
  proof -
    have m: "map ev_seq (log_events k t) = map int [1..<length (conflict_log k t) + 1]"
      using n by (simp add: numbered_def log_events_def comp_def)
    have "ev_seq e = int (length (conflict_log k t))"
      using n unfolding c numbered_snoc row(3) by simp
    moreover have "ev_seq y \<in> set (map ev_seq (log_events k t))" using that by simp
    ultimately show ?thesis unfolding m by auto
  qed
  have d: "distinct (map ev_seq (filter (\<lambda>x. ev_episode_revision x = r) (log_events k t)))"
    using log_events_distinct [OF n] by (simp add: distinct_map_filter)
  have "e \<in> set (log_events k t)" using c row(3) by (simp add: log_events_def)
  with le assms(3,4) show ?thesis by (simp add: latest_iff [OF d])
qed

text \<open>C17: a committed waiver holds exactly as long as it was granted: from then on, until the
  log of the conflict grows again, the conflict reads as waived at an instant exactly when
  the instant is before the expiry and the conflict still has the members it was waived with.\<close>

theorem waiver_holds_until_expiry:
  assumes "waive_conflict en lc ti sc x terms ikey s = Inr (ConflictResponse m, t)"
    and "select_receipt (trim ikey) s = None" and "reachable en s"
  shows "ov_read_side (derive_overlay ''open'' (xm_conflict_revision m) n
      (map lg_event (conflict_log (xm_conflict_id m) t)) False now) = ''waived''
    \<longleftrightarrow> n = xm_member_count m \<and> now < t_now ti + int (wt_expires_in_hours terms) * hour"
proof -
  from waive_run [OF assms(1,2)] obtain e where e: "xm_conflict_id m = xt_conflict_id x"
      "xm_conflict_revision m = xt_expected_revision x" "waiver_event ti sc x terms (xm_member_count m) e"
      "appended s (xt_conflict_id x) e t"
    by (auto simp: waived_outcome_def)
  have "ledger_step en (sc_agent sc) s t"
    using ledger_step.call [of en lc ti undefined sc "WaiveCall x terms" ikey s "ConflictResponse m" t] assms(1)
    by (simp add: run_call_def)
  then have ok: "log_ok en (l_log t)" using step_log reachable_log [OF assms(3)] by blast
  have l: "latest waived (filter (\<lambda>y. ev_episode_revision y = xt_expected_revision x) (log_events (xt_conflict_id x) t)) = Some e"
    by (rule appended_latest [OF ok e(4)]) (use e(3) in \<open>simp_all add: waiver_event_def\<close>)
  have w: "ov_waiver (derive_overlay ''open'' (xm_conflict_revision m) n (log_events (xm_conflict_id m) t) False now)
      = waiver_of n now e"
    by (simp add: derive_overlay_open(1) e(1,2) l waiver_of_latest_def)
  have "opt_any wv_active (waiver_of n now e) \<longleftrightarrow>
      n = xm_member_count m \<and> now < t_now ti + int (wt_expires_in_hours terms) * hour"
    using e(3) by (auto simp: waiver_event_def waiver_of_def opt_any_def Let_def)
  then show ?thesis
    unfolding log_events_def [symmetric] derive_overlay_open(2) [OF open_not_closed] w by simp
qed

theorem waiver_holds_until_expiry_witness:
  "ov_read_side (derive_overlay ''open'' 1 2 (map lg_event (conflict_log 102 demo3)) False (2 + 2 * hour)) = ''waived''
   \<and> ov_read_side (derive_overlay ''open'' 1 2 (map lg_event (conflict_log 102 demo3)) False (3 + 2 * hour)) \<noteq> ''waived''"
proof -
  have f: "select_receipt (trim (lit ''k3'')) demo2 = None"
    by (simp add: select_receipt_def demo2_def demo1_def Let_def demo_receipt_def lit_def trim_def is_whitespace_def)
  have w: "waive_conflict demo_env (demo_config ''c'') (demo_tx 3) (demo_scope ''c'') demo_target demo_waiver (lit ''k3'') demo2
      = Inr (ConflictResponse demo_waive_reply, demo3)"
    using demo_waive by (simp add: demo_call_def run_call_def)
  have m: "xm_conflict_revision demo_waive_reply = 1" "xm_conflict_id demo_waive_reply = 102"
      "xm_member_count demo_waive_reply = 2" by (simp_all add: demo_waive_reply_def)
  show ?thesis
    using waiver_holds_until_expiry [OF w f demo_reachable(2), of 2 "2 + 2 * hour"]
      waiver_holds_until_expiry [OF w f demo_reachable(2), of 2 "3 + 2 * hour"]
    by (simp add: m)
qed

text \<open>C18: the bounded overlay read loses nothing that decides. For an open conflict of a
  reachable ledger, the overlay derived from the at most 32 newest events of the episode and
  its latest waiver has the read side and the waiver of the whole log, and is the overlay of
  the whole log when the read was not truncated.\<close>

theorem overlay_read_complete:
  assumes "reachable en s" and "conflict_lifecycle_rows en lc sc now episodes s = Inr rows"
    and "distinct (map fst episodes)" and "(k, r) \<in> set episodes"
  shows "\<exists>shown. cr_events rows k = Some shown \<and>
    (let o1 = derive_overlay ''open'' r n shown (k \<in> cr_truncated rows) (cr_evaluated_at rows);
         o2 = derive_overlay ''open'' r n (map lg_event (conflict_log k s)) False now in
     ov_waiver o1 = ov_waiver o2 \<and> ov_read_side o1 = ov_read_side o2 \<and> (k \<notin> cr_truncated rows \<longrightarrow> o1 = o2))"
proof -
  have nk: "numbered (conflict_log k s)" using reachable_log [OF assms(1)] by (simp add: log_ok_def conflict_log_def)
  note R = overlay_read [OF assms(2-4) nk]
  let ?es = "episode_events en s k r"
  let ?o1 = "derive_overlay ''open'' r n (shown_events ?es) (k \<in> cr_truncated rows) now"
  let ?o2 = "derive_overlay ''open'' r n (log_events k s) False now"
  have w: "ov_waiver ?o1 = ov_waiver ?o2" by (rule shown_waiver [OF nk])
  then have "ov_read_side ?o1 = ov_read_side ?o2" unfolding derive_overlay_open(2) [OF open_not_closed] by simp
  moreover have "?o1 = ?o2" if "k \<notin> cr_truncated rows"
    using that R(2) shown_whole [OF nk, of en r n False now] by simp
  ultimately show ?thesis using w R(1,3) unfolding Let_def log_events_def [symmetric] by simp
qed

theorem overlay_read_complete_witness:
  "\<exists>rows shown. conflict_lifecycle_rows demo_env (demo_config ''a'') (demo_scope ''a'') 4 [(102, 1)] demo3 = Inr rows
     \<and> cr_events rows 102 = Some shown"
proof -
  have "ensure_scope (demo_config ''a'') (demo_scope ''a'') = Inr ()" by (rule demo_scope_ok)
  then have "\<exists>rows. conflict_lifecycle_rows demo_env (demo_config ''a'') (demo_scope ''a'') 4 [(102, 1)] demo3 = Inr rows"
    unfolding conflict_lifecycle_rows_def by (simp add: require_capability_def safe_int_def Let_def)
  then obtain rows where r: "conflict_lifecycle_rows demo_env (demo_config ''a'') (demo_scope ''a'') 4 [(102, 1)] demo3 = Inr rows"
    by blast
  have "distinct (map fst [(102::int, 1::int)])" "(102, 1) \<in> set [(102::int, 1::int)]" by simp_all
  from overlay_read_complete [OF demo3_reachable(2) r this] r show ?thesis by blast
qed

lemma ov_state_open:
  "ov_state (derive_overlay ''open'' r n es tr x) =
     (if opt_any wv_active (ov_waiver (derive_overlay ''open'' r n es tr x)) then ''waived''
      else if filter (\<lambda>e. ev_kind e = ''acknowledged'') (filter (\<lambda>e. ev_episode_revision e = r) es) = []
      then ''open'' else ''acknowledged'')"
  by (auto simp: derive_overlay_def Let_def overlay_episode_revision_def filter_empty_conv)

text \<open>How many events of the episode are newer than an event of it.\<close>

definition newer_events :: "int \<Rightarrow> int \<Rightarrow> ledger \<Rightarrow> conflict_lifecycle_event \<Rightarrow> nat" where
  "newer_events k r s e = length (filter (\<lambda>x. ev_episode_revision x = r \<and> ev_seq e < ev_seq x) (map lg_event (conflict_log k s)))"

lemma taken_iff_newer:
  assumes "sorted_wrt (\<lambda>x y. ev_seq y < ev_seq x) es" and "e \<in> set es"
  shows "e \<in> set (take m es) \<longleftrightarrow> length (filter (\<lambda>x. ev_seq e < ev_seq x) es) < m"
proof -
  obtain i where i: "i < length es" "e = es ! i" using assms(2) by (auto simp: in_set_conv_nth)
  have "filter (\<lambda>x. ev_seq e < ev_seq x) (take i es) = take i es"
    using assms(1) i by (intro filter_True) (auto simp: in_set_conv_nth sorted_wrt_iff_nth_less)
  moreover have "filter (\<lambda>x. ev_seq e < ev_seq x) (drop i es) = []"
  proof -
    have "ev_seq (es ! (i + j)) \<le> ev_seq e" if "j < length es - i" for j
      using assms(1) i that by (cases "j = 0") (auto simp: sorted_wrt_iff_nth_less intro: less_imp_le)
    then show ?thesis by (fastforce simp: filter_empty_conv in_set_conv_nth)
  qed
  ultimately have "filter (\<lambda>x. ev_seq e < ev_seq x) es = take i es" by (metis append_Nil2 append_take_drop_id filter_append)
  moreover have "distinct es" using strict_distinct [OF assms(1)] by (simp add: distinct_map)
  then have "e \<in> set (take m es) \<longleftrightarrow> i < m"
    using i by (auto simp: in_set_conv_nth nth_eq_iff_index_eq)
  ultimately show ?thesis using i(1) by simp
qed

lemma newest_count: "length (filter P (newest_events k s)) = length (filter P (map lg_event (conflict_log k s)))"
proof -
  have "mset (newest_events k s) = mset (map lg_event (conflict_log k s))" by (simp add: newest_events_def)
  then show ?thesis by (metis mset_filter size_mset)
qed

lemma shown_acknowledgements:
  assumes "numbered (conflict_log k s)"
  shows "filter (\<lambda>e. ev_kind e = ''acknowledged'') (filter (\<lambda>e. ev_episode_revision e = r) (shown_events (episode_events en s k r))) = []
    \<longleftrightarrow> (\<forall>e\<in>set (map lg_event (conflict_log k s)). ev_kind e = ''acknowledged'' \<and> ev_episode_revision e = r \<longrightarrow> 32 \<le> newer_events k r s e)"
proof -
  let ?E = "filter (\<lambda>e. ev_episode_revision e = r) (newest_events k s)"
  have strict: "sorted_wrt (\<lambda>x y. ev_seq y < ev_seq x) ?E"
    using newest_events_strict [OF assms] by (rule sorted_wrt_filter)
  have w: "ev_kind w \<noteq> ''acknowledged''" if "find waived es = Some w" for w es using find_SomeD [OF that] by auto
  have "filter (\<lambda>e. ev_kind e = ''acknowledged'') (shown_events es) = []
      \<longleftrightarrow> (\<forall>e\<in>set (take 32 es). ev_kind e \<noteq> ''acknowledged'')" for es
    using w [of es] by (cases "find waived es") (auto simp: shown_events_def filter_empty_conv)
  then have "filter (\<lambda>e. ev_kind e = ''acknowledged'') (filter (\<lambda>e. ev_episode_revision e = r) (shown_events (episode_events en s k r))) = []
      \<longleftrightarrow> (\<forall>e\<in>set (take 32 ?E). ev_kind e \<noteq> ''acknowledged'')"
    unfolding shown_filter by (simp add: episode_events_def take_map)
  also have "\<dots> \<longleftrightarrow> (\<forall>e\<in>set ?E. ev_kind e = ''acknowledged'' \<longrightarrow> \<not> length (filter (\<lambda>x. ev_seq e < ev_seq x) ?E) < 32)"
    using taken_iff_newer [OF strict] by (metis in_set_takeD)
  also have "\<dots> \<longleftrightarrow> (\<forall>e\<in>set (map lg_event (conflict_log k s)). ev_kind e = ''acknowledged'' \<and> ev_episode_revision e = r \<longrightarrow> 32 \<le> newer_events k r s e)"
  proof -
    have "newer_events k r s e = length (filter (\<lambda>x. ev_seq e < ev_seq x) ?E)" for e
      unfolding newer_events_def newest_count [symmetric] by (simp add: conj_commute)
    moreover have "set (newest_events k s) = set (map lg_event (conflict_log k s))" by (simp add: newest_events_def)
    ultimately show ?thesis by (auto simp: not_less)
  qed
  finally show ?thesis .
qed

text \<open>C19: what a truncated overlay can lose. In a reachable ledger the state an agent is shown for an open conflict differs
  from the state its whole log gives exactly when the log reads acknowledged and every acknowledgement of the
  episode has at least 32 newer events; then the conflict is shown as open, and the answer says it was truncated.\<close>

theorem crowded_episode_forgets_acknowledgement:
  assumes "reachable en s" and "conflict_lifecycle_rows en lc sc now episodes s = Inr rows"
    and "distinct (map fst episodes)" and "(k, r) \<in> set episodes"
  shows "\<exists>shown. cr_events rows k = Some shown \<and>
    (let o1 = derive_overlay ''open'' r n shown (k \<in> cr_truncated rows) (cr_evaluated_at rows);
         o2 = derive_overlay ''open'' r n (map lg_event (conflict_log k s)) False now in
     (ov_state o1 \<noteq> ov_state o2 \<longleftrightarrow> ov_state o2 = ''acknowledged'' \<and> (\<forall>e\<in>set (map lg_event (conflict_log k s)).
        ev_kind e = ''acknowledged'' \<and> ev_episode_revision e = r \<longrightarrow> 32 \<le> newer_events k r s e))
     \<and> (ov_state o1 \<noteq> ov_state o2 \<longrightarrow> ov_state o1 = ''open'' \<and> ov_acknowledgers_truncated o1))"
proof -
  have nk: "numbered (conflict_log k s)" using reachable_log [OF assms(1)] by (simp add: log_ok_def conflict_log_def)
  note R = overlay_read [OF assms(2-4) nk]
  let ?es = "episode_events en s k r"
  let ?o1 = "derive_overlay ''open'' r n (shown_events ?es) (k \<in> cr_truncated rows) now"
  let ?o2 = "derive_overlay ''open'' r n (log_events k s) False now"
  let ?far = "\<forall>e\<in>set (log_events k s). ev_kind e = ''acknowledged'' \<and> ev_episode_revision e = r \<longrightarrow> 32 \<le> newer_events k r s e"
  have w: "ov_waiver ?o1 = ov_waiver ?o2" by (rule shown_waiver [OF nk])
  note a = shown_acknowledgements [OF nk, of r en, folded log_events_def]
  let ?none = "\<lambda>es. filter (\<lambda>e. ev_kind e = ''acknowledged'') (filter (\<lambda>e. ev_episode_revision e = r) es) = []"
  have all: "?none (log_events k s) \<longrightarrow> ?far" by (auto simp: filter_empty_conv)
  let ?lit = "opt_any wv_active (ov_waiver ?o2)"
  have st: "ov_state ?o1 = (if ?lit then ''waived'' else if ?far then ''open'' else ''acknowledged'')"
      "ov_state ?o2 = (if ?lit then ''waived'' else if ?none (log_events k s) then ''open'' else ''acknowledged'')"
    unfolding ov_state_open w a by (rule refl)+
  have "ov_state ?o1 \<noteq> ov_state ?o2 \<longleftrightarrow> ov_state ?o2 = ''acknowledged'' \<and> ?far"
    and o: "ov_state ?o1 \<noteq> ov_state ?o2 \<Longrightarrow> ov_state ?o1 = ''open''"
    using all unfolding st by (cases ?lit; cases ?far; cases "?none (log_events k s)"; simp)+
  moreover have "ov_acknowledgers_truncated ?o1" if "ov_state ?o1 \<noteq> ov_state ?o2"
  proof -
    have "k \<in> cr_truncated rows"
    proof (rule ccontr)
      assume "k \<notin> cr_truncated rows"
      then have "?o1 = ?o2" using R(2) shown_whole [OF nk, of en r n False now] by simp
      with that show False by simp
    qed
    then show ?thesis by (simp add: derive_overlay_def Let_def)
  qed
  ultimately show ?thesis using R(1,3) unfolding Let_def log_events_def [symmetric] by simp
qed

lemma lapsed_overlay:
  assumes "\<forall>e\<in>set es. ev_kind e = ''waived'' \<longrightarrow> opt_all (\<lambda>t. t \<le> now) (ev_expires_at e)"
    and "e \<in> set es" and "ev_kind e = ''acknowledged''" and "ev_episode_revision e = r"
  shows "ov_state (derive_overlay ''open'' r n es tr now) = ''acknowledged''"
proof -
  have "\<not> opt_any wv_active (ov_waiver (derive_overlay ''open'' r n es tr now))"
  proof (cases "latest waived (filter (\<lambda>e. ev_episode_revision e = r) es)")
    case None
    then show ?thesis by (simp add: derive_overlay_open(1) [OF open_not_closed] waiver_of_latest_def opt_any_def)
  next
    case (Some w)
    then have "w \<in> set es" "ev_kind w = ''waived''" by (auto simp: latest_def dest!: find_SomeD)
    with assms(1) Some show ?thesis
      by (auto simp: derive_overlay_open(1) [OF open_not_closed] waiver_of_latest_def waiver_of_def opt_any_def opt_all_def Let_def
          split: option.splits)
  qed
  moreover have "filter (\<lambda>e. ev_kind e = ''acknowledged'') (filter (\<lambda>e. ev_episode_revision e = r) es) \<noteq> []"
    using assms(2-4) by (auto simp: filter_empty_conv)
  ultimately show ?thesis unfolding ov_state_open by simp
qed

lemma crowded_far:
  assumes "crowded (Suc n) s" and "e \<in> set (map lg_event (conflict_log 102 s))" and "ev_kind e = ''acknowledged''"
  shows "newer_events 102 1 s e = n"
proof -
  note log = crowded_log [OF assms(1)]
  have len: "length (l_log s) = Suc n" and ev: "\<And>i. i < Suc n \<Longrightarrow> crowd_event i (lg_event (l_log s ! i))"
    using assms(1) by (simp_all add: crowded_def)
  have seq: "ev_seq (lg_event (l_log s ! i)) = int i + 1" if "i < Suc n" for i
    using that len arg_cong [where f = "\<lambda>xs. xs ! i", OF log(1) [unfolded numbered_def]]
    by (simp add: log(2) del: upt_Suc)
  obtain i where i: "i < Suc n" "e = lg_event (l_log s ! i)" using assms(2) log len by (auto simp: in_set_conv_nth)
  have e: "e = lg_event (l_log s ! 0)"
    using i ev [OF i(1)] assms(3) by (auto simp: crowd_event_def split: if_splits)
  obtain a rows where c: "l_log s = a # rows" "length rows = n" using len by (cases "l_log s") auto
  have e: "e = lg_event a" "ev_seq e = 1" using e c(1) seq [of 0] by auto
  have "ev_episode_revision (lg_event x) = 1 \<and> ev_seq e < ev_seq (lg_event x)" if "x \<in> set rows" for x
  proof -
    obtain j where "j < n" "x = rows ! j" using \<open>x \<in> set rows\<close> c(2) by (auto simp: in_set_conv_nth)
    then show ?thesis using seq [of "Suc j"] ev [of "Suc j"] e(2) c(1) by (simp add: crowd_event_def)
  qed
  then have "filter (\<lambda>x. ev_episode_revision (lg_event x) = 1 \<and> ev_seq e < ev_seq (lg_event x)) rows = rows" by simp
  then show ?thesis using c e log(2) by (simp add: newer_events_def filter_map comp_def)
qed

theorem crowded_episode_forgets_acknowledgement_witness:
  "\<exists>s rows shown. reachable demo_env s
     \<and> conflict_lifecycle_rows demo_env (demo_config ''a'') (demo_scope ''a'') (3 + 2 * hour) [(102, 1)] s = Inr rows
     \<and> cr_events rows 102 = Some shown
     \<and> ov_state (derive_overlay ''open'' 1 2 shown (102 \<in> cr_truncated rows) (cr_evaluated_at rows)) = ''open''
     \<and> ov_state (derive_overlay ''open'' 1 2 (map lg_event (conflict_log 102 s)) False (3 + 2 * hour)) = ''acknowledged''"
proof -
  obtain s where s: "crowded 33 s" using crowded_reachable [of 33] by auto
  then have re: "reachable demo_env s" and len: "length (l_log s) = 33"
    and ev: "\<And>i. i < 33 \<Longrightarrow> crowd_event i (lg_event (l_log s ! i))" by (simp_all add: crowded_def)
  note log = crowded_log [OF s]
  have "ensure_scope (demo_config ''a'') (demo_scope ''a'') = Inr ()" by (rule demo_scope_ok)
  then have "\<exists>rows. conflict_lifecycle_rows demo_env (demo_config ''a'') (demo_scope ''a'') (3 + 2 * hour) [(102, 1)] s = Inr rows"
    unfolding conflict_lifecycle_rows_def by (simp add: require_capability_def safe_int_def Let_def)
  then obtain rows where r: "conflict_lifecycle_rows demo_env (demo_config ''a'') (demo_scope ''a'') (3 + 2 * hour) [(102, 1)] s = Inr rows"
    by blast
  let ?es = "map lg_event (conflict_log 102 s)" and ?now = "3 + 2 * hour :: time"
  have waiv: "\<forall>e\<in>set ?es. ev_kind e = ''waived'' \<longrightarrow> opt_all (\<lambda>t. t \<le> ?now) (ev_expires_at e)"
    using ev len log(2) by (fastforce simp: in_set_conv_nth crowd_event_def opt_all_def split: if_splits)
  have "crowd_event 0 (lg_event (l_log s ! 0))" using ev by simp
  then have "lg_event (l_log s ! 0) \<in> set ?es" "ev_kind (lg_event (l_log s ! 0)) = ''acknowledged''"
      "ev_episode_revision (lg_event (l_log s ! 0)) = 1"
    using len log(2) by (simp_all add: crowd_event_def)
  from lapsed_overlay [OF waiv this]
  have o2: "ov_state (derive_overlay ''open'' 1 2 ?es False ?now) = ''acknowledged''" .
  have far: "\<forall>e\<in>set ?es. ev_kind e = ''acknowledged'' \<and> ev_episode_revision e = 1 \<longrightarrow> 32 \<le> newer_events 102 1 s e"
    using crowded_far [of 32 s] s by simp
  have "distinct (map fst [(102::int, 1::int)])" "(102, 1) \<in> set [(102::int, 1::int)]" by simp_all
  from crowded_episode_forgets_acknowledgement [OF re r this, of 2]
  obtain shown where sh: "cr_events rows 102 = Some shown"
      "ov_state (derive_overlay ''open'' 1 2 shown (102 \<in> cr_truncated rows) (cr_evaluated_at rows)) = ''open''"
    using o2 far unfolding Let_def by metis
  with re r o2 show ?thesis by blast
qed

subsection \<open>History\<close>

lemma revision_gaps_ordered:
  assumes "\<forall>e\<in>set es. ev_episode_revision e \<le> ev_result_revision e"
  shows "(\<forall>g\<in>set (revision_gaps c es current). c \<le> from_revision g \<and> from_revision g < to_revision g)
    \<and> sorted_wrt (\<lambda>g h. to_revision g \<le> from_revision h) (revision_gaps c es current)"
  using assms
proof (induction es arbitrary: c)
  case (Cons e es)
  let ?gs = "revision_gaps (max c (ev_result_revision e)) es current"
  have "c \<le> from_revision g \<and> ev_episode_revision e \<le> from_revision g \<and> from_revision g < to_revision g" if "g \<in> set ?gs" for g
    using Cons.IH [of "max c (ev_result_revision e)"] Cons.prems that by fastforce
  moreover have "sorted_wrt (\<lambda>g h. to_revision g \<le> from_revision h) ?gs"
    using Cons.IH [of "max c (ev_result_revision e)"] Cons.prems by simp
  ultimately show ?case by (cases "ev_episode_revision e > c") (simp_all add: sorted_wrt_append)
qed simp

text \<open>The events of the witnesses, as the unit tests of the log build them.\<close>

definition sample_event :: "int \<Rightarrow> string \<Rightarrow> int \<Rightarrow> int \<Rightarrow> conflict_lifecycle_event" where
  "sample_event i kind r r' = \<lparr>ev_seq = i, ev_kind = kind, ev_actor_kind = ''agent'', ev_actor = lit ''c'',
     ev_operation = ACKNOWLEDGE_OPERATION, ev_episode_revision = r, ev_result_revision = r', ev_reason_kind = None,
     ev_rationale = None, ev_expires_at = None, ev_review_by = None, ev_member_count = 2, ev_created_at = i,
     ev_payload = None, ev_payload_elided = False\<rparr>"

text \<open>C20: the history names exactly the revision steps nothing in it explains. For events in
  revision order, up to the current revision, a step from one revision to the next lies in a
  reported gap exactly when no event covers it and it is not before the first revision the history
  can speak of: revision one when no older event was left out, otherwise the revision of the first
  event (and nothing is reported without one). The gaps are non-empty and in order, without overlap.\<close>

theorem unlogged_transitions_exact:
  assumes "sorted (map ev_episode_revision es)"
    and "\<forall>e\<in>set es. ev_episode_revision e \<le> ev_result_revision e \<and> ev_result_revision e \<le> current"
  shows "(\<forall>v. in_gap (unlogged_transitions es current from_first) v \<longleftrightarrow>
      (if from_first then 1 \<le> v else es \<noteq> [] \<and> ev_episode_revision (hd es) \<le> v) \<and> v < current \<and> \<not> covers es v)
    \<and> (\<forall>g\<in>set (unlogged_transitions es current from_first). from_revision g < to_revision g)
    \<and> sorted_wrt (\<lambda>g h. to_revision g \<le> from_revision h) (unlogged_transitions es current from_first)"
proof -
  have "\<forall>e\<in>set es. ev_episode_revision e \<le> ev_result_revision e" using assms(2) by simp
  note R = revision_gaps_exact [OF assms] revision_gaps_ordered [OF this, of _ current]
  show ?thesis
  proof (cases "from_first \<or> es \<noteq> []")
    case True
    then obtain c where c: "unlogged_transitions es current from_first = revision_gaps c es current"
        "c = (if from_first then 1 else ev_episode_revision (hd es))"
      by (cases es; cases from_first) (auto simp: unlogged_transitions_def)
    show ?thesis using R [of c] True unfolding c(1) by (auto simp: c(2))
  next
    case False
    then show ?thesis by (simp add: unlogged_transitions_def in_gap_def)
  qed
qed

theorem unlogged_transitions_exact_witness:
  "let es = [sample_event 1 ''acknowledged'' 3 3, sample_event 2 ''resolved'' 3 4, sample_event 3 ''acknowledged'' 5 5] in
   in_gap (unlogged_transitions es 5 True) 2 \<and> \<not> in_gap (unlogged_transitions es 5 True) 3 \<and> in_gap (unlogged_transitions es 5 True) 4
   \<and> \<not> in_gap (unlogged_transitions es 5 False) 2 \<and> in_gap (unlogged_transitions es 5 False) 4"
proof -
  let ?es = "[sample_event 1 ''acknowledged'' 3 3, sample_event 2 ''resolved'' 3 4, sample_event 3 ''acknowledged'' 5 5]"
  have "sorted (map ev_episode_revision ?es)"
      "\<forall>e\<in>set ?es. ev_episode_revision e \<le> ev_result_revision e \<and> ev_result_revision e \<le> 5"
    by (simp_all add: sample_event_def)
  note E = unlogged_transitions_exact [OF this, THEN conjunct1, rule_format]
  show ?thesis unfolding Let_def E by (simp add: covers_def sample_event_def)
qed

text \<open>A history cut to a byte budget keeps the longest run of newest events that fits, with
  one separator byte each, and says so when it dropped any.\<close>

theorem history_keeps_what_fits:
  assumes "budget < usize_max"
  shows "let h = history_within_bytes event_bytes hist budget; es = hi_events hist; k = length (hi_events h) in
    hi_events h = drop (length es - k) es \<and> k \<le> length es \<and> event_cost event_bytes (hi_events h) \<le> budget
    \<and> (k < length es \<longrightarrow> hi_truncated h \<and> event_cost event_bytes (drop (length es - Suc k) es) > budget)
    \<and> (k = length es \<longrightarrow> h = hist)"
proof -
  let ?es = "hi_events hist" and ?k = "kept_events event_bytes budget 0 (rev (hi_events hist))"
  have le: "?k \<le> length ?es" using kept_events_length [of event_bytes budget 0 "rev ?es"] by simp
  note fit = kept_events_fit [OF assms, of 0 event_bytes "rev ?es", simplified]
  have h: "history_within_bytes event_bytes hist budget =
      (if ?k < length ?es then \<lparr>hi_events = drop (length ?es - ?k) ?es, hi_truncated = True\<rparr> else hist)"
    by (simp add: history_within_bytes_def Let_def)
  have c: "event_cost event_bytes (take n (rev ?es)) = event_cost event_bytes (drop (length ?es - n) ?es)" for n
    by (simp add: take_rev event_cost_def rev_map [symmetric] sum_list_rev)
  show ?thesis
  proof (cases "?k < length ?es")
    case True
    then show ?thesis using fit le unfolding h c by (simp add: Let_def)
  next
    case False
    with le have "?k = length ?es" by simp
    then show ?thesis using fit unfolding h c by (simp add: Let_def)
  qed
qed

theorem history_keeps_what_fits_witness:
  "hi_events (history_within_bytes (\<lambda>_. 9) \<lparr>hi_events = [sample_event 1 ''acknowledged'' 1 1], hi_truncated = False\<rparr> 5) = []"
proof -
  let ?h = "\<lparr>hi_events = [sample_event 1 ''acknowledged'' 1 1], hi_truncated = False\<rparr>"
  have "(5::nat) < usize_max" by (simp add: usize_max_def)
  from history_keeps_what_fits [OF this, of "\<lambda>_. 9" ?h] show ?thesis
    by (auto simp: Let_def event_cost_def)
qed

end
