(* ===== verification/Value_Properties.thy ===== *)
theory Value_Properties
  imports Ledger_Write
begin

section \<open>Properties of values, keys, the detector and claim inputs\<close>

text \<open>
  The contracts of the pure components below the ledger: the database-compatible equality of
  JSON values, canonical values, claim keys, the incompatibility detector, and what a
  validated claim input guarantees to the tables and to the embedding.
\<close>

subsection \<open>Sample rows\<close>

definition sample_locked :: "int \<Rightarrow> bool \<Rightarrow> claim_state \<Rightarrow> locked_key_claim" where
  "sample_locked i v st = \<lparr>lk_id = i, lk_state = st, lk_origin = OPERATOR_ASSERTED_ORIGIN, lk_actor = Some (lit ''a''),
     lk_revision = 1, lk_polarity = 1, lk_valid_from = None, lk_valid_to = None, lk_conflict_eligible = True,
     lk_value = Some (JBool v)\<rparr>"

definition sample_input :: claim_input where
  "sample_input = \<lparr>ci_kind = Decision, ci_text = lit ''t'', ci_subject = Some (lit ''s''),
     ci_predicate = Some (lit ''q''), ci_value = Some (JBool True), ci_polarity = 1,
     ci_origin = OPERATOR_ASSERTED_ORIGIN, ci_actor = None, ci_confidence = 0,
     ci_valid_from = None, ci_valid_to = None, ci_support = []\<rparr>"

definition sample_prepared :: prepared_claim where
  "sample_prepared = \<lparr>pc_subject = Some (lit ''s''), pc_predicate = Some (lit ''q''), pc_claim_key = Some (lit ''s::q''),
     pc_value = Some (JBool True), pc_conflict_eligible = True\<rparr>"

definition sample_claim :: "int \<Rightarrow> bool \<Rightarrow> claim" where
  "sample_claim i v = \<lparr>cl_id = i, cl_project = [], cl_kind = Decision, cl_claim_key = Some (lit ''k''),
     cl_subject = None, cl_predicate = None, cl_value = Some (JBool v), cl_text = lit ''t'', cl_polarity = 1,
     cl_state = Active, cl_origin = OPERATOR_ASSERTED_ORIGIN, cl_actor = None, cl_confidence = 0,
     cl_valid_from = None, cl_valid_to = None, cl_superseded_by = None, cl_revision = 1,
     cl_conflict_eligible = True, cl_created_at = 0, cl_updated_at = 0\<rparr>"

subsection \<open>JSON values\<close>

text \<open>C7: two JSON numbers are equal for the detector exactly when their decimal renderings
  denote the same number, whatever their representation.\<close>

theorem number_equality_is_decimal:
  assumes "renders_decimals fmt"
  shows "jsonb_number_eq fmt m n \<longleftrightarrow>
    rendered_value (render_number fmt m) = rendered_value (render_number fmt n)"
  using assms by (rule jsonb_number_eq_value)

theorem number_equality_is_decimal_witness: "jsonb_number_eq plain_render (PosInt 10) (Float 10)"
  using number_equality_is_decimal [OF plain_render_decimals, of "PosInt 10" "Float 10"]
  by (simp add: plain_render_def)

text \<open>Value equality is an equivalence on well-formed values.\<close>

theorem value_equality_is_equivalence:
  assumes "renders_decimals fmt" and "wf_json u" and "wf_json v" and "wf_json w"
  shows "jsonb_values_equal fmt u u
    \<and> (jsonb_values_equal fmt u v \<longrightarrow> jsonb_values_equal fmt v u)
    \<and> (jsonb_values_equal fmt u v \<longrightarrow> jsonb_values_equal fmt v w \<longrightarrow> jsonb_values_equal fmt u w)"
  using assms jsonb_values_equal_refl jsonb_values_equal_sym
    number_equivalence.json_trans [OF number_equivalence_jsonb [OF assms(1)]]
  unfolding jsonb_values_equal_def by blast

theorem value_equality_is_equivalence_witness:
  "jsonb_values_equal plain_render (JArray [JNull]) (JArray [JNull])"
  using value_equality_is_equivalence [OF plain_render_decimals, of "JArray [JNull]" JNull JNull] by simp

text \<open>A canonical value is well formed (its object keys ascend strictly), and
  canonicalisation changes nothing further.\<close>

theorem canonical_value_is_stable:
  "wf_json (canonical_json v) \<and> canonical_json (canonical_json v) = canonical_json v"
  by (simp add: canonical_json_wf canonical_json_id)

subsection \<open>Claim keys\<close>

text \<open>C8: normalising a key part is idempotent, two parts get the same key part exactly when
  they have the same words, and stored (already normalised) parts give the same claim key as
  the raw input.\<close>

theorem key_parts_normalise:
  assumes "unicode_ok u"
  shows "normalize_key_part u (normalize_key_part u v) = normalize_key_part u v
    \<and> (normalize_key_part u v = normalize_key_part u w \<longleftrightarrow> key_words u v = key_words u w)
    \<and> claim_key_from_parts u (normalize_key_part u v) (normalize_key_part u w) = claim_key_from_parts u v w"
  using assms by (simp add: normalize_idem normalize_eq_iff claim_key_normalized_parts)

theorem key_parts_normalise_witness:
  "normalize_key_part ascii_unicode (normalize_key_part ascii_unicode (lit ''A_b'')) = normalize_key_part ascii_unicode (lit ''A_b'')"
  using key_parts_normalise [OF unicode_ok_ascii, of "lit ''A_b''" "lit ''A_b''"] by blast

text \<open>The separator read one place to the right: the second pair takes the colons that end the first
  subject, or begin the first predicate, for the separator of the key.\<close>

definition shifted_parts :: "ustr \<Rightarrow> ustr \<Rightarrow> ustr \<Rightarrow> ustr \<Rightarrow> bool" where
  "shifted_parts s p s' p' \<longleftrightarrow> (s' = s @ lit '':'' \<and> p = lit '':'' @ p') \<or> (\<exists>y. s' = s @ lit ''::'' @ y \<and> p = y @ lit ''::'' @ p')"

lemma joined_overlap:
  "lit ''::'' @ p = us @ lit ''::'' @ p' \<longleftrightarrow>
     (us = [] \<and> p = p') \<or> (us = lit '':'' \<and> p = lit '':'' @ p') \<or> (\<exists>y. us = lit ''::'' @ y \<and> p = y @ lit ''::'' @ p')"
proof (cases us)
  case (Cons a vs)
  then show ?thesis by (cases vs) (auto simp: lit_def)
qed (simp add: lit_def)

lemma joined_eq:
  "s @ lit ''::'' @ p = s' @ lit ''::'' @ p' \<longleftrightarrow> (s = s' \<and> p = p') \<or> shifted_parts s p s' p' \<or> shifted_parts s' p' s p"
proof -
  have sh: "(\<exists>us. t' = t @ us \<and> lit ''::'' @ q = us @ lit ''::'' @ q') \<longleftrightarrow> (t = t' \<and> q = q') \<or> shifted_parts t q t' q'" for t q t' q' :: ustr
    unfolding joined_overlap shifted_parts_def by auto
  have ap: "s @ x = s' @ y \<longleftrightarrow> (\<exists>us. s' = s @ us \<and> x = us @ y) \<or> (\<exists>us. s = s' @ us \<and> y = us @ x)" for x y
    unfolding append_eq_append_conv2 by (rule iffI; elim exE disjE conjE; auto)
  show ?thesis unfolding ap sh by auto
qed

text \<open>C9: which subjects and predicates share a claim key. Two pairs with a key have the same key exactly when their
  normalised parts are equal, or one pair reads the colons inside a part of the other as the separator;
  so the key identifies its parts as long as the normalised subjects contain no colon.\<close>

theorem claim_key_collides:
  assumes "claim_key_from_parts u s p = Some k" and "claim_key_from_parts u s' p' = Some k'"
  shows "(k = k' \<longleftrightarrow> (normalize_key_part u s = normalize_key_part u s' \<and> normalize_key_part u p = normalize_key_part u p')
      \<or> shifted_parts (normalize_key_part u s) (normalize_key_part u p) (normalize_key_part u s') (normalize_key_part u p')
      \<or> shifted_parts (normalize_key_part u s') (normalize_key_part u p') (normalize_key_part u s) (normalize_key_part u p))
    \<and> (58 \<notin> set (normalize_key_part u s) \<and> 58 \<notin> set (normalize_key_part u s') \<longrightarrow>
        (k = k' \<longleftrightarrow> normalize_key_part u s = normalize_key_part u s' \<and> normalize_key_part u p = normalize_key_part u p'))"
proof -
  have "k = normalize_key_part u s @ lit ''::'' @ normalize_key_part u p" "k' = normalize_key_part u s' @ lit ''::'' @ normalize_key_part u p'"
    using assms by (simp_all add: claim_key_from_parts_def Let_def split: if_splits)
  then have eq: "k = k' \<longleftrightarrow> (normalize_key_part u s = normalize_key_part u s' \<and> normalize_key_part u p = normalize_key_part u p')
      \<or> shifted_parts (normalize_key_part u s) (normalize_key_part u p) (normalize_key_part u s') (normalize_key_part u p')
      \<or> shifted_parts (normalize_key_part u s') (normalize_key_part u p') (normalize_key_part u s) (normalize_key_part u p)"
    by (simp only: joined_eq)
  have "58 \<in> set t'" if "shifted_parts t q t' q'" for t q t' q' using that by (auto simp: shifted_parts_def lit_def)
  then show ?thesis using eq by blast
qed

theorem claim_key_collides_witness:
  "claim_key_from_parts ascii_unicode (lit ''a'') (lit ''b::c'') = claim_key_from_parts ascii_unicode (lit ''a::b'') (lit ''c'')
   \<and> normalize_key_part ascii_unicode (lit ''a'') \<noteq> normalize_key_part ascii_unicode (lit ''a::b'')
   \<and> claim_key_from_parts ascii_unicode (lit ''a'') (lit ''c'') \<noteq> claim_key_from_parts ascii_unicode (lit ''b'') (lit ''c'')"
proof -
  have n: "normalize_key_part ascii_unicode (lit ''a'') = lit ''a''" "normalize_key_part ascii_unicode (lit ''b'') = lit ''b''"
      "normalize_key_part ascii_unicode (lit ''c'') = lit ''c''"
      "normalize_key_part ascii_unicode (lit ''a::b'') = lit ''a::b''"
      "normalize_key_part ascii_unicode (lit ''b::c'') = lit ''b::c''"
    by (simp_all add: normalize_key_part_def key_words_def to_lowercase_def ascii_unicode_def
        is_separator_def is_whitespace_def lit_def)
  have "\<exists>k. claim_key_from_parts ascii_unicode (lit x) (lit y) = Some k"
    if "(x, y) \<in> {(''a'', ''b::c''), (''a::b'', ''c''), (''a'', ''c''), (''b'', ''c'')}" for x y
    using that by (auto simp: claim_key_from_parts_def n) (simp_all add: lit_def)
  then obtain k1 k2 k3 k4 where k: "claim_key_from_parts ascii_unicode (lit ''a'') (lit ''b::c'') = Some k1"
      "claim_key_from_parts ascii_unicode (lit ''a::b'') (lit ''c'') = Some k2"
      "claim_key_from_parts ascii_unicode (lit ''a'') (lit ''c'') = Some k3"
      "claim_key_from_parts ascii_unicode (lit ''b'') (lit ''c'') = Some k4" by (metis insertCI)
  have "shifted_parts (lit ''a'') (lit ''b::c'') (lit ''a::b'') (lit ''c'')"
    unfolding shifted_parts_def by (rule disjI2, rule exI [of _ "lit ''b''"]) (simp add: lit_def)
  then have "k1 = k2" using claim_key_collides [OF k(1,2)] unfolding n by blast
  moreover have "58 \<notin> set (lit ''a'') \<and> 58 \<notin> set (lit ''b'')" "lit ''a'' \<noteq> lit ''b''" "lit ''a'' \<noteq> lit ''a::b''" by (simp_all add: lit_def)
  moreover from this have "k3 \<noteq> k4" using claim_key_collides [OF k(3,4)] unfolding n by blast
  ultimately show ?thesis unfolding n k by simp
qed

subsection \<open>The detector\<close>

text \<open>Two validity windows overlap for the detector exactly when some instant lies in both
  (a missing bound is unbounded, an end is exclusive).\<close>

theorem windows_overlap_at_an_instant:
  assumes "window_ok af ae" and "window_ok bf be"
  shows "intervals_overlap af ae bf be \<longleftrightarrow> (\<exists>t. in_window af ae t \<and> in_window bf be t)"
  using assms by (rule intervals_overlap_iff)

theorem windows_overlap_at_an_instant_witness:
  "intervals_overlap (Some 1) (Some 5) (Some 4) None \<and> \<not> intervals_overlap (Some 1) (Some 5) (Some 5) None
   \<and> (\<exists>t. in_window (Some 1) (Some 5) t \<and> in_window (Some 4) None t)"
proof -
  have "window_ok (Some 1) (Some 5)" "window_ok (Some 4) None" by (simp_all add: window_ok_def)
  from windows_overlap_at_an_instant [OF this] show ?thesis by (simp add: intervals_overlap_def)
qed

text \<open>Incompatibility of two claims does not depend on their order.\<close>

theorem incompatibility_is_symmetric:
  assumes "renders_decimals fmt" and "opt_all wf_json (cl_value a)" and "opt_all wf_json (cl_value b)"
  shows "claims_are_incompatible fmt a b \<longleftrightarrow> claims_are_incompatible fmt b a"
proof -
  have "(case (cl_value a, cl_value b) of (Some lv, Some rv) \<Rightarrow>
           functional_values_are_incompatible fmt lv (cl_polarity a) rv (cl_polarity b) | _ \<Rightarrow> False)
     \<longleftrightarrow> (case (cl_value b, cl_value a) of (Some lv, Some rv) \<Rightarrow>
           functional_values_are_incompatible fmt lv (cl_polarity b) rv (cl_polarity a) | _ \<Rightarrow> False)"
    using assms functional_values_sym [OF assms(1)] by (auto split: option.splits)
  then show ?thesis
    unfolding claims_are_incompatible_def using intervals_overlap_sym by metis
qed

theorem incompatibility_is_symmetric_witness:
  "claims_are_incompatible plain_render (sample_claim 1 True) (sample_claim 2 False)
   \<and> claims_are_incompatible plain_render (sample_claim 2 False) (sample_claim 1 True)"
proof -
  have a: "claims_are_incompatible plain_render (sample_claim 1 True) (sample_claim 2 False)"
    by (simp add: claims_are_incompatible_def sample_claim_def intervals_overlap_def
        functional_values_are_incompatible_def jsonb_values_equal_def)
  have "opt_all wf_json (cl_value (sample_claim 1 True))" "opt_all wf_json (cl_value (sample_claim 2 False))"
    by (simp_all add: sample_claim_def)
  from incompatibility_is_symmetric [OF plain_render_decimals this] a show ?thesis by blast
qed

text \<open>C10: the pairs reported on a key are exactly the incompatible pairs of its eligible current
  claims, smaller identifier first, ascending and without repetition.\<close>

theorem incompatible_pairs_exact:
  assumes "distinct (map lk_id cs)"
  shows "set (incompatible_pairs fmt cs) =
      {(lk_id l, lk_id r) |l r. l \<in> set cs \<and> r \<in> set cs \<and> lk_id l < lk_id r
         \<and> pair_eligible l \<and> pair_eligible r \<and> locked_incompatible fmt l r}
    \<and> sorted (incompatible_pairs fmt cs) \<and> distinct (incompatible_pairs fmt cs)"
  using set_incompatible_pairs [OF assms] by simp

theorem incompatible_pairs_exact_witness:
  "(1, 2) \<in> set (incompatible_pairs plain_render [sample_locked 2 True Active, sample_locked 1 False Disputed])"
proof -
  let ?cs = "[sample_locked 2 True Active, sample_locked 1 False Disputed]"
  have d: "distinct (map lk_id ?cs)" by (simp add: sample_locked_def)
  have i: "locked_incompatible plain_render (sample_locked 1 False Disputed) (sample_locked 2 True Active)"
    by (simp add: locked_incompatible_def sample_locked_def intervals_overlap_def
        functional_values_are_incompatible_def jsonb_values_equal_def)
  have e: "pair_eligible (sample_locked 2 True Active)" "pair_eligible (sample_locked 1 False Disputed)"
    by (simp_all add: pair_eligible_def sample_locked_def)
  have l: "lk_id (sample_locked i v st) = i" for i v st by (simp add: sample_locked_def)
  show ?thesis
    unfolding conjunct1 [OF incompatible_pairs_exact [OF d]]
    by (intro CollectI exI [of _ "sample_locked 1 False Disputed"] exI [of _ "sample_locked 2 True Active"])
      (simp add: l e i)
qed

subsection \<open>Claim inputs\<close>

text \<open>C11: an input that passes validation is accepted by every CHECK constraint of the claims
  table: the row recorded for it is valid as soon as its identifier is.\<close>

theorem validated_input_passes_checks:
  assumes "prepare fmt u i = Inr p" and "safe_int (t_claim_id ti)"
  shows "claim_checks (new_claim ti sc i p)"
proof -
  note V = validate_claim_Inr [OF prepare_Inr(1) [OF assms(1)]] and E = prepare_Inr(2) [OF assms(1)]
  show ?thesis using V E assms(2) by (auto simp: claim_checks_def new_claim_def)
qed

lemma sample_prepare: "prepare plain_render ascii_unicode sample_input = Inr sample_prepared"
proof -
  have v: "validate_claim plain_render sample_input = Inr ()"
    by (simp add: validate_claim_def sample_input_def opt_any_def trim_def is_whitespace_def lit_def utf8_len_def
        utf8_char_len_def Let_def json_to_string.simps known_origin_def unit_interval_def)
  have n: "normalize_key_part ascii_unicode (lit ''s'') = lit ''s''" "normalize_key_part ascii_unicode (lit ''q'') = lit ''q''"
    by (simp_all add: normalize_key_part_def key_words_def to_lowercase_def ascii_unicode_def is_separator_def
        is_whitespace_def lit_def)
  have k: "claim_key_from_parts ascii_unicode (lit ''s'') (lit ''q'') = Some (lit ''s::q'')"
    unfolding claim_key_from_parts_def n by (simp add: lit_def Let_def)
  have f: "ci_subject sample_input = Some (lit ''s'')" "ci_predicate sample_input = Some (lit ''q'')"
      "ci_value sample_input = Some (JBool True)" "ci_kind sample_input = Decision"
    by (simp_all add: sample_input_def)
  show ?thesis by (simp add: prepare_def v f n k is_conflict_eligible_def sample_prepared_def)
qed

theorem validated_input_passes_checks_witness:
  "\<exists>p. prepare plain_render ascii_unicode sample_input = Inr p
     \<and> claim_checks (new_claim \<lparr>t_now = 0, t_claim_id = 7, t_conflict_id = 1\<rparr>
         \<lparr>sc_tenant_id = 1, sc_project = [], sc_agent = [], sc_session_id = None, sc_privacy_tier = []\<rparr> sample_input p)"
  using sample_prepare validated_input_passes_checks [OF sample_prepare] by (fastforce simp: safe_int_def)

lemma split_paragraphs_visible:
  "c \<in> set s \<Longrightarrow> c \<noteq> 10 \<Longrightarrow> \<exists>w\<in>set (split_paragraphs s). c \<in> set w"
proof (induction s rule: split_paragraphs.induct)
  case (3 a b s)
  show ?case
  proof (cases "a = 10 \<and> b = 10")
    case True
    with 3 show ?thesis by auto
  next
    case False
    obtain w ws where w: "split_paragraphs (b # s) = w # ws"
      by (cases "split_paragraphs (b # s)") (auto, cases s, auto split: if_splits list.splits)
    show ?thesis
    proof (cases "c = a")
      case True
      with False w show ?thesis by auto
    next
      case c: False
      with 3(3) have "c \<in> set (b # s)" by simp
      with 3(2) [OF False this 3(4)] False w show ?thesis by auto
    qed
  qed
qed auto


lemma trim_Nil: "trim s = [] \<longleftrightarrow> list_all is_whitespace s"
proof -
  have "dropWhile is_whitespace (rev (dropWhile is_whitespace s)) = [] \<longleftrightarrow> dropWhile is_whitespace s = []"
    using hd_dropWhile [of is_whitespace s] hd_in_set [of "dropWhile is_whitespace s"]
    by (auto simp only: dropWhile_eq_Nil_conv set_rev dest: set_dropWhileD)
  then show ?thesis unfolding trim_def rev_is_Nil_conv by (simp add: dropWhile_eq_Nil_conv list_all_iff)
qed

definition text_pieces :: "ustr \<Rightarrow> ustr list" where
  "text_pieces t = concat (map (\<lambda>p. split_passage p MAX_PASSAGE_CHARS)
     (filter (\<lambda>p. p \<noteq> []) (map trim (split_paragraphs t))))"

lemma split_passage_piece: "s \<noteq> [] \<Longrightarrow> w \<in> set (split_passage s n) \<Longrightarrow> w \<noteq> [] \<and> length w \<le> n"
  by (auto simp: split_passage_def dest: chunks_bound split: if_splits)

lemma text_pieces_bound: "w \<in> set (text_pieces t) \<Longrightarrow> w \<noteq> [] \<and> length w \<le> MAX_PASSAGE_CHARS"
  unfolding text_pieces_def by (fastforce dest: split_passage_piece)

lemma text_pieces_visible:
  assumes "trim t \<noteq> []"
  shows "text_pieces t \<noteq> []"
proof -
  from assms obtain c where c: "c \<in> set t" "\<not> is_whitespace c" by (auto simp: trim_Nil list_all_iff)
  then have "c \<noteq> 10" by (auto simp: is_whitespace_def)
  with split_paragraphs_visible [OF c(1)] obtain w where w: "w \<in> set (split_paragraphs t)" "c \<in> set w" by blast
  with c have "trim w \<noteq> []" by (auto simp: trim_Nil list_all_iff)
  moreover have "split_passage (trim w) MAX_PASSAGE_CHARS \<noteq> []"
    using split_passage_concat [of MAX_PASSAGE_CHARS "trim w"] calculation by (auto simp del: concat_eq_Nil_conv)
  ultimately show ?thesis using w(1) unfolding text_pieces_def by auto
qed

lemma embedding_metadata_visible: "embedding_metadata fmt c \<noteq> []"
proof -
  have "join_with s ((lit ''kind: '' @ k) # r) \<noteq> []" for s k r by (cases r) (simp_all add: lit_def)
  then show ?thesis by (simp add: embedding_metadata_def Let_def)
qed

text \<open>C12: a claim with visible text yields between one and twelve embedding passages, each a
  non-empty piece of at most a thousand characters followed by the metadata, and the first
  and the last piece of the text are always among them.\<close>

theorem embedding_passages_bounded:
  assumes "trim (cl_text c) \<noteq> []"
  shows "1 \<le> length (embedding_passages fmt c) \<and> length (embedding_passages fmt c) \<le> 12
    \<and> (\<forall>p\<in>set (embedding_passages fmt c).
         \<exists>w\<in>set (text_pieces (cl_text c)). w \<noteq> [] \<and> length w \<le> 1000 \<and> p = w @ [10] @ embedding_metadata fmt c)
    \<and> hd (embedding_passages fmt c) = hd (text_pieces (cl_text c)) @ [10] @ embedding_metadata fmt c
    \<and> last (embedding_passages fmt c) = last (text_pieces (cl_text c)) @ [10] @ embedding_metadata fmt c"
proof -
  let ?ps = "text_pieces (cl_text c)" and ?m = "embedding_metadata fmt c"
  let ?sel = "if length ?ps > 12 then map (\<lambda>k. ?ps ! (k * (length ?ps - 1) div 11)) [0..<12] else ?ps"
  have ne: "?ps \<noteq> []" by (rule text_pieces_visible [OF assms])
  then have e: "embedding_passages fmt c = map (\<lambda>p. p @ [10] @ ?m) ?sel"
    unfolding embedding_passages_def Let_def text_pieces_def [symmetric]
    by (simp add: embedding_metadata_visible del: upt_rec_numeral)
  have idx: "k * (length ?ps - 1) div 11 < length ?ps" if "k < 12" for k
  proof -
    have "k * (length ?ps - 1) \<le> 11 * (length ?ps - 1)" using that by (intro mult_le_mono1) simp
    from div_le_mono [OF this, of 11] have "k * (length ?ps - 1) div 11 \<le> length ?ps - 1" by simp
    moreover have "0 < length ?ps" using ne by simp
    ultimately show ?thesis by linarith
  qed
  have sel: "?sel \<noteq> []" "length ?sel \<le> 12" "set ?sel \<subseteq> set ?ps" "hd ?sel = hd ?ps" "last ?sel = last ?ps"
    using ne idx by (auto simp: hd_map last_map hd_conv_nth last_conv_nth simp del: upt_rec_numeral)
  have "\<exists>w\<in>set ?ps. w \<noteq> [] \<and> length w \<le> 1000 \<and> p = w @ [10] @ ?m"
    if "p \<in> set (embedding_passages fmt c)" for p
  proof -
    from that e obtain w where "w \<in> set ?sel" "p = w @ [10] @ ?m" by auto
    with sel(3) text_pieces_bound show ?thesis by blast
  qed
  moreover have "1 \<le> length (embedding_passages fmt c)" "length (embedding_passages fmt c) \<le> 12"
      "hd (embedding_passages fmt c) = hd ?ps @ [10] @ ?m" "last (embedding_passages fmt c) = last ?ps @ [10] @ ?m"
    unfolding e using sel by (simp_all add: hd_map last_map Suc_le_eq del: upt_rec_numeral)
  ultimately show ?thesis by blast
qed

theorem embedding_passages_bounded_witness:
  "trim (cl_text (sample_claim 1 True)) \<noteq> [] \<and> length (embedding_passages plain_render (sample_claim 1 True)) \<le> 12"
proof -
  have "trim (cl_text (sample_claim 1 True)) \<noteq> []" by (simp add: sample_claim_def trim_Nil lit_def is_whitespace_def)
  with embedding_passages_bounded [OF this, of plain_render] show ?thesis by blast
qed

end
