(* ===== verification/Decision_Properties.thy ===== *)
theory Decision_Properties
  imports Lifecycle_Laws Value_Properties
begin

section \<open>Properties of the lifecycle decisions\<close>

text \<open>
  The contracts of the pure decisions of \<^verbatim>\<open>ledger/lifecycle.rs\<close>: owner authority and what it
  discloses, the lineage a key may have, when a conflict closes, what a dismissal judges, who
  may adjudicate, what a successor keeps, what a concession retracts, and the note bounds.
\<close>

subsection \<open>Authority\<close>

text \<open>An agent may retire a claim exactly when it authored it, the claim is operator asserted
  and current, and the revision it names is the locked one; and an agent that is not the author
  learns nothing about the claim from the refusal beyond the identifier it named.\<close>

theorem owner_transition_exact:
  assumes "lk_actor t \<noteq> Some other" and "lk_actor t' \<noteq> Some other" and "lk_id t = lk_id t'"
  shows "(check_owner_transition t agent rv = Inr () \<longleftrightarrow>
      lk_actor t = Some agent \<and> lk_origin t = OPERATOR_ASSERTED_ORIGIN \<and> is_current (lk_state t) \<and> lk_revision t = rv)
    \<and> check_owner_transition t other rv = check_owner_transition t' other rv'
    \<and> check_owner_transition t other rv \<noteq> Inr ()"
  using assms by (simp add: check_owner_transition_Inr) (simp add: check_owner_transition_def)

theorem owner_transition_exact_witness:
  "check_owner_transition (sample_locked 1 True Active) (lit ''a'') 1 = Inr ()
   \<and> check_owner_transition (sample_locked 1 True Active) (lit ''b'') 1
       = check_owner_transition (sample_locked 1 False Retracted) (lit ''b'') 9"
proof -
  let ?t = "sample_locked 1 True Active" and ?t' = "sample_locked 1 False Retracted"
  have "lk_actor ?t \<noteq> Some (lit ''b'')" "lk_actor ?t' \<noteq> Some (lit ''b'')" "lk_id ?t = lk_id ?t'"
    by (simp_all add: sample_locked_def lit_def)
  from owner_transition_exact [OF this, of "lit ''a''" 1 9] show ?thesis by (simp add: sample_locked_def)
qed

text \<open>An adjudicator is admitted exactly when every one of the at most 4096 members it
  counted is attributed to an agent and none to the adjudicator itself.\<close>

theorem adjudicator_exact:
  "check_adjudicator k n a = Inr () \<longleftrightarrow>
     0 \<le> n \<and> n \<le> 4096 \<and> members_checked a = n \<and> implicated_members a = 0 \<and> unattributed_members a = 0"
  by (rule check_adjudicator_Inr)

text \<open>A concession retracts exactly the claims it names, each a current operator-asserted
  claim of the calling agent and a member of the conflict, and leaves every other locked claim
  of the key as it was.\<close>

theorem concession_retracts_own_members:
  assumes "plan_concession k agent ids members current = Inr con"
  shows "map lk_id (con_retracted con) = ids
    \<and> set (con_retracted con) \<subseteq> {c \<in> set current. lk_actor c = Some agent
         \<and> lk_origin c = OPERATOR_ASSERTED_ORIGIN \<and> is_current (lk_state c) \<and> lk_id c \<in> fst ` set members}
    \<and> con_remaining con = filter (\<lambda>c. lk_id c \<notin> set ids) current"
  using plan_concession_Inr [OF assms] by blast

theorem concession_retracts_own_members_witness:
  "\<exists>con. plan_concession 9 (lit ''a'') [1] [(1, Active, 1)] [sample_locked 1 True Active, sample_locked 2 False Active] = Inr con
     \<and> map lk_id (con_retracted con) = [1]"
proof -
  let ?con = "\<lparr>con_retracted = [sample_locked 1 True Active], con_remaining = [sample_locked 2 False Active]\<rparr>"
  have p: "plan_concession 9 (lit ''a'') [1] [(1, Active, 1)] [sample_locked 1 True Active, sample_locked 2 False Active] = Inr ?con"
    by (simp add: plan_concession_def concede_one_def check_owner_transition_def sample_locked_def)
  show ?thesis
    by (rule exI [of _ ?con], rule conjI, rule p, rule conjunct1 [OF concession_retracts_own_members [OF p]])
qed

subsection \<open>Lineages\<close>

definition valid_lineage :: "v2_lineage \<Rightarrow> int \<times> int \<times> string \<times> int \<Rightarrow> bool" where
  "valid_lineage l r \<longleftrightarrow> 0 < lin_id l \<and> 0 < lin_revision l
     \<and> (\<exists>s. r = (lin_id l, 2, s, lin_revision l) \<and> parse_conflict_row_state s = Inr (lin_state l))"

definition valid_legacy :: "int \<times> int \<times> string \<times> int \<Rightarrow> bool" where
  "valid_legacy r \<longleftrightarrow> (\<exists>i s rv. r = (i, 1, s, rv) \<and> 0 < i \<and> 0 < rv)"

lemma classify_rows_Cons:
  "classify_rows (r # rows) v2 legacy = Inr x \<longleftrightarrow>
     (v2 = None \<and> (\<exists>l. valid_lineage l r \<and> classify_rows rows (Some l) legacy = Inr x))
     \<or> (\<not> legacy \<and> valid_legacy r \<and> classify_rows rows v2 True = Inr x)"
proof (cases r)
  case (fields i d st rv)
  have "valid_lineage l r \<longleftrightarrow> d = 2 \<and> 0 < i \<and> 0 < rv \<and> (\<exists>cs. parse_conflict_row_state st = Inr cs
      \<and> l = \<lparr>lin_id = i, lin_state = cs, lin_revision = rv\<rparr>)" for l
    by (cases l) (auto simp: valid_lineage_def fields)
  moreover have "valid_legacy r \<longleftrightarrow> d = 1 \<and> 0 < i \<and> 0 < rv" by (auto simp: valid_legacy_def fields)
  ultimately show ?thesis
    by (auto simp: fields res_simps not_le corrupt_lineage_def split: if_splits)
qed

text \<open>The writer accepts the conflict rows of a key exactly when there are none, or one
  valid v2 row beside at most one valid legacy row; the v2 row is then the lineage.\<close>

theorem lineage_classification_exact:
  "classify_lineages rows = Inr lin \<longleftrightarrow>
     (case lin of None \<Rightarrow> rows = []
      | Some l \<Rightarrow> \<exists>r. valid_lineage l r
          \<and> (rows = [r] \<or> (\<exists>g. valid_legacy g \<and> (rows = [r, g] \<or> rows = [g, r]))))"
proof -
  have e: "classify_lineages rows = Inr lin \<longleftrightarrow>
      length rows \<le> 2 \<and> (\<exists>legacy. classify_rows rows None False = Inr (lin, legacy) \<and> \<not> (legacy \<and> lin = None))"
    by (auto simp: classify_lineages_def res_simps corrupt_lineage_def split: if_splits)
  consider "rows = []" | r where "rows = [r]" | r g where "rows = [r, g]" | "length rows > 2"
    by (cases rows; cases "tl rows"; cases "tl (tl rows)") auto
  then show ?thesis
  proof cases
    case 1
    then show ?thesis unfolding e by (cases lin) auto
  next
    case (2 r)
    show ?thesis unfolding e unfolding 2 classify_rows_Cons
      by (cases lin) (auto simp del: split_paired_Ex split_paired_All)
  next
    case (3 r g)
    show ?thesis unfolding e unfolding 3 classify_rows_Cons
      by (cases lin) (auto simp del: split_paired_Ex split_paired_All)
  next
    case 4
    then show ?thesis unfolding e by (cases lin) auto
  qed
qed

subsection \<open>Re-evaluation and dismissal\<close>

definition incompatible_pair_set :: "(f64 \<Rightarrow> string) \<Rightarrow> locked_key_claim list \<Rightarrow> (int \<times> int) set" where
  "incompatible_pair_set fmt cs = {(lk_id l, lk_id r) |l r. l \<in> set cs \<and> r \<in> set cs \<and> lk_id l < lk_id r
     \<and> pair_eligible l \<and> pair_eligible r \<and> locked_incompatible fmt l r}"

lemma normalized_pairs_sorted [simp]: "sorted (normalized_pairs ps)" "distinct (normalized_pairs ps)"
  by (simp_all add: normalized_pairs_def)

lemma incompatible_pairs_agree:
  "incompatible_pairs fmt cs = normalized_pairs sql \<longleftrightarrow> set (incompatible_pairs fmt cs) = set (normalized_pairs sql)"
  by (metis incompatible_pairs_sorted normalized_pairs_sorted sorted_distinct_set_unique)

lemma filter_card:
  assumes "distinct xs"
  shows "length xs - length (filter (\<lambda>p. p \<notin> S) xs) = card (set xs \<inter> S)"
proof -
  have "length xs - length (filter (\<lambda>p. p \<notin> S) xs) = length (filter (\<lambda>p. p \<in> S) xs)"
    using sum_length_filter_compl [of "\<lambda>p. p \<in> S" xs] by simp
  also have "\<dots> = card (set (filter (\<lambda>p. p \<in> S) xs))"
    using assms by (metis distinct_card distinct_filter)
  also have "set (filter (\<lambda>p. p \<in> S) xs) = set xs \<inter> S" by auto
  finally show ?thesis .
qed

text \<open>C13: the re-evaluation of a key closes its open conflict exactly when the detector in the
  process and the one in the database agree and every incompatible pair of the remaining
  claims was dismissed; it then names every disputed claim. It reports the undismissed pairs
  otherwise, and refuses to conclude when the two detectors differ.\<close>

theorem reevaluation_exact:
  assumes "distinct (map lk_id cs)"
  shows "case plan_reevaluation fmt (Some l) cs sql ex of
      NoLineage \<Rightarrow> False
    | LineageNotOpen \<Rightarrow> lin_state l \<noteq> Open
    | Divergent i rv a b \<Rightarrow> lin_state l = Open \<and> set a = incompatible_pair_set fmt cs
        \<and> set b = set (normalized_pairs sql) \<and> set a \<noteq> set b
    | StillOpen i rv ps n \<Rightarrow> lin_state l = Open \<and> i = lin_id l \<and> rv = lin_revision l
        \<and> incompatible_pair_set fmt cs = set (normalized_pairs sql)
        \<and> set ps = incompatible_pair_set fmt cs - ex \<and> set ps \<noteq> {} \<and> n = card (incompatible_pair_set fmt cs \<inter> ex)
    | Close i rv ids n \<Rightarrow> lin_state l = Open \<and> i = lin_id l \<and> rv = lin_revision l
        \<and> incompatible_pair_set fmt cs = set (normalized_pairs sql)
        \<and> incompatible_pair_set fmt cs \<subseteq> ex \<and> n = card (incompatible_pair_set fmt cs)
        \<and> set ids = {lk_id c |c. c \<in> set cs \<and> lk_state c = Disputed}"
proof -
  let ?r = "incompatible_pairs fmt cs"
  have r: "set ?r = incompatible_pair_set fmt cs"
    unfolding incompatible_pair_set_def by (rule set_incompatible_pairs [OF assms])
  have n: "length ?r - length (filter (\<lambda>p. p \<notin> ex) ?r) = card (incompatible_pair_set fmt cs \<inter> ex)"
    using filter_card [of ?r ex] by (simp add: r)
  have s: "set (filter (\<lambda>p. p \<notin> ex) ?r) = incompatible_pair_set fmt cs - ex" by (auto simp: r [symmetric])
  have d: "set (disputed_ids cs) = {lk_id c |c. c \<in> set cs \<and> lk_state c = Disputed}"
    by (auto simp: disputed_ids_def)
  consider "lin_state l \<noteq> Open" | "lin_state l = Open" "?r \<noteq> normalized_pairs sql"
    | "lin_state l = Open" "?r = normalized_pairs sql" "filter (\<lambda>p. p \<notin> ex) ?r = []"
    | "lin_state l = Open" "?r = normalized_pairs sql" "filter (\<lambda>p. p \<notin> ex) ?r \<noteq> []" by blast
  then show ?thesis
  proof cases
    case 1
    then show ?thesis by (simp add: plan_reevaluation_def)
  next
    case 2
    then have "set ?r \<noteq> set (normalized_pairs sql)" by (simp add: incompatible_pairs_agree)
    with 2 show ?thesis by (simp add: plan_reevaluation_def r)
  next
    case 3
    then have "incompatible_pair_set fmt cs \<subseteq> ex" using s by simp
    moreover from this have "incompatible_pair_set fmt cs \<inter> ex = incompatible_pair_set fmt cs" by blast
    moreover have "incompatible_pair_set fmt cs = set (normalized_pairs sql)" using 3(2) r by simp
    ultimately show ?thesis using 3 n d by (simp add: plan_reevaluation_def Let_def)
  next
    case 4
    have "incompatible_pair_set fmt cs = set (normalized_pairs sql)" using 4(2) r by simp
    moreover have "incompatible_pair_set fmt cs - ex \<noteq> {}" using 4(3) s by (metis set_empty)
    moreover have "plan_reevaluation fmt (Some l) cs sql ex = StillOpen (lin_id l) (lin_revision l)
        (filter (\<lambda>p. p \<notin> ex) ?r) (length ?r - length (filter (\<lambda>p. p \<notin> ex) ?r))"
      using 4 by (simp only: plan_reevaluation_def Let_def option.case if_True if_False simp_thms)
    ultimately show ?thesis using 4(1) by (simp only: reevaluation.case n s simp_thms)
  qed
qed

theorem reevaluation_exact_witness:
  "\<exists>l cs. distinct (map lk_id cs) \<and> plan_reevaluation plain_render (Some l) cs [] {} = Close 5 2 [1] 0
     \<and> incompatible_pair_set plain_render cs = {}"
proof -
  let ?l = "\<lparr>lin_id = 5, lin_state = Open, lin_revision = 2\<rparr>" and ?cs = "[sample_locked 1 True Disputed]"
  have d: "distinct (map lk_id ?cs)" by simp
  have p: "plan_reevaluation plain_render (Some ?l) ?cs [] {} = Close 5 2 [1] 0"
    by (simp add: plan_reevaluation_def incompatible_pairs_def disputed_ids_def normalized_pairs_def sort_dedup_def
        sample_locked_def pair_eligible_def)
  from reevaluation_exact [OF d, where fmt = plain_render and l = ?l and sql = "[]" and ex = "{}", unfolded p]
  have "incompatible_pair_set plain_render ?cs = {}" by (simp add: normalized_pairs_def)
  with d p show ?thesis by blast
qed

text \<open>C14: a dismissal judges every pair it saw. The pairs it records are read back from the log
  exactly, and a re-evaluation of the same claims with them as exclusions closes the conflict
  and restores every disputed claim the dismissal named.\<close>

theorem dismissal_settles_its_pairs:
  assumes "plan_dismissal fmt k cs sql = Inr p" and "distinct (map lk_id cs)"
    and "\<forall>c\<in>set cs. 1 \<le> lk_id c \<and> lk_id c \<le> i64_max" and "lin_state l = Open"
  shows "dismissed_pairs [JArray (map jpair (dp_dismissed_pairs p))] = Inr (incompatible_pair_set fmt cs)
    \<and> plan_reevaluation fmt (Some l) cs sql (incompatible_pair_set fmt cs)
        = Close (lin_id l) (lin_revision l) (dp_restore_candidates p) (length (dp_dismissed_pairs p))"
proof -
  from assms(1) have p: "dp_dismissed_pairs p = incompatible_pairs fmt cs" "dp_restore_candidates p = disputed_ids cs"
      "incompatible_pairs fmt cs = normalized_pairs sql" "length (incompatible_pairs fmt cs) \<le> MAX_DISMISSED_PAIRS"
    by (auto simp: plan_dismissal_def Let_def split: if_splits)
  have r: "set (incompatible_pairs fmt cs) = incompatible_pair_set fmt cs"
    unfolding incompatible_pair_set_def by (rule set_incompatible_pairs [OF assms(2)])
  have "1 \<le> fst q \<and> fst q < snd q \<and> snd q \<le> i64_max" if "q \<in> set (incompatible_pairs fmt cs)" for q
    using that assms(3) unfolding r incompatible_pair_set_def by auto
  from dismissed_pairs_jpairs [OF p(4) this]
  have "dismissed_pairs [JArray (map jpair (dp_dismissed_pairs p))] = Inr (incompatible_pair_set fmt cs)"
    by (simp add: p(1) r)
  moreover have "filter (\<lambda>q. q \<notin> incompatible_pair_set fmt cs) (incompatible_pairs fmt cs) = []"
    unfolding r [symmetric] by (simp add: filter_empty_conv)
  ultimately show ?thesis using p assms(4) by (simp add: plan_reevaluation_def Let_def)
qed

theorem dismissal_settles_its_pairs_witness:
  "\<exists>p. plan_dismissal plain_render 9 [sample_locked 1 True Disputed, sample_locked 2 False Disputed] [(1, 2)] = Inr p
     \<and> dp_dismissed_pairs p = [(1, 2)]
     \<and> dismissed_pairs [JArray (map jpair (dp_dismissed_pairs p))]
         = Inr (incompatible_pair_set plain_render [sample_locked 1 True Disputed, sample_locked 2 False Disputed])"
proof -
  let ?cs = "[sample_locked 1 True Disputed, sample_locked 2 False Disputed]"
  let ?p = "\<lparr>dp_dismissed_pairs = [(1, 2)], dp_restore_candidates = [1, 2]\<rparr>"
  have p: "plan_dismissal plain_render 9 ?cs [(1, 2)] = Inr ?p"
    by (simp add: plan_dismissal_def incompatible_pairs_def disputed_ids_def normalized_pairs_def sort_dedup_def
        sample_locked_def pair_eligible_def locked_incompatible_def intervals_overlap_def
        functional_values_are_incompatible_def jsonb_values_equal_def)
  have a: "distinct (map lk_id ?cs)" "\<forall>c\<in>set ?cs. 1 \<le> lk_id c \<and> lk_id c \<le> i64_max"
      "lin_state \<lparr>lin_id = 9, lin_state = Open, lin_revision = 1\<rparr> = Open"
    by (simp_all add: sample_locked_def i64_max_def)
  have "dp_dismissed_pairs ?p = [(1, 2)]" by simp
  then show ?thesis
    using p conjunct1 [OF dismissal_settles_its_pairs [OF p a]] by blast
qed

subsection \<open>Successors, notes and waivers\<close>

text \<open>A successor is accepted exactly when it keeps the kind, the eligibility and the key its
  predecessor's subject and predicate normalise to. When the predecessor was recorded from an
  input, that key is the predecessor's own, so a chain of successors never leaves its key.\<close>

theorem successors_keep_the_key:
  assumes "unicode_ok u" and "prepare fmt u i = Inr p" and "\<not> has_assert_key pre"
    and "pre = \<lparr>sh_kind = ci_kind i, sh_claim_key = pc_claim_key p, sh_subject = pc_subject p,
      sh_predicate = pc_predicate p, sh_conflict_eligible = pc_conflict_eligible p\<rparr>"
  shows "check_successor u n pre suc = Inr () \<longleftrightarrow> sh_kind suc = sh_kind pre
    \<and> sh_claim_key suc = sh_claim_key pre \<and> sh_conflict_eligible suc = sh_conflict_eligible pre"
proof -
  have "successor_claim_key u pre = pc_claim_key p"
    using assms by (auto simp: successor_claim_key_def prepare_def Let_def res_simps split: option.splits)
  then show ?thesis using assms(4) by (auto simp: check_successor_def Let_def)
qed

theorem successors_keep_the_key_witness:
  "\<exists>pre suc. sh_claim_key pre = Some (lit ''s::q'') \<and> check_successor ascii_unicode 1 pre suc = Inr ()"
proof -
  let ?pre = "\<lparr>sh_kind = Decision, sh_claim_key = Some (lit ''s::q''), sh_subject = Some (lit ''s''),
    sh_predicate = Some (lit ''q''), sh_conflict_eligible = True\<rparr>"
  have a: "\<not> has_assert_key ?pre" by (simp add: has_assert_key_def starts_with_def lit_def)
  have "?pre = \<lparr>sh_kind = ci_kind sample_input, sh_claim_key = pc_claim_key sample_prepared,
      sh_subject = pc_subject sample_prepared, sh_predicate = pc_predicate sample_prepared,
      sh_conflict_eligible = pc_conflict_eligible sample_prepared\<rparr>"
    by (simp add: sample_input_def sample_prepared_def)
  from successors_keep_the_key [OF unicode_ok_ascii sample_prepare a this, of 1 ?pre]
  have "check_successor ascii_unicode 1 ?pre ?pre = Inr ()" by blast
  then show ?thesis by (intro exI [of _ ?pre]) simp
qed

text \<open>The byte bound on a rationale never decides: every note of at most a thousand
  characters is within it, so the character bound that the schema advertises is the only one.\<close>

theorem rationale_byte_bound_redundant: "validate_rationale r = validate_note r 1000"
proof -
  have "utf8_len r \<le> 4 * length r"
    by (induction r) (simp_all add: utf8_len_def utf8_char_len_def)
  then show ?thesis
    by (auto simp: validate_rationale_def validate_note_def)
qed

end
