(* ===== verification/Unserved_Replay.thy ===== *)
theory Unserved_Replay
  imports Conflict_Example
begin

section \<open>Replay for a deployment that no longer serves an action\<close>

text \<open>
  \<^verbatim>\<open>replay_unserved_lifecycle\<close> of \<^verbatim>\<open>lifecycle_store.rs\<close>: a writer whose lifecycle actions are switched off still answers a
  request that was committed before, from its receipt, by one read. It answers nothing only for a key no receipt
  holds, so its refusal is right when it says that the key was not consumed.
\<close>

datatype lifecycle_replay_request =
    ReplayRetract claim_target "ustr option"
  | ReplaySupersede claim_target "ustr option" claim_input
  | ReplayAcknowledge conflict_target "ustr option"
  | ReplayResolve conflict_target "int list" "ustr option"
  | ReplayDismiss conflict_target dismissal_terms
  | ReplayWaive conflict_target waiver_terms

definition replay_unserved_lifecycle :: "env \<Rightarrow> ledger_config \<Rightarrow> fleet_scope \<Rightarrow> ustr
    \<Rightarrow> lifecycle_replay_request option \<Rightarrow> ledger \<Rightarrow> lifecycle_mutation option res" where
  "replay_unserved_lifecycle en lc sc idempotency_key request s =
     try_then (ensure_scope lc sc) (\<lambda>_.
       case validated_idempotency_key idempotency_key of
         Inl _ \<Rightarrow> Inr None
       | Inr key \<Rightarrow> (case select_receipt key s of
           None \<Rightarrow> Inr None
         | Some row \<Rightarrow> (case request of
             None \<Rightarrow> Inl (IdempotencyConflict ''idempotency key was already used for a different mutation'')
           | Some request \<Rightarrow>
               (let claim = (\<lambda>operation identity. decode_receipt_values is_claim_response row sc operation identity);
                  conflict = (\<lambda>operation identity. decode_receipt_values is_conflict_response row sc operation identity)
                in try_then (case request of
                       ReplayRetract target reason \<Rightarrow> claim RETRACT_OPERATION (retract_request sc target reason)
                     | ReplaySupersede target reason successor \<Rightarrow> claim SUPERSEDE_OPERATION (supersede_request en sc target reason successor)
                     | ReplayAcknowledge target reason \<Rightarrow> conflict ACKNOWLEDGE_OPERATION (acknowledge_request sc target reason)
                     | ReplayResolve target ids reason \<Rightarrow> conflict RESOLVE_OPERATION (resolve_request sc target ids reason)
                     | ReplayDismiss target terms \<Rightarrow> conflict DISMISS_OPERATION (dismiss_request sc target terms)
                     | ReplayWaive target terms \<Rightarrow> conflict WAIVE_OPERATION (waive_request sc target terms))
                   (\<lambda>m. Inr (Some m))))))"

text \<open>The call of the ledger that a replay request repeats.\<close>

fun replayed_call :: "lifecycle_replay_request \<Rightarrow> call" where
  "replayed_call (ReplayRetract target reason) = RetractCall target reason"
| "replayed_call (ReplaySupersede target reason successor) = SupersedeCall target reason successor"
| "replayed_call (ReplayAcknowledge target reason) = AcknowledgeCall target reason"
| "replayed_call (ReplayResolve target ids reason) = ResolveCall target ids reason"
| "replayed_call (ReplayDismiss target terms) = DismissCall target terms"
| "replayed_call (ReplayWaive target terms) = WaiveCall target terms"

lemma resolve_request_normal: "resolve_request sc target (sort_dedup ids) reason = resolve_request sc target ids reason"
  by (simp add: resolve_request_def)

lemma replay_unserved_decodes:
  assumes "ensure_scope lc sc = Inr ()" and "validated_idempotency_key ikey = Inr key" and "select_receipt key s = Some row"
  shows "replay_unserved_lifecycle en lc sc ikey (Some request) s =
    (let c = replayed_call request in
     try_then (decode_receipt_values (call_response c) row sc (call_operation c) (call_request en sc c)) (\<lambda>m. Inr (Some m)))"
  using assms by (cases request) (simp_all add: replay_unserved_lifecycle_def call_defs resolve_request_normal res_simps)

lemma call_scope_key:
  assumes "run_call en lc ti encode sc (replayed_call request) ikey s = Inr (m, t)"
  shows "ensure_scope lc sc = Inr () \<and> validated_idempotency_key ikey = Inr (trim ikey)"
  using assms
  by (cases request)
     (auto simp: run_call_def retract_claim_def supersede_claim_def acknowledge_conflict_def resolve_conflict_def
      dismiss_conflict_def waive_conflict_def validate_adjudication_def validated_key_Inr
      tx_simps res_simps split: if_splits sum.splits)

lemma replay_unserved_None:
  "replay_unserved_lifecycle en lc sc ikey request s = Inr None \<longleftrightarrow>
     ensure_scope lc sc = Inr () \<and> (\<forall>key. validated_idempotency_key ikey = Inr key \<longrightarrow> select_receipt key s = None)"
proof (cases "ensure_scope lc sc")
  case (Inr u)
  show ?thesis
  proof (cases "validated_idempotency_key ikey")
    case (Inr key)
    then show ?thesis using \<open>ensure_scope lc sc = Inr u\<close>
      by (cases "select_receipt key s"; cases request)
         (auto simp: replay_unserved_decodes Let_def res_simps, auto simp: replay_unserved_lifecycle_def res_simps)
  qed (use Inr in \<open>simp add: replay_unserved_lifecycle_def res_simps\<close>)
qed (simp add: replay_unserved_lifecycle_def res_simps)

text \<open>C5: a deployment that does not serve an action answers a committed request of that action as the serving one would, with
  the first response marked as a replay, after any further steps of the ledger; arguments that name no lifecycle request
  are an idempotency conflict under that key, and no use of the key is answered as unconsumed. In every ledger the
  answer is empty exactly when no receipt holds the key.\<close>

theorem unserved_action_still_replays:
  assumes "run_call en lc ti encode sc (replayed_call request) ikey s = Inr (m, t)" and "receipts_ok s"
    and "wf_call (replayed_call request)" and "ledger_run en t u" and "ensure_scope lc' sc = Inr ()"
  shows "replay_unserved_lifecycle en lc' sc ikey (Some request) u = Inr (Some (mark_replayed m))
    \<and> replay_unserved_lifecycle en lc' sc ikey None u
        = Inl (IdempotencyConflict ''idempotency key was already used for a different mutation'')
    \<and> (\<forall>other. replay_unserved_lifecycle en lc' sc ikey other u \<noteq> Inr None)
    \<and> (\<forall>v other. replay_unserved_lifecycle en lc' sc ikey other v = Inr None \<longleftrightarrow> select_receipt (trim ikey) v = None)"
proof -
  let ?c = "replayed_call request"
  from answered_decode [OF committed_answered [OF assms(1-4)]]
  obtain row where row: "select_receipt (trim ikey) u = Some row"
    and d: "decode_receipt_values (call_response ?c) row sc (call_operation ?c) (call_request en sc ?c) = Inr (mark_replayed m)"
    by blast
  have k: "validated_idempotency_key ikey = Inr (trim ikey)" using call_scope_key [OF assms(1)] ..
  have "replay_unserved_lifecycle en lc' sc ikey (Some request) u = Inr (Some (mark_replayed m))"
    using d by (simp add: replay_unserved_decodes [OF assms(5) k row] res_simps)
  moreover have "replay_unserved_lifecycle en lc' sc ikey None u
        = Inl (IdempotencyConflict ''idempotency key was already used for a different mutation'')"
    using assms(5) k row by (simp add: replay_unserved_lifecycle_def res_simps)
  ultimately show ?thesis using row by (simp add: replay_unserved_None assms(5) k)
qed

theorem unserved_action_still_replays_witness:
  "replay_unserved_lifecycle demo_env ((demo_config ''c'')\<lparr>lc_conflict_lifecycle := False, lc_conflict_adjudication := False\<rparr>)
     (demo_scope ''c'') (lit ''k3'') (Some (ReplayWaive demo_target demo_waiver)) demo3
   = Inr (Some (mark_replayed (ConflictResponse demo_waive_reply)))"
proof -
  let ?lc = "(demo_config ''c'')\<lparr>lc_conflict_lifecycle := False, lc_conflict_adjudication := False\<rparr>"
  have "receipts_ok demo2"
    by (simp add: receipts_ok_def demo2_def demo1_def Let_def demo_receipt_def empty_ledger_def lit_def)
  moreover have "wf_call (replayed_call (ReplayWaive demo_target demo_waiver))"
    by (simp add: wf_call_def call_inputs_def)
  moreover have "ledger_run demo_env demo3 demo3" by (rule ledger_run.intros)
  moreover have "ensure_scope ?lc (demo_scope ''c'') = Inr ()"
    by (simp add: ensure_scope_def validate_scope_def validate_component_def demo_scope_def demo_config_def trim_def lit_def
        is_whitespace_def is_control_def utf8_len_def utf8_char_len_def res_simps ensure_def)
  moreover have "run_call demo_env (demo_config ''c'') (demo_tx 3) (\<lambda>_. Inr []) (demo_scope ''c'')
      (replayed_call (ReplayWaive demo_target demo_waiver)) (lit ''k3'') demo2 = Inr (ConflictResponse demo_waive_reply, demo3)"
    using demo_waive by (simp add: demo_call_def run_call_def)
  ultimately show ?thesis using unserved_action_still_replays by blast
qed

end
