(* ===== verification/Spec2Isabelle.thy ===== *)
theory Spec2Isabelle
  imports Base64 Evidence_Properties Coverage_Properties Discrepancy_Properties Canonical_Properties Conflict_Properties Decision_Properties
    Unserved_Replay
begin

text \<open>
  \<^bold>\<open>A verification of the claim ledger and the memory contracts of ostk-fleet-recall.\<close> The ledger is
  the part of the fleet memory service in which agents of one project record claims, contradict
  each other and settle the contradiction. Its code is \<^verbatim>\<open>src/src/ledger/\<close>; this development models
  its data, its pure decisions, its seven mutations as database transactions, and the reads of its
  lifecycle log. The memory contracts, \<^verbatim>\<open>src/src/memory_contracts/\<close>, are the byte-exact documents the
  services exchange; this development models their canonical bytes, their digests, the registry
  package, the resource identities and the discrepancies with their replay.

  \<^bold>\<open>The contracts.\<close> A contract is a JSON document in one canonical byte form: sorted keys, no
  spaces, integers of the safe range, texts in normal form, bounded depth and size. A digest is
  SHA-256 over a domain label and the canonical bytes, so equal digests mean equal contracts of the
  same kind. A registry package is a manifest of exact tuples with the entry of each tuple.
  A resource locator names a resource through registered schemes, and its URI is a digest of the
  locator. A discrepancy envelope names an anchor, an episode and its fingerprint; its events and
  causal relations are authorised one by one and replayed into a projection that says how the
  discrepancy stands. Coverage receipts say how thoroughly a source was read: the coverage runtime
  merges the intervals connectors deliver into one cursor per domain and mints a receipt whenever
  a delivery extends it, and only a complete, current and contiguous receipt supports an absence.
  An evidence answer says present, absent or unknown: absent only when no hit votes and every source
  in question was read completely.

  \<^bold>\<open>The ledger.\<close> A claim has a kind, a text and optionally a subject, a predicate and a JSON value.
  Subject and predicate are normalised into a claim key. Two current claims of one key with
  incompatible values and overlapping validity are a \<^emph>\<open>conflict\<close>: \<^verbatim>\<open>record\<close> detects it, joins the
  rivals into the key's one conflict of detector v2 and marks them disputed. An author may \<^verbatim>\<open>retract\<close>
  or \<^verbatim>\<open>supersede\<close> its own claims; a member of a conflict may \<^verbatim>\<open>acknowledge\<close> it or \<^verbatim>\<open>resolve\<close> it by
  conceding its own claims; an adjudicator who authored no member may \<^verbatim>\<open>dismiss\<close> or \<^verbatim>\<open>waive\<close> it. After
  each retirement the key is re-evaluated, and a conflict no pair supports any longer is closed
  and its members restored. Every mutation is idempotent under a caller's key, through a receipt.

  \<^bold>\<open>Theories and the code they model.\<close>
  \<^item> \<open>Prelude\<close>: results and the operator \<^verbatim>\<open>?\<close>, Rust strings as lists of scalar values, trimming, case
    folding over a Unicode table, sorted and deduplicated vectors, the shared simplification rules.
  \<^item> \<open>Json\<close>, \<open>Json_Laws\<close>: \<^verbatim>\<open>serde_json::Value\<close> with 64-bit numbers, \<^verbatim>\<open>canonical_json\<close>,
    \<^verbatim>\<open>normalized_json_number\<close> and \<^verbatim>\<open>jsonb_values_equal\<close> of \<^verbatim>\<open>ledger/conflict.rs\<close>; the locale
    \<open>number_equivalence\<close> lifts an equivalence of numbers to values.
  \<^item> \<open>Ledger_Types\<close>, \<open>Claim_Key\<close>, \<open>Conflict_Detector\<close>: the vocabulary of \<^verbatim>\<open>types.rs\<close>, \<^verbatim>\<open>context.rs\<close> and
    \<^verbatim>\<open>error.rs\<close>; \<^verbatim>\<open>normalize_key_part\<close> and \<^verbatim>\<open>claim_key_from_parts\<close>; interval overlap, incompatibility and
    \<^verbatim>\<open>incompatible_pairs\<close>.
  \<^item> \<open>Lifecycle_Plan\<close>, \<open>Lifecycle_Laws\<close>: the decisions of \<^verbatim>\<open>ledger/lifecycle.rs\<close> on locked rows.
  \<^item> \<open>Claim_Input\<close>: validation, preparation and embedding passages of a claim input (\<^verbatim>\<open>types.rs\<close>).
  \<^item> \<open>Ledger_State\<close>, \<open>Ledger_Store\<close>, \<open>Claim_Conflicts\<close>: the tables of one tenant and project as a record of
    lists, transactions as a state and error monad, receipts, audit rows, the locked reads of a key
    and \<^verbatim>\<open>fetch_claim\<close> (\<^verbatim>\<open>cockroach.rs\<close>, \<^verbatim>\<open>cockroach/lifecycle_store.rs\<close>). A table row is a record; a SQL
    statement is the function of the tables it computes, its CHECK constraints and unique indexes
    included as failures of the insertion.
  \<^item> \<open>Ledger_Write\<close>, \<open>Ledger_Close\<close>: insertion, detection and joining (\<^verbatim>\<open>cockroach.rs\<close>); owner
    transition, log, verified close and re-evaluation (\<^verbatim>\<open>lifecycle_store.rs\<close>, \<^verbatim>\<open>conflict_store.rs\<close>).
  \<^item> \<open>Claim_Lifecycle\<close>, \<open>Conflict_Lifecycle\<close>: the seven mutations, outer checks and transaction bodies.
  \<^item> \<open>Unserved_Replay\<close>: \<^verbatim>\<open>replay_unserved_lifecycle\<close>, the answer of a deployment that no longer serves an action.
  \<^item> \<open>Conflict_Overlay\<close>: what a reader sees of the log, \<^verbatim>\<open>derive_overlay\<close>, \<^verbatim>\<open>overlay_events\<close>, the bounded
    reads, \<^verbatim>\<open>unlogged_transitions\<close> and \<^verbatim>\<open>history_within_bytes\<close>.
  \<^item> \<open>Canonical_Bytes\<close>: the canonical byte form of contracts, \<^verbatim>\<open>memory_contracts/canonical.rs\<close>: validation, the
    emitter, the strict visitor, the number lexeme scanner and typed decoding.
  \<^item> \<open>Contract_Digest\<close>, \<open>Digest_Laws\<close>: digests, domains, framed and body preimages of \<^verbatim>\<open>digest.rs\<close>; the
    enumeration of domains is split by the sections of the source into four datatypes.
  \<^item> \<open>Contract_Common\<close>: identifiers, texts, scopes and exact tuples of \<^verbatim>\<open>common.rs\<close>, and the record
    \<open>contract_env\<close> of outside code.
  \<^item> \<open>Registry_Package\<close>: manifest, entries, verification and resolution of \<^verbatim>\<open>registry.rs\<close>.
  \<^item> \<open>Resource_Identity\<close>, \<open>Identity_Laws\<close>: canonicalisation, locators, URIs and their derivation in \<^verbatim>\<open>identity.rs\<close>.
  \<^item> \<open>Discrepancy\<close>, \<open>Discrepancy_Replay\<close>, \<open>Discrepancy_Laws\<close>: envelope, fingerprints, events, relations,
    authorisation and replay of \<^verbatim>\<open>discrepancy.rs\<close>.
  \<^item> \<open>Coverage_Contract\<close>: coverage receipts and proofs of \<^verbatim>\<open>memory_contracts/coverage.rs\<close>, and the one decision
    whether a receipt supports a negative finding.
  \<^item> \<open>Observed_Range\<close>: the union of observed intervals of \<^verbatim>\<open>coverage_runtime/observed_range.rs\<close> and its meaning
    as a set of sequences; the locale \<open>growing_set\<close> gives the independence of the order of insertions.
  \<^item> \<open>Coverage_Runtime\<close>, \<open>Coverage_Laws\<close>: cursors and receipts as tables, the observe transaction and the reads of
    \<^verbatim>\<open>coverage_runtime/cockroach.rs\<close>; runs of accepted observations and the invariant of the tables.
  \<^item> \<open>Evidence_Recall\<close>: the votes of hits and the absence verdict of \<^verbatim>\<open>evidence_recall/verdict.rs\<close>, and the collapse
    of duplicate versions of \<^verbatim>\<open>collapse.rs\<close>. A similarity is NaN, an infinity or a rational.
  \<^item> \<open>Base64\<close>: the strict base64 of \<^verbatim>\<open>encoding/base64.rs\<close>; the loop that pads URL-safe text is a partial function
    that is shown to return.

  \<^bold>\<open>How the lemmas are organised.\<close> \<open>Ledger_Relations\<close> has the locale \<open>ledger_relation\<close>: a preorder that
  every primitive write respects is respected by every mutation. \<open>Ledger_Frames\<close> and \<open>Ledger_Log\<close>
  interpret it on the evolution of claims, of conflicts, of the audit tables, of receipts and on
  the numbering of the lifecycle log. \<open>Ledger_Invariant\<close> states the ledger invariant: well-formed
  tables, every disputed claim held by an open conflict, every incompatible pair of current claims
  disputed or judged by a logged dismissal. \<open>Ledger_Reads\<close>, \<open>Ledger_Safety\<close> and \<open>Ledger_Mutations\<close> show as
  triples that every mutation keeps it. \<open>Ledger_Receipts\<close> shows how a mutation answers its key, and
  \<open>Ledger_Steps\<close> turns mutations into a step relation with reachable ledgers and runs. \<open>Overlay_Laws\<close>
  and \<open>Conflict_Outcomes\<close> carry the proofs about the reads and about adjudication. \<open>Canonical_Laws\<close> shows that the
  emitter computes a reference rendering that is uniquely decodable, and \<open>Canonical_Reader\<close> what the
  validator, the visitor and the scanner accept. \<open>Ledger_Example\<close> and
  \<open>Conflict_Example\<close> evaluate a concrete history of two records and a waiver, and \<open>Crowded_Example\<close> continues it
  with an acknowledgement and any number of waivers; the theorems are instantiated there. The properties are in this theory and in \<open>Value_Properties\<close>,
  \<open>Decision_Properties\<close>, \<open>Conflict_Properties\<close>, \<open>Canonical_Properties\<close>, \<open>Contract_Properties\<close>,
  \<open>Discrepancy_Properties\<close>, \<open>Coverage_Properties\<close>, \<open>Evidence_Properties\<close>, \<open>Unserved_Replay\<close> and \<open>Base64\<close>.

  \<^bold>\<open>Conventions and bounds.\<close> Row identifiers, revisions and times are \<open>int\<close>; the range of \<^verbatim>\<open>i64\<close> and the
  safe-integer range are checked where the code checks them. A \<^verbatim>\<open>BTreeSet\<close> is a set. Error texts are
  HOL strings, and templates where the code interpolates; a refusal keeps its code and its JSON
  details. Every bound is the constant of the code (4096 members and events, 1024 pairs of a
  dismissal, 64 excluded dismissals, 32 overlay events, 256 history events, 2160 hours). No
  definition needs fuel: every loop is structural or terminates by a measure, but for the padding loop
  of \<open>Base64\<close>, whose value is \<open>None\<close> when it does not end. Outside code is a
  parameter of type \<open>env\<close>: the shortest decimal rendering of an \<^verbatim>\<open>f64\<close>, the Unicode case tables, JSONB
  equality, the digests, the rendering of times and the size of a payload. Theorems that need it
  assume that JSONB equality is symmetric (\<open>sql_symmetric\<close>) or that the renderer prints decimals
  (\<open>renders_decimals\<close>), and their witnesses give an instance. The clock, the sequences and the
  embedding result are arguments of a call. Transactions are atomic: the service runs them under
  serializable isolation and retries, so a committed body acts alone; branches that only another
  concurrent writer could reach are not modelled. The requests and responses stored in receipts
  are the values that were written: that a JSONB column gives back what was stored, and that a response
  is read back from its JSON, is taken for granted.
  For the contracts the outside code is SHA-256, the reading of RFC 3339 times, the normal form of
  Unicode text, the JSON reader and the derived codecs of the schemas. Theorems on typed documents
  assume that a codec reads back what it wrote (\<open>schema_round_trip\<close>), theorems on identities that the
  digest has no collision (\<open>inj\<close> of the digest function, the standing assumption of content
  addressing), with an injective instance as witness. A binary search of a vector that was checked
  to be strictly sorted is membership.

  \<^bold>\<open>Not modelled.\<close> Search and listing reads, whose results are
  rankings of the database; \<^verbatim>\<open>assert\<close> and cited collected items, which read the evidence ledger (the
  ledger is modelled as one without the item links capability, where the code refuses them); the
  operator's reconciliation of legacy rows; the vector store, the evidence ledger and the
  reads that gather the hits, sources and readiness of an evidence answer, registry activation, projectors, workers, collectors and connectors, which are SQL jobs and clients of third-party
  services; configuration, MCP transport and the command line. Of the memory contracts, the ones
  that build on the modelled core: evidence, retrieval, genesis and activation.
\<close>

section \<open>The ledger across its mutations\<close>

text \<open>C1: every ledger reachable from an empty one satisfies the ledger invariant.\<close>

theorem reachable_ledger_ok:
  assumes "sql_symmetric en" and "reachable en s"
  shows "ledger_ok en s"
  using assms run_ok ledger_ok_empty unfolding reachable_def by blast

theorem reachable_ledger_ok_witness:
  "sql_symmetric demo_env \<and> reachable demo_env demo2 \<and> ledger_ok demo_env demo2"
  using reachable_ledger_ok [OF demo_symmetric demo_reachable(2)] demo_symmetric demo_reachable(2) by blast

text \<open>C2: across any run a conflict row keeps its identity, key, detector and detection time, its revision never
  decreases and increases whenever its state changes, so a revision a caller has read names one state of the
  conflict for good; and a row of another detector than v2 is never touched.\<close>

theorem conflicts_move_forward:
  assumes "ledger_run en s t" and "f \<in> set (l_conflicts s)"
  shows "\<exists>f'\<in>set (l_conflicts t). cf_id f' = cf_id f \<and> cf_claim_key f' = cf_claim_key f \<and> cf_detector f' = cf_detector f
    \<and> cf_detected_at f' = cf_detected_at f \<and> cf_revision f \<le> cf_revision f'
    \<and> (cf_state f' \<noteq> cf_state f \<longrightarrow> cf_revision f < cf_revision f')
    \<and> (cf_detector f \<noteq> FUNCTIONAL_VALUE_CONFLICT_DETECTOR_V2 \<longrightarrow> f' = f)"
  using run_conflicts [OF assms(1)] assms(2) unfolding conflicts_evolve_def conflict_step_def by blast

theorem conflicts_move_forward_witness:
  "\<exists>f'\<in>set (l_conflicts demo3). cf_id f' = 102 \<and> cf_revision (new_conflict (demo_tx 2) demo_key) \<le> cf_revision f'"
proof -
  have "new_conflict (demo_tx 2) demo_key \<in> set (l_conflicts demo2)" by (simp add: demo2_def Let_def)
  from conflicts_move_forward [OF demo3_reachable(1) this] show ?thesis by (auto simp: new_conflict_def demo_tx_def)
qed

text \<open>C3: a repeated call is answered from its receipt. After a committed call, and after any
  further steps of the ledger, the same call by the same scope under the same key returns
  the first response marked as a replay and changes nothing, whatever the clock, the
  sequences and the embedding would now give.\<close>

theorem repeated_call_replays:
  assumes "run_call en lc ti encode sc c ikey s = Inr (m, t)" and "receipts_ok s" and "wf_call c"
    and "ledger_run en t u"
  shows "run_call en lc ti' encode' sc c ikey u = Inr (mark_replayed m, u)"
  by (rule call_replays [OF assms(1) committed_answered [OF assms]])

theorem repeated_call_replays_witness:
  "demo_call ''a'' 1 (RecordCall (demo_input True)) ''k1'' demo2
     = Inr (mark_replayed (ClaimResponse (demo_reply (demo_claim ''a'' 1 True Active 1 1) [])), demo2)"
proof -
  have "receipts_ok demo0" "wf_call (RecordCall (demo_input True))"
    by (simp_all add: receipts_ok_def empty_ledger_def wf_call_def call_inputs_def)
  from repeated_call_replays [OF demo_step1 [unfolded demo_call_def] this demo_runs(2)]
  show ?thesis unfolding demo_call_def .
qed

text \<open>C4: what a step by one agent does to a claim: its content stays, its revision never
  decreases and increases with its state, a retired claim stays as it is, and a current
  claim is retired only by its own author and only if it is operator asserted.\<close>

theorem only_the_author_retires:
  assumes "ledger_step en agent s t" and "c \<in> set (l_claims s)"
  shows "\<exists>c'\<in>set (l_claims t). claim_step agent c c'"
  using step_claims [OF assms(1)] assms(2) unfolding claims_evolve_def by blast

theorem only_the_author_retires_witness:
  "\<exists>c'\<in>set (l_claims demo2). claim_step (lit ''b'') (demo_claim ''a'' 1 True Active 1 1) c'"
proof -
  have "demo_claim ''a'' 1 True Active 1 1 \<in> set (l_claims demo1)" by (simp add: demo1_def Let_def)
  from only_the_author_retires [OF demo_ledger_steps(2) this] show ?thesis .
qed

text \<open>Across any run, by any agents, a claim keeps its content, its revision never
  decreases, and once it is retired it keeps its state and revision for good.\<close>

theorem claims_are_immutable:
  assumes "ledger_run en s t" and "c \<in> set (l_claims s)"
  shows "\<exists>c'\<in>set (l_claims t). claim_history c c'"
  using run_claims [OF assms(1)] assms(2) by blast

theorem claims_are_immutable_witness:
  "\<exists>c'\<in>set (l_claims demo2). claim_history (demo_claim ''a'' 1 True Active 1 1) c'"
proof -
  have "demo_claim ''a'' 1 True Active 1 1 \<in> set (l_claims demo1)" by (simp add: demo1_def Let_def)
  from claims_are_immutable [OF demo_runs(2) this] show ?thesis .
qed

text \<open>C6: the claim events, the memory events, the lifecycle log, the conflict memberships, the
  support rows and the embeddings only ever grow, by appending, and the active embedding
  model is never changed by a mutation.\<close>

theorem audit_tables_append_only:
  assumes "ledger_run en s t"
  shows "audit_grows s t"
  using assms by (rule run_audit)

theorem audit_tables_append_only_witness: "audit_grows demo0 demo2"
  by (rule audit_tables_append_only [OF demo_runs(3)])

text \<open>A receipt is never removed or altered by the calls of any run that follows it.\<close>

theorem receipts_are_permanent:
  assumes "ledger_run en s t" and "r \<in> set (l_receipts s)"
  shows "r \<in> set (l_receipts t)"
  using assms by (rule run_keeps_receipt)

theorem receipts_are_permanent_witness:
  "demo_receipt ''a'' ''k1'' True (demo_reply (demo_claim ''a'' 1 True Active 1 1) []) \<in> set (l_receipts demo2)"
proof -
  have "demo_receipt ''a'' ''k1'' True (demo_reply (demo_claim ''a'' 1 True Active 1 1) []) \<in> set (l_receipts demo1)"
    by (simp add: demo1_def Let_def)
  from receipts_are_permanent [OF demo_runs(2) this] show ?thesis .
qed

end
